(* ===== verification/Prelude.thy ===== *)
theory Prelude
  imports Main
begin

text \<open>
  Shared vocabulary of the development: the shape of a request handler, tables as lists of rows,
  the interfaces (locales) that several components share, and the collections of rewrite rules.

  A handler of the service layer takes the state and returns an outcome: the answer or the
  exception it throws, together with the state it leaves behind. A failed request may leave
  changes behind (a counter of failed logins), so the state is part of both results.
\<close>

named_theorems table_simps
named_theorems frame_simps

type_synonym ('e, 'a, 's) outcome = "('e + 'a) \<times> 's"

section \<open>Outcomes and transactions\<close>

definition is_ok :: "('e, 'a, 's) outcome \<Rightarrow> bool" where
  "is_ok out = (case fst out of Inl _ \<Rightarrow> False | Inr _ \<Rightarrow> True)"

text \<open>
  A database transaction: when the body throws, every change the body made is rolled back.
\<close>

definition transaction :: "('s \<Rightarrow> ('e, 'a, 's) outcome) \<Rightarrow> 's \<Rightarrow> ('e, 'a, 's) outcome" where
  "transaction body s = (case body s of (Inl e, _) \<Rightarrow> (Inl e, s) | (Inr a, s') \<Rightarrow> (Inr a, s'))"

lemma transaction_error_frame: "transaction body s = (Inl e, s') \<Longrightarrow> s' = s"
  by (auto simp: transaction_def split: prod.splits sum.splits)

lemma transaction_ok: "transaction body s = (Inr a, s') \<longleftrightarrow> body s = (Inr a, s')"
  by (auto simp: transaction_def split: prod.splits sum.splits)

section \<open>Computations that may throw\<close>

text \<open>The sequence of two computations without state: the second runs on the result of the first.\<close>

definition and_then :: "'e + 'a \<Rightarrow> ('a \<Rightarrow> 'e + 'b) \<Rightarrow> 'e + 'b" where
  "and_then x f = (case x of Inl e \<Rightarrow> Inl e | Inr a \<Rightarrow> f a)"

lemma and_then_simps [simp]: "and_then (Inl e) f = Inl e" "and_then (Inr a) f = f a"
  by (simp_all add: and_then_def)

lemma and_then_Inr: "and_then x f = Inr b \<longleftrightarrow> (\<exists>a. x = Inr a \<and> f a = Inr b)"
  by (cases x) simp_all

text \<open>The outcome without its answer.\<close>

definition drop_answer :: "('e, 'a, 's) outcome \<Rightarrow> ('e, unit, 's) outcome" where
  "drop_answer out = (map_sum id (\<lambda>_. ()) (fst out), snd out)"

lemma snd_drop_answer [simp]: "snd (drop_answer out) = snd out"
  by (simp add: drop_answer_def)

section \<open>Tables\<close>

text \<open>A table is the list of its rows in the order they were created.\<close>

definition find_row :: "('r \<Rightarrow> 'k) \<Rightarrow> 'k \<Rightarrow> 'r list \<Rightarrow> 'r option" where
  "find_row key k rows = List.find (\<lambda>r. key r = k) rows"

definition update_row :: "('r \<Rightarrow> 'k) \<Rightarrow> 'k \<Rightarrow> ('r \<Rightarrow> 'r) \<Rightarrow> 'r list \<Rightarrow> 'r list" where
  "update_row key k f rows = map (\<lambda>r. if key r = k then f r else r) rows"

definition insert_row :: "'r \<Rightarrow> 'r list \<Rightarrow> 'r list" where
  "insert_row r rows = rows @ [r]"

definition update_where :: "('r \<Rightarrow> bool) \<Rightarrow> ('r \<Rightarrow> 'r) \<Rightarrow> 'r list \<Rightarrow> 'r list" where
  "update_where p f rows = map (\<lambda>r. if p r then f r else r) rows"

definition count_where :: "('r \<Rightarrow> bool) \<Rightarrow> 'r list \<Rightarrow> nat" where
  "count_where p rows = length (filter p rows)"

lemma find_row_Nil [simp, table_simps]: "find_row key k [] = None"
  by (simp add: find_row_def)

lemma find_row_Cons [simp, table_simps]:
  "find_row key k (r # rows) = (if key r = k then Some r else find_row key k rows)"
  by (simp add: find_row_def)

lemma find_row_SomeD: "find_row key k rows = Some r \<Longrightarrow> r \<in> set rows \<and> key r = k"
  by (induction rows) (auto split: if_splits)

lemma find_row_None_iff: "find_row key k rows = None \<longleftrightarrow> k \<notin> key ` set rows"
  by (induction rows) auto

lemma find_row_distinct:
  "distinct (map key rows) \<Longrightarrow> r \<in> set rows \<Longrightarrow> find_row key (key r) rows = Some r"
  by (induction rows) (auto simp: image_iff)

lemma find_row_update_row:
  assumes "\<And>r. key (f r) = key r"
  shows "find_row key k (update_row key k' f rows) =
           (if k = k' then map_option f (find_row key k rows) else find_row key k rows)"
  using assms by (induction rows) (auto simp: update_row_def)

lemma find_row_insert_row:
  "find_row key k (insert_row r rows) =
     (case find_row key k rows of Some x \<Rightarrow> Some x | None \<Rightarrow> if key r = k then Some r else None)"
  by (induction rows) (auto simp: insert_row_def)

lemma keys_update_row [simp]:
  assumes "\<And>r. key (f r) = key r"
  shows "map key (update_row key k f rows) = map key rows"
  using assms by (auto simp: update_row_def)

lemma keys_insert_row [simp]: "map key (insert_row r rows) = map key rows @ [key r]"
  by (simp add: insert_row_def)

lemma map_update_row_frame:
  assumes "\<And>r. g (f r) = g r"
  shows "map g (update_row key k f rows) = map g rows"
  using assms by (auto simp: update_row_def)

lemma set_insert_row [simp]: "set (insert_row r rows) = insert r (set rows)"
  by (auto simp: insert_row_def)

lemma update_row_cases:
  assumes "x \<in> set (update_row key k f rows)"
  obtains "x \<in> set rows" "key x \<noteq> k" | y where "y \<in> set rows" "key y = k" "x = f y"
  using assms by (auto simp: update_row_def split: if_splits)

lemma update_row_absent: "k \<notin> key ` set rows \<Longrightarrow> update_row key k f rows = rows"
  by (induction rows) (auto simp: update_row_def)

lemma update_row_found:
  assumes "distinct (map key rows)" and "find_row key k rows = Some x" and "y \<in> set (update_row key k f rows)"
  shows "y \<in> set rows \<or> y = f x"
  using assms(3)
proof (rule update_row_cases)
  fix z assume z: "z \<in> set rows" "key z = k" "y = f z"
  then have "find_row key k rows = Some z" using find_row_distinct[OF assms(1), of z] by simp
  with assms(2) z show ?thesis by simp
qed simp

text \<open>A column that is unique stays so when the new value of a row is not that of another.\<close>

lemma distinct_update_row:
  assumes "distinct (map key rows)" and "distinct (map g rows)" and "find_row key k rows = Some i"
    and "g (f i) = g i \<or> (\<forall>r \<in> set rows. key r \<noteq> k \<longrightarrow> g r \<noteq> g (f i))"
  shows "distinct (map g (update_row key k f rows))"
  using assms
proof (induction rows)
  case (Cons r rows)
  show ?case
  proof (cases "key r = k")
    case True
    then have "update_row key k f rows = rows" using Cons.prems(1) by (intro update_row_absent) auto
    moreover have "r = i" using Cons.prems(3) True by simp
    moreover have "key r \<notin> key ` set rows" using Cons.prems(1) by simp
    then have "\<forall>x \<in> set rows. key x \<noteq> k" using True by (metis imageI)
    ultimately show ?thesis using Cons.prems(2,4) True by (auto simp: update_row_def)
  next
    case False
    then have f: "find_row key k rows = Some i" using Cons.prems(3) by simp
    have IH: "distinct (map g (update_row key k f rows))"
      using Cons.prems f by (intro Cons.IH) auto
    have "g i \<in> g ` set rows" using find_row_SomeD[OF f] by blast
    then have "g r \<noteq> g (f i)" using Cons.prems(2,4) False by auto
    moreover have "x \<in> set rows \<or> x = f i" if "x \<in> set (update_row key k f rows)" for x
      using update_row_found[OF _ f that] Cons.prems(1) by simp
    ultimately have "g r \<notin> g ` set (update_row key k f rows)" using Cons.prems(2) by auto
    moreover have "update_row key k f (r # rows) = r # update_row key k f rows"
      using False by (simp add: update_row_def)
    ultimately show ?thesis using IH by simp
  qed
qed simp

lemma distinct_insert_row [simp]:
  "distinct (map key (insert_row r rows)) \<longleftrightarrow> distinct (map key rows) \<and> key r \<notin> key ` set rows"
  by simp

lemma count_where_insert [simp]:
  "count_where p (insert_row r rows) = count_where p rows + (if p r then 1 else 0)"
  by (simp add: count_where_def insert_row_def)

lemma count_where_update_le:
  assumes "\<And>r. key r = k \<Longrightarrow> p (f r) \<Longrightarrow> p r"
  shows "count_where p (update_row key k f rows) \<le> count_where p rows"
  using assms by (induction rows) (auto simp: count_where_def update_row_def)

lemma count_where_0_iff: "count_where p rows = 0 \<longleftrightarrow> (\<forall>r \<in> set rows. \<not> p r)"
  by (simp add: count_where_def filter_empty_conv)

lemma length_update_row [simp]: "length (update_row key k f rows) = length rows"
  by (simp add: update_row_def)

lemma set_update_where:
  "set (update_where p f rows) = (\<lambda>r. if p r then f r else r) ` set rows"
  by (simp add: update_where_def)

lemma filter_insert_row [table_simps]:
  "filter p (insert_row r rows) = filter p rows @ (if p r then [r] else [])"
  by (simp add: insert_row_def)

text \<open>
  The interface every table offers to the services: look a row up by its key, update the row with
  a key, insert a row. The laws are what the services rely on.
\<close>

locale repository =
  fixes lookup :: "'k \<Rightarrow> 't \<Rightarrow> 'r option"
    and modify :: "'k \<Rightarrow> ('r \<Rightarrow> 'r) \<Rightarrow> 't \<Rightarrow> 't"
    and create :: "'r \<Rightarrow> 't \<Rightarrow> 't"
    and key :: "'r \<Rightarrow> 'k"
  assumes lookup_key: "lookup k t = Some r \<Longrightarrow> key r = k"
    and lookup_modify: "(\<And>r. key (f r) = key r) \<Longrightarrow>
          lookup k (modify k' f t) = (if k = k' then map_option f (lookup k t) else lookup k t)"
    and lookup_create: "lookup k (create r t) =
          (case lookup k t of Some x \<Rightarrow> Some x | None \<Rightarrow> if key r = k then Some r else None)"
begin

lemma modify_same:
  "(\<And>r. key (f r) = key r) \<Longrightarrow> lookup k t = Some r \<Longrightarrow> lookup k (modify k f t) = Some (f r)"
  by (simp add: lookup_modify)

lemma modify_other:
  "(\<And>r. key (f r) = key r) \<Longrightarrow> k \<noteq> k' \<Longrightarrow> lookup k (modify k' f t) = lookup k t"
  by (simp add: lookup_modify)

lemma create_fresh: "lookup (key r) t = None \<Longrightarrow> lookup (key r) (create r t) = Some r"
  by (simp add: lookup_create)

lemma create_keeps: "lookup k t = Some x \<Longrightarrow> lookup k (create r t) = Some x"
  by (simp add: lookup_create)

lemma modify_field:
  assumes "\<And>r. key (f r) = key r" and "\<And>r. g (f r) = g r"
  shows "map_option g (lookup k (modify k' f t)) = map_option g (lookup k t)"
  using assms by (simp add: lookup_modify option.map_comp comp_def)

end

lemma repository_list: "repository (find_row key) (update_row key) insert_row key"
  by unfold_locales
     (auto simp: find_row_update_row find_row_insert_row dest: find_row_SomeD)

section \<open>Handlers that keep an invariant\<close>

text \<open>A run of a service: the requests are handled one after the other.\<close>

primrec run_requests :: "('q \<Rightarrow> 's \<Rightarrow> ('e, 'a, 's) outcome) \<Rightarrow> 'q list \<Rightarrow> 's \<Rightarrow> 's" where
  "run_requests step [] s = s"
| "run_requests step (q # qs) s = run_requests step qs (snd (step q s))"

locale invariant_service =
  fixes step :: "'q \<Rightarrow> 's \<Rightarrow> ('e, 'a, 's) outcome"
    and inv :: "'s \<Rightarrow> bool"
  assumes step_inv: "inv s \<Longrightarrow> inv (snd (step q s))"
begin

lemma run_inv: "inv s \<Longrightarrow> inv (run_requests step qs s)"
  by (induction qs arbitrary: s) (simp_all add: step_inv)

lemma run_prefix_inv: "inv s \<Longrightarrow> inv (run_requests step (take n qs) s)"
  by (rule run_inv)

end

text \<open>Where, beside that, a request that fails changes nothing.\<close>

locale atomic_service = invariant_service +
  assumes error_frame: "fst (step q s) = Inl e \<Longrightarrow> snd (step q s) = s"
begin

lemma failed_requests_change_nothing:
  "(\<And>q s'. q \<in> set qs \<Longrightarrow> \<not> is_ok (step q s')) \<Longrightarrow> run_requests step qs s = s"
proof (induction qs arbitrary: s)
  case Nil
  then show ?case by simp
next
  case (Cons q qs)
  from Cons.prems have "\<not> is_ok (step q s)" by simp
  then obtain e where "fst (step q s) = Inl e"
    by (auto simp: is_ok_def split: sum.splits)
  then have "snd (step q s) = s" by (rule error_frame)
  with Cons show ?case by simp
qed

end

section \<open>Status machines\<close>

text \<open>
  Work orders and purchases both carry a status with a table of allowed transitions. The contract
  they share: no status allows itself, and every status that allows anything allows cancelling.
\<close>

inductive reaches :: "('s \<Rightarrow> 's list) \<Rightarrow> 's \<Rightarrow> 's \<Rightarrow> bool" for allowed where
  reaches_refl: "reaches allowed a a"
| reaches_step: "reaches allowed a b \<Longrightarrow> c \<in> set (allowed b) \<Longrightarrow> reaches allowed a c"

inductive_cases reaches_stepE: "reaches allowed a c"

lemma reaches_front: "reaches allowed b c \<Longrightarrow> b \<in> set (allowed a) \<Longrightarrow> reaches allowed a c"
  by (induction rule: reaches.induct) (auto intro: reaches.intros)

locale status_machine =
  fixes allowed :: "'s \<Rightarrow> 's list"
    and cancelled :: 's
  assumes irreflexive: "a \<notin> set (allowed a)"
    and cancellable: "allowed a \<noteq> [] \<Longrightarrow> cancelled \<in> set (allowed a)"
    and cancelled_terminal: "allowed cancelled = []"
begin

lemma terminal_stays: "reaches allowed a b \<Longrightarrow> allowed a = [] \<Longrightarrow> b = a"
  by (induction rule: reaches.induct) auto

lemma reaches_closed:
  assumes "reaches allowed a b" and "a \<in> S" and "\<And>x y. x \<in> S \<Longrightarrow> y \<in> set (allowed x) \<Longrightarrow> y \<in> S"
  shows "b \<in> S"
  using assms by (induction rule: reaches.induct) auto

lemma can_cancel_unless_terminal: "allowed a \<noteq> [] \<Longrightarrow> reaches allowed a cancelled"
  by (blast intro: reaches_refl reaches_step cancellable)

lemma cancelled_for_good: "reaches allowed cancelled b \<Longrightarrow> b = cancelled"
  using terminal_stays cancelled_terminal by blast

end

section \<open>Lists and options\<close>

lemma foldl_add_start:
  "foldl (\<lambda>a x. a + f x) (a :: 'a :: comm_monoid_add) xs = a + (\<Sum>x\<leftarrow>xs. f x)"
  by (induction xs arbitrary: a) (auto simp: add.assoc)

lemma option_bool_cases: "(case x of None \<Rightarrow> False | Some y \<Rightarrow> P y) \<longleftrightarrow> (\<exists>y. x = Some y \<and> P y)"
  by (cases x) auto

end
