(* ===== verification/JsNumber.thy ===== *)
theory JsNumber
  imports Prelude Complex_Main "HOL-Library.Log_Nat"
begin

text \<open>
  The numbers of the program. Every \<open>number\<close> of TypeScript is an IEEE 754 binary64 value: a finite
  value is kept as the rational it denotes, every arithmetic operation rounds the exact result to
  the nearest representable value, ties to the even significand, and a result at or above
  \<open>2^1024\<close> becomes an infinity. Both zeros are one value: nothing that is modelled divides by a
  zero whose sign matters.

  The second half of the theory is about amounts of money: \<open>cents n\<close> is the double nearest to
  \<open>n / 100\<close>, the value \<open>Number(d)\<close> of a column \<open>Decimal(_, 2)\<close> that holds \<open>n\<close> cents.
\<close>

section \<open>Rounding to 53 significant bits\<close>

datatype number = Fin rat | PosInf | NegInf | NaN

text \<open>The exponent of the leading bit of a positive rational.\<close>

definition ilog2 :: "rat \<Rightarrow> int" where
  "ilog2 q = (let (a, b) = quotient_of q; k = bitlen a - bitlen b
              in if 2 powi k \<le> q then k else k - 1)"

definition round_half_even :: "rat \<Rightarrow> int" where
  "round_half_even q =
     (let f = \<lfloor>q\<rfloor>; d = q - of_int f
      in if d < 1 / 2 then f else if 1 / 2 < d then f + 1 else if even f then f else f + 1)"

definition ulp_exponent :: "rat \<Rightarrow> int" where
  "ulp_exponent q = max (ilog2 \<bar>q\<bar> - 52) (- 1074)"

definition rnd :: "rat \<Rightarrow> rat" where
  "rnd q = (if q = 0 then 0
            else of_int (round_half_even (q / 2 powi ulp_exponent q)) * 2 powi ulp_exponent q)"

definition fl :: "rat \<Rightarrow> number" where
  "fl q = (let r = rnd q
           in if 2 ^ 1024 \<le> r then PosInf else if r \<le> - (2 ^ 1024) then NegInf else Fin r)"

lemma round_half_even_err: "\<bar>of_int (round_half_even q) - q\<bar> \<le> 1 / 2"
proof -
  have "of_int \<lfloor>q\<rfloor> \<le> q" "q < of_int \<lfloor>q\<rfloor> + 1"
    by linarith+
  then show ?thesis
    by (auto simp: round_half_even_def Let_def abs_le_iff)
qed

lemma round_half_even_int [simp]: "round_half_even (of_int n) = n"
  by (simp add: round_half_even_def)

lemma pow2_less: "(2 :: rat) powi m < 2 powi n \<Longrightarrow> m < n"
  using power_int_increasing[of n m "2 :: rat"] by (cases "m < n") auto

lemma ilog2_bounds:
  assumes "0 < q"
  shows "2 powi ilog2 q \<le> q" and "q < 2 powi (ilog2 q + 1)"
proof -
  obtain a b where ab: "quotient_of q = (a, b)" by fastforce
  have b: "0 < b" using quotient_of_denom_pos[OF ab] .
  have q: "q = of_int a / of_int b" using quotient_of_div[OF ab] .
  with assms b have a: "0 < a" by (simp add: zero_less_divide_iff)
  define la lb where "la = nat (bitlen a - 1)" and "lb = nat (bitlen b - 1)"
  have ba: "bitlen a = int la + 1" and bb: "bitlen b = int lb + 1"
    using a b bitlen_nonneg[of a] bitlen_nonneg[of b] bitlen_eq_zero_iff[of a] bitlen_eq_zero_iff[of b]
    by (auto simp: la_def lb_def)
  have "2 ^ la \<le> a" "a < 2 ^ (la + 1)" "2 ^ lb \<le> b" "b < 2 ^ (lb + 1)"
    using bitlen_bounds[OF a] bitlen_bounds[OF b] by (auto simp: ba bb nat_add_distrib)
  then have "of_int (2 ^ la) \<le> (of_int a :: rat)" "(of_int a :: rat) < of_int (2 ^ (la + 1))"
    "of_int (2 ^ lb) \<le> (of_int b :: rat)" "(of_int b :: rat) < of_int (2 ^ (lb + 1))"
    by (simp_all only: of_int_le_iff of_int_less_iff)
  then have A: "2 ^ la \<le> (of_int a :: rat)" "(of_int a :: rat) < 2 ^ (la + 1)"
    and B: "2 ^ lb \<le> (of_int b :: rat)" "(of_int b :: rat) < 2 ^ (lb + 1)"
    by (simp_all only: of_int_power of_int_numeral)
  let ?k = "bitlen a - bitlen b"
  have k: "2 powi ?k = (2 ^ la / 2 ^ lb :: rat)"
    by (simp add: ba bb power_int_diff)
  have up: "q < 2 powi (?k + 1)"
  proof -
    have "of_int a / of_int b < (2 ^ (la + 1) / 2 ^ lb :: rat)"
      using A B a by (intro frac_less) auto
    then show ?thesis unfolding q by (simp add: power_int_add k mult.commute)
  qed
  have lo: "2 powi (?k - 1) \<le> q"
  proof -
    have "(2 ^ la / 2 ^ (lb + 1) :: rat) \<le> of_int a / of_int b"
      using A B a b by (intro frac_le) auto
    then show ?thesis unfolding q by (simp add: power_int_diff k)
  qed
  show "2 powi ilog2 q \<le> q" and "q < 2 powi (ilog2 q + 1)"
    using up lo by (auto simp: ilog2_def ab Let_def)
qed

lemma ilog2_eqI:
  assumes "2 powi k \<le> q" and "q < 2 powi (k + 1)"
  shows "ilog2 q = k"
proof -
  have q: "0 < q" using assms(1) by (smt (verit) zero_less_power_int zero_less_numeral less_le_trans)
  have "(2 :: rat) powi k < 2 powi (ilog2 q + 1)" "(2 :: rat) powi ilog2 q < 2 powi (k + 1)"
    using ilog2_bounds[OF q] assms by linarith+
  then have "k < ilog2 q + 1" "ilog2 q < k + 1"
    by (blast intro: pow2_less)+
  then show ?thesis by simp
qed

text \<open>The error of a rounding: half a unit in the last place, or half the smallest subnormal.\<close>

lemma rnd_err: "\<bar>rnd q - q\<bar> \<le> \<bar>q\<bar> / 2 ^ 53 + 1 / 2 ^ 1075"
proof (cases "q = 0")
  case True
  then show ?thesis by (simp add: rnd_def)
next
  case False
  define e where "e = ulp_exponent q"
  define m where "m = round_half_even (q / 2 powi e)"
  have s: "(0 :: rat) < 2 powi e" by simp
  have "rnd q - q = (of_int m - q / 2 powi e) * 2 powi e"
    using False s by (simp add: rnd_def e_def[symmetric] m_def[symmetric] field_simps)
  then have "\<bar>rnd q - q\<bar> = \<bar>of_int m - q / 2 powi e\<bar> * 2 powi e"
    using s by (simp add: abs_mult)
  also have "\<dots> \<le> 1 / 2 * 2 powi e"
    using s round_half_even_err[of "q / 2 powi e"] by (intro mult_right_mono) (auto simp: m_def)
  finally have err: "\<bar>rnd q - q\<bar> \<le> 2 powi e / 2" by simp
  have "2 powi ilog2 \<bar>q\<bar> \<le> \<bar>q\<bar>"
    using ilog2_bounds[of "\<bar>q\<bar>"] False by simp
  then have "2 powi (ilog2 \<bar>q\<bar> - 52) \<le> \<bar>q\<bar> / 2 ^ 52"
    by (simp add: power_int_diff divide_right_mono)
  moreover have "2 powi (- 1074) = (1 / 2 ^ 1074 :: rat)"
    by (simp add: power_int_minus inverse_eq_divide)
  ultimately have "2 powi e \<le> \<bar>q\<bar> / 2 ^ 52 + 1 / 2 ^ 1074"
    unfolding e_def ulp_exponent_def max_def
    by (auto intro: order_trans add_increasing add_increasing2)
  then have "2 powi e / 2 \<le> (\<bar>q\<bar> / 2 ^ 52 + 1 / 2 ^ 1074) / 2"
    by (rule divide_right_mono) simp
  also have "\<dots> = \<bar>q\<bar> / 2 ^ 53 + 1 / 2 ^ 1075"
    by (simp add: add_divide_distrib)
  finally have "2 powi e / 2 \<le> \<bar>q\<bar> / 2 ^ 53 + 1 / 2 ^ 1075" .
  with err show ?thesis by (rule order_trans)
qed

lemma powi_nonneg_of_int: "0 \<le> k \<Longrightarrow> (2 :: rat) powi k = of_int (2 ^ nat k)"
  by (simp add: power_int_def)

text \<open>A value with at most 53 significant bits is represented exactly.\<close>

lemma rnd_representable:
  assumes q: "q = of_int m * 2 powi k" and m: "\<bar>m\<bar> \<le> 2 ^ 53" and k: "- 1074 \<le> k"
  shows "rnd q = q"
proof (cases "q = 0")
  case True
  then show ?thesis by (simp add: rnd_def)
next
  case False
  define e where "e = ulp_exponent q"
  have lo: "2 powi ilog2 \<bar>q\<bar> \<le> \<bar>q\<bar>"
    using ilog2_bounds[of "\<bar>q\<bar>"] False by simp
  have exact: "\<exists>n :: int. q / 2 powi e = of_int n"
  proof (cases "e \<le> k")
    case True
    have "(2 :: rat) powi k = 2 powi (k - e) * 2 powi e"
      by (simp flip: power_int_add)
    then have "q / 2 powi e = of_int m * 2 powi (k - e)" by (simp add: q)
    also have "\<dots> = of_int (m * 2 ^ nat (k - e))"
      using True by (simp add: powi_nonneg_of_int)
    finally show ?thesis by blast
  next
    case False
    then have e: "e = ilog2 \<bar>q\<bar> - 52" "k < e"
      using k by (auto simp: e_def ulp_exponent_def max_def split: if_splits)
    have "\<bar>q\<bar> = of_int \<bar>m\<bar> * 2 powi k" by (simp add: q abs_mult)
    also have "of_int \<bar>m\<bar> \<le> (of_int (2 ^ 53) :: rat)"
      using m by (simp only: of_int_le_iff)
    then have "of_int \<bar>m\<bar> * 2 powi k \<le> (2 ^ 53 :: rat) * 2 powi k"
      by (intro mult_right_mono) simp_all
    also have "\<dots> = 2 powi (k + 53)" by (simp add: power_int_add)
    finally have "2 powi ilog2 \<bar>q\<bar> \<le> (2 :: rat) powi (k + 53)" using lo by linarith
    then have "ilog2 \<bar>q\<bar> \<le> k + 53"
      using pow2_less[of "k + 53" "ilog2 \<bar>q\<bar>"] power_int_strict_increasing[of "k + 53" "ilog2 \<bar>q\<bar>" "2 :: rat"]
      by linarith
    with e have ek: "e = k + 1" "ilog2 \<bar>q\<bar> = k + 53" by auto
    have "2 ^ 53 * 2 powi k \<le> of_int \<bar>m\<bar> * (2 :: rat) powi k"
      using lo[unfolded ek(2)] by (simp add: q abs_mult power_int_add mult.commute)
    then have "of_int (2 ^ 53) \<le> (of_int \<bar>m\<bar> :: rat)"
      by (simp add: mult_le_cancel_right)
    then have "2 ^ 53 \<le> \<bar>m\<bar>" by (simp only: of_int_le_iff)
    with m have "\<bar>m\<bar> = 2 ^ 53" by simp
    then have "m = 2 * (sgn m * 2 ^ 52)" by (auto simp: abs_if sgn_if split: if_splits)
    then obtain n where "m = 2 * n" ..
    then have "q / 2 powi e = of_int n" by (simp add: q ek power_int_add)
    then show ?thesis by blast
  qed
  then obtain n :: int where n: "q / 2 powi e = of_int n" by blast
  then have "rnd q = of_int n * 2 powi e"
    using False by (simp add: rnd_def e_def[symmetric])
  also have "\<dots> = q" using n by (simp add: field_simps)
  finally show ?thesis .
qed

lemma rnd_int: "\<bar>n\<bar> \<le> 2 ^ 53 \<Longrightarrow> rnd (of_int n) = of_int n"
  by (rule rnd_representable[of _ n 0]) auto

text \<open>Rounding a value whose nearest multiple of the last place is known.\<close>

lemma round_half_even_at:
  assumes "\<bar>x - of_int m\<bar> < 1 / 2"
  shows "round_half_even x = m"
proof -
  have "\<bar>of_int (round_half_even x) - of_int m\<bar> < (1 :: rat)" using round_half_even_err[of x] assms by linarith
  then have "of_int \<bar>round_half_even x - m\<bar> < (of_int 1 :: rat)" by simp
  then have "\<bar>round_half_even x - m\<bar> < 1" by (simp only: of_int_less_iff)
  then show ?thesis by simp
qed

lemma rnd_at:
  assumes "2 powi k \<le> q" and "q < 2 powi (k + 1)" and "- 1022 \<le> k"
    and "\<bar>q / 2 powi (k - 52) - of_int m\<bar> < 1 / 2"
  shows "rnd q = of_int m * 2 powi (k - 52)"
proof -
  have q: "0 < q" using assms(1) by (smt (verit) zero_less_power_int zero_less_numeral less_le_trans)
  have u: "ulp_exponent q = k - 52" using ilog2_eqI[OF assms(1,2)] q assms(3) by (simp add: ulp_exponent_def)
  show ?thesis using q round_half_even_at[OF assms(4)] by (simp add: rnd_def u)
qed

text \<open>What was rounded is representable.\<close>

lemma rnd_idem: "rnd (rnd q) = rnd q"
proof (cases "q = 0")
  case False
  define e where "e = ulp_exponent q"
  define m where "m = round_half_even (q / 2 powi e)"
  have e: "ilog2 \<bar>q\<bar> - 52 \<le> e" "- 1074 \<le> e" by (simp_all add: e_def ulp_exponent_def)
  have "\<bar>q\<bar> < 2 powi (ilog2 \<bar>q\<bar> + 1)" using ilog2_bounds[of "\<bar>q\<bar>"] False by simp
  also have "\<dots> \<le> 2 powi (e + 53)" using e(1) by (intro power_int_increasing) auto
  also have "\<dots> = 2 powi e * 2 ^ 53" by (simp add: power_int_add)
  finally have "\<bar>q / 2 powi e\<bar> < 2 ^ 53" by (simp add: abs_divide divide_less_eq mult.commute)
  then have "\<bar>of_int m :: rat\<bar> < 2 ^ 53 + 1" using round_half_even_err[of "q / 2 powi e"] unfolding m_def by linarith
  then have "of_int \<bar>m\<bar> < (of_int (2 ^ 53 + 1) :: rat)" by simp
  then have "\<bar>m\<bar> < 2 ^ 53 + 1" by (simp only: of_int_less_iff)
  then have "\<bar>m\<bar> \<le> 2 ^ 53" by simp
  moreover have r: "rnd q = of_int m * 2 powi e" using False by (simp add: rnd_def e_def m_def)
  ultimately show ?thesis using rnd_representable[OF r _ e(2)] by simp
qed (simp add: rnd_def)

lemma fl_rnd:
  assumes "\<bar>q\<bar> \<le> 2 ^ 1000"
  shows "fl q = Fin (rnd q)"
proof -
  have pos: "(0 :: rat) < 2 ^ 1000" by simp
  have half: "\<bar>q\<bar> / 2 ^ 53 \<le> 2 ^ 1000" and one: "(1 :: rat) / 2 ^ 1075 \<le> 1"
    using assms by (simp_all add: divide_le_eq)
  have "\<bar>rnd q\<bar> \<le> \<bar>q\<bar> + \<bar>rnd q - q\<bar>" by linarith
  also have "\<dots> \<le> 2 ^ 1000 + (2 ^ 1000 + 1)"
    using assms rnd_err[of q] half one by linarith
  also have "\<dots> < 2 ^ 1024" by simp
  finally have "\<bar>rnd q\<bar> < 2 ^ 1024" .
  then show ?thesis by (simp add: fl_def Let_def abs_less_iff not_le)
qed

lemma fl_int: "\<bar>n\<bar> \<le> 2 ^ 53 \<Longrightarrow> fl (of_int n) = Fin (of_int n)"
proof -
  assume n: "\<bar>n\<bar> \<le> 2 ^ 53"
  then have "of_int \<bar>n\<bar> \<le> (of_int (2 ^ 53) :: rat)" by (simp only: of_int_le_iff)
  then have "\<bar>of_int n :: rat\<bar> \<le> of_int (2 ^ 53)" by simp
  also have "\<dots> \<le> (2 ^ 1000 :: rat)" by simp
  finally show ?thesis using n by (simp add: fl_rnd rnd_int)
qed

section \<open>The operations of the language\<close>

fun js_neg :: "number \<Rightarrow> number" where
  "js_neg (Fin a) = Fin (- a)"
| "js_neg PosInf = NegInf"
| "js_neg NegInf = PosInf"
| "js_neg NaN = NaN"

fun js_add :: "number \<Rightarrow> number \<Rightarrow> number" where
  "js_add (Fin a) (Fin b) = fl (a + b)"
| "js_add NaN _ = NaN"
| "js_add _ NaN = NaN"
| "js_add PosInf NegInf = NaN"
| "js_add NegInf PosInf = NaN"
| "js_add PosInf _ = PosInf"
| "js_add _ PosInf = PosInf"
| "js_add NegInf _ = NegInf"
| "js_add _ NegInf = NegInf"

definition js_sub :: "number \<Rightarrow> number \<Rightarrow> number" where
  "js_sub x y = js_add x (js_neg y)"

text \<open>The infinity with the sign of a rational, not a number for zero.\<close>

definition signed_inf :: "rat \<Rightarrow> number" where
  "signed_inf a = (if 0 < a then PosInf else if a < 0 then NegInf else NaN)"

fun js_mul :: "number \<Rightarrow> number \<Rightarrow> number" where
  "js_mul (Fin a) (Fin b) = fl (a * b)"
| "js_mul NaN _ = NaN"
| "js_mul _ NaN = NaN"
| "js_mul (Fin a) PosInf = signed_inf a"
| "js_mul (Fin a) NegInf = signed_inf (- a)"
| "js_mul PosInf (Fin a) = signed_inf a"
| "js_mul NegInf (Fin a) = signed_inf (- a)"
| "js_mul PosInf PosInf = PosInf"
| "js_mul NegInf NegInf = PosInf"
| "js_mul PosInf NegInf = NegInf"
| "js_mul NegInf PosInf = NegInf"

fun js_div :: "number \<Rightarrow> number \<Rightarrow> number" where
  "js_div (Fin a) (Fin b) = (if b = 0 then signed_inf a else fl (a / b))"
| "js_div NaN _ = NaN"
| "js_div _ NaN = NaN"
| "js_div (Fin a) _ = Fin 0"
| "js_div PosInf (Fin b) = (if b < 0 then NegInf else PosInf)"
| "js_div NegInf (Fin b) = (if b < 0 then PosInf else NegInf)"
| "js_div _ _ = NaN"

text \<open>Comparisons: every comparison with not-a-number is false, so \<open>x <= y\<close> is not \<open>!(y < x)\<close>.\<close>

fun js_lt :: "number \<Rightarrow> number \<Rightarrow> bool" where
  "js_lt (Fin a) (Fin b) \<longleftrightarrow> a < b"
| "js_lt NaN _ \<longleftrightarrow> False"
| "js_lt _ NaN \<longleftrightarrow> False"
| "js_lt NegInf NegInf \<longleftrightarrow> False"
| "js_lt NegInf _ \<longleftrightarrow> True"
| "js_lt PosInf _ \<longleftrightarrow> False"
| "js_lt _ PosInf \<longleftrightarrow> True"
| "js_lt _ _ \<longleftrightarrow> False"

definition js_eq :: "number \<Rightarrow> number \<Rightarrow> bool" where
  "js_eq x y \<longleftrightarrow> x = y \<and> x \<noteq> NaN"

definition js_le :: "number \<Rightarrow> number \<Rightarrow> bool" where
  "js_le x y \<longleftrightarrow> js_lt x y \<or> js_eq x y"

fun is_finite :: "number \<Rightarrow> bool" where
  "is_finite (Fin _) \<longleftrightarrow> True"
| "is_finite _ \<longleftrightarrow> False"

fun is_integer :: "number \<Rightarrow> bool" where
  "is_integer (Fin a) \<longleftrightarrow> a = of_int \<lfloor>a\<rfloor>"
| "is_integer _ \<longleftrightarrow> False"

text \<open>\<open>Math.round\<close>, \<open>Math.floor\<close>, \<open>Math.ceil\<close>, \<open>Math.abs\<close>, \<open>Math.max\<close> and \<open>Math.min\<close>. Halves round up.\<close>

fun js_round :: "number \<Rightarrow> number" where
  "js_round (Fin a) = Fin (of_int \<lfloor>a + 1 / 2\<rfloor>)"
| "js_round x = x"

fun js_floor :: "number \<Rightarrow> number" where
  "js_floor (Fin a) = Fin (of_int \<lfloor>a\<rfloor>)"
| "js_floor x = x"

fun js_ceil :: "number \<Rightarrow> number" where
  "js_ceil (Fin a) = Fin (of_int \<lceil>a\<rceil>)"
| "js_ceil x = x"

fun js_abs :: "number \<Rightarrow> number" where
  "js_abs (Fin a) = Fin \<bar>a\<bar>"
| "js_abs NaN = NaN"
| "js_abs _ = PosInf"

definition js_max :: "number \<Rightarrow> number \<Rightarrow> number" where
  "js_max x y = (if x = NaN \<or> y = NaN then NaN else if js_lt x y then y else x)"

definition js_min :: "number \<Rightarrow> number \<Rightarrow> number" where
  "js_min x y = (if x = NaN \<or> y = NaN then NaN else if js_lt y x then y else x)"

text \<open>A whole number, and the number a decimal literal of the source denotes.\<close>

definition js_int :: "int \<Rightarrow> number" where
  "js_int n = Fin (of_int n)"

definition js_lit :: "rat \<Rightarrow> number" where
  "js_lit q = fl q"

text \<open>\<open>Math.round(x * 100) / 100\<close>: the rounding to cents that the domain objects share.\<close>

definition round2 :: "number \<Rightarrow> number" where
  "round2 x = js_div (js_round (js_mul x (Fin 100))) (Fin 100)"

text \<open>\<open>xs.reduce((sum, x) => sum + x, 0)\<close>.\<close>

definition js_sum :: "number list \<Rightarrow> number" where
  "js_sum xs = foldl js_add (Fin 0) xs"

text \<open>\<open>Number(d)\<close> for a decimal column that holds \<open>n\<close> cents.\<close>

definition cents :: "int \<Rightarrow> number" where
  "cents n = fl (of_int n / 100)"

lemma js_le_Fin [simp]: "js_le (Fin a) (Fin b) \<longleftrightarrow> a \<le> b"
  by (auto simp: js_le_def js_eq_def)

lemma js_eq_Fin [simp]: "js_eq (Fin a) (Fin b) \<longleftrightarrow> a = b"
  by (simp add: js_eq_def)

lemma js_sub_Fin [simp]: "js_sub (Fin a) (Fin b) = fl (a - b)"
  by (simp add: js_sub_def)

lemma js_max_Fin [simp]: "js_max (Fin a) (Fin b) = Fin (max a b)"
  by (auto simp: js_max_def max_def)

lemma js_min_Fin [simp]: "js_min (Fin a) (Fin b) = Fin (min a b)"
  by (auto simp: js_min_def min_def)

end
