(* ===== verification/CentsArith.thy ===== *)
theory CentsArith
  imports JsNumber
begin

text \<open>
  Amounts of money in floating point. \<open>approx e x n\<close> says that the number \<open>x\<close> is finite and within
  \<open>e\<close> of \<open>n\<close> cents. The lemmas bound what one operation adds to the error, for amounts up to
  \<open>2^40\<close> cents (more than the largest value of a \<open>Decimal(12, 2)\<close> column), show that rounding to
  cents removes an error below a tenth of a cent, and that comparisons of amounts that differ by a
  cent or more are decided as the exact amounts decide them.
\<close>

named_theorems approx_intros

definition cents_range :: "int \<Rightarrow> bool" where
  "cents_range n \<longleftrightarrow> \<bar>n\<bar> \<le> 2 ^ 40"

definition approx :: "rat \<Rightarrow> number \<Rightarrow> int \<Rightarrow> bool" where
  "approx e x n \<longleftrightarrow> (\<exists>r. x = Fin r \<and> \<bar>r - of_int n / 100\<bar> \<le> e)"

lemma approxE:
  assumes "approx e x n"
  obtains r where "x = Fin r" "\<bar>r - of_int n / 100\<bar> \<le> e"
  using assms by (auto simp: approx_def)

lemma approx_weaken: "approx d x n \<Longrightarrow> d \<le> e \<Longrightarrow> approx e x n"
  by (auto simp: approx_def intro: order_trans)

lemma cents_range_rat: "cents_range n \<Longrightarrow> \<bar>of_int n / 100 :: rat\<bar> \<le> 2 ^ 40 / 100"
proof -
  assume "cents_range n"
  then have "of_int \<bar>n\<bar> \<le> (of_int (2 ^ 40) :: rat)"
    by (simp only: cents_range_def of_int_le_iff)
  then show ?thesis by simp
qed

lemma cents_range_le: "cents_range n \<Longrightarrow> \<bar>m\<bar> \<le> \<bar>n\<bar> \<Longrightarrow> cents_range m"
  by (simp add: cents_range_def)

text \<open>One rounding of a value near \<open>n\<close> cents.\<close>

lemma tiny: "(1 :: rat) / 2 ^ 1075 \<le> 1 / 10 ^ 12"
  by simp

lemma fl_near:
  assumes n: "cents_range n" and q: "\<bar>q - of_int n / 100\<bar> \<le> d" and d: "d \<le> 1"
  shows "approx (d + 1 / 800000) (fl q) n"
proof -
  have abs: "\<bar>q\<bar> \<le> 2 ^ 40 / 100 + 1"
    using cents_range_rat[OF n] q d by linarith
  also have "\<dots> \<le> 2 ^ 1000" by simp
  finally have f: "fl q = Fin (rnd q)" by (rule fl_rnd)
  have "\<bar>q\<bar> / 2 ^ 53 \<le> (2 ^ 40 / 100 + 1) / 2 ^ 53"
    using abs by (rule divide_right_mono) simp
  then have "\<bar>rnd q - q\<bar> \<le> (2 ^ 40 / 100 + 1) / 2 ^ 53 + 1 / 10 ^ 12"
    using rnd_err[of q] tiny by (meson add_mono order_trans)
  also have "\<dots> \<le> 1 / 800000" by simp
  finally have "\<bar>rnd q - of_int n / 100\<bar> \<le> d + 1 / 800000" using q by linarith
  then show ?thesis by (simp add: approx_def f)
qed

lemma approx_cents [approx_intros]: "cents_range n \<Longrightarrow> approx (1 / 800000) (cents n) n"
  using fl_near[of n "of_int n / 100" 0] by (simp add: cents_def)

lemma approx_int: "approx 0 (js_int k) (100 * k)"
  by (simp add: approx_def js_int_def)

lemma approx_add:
  assumes "approx d x m" and "approx e y n" and "cents_range (m + n)" and "d + e \<le> 1"
  shows "approx (d + e + 1 / 800000) (js_add x y) (m + n)"
proof -
  obtain r s where x: "x = Fin r" "\<bar>r - of_int m / 100\<bar> \<le> d"
    and y: "y = Fin s" "\<bar>s - of_int n / 100\<bar> \<le> e"
    using assms(1,2) by (auto elim!: approxE)
  have "\<bar>(r + s) - of_int (m + n) / 100\<bar> \<le> d + e"
    using x(2) y(2) by (simp add: add_divide_distrib)
  then show ?thesis using fl_near[OF assms(3) _ assms(4)] by (simp add: x y)
qed

lemma approx_neg: "approx e x n \<Longrightarrow> approx e (js_neg x) (- n)"
  by (auto simp: approx_def abs_le_iff)

lemma approx_sub:
  assumes "approx d x m" and "approx e y n" and "cents_range (m - n)" and "d + e \<le> 1"
  shows "approx (d + e + 1 / 800000) (js_sub x y) (m - n)"
  using approx_add[OF assms(1) approx_neg[OF assms(2)], of] assms(3,4) by (simp add: js_sub_def)

lemma approx_mul_int:
  assumes "approx e x n" and "cents_range (n * k)" and "e * of_int \<bar>k\<bar> \<le> 1"
  shows "approx (e * of_int \<bar>k\<bar> + 1 / 800000) (js_mul x (js_int k)) (n * k)"
proof -
  obtain r where x: "x = Fin r" "\<bar>r - of_int n / 100\<bar> \<le> e"
    using assms(1) by (auto elim!: approxE)
  have "r * of_int k - of_int (n * k) / 100 = (r - of_int n / 100) * of_int k"
    by (simp add: algebra_simps)
  then have "\<bar>r * of_int k - of_int (n * k) / 100\<bar> = \<bar>r - of_int n / 100\<bar> * of_int \<bar>k\<bar>"
    by (simp add: abs_mult)
  also have "\<dots> \<le> e * of_int \<bar>k\<bar>" using x(2) by (intro mult_right_mono) auto
  finally show ?thesis using fl_near[OF assms(2) _ assms(3)] by (simp add: x js_int_def)
qed

lemma approx_max:
  assumes "approx e x m" and "approx e y n"
  shows "approx e (js_max x y) (max m n)"
proof -
  obtain r s where r: "x = Fin r" "\<bar>r - of_int m / 100\<bar> \<le> e"
    and s: "y = Fin s" "\<bar>s - of_int n / 100\<bar> \<le> e"
    using assms by (auto elim!: approxE)
  have "of_int (max m n) = (max (of_int m) (of_int n) :: rat)" by (simp add: max_def)
  moreover have "\<bar>max r s - max (of_int m) (of_int n) / 100\<bar> \<le> e"
    using r(2) s(2) by (auto simp: max_def abs_le_iff field_simps)
  ultimately show ?thesis by (simp add: approx_def r s)
qed

lemma approx_abs: "approx e x n \<Longrightarrow> approx e (js_abs x) \<bar>n\<bar>"
  by (auto simp: approx_def abs_le_iff abs_if split: if_splits)

text \<open>Rounding to cents removes the error.\<close>

lemma round2_near:
  assumes "approx (1 / 1000) x n" and n: "cents_range n"
  shows "round2 x = cents n"
proof -
  obtain r where x: "x = Fin r" and r: "\<bar>r - of_int n / 100\<bar> \<le> 1 / 1000"
    using assms(1) by (auto elim!: approxE)
  have near: "\<bar>r * 100 - of_int n\<bar> \<le> 1 / 10"
    using r by (simp add: abs_le_iff field_simps)
  have "\<bar>of_int n :: rat\<bar> \<le> 2 ^ 40" using cents_range_rat[OF n] by simp
  with near have abs: "\<bar>r * 100\<bar> \<le> 2 ^ 40 + 1" by linarith
  also have "\<dots> \<le> 2 ^ 1000" by simp
  finally have f: "fl (r * 100) = Fin (rnd (r * 100))" by (rule fl_rnd)
  have "\<bar>r * 100\<bar> / 2 ^ 53 \<le> (2 ^ 40 + 1) / 2 ^ 53"
    using abs by (rule divide_right_mono) simp
  then have "\<bar>rnd (r * 100) - r * 100\<bar> \<le> (2 ^ 40 + 1) / 2 ^ 53 + 1 / 10 ^ 12"
    using rnd_err[of "r * 100"] tiny by (meson add_mono order_trans)
  also have "\<dots> \<le> 1 / 1000" by simp
  finally have "\<bar>rnd (r * 100) - of_int n\<bar> < 1 / 2" using near by linarith
  then have "of_int n \<le> rnd (r * 100) + 1 / 2" "rnd (r * 100) + 1 / 2 < of_int n + 1"
    by linarith+
  then have "\<lfloor>rnd (r * 100) + 1 / 2\<rfloor> = n" by (rule floor_unique)
  then show ?thesis by (simp add: round2_def x f cents_def)
qed

lemma round2_cents [simp]: "cents_range n \<Longrightarrow> round2 (cents n) = cents n"
  by (rule round2_near[OF approx_weaken[OF approx_cents]]) auto

text \<open>Comparisons.\<close>

lemma approx_lt:
  assumes "approx d x m" and "approx e y n" and "d + e < 1 / 100" and "m < n"
  shows "js_lt x y"
proof -
  obtain r s where r: "x = Fin r" "\<bar>r - of_int m / 100\<bar> \<le> d"
    and s: "y = Fin s" "\<bar>s - of_int n / 100\<bar> \<le> e"
    using assms(1,2) by (auto elim!: approxE)
  have "of_int (m + 1) \<le> (of_int n :: rat)" using assms(4) by (simp only: of_int_le_iff)
  then have "of_int m / 100 + 1 / 100 \<le> (of_int n / 100 :: rat)" by (simp add: field_simps)
  then have "r < s" using r(2) s(2) assms(3) by linarith
  then show ?thesis by (simp add: r s)
qed

lemma approx_finite: "approx e x n \<Longrightarrow> is_finite x"
  by (auto simp: approx_def)

lemma js_not_lt: "is_finite x \<Longrightarrow> is_finite y \<Longrightarrow> \<not> js_lt x y \<longleftrightarrow> js_le y x"
  by (cases x; cases y) auto

lemma approx_le:
  assumes "approx d x m" and "approx e y n" and "d + e < 1 / 100" and "js_le x y"
  shows "m \<le> n"
proof (rule ccontr)
  assume "\<not> m \<le> n"
  then have "js_lt y x" using approx_lt[OF assms(2,1)] assms(3) by (simp add: add.commute)
  with assms(4) show False
    using approx_finite[OF assms(1)] approx_finite[OF assms(2)] by (cases x; cases y) auto
qed

lemma js_lt_irrefl: "is_finite x \<Longrightarrow> \<not> js_lt x x"
  by (cases x) auto

lemma approx_not_NaN: "approx e x n \<Longrightarrow> x \<noteq> NaN"
  by (auto simp: approx_def)

lemma cents_lt [simp]:
  "cents_range m \<Longrightarrow> cents_range n \<Longrightarrow> js_lt (cents m) (cents n) \<longleftrightarrow> m < n"
proof
  assume r: "cents_range m" "cents_range n"
  note a = approx_cents[OF r(1)] approx_cents[OF r(2)]
  show "m < n \<Longrightarrow> js_lt (cents m) (cents n)" by (rule approx_lt[OF a]) simp
  assume lt: "js_lt (cents m) (cents n)"
  show "m < n"
  proof (rule ccontr)
    assume "\<not> m < n"
    then consider "m = n" | "n < m" by linarith
    then show False
    proof cases
      case 1
      with lt js_lt_irrefl[OF approx_finite[OF a(2)]] show False by simp
    next
      case 2
      then have "js_lt (cents n) (cents m)" by (intro approx_lt[OF a(2,1)]) simp_all
      with lt show False by (cases "cents n"; cases "cents m") auto
    qed
  qed
qed

lemma cents_finite [simp]: "cents_range n \<Longrightarrow> is_finite (cents n)"
  by (rule approx_finite[OF approx_cents])

lemma cents_le [simp]:
  "cents_range m \<Longrightarrow> cents_range n \<Longrightarrow> js_le (cents m) (cents n) \<longleftrightarrow> m \<le> n"
  using js_not_lt[of "cents n" "cents m"] by auto

lemma cents_eq_iff [simp]:
  "cents_range m \<Longrightarrow> cents_range n \<Longrightarrow> cents m = cents n \<longleftrightarrow> m = n"
  by (metis cents_lt linorder_neqE order_less_irrefl)

lemma cents_js_eq [simp]:
  "cents_range m \<Longrightarrow> cents_range n \<Longrightarrow> js_eq (cents m) (cents n) \<longleftrightarrow> m = n"
  using approx_not_NaN[OF approx_cents] by (auto simp: js_eq_def)

lemma cents_whole: "\<bar>k\<bar> \<le> 2 ^ 53 \<Longrightarrow> cents (100 * k) = js_int k"
  by (simp add: cents_def js_int_def fl_int)

lemma cents_0 [simp]: "cents 0 = Fin 0"
  by (simp add: cents_def fl_def rnd_def)

text \<open>Sums of amounts, as a \<open>reduce\<close> computes them: the error grows with the number of terms.\<close>

lemma approx_foldl_add:
  assumes "approx e x m" and "\<forall>n \<in> set ns. cents_range n"
    and "cents_range (\<bar>m\<bar> + (\<Sum>n\<leftarrow>ns. \<bar>n\<bar>))"
    and "e + of_nat (length ns) / 400000 \<le> 1"
  shows "approx (e + of_nat (length ns) / 400000) (foldl js_add x (map cents ns)) (m + sum_list ns)"
  using assms
proof (induction ns arbitrary: e x m)
  case Nil
  then show ?case by simp
next
  case (Cons n ns)
  have "0 \<le> (\<Sum>n\<leftarrow>ns. \<bar>n\<bar>)" by (rule sum_list_nonneg) auto
  then have r: "cents_range (m + n)" "cents_range (\<bar>m + n\<bar> + (\<Sum>n\<leftarrow>ns. \<bar>n\<bar>))"
    using Cons.prems(3) by (auto simp: cents_range_def)
  have len: "e + 1 / 400000 + of_nat (length ns) / 400000 \<le> 1"
    using Cons.prems(4) by (simp add: add_divide_distrib)
  have "(0 :: rat) \<le> of_nat (length ns) / 400000" by simp
  with len have e: "e + 1 / 800000 \<le> 1" by linarith
  have "approx (e + 1 / 800000 + 1 / 800000) (js_add x (cents n)) (m + n)"
    using Cons.prems(1,2) r(1) e by (intro approx_add approx_cents) auto
  moreover have "e + 1 / 800000 + 1 / 800000 = e + 1 / 400000" by simp
  ultimately have "approx (e + 1 / 400000) (js_add x (cents n)) (m + n)" by (simp only:)
  from Cons.IH[OF this _ r(2) len] Cons.prems(2)
  show ?case by (simp add: add_divide_distrib add.assoc)
qed

lemma approx_js_sum:
  assumes "\<forall>n \<in> set ns. cents_range n" and "cents_range (\<Sum>n\<leftarrow>ns. \<bar>n\<bar>)" and "length ns \<le> 400000"
  shows "approx (of_nat (length ns) / 400000) (js_sum (map cents ns)) (sum_list ns)"
  using approx_foldl_add[of 0 "Fin 0" 0 ns] assms by (auto simp: js_sum_def approx_def)

text \<open>
  A price times a whole quantity: the relative error of the price is scaled with the product, so the
  bound depends on the product alone.
\<close>

lemma approx_cents_mul_int:
  assumes r: "cents_range (n * k)" and k: "\<bar>k\<bar> \<le> 2 ^ 40" and n: "cents_range n"
  shows "approx (1 / 200000) (js_mul (cents n) (js_int k)) (n * k)"
proof -
  let ?q = "of_int n / 100 :: rat"
  have "\<bar>?q\<bar> \<le> 2 ^ 40 / 100" using cents_range_rat[OF n] .
  also have "\<dots> \<le> 2 ^ 1000" by simp
  finally have c: "cents n = Fin (rnd ?q)" by (simp add: cents_def fl_rnd)
  have "of_int \<bar>k\<bar> \<le> (of_int (2 ^ 40) :: rat)" using k by (simp only: of_int_le_iff)
  then have k': "\<bar>of_int k :: rat\<bar> \<le> 2 ^ 40" by simp
  have "rnd ?q * of_int k - of_int (n * k) / 100 = (rnd ?q - ?q) * of_int k"
    by (simp add: algebra_simps)
  then have "\<bar>rnd ?q * of_int k - of_int (n * k) / 100\<bar> = \<bar>rnd ?q - ?q\<bar> * \<bar>of_int k\<bar>"
    by (simp only: abs_mult)
  also have "\<dots> \<le> (\<bar>?q\<bar> / 2 ^ 53 + 1 / 2 ^ 1075) * \<bar>of_int k\<bar>"
    by (intro mult_right_mono rnd_err) simp
  also have "\<dots> = \<bar>?q\<bar> * \<bar>of_int k\<bar> / 2 ^ 53 + \<bar>of_int k\<bar> / 2 ^ 1075"
    by (simp add: distrib_right)
  also have "\<bar>?q\<bar> * \<bar>of_int k\<bar> = \<bar>of_int (n * k) / 100\<bar>" by (simp add: abs_mult)
  also have "\<bar>of_int (n * k) / 100 :: rat\<bar> / 2 ^ 53 + \<bar>of_int k\<bar> / 2 ^ 1075
      \<le> (2 ^ 40 / 100) / 2 ^ 53 + 2 ^ 40 / 2 ^ 1075"
    using cents_range_rat[OF r] k' by (intro add_mono divide_right_mono) auto
  also have "\<dots> \<le> 1 / 800000" by simp
  finally have "\<bar>rnd ?q * of_int k - of_int (n * k) / 100\<bar> \<le> 1 / 800000" .
  from fl_near[OF r this] show ?thesis
    by (auto simp: c js_int_def intro: approx_weaken)
qed

text \<open>Rounding to cents a value that lies between two amounts gives an amount between them.\<close>

lemma round2_between:
  assumes lo: "of_int lo / 100 - 1 / 1000 \<le> r" and hi: "r \<le> of_int hi / 100 + 1 / 1000"
    and range: "cents_range lo" "cents_range hi"
  shows "\<exists>n. lo \<le> n \<and> n \<le> hi \<and> round2 (Fin r) = cents n"
proof -
  have near: "of_int lo - 1 / 10 \<le> r * 100" "r * 100 \<le> of_int hi + 1 / 10"
    using lo hi by (simp_all add: field_simps)
  have "\<bar>of_int lo :: rat\<bar> \<le> 2 ^ 40" "\<bar>of_int hi :: rat\<bar> \<le> 2 ^ 40"
    using cents_range_rat[OF range(1)] cents_range_rat[OF range(2)] by simp_all
  with near have abs: "\<bar>r * 100\<bar> \<le> 2 ^ 40 + 1" by linarith
  also have "\<dots> \<le> 2 ^ 1000" by simp
  finally have f: "fl (r * 100) = Fin (rnd (r * 100))" by (rule fl_rnd)
  have "\<bar>r * 100\<bar> / 2 ^ 53 \<le> (2 ^ 40 + 1) / 2 ^ 53"
    using abs by (rule divide_right_mono) simp
  then have "\<bar>rnd (r * 100) - r * 100\<bar> \<le> (2 ^ 40 + 1) / 2 ^ 53 + 1 / 10 ^ 12"
    using rnd_err[of "r * 100"] tiny by (meson add_mono order_trans)
  also have "\<dots> \<le> 1 / 1000" by simp
  finally have err: "\<bar>rnd (r * 100) - r * 100\<bar> \<le> 1 / 1000" .
  define n where "n = \<lfloor>rnd (r * 100) + 1 / 2\<rfloor>"
  have "of_int lo \<le> rnd (r * 100) + 1 / 2" "rnd (r * 100) + 1 / 2 < of_int (hi + 1)"
    using near err unfolding of_int_add of_int_1 by linarith+
  then have "lo \<le> n" "n < hi + 1"
    unfolding n_def by (simp_all only: le_floor_iff floor_less_iff)
  moreover have "round2 (Fin r) = cents n"
    by (simp add: round2_def f cents_def n_def)
  ultimately show ?thesis by auto
qed

text \<open>A sum of one amount, and an amount by its significand.\<close>

lemma js_sum_one: "cents_range a \<Longrightarrow> js_sum [cents a] = cents a"
proof -
  assume a: "cents_range a"
  let ?q = "of_int a / 100 :: rat"
  note q = cents_range_rat[OF a]
  have "(2 :: rat) ^ 40 / 100 \<le> 2 ^ 41" "(2 :: rat) ^ 41 + 1 \<le> 2 ^ 1000" by simp_all
  then have c: "cents a = Fin (rnd ?q)" using q unfolding cents_def by (intro fl_rnd) linarith
  then have "\<bar>rnd ?q - ?q\<bar> \<le> 1 / 800000" using approx_cents[OF a] by (auto simp: approx_def)
  then have "\<bar>rnd ?q\<bar> \<le> 2 ^ 1000"
    using q \<open>(2 :: rat) ^ 40 / 100 \<le> 2 ^ 41\<close> \<open>(2 :: rat) ^ 41 + 1 \<le> 2 ^ 1000\<close> by linarith
  then show ?thesis by (simp add: c js_sum_def fl_rnd rnd_idem)
qed

lemma cents_at:
  assumes "2 powi k \<le> (of_int n / 100 :: rat)" and "of_int n / 100 < (2 :: rat) powi (k + 1)" and "- 1022 \<le> k"
    and "\<bar>of_int n / 100 / 2 powi (k - 52) - of_int m\<bar> < (1 / 2 :: rat)" and "cents_range n"
  shows "cents n = Fin (of_int m * 2 powi (k - 52))"
proof -
  have "\<bar>of_int n / 100 :: rat\<bar> \<le> 2 ^ 1000" using cents_range_rat[OF assms(5)] by (rule order_trans) simp
  then show ?thesis unfolding cents_def by (simp add: fl_rnd rnd_at[OF assms(1-4)])
qed

end
