(* ===== verification/Enums.thy ===== *)
theory Enums
  imports Prelude
begin

text \<open>
  The enumerations of \<open>prisma/schema.prisma\<close> and the exceptions of the service layer. Constructors
  that several enumerations share are written qualified, as in the source
  (\<open>OrderStatus.CANCELLED\<close>, \<open>InvoiceStatus.CANCELLED\<close>).

  An exception is its HTTP class with the static part of its message or its error code.
  \<open>DomainError\<close> is a plain \<open>Error\<close> of the domain layer and \<open>DbError\<close> an error the database client
  raises; the exception filter answers both with status 500.
\<close>

datatype UserRole = OWNER | ADMIN | FINANCE | MECHANIC | TRAINEE | CLIENT

datatype AccountStatus = ACTIVE | INACTIVE | TERMINATED

datatype OrderStatus = RECEIVED | IN_DIAGNOSIS | BUDGETED | IN_PROGRESS | IN_REVIEW | READY
  | DELIVERED | CANCELLED

datatype CashboxStatus = OPEN | CLOSED | CLOSED_NORMAL | CLOSED_WITH_DISCREPANCY | BLOCKED

datatype TransactionType = PAYMENT | EXPENSE | REFUND | ADJUSTMENT

datatype PaymentMethod = CASH | YAPE | PLIN | TRANSFER | CARD

datatype ExpenseCategory = PARTS | SUPPLIES | TOOLS | SERVICES | UTILITIES | SALARY
  | MAINTENANCE | OTHER

datatype ExpenseStatus = PENDING_APPROVAL | APPROVED | REJECTED | DISBURSED

datatype ApprovalLevel = FINANCE | ADMIN | OWNER | DUAL_OWNER

datatype MovementType = IN | OUT | ADJUSTMENT

datatype Currency = PEN | USD

datatype SalaryType = HOURLY | DAILY | WEEKLY | MONTHLY

datatype AttendanceType = PRESENT | ABSENT | LATE | HALF_DAY | PERMISSION | VACATION
  | SICK_LEAVE | HOLIDAY

datatype UsageStatus = PENDING_RETURN | RETURNED_ON_TIME | RETURNED_LATE | OVERDUE | UNAUTHORIZED

datatype InvoiceType = BOLETA | FACTURA | NOTA_CREDITO | NOTA_DEBITO | INTERNAL

datatype InvoiceStatus = DRAFT | ISSUED | PARTIALLY_PAID | PAID | OVERDUE | CANCELLED

datatype PaymentChannel = IN_PERSON | ONLINE | MOBILE

datatype ApprovalStatus = PENDING | APPROVED | REJECTED | CANCELLED

datatype ApprovalType = EXPENSE | VEHICLE_USAGE | SALARY_ADVANCE | CREDIT_NOTE | DISCOUNT
  | IMPORT_COMMISSION | INVENTORY_WRITE_OFF

datatype PurchaseStatus = DRAFT | SENT | CONFIRMED | PARTIALLY_RECEIVED | RECEIVED | CANCELLED

datatype QuoteStatus = DRAFT | SENT | APPROVED | REJECTED | EXPIRED | CONVERTED

datatype AuditSeverity = INFO | WARNING | CRITICAL | SECURITY_ALERT

datatype http_error =
    NotFound string
  | Conflict string
  | BadRequest string
  | Forbidden string
  | Unauthorized string
  | Unprocessable string
  | TooManyRequests string
  | DomainError string
  | DbError string

text \<open>The status code the exception filter answers with.\<close>

fun http_status :: "http_error \<Rightarrow> nat" where
  "http_status (NotFound _) = 404"
| "http_status (Conflict _) = 409"
| "http_status (BadRequest _) = 400"
| "http_status (Forbidden _) = 403"
| "http_status (Unauthorized _) = 401"
| "http_status (Unprocessable _) = 422"
| "http_status (TooManyRequests _) = 429"
| "http_status (DomainError _) = 500"
| "http_status (DbError _) = 500"

text \<open>The JWT roles of the three groups the services ask for.\<close>

definition management_roles :: "UserRole list" where
  "management_roles = [UserRole.OWNER, UserRole.ADMIN, UserRole.FINANCE]"

lemma management_roles_iff:
  "r \<in> set management_roles \<longleftrightarrow> r \<noteq> MECHANIC \<and> r \<noteq> TRAINEE \<and> r \<noteq> CLIENT"
  by (cases r) (simp_all add: management_roles_def)

end
