(* ===== verification/DomainMoney.thy ===== *)
theory DomainMoney
  imports CentsArith Enums
begin

text \<open>
  The value objects for money: \<open>Money\<close> (\<open>money.vo.ts\<close>) and \<open>CashAmount\<close> (\<open>cash-amount.vo.ts\<close>). Their
  amounts are doubles that every constructor rounds to cents. The interface \<open>cents_amount\<close> states
  what the entities rely on: on whole amounts of cents the two classes compute exactly as integers.
\<close>

section \<open>Money\<close>

record money =
  m_amount :: number
  m_currency :: string

text \<open>The private constructor: not finite or negative amounts are refused.\<close>

definition mk_money :: "number \<Rightarrow> string \<Rightarrow> http_error + money" where
  "mk_money a c =
     (if \<not> is_finite a \<or> js_lt a (Fin 0) then Inl (DomainError ''Invalid money amount'')
      else Inr \<lparr>m_amount = a, m_currency = c\<rparr>)"

definition money_of :: "number \<Rightarrow> string \<Rightarrow> http_error + money" where
  "money_of a c = mk_money (round2 a) c"

definition money_zero :: "string \<Rightarrow> http_error + money" where
  "money_zero c = mk_money (Fin 0) c"

text \<open>\<open>fromDecimal\<close>: a decimal column of \<open>n\<close> cents is printed and parsed to the nearest double.\<close>

definition money_from_decimal :: "int \<Rightarrow> string \<Rightarrow> http_error + money" where
  "money_from_decimal n c = money_of (cents n) c"

definition money_add :: "money \<Rightarrow> money \<Rightarrow> http_error + money" where
  "money_add a b =
     (if m_currency a \<noteq> m_currency b then Inl (DomainError ''Currency mismatch'')
      else money_of (js_add (m_amount a) (m_amount b)) (m_currency a))"

definition money_subtract :: "money \<Rightarrow> money \<Rightarrow> http_error + money" where
  "money_subtract a b =
     (if m_currency a \<noteq> m_currency b then Inl (DomainError ''Currency mismatch'')
      else money_of (js_max (Fin 0) (js_sub (m_amount a) (m_amount b))) (m_currency a))"

definition money_gt :: "money \<Rightarrow> money \<Rightarrow> bool" where
  "money_gt a b \<longleftrightarrow> js_lt (m_amount b) (m_amount a)"

definition money_ge :: "money \<Rightarrow> money \<Rightarrow> bool" where
  "money_ge a b \<longleftrightarrow> js_le (m_amount b) (m_amount a)"

definition money_equals :: "money \<Rightarrow> money \<Rightarrow> bool" where
  "money_equals a b \<longleftrightarrow> js_eq (m_amount a) (m_amount b) \<and> m_currency a = m_currency b"

text \<open>Soles as the entities hold them: \<open>n\<close> cents in the default currency.\<close>

definition soles :: "int \<Rightarrow> money" where
  "soles n = \<lparr>m_amount = cents n, m_currency = ''PEN''\<rparr>"

lemma cents_nonneg: "cents_range n \<Longrightarrow> 0 \<le> n \<Longrightarrow> \<not> js_lt (cents n) (Fin 0)"
  using cents_lt[of n 0] by (simp add: cents_range_def del: cents_lt)

lemma mk_money_cents:
  "cents_range n \<Longrightarrow> 0 \<le> n \<Longrightarrow> mk_money (cents n) c = Inr \<lparr>m_amount = cents n, m_currency = c\<rparr>"
  by (simp add: mk_money_def cents_nonneg)

lemma money_of_near:
  "approx (1 / 1000) x n \<Longrightarrow> cents_range n \<Longrightarrow> 0 \<le> n \<Longrightarrow>
     money_of x c = Inr \<lparr>m_amount = cents n, m_currency = c\<rparr>"
  by (simp add: money_of_def round2_near mk_money_cents)

lemma mk_money_sound:
  "mk_money a c = Inr m \<Longrightarrow> is_finite (m_amount m) \<and> \<not> js_lt (m_amount m) (Fin 0) \<and> m_currency m = c"
  by (auto simp: mk_money_def split: if_splits)

section \<open>CashAmount\<close>

record cash_amount =
  ca_soles :: number

definition mk_cash :: "number \<Rightarrow> http_error + cash_amount" where
  "mk_cash a =
     (if \<not> is_finite a \<or> js_lt a (Fin 0) then Inl (DomainError ''Invalid cash amount'')
      else Inr \<lparr>ca_soles = a\<rparr>)"

definition cash_of :: "number \<Rightarrow> http_error + cash_amount" where
  "cash_of a = mk_cash (round2 a)"

definition cash_zero :: "http_error + cash_amount" where
  "cash_zero = mk_cash (Fin 0)"

definition cash_add :: "cash_amount \<Rightarrow> cash_amount \<Rightarrow> http_error + cash_amount" where
  "cash_add a b = cash_of (js_add (ca_soles a) (ca_soles b))"

definition cash_subtract :: "cash_amount \<Rightarrow> cash_amount \<Rightarrow> http_error + cash_amount" where
  "cash_subtract a b = cash_of (js_max (Fin 0) (js_sub (ca_soles a) (ca_soles b)))"

definition cash_difference :: "cash_amount \<Rightarrow> cash_amount \<Rightarrow> number" where
  "cash_difference a expected = round2 (js_sub (ca_soles a) (ca_soles expected))"

definition exceeds_discrepancy_threshold :: "cash_amount \<Rightarrow> number \<Rightarrow> bool" where
  "exceeds_discrepancy_threshold a threshold \<longleftrightarrow> js_lt threshold (js_abs (ca_soles a))"

datatype CashApprovalLevel = FINANCE | ADMIN | OWNER | DUAL

definition requires_approval_level :: "cash_amount \<Rightarrow> CashApprovalLevel" where
  "requires_approval_level a =
     (if js_le (ca_soles a) (js_int 100) then CashApprovalLevel.FINANCE
      else if js_le (ca_soles a) (js_int 500) then CashApprovalLevel.ADMIN
      else if js_le (ca_soles a) (js_int 2000) then CashApprovalLevel.OWNER
      else DUAL)"

definition cash_equals :: "cash_amount \<Rightarrow> cash_amount \<Rightarrow> bool" where
  "cash_equals a b \<longleftrightarrow> js_eq (ca_soles a) (ca_soles b)"

definition cash :: "int \<Rightarrow> cash_amount" where
  "cash n = \<lparr>ca_soles = cents n\<rparr>"

lemma cash_of_near:
  "approx (1 / 1000) x n \<Longrightarrow> cents_range n \<Longrightarrow> 0 \<le> n \<Longrightarrow> cash_of x = Inr (cash n)"
  by (simp add: cash_of_def round2_near mk_cash_def cash_def cents_nonneg)

section \<open>The contract: exact arithmetic on cents\<close>

lemma approx_cents_add:
  "cents_range a \<Longrightarrow> cents_range b \<Longrightarrow> cents_range (a + b) \<Longrightarrow>
     approx (1 / 1000) (js_add (cents a) (cents b)) (a + b)"
  by (rule approx_weaken[OF approx_add[OF approx_cents approx_cents]]) auto

lemma approx_cents_sub:
  "cents_range a \<Longrightarrow> cents_range b \<Longrightarrow> cents_range (a - b) \<Longrightarrow>
     approx (1 / 1000) (js_sub (cents a) (cents b)) (a - b)"
  by (rule approx_weaken[OF approx_sub[OF approx_cents approx_cents]]) auto

lemma cents_range_parts:
  "0 \<le> a \<Longrightarrow> 0 \<le> b \<Longrightarrow> cents_range (a + b) \<Longrightarrow> cents_range a \<and> cents_range b \<and> cents_range (a - b)"
  by (auto simp: cents_range_def)

lemma approx_cents_monus:
  assumes "0 \<le> a" "0 \<le> b" "cents_range a" "cents_range b"
  shows "approx (1 / 1000) (js_max (Fin 0) (js_sub (cents a) (cents b))) (max 0 (a - b))"
proof -
  have "cents_range (a - b)" using assms by (auto simp: cents_range_def)
  moreover have "approx (1 / 1000) (Fin 0) 0" by (simp add: approx_def)
  ultimately show ?thesis using assms by (intro approx_max approx_cents_sub)
qed

locale cents_amount =
  fixes wrap :: "int \<Rightarrow> 'm"
    and plus_m :: "'m \<Rightarrow> 'm \<Rightarrow> http_error + 'm"
    and minus_m :: "'m \<Rightarrow> 'm \<Rightarrow> http_error + 'm"
  assumes plus_wrap: "0 \<le> a \<Longrightarrow> 0 \<le> b \<Longrightarrow> cents_range (a + b) \<Longrightarrow>
            plus_m (wrap a) (wrap b) = Inr (wrap (a + b))"
    and minus_wrap: "0 \<le> a \<Longrightarrow> 0 \<le> b \<Longrightarrow> cents_range a \<Longrightarrow> cents_range b \<Longrightarrow>
            minus_m (wrap a) (wrap b) = Inr (wrap (max 0 (a - b)))"
begin

lemma plus_commute:
  "0 \<le> a \<Longrightarrow> 0 \<le> b \<Longrightarrow> cents_range (a + b) \<Longrightarrow> plus_m (wrap a) (wrap b) = plus_m (wrap b) (wrap a)"
  by (simp add: plus_wrap add.commute)

lemma plus_then_minus:
  assumes "0 \<le> a" "0 \<le> b" "cents_range (a + b)"
  shows "plus_m (wrap a) (wrap b) = Inr (wrap (a + b)) \<and> minus_m (wrap (a + b)) (wrap b) = Inr (wrap a)"
  using assms cents_range_parts[OF assms] by (simp add: plus_wrap minus_wrap)

text \<open>Adding up any list of amounts never rounds and never fails.\<close>

lemma sum_exact:
  assumes "0 \<le> a" "\<forall>n \<in> set ns. 0 \<le> n" "cents_range (a + sum_list ns)"
  shows "foldl (\<lambda>acc n. case acc of Inl e \<Rightarrow> Inl e | Inr m \<Rightarrow> plus_m m (wrap n)) (Inr (wrap a)) ns
           = Inr (wrap (a + sum_list ns))"
  using assms
proof (induction ns arbitrary: a)
  case Nil
  then show ?case by simp
next
  case (Cons n ns)
  have "0 \<le> sum_list ns" using Cons.prems(2) by (intro sum_list_nonneg) auto
  then have "cents_range (a + n)" using Cons.prems by (auto simp: cents_range_def)
  with Cons show ?case by (simp add: plus_wrap add.assoc)
qed

end

interpretation money: cents_amount soles money_add money_subtract
proof unfold_locales
  fix a b :: int
  assume ab: "0 \<le> a" "0 \<le> b"
  show "money_add (soles a) (soles b) = Inr (soles (a + b))" if r: "cents_range (a + b)"
    using cents_range_parts[OF ab r] r ab
    by (simp add: money_add_def soles_def money_of_near[OF approx_cents_add])
  show "money_subtract (soles a) (soles b) = Inr (soles (max 0 (a - b)))"
    if r: "cents_range a" "cents_range b"
  proof -
    have "cents_range (max 0 (a - b))" using ab r by (auto simp: cents_range_def)
    with ab r show ?thesis
      by (simp add: money_subtract_def soles_def money_of_near[OF approx_cents_monus])
  qed
qed

interpretation cash: cents_amount cash cash_add cash_subtract
proof unfold_locales
  fix a b :: int
  assume ab: "0 \<le> a" "0 \<le> b"
  show "cash_add (cash a) (cash b) = Inr (cash (a + b))" if r: "cents_range (a + b)"
    using cents_range_parts[OF ab r] r ab cash_of_near[OF approx_cents_add]
    by (simp add: cash_add_def cash_def)
  show "cash_subtract (cash a) (cash b) = Inr (cash (max 0 (a - b)))"
    if r: "cents_range a" "cents_range b"
  proof -
    have "cents_range (max 0 (a - b))" using ab r by (auto simp: cents_range_def)
    with ab r show ?thesis
      using cash_of_near[OF approx_cents_monus] by (simp add: cash_subtract_def cash_def)
  qed
qed

lemma money_gt_soles [simp]: "cents_range a \<Longrightarrow> cents_range b \<Longrightarrow> money_gt (soles a) (soles b) \<longleftrightarrow> b < a"
  by (simp add: money_gt_def soles_def)

lemma money_ge_soles [simp]: "cents_range a \<Longrightarrow> cents_range b \<Longrightarrow> money_ge (soles a) (soles b) \<longleftrightarrow> b \<le> a"
  by (simp add: money_ge_def soles_def)

lemma money_from_decimal_soles:
  "0 \<le> n \<Longrightarrow> cents_range n \<Longrightarrow> money_from_decimal n ''PEN'' = Inr (soles n)"
  by (simp add: money_from_decimal_def money_of_def mk_money_cents soles_def)

lemma cents_le_int:
  assumes "cents_range n" "0 \<le> k" "k \<le> 10 ^ 6"
  shows "js_le (cents n) (js_int k) \<longleftrightarrow> n \<le> 100 * k"
proof -
  have "cents (100 * k) = js_int k" using assms by (intro cents_whole) auto
  moreover have "cents_range (100 * k)" using assms by (auto simp: cents_range_def)
  ultimately show ?thesis using assms cents_le[of n "100 * k"] by simp
qed

lemma requires_approval_level_cents:
  assumes "cents_range n"
  shows "requires_approval_level (cash n) =
    (if n \<le> 10000 then CashApprovalLevel.FINANCE else if n \<le> 50000 then CashApprovalLevel.ADMIN
     else if n \<le> 200000 then CashApprovalLevel.OWNER else DUAL)"
  using assms by (simp add: requires_approval_level_def cash_def cents_le_int)

lemma cash_difference_cents:
  "cents_range a \<Longrightarrow> cents_range b \<Longrightarrow> cents_range (a - b) \<Longrightarrow>
     cash_difference (cash a) (cash b) = cents (a - b)"
  by (simp add: cash_difference_def cash_def round2_near[OF approx_cents_sub])

section \<open>Properties\<close>

text \<open>
  Money is exact on cents: any list of amounts added one after the other to a starting amount gives
  the amount of their sum, with no rounding and no error, and subtracting what was added gives the
  starting amount back.
\<close>

theorem money_sums_exact:
  assumes "0 \<le> a" and "\<forall>n \<in> set ns. 0 \<le> n" and "cents_range (a + sum_list ns)"
  shows "foldl (\<lambda>acc n. case acc of Inl e \<Rightarrow> Inl e | Inr m \<Rightarrow> money_add m (soles n)) (Inr (soles a)) ns
      = Inr (soles (a + sum_list ns))
    \<and> money_subtract (soles (a + sum_list ns)) (soles (sum_list ns)) = Inr (soles a)"
proof -
  have "0 \<le> sum_list ns" using assms(2) by (intro sum_list_nonneg) auto
  then show ?thesis
    using money.sum_exact[OF assms] money.plus_then_minus[OF assms(1) _ assms(3)] by simp
qed

theorem money_sums_exact_witness:
  "foldl (\<lambda>acc n. case acc of Inl e \<Rightarrow> Inl e | Inr m \<Rightarrow> money_add m (soles n)) (Inr (soles 10)) [20, 70, 5]
      = Inr (soles 105)
    \<and> money_subtract (soles 105) (soles 95) = Inr (soles 10)"
  using money_sums_exact[of 10 "[20, 70, 5]"] by (simp add: cents_range_def del: foldl_Cons)

text \<open>
  The level that has to authorise an amount of cash follows the amount: up to 100 soles \<open>FINANCE\<close>, up
  to 500 \<open>ADMIN\<close>, up to 2000 \<open>OWNER\<close>, above that two owners; the comparisons on the stored double decide
  exactly as on cents, boundaries included.
\<close>

theorem approval_level_bands:
  assumes "cents_range n"
  shows "requires_approval_level (cash n) =
    (if n \<le> 100 * 100 then CashApprovalLevel.FINANCE else if n \<le> 500 * 100 then CashApprovalLevel.ADMIN
     else if n \<le> 2000 * 100 then CashApprovalLevel.OWNER else DUAL)"
  using requires_approval_level_cents[OF assms] by simp

theorem approval_level_bands_witness:
  "requires_approval_level (cash 50000) = CashApprovalLevel.ADMIN
   \<and> requires_approval_level (cash 50001) = CashApprovalLevel.OWNER"
  using approval_level_bands[of 50000] approval_level_bands[of 50001] by (simp add: cents_range_def)

end
