(* ===== verification/DomainInventory.thy ===== *)
theory DomainInventory
  imports DomainMoney
begin

text \<open>
  The inventory domain: \<open>StockQuantity\<close>, the entity \<open>InventoryItem\<close> and the import costing of
  \<open>LandedCost\<close>, which prorates customs and commission over the lines of a purchase and blends the
  cost of a reception into the cost of the stock already there.
\<close>

section \<open>StockQuantity\<close>

record stock_quantity =
  sq_units :: number

definition stock_of :: "number \<Rightarrow> http_error + stock_quantity" where
  "stock_of u =
     (if \<not> is_integer u \<or> js_lt u (Fin 0) then Inl (DomainError ''Invalid stock quantity'')
      else Inr \<lparr>sq_units = u\<rparr>)"

definition stock_zero :: "http_error + stock_quantity" where
  "stock_zero = stock_of (Fin 0)"

definition stock_add :: "stock_quantity \<Rightarrow> stock_quantity \<Rightarrow> http_error + stock_quantity" where
  "stock_add a b = stock_of (js_add (sq_units a) (sq_units b))"

definition stock_subtract :: "stock_quantity \<Rightarrow> stock_quantity \<Rightarrow> http_error + stock_quantity" where
  "stock_subtract a b =
     (let result = js_sub (sq_units a) (sq_units b)
      in if js_lt result (Fin 0) then Inl (DomainError ''Insufficient stock'') else stock_of result)"

definition stock_below_minimum :: "stock_quantity \<Rightarrow> stock_quantity \<Rightarrow> bool" where
  "stock_below_minimum a m \<longleftrightarrow> js_lt (sq_units a) (sq_units m)"

definition stock_critical :: "stock_quantity \<Rightarrow> stock_quantity \<Rightarrow> bool" where
  "stock_critical a m \<longleftrightarrow>
     js_eq (sq_units a) (Fin 0) \<or> js_le (sq_units a) (js_ceil (js_div (sq_units m) (Fin 2)))"

definition stock_equals :: "stock_quantity \<Rightarrow> stock_quantity \<Rightarrow> bool" where
  "stock_equals a b \<longleftrightarrow> js_eq (sq_units a) (sq_units b)"

definition units :: "int \<Rightarrow> stock_quantity" where
  "units n = \<lparr>sq_units = js_int n\<rparr>"

lemma stock_of_int [simp]:
  "stock_of (js_int n) = (if n < 0 then Inl (DomainError ''Invalid stock quantity'') else Inr (units n))"
  by (simp add: stock_of_def js_int_def units_def)

lemma stock_of_sound:
  assumes "stock_of u = Inr a"
  obtains n where "0 \<le> n" "a = units n"
proof -
  obtain r where r: "u = Fin r" "r = of_int \<lfloor>r\<rfloor>" "\<not> r < 0" "a = \<lparr>sq_units = u\<rparr>"
    using assms by (cases u) (auto simp: stock_of_def split: if_splits)
  then have "a = units \<lfloor>r\<rfloor>" "0 \<le> \<lfloor>r\<rfloor>" by (simp_all add: units_def js_int_def)
  then show ?thesis using that by blast
qed

lemma js_int_add: "\<bar>a + b\<bar> \<le> 2 ^ 53 \<Longrightarrow> js_add (js_int a) (js_int b) = js_int (a + b)"
  using fl_int[of "a + b"] by (simp add: js_int_def)

lemma js_int_sub: "\<bar>a - b\<bar> \<le> 2 ^ 53 \<Longrightarrow> js_sub (js_int a) (js_int b) = js_int (a - b)"
  using fl_int[of "a - b"] by (simp add: js_int_def)

lemma js_int_mul: "\<bar>a * b\<bar> \<le> 2 ^ 53 \<Longrightarrow> js_mul (js_int a) (js_int b) = js_int (a * b)"
  using fl_int[of "a * b"] by (simp add: js_int_def)

lemma js_int_lt [simp]: "js_lt (js_int a) (js_int b) \<longleftrightarrow> a < b"
  by (simp add: js_int_def)

lemma js_int_le [simp]: "js_le (js_int a) (js_int b) \<longleftrightarrow> a \<le> b"
  by (simp add: js_int_def)

lemma js_int_eq [simp]: "js_eq (js_int a) (js_int b) \<longleftrightarrow> a = b"
  by (simp add: js_int_def)

lemma js_int_0: "Fin 0 = js_int 0"
  by (simp add: js_int_def)

lemma stock_add_units:
  "0 \<le> a \<Longrightarrow> 0 \<le> b \<Longrightarrow> a + b \<le> 2 ^ 53 \<Longrightarrow> stock_add (units a) (units b) = Inr (units (a + b))"
  by (simp add: stock_add_def units_def[of a] units_def[of b] js_int_add)

lemma stock_subtract_units:
  assumes "0 \<le> a" "0 \<le> b" "a \<le> 2 ^ 53" "b \<le> 2 ^ 53"
  shows "stock_subtract (units a) (units b) =
    (if a < b then Inl (DomainError ''Insufficient stock'') else Inr (units (a - b)))"
proof -
  have "js_sub (js_int a) (js_int b) = js_int (a - b)" using assms by (intro js_int_sub) auto
  then show ?thesis
    by (simp add: stock_subtract_def units_def[of a] units_def[of b] js_int_0)
qed

lemma stock_critical_units:
  assumes "0 \<le> m" "m \<le> 2 ^ 52"
  shows "stock_critical (units a) (units m) \<longleftrightarrow> a = 0 \<or> a \<le> (m + 1) div 2"
proof -
  have r: "rnd (of_int m / 2) = of_int m / 2"
    using assms by (intro rnd_representable[of _ m "- 1"]) (auto simp: power_int_minus)
  have "of_int m \<le> (of_int (2 ^ 52) :: rat)" using assms by (simp only: of_int_le_iff)
  then have "\<bar>of_int m / 2 :: rat\<bar> \<le> of_int (2 ^ 52)" using assms by simp
  also have "\<dots> \<le> 2 ^ 1000" by simp
  finally have "fl (of_int m / 2) = Fin (of_int m / 2)" by (simp add: fl_rnd r)
  moreover have "\<lceil>of_int m / 2 :: rat\<rceil> = (m + 1) div 2"
    using ceiling_divide_eq_div[of m 2, where ?'a = rat] by simp
  ultimately show ?thesis by (auto simp: stock_critical_def units_def js_int_def)
qed

section \<open>InventoryItem\<close>

record inventory_item_entity =
  ie_id :: string
  ie_code :: string
  ie_name :: string
  ie_category :: "string option"
  ie_current_stock :: stock_quantity
  ie_min_stock :: stock_quantity
  ie_cost_price :: money
  ie_sale_price :: money
  ie_updated_at :: int

definition item_below_min_stock :: "inventory_item_entity \<Rightarrow> bool" where
  "item_below_min_stock i \<longleftrightarrow> stock_below_minimum (ie_current_stock i) (ie_min_stock i)"

definition item_critical_stock :: "inventory_item_entity \<Rightarrow> bool" where
  "item_critical_stock i \<longleftrightarrow> stock_critical (ie_current_stock i) (ie_min_stock i)"

definition apply_movement ::
    "int \<Rightarrow> inventory_item_entity \<Rightarrow> MovementType \<Rightarrow> stock_quantity \<Rightarrow> http_error + inventory_item_entity" where
  "apply_movement now i type quantity =
     (case (case type of
              IN \<Rightarrow> stock_add (ie_current_stock i) quantity
            | OUT \<Rightarrow> stock_subtract (ie_current_stock i) quantity
            | MovementType.ADJUSTMENT \<Rightarrow> Inr quantity) of
        Inl e \<Rightarrow> Inl e
      | Inr new_stock \<Rightarrow> Inr (i\<lparr>ie_current_stock := new_stock, ie_updated_at := now\<rparr>))"

definition valuation_at_cost :: "inventory_item_entity \<Rightarrow> http_error + money" where
  "valuation_at_cost i =
     money_of (js_mul (m_amount (ie_cost_price i)) (sq_units (ie_current_stock i))) ''PEN''"

definition valuation_at_sale :: "inventory_item_entity \<Rightarrow> http_error + money" where
  "valuation_at_sale i =
     money_of (js_mul (m_amount (ie_sale_price i)) (sq_units (ie_current_stock i))) ''PEN''"


definition item_wf :: "inventory_item_entity \<Rightarrow> bool" where
  "item_wf i \<longleftrightarrow> (\<exists>n. 0 \<le> n \<and> ie_current_stock i = units n)"

lemma apply_movement_wf:
  assumes "apply_movement now i type q = Inr i'" and "item_wf i" and "\<exists>n. 0 \<le> n \<and> q = units n"
  shows "item_wf i'"
proof -
  obtain s where s: "i' = i\<lparr>ie_current_stock := s, ie_updated_at := now\<rparr>"
    and c: "(case type of IN \<Rightarrow> stock_add (ie_current_stock i) q
      | OUT \<Rightarrow> stock_subtract (ie_current_stock i) q
      | MovementType.ADJUSTMENT \<Rightarrow> Inr q) = Inr s"
    using assms(1) by (auto simp: apply_movement_def split: sum.splits)
  have "\<exists>n. 0 \<le> n \<and> s = units n"
    using c assms(3)
    by (auto simp: stock_add_def stock_subtract_def Let_def
        split: MovementType.splits if_splits elim: stock_of_sound)
  then show ?thesis by (simp add: item_wf_def s)
qed

section \<open>LandedCost\<close>

record purchase_line =
  pl_item_id :: string
  pl_quantity :: int
  pl_unit_cost :: number

record landed_cost_allocation =
  al_item_id :: string
  al_quantity :: int
  al_base_unit_cost :: number
  al_customs_per_unit :: number
  al_commission_per_unit :: number
  al_landed_unit_cost :: number

definition assert_import_declaration :: "bool \<Rightarrow> number \<Rightarrow> http_error + unit" where
  "assert_import_declaration is_imported customs =
     (if is_imported \<and> js_le customs (Fin 0)
      then Inl (DomainError ''Compra marcada como importada debe declarar un costo de aduana'')
      else Inr ())"

text \<open>\<open>null\<close> and \<open>undefined\<close> are both \<open>None\<close>; \<open>!!x\<close> is false on zero, not-a-number and the empty string.\<close>

definition truthy_number :: "number option \<Rightarrow> bool" where
  "truthy_number x = (case x of None \<Rightarrow> False | Some v \<Rightarrow> v \<noteq> NaN \<and> v \<noteq> Fin 0)"

definition truthy_string :: "string option \<Rightarrow> bool" where
  "truthy_string x = (case x of None \<Rightarrow> False | Some v \<Rightarrow> v \<noteq> [])"

definition assert_commission_recipient :: "number option \<Rightarrow> string option \<Rightarrow> http_error + unit" where
  "assert_commission_recipient commission_amount commission_to =
     (let has_amount = (case commission_amount of None \<Rightarrow> False
            | Some v \<Rightarrow> truthy_number commission_amount \<and> js_lt (Fin 0) v);
          has_recipient = truthy_string commission_to
      in if has_amount \<noteq> has_recipient
         then Inl (DomainError ''commissionAmount y commissionTo deben declararse juntos'')
         else Inr ())"

definition line_subtotal :: "purchase_line \<Rightarrow> number" where
  "line_subtotal l = js_mul (js_int (pl_quantity l)) (pl_unit_cost l)"

definition lines_subtotal :: "purchase_line list \<Rightarrow> number" where
  "lines_subtotal lines = foldl (\<lambda>sum l. js_add sum (line_subtotal l)) (Fin 0) lines"

definition allocate_line :: "number \<Rightarrow> number \<Rightarrow> number \<Rightarrow> purchase_line \<Rightarrow> landed_cost_allocation" where
  "allocate_line subtotal customs commission l =
     (let share = (if js_lt (Fin 0) subtotal then js_div (line_subtotal l) subtotal else Fin 0);
          q = js_int (pl_quantity l);
          customs_per_unit = (if 0 < pl_quantity l then js_div (js_mul customs share) q else Fin 0);
          commission_per_unit =
            (if 0 < pl_quantity l then js_div (js_mul commission share) q else Fin 0)
      in \<lparr>al_item_id = pl_item_id l, al_quantity = pl_quantity l, al_base_unit_cost = pl_unit_cost l,
          al_customs_per_unit = round2 customs_per_unit,
          al_commission_per_unit = round2 commission_per_unit,
          al_landed_unit_cost =
            round2 (js_add (js_add (pl_unit_cost l) customs_per_unit) commission_per_unit)\<rparr>)"

definition allocate :: "purchase_line list \<Rightarrow> number \<Rightarrow> number \<Rightarrow> landed_cost_allocation list" where
  "allocate lines customs commission =
     map (allocate_line (lines_subtotal lines) customs commission) lines"

record blended_cost =
  bl_cost_price :: number
  bl_customs_cost :: number

definition blend_average_cost ::
    "int \<Rightarrow> number \<Rightarrow> number \<Rightarrow> int \<Rightarrow> number \<Rightarrow> number \<Rightarrow> blended_cost" where
  "blend_average_cost existing_stock existing_cost existing_customs incoming_qty incoming_cost
       incoming_customs =
     (let total_qty = js_add (js_int existing_stock) (js_int incoming_qty)
      in if js_le total_qty (Fin 0)
         then \<lparr>bl_cost_price = incoming_cost, bl_customs_cost = incoming_customs\<rparr>
         else
           \<lparr>bl_cost_price =
               round2 (js_div (js_add (js_mul (js_int existing_stock) existing_cost)
                                      (js_mul (js_int incoming_qty) incoming_cost)) total_qty),
             bl_customs_cost =
               round2 (js_div (js_add (js_mul (js_int existing_stock) existing_customs)
                                      (js_mul (js_int incoming_qty) incoming_customs)) total_qty)\<rparr>)"

lemma allocate_items: "map al_item_id (allocate lines c k) = map pl_item_id lines"
  by (simp add: allocate_def allocate_line_def Let_def comp_def)

lemma js_mul_commute: "js_mul x y = js_mul y x"
  by (cases x; cases y) (simp_all add: mult.commute)

text \<open>
  The weighted average of two costs, computed in floating point and rounded to cents, lies between
  the two costs.
\<close>

definition weighted_average :: "int \<Rightarrow> number \<Rightarrow> int \<Rightarrow> number \<Rightarrow> number" where
  "weighted_average s c q d =
     round2 (js_div (js_add (js_mul (js_int s) c) (js_mul (js_int q) d)) (js_add (js_int s) (js_int q)))"

lemma weighted_average_between:
  assumes sq: "0 \<le> s" "0 \<le> q" "0 < s + q" "s + q \<le> 2 ^ 40"
    and lo: "0 \<le> lo" "lo \<le> c" "lo \<le> d" and hi: "c \<le> hi" "d \<le> hi"
    and range: "cents_range (hi * (s + q))"
  shows "\<exists>n. lo \<le> n \<and> n \<le> hi \<and> weighted_average s (cents c) q (cents d) = cents n"
proof -
  let ?T = "s + q" and ?A = "c * s + d * q"
  have up: "c * s \<le> hi * s" "d * q \<le> hi * q" and down: "lo * s \<le> c * s" "lo * q \<le> d * q"
    using sq lo hi by (simp_all add: mult_right_mono)
  have nonneg: "0 \<le> c * s" "0 \<le> d * q" "0 \<le> hi * s" "0 \<le> hi * q"
    using sq lo hi by simp_all
  have hi_le: "hi \<le> hi * ?T" using sq lo hi by (simp add: mult_le_cancel_left1)
  have T_le: "\<bar>hi * ?T\<bar> \<le> 2 ^ 40" using range by (simp add: cents_range_def)
  have ranges: "cents_range (c * s)" "cents_range (d * q)" "cents_range ?A"
      "cents_range c" "cents_range d" "cents_range hi" "cents_range lo"
    using up nonneg hi_le T_le lo hi by (auto simp: cents_range_def distrib_left)
  have "approx (1 / 200000 + 1 / 200000 + 1 / 800000)
      (js_add (js_mul (cents c) (js_int s)) (js_mul (cents d) (js_int q))) ?A"
    using sq ranges by (intro approx_add approx_cents_mul_int) auto
  then obtain r where X: "js_add (js_mul (js_int s) (cents c)) (js_mul (js_int q) (cents d)) = Fin r"
    and r: "\<bar>r - of_int ?A / 100\<bar> \<le> 1 / 10000"
    by (auto simp: approx_def js_mul_commute)
  have total: "js_add (js_int s) (js_int q) = Fin (of_int ?T)"
    using sq js_int_add[of s q] by (simp add: js_int_def)
  have T1: "1 \<le> (of_int ?T :: rat)" using sq by (simp only: of_int_1_le_iff)
  have A: "of_int (lo * ?T) \<le> (of_int ?A :: rat)" "of_int ?A \<le> (of_int (hi * ?T) :: rat)"
    using up down by (simp_all only: of_int_le_iff distrib_left)
  have bounds: "of_int lo / 100 - 1 / 10000 \<le> r / of_int ?T" "r / of_int ?T \<le> of_int hi / 100 + 1 / 10000"
  proof -
    have "(x / 100 - 1 / 10000) * t \<le> (a / 100 - 1 / 10000 :: rat)" if "x * t \<le> a" "1 \<le> t" for x t a
      using that by (simp add: left_diff_distrib)
    then have "(of_int lo / 100 - 1 / 10000) * of_int ?T \<le> (of_int ?A / 100 - 1 / 10000 :: rat)"
      using A(1) T1 by (metis of_int_mult)
    then have "(of_int lo / 100 - 1 / 10000) * of_int ?T \<le> r"
      using r[unfolded abs_le_iff] by linarith
    then show "of_int lo / 100 - 1 / 10000 \<le> r / of_int ?T"
      using T1 by (subst pos_le_divide_eq) linarith+
    have "a / 100 + 1 / 10000 \<le> (x / 100 + 1 / 10000 :: rat) * t" if "a \<le> x * t" "1 \<le> t" for x t a
      using that by (simp add: distrib_right)
    then have "of_int ?A / 100 + 1 / 10000 \<le> (of_int hi / 100 + 1 / 10000 :: rat) * of_int ?T"
      using A(2) T1 by (metis of_int_mult)
    then have "r \<le> (of_int hi / 100 + 1 / 10000) * of_int ?T"
      using r[unfolded abs_le_iff] by linarith
    then show "r / of_int ?T \<le> of_int hi / 100 + 1 / 10000"
      using T1 by (subst pos_divide_le_eq) linarith+
  qed
  have "\<bar>of_int lo / 100 :: rat\<bar> \<le> 2 ^ 40 / 100" "\<bar>of_int hi / 100 :: rat\<bar> \<le> 2 ^ 40 / 100"
    using cents_range_rat[OF ranges(6)] cents_range_rat[OF ranges(7)] by simp_all
  with bounds have abs: "\<bar>r / of_int ?T\<bar> \<le> 2 ^ 40 / 100 + 1" by linarith
  also have "\<dots> \<le> 2 ^ 1000" by simp
  finally have f: "fl (r / of_int ?T) = Fin (rnd (r / of_int ?T))" by (rule fl_rnd)
  have "\<bar>r / of_int ?T\<bar> / 2 ^ 53 \<le> (2 ^ 40 / 100 + 1) / 2 ^ 53"
    using abs by (rule divide_right_mono) simp
  then have "\<bar>rnd (r / of_int ?T) - r / of_int ?T\<bar> \<le> (2 ^ 40 / 100 + 1) / 2 ^ 53 + 1 / 10 ^ 12"
    using rnd_err[of "r / of_int ?T"] tiny by (meson add_mono order_trans)
  also have "\<dots> \<le> 1 / 10000" by simp
  finally have err: "\<bar>rnd (r / of_int ?T) - r / of_int ?T\<bar> \<le> 1 / 10000" .
  have w: "weighted_average s (cents c) q (cents d) = round2 (Fin (rnd (r / of_int ?T)))"
    using T1 by (simp add: weighted_average_def X total f del: of_int_add)
  show ?thesis unfolding w
    by (rule round2_between) (use bounds err ranges in linarith | simp add: ranges)+
qed

lemma blend_average_cost_eq:
  assumes "0 < s + q" and "\<bar>s + q\<bar> \<le> 2 ^ 53"
  shows "blend_average_cost s c k q d l =
    \<lparr>bl_cost_price = weighted_average s c q d, bl_customs_cost = weighted_average s k q l\<rparr>"
  using assms
  by (simp add: blend_average_cost_def weighted_average_def Let_def js_int_add js_int_0)

section \<open>Properties\<close>

text \<open>
  The average cost after a reception lies between the cost of the stock and the cost of what came in,
  also after the rounding to cents: a reception can never push the recorded cost or the recorded customs
  outside the two values it blends.
\<close>

theorem blended_cost_between:
  assumes "0 \<le> s" "0 \<le> q" "0 < s + q" "s + q \<le> 2 ^ 40"
    and "0 \<le> c" "0 \<le> k" "0 \<le> d" "0 \<le> l"
    and "cents_range (max c d * (s + q))" "cents_range (max k l * (s + q))"
  shows "\<exists>x y. blend_average_cost s (cents c) (cents k) q (cents d) (cents l) =
      \<lparr>bl_cost_price = cents x, bl_customs_cost = cents y\<rparr>
    \<and> min c d \<le> x \<and> x \<le> max c d \<and> min k l \<le> y \<and> y \<le> max k l"
proof -
  obtain x where x: "min c d \<le> x" "x \<le> max c d" "weighted_average s (cents c) q (cents d) = cents x"
    using weighted_average_between[of s q "min c d" c d "max c d"] assms by auto
  obtain y where y: "min k l \<le> y" "y \<le> max k l" "weighted_average s (cents k) q (cents l) = cents y"
    using weighted_average_between[of s q "min k l" k l "max k l"] assms by auto
  have "\<bar>s + q\<bar> \<le> 2 ^ 53" using assms by auto
  then show ?thesis using x y assms(3) by (auto simp: blend_average_cost_eq)
qed

theorem blended_cost_between_witness:
  "\<exists>x y. blend_average_cost 10 (cents 2500) (cents 0) 5 (cents 3110) (cents 140) =
      \<lparr>bl_cost_price = cents x, bl_customs_cost = cents y\<rparr>
    \<and> 2500 \<le> x \<and> x \<le> 3110 \<and> 0 \<le> y \<and> y \<le> 140"
  using blended_cost_between[of 10 5 2500 0 3110 140] by (simp add: cents_range_def)

text \<open>
  Movements of an item on whole units: a receipt adds, a withdrawal is refused when it exceeds the
  stock and subtracts otherwise, an adjustment sets; the stock stays a whole number that is not negative.
\<close>

theorem apply_movement_units:
  assumes "ie_current_stock i = units s" "0 \<le> s" "0 \<le> q" "s + q \<le> 2 ^ 53"
  shows "apply_movement now i type (units q) =
    (case type of
       IN \<Rightarrow> Inr (i\<lparr>ie_current_stock := units (s + q), ie_updated_at := now\<rparr>)
     | OUT \<Rightarrow> if s < q then Inl (DomainError ''Insufficient stock'')
              else Inr (i\<lparr>ie_current_stock := units (s - q), ie_updated_at := now\<rparr>)
     | MovementType.ADJUSTMENT \<Rightarrow> Inr (i\<lparr>ie_current_stock := units q, ie_updated_at := now\<rparr>))
    \<and> (\<forall>i'. apply_movement now i type (units q) = Inr i' \<longrightarrow> item_wf i')"
proof -
  have "item_wf i" using assms by (auto simp: item_wf_def)
  then have "\<forall>i'. apply_movement now i type (units q) = Inr i' \<longrightarrow> item_wf i'"
    using apply_movement_wf[of now i type "units q"] assms(3) by blast
  then show ?thesis
    using assms stock_subtract_units[of s q]
    by (cases type) (auto simp: apply_movement_def stock_add_units)
qed

theorem apply_movement_units_witness:
  "\<exists>i. ie_current_stock i = units 3
     \<and> apply_movement 9 i OUT (units 4) = Inl (DomainError ''Insufficient stock'')"
proof -
  obtain i :: inventory_item_entity where i: "ie_current_stock i = units 3"
    by (metis inventory_item_entity.select_convs(5))
  show ?thesis using apply_movement_units[OF i, of 4 9 OUT] i by auto
qed

end
