(* ===== verification/DomainWorkOrders.thy ===== *)
theory DomainWorkOrders
  imports DomainMoney
begin

text \<open>
  The work-order domain: the status value object of \<open>order-status.vo.ts\<close>, a string with a table of
  allowed transitions, and the entity \<open>WorkOrder\<close> of \<open>work-order.entity.ts\<close>. The lemmas show what
  the string machine does on the eight statuses of the schema, and what the rules of the entity
  accept on amounts of cents.
\<close>

section \<open>OrderStatus\<close>

record order_status =
  os_value :: string

text \<open>
  The lookup \<open>VALID_TRANSITIONS[value]\<close> reads an object literal: it also finds the members every
  object inherits from \<open>Object.prototype\<close>, which are truthy but no lists.
\<close>

datatype property = Own "string list" | Inherited | Undefined

definition object_prototype :: "string list" where
  "object_prototype =
     [''constructor'', ''__defineGetter__'', ''__defineSetter__'', ''hasOwnProperty'',
      ''__lookupGetter__'', ''__lookupSetter__'', ''isPrototypeOf'', ''propertyIsEnumerable'',
      ''toString'', ''valueOf'', ''__proto__'', ''toLocaleString'']"

definition valid_transitions_table :: "(string \<times> string list) list" where
  "valid_transitions_table =
     [(''RECEIVED'', [''IN_DIAGNOSIS'', ''CANCELLED'']),
      (''IN_DIAGNOSIS'', [''BUDGETED'', ''CANCELLED'']),
      (''BUDGETED'', [''IN_PROGRESS'', ''CANCELLED'']),
      (''IN_PROGRESS'', [''IN_REVIEW'', ''READY'', ''CANCELLED'']),
      (''IN_REVIEW'', [''READY'', ''IN_PROGRESS'', ''CANCELLED'']),
      (''READY'', [''DELIVERED'', ''CANCELLED'']),
      (''DELIVERED'', []),
      (''CANCELLED'', [])]"

definition valid_transitions :: "string \<Rightarrow> property" where
  "valid_transitions v =
     (case map_of valid_transitions_table v of
        Some ss \<Rightarrow> Own ss
      | None \<Rightarrow> if v \<in> set object_prototype then Inherited else Undefined)"

definition order_status_from :: "string \<Rightarrow> http_error + order_status" where
  "order_status_from v =
     (if valid_transitions v = Undefined then Inl (DomainError ''Invalid OrderStatus'')
      else Inr \<lparr>os_value = v\<rparr>)"

definition can_transition_to :: "order_status \<Rightarrow> order_status \<Rightarrow> http_error + bool" where
  "can_transition_to s n =
     (case valid_transitions (os_value s) of
        Own ss \<Rightarrow> Inr (os_value n \<in> set ss)
      | Inherited \<Rightarrow> Inl (DomainError ''includes is not a function'')
      | Undefined \<Rightarrow> Inr False)"

definition allowed_transitions :: "order_status \<Rightarrow> http_error + string list" where
  "allowed_transitions s =
     (case valid_transitions (os_value s) of
        Own ss \<Rightarrow> Inr ss
      | Inherited \<Rightarrow> Inl (DomainError ''not iterable'')
      | Undefined \<Rightarrow> Inr [])"

definition is_terminal :: "order_status \<Rightarrow> bool" where
  "is_terminal s \<longleftrightarrow> os_value s = ''DELIVERED'' \<or> os_value s = ''CANCELLED''"

definition status_equals :: "order_status \<Rightarrow> order_status \<Rightarrow> bool" where
  "status_equals a b \<longleftrightarrow> os_value a = os_value b"

text \<open>The enumeration of the database, its names, and the typed view of the table.\<close>

fun status_name :: "OrderStatus \<Rightarrow> string" where
  "status_name OrderStatus.RECEIVED = ''RECEIVED''"
| "status_name IN_DIAGNOSIS = ''IN_DIAGNOSIS''"
| "status_name BUDGETED = ''BUDGETED''"
| "status_name IN_PROGRESS = ''IN_PROGRESS''"
| "status_name IN_REVIEW = ''IN_REVIEW''"
| "status_name READY = ''READY''"
| "status_name DELIVERED = ''DELIVERED''"
| "status_name OrderStatus.CANCELLED = ''CANCELLED''"

definition vo :: "OrderStatus \<Rightarrow> order_status" where
  "vo s = \<lparr>os_value = status_name s\<rparr>"

text \<open>\<open>VALID_TRANSITIONS\<close> of \<open>orders.service.ts\<close>: a second table, over the enumeration.\<close>

fun order_transitions :: "OrderStatus \<Rightarrow> OrderStatus list" where
  "order_transitions OrderStatus.RECEIVED = [IN_DIAGNOSIS, OrderStatus.CANCELLED]"
| "order_transitions IN_DIAGNOSIS = [BUDGETED, OrderStatus.CANCELLED]"
| "order_transitions BUDGETED = [IN_PROGRESS, OrderStatus.CANCELLED]"
| "order_transitions IN_PROGRESS = [IN_REVIEW, READY, OrderStatus.CANCELLED]"
| "order_transitions IN_REVIEW = [READY, IN_PROGRESS, OrderStatus.CANCELLED]"
| "order_transitions READY = [DELIVERED, OrderStatus.CANCELLED]"
| "order_transitions DELIVERED = []"
| "order_transitions OrderStatus.CANCELLED = []"

interpretation order_machine: status_machine order_transitions OrderStatus.CANCELLED
proof
  show "a \<notin> set (order_transitions a)" for a by (cases a) simp_all
  show "OrderStatus.CANCELLED \<in> set (order_transitions a)" if "order_transitions a \<noteq> []" for a
    using that by (cases a) simp_all
qed simp

lemma status_name_inj [simp]: "status_name a = status_name b \<longleftrightarrow> a = b"
  by (cases a; cases b) simp_all

lemma os_value_vo [simp]: "os_value (vo s) = status_name s"
  by (simp add: vo_def)

lemma vo_inj [simp]: "vo a = vo b \<longleftrightarrow> a = b"
  by (simp add: vo_def)

lemma valid_transitions_vo: "valid_transitions (status_name s) = Own (map status_name (order_transitions s))"
  by (cases s) (simp_all add: valid_transitions_def valid_transitions_table_def)

lemma order_status_from_name [simp]: "order_status_from (status_name s) = Inr (vo s)"
  by (simp add: order_status_from_def valid_transitions_vo vo_def)

lemma can_transition_vo [simp]: "can_transition_to (vo a) (vo b) = Inr (b \<in> set (order_transitions a))"
  by (auto simp: can_transition_to_def valid_transitions_vo)

lemma allowed_transitions_vo [simp]: "allowed_transitions (vo a) = Inr (map status_name (order_transitions a))"
  by (simp add: allowed_transitions_def valid_transitions_vo)

lemma is_terminal_vo: "is_terminal (vo a) \<longleftrightarrow> order_transitions a = []"
  by (cases a) (simp_all add: is_terminal_def)

lemma status_equals_vo [simp]: "status_equals (vo a) (vo b) \<longleftrightarrow> a = b"
  by (simp add: status_equals_def)

text \<open>\<open>DELIVERED\<close> is only entered from \<open>READY\<close>, and \<open>READY\<close> only from the work itself.\<close>

lemma order_transitions_DELIVERED: "DELIVERED \<in> set (order_transitions a) \<longleftrightarrow> a = READY"
  by (cases a) simp_all

lemma order_transitions_READY: "READY \<in> set (order_transitions a) \<longleftrightarrow> a = IN_PROGRESS \<or> a = IN_REVIEW"
  by (cases a) simp_all

lemma order_transitions_IN_PROGRESS:
  "IN_PROGRESS \<in> set (order_transitions a) \<longleftrightarrow> a = BUDGETED \<or> a = IN_REVIEW"
  by (cases a) simp_all

fun order_stage :: "OrderStatus \<Rightarrow> nat" where
  "order_stage OrderStatus.RECEIVED = 0"
| "order_stage IN_DIAGNOSIS = 1"
| "order_stage BUDGETED = 2"
| "order_stage IN_PROGRESS = 3"
| "order_stage IN_REVIEW = 3"
| "order_stage READY = 4"
| "order_stage DELIVERED = 5"
| "order_stage OrderStatus.CANCELLED = 6"

lemma order_stage_step: "b \<in> set (order_transitions a) \<Longrightarrow> order_stage a \<le> order_stage b"
  by (cases a) auto

lemma order_stage_mono: "reaches order_transitions a b \<Longrightarrow> order_stage a \<le> order_stage b"
  by (induction rule: reaches.induct) (auto dest: order_stage_step)

section \<open>WorkOrder\<close>

record work_order_entity =
  we_id :: string
  we_order_number :: int
  we_client_id :: string
  we_vehicle_id :: string
  we_mechanic_id :: "string option"
  we_status :: order_status
  we_labor_cost :: money
  we_parts_cost :: money
  we_discount :: money
  we_description :: string
  we_observations :: "string option"
  we_completed_at :: "int option"
  we_created_at :: int
  we_updated_at :: int

definition work_order_create ::
    "int \<Rightarrow> string \<Rightarrow> int \<Rightarrow> string \<Rightarrow> string \<Rightarrow> string \<Rightarrow> http_error + work_order_entity" where
  "work_order_create now wid number client vehicle description =
     and_then (money_zero ''PEN'') (\<lambda>zero.
       Inr \<lparr>we_id = wid, we_order_number = number, we_client_id = client, we_vehicle_id = vehicle,
            we_mechanic_id = None, we_status = vo OrderStatus.RECEIVED, we_labor_cost = zero,
            we_parts_cost = zero, we_discount = zero, we_description = description,
            we_observations = None, we_completed_at = None, we_created_at = now,
            we_updated_at = now\<rparr>)"

definition total_cost :: "work_order_entity \<Rightarrow> http_error + money" where
  "total_cost w =
     and_then (money_add (we_labor_cost w) (we_parts_cost w)) (\<lambda>s. money_subtract s (we_discount w))"

definition transition_to :: "int \<Rightarrow> work_order_entity \<Rightarrow> order_status \<Rightarrow> http_error + work_order_entity" where
  "transition_to now w n =
     and_then (can_transition_to (we_status w) n) (\<lambda>ok.
       if \<not> ok then and_then (allowed_transitions (we_status w))
                       (\<lambda>_. Inl (DomainError ''No se puede cambiar de estado''))
       else Inr (w\<lparr>we_status := n,
                   we_completed_at := (if status_equals n (vo DELIVERED) then Some now
                                       else we_completed_at w),
                   we_updated_at := now\<rparr>))"

definition assign_mechanic_to :: "int \<Rightarrow> work_order_entity \<Rightarrow> string \<Rightarrow> work_order_entity" where
  "assign_mechanic_to now w m = w\<lparr>we_mechanic_id := Some m, we_updated_at := now\<rparr>"

definition apply_discount :: "int \<Rightarrow> work_order_entity \<Rightarrow> money \<Rightarrow> http_error + work_order_entity" where
  "apply_discount now w d =
     and_then (money_add (we_labor_cost w) (we_parts_cost w)) (\<lambda>s.
       if money_gt d s then Inl (DomainError ''Discount cannot exceed total cost before discount'')
       else Inr (w\<lparr>we_discount := d, we_updated_at := now\<rparr>))"

definition assert_can_send_quote :: "work_order_entity \<Rightarrow> http_error + unit" where
  "assert_can_send_quote w =
     (if js_le (m_amount (we_labor_cost w)) (Fin 0) \<and> js_le (m_amount (we_parts_cost w)) (Fin 0)
      then Inl (DomainError ''Invariante Anti-Fraude'')
      else if \<not> status_equals (we_status w) (vo BUDGETED)
      then Inl (DomainError ''Invariante: solo desde estado BUDGETED'')
      else Inr ())"

definition assert_total_consistency :: "work_order_entity \<Rightarrow> number \<Rightarrow> http_error + unit" where
  "assert_total_consistency w stored =
     (let computed = js_sub (js_add (m_amount (we_labor_cost w)) (m_amount (we_parts_cost w)))
                            (m_amount (we_discount w))
      in if js_lt (js_lit (1 / 100)) (js_abs (js_sub stored computed))
         then Inl (DomainError ''Regla Anti-Fraude: totalCost no coincide'')
         else Inr ())"

definition assert_can_start_progress :: "bool \<Rightarrow> http_error + unit" where
  "assert_can_start_progress has_parts =
     (if \<not> has_parts then Inl (DomainError ''Regla Anti-Fraude AF-01'') else Inr ())"

definition required_checkin_positions :: "string list" where
  "required_checkin_positions = [''FRONT'', ''BACK'', ''LEFT'', ''RIGHT'', ''DASHBOARD'']"

definition assert_checkin_photo_positions :: "string list \<Rightarrow> http_error + unit" where
  "assert_checkin_photo_positions supplied =
     (if 0 < length (filter (\<lambda>pos. pos \<notin> set supplied) required_checkin_positions)
      then Inl (DomainError ''Regla Anti-Fraude #8: Posiciones de fotos faltantes'')
      else Inr ())"

definition resolve_completion_target ::
    "order_status \<Rightarrow> order_status \<Rightarrow> UserRole \<Rightarrow> http_error + order_status" where
  "resolve_completion_target current requested role =
     (if \<not> status_equals current (vo IN_PROGRESS)
      then Inl (DomainError ''Invariante: solo se puede finalizar el trabajo desde IN_PROGRESS'')
      else if role \<noteq> TRAINEE \<and> \<not> status_equals requested (vo READY)
              \<and> \<not> status_equals requested (vo IN_REVIEW)
      then Inl (DomainError ''Estado solicitado invalido para finalizacion'')
      else
        let target = (if role = TRAINEE then vo IN_REVIEW else requested)
        in and_then (can_transition_to current target) (\<lambda>ok.
             if \<not> ok then and_then (allowed_transitions current)
                             (\<lambda>_. Inl (DomainError ''No se puede cambiar de estado''))
             else Inr target))"

definition assert_odometer_out :: "int option \<Rightarrow> int \<Rightarrow> http_error + unit" where
  "assert_odometer_out odometer_in odometer_out =
     (case odometer_in of
        Some i \<Rightarrow> if odometer_out < i then Inl (DomainError ''Regla Anti-Fraude: kilometraje'')
                  else Inr ()
      | None \<Rightarrow> Inr ())"

definition can_deliver :: "work_order_entity \<Rightarrow> money \<Rightarrow> http_error + bool" where
  "can_deliver w paid = and_then (total_cost w) (\<lambda>t. Inr (money_ge paid t))"

definition pending_balance :: "work_order_entity \<Rightarrow> money \<Rightarrow> http_error + money" where
  "pending_balance w paid =
     and_then (total_cost w) (\<lambda>t.
       if money_ge paid t then money_zero (m_currency t) else money_subtract t paid)"

section \<open>Work orders on amounts of cents\<close>

definition costs :: "work_order_entity \<Rightarrow> int \<Rightarrow> int \<Rightarrow> int \<Rightarrow> bool" where
  "costs w l p d \<longleftrightarrow> we_labor_cost w = soles l \<and> we_parts_cost w = soles p \<and> we_discount w = soles d
     \<and> 0 \<le> l \<and> 0 \<le> p \<and> 0 \<le> d \<and> cents_range (l + p) \<and> cents_range d"

lemma total_cost_cents: "costs w l p d \<Longrightarrow> total_cost w = Inr (soles (max 0 (l + p - d)))"
  by (simp add: total_cost_def costs_def money.plus_wrap money.minus_wrap)

lemma cents_range_monus:
  "0 \<le> a \<Longrightarrow> 0 \<le> d \<Longrightarrow> cents_range a \<Longrightarrow> cents_range (max 0 (a - d))"
  by (auto simp: cents_range_def)

lemma can_deliver_cents:
  assumes "costs w l p d" "0 \<le> paid" "cents_range paid"
  shows "can_deliver w (soles paid) = Inr (max 0 (l + p - d) \<le> paid)"
  using assms cents_range_monus[of "l + p" d]
  by (simp add: can_deliver_def total_cost_cents[OF assms(1)]) (simp add: costs_def)

lemma money_zero_soles: "money_zero ''PEN'' = Inr (soles 0)"
  using mk_money_cents[of 0 "''PEN''"] by (simp add: money_zero_def soles_def cents_range_def)

lemma pending_balance_cents:
  assumes "costs w l p d" "0 \<le> paid" "cents_range paid"
  shows "pending_balance w (soles paid) = Inr (soles (max 0 (l + p - d - paid)))"
proof -
  let ?t = "max 0 (l + p - d)"
  have r: "cents_range ?t" using assms by (simp add: costs_def cents_range_monus)
  have "pending_balance w (soles paid)
      = (if ?t \<le> paid then money_zero ''PEN'' else money_subtract (soles ?t) (soles paid))"
    using assms r by (simp add: pending_balance_def total_cost_cents[OF assms(1)]) (simp add: soles_def)
  moreover have "money_subtract (soles ?t) (soles paid) = Inr (soles (max 0 (?t - paid)))"
    using assms r by (intro money.minus_wrap) auto
  ultimately show ?thesis using assms by (auto simp: money_zero_soles max_def)
qed

lemma apply_discount_cents:
  assumes "costs w l p d" "0 \<le> n" "cents_range n"
  shows "apply_discount now w (soles n) =
    (if l + p < n then Inl (DomainError ''Discount cannot exceed total cost before discount'')
     else Inr (w\<lparr>we_discount := soles n, we_updated_at := now\<rparr>))"
  using assms by (simp add: apply_discount_def costs_def money.plus_wrap)

lemma transition_to_vo:
  assumes "we_status w = vo a"
  shows "transition_to now w (vo b) =
    (if b \<in> set (order_transitions a)
     then Inr (w\<lparr>we_status := vo b,
                 we_completed_at := (if b = DELIVERED then Some now else we_completed_at w),
                 we_updated_at := now\<rparr>)
     else Inl (DomainError ''No se puede cambiar de estado''))"
  using assms by (simp add: transition_to_def)

text \<open>
  Every status an entity takes from a run of \<open>transitionTo\<close> is reachable in the table, and it has a
  completion date once it has been delivered.
\<close>

definition entity_wf :: "work_order_entity \<Rightarrow> bool" where
  "entity_wf w \<longleftrightarrow> (\<exists>s. we_status w = vo s \<and> (s = DELIVERED \<longrightarrow> we_completed_at w \<noteq> None))"

lemma transition_to_wf:
  assumes "entity_wf w" "transition_to now w (vo b) = Inr w'"
  shows "entity_wf w'"
  using assms by (auto simp: entity_wf_def transition_to_vo split: if_splits)

lemma resolve_completion_target_vo:
  "resolve_completion_target (vo current) (vo requested) role =
     (if current \<noteq> IN_PROGRESS
      then Inl (DomainError ''Invariante: solo se puede finalizar el trabajo desde IN_PROGRESS'')
      else if role = TRAINEE then Inr (vo IN_REVIEW)
      else if requested = READY \<or> requested = IN_REVIEW then Inr (vo requested)
      else Inl (DomainError ''Estado solicitado invalido para finalizacion''))"
  by (auto simp: resolve_completion_target_def)

lemma assert_checkin_photo_positions_ok:
  "assert_checkin_photo_positions ps = Inr () \<longleftrightarrow> set required_checkin_positions \<subseteq> set ps"
  by (auto simp: assert_checkin_photo_positions_def filter_empty_conv)

lemma js_lt_asym: "js_lt x y \<Longrightarrow> \<not> js_lt y x"
  by (cases x; cases y) auto

text \<open>
  The anti-fraud comparison of the stored total: a total that is exact passes, one that is off by
  two cents or more is refused.
\<close>

lemma assert_total_consistency_cents:
  assumes w: "costs w l p d" and s: "cents_range s" "cents_range (l + p - d)" "cents_range (s - (l + p - d))"
  shows "s = l + p - d \<Longrightarrow> assert_total_consistency w (cents s) = Inr ()"
    and "2 \<le> \<bar>s - (l + p - d)\<bar> \<Longrightarrow>
      assert_total_consistency w (cents s) = Inl (DomainError ''Regla Anti-Fraude: totalCost no coincide'')"
proof -
  let ?c = "js_sub (js_add (cents l) (cents p)) (cents d)"
  have lp: "cents_range l" "cents_range p" "cents_range d" "cents_range (l + p)"
    using w by (auto simp: costs_def cents_range_def)
  have "approx (1 / 1000) (js_sub (cents s) ?c) (s - (l + p - d))"
    by (rule approx_weaken[OF approx_sub[OF approx_cents approx_sub[OF approx_add[OF approx_cents approx_cents] approx_cents]]])
       (use lp s in simp_all)
  then have a: "approx (1 / 1000) (js_abs (js_sub (cents s) ?c)) \<bar>s - (l + p - d)\<bar>"
    by (rule approx_abs)
  have one: "js_lit (1 / 100) = cents 1" by (simp add: js_lit_def cents_def)
  have t: "approx (1 / 800000) (cents 1) 1" by (rule approx_cents) (simp add: cents_range_def)
  have e: "assert_total_consistency w (cents s) =
      (if js_lt (cents 1) (js_abs (js_sub (cents s) ?c))
       then Inl (DomainError ''Regla Anti-Fraude: totalCost no coincide'') else Inr ())"
    using w by (simp add: assert_total_consistency_def costs_def soles_def one)
  show "assert_total_consistency w (cents s) = Inr ()" if "s = l + p - d"
  proof -
    have "js_lt (js_abs (js_sub (cents s) ?c)) (cents 1)" using approx_lt[OF a t] that by simp
    then have "\<not> js_lt (cents 1) (js_abs (js_sub (cents s) ?c))"
      using js_lt_asym by blast
    then show ?thesis by (simp add: e)
  qed
  show "assert_total_consistency w (cents s) = Inl (DomainError ''Regla Anti-Fraude: totalCost no coincide'')"
    if "2 \<le> \<bar>s - (l + p - d)\<bar>"
    using approx_lt[OF t a] that by (simp add: e)
qed

section \<open>Properties\<close>

text \<open>
  The two transition tables agree: on the eight statuses of the schema the string machine of the
  domain accepts exactly the transitions of the table of the service, it refuses every other change, and
  a status is terminal in it exactly when the table allows nothing.
\<close>

theorem order_machines_agree:
  "can_transition_to (vo a) (vo b) = Inr (b \<in> set (order_transitions a))
   \<and> allowed_transitions (vo a) = Inr (map status_name (order_transitions a))
   \<and> (is_terminal (vo a) \<longleftrightarrow> order_transitions a = [])
   \<and> order_status_from (status_name a) = Inr (vo a)"
  by (simp add: is_terminal_vo)

text \<open>A run of \<open>transitionTo\<close> over a list of requested statuses, stopping at the first refusal.\<close>

primrec run_transitions :: "int \<Rightarrow> OrderStatus list \<Rightarrow> work_order_entity \<Rightarrow> http_error + work_order_entity" where
  "run_transitions now [] w = Inr w"
| "run_transitions now (b # bs) w = and_then (transition_to now w (vo b)) (run_transitions now bs)"

lemma run_transitions_reaches:
  assumes "run_transitions now bs w = Inr w'" "we_status w = vo a" "entity_wf w"
  shows "\<exists>b. we_status w' = vo b \<and> reaches order_transitions a b \<and> entity_wf w'"
  using assms
proof (induction bs arbitrary: w a)
  case Nil
  then show ?case by (auto intro: reaches_refl)
next
  case (Cons c cs)
  then obtain v where v: "transition_to now w (vo c) = Inr v" and r: "run_transitions now cs v = Inr w'"
    by (auto simp: and_then_Inr)
  then have step: "c \<in> set (order_transitions a)" "we_status v = vo c"
    using Cons.prems(2) by (auto simp: transition_to_vo split: if_splits)
  obtain b where b: "we_status w' = vo b" "reaches order_transitions c b" "entity_wf w'"
    using Cons.IH[OF r step(2) transition_to_wf[OF Cons.prems(3) v]] by auto
  have "reaches order_transitions a b"
    using b(2) step(1) by (induction rule: reaches.induct) (auto intro: reaches_refl reaches_step)
  with b show ?case by blast
qed

text \<open>
  C4. Whatever sequence of \<open>transitionTo\<close> succeeds on a freshly created work order, its status never
  goes back to an earlier stage of the shop, a delivered order has a completion date, and an order that
  reached a terminal status accepts no further change.
\<close>

theorem work_order_life:
  assumes "work_order_create now wid n c v d = Inr w" and "run_transitions now' bs w = Inr w'"
  shows "\<exists>s. we_status w' = vo s \<and> reaches order_transitions OrderStatus.RECEIVED s
    \<and> (s = DELIVERED \<longrightarrow> we_completed_at w' \<noteq> None)
    \<and> (order_transitions s = [] \<longrightarrow> (\<forall>b. \<not> is_ok (transition_to now' w' (vo b), ())))"
proof -
  have w: "we_status w = vo OrderStatus.RECEIVED"
    using assms(1) by (auto simp: work_order_create_def money_zero_soles)
  then have "entity_wf w" by (simp add: entity_wf_def)
  from run_transitions_reaches[OF assms(2) w this] obtain s where
    s: "we_status w' = vo s" "reaches order_transitions OrderStatus.RECEIVED s" "entity_wf w'" by auto
  moreover have "\<not> is_ok (transition_to now' w' (vo b), ())" if "order_transitions s = []" for b
    using that by (simp add: transition_to_vo[OF s(1)] is_ok_def)
  ultimately show ?thesis by (auto simp: entity_wf_def)
qed

theorem work_order_life_witness:
  "\<exists>w w'. work_order_create 0 ''w'' 1 ''c'' ''v'' ''d'' = Inr w
     \<and> run_transitions 5 [IN_DIAGNOSIS, BUDGETED, IN_PROGRESS, READY, DELIVERED] w = Inr w'
     \<and> (\<exists>s. we_status w' = vo s \<and> reaches order_transitions OrderStatus.RECEIVED s
          \<and> (s = DELIVERED \<longrightarrow> we_completed_at w' \<noteq> None)
          \<and> (order_transitions s = [] \<longrightarrow> (\<forall>b. \<not> is_ok (transition_to 5 w' (vo b), ()))))"
proof -
  obtain w where w: "work_order_create 0 ''w'' 1 ''c'' ''v'' ''d'' = Inr w"
    and s: "we_status w = vo OrderStatus.RECEIVED"
    by (simp add: work_order_create_def money_zero_soles)
  obtain w' where w': "run_transitions 5 [IN_DIAGNOSIS, BUDGETED, IN_PROGRESS, READY, DELIVERED] w = Inr w'"
    using s by (simp add: transition_to_vo)
  show ?thesis using work_order_life[OF w w'] w w' by blast
qed

text \<open>
  On costs in cents the entity computes exactly: the total is labor plus parts less discount, never
  below zero; an order can be delivered exactly when what was paid covers it, and the pending balance is
  the missing amount.
\<close>

theorem work_order_money:
  assumes "costs w l p d" and "0 \<le> paid" and "cents_range paid"
  shows "total_cost w = Inr (soles (max 0 (l + p - d)))
    \<and> can_deliver w (soles paid) = Inr (max 0 (l + p - d) \<le> paid)
    \<and> pending_balance w (soles paid) = Inr (soles (max 0 (l + p - d - paid)))"
  using total_cost_cents[OF assms(1)] can_deliver_cents[OF assms] pending_balance_cents[OF assms] by simp

theorem work_order_money_witness:
  "\<exists>w. costs w 15000 4550 1000 \<and> total_cost w = Inr (soles 18550)
     \<and> can_deliver w (soles 10000) = Inr False \<and> pending_balance w (soles 10000) = Inr (soles 8550)"
proof -
  obtain w0 where "work_order_create 0 ''w'' 1 ''c'' ''v'' ''d'' = Inr w0"
    by (simp add: work_order_create_def money_zero_soles)
  define w where "w = w0\<lparr>we_labor_cost := soles 15000, we_parts_cost := soles 4550, we_discount := soles 1000\<rparr>"
  have c: "costs w 15000 4550 1000" by (simp add: costs_def w_def cents_range_def)
  show ?thesis using work_order_money[OF c, of 10000] c by (auto simp: cents_range_def)
qed

text \<open>
  Segregation of the quality check: a trainee who finishes a job never certifies it, whatever status
  is asked for; everybody else gets the status asked for, which must be \<open>READY\<close> or \<open>IN_REVIEW\<close>, and
  only from \<open>IN_PROGRESS\<close>. The target is always a transition the table allows.
\<close>

theorem completion_target:
  assumes "resolve_completion_target (vo current) (vo requested) role = Inr t"
  shows "current = IN_PROGRESS
    \<and> (\<exists>s \<in> set (order_transitions current). t = vo s \<and> s \<in> {READY, IN_REVIEW}
         \<and> (role = TRAINEE \<longrightarrow> s = IN_REVIEW) \<and> (role \<noteq> TRAINEE \<longrightarrow> s = requested))"
  using assms by (auto simp: resolve_completion_target_vo split: if_splits)

theorem completion_target_witness:
  "resolve_completion_target (vo IN_PROGRESS) (vo READY) TRAINEE = Inr (vo IN_REVIEW)
   \<and> (\<exists>s \<in> set (order_transitions IN_PROGRESS). vo IN_REVIEW = vo s \<and> s \<in> {READY, IN_REVIEW}
        \<and> (TRAINEE = TRAINEE \<longrightarrow> s = IN_REVIEW) \<and> (TRAINEE \<noteq> TRAINEE \<longrightarrow> s = READY))"
  using completion_target[of IN_PROGRESS READY TRAINEE "vo IN_REVIEW"]
  by (simp add: resolve_completion_target_vo)

end
