(* ===== verification/DomainFinance.thy ===== *)
theory DomainFinance
  imports DomainMoney
begin

text \<open>
  The entity \<open>Expense\<close> of \<open>expense.entity.ts\<close>: an expense is approved or rejected once and disbursed
  after its approval. The lemmas show the state machine of its status and who it records.
\<close>

section \<open>Strings\<close>

text \<open>\<open>String.prototype.trim\<close> on the code units below 256.\<close>

definition js_space :: "char \<Rightarrow> bool" where
  "js_space c \<longleftrightarrow> (of_char c :: nat) \<in> {9, 10, 11, 12, 13, 32, 160}"

definition js_trim :: "string \<Rightarrow> string" where
  "js_trim s = rev (dropWhile js_space (rev (dropWhile js_space s)))"

lemma js_trim_Nil_iff: "js_trim s = [] \<longleftrightarrow> (\<forall>c \<in> set s. js_space c)"
proof -
  have "js_trim s = [] \<longleftrightarrow> (\<forall>c \<in> set (dropWhile js_space s). js_space c)"
    by (simp add: js_trim_def)
  also have "\<dots> \<longleftrightarrow> (\<forall>c \<in> set s. js_space c)" by (induction s) auto
  finally show ?thesis .
qed

section \<open>Expense\<close>

record expense_entity =
  xe_id :: string
  xe_description :: string
  xe_amount :: cash_amount
  xe_status :: ExpenseStatus
  xe_category :: string
  xe_order_id :: "string option"
  xe_requested_by :: string
  xe_approved_by :: "string option"
  xe_rejected_reason :: "string option"
  xe_approved_at :: "int option"
  xe_created_at :: int
  xe_updated_at :: int

definition expense_create ::
    "int \<Rightarrow> string \<Rightarrow> string \<Rightarrow> cash_amount \<Rightarrow> string \<Rightarrow> string option \<Rightarrow> string \<Rightarrow> expense_entity" where
  "expense_create now xid description amount category order_id requested_by =
     \<lparr>xe_id = xid, xe_description = description, xe_amount = amount,
      xe_status = ExpenseStatus.PENDING_APPROVAL, xe_category = category, xe_order_id = order_id,
      xe_requested_by = requested_by, xe_approved_by = None, xe_rejected_reason = None,
      xe_approved_at = None, xe_created_at = now, xe_updated_at = now\<rparr>"

definition required_approval_level :: "expense_entity \<Rightarrow> CashApprovalLevel" where
  "required_approval_level x = requires_approval_level (xe_amount x)"

definition expense_approve :: "int \<Rightarrow> expense_entity \<Rightarrow> string \<Rightarrow> http_error + expense_entity" where
  "expense_approve now x approver =
     (if xe_status x \<noteq> ExpenseStatus.PENDING_APPROVAL then Inl (DomainError ''Cannot approve expense'')
      else Inr (x\<lparr>xe_status := ExpenseStatus.APPROVED, xe_approved_by := Some approver,
                  xe_approved_at := Some now, xe_updated_at := now\<rparr>))"

definition expense_reject :: "int \<Rightarrow> expense_entity \<Rightarrow> string \<Rightarrow> string option \<Rightarrow> http_error + expense_entity" where
  "expense_reject now x approver reason =
     (if xe_status x \<noteq> ExpenseStatus.PENDING_APPROVAL then Inl (DomainError ''Cannot reject expense'')
      else case reason of
        None \<Rightarrow> Inl (DomainError ''Rejection reason is required'')
      | Some r \<Rightarrow>
          if js_trim r = [] then Inl (DomainError ''Rejection reason is required'')
          else Inr (x\<lparr>xe_status := ExpenseStatus.REJECTED, xe_approved_by := Some approver,
                      xe_rejected_reason := Some r, xe_updated_at := now\<rparr>))"

definition expense_disburse :: "int \<Rightarrow> expense_entity \<Rightarrow> http_error + expense_entity" where
  "expense_disburse now x =
     (if xe_status x \<noteq> ExpenseStatus.APPROVED
      then Inl (DomainError ''Only APPROVED expenses can be disbursed'')
      else Inr (x\<lparr>xe_status := DISBURSED, xe_updated_at := now\<rparr>))"

section \<open>The life of an expense\<close>

text \<open>
  An expense that has left \<open>PENDING_APPROVAL\<close> names who decided it; a rejected one carries a reason
  and an approved one the time of its approval.
\<close>

definition expense_wf :: "expense_entity \<Rightarrow> bool" where
  "expense_wf x \<longleftrightarrow>
     (case xe_status x of
        ExpenseStatus.PENDING_APPROVAL \<Rightarrow> xe_approved_by x = None \<and> xe_approved_at x = None
      | ExpenseStatus.REJECTED \<Rightarrow> xe_approved_by x \<noteq> None \<and> xe_approved_at x = None
          \<and> (\<exists>r. xe_rejected_reason x = Some r \<and> (\<exists>c \<in> set r. \<not> js_space c))
      | _ \<Rightarrow> xe_approved_by x \<noteq> None \<and> xe_approved_at x \<noteq> None)"

datatype expense_action = Approve string | Reject string "string option" | Disburse

fun expense_step :: "int \<Rightarrow> expense_action \<Rightarrow> expense_entity \<Rightarrow> http_error + expense_entity" where
  "expense_step now (Approve a) x = expense_approve now x a"
| "expense_step now (Reject a r) x = expense_reject now x a r"
| "expense_step now Disburse x = expense_disburse now x"

fun expense_transitions :: "ExpenseStatus \<Rightarrow> ExpenseStatus list" where
  "expense_transitions ExpenseStatus.PENDING_APPROVAL = [ExpenseStatus.APPROVED, ExpenseStatus.REJECTED]"
| "expense_transitions ExpenseStatus.APPROVED = [DISBURSED]"
| "expense_transitions ExpenseStatus.REJECTED = []"
| "expense_transitions DISBURSED = []"

lemma expense_create_wf: "expense_wf (expense_create now i d a c k r)"
  by (simp add: expense_wf_def expense_create_def)

lemma expense_step_cases:
  assumes "expense_step now act x = Inr x'"
  shows "xe_status x' \<in> set (expense_transitions (xe_status x)) \<and> expense_wf x \<longrightarrow> expense_wf x'"
    and "xe_status x' \<in> set (expense_transitions (xe_status x))"
    and "xe_amount x' = xe_amount x \<and> xe_requested_by x' = xe_requested_by x \<and> xe_id x' = xe_id x"
  using assms
  by (cases act; auto simp: expense_approve_def expense_reject_def expense_disburse_def expense_wf_def
      js_trim_Nil_iff split: if_splits option.splits)+

lemma expense_step_wf: "expense_step now act x = Inr x' \<Longrightarrow> expense_wf x \<Longrightarrow> expense_wf x'"
  using expense_step_cases(1,2) by blast

lemma expense_transitions_rejected:
  "reaches expense_transitions ExpenseStatus.REJECTED s \<Longrightarrow> s = ExpenseStatus.REJECTED"
  by (induction "ExpenseStatus.REJECTED" s rule: reaches.induct) auto

section \<open>Properties\<close>

text \<open>A run of decisions on an expense, stopping at the first one that is refused.\<close>

primrec run_expense :: "int \<Rightarrow> expense_action list \<Rightarrow> expense_entity \<Rightarrow> http_error + expense_entity" where
  "run_expense now [] x = Inr x"
| "run_expense now (a # acts) x = and_then (expense_step now a x) (run_expense now acts)"

lemma run_expense_wf:
  "run_expense now acts x = Inr x' \<Longrightarrow> expense_wf x \<Longrightarrow> expense_wf x' \<and> xe_amount x' = xe_amount x"
proof (induction acts arbitrary: x)
  case Nil
  then show ?case by simp
next
  case (Cons a acts)
  then obtain y where y: "expense_step now a x = Inr y" "run_expense now acts y = Inr x'"
    by (auto simp: and_then_Inr)
  then have "expense_wf y" "xe_amount y = xe_amount x"
    using expense_step_wf[OF y(1)] expense_step_cases(3)[OF y(1)] Cons.prems by auto
  with Cons.IH[OF y(2)] show ?case by simp
qed

lemma run_expense_final:
  "run_expense now acts x = Inr x' \<Longrightarrow> xe_status x \<in> {ExpenseStatus.REJECTED, DISBURSED} \<Longrightarrow> acts = []"
  by (cases acts) (auto simp: and_then_Inr dest!: expense_step_cases(2))

text \<open>
  The life of an expense: whatever decisions are applied to a new expense, one that was disbursed was
  approved by somebody at a recorded time, one that was rejected carries a reason that is not blank, the
  amount never changes, and after a rejection or a disbursement no decision succeeds.
\<close>

theorem expense_life:
  assumes "run_expense now acts (expense_create t i d a c k r) = Inr x"
  shows "xe_amount x = a
    \<and> (xe_status x = DISBURSED \<longrightarrow> xe_approved_by x \<noteq> None \<and> xe_approved_at x \<noteq> None)
    \<and> (xe_status x = ExpenseStatus.REJECTED \<longrightarrow>
        (\<exists>reason. xe_rejected_reason x = Some reason \<and> js_trim reason \<noteq> []))
    \<and> (xe_status x \<in> {ExpenseStatus.REJECTED, DISBURSED} \<longrightarrow>
        (\<forall>act x'. expense_step now act x \<noteq> Inr x'))"
proof -
  have w: "expense_wf x" "xe_amount x = a"
    using run_expense_wf[OF assms expense_create_wf] by (auto simp: expense_create_def)
  moreover have "expense_step now act x \<noteq> Inr x'" if "xe_status x \<in> {ExpenseStatus.REJECTED, DISBURSED}" for act x'
    using run_expense_final[of now "[act]" x x'] that by (auto simp: and_then_def)
  ultimately show ?thesis by (auto simp: expense_wf_def js_trim_Nil_iff)
qed

theorem expense_life_witness:
  "\<exists>x. run_expense 5 [Approve ''boss'', Disburse]
         (expense_create 1 ''x'' ''d'' (cash 100) ''PARTS'' None ''me'') = Inr x
     \<and> xe_status x = DISBURSED \<and> xe_approved_by x \<noteq> None"
proof -
  obtain x where x: "run_expense 5 [Approve ''boss'', Disburse]
      (expense_create 1 ''x'' ''d'' (cash 100) ''PARTS'' None ''me'') = Inr x" "xe_status x = DISBURSED"
    by (simp add: expense_create_def expense_approve_def expense_disburse_def)
  show ?thesis using expense_life[OF x(1)] x by blast
qed

end
