(* ===== verification/Json.thy ===== *)
theory Json
  imports JsNumber
begin

text \<open>
  JSON values, as \<open>JSON.parse\<close> returns them and \<open>JSON.stringify\<close> takes them. The members of an object
  are kept in the order they were created, with distinct names.
\<close>

datatype json =
    JNull
  | JBool bool
  | JNum number
  | JStr string
  | JArr "json list"
  | JObj "(string \<times> json) list"

text \<open>Reading a property: \<open>null\<close> throws, every value that has no such member answers \<open>undefined\<close>.\<close>

definition json_get :: "json \<Rightarrow> string \<Rightarrow> (unit + json option)" where
  "json_get j k =
     (case j of
        JNull \<Rightarrow> Inl ()
      | JObj ms \<Rightarrow> Inr (map_of ms k)
      | _ \<Rightarrow> Inr None)"

end
