(* ===== verification/DomainPersonnel.thy ===== *)
theory DomainPersonnel
  imports DomainInventory DomainFinance Json
begin

text \<open>
  \<open>WorkSchedule\<close> of \<open>work-schedule.vo.ts\<close>: reading the schedule setting, deciding whether a check-in is
  late, and the penalty for the minutes late. Instants are milliseconds since the epoch; \<open>tz\<close> is the
  offset of the local time zone, which is fixed in the country the application serves.
  \<open>JSON.parse\<close> is the parameter \<open>parse_json\<close>, \<open>None\<close> where it throws.
\<close>

record work_schedule =
  ws_start_time :: string
  ws_tolerance_minutes :: number

record attendance_evaluation =
  ae_is_late :: bool
  ae_late_minutes :: number
  ae_scheduled_start :: int

fun minutes_per_period :: "SalaryType \<Rightarrow> int" where
  "minutes_per_period HOURLY = 60"
| "minutes_per_period DAILY = 8 * 60"
| "minutes_per_period WEEKLY = 5 * 8 * 60"
| "minutes_per_period MONTHLY = 30 * 8 * 60"

definition default_schedule :: work_schedule where
  "default_schedule = \<lparr>ws_start_time = ''08:00'', ws_tolerance_minutes = Fin 60\<rparr>"

definition is_digit :: "char \<Rightarrow> bool" where
  "is_digit c \<longleftrightarrow> 48 \<le> (of_char c :: nat) \<and> (of_char c :: nat) \<le> 57"

definition digit :: "char \<Rightarrow> int" where
  "digit c = int (of_char c) - 48"

text \<open>The match of the expression for a time of one or two digits, a colon and two digits.\<close>

definition match_time :: "string \<Rightarrow> (int \<times> int) option" where
  "match_time s =
     (case s of
        [a, c, m, n] \<Rightarrow>
          if is_digit a \<and> c = CHR '':'' \<and> is_digit m \<and> is_digit n
          then Some (digit a, 10 * digit m + digit n) else None
      | [a, b, c, m, n] \<Rightarrow>
          if is_digit a \<and> is_digit b \<and> c = CHR '':'' \<and> is_digit m \<and> is_digit n
          then Some (10 * digit a + digit b, 10 * digit m + digit n) else None
      | _ \<Rightarrow> None)"

definition parse_schedule :: "(string \<Rightarrow> json option) \<Rightarrow> string option \<Rightarrow> work_schedule" where
  "parse_schedule parse_json raw =
     (case raw of
        None \<Rightarrow> default_schedule
      | Some text \<Rightarrow>
          if text = [] then default_schedule
          else case parse_json text of
            None \<Rightarrow> default_schedule
          | Some parsed \<Rightarrow>
              (case json_get parsed ''startTime'' of
                 Inl _ \<Rightarrow> default_schedule
               | Inr start \<Rightarrow>
                   let start_time = (case start of
                         Some (JStr s) \<Rightarrow> if match_time s \<noteq> None then s
                                            else ws_start_time default_schedule
                       | _ \<Rightarrow> ws_start_time default_schedule)
                   in case json_get parsed ''toleranceMinutes'' of
                        Inl _ \<Rightarrow> default_schedule
                      | Inr tolerance \<Rightarrow>
                          \<lparr>ws_start_time = start_time,
                           ws_tolerance_minutes =
                             (case tolerance of
                                Some (JNum t) \<Rightarrow> if js_le (Fin 0) t then t
                                                   else ws_tolerance_minutes default_schedule
                              | _ \<Rightarrow> ws_tolerance_minutes default_schedule)\<rparr>))"

definition parse_time :: "string \<Rightarrow> int \<times> int" where
  "parse_time v =
     (case match_time (js_trim v) of
        None \<Rightarrow> (8, 0)
      | Some (hours, minutes) \<Rightarrow>
          if hours < 0 \<or> 23 < hours \<or> minutes < 0 \<or> 59 < minutes then (8, 0) else (hours, minutes))"

text \<open>\<open>setHours(hours, minutes, 0, 0)\<close>: that time on the local day of the instant.\<close>

definition set_hours :: "int \<Rightarrow> int \<Rightarrow> int \<Rightarrow> int \<Rightarrow> int" where
  "set_hours tz instant hours minutes =
     (instant + tz) div 86400000 * 86400000 + (hours * 60 + minutes) * 60000 - tz"

definition evaluate_attendance :: "int \<Rightarrow> int \<Rightarrow> work_schedule \<Rightarrow> attendance_evaluation" where
  "evaluate_attendance tz check_in config =
     (case parse_time (ws_start_time config) of (hours, minutes) \<Rightarrow>
        let scheduled_start = set_hours tz check_in hours minutes;
            diff_minutes = js_round (js_div (js_int (check_in - scheduled_start)) (js_int 60000));
            late_minutes = js_max (Fin 0) (js_sub diff_minutes (ws_tolerance_minutes config))
        in \<lparr>ae_is_late = js_lt (Fin 0) late_minutes, ae_late_minutes = late_minutes,
            ae_scheduled_start = scheduled_start\<rparr>)"

definition calculate_penalty :: "number \<Rightarrow> SalaryType \<Rightarrow> number \<Rightarrow> number" where
  "calculate_penalty salary salary_type late_minutes =
     (if js_le late_minutes (Fin 0) then Fin 0
      else
        let per_minute_rate = js_div salary (js_int (minutes_per_period salary_type))
        in js_div (js_round (js_mul (js_mul per_minute_rate late_minutes) (Fin 100))) (Fin 100))"

section \<open>Reading the setting\<close>

lemma match_time_range: "match_time s = Some (h, m) \<Longrightarrow> 0 \<le> h \<and> h \<le> 99 \<and> 0 \<le> m \<and> m \<le> 99"
  by (auto simp: match_time_def is_digit_def digit_def split: list.splits if_splits)

lemma parse_time_range:
  "parse_time v = (h, m) \<Longrightarrow> 0 \<le> h \<and> h \<le> 23 \<and> 0 \<le> m \<and> m \<le> 59"
  by (auto simp: parse_time_def split: option.splits if_splits)

lemma parse_schedule_tolerance: "js_le (Fin 0) (ws_tolerance_minutes (parse_schedule p raw))"
  by (auto simp: parse_schedule_def default_schedule_def Let_def json_get_def
      split: option.splits sum.splits json.splits)

lemma parse_schedule_start: "match_time (ws_start_time (parse_schedule p raw)) \<noteq> None"
proof -
  have "match_time ''08:00'' \<noteq> None" by (simp add: match_time_def is_digit_def)
  then show ?thesis
    by (auto simp: parse_schedule_def default_schedule_def Let_def json_get_def
        split: option.splits sum.splits json.splits)
qed

section \<open>Late or not\<close>

lemma set_hours_diff:
  assumes "0 \<le> h" "h \<le> 23" "0 \<le> m" "m \<le> 59"
  shows "\<bar>t - set_hours tz t h m\<bar> < 86400000"
proof -
  have "t - set_hours tz t h m = (t + tz) mod 86400000 - (h * 60 + m) * 60000"
    by (simp add: set_hours_def minus_div_mult_eq_mod[symmetric])
  moreover have "0 \<le> (t + tz) mod 86400000" "(t + tz) mod 86400000 < 86400000" by simp_all
  moreover have "0 \<le> (h * 60 + m) * 60000" "(h * 60 + m) * 60000 < 86400000" using assms by auto
  ultimately show ?thesis by linarith
qed

text \<open>The rounded number of minutes is the exact one: the division does not cross a half.\<close>

lemma rounded_minutes:
  assumes d: "\<bar>d\<bar> < 86400000"
  shows "js_round (js_div (js_int d) (js_int 60000)) = js_int ((d + 30000) div 60000)"
proof -
  let ?q = "of_int d / 60000 :: rat"
  have "\<bar>of_int d :: rat\<bar> \<le> 86400000"
  proof -
    have "of_int \<bar>d\<bar> \<le> (of_int 86400000 :: rat)" using d by (simp only: of_int_le_iff)
    then show ?thesis by simp
  qed
  then have q: "\<bar>?q\<bar> \<le> 1440" by simp
  then have "\<bar>?q\<bar> \<le> 2 ^ 1000" by (rule order_trans) simp
  then have f: "fl ?q = Fin (rnd ?q)" by (rule fl_rnd)
  have "\<bar>?q\<bar> / 2 ^ 53 \<le> 1440 / 2 ^ 53" using q by (rule divide_right_mono) simp
  then have "\<bar>rnd ?q - ?q\<bar> \<le> 1440 / 2 ^ 53 + 1 / 10 ^ 12"
    using rnd_err[of ?q] tiny by (meson add_mono order_trans)
  also have "\<dots> \<le> 1 / 1000000" by simp
  finally have err: "\<bar>rnd ?q - ?q\<bar> \<le> 1 / 1000000" .
  let ?k = "(d + 30000) div 60000"
  show ?thesis
  proof (cases "(d + 30000) mod 60000 = 0")
    case True
    define k where "k = ?k"
    have "d + 30000 = 60000 * k + (d + 30000) mod 60000" unfolding k_def by simp
    then have k: "d = 60000 * k - 30000" using True by linarith
    have "?q = of_int (2 * k - 1) * 2 powi (- 1)"
      by (simp add: k power_int_minus field_simps)
    moreover have "\<bar>2 * k - 1\<bar> \<le> 2 ^ 53" using d k by auto
    ultimately have "rnd ?q = ?q" by (intro rnd_representable[of _ "2 * k - 1" "- 1"]) auto
    moreover have "?q + 1 / 2 = of_int k" by (simp add: k diff_divide_distrib)
    ultimately have "js_round (Fin (rnd ?q)) = js_int k" by (simp only: js_round.simps js_int_def floor_of_int)
    then show ?thesis using f by (simp add: js_int_def k_def)
  next
    case False
    have m: "d + 30000 = 60000 * ?k + (d + 30000) mod 60000" by simp
    have r: "0 < (d + 30000) mod 60000" "(d + 30000) mod 60000 < 60000"
      using False pos_mod_sign[of 60000 "d + 30000"] by (simp_all only: order_less_le pos_mod_bound) auto
    have lo: "60000 * ?k + 1 \<le> d + 30000" and hi: "d + 30000 + 1 \<le> 60000 * ?k + 60000"
      using m r by linarith+
    have "of_int (60000 * ?k + 1) \<le> (of_int (d + 30000) :: rat)"
      "of_int (d + 30000 + 1) \<le> (of_int (60000 * ?k + 60000) :: rat)"
      using lo hi by (simp_all only: of_int_le_iff)
    then have "of_int ?k \<le> rnd ?q + 1 / 2" "rnd ?q + 1 / 2 < of_int ?k + 1"
      using err[unfolded abs_le_iff] by (simp_all add: field_simps)
    then have "\<lfloor>rnd ?q + 1 / 2\<rfloor> = ?k" by (simp add: floor_eq_iff)
    then show ?thesis using f by (simp add: js_int_def)
  qed
qed

lemma evaluate_attendance_minutes:
  fixes tz t :: int
  assumes time: "parse_time (ws_start_time c) = (h, m)" and tol: "ws_tolerance_minutes c = js_int k"
    and k: "0 \<le> k" "k \<le> 2 ^ 40"
  defines "start \<equiv> set_hours tz t h m"
  shows "evaluate_attendance tz t c =
    \<lparr>ae_is_late = (k < (t - start + 30000) div 60000),
     ae_late_minutes = js_int (max 0 ((t - start + 30000) div 60000 - k)), ae_scheduled_start = start\<rparr>"
proof -
  have hm: "0 \<le> h" "h \<le> 23" "0 \<le> m" "m \<le> 59" using parse_time_range[OF assms(1)] by auto
  have d: "\<bar>t - start\<bar> < 86400000" unfolding start_def using hm by (rule set_hours_diff)
  let ?r = "(t - start + 30000) div 60000"
  have "\<bar>?r\<bar> \<le> 1440" using d by linarith
  then have "js_sub (js_int ?r) (js_int k) = js_int (?r - k)" using k by (intro js_int_sub) auto
  moreover have "js_max (Fin 0) (js_int a) = js_int (max 0 a)" for a
    by (simp add: js_int_def max_def)
  ultimately show ?thesis
    using time tol rounded_minutes[OF d]
    by (auto simp: evaluate_attendance_def Let_def start_def[symmetric] js_int_0)
qed

section \<open>The penalty\<close>

text \<open>One rounding of a value of ordinary size moves it by less than a ten-thousandth.\<close>

lemma fl_close:
  assumes "\<bar>q\<bar> \<le> 2 ^ 36"
  shows "fl q = Fin (rnd q)" and "\<bar>rnd q - q\<bar> \<le> 1 / 100000"
proof -
  have "\<bar>q\<bar> \<le> 2 ^ 1000" using assms by (rule order_trans) simp
  then show "fl q = Fin (rnd q)" by (rule fl_rnd)
  have "\<bar>q\<bar> / 2 ^ 53 \<le> 2 ^ 36 / 2 ^ 53" using assms by (rule divide_right_mono) simp
  then have "\<bar>rnd q - q\<bar> \<le> 2 ^ 36 / 2 ^ 53 + 1 / 10 ^ 12"
    using rnd_err[of q] tiny by (meson add_mono order_trans)
  also have "\<dots> \<le> 1 / 100000" by simp
  finally show "\<bar>rnd q - q\<bar> \<le> 1 / 100000" .
qed

lemma rnd_nonneg: "0 \<le> q \<Longrightarrow> 0 \<le> rnd q"
proof -
  assume q: "0 \<le> q"
  have "0 \<le> round_half_even (q / 2 powi ulp_exponent q)"
    using q by (auto simp: round_half_even_def Let_def)
  then show ?thesis by (simp add: rnd_def)
qed

lemma rnd_up: "0 \<le> q \<Longrightarrow> rnd q \<le> q + (q / 2 ^ 53 + 1 / 2 ^ 1075)"
  using abs_le_D1[OF rnd_err[of q]] by (simp only: abs_of_nonneg diff_le_eq add.commute)

lemma calculate_penalty_cents:
  assumes n: "0 \<le> n" "cents_range n" and l: "0 \<le> l" "l \<le> minutes_per_period ty"
  shows "\<exists>k. 0 \<le> k \<and> k \<le> n \<and> calculate_penalty (cents n) ty (js_int l) = cents k"
proof (cases "l = 0")
  case True
  then show ?thesis using n by (intro exI[of _ 0]) (simp add: calculate_penalty_def js_int_def)
next
  case False
  let ?M = "of_int (minutes_per_period ty) :: rat" and ?L = "of_int l :: rat"
  define s where "s = rnd (of_int n / 100)"
  define rate where "rate = rnd (s / ?M)"
  have M: "1 \<le> ?M" "?M \<le> 14400" by (cases ty; simp)+
  have L: "0 \<le> ?L" "?L \<le> ?M" using l by (simp_all only: of_int_0_le_iff of_int_le_iff)
  have n100: "\<bar>of_int n / 100 :: rat\<bar> \<le> 2 ^ 36"
    using cents_range_rat[OF n(2)] by (rule order_trans) simp
  have s: "cents n = Fin s" "\<bar>s - of_int n / 100\<bar> \<le> 1 / 100000" "0 \<le> s"
    using fl_close[OF n100] n by (simp_all add: cents_def s_def rnd_nonneg)
  have s_le: "s \<le> 2 ^ 34"
    using s(2) cents_range_rat[OF n(2)] unfolding abs_le_iff by (simp add: field_simps)
  have sM: "0 \<le> s / ?M" "s / ?M \<le> s" using s(3) M by (simp_all add: divide_le_eq mult_le_cancel_left1)
  have "\<bar>s / ?M\<bar> \<le> 2 ^ 36" using sM s_le by simp
  note rate = fl_close(1)[OF this, folded rate_def]
  have rate0: "0 \<le> rate" using sM by (simp add: rate_def rnd_nonneg)
  have "rate \<le> s / ?M + (s / ?M / 2 ^ 53 + 1 / 2 ^ 1075)"
    unfolding rate_def using sM(1) by (rule rnd_up)
  then have "rate * ?L \<le> (s / ?M + (s / ?M / 2 ^ 53 + 1 / 2 ^ 1075)) * ?L"
    using L(1) by (rule mult_right_mono)
  also have "\<dots> \<le> (s / ?M + (s / ?M / 2 ^ 53 + 1 / 2 ^ 1075)) * ?M"
    using L(2) sM by (intro mult_left_mono) (auto intro: add_nonneg_nonneg)
  also have "\<dots> = s + (s / 2 ^ 53 + ?M / 2 ^ 1075)"
    using M by (simp add: distrib_right)
  also have "\<dots> \<le> s + (2 ^ 34 / 2 ^ 53 + 14400 / 2 ^ 1075)"
    using s_le M by (intro add_left_mono add_mono divide_right_mono) auto
  also have "\<dots> \<le> s + 1 / 100000" by (rule add_left_mono) simp
  finally have up: "rate * ?L \<le> s + 1 / 100000" .
  have down: "0 \<le> rate * ?L" using rate0 L by simp
  have "\<bar>rate * ?L\<bar> \<le> 2 ^ 36" using up down s_le by simp
  note prod = fl_close[OF this]
  have "calculate_penalty (cents n) ty (js_int l) = round2 (Fin (rnd (rate * ?L)))"
    using False l M by (simp add: calculate_penalty_def round2_def s(1) js_int_def rate prod(1))
  moreover have "\<exists>k. 0 \<le> k \<and> k \<le> n \<and> round2 (Fin (rnd (rate * ?L))) = cents k"
  proof (rule round2_between)
    show "of_int 0 / 100 - 1 / 1000 \<le> rnd (rate * ?L)" using rnd_nonneg[OF down] by simp
    show "rnd (rate * ?L) \<le> of_int n / 100 + 1 / 1000"
      using prod(2) up s(2) unfolding abs_le_iff by linarith
  qed (use n in \<open>simp_all add: cents_range_def\<close>)
  ultimately show ?thesis by simp
qed

section \<open>Properties\<close>

text \<open>
  A check-in is late exactly when the minutes since the scheduled start of its local day, rounded to
  the nearest minute, exceed the tolerance, and the minutes late are those beyond the tolerance; whatever
  text the setting holds, its start time is a time of day and its tolerance is not negative.
\<close>

theorem late_iff_beyond_tolerance:
  assumes "ws_tolerance_minutes (parse_schedule parse_json raw) = js_int k" and "k \<le> 2 ^ 40"
  shows "0 \<le> k
    \<and> (\<exists>h m. parse_time (ws_start_time (parse_schedule parse_json raw)) = (h, m)
        \<and> 0 \<le> h \<and> h \<le> 23 \<and> 0 \<le> m \<and> m \<le> 59
        \<and> (let late = (t - set_hours tz t h m + 30000) div 60000
           in evaluate_attendance tz t (parse_schedule parse_json raw) =
             \<lparr>ae_is_late = (k < late), ae_late_minutes = js_int (max 0 (late - k)),
              ae_scheduled_start = set_hours tz t h m\<rparr>))"
proof -
  obtain h m where hm: "parse_time (ws_start_time (parse_schedule parse_json raw)) = (h, m)" by force
  have k: "0 \<le> k" using parse_schedule_tolerance[of parse_json raw] assms(1) by (simp add: js_int_def)
  show ?thesis
    using evaluate_attendance_minutes[OF hm assms(1) k assms(2), of tz t] parse_time_range[OF hm] hm k
    by (simp add: Let_def)
qed

theorem late_iff_beyond_tolerance_witness:
  "ae_is_late (evaluate_attendance 0 (9 * 3600000 + 90000) (parse_schedule (\<lambda>_. None) None))
   \<and> \<not> ae_is_late (evaluate_attendance 0 (9 * 3600000) (parse_schedule (\<lambda>_. None) None))"
proof -
  have d: "ws_tolerance_minutes (parse_schedule (\<lambda>_. None) None) = js_int 60"
    and "parse_time (ws_start_time (parse_schedule (\<lambda>_. None) None)) = (8, 0)"
    by (simp_all add: parse_schedule_def default_schedule_def js_int_def parse_time_def match_time_def
        is_digit_def digit_def js_trim_def js_space_def)
  then show ?thesis
    using late_iff_beyond_tolerance[OF d, of "9 * 3600000 + 90000" 0]
      late_iff_beyond_tolerance[OF d, of "9 * 3600000" 0]
    by (auto simp: set_hours_def Let_def)
qed

text \<open>
  The penalty for being late is an amount of cents that is never negative and never more than the
  salary of the period, as long as the minutes late do not exceed the minutes of the period; somebody who
  is not late pays nothing.
\<close>

theorem penalty_bounded:
  assumes "0 \<le> n" "cents_range n" "l \<le> minutes_per_period ty"
  shows "\<exists>k. 0 \<le> k \<and> k \<le> n \<and> calculate_penalty (cents n) ty (js_int l) = cents k \<and> (l \<le> 0 \<longrightarrow> k = 0)"
proof (cases "l \<le> 0")
  case True
  then show ?thesis using assms by (intro exI[of _ 0]) (simp add: calculate_penalty_def js_int_def)
next
  case False
  then show ?thesis using calculate_penalty_cents[OF assms(1,2) _ assms(3)] by auto
qed

theorem penalty_bounded_witness:
  "\<exists>k. 0 \<le> k \<and> k \<le> 250000 \<and> calculate_penalty (cents 250000) MONTHLY (js_int 37) = cents k \<and> (37 \<le> (0 :: int) \<longrightarrow> k = 0)"
  by (rule penalty_bounded) (simp_all add: cents_range_def)

end
