(* ===== verification/Schema.thy ===== *)
theory Schema
  imports DomainWorkOrders Json
begin

text \<open>
  The state the services share: the tables of \<open>prisma/schema.prisma\<close> as lists of rows, the keys of
  Redis, the connected sockets, and what the services send out (socket messages, queue jobs, events of
  the process). A row has the columns the modelled code reads or writes; prose (descriptions of events,
  metadata) is left out. Amounts are columns of two decimals and are kept as whole cents, instants are
  milliseconds since the epoch. The constraints of the migrations that the code runs into are part of
  the insert operations: a foreign key fails with \<open>P2003\<close>, a unique column with \<open>P2002\<close>.
\<close>

section \<open>Rows\<close>

record account_row =
  ac_id :: string
  ac_email :: string
  ac_password_hash :: string
  ac_mfa_secret :: "string option"
  ac_mfa_enabled :: bool
  ac_role :: UserRole
  ac_name :: string
  ac_status :: AccountStatus
  ac_last_login_at :: "int option"
  ac_last_login_ip :: "string option"
  ac_failed_attempts :: int
  ac_locked_until :: "int option"
  ac_created_at :: int
  ac_deleted_at :: "int option"

record token_row =
  rt_id :: string
  rt_token :: string
  rt_account :: string
  rt_expires_at :: int
  rt_revoked :: bool
  rt_device :: "string option"
  rt_ip :: "string option"
  rt_created_at :: int

record personnel_row =
  pe_id :: string
  pe_account :: string
  pe_first_name :: string
  pe_last_name :: string
  pe_dni :: string
  pe_pin :: "string option"
  pe_salary :: int
  pe_salary_type :: SalaryType
  pe_deleted_at :: "int option"

record attendance_row =
  at_id :: string
  at_personnel :: string
  at_date :: int
  at_check_in :: "int option"
  at_check_out :: "int option"
  at_type :: AttendanceType
  at_notes :: "string option"
  at_verified_by :: "string option"

record vehicle_row =
  ve_id :: string
  ve_plate :: string
  ve_brand :: string
  ve_model :: string
  ve_year :: int
  ve_color :: "string option"
  ve_client :: string
  ve_created_at :: int

record usage_row =
  us_id :: string
  us_vehicle :: string
  us_personnel :: string
  us_authorized_by :: "string option"
  us_odometer_out :: "int option"
  us_odometer_in :: "int option"
  us_checkout_at :: int
  us_expected_return :: int
  us_return_at :: "int option"
  us_status :: UsageStatus

record client_row =
  cl_id :: string
  cl_account :: "string option"
  cl_first_name :: string
  cl_last_name :: "string option"
  cl_phone :: string
  cl_email :: "string option"
  cl_dni :: "string option"
  cl_created_at :: int
  cl_deleted_at :: "int option"

record order_row =
  wo_id :: string
  wo_number :: string
  wo_vehicle :: string
  wo_client :: string
  wo_mechanic :: "string option"
  wo_status :: OrderStatus
  wo_description :: string
  wo_diagnosis :: "string option"
  wo_odometer_in :: "int option"
  wo_odometer_out :: "int option"
  wo_labor :: "int option"
  wo_parts :: "int option"
  wo_total :: "int option"
  wo_discount :: int
  wo_final :: int
  wo_received_at :: int
  wo_estimated :: "int option"
  wo_started_at :: "int option"
  wo_completed_at :: "int option"
  wo_delivered_at :: "int option"
  wo_payment_status :: InvoiceStatus
  wo_notes :: "string option"
  wo_photos :: "string list"
  wo_created_by :: string

record event_row =
  ev_order :: string
  ev_event :: string
  ev_user :: string
  ev_at :: int

record photo_row =
  ph_id :: string
  ph_order :: string
  ph_url :: string
  ph_type :: string
  ph_hash :: string

record part_row =
  op_order :: string
  op_item :: string
  op_quantity :: int
  op_unit_price :: int

record order_item_row =
  oi_id :: string
  oi_order :: string
  oi_total :: int

record history_row =
  sh_order :: string
  sh_status :: OrderStatus
  sh_by :: string
  sh_at :: int

record supplier_row =
  su_id :: string
  su_importer :: bool

record item_row =
  it_id :: string
  it_sku :: string
  it_name :: string
  it_category :: "string option"
  it_cost :: int
  it_price :: int
  it_stock :: int
  it_min_stock :: int
  it_imported :: bool
  it_customs :: "int option"
  it_active :: bool
  it_created_at :: int

record movement_row =
  mv_id :: string
  mv_item :: string
  mv_type :: MovementType
  mv_quantity :: int
  mv_order :: "string option"
  mv_by :: string
  mv_justification :: "string option"
  mv_unit_cost :: "int option"
  mv_at :: int

record session_row =
  cs_id :: string
  cs_opened_by :: string
  cs_closed_by :: "string option"
  cs_opening :: int
  cs_closing :: "int option"
  cs_actual :: "int option"
  cs_discrepancy :: "int option"
  cs_status :: CashboxStatus
  cs_notes :: "string option"
  cs_justification :: "string option"
  cs_opened_at :: int
  cs_closed_at :: "int option"

record transaction_row =
  tx_id :: string
  tx_session :: string
  tx_type :: TransactionType
  tx_amount :: int
  tx_method :: PaymentMethod
  tx_reference :: "string option"
  tx_order :: "string option"
  tx_at :: int

record expense_row =
  ex_id :: string
  ex_requester :: string
  ex_approver :: "string option"
  ex_amount :: int
  ex_currency :: Currency
  ex_category :: ExpenseCategory
  ex_status :: ExpenseStatus
  ex_level :: ApprovalLevel
  ex_reason :: "string option"
  ex_created_at :: int
  ex_approved_at :: "int option"
  ex_disbursed_at :: "int option"

record invoice_row =
  iv_id :: string
  iv_number :: string
  iv_order :: "string option"
  iv_client :: string
  iv_type :: InvoiceType
  iv_status :: InvoiceStatus
  iv_subtotal :: int
  iv_tax :: int
  iv_discount :: int
  iv_total :: int
  iv_paid :: int
  iv_due :: int
  iv_due_date :: "int option"
  iv_notes :: "string option"
  iv_issued_at :: "int option"
  iv_paid_at :: "int option"
  iv_cancelled_at :: "int option"
  iv_cancel_reason :: "string option"
  iv_created_by :: string
  iv_created_at :: int

record payment_row =
  pm_id :: string
  pm_invoice :: "string option"
  pm_order :: "string option"
  pm_method :: PaymentMethod
  pm_amount :: int
  pm_reference :: "string option"
  pm_received_by :: string
  pm_verified_by :: "string option"
  pm_channel :: PaymentChannel
  pm_personal_yape :: bool
  pm_yape_account :: "string option"
  pm_notes :: "string option"
  pm_receipt :: "string option"
  pm_paid_at :: int
  pm_created_at :: int

record approval_row =
  ap_id :: string
  ap_type :: ApprovalType
  ap_status :: ApprovalStatus
  ap_amount :: "int option"
  ap_requested_by :: string

record purchase_row =
  pu_id :: string
  pu_number :: string
  pu_supplier :: string
  pu_status :: PurchaseStatus
  pu_subtotal :: int
  pu_tax :: int
  pu_shipping :: int
  pu_customs :: int
  pu_total :: int
  pu_commission_amount :: "int option"
  pu_commission_to :: "string option"
  pu_imported :: bool
  pu_ordered_at :: "int option"
  pu_received_at :: "int option"
  pu_notes :: "string option"
  pu_created_by :: string
  pu_created_at :: int

record purchase_item_row =
  pi_id :: string
  pi_purchase :: string
  pi_item :: string
  pi_quantity :: int
  pi_unit_cost :: int
  pi_total_cost :: int
  pi_received :: int

record commission_row =
  co_id :: string
  co_personnel :: string
  co_supplier :: "string option"
  co_purchase :: "string option"
  co_type :: string
  co_amount :: int
  co_percentage :: "int option"
  co_status :: ApprovalStatus
  co_notes :: "string option"
  co_paid_at :: "int option"
  co_created_at :: int

record quote_row =
  qu_id :: string
  qu_number :: string
  qu_client :: string
  qu_order :: "string option"
  qu_status :: QuoteStatus
  qu_valid_until :: int
  qu_subtotal :: int
  qu_tax :: int
  qu_total :: int
  qu_notes :: "string option"
  qu_created_by :: string
  qu_created_at :: int
  qu_approved_at :: "int option"
  qu_rejected_at :: "int option"
  qu_rejection_reason :: "string option"

record audit_row =
  au_user :: string
  au_role :: string
  au_action :: string
  au_entity :: "string option"
  au_entity_id :: "string option"
  au_severity :: AuditSeverity
  au_hash :: "string option"

record notification_row =
  nt_user :: string
  nt_type :: string
  nt_at :: int

record setting_row =
  se_key :: string
  se_value :: string
  se_category :: string
  se_public :: bool
  se_updated_by :: "string option"

section \<open>Redis, sockets, queues\<close>

text \<open>
  What the services keep under a key of Redis. The values are JSON texts; the model keeps what the
  text stands for. A value has the instant it expires at.
\<close>

record valuation =
  va_total_items :: int
  va_cost :: number
  va_sale :: number
  va_low_stock :: int

text \<open>The summary for the owners: times of the mechanics, quotes, stock and cash.\<close>

record mechanic_time =
  mt_mechanic :: string
  mt_name :: string
  mt_orders :: nat
  mt_hours :: number

record executive_summary =
  es_mechanics :: "mechanic_time list"
  es_overall_hours :: number
  es_quotes_sent :: nat
  es_quotes_approved :: nat
  es_conversion :: number
  es_items :: nat
  es_valuation :: number
  es_income :: number
  es_expenses :: number
  es_net_margin :: number
  es_generated_at :: int

datatype redis_value =
    RText string
  | RItem item_row
  | RItems "item_row list"
  | RPage "item_row list" "string option" bool
  | RPaged "item_row list" nat nat nat
  | RValuation valuation
  | RQr string number
  | RVehicle vehicle_row "client_row option" "order_row list"
  | RVehicles "(vehicle_row \<times> client_row option) list" "string option" bool
  | RCount int
  | RReport executive_summary

type_synonym redis = "(string \<times> redis_value \<times> int) list"

definition redis_get :: "int \<Rightarrow> string \<Rightarrow> redis \<Rightarrow> redis_value option" where
  "redis_get now k r =
     (case map_of r k of None \<Rightarrow> None | Some (v, e) \<Rightarrow> if now < e then Some v else None)"

definition redis_del :: "string \<Rightarrow> redis \<Rightarrow> redis" where
  "redis_del k r = filter (\<lambda>p. fst p \<noteq> k) r"

text \<open>\<open>SET key value EX ttl\<close>, with the time to live in seconds.\<close>

definition redis_set :: "int \<Rightarrow> string \<Rightarrow> redis_value \<Rightarrow> int \<Rightarrow> redis \<Rightarrow> redis" where
  "redis_set now k v ttl r = (k, v, now + ttl * 1000) # redis_del k r"

text \<open>Deleting the keys a \<open>SCAN\<close> for \<open>prefix*\<close> finds.\<close>

definition redis_del_prefix :: "string \<Rightarrow> redis \<Rightarrow> redis" where
  "redis_del_prefix p r = filter (\<lambda>e. take (length p) (fst e) \<noteq> p) r"

lemma map_of_redis_del: "map_of (redis_del k r) k' = (if k = k' then None else map_of r k')"
  by (induction r) (auto simp: redis_del_def)

lemma redis_get_del [simp]: "redis_get now k (redis_del k' r) = (if k = k' then None else redis_get now k r)"
  by (auto simp: redis_get_def map_of_redis_del)

lemma redis_get_set:
  "redis_get now' k (redis_set now k' v ttl r) =
     (if k = k' then if now' < now + ttl * 1000 then Some v else None else redis_get now' k r)"
  by (auto simp: redis_get_def redis_set_def map_of_redis_del)

lemma map_of_del_prefix:
  "map_of (redis_del_prefix p r) k = (if take (length p) k = p then None else map_of r k)"
  by (induction r) (auto simp: redis_del_prefix_def)

lemma redis_get_del_prefix:
  "redis_get now k (redis_del_prefix p r) = (if take (length p) k = p then None else redis_get now k r)"
  by (simp add: redis_get_def map_of_del_prefix)

datatype room = Dashboard | Management | OrderRoom string | MechanicRoom string | ClientRoom string
  | RoleRoom "UserRole option" | UserRoom string

record ws_message =
  wm_room :: room
  wm_event :: string
  wm_subject :: string

text \<open>A connected socket: who it belongs to and when its token expires, and the rooms it is in.\<close>

record socket =
  so_id :: string
  so_user :: string
  so_role :: "UserRole option"
  so_token_exp :: "int option"
  so_rooms :: "room list"

datatype queue = AuditEvents | Notifications | InvoiceGeneration | ReportBuilder | AlertDispatcher
  | PushNotifications

record job =
  jb_queue :: queue
  jb_name :: string
  jb_subject :: string

text \<open>
  The payload of a verified JSON web token. An access token carries \<open>id\<close>, the intermediate token of the
  second factor \<open>sub\<close> and \<open>mfaPending\<close>.
\<close>

record jwt_payload =
  jp_sub :: "string option"
  jp_id :: "string option"
  jp_role :: "UserRole option"
  jp_mfa_verified :: "bool option"
  jp_mfa_pending :: bool
  jp_client :: "string option"
  jp_exp :: "int option"

text \<open>The user of a request, as the JWT strategy derives it.\<close>

record auth_user =
  us_user_id :: string
  us_role :: UserRole
  us_mfa_verified :: bool
  us_client :: "string option"

section \<open>The state\<close>

record db =
  d_accounts :: "account_row list"
  d_tokens :: "token_row list"
  d_personnel :: "personnel_row list"
  d_attendance :: "attendance_row list"
  d_vehicles :: "vehicle_row list"
  d_usage :: "usage_row list"
  d_clients :: "client_row list"
  d_orders :: "order_row list"
  d_events :: "event_row list"
  d_photos :: "photo_row list"
  d_parts :: "part_row list"
  d_order_items :: "order_item_row list"
  d_history :: "history_row list"
  d_suppliers :: "supplier_row list"
  d_categories :: "(string \<times> string) list"
  d_items :: "item_row list"
  d_movements :: "movement_row list"
  d_sessions :: "session_row list"
  d_transactions :: "transaction_row list"
  d_expenses :: "expense_row list"
  d_invoices :: "invoice_row list"
  d_payments :: "payment_row list"
  d_approvals :: "approval_row list"
  d_purchases :: "purchase_row list"
  d_purchase_items :: "purchase_item_row list"
  d_commissions :: "commission_row list"
  d_quotes :: "quote_row list"
  d_audit :: "audit_row list"
  d_notifications :: "notification_row list"
  d_settings :: "setting_row list"
  d_redis :: redis
  d_sockets :: "socket list"
  d_sent :: "ws_message list"
  d_jobs :: "job list"
  d_emitted :: "(string \<times> string) list"

type_synonym 'a answer = "(http_error, 'a, db) outcome"

definition empty_db :: db where
  "empty_db =
     \<lparr>d_accounts = [], d_tokens = [], d_personnel = [], d_attendance = [], d_vehicles = [],
      d_usage = [], d_clients = [], d_orders = [], d_events = [], d_photos = [], d_parts = [], d_order_items = [],
      d_history = [], d_suppliers = [], d_categories = [], d_items = [], d_movements = [],
      d_sessions = [], d_transactions = [], d_expenses = [], d_invoices = [], d_payments = [],
      d_approvals = [], d_purchases = [], d_purchase_items = [], d_commissions = [], d_quotes = [],
      d_audit = [], d_notifications = [], d_settings = [], d_redis = [], d_sockets = [], d_sent = [],
      d_jobs = [], d_emitted = []\<rparr>"

lemma empty_db_simps [simp]:
  "d_accounts empty_db = []"
  "d_tokens empty_db = []"
  "d_personnel empty_db = []"
  "d_attendance empty_db = []"
  "d_vehicles empty_db = []"
  "d_usage empty_db = []"
  "d_clients empty_db = []"
  "d_orders empty_db = []"
  "d_events empty_db = []"
  "d_photos empty_db = []"
  "d_parts empty_db = []"
  "d_order_items empty_db = []"
  "d_history empty_db = []"
  "d_suppliers empty_db = []"
  "d_categories empty_db = []"
  "d_items empty_db = []"
  "d_movements empty_db = []"
  "d_sessions empty_db = []"
  "d_transactions empty_db = []"
  "d_expenses empty_db = []"
  "d_invoices empty_db = []"
  "d_payments empty_db = []"
  "d_approvals empty_db = []"
  "d_purchases empty_db = []"
  "d_purchase_items empty_db = []"
  "d_commissions empty_db = []"
  "d_quotes empty_db = []"
  "d_audit empty_db = []"
  "d_notifications empty_db = []"
  "d_settings empty_db = []"
  "d_redis empty_db = []"
  "d_sockets empty_db = []"
  "d_sent empty_db = []"
  "d_jobs empty_db = []"
  "d_emitted empty_db = []"
  by (simp_all add: empty_db_def)

definition send :: "room \<Rightarrow> string \<Rightarrow> string \<Rightarrow> db \<Rightarrow> db" where
  "send r e subject s = s\<lparr>d_sent := d_sent s @ [\<lparr>wm_room = r, wm_event = e, wm_subject = subject\<rparr>]\<rparr>"

definition enqueue :: "queue \<Rightarrow> string \<Rightarrow> string \<Rightarrow> db \<Rightarrow> db" where
  "enqueue q n subject s =
     s\<lparr>d_jobs := d_jobs s @ [\<lparr>jb_queue = q, jb_name = n, jb_subject = subject\<rparr>]\<rparr>"

definition emit_event :: "string \<Rightarrow> string \<Rightarrow> db \<Rightarrow> db" where
  "emit_event n subject s = s\<lparr>d_emitted := d_emitted s @ [(n, subject)]\<rparr>"

definition account_exists :: "string \<Rightarrow> db \<Rightarrow> bool" where
  "account_exists k s \<longleftrightarrow> find_row ac_id k (d_accounts s) \<noteq> None"

text \<open>
  \<open>auditLog.create\<close>: the column \<open>userId\<close> of \<open>audit_logs\<close> is a foreign key, so an entry for a user
  that is no account is an error of the database.
\<close>

definition audit_create :: "audit_row \<Rightarrow> db \<Rightarrow> http_error + db" where
  "audit_create a s =
     (if account_exists (au_user a) s then Inr (s\<lparr>d_audit := d_audit s @ [a]\<rparr>)
      else Inl (DbError ''P2003''))"

definition log_event :: "string \<Rightarrow> string \<Rightarrow> string \<Rightarrow> int \<Rightarrow> db \<Rightarrow> db" where
  "log_event order name user now s =
     s\<lparr>d_events := insert_row \<lparr>ev_order = order, ev_event = name, ev_user = user, ev_at = now\<rparr> (d_events s)\<rparr>"

definition log_status :: "string \<Rightarrow> OrderStatus \<Rightarrow> string \<Rightarrow> int \<Rightarrow> db \<Rightarrow> db" where
  "log_status order st user now s =
     s\<lparr>d_history := insert_row \<lparr>sh_order = order, sh_status = st, sh_by = user, sh_at = now\<rparr> (d_history s)\<rparr>"

definition update_order :: "string \<Rightarrow> (order_row \<Rightarrow> order_row) \<Rightarrow> db \<Rightarrow> db" where
  "update_order k f s = s\<lparr>d_orders := update_row wo_id k f (d_orders s)\<rparr>"

definition update_item :: "string \<Rightarrow> (item_row \<Rightarrow> item_row) \<Rightarrow> db \<Rightarrow> db" where
  "update_item k f s = s\<lparr>d_items := update_row it_id k f (d_items s)\<rparr>"

definition update_invoice :: "string \<Rightarrow> (invoice_row \<Rightarrow> invoice_row) \<Rightarrow> db \<Rightarrow> db" where
  "update_invoice k f s = s\<lparr>d_invoices := update_row iv_id k f (d_invoices s)\<rparr>"

definition update_session :: "string \<Rightarrow> (session_row \<Rightarrow> session_row) \<Rightarrow> db \<Rightarrow> db" where
  "update_session k f s = s\<lparr>d_sessions := update_row cs_id k f (d_sessions s)\<rparr>"

definition update_expense :: "string \<Rightarrow> (expense_row \<Rightarrow> expense_row) \<Rightarrow> db \<Rightarrow> db" where
  "update_expense k f s = s\<lparr>d_expenses := update_row ex_id k f (d_expenses s)\<rparr>"

definition update_account :: "string \<Rightarrow> (account_row \<Rightarrow> account_row) \<Rightarrow> db \<Rightarrow> db" where
  "update_account k f s = s\<lparr>d_accounts := update_row ac_id k f (d_accounts s)\<rparr>"

definition set_redis :: "redis \<Rightarrow> db \<Rightarrow> db" where
  "set_redis r s = s\<lparr>d_redis := r\<rparr>"

text \<open>Every table is a repository under its key.\<close>

interpretation accounts: repository "find_row ac_id" "update_row ac_id" insert_row ac_id
  by (rule repository_list)

interpretation orders: repository "find_row wo_id" "update_row wo_id" insert_row wo_id
  by (rule repository_list)

interpretation items: repository "find_row it_id" "update_row it_id" insert_row it_id
  by (rule repository_list)

interpretation sessions: repository "find_row cs_id" "update_row cs_id" insert_row cs_id
  by (rule repository_list)

interpretation expenses: repository "find_row ex_id" "update_row ex_id" insert_row ex_id
  by (rule repository_list)

interpretation invoices: repository "find_row iv_id" "update_row iv_id" insert_row iv_id
  by (rule repository_list)

interpretation payments: repository "find_row pm_id" "update_row pm_id" insert_row pm_id
  by (rule repository_list)

interpretation purchases: repository "find_row pu_id" "update_row pu_id" insert_row pu_id
  by (rule repository_list)

interpretation purchase_items: repository "find_row pi_id" "update_row pi_id" insert_row pi_id
  by (rule repository_list)

interpretation tokens: repository "find_row rt_id" "update_row rt_id" insert_row rt_id
  by (rule repository_list)

text \<open>What each of the helpers leaves alone.\<close>

lemma send_frame [simp]:
  "d_accounts (send r e x s) = d_accounts s"
  "d_tokens (send r e x s) = d_tokens s"
  "d_personnel (send r e x s) = d_personnel s"
  "d_attendance (send r e x s) = d_attendance s"
  "d_vehicles (send r e x s) = d_vehicles s"
  "d_usage (send r e x s) = d_usage s"
  "d_clients (send r e x s) = d_clients s"
  "d_orders (send r e x s) = d_orders s"
  "d_events (send r e x s) = d_events s"
  "d_photos (send r e x s) = d_photos s"
  "d_parts (send r e x s) = d_parts s"
  "d_order_items (send r e x s) = d_order_items s"
  "d_history (send r e x s) = d_history s"
  "d_suppliers (send r e x s) = d_suppliers s"
  "d_categories (send r e x s) = d_categories s"
  "d_items (send r e x s) = d_items s"
  "d_movements (send r e x s) = d_movements s"
  "d_sessions (send r e x s) = d_sessions s"
  "d_transactions (send r e x s) = d_transactions s"
  "d_expenses (send r e x s) = d_expenses s"
  "d_invoices (send r e x s) = d_invoices s"
  "d_payments (send r e x s) = d_payments s"
  "d_approvals (send r e x s) = d_approvals s"
  "d_purchases (send r e x s) = d_purchases s"
  "d_purchase_items (send r e x s) = d_purchase_items s"
  "d_commissions (send r e x s) = d_commissions s"
  "d_quotes (send r e x s) = d_quotes s"
  "d_audit (send r e x s) = d_audit s"
  "d_notifications (send r e x s) = d_notifications s"
  "d_settings (send r e x s) = d_settings s"
  "d_redis (send r e x s) = d_redis s"
  "d_sockets (send r e x s) = d_sockets s"
  "d_jobs (send r e x s) = d_jobs s"
  "d_emitted (send r e x s) = d_emitted s"
  "account_exists a (send r e x s) = account_exists a s"
  by (simp_all add: send_def account_exists_def)

lemma enqueue_frame [simp]:
  "d_accounts (enqueue q n x s) = d_accounts s"
  "d_tokens (enqueue q n x s) = d_tokens s"
  "d_personnel (enqueue q n x s) = d_personnel s"
  "d_attendance (enqueue q n x s) = d_attendance s"
  "d_vehicles (enqueue q n x s) = d_vehicles s"
  "d_usage (enqueue q n x s) = d_usage s"
  "d_clients (enqueue q n x s) = d_clients s"
  "d_orders (enqueue q n x s) = d_orders s"
  "d_events (enqueue q n x s) = d_events s"
  "d_photos (enqueue q n x s) = d_photos s"
  "d_parts (enqueue q n x s) = d_parts s"
  "d_order_items (enqueue q n x s) = d_order_items s"
  "d_history (enqueue q n x s) = d_history s"
  "d_suppliers (enqueue q n x s) = d_suppliers s"
  "d_categories (enqueue q n x s) = d_categories s"
  "d_items (enqueue q n x s) = d_items s"
  "d_movements (enqueue q n x s) = d_movements s"
  "d_sessions (enqueue q n x s) = d_sessions s"
  "d_transactions (enqueue q n x s) = d_transactions s"
  "d_expenses (enqueue q n x s) = d_expenses s"
  "d_invoices (enqueue q n x s) = d_invoices s"
  "d_payments (enqueue q n x s) = d_payments s"
  "d_approvals (enqueue q n x s) = d_approvals s"
  "d_purchases (enqueue q n x s) = d_purchases s"
  "d_purchase_items (enqueue q n x s) = d_purchase_items s"
  "d_commissions (enqueue q n x s) = d_commissions s"
  "d_quotes (enqueue q n x s) = d_quotes s"
  "d_audit (enqueue q n x s) = d_audit s"
  "d_notifications (enqueue q n x s) = d_notifications s"
  "d_settings (enqueue q n x s) = d_settings s"
  "d_redis (enqueue q n x s) = d_redis s"
  "d_sockets (enqueue q n x s) = d_sockets s"
  "d_sent (enqueue q n x s) = d_sent s"
  "d_emitted (enqueue q n x s) = d_emitted s"
  "account_exists a (enqueue q n x s) = account_exists a s"
  by (simp_all add: enqueue_def account_exists_def)

lemma emit_event_frame [simp]:
  "d_accounts (emit_event n x s) = d_accounts s"
  "d_tokens (emit_event n x s) = d_tokens s"
  "d_personnel (emit_event n x s) = d_personnel s"
  "d_attendance (emit_event n x s) = d_attendance s"
  "d_vehicles (emit_event n x s) = d_vehicles s"
  "d_usage (emit_event n x s) = d_usage s"
  "d_clients (emit_event n x s) = d_clients s"
  "d_orders (emit_event n x s) = d_orders s"
  "d_events (emit_event n x s) = d_events s"
  "d_photos (emit_event n x s) = d_photos s"
  "d_parts (emit_event n x s) = d_parts s"
  "d_order_items (emit_event n x s) = d_order_items s"
  "d_history (emit_event n x s) = d_history s"
  "d_suppliers (emit_event n x s) = d_suppliers s"
  "d_categories (emit_event n x s) = d_categories s"
  "d_items (emit_event n x s) = d_items s"
  "d_movements (emit_event n x s) = d_movements s"
  "d_sessions (emit_event n x s) = d_sessions s"
  "d_transactions (emit_event n x s) = d_transactions s"
  "d_expenses (emit_event n x s) = d_expenses s"
  "d_invoices (emit_event n x s) = d_invoices s"
  "d_payments (emit_event n x s) = d_payments s"
  "d_approvals (emit_event n x s) = d_approvals s"
  "d_purchases (emit_event n x s) = d_purchases s"
  "d_purchase_items (emit_event n x s) = d_purchase_items s"
  "d_commissions (emit_event n x s) = d_commissions s"
  "d_quotes (emit_event n x s) = d_quotes s"
  "d_audit (emit_event n x s) = d_audit s"
  "d_notifications (emit_event n x s) = d_notifications s"
  "d_settings (emit_event n x s) = d_settings s"
  "d_redis (emit_event n x s) = d_redis s"
  "d_sockets (emit_event n x s) = d_sockets s"
  "d_sent (emit_event n x s) = d_sent s"
  "d_jobs (emit_event n x s) = d_jobs s"
  "account_exists a (emit_event n x s) = account_exists a s"
  by (simp_all add: emit_event_def account_exists_def)

lemma log_event_frame [simp]:
  "d_accounts (log_event w e u t s) = d_accounts s"
  "d_tokens (log_event w e u t s) = d_tokens s"
  "d_personnel (log_event w e u t s) = d_personnel s"
  "d_attendance (log_event w e u t s) = d_attendance s"
  "d_vehicles (log_event w e u t s) = d_vehicles s"
  "d_usage (log_event w e u t s) = d_usage s"
  "d_clients (log_event w e u t s) = d_clients s"
  "d_orders (log_event w e u t s) = d_orders s"
  "d_photos (log_event w e u t s) = d_photos s"
  "d_parts (log_event w e u t s) = d_parts s"
  "d_order_items (log_event w e u t s) = d_order_items s"
  "d_history (log_event w e u t s) = d_history s"
  "d_suppliers (log_event w e u t s) = d_suppliers s"
  "d_categories (log_event w e u t s) = d_categories s"
  "d_items (log_event w e u t s) = d_items s"
  "d_movements (log_event w e u t s) = d_movements s"
  "d_sessions (log_event w e u t s) = d_sessions s"
  "d_transactions (log_event w e u t s) = d_transactions s"
  "d_expenses (log_event w e u t s) = d_expenses s"
  "d_invoices (log_event w e u t s) = d_invoices s"
  "d_payments (log_event w e u t s) = d_payments s"
  "d_approvals (log_event w e u t s) = d_approvals s"
  "d_purchases (log_event w e u t s) = d_purchases s"
  "d_purchase_items (log_event w e u t s) = d_purchase_items s"
  "d_commissions (log_event w e u t s) = d_commissions s"
  "d_quotes (log_event w e u t s) = d_quotes s"
  "d_audit (log_event w e u t s) = d_audit s"
  "d_notifications (log_event w e u t s) = d_notifications s"
  "d_settings (log_event w e u t s) = d_settings s"
  "d_redis (log_event w e u t s) = d_redis s"
  "d_sockets (log_event w e u t s) = d_sockets s"
  "d_sent (log_event w e u t s) = d_sent s"
  "d_jobs (log_event w e u t s) = d_jobs s"
  "d_emitted (log_event w e u t s) = d_emitted s"
  "account_exists a (log_event w e u t s) = account_exists a s"
  by (simp_all add: log_event_def account_exists_def)

lemma log_status_frame [simp]:
  "d_accounts (log_status w st u t s) = d_accounts s"
  "d_tokens (log_status w st u t s) = d_tokens s"
  "d_personnel (log_status w st u t s) = d_personnel s"
  "d_attendance (log_status w st u t s) = d_attendance s"
  "d_vehicles (log_status w st u t s) = d_vehicles s"
  "d_usage (log_status w st u t s) = d_usage s"
  "d_clients (log_status w st u t s) = d_clients s"
  "d_orders (log_status w st u t s) = d_orders s"
  "d_events (log_status w st u t s) = d_events s"
  "d_photos (log_status w st u t s) = d_photos s"
  "d_parts (log_status w st u t s) = d_parts s"
  "d_order_items (log_status w st u t s) = d_order_items s"
  "d_suppliers (log_status w st u t s) = d_suppliers s"
  "d_categories (log_status w st u t s) = d_categories s"
  "d_items (log_status w st u t s) = d_items s"
  "d_movements (log_status w st u t s) = d_movements s"
  "d_sessions (log_status w st u t s) = d_sessions s"
  "d_transactions (log_status w st u t s) = d_transactions s"
  "d_expenses (log_status w st u t s) = d_expenses s"
  "d_invoices (log_status w st u t s) = d_invoices s"
  "d_payments (log_status w st u t s) = d_payments s"
  "d_approvals (log_status w st u t s) = d_approvals s"
  "d_purchases (log_status w st u t s) = d_purchases s"
  "d_purchase_items (log_status w st u t s) = d_purchase_items s"
  "d_commissions (log_status w st u t s) = d_commissions s"
  "d_quotes (log_status w st u t s) = d_quotes s"
  "d_audit (log_status w st u t s) = d_audit s"
  "d_notifications (log_status w st u t s) = d_notifications s"
  "d_settings (log_status w st u t s) = d_settings s"
  "d_redis (log_status w st u t s) = d_redis s"
  "d_sockets (log_status w st u t s) = d_sockets s"
  "d_sent (log_status w st u t s) = d_sent s"
  "d_jobs (log_status w st u t s) = d_jobs s"
  "d_emitted (log_status w st u t s) = d_emitted s"
  "account_exists a (log_status w st u t s) = account_exists a s"
  by (simp_all add: log_status_def account_exists_def)

lemma update_order_frame [simp]:
  "d_accounts (update_order k f s) = d_accounts s"
  "d_tokens (update_order k f s) = d_tokens s"
  "d_personnel (update_order k f s) = d_personnel s"
  "d_attendance (update_order k f s) = d_attendance s"
  "d_vehicles (update_order k f s) = d_vehicles s"
  "d_usage (update_order k f s) = d_usage s"
  "d_clients (update_order k f s) = d_clients s"
  "d_orders (update_order k f s) = update_row wo_id k f (d_orders s)"
  "d_events (update_order k f s) = d_events s"
  "d_photos (update_order k f s) = d_photos s"
  "d_parts (update_order k f s) = d_parts s"
  "d_order_items (update_order k f s) = d_order_items s"
  "d_history (update_order k f s) = d_history s"
  "d_suppliers (update_order k f s) = d_suppliers s"
  "d_categories (update_order k f s) = d_categories s"
  "d_items (update_order k f s) = d_items s"
  "d_movements (update_order k f s) = d_movements s"
  "d_sessions (update_order k f s) = d_sessions s"
  "d_transactions (update_order k f s) = d_transactions s"
  "d_expenses (update_order k f s) = d_expenses s"
  "d_invoices (update_order k f s) = d_invoices s"
  "d_payments (update_order k f s) = d_payments s"
  "d_approvals (update_order k f s) = d_approvals s"
  "d_purchases (update_order k f s) = d_purchases s"
  "d_purchase_items (update_order k f s) = d_purchase_items s"
  "d_commissions (update_order k f s) = d_commissions s"
  "d_quotes (update_order k f s) = d_quotes s"
  "d_audit (update_order k f s) = d_audit s"
  "d_notifications (update_order k f s) = d_notifications s"
  "d_settings (update_order k f s) = d_settings s"
  "d_redis (update_order k f s) = d_redis s"
  "d_sockets (update_order k f s) = d_sockets s"
  "d_sent (update_order k f s) = d_sent s"
  "d_jobs (update_order k f s) = d_jobs s"
  "d_emitted (update_order k f s) = d_emitted s"
  "account_exists a (update_order k f s) = account_exists a s"
  by (simp_all add: update_order_def account_exists_def)

lemma update_item_frame [simp]:
  "d_accounts (update_item k f s) = d_accounts s"
  "d_tokens (update_item k f s) = d_tokens s"
  "d_personnel (update_item k f s) = d_personnel s"
  "d_attendance (update_item k f s) = d_attendance s"
  "d_vehicles (update_item k f s) = d_vehicles s"
  "d_usage (update_item k f s) = d_usage s"
  "d_clients (update_item k f s) = d_clients s"
  "d_orders (update_item k f s) = d_orders s"
  "d_events (update_item k f s) = d_events s"
  "d_photos (update_item k f s) = d_photos s"
  "d_parts (update_item k f s) = d_parts s"
  "d_order_items (update_item k f s) = d_order_items s"
  "d_history (update_item k f s) = d_history s"
  "d_suppliers (update_item k f s) = d_suppliers s"
  "d_categories (update_item k f s) = d_categories s"
  "d_items (update_item k f s) = update_row it_id k f (d_items s)"
  "d_movements (update_item k f s) = d_movements s"
  "d_sessions (update_item k f s) = d_sessions s"
  "d_transactions (update_item k f s) = d_transactions s"
  "d_expenses (update_item k f s) = d_expenses s"
  "d_invoices (update_item k f s) = d_invoices s"
  "d_payments (update_item k f s) = d_payments s"
  "d_approvals (update_item k f s) = d_approvals s"
  "d_purchases (update_item k f s) = d_purchases s"
  "d_purchase_items (update_item k f s) = d_purchase_items s"
  "d_commissions (update_item k f s) = d_commissions s"
  "d_quotes (update_item k f s) = d_quotes s"
  "d_audit (update_item k f s) = d_audit s"
  "d_notifications (update_item k f s) = d_notifications s"
  "d_settings (update_item k f s) = d_settings s"
  "d_redis (update_item k f s) = d_redis s"
  "d_sockets (update_item k f s) = d_sockets s"
  "d_sent (update_item k f s) = d_sent s"
  "d_jobs (update_item k f s) = d_jobs s"
  "d_emitted (update_item k f s) = d_emitted s"
  "account_exists a (update_item k f s) = account_exists a s"
  by (simp_all add: update_item_def account_exists_def)

lemma update_invoice_frame [simp]:
  "d_accounts (update_invoice k f s) = d_accounts s"
  "d_tokens (update_invoice k f s) = d_tokens s"
  "d_personnel (update_invoice k f s) = d_personnel s"
  "d_attendance (update_invoice k f s) = d_attendance s"
  "d_vehicles (update_invoice k f s) = d_vehicles s"
  "d_usage (update_invoice k f s) = d_usage s"
  "d_clients (update_invoice k f s) = d_clients s"
  "d_orders (update_invoice k f s) = d_orders s"
  "d_events (update_invoice k f s) = d_events s"
  "d_photos (update_invoice k f s) = d_photos s"
  "d_parts (update_invoice k f s) = d_parts s"
  "d_order_items (update_invoice k f s) = d_order_items s"
  "d_history (update_invoice k f s) = d_history s"
  "d_suppliers (update_invoice k f s) = d_suppliers s"
  "d_categories (update_invoice k f s) = d_categories s"
  "d_items (update_invoice k f s) = d_items s"
  "d_movements (update_invoice k f s) = d_movements s"
  "d_sessions (update_invoice k f s) = d_sessions s"
  "d_transactions (update_invoice k f s) = d_transactions s"
  "d_expenses (update_invoice k f s) = d_expenses s"
  "d_invoices (update_invoice k f s) = update_row iv_id k f (d_invoices s)"
  "d_payments (update_invoice k f s) = d_payments s"
  "d_approvals (update_invoice k f s) = d_approvals s"
  "d_purchases (update_invoice k f s) = d_purchases s"
  "d_purchase_items (update_invoice k f s) = d_purchase_items s"
  "d_commissions (update_invoice k f s) = d_commissions s"
  "d_quotes (update_invoice k f s) = d_quotes s"
  "d_audit (update_invoice k f s) = d_audit s"
  "d_notifications (update_invoice k f s) = d_notifications s"
  "d_settings (update_invoice k f s) = d_settings s"
  "d_redis (update_invoice k f s) = d_redis s"
  "d_sockets (update_invoice k f s) = d_sockets s"
  "d_sent (update_invoice k f s) = d_sent s"
  "d_jobs (update_invoice k f s) = d_jobs s"
  "d_emitted (update_invoice k f s) = d_emitted s"
  "account_exists a (update_invoice k f s) = account_exists a s"
  by (simp_all add: update_invoice_def account_exists_def)

lemma update_session_frame [simp]:
  "d_accounts (update_session k f s) = d_accounts s"
  "d_tokens (update_session k f s) = d_tokens s"
  "d_personnel (update_session k f s) = d_personnel s"
  "d_attendance (update_session k f s) = d_attendance s"
  "d_vehicles (update_session k f s) = d_vehicles s"
  "d_usage (update_session k f s) = d_usage s"
  "d_clients (update_session k f s) = d_clients s"
  "d_orders (update_session k f s) = d_orders s"
  "d_events (update_session k f s) = d_events s"
  "d_photos (update_session k f s) = d_photos s"
  "d_parts (update_session k f s) = d_parts s"
  "d_order_items (update_session k f s) = d_order_items s"
  "d_history (update_session k f s) = d_history s"
  "d_suppliers (update_session k f s) = d_suppliers s"
  "d_categories (update_session k f s) = d_categories s"
  "d_items (update_session k f s) = d_items s"
  "d_movements (update_session k f s) = d_movements s"
  "d_sessions (update_session k f s) = update_row cs_id k f (d_sessions s)"
  "d_transactions (update_session k f s) = d_transactions s"
  "d_expenses (update_session k f s) = d_expenses s"
  "d_invoices (update_session k f s) = d_invoices s"
  "d_payments (update_session k f s) = d_payments s"
  "d_approvals (update_session k f s) = d_approvals s"
  "d_purchases (update_session k f s) = d_purchases s"
  "d_purchase_items (update_session k f s) = d_purchase_items s"
  "d_commissions (update_session k f s) = d_commissions s"
  "d_quotes (update_session k f s) = d_quotes s"
  "d_audit (update_session k f s) = d_audit s"
  "d_notifications (update_session k f s) = d_notifications s"
  "d_settings (update_session k f s) = d_settings s"
  "d_redis (update_session k f s) = d_redis s"
  "d_sockets (update_session k f s) = d_sockets s"
  "d_sent (update_session k f s) = d_sent s"
  "d_jobs (update_session k f s) = d_jobs s"
  "d_emitted (update_session k f s) = d_emitted s"
  "account_exists a (update_session k f s) = account_exists a s"
  by (simp_all add: update_session_def account_exists_def)

lemma update_expense_frame [simp]:
  "d_accounts (update_expense k f s) = d_accounts s"
  "d_tokens (update_expense k f s) = d_tokens s"
  "d_personnel (update_expense k f s) = d_personnel s"
  "d_attendance (update_expense k f s) = d_attendance s"
  "d_vehicles (update_expense k f s) = d_vehicles s"
  "d_usage (update_expense k f s) = d_usage s"
  "d_clients (update_expense k f s) = d_clients s"
  "d_orders (update_expense k f s) = d_orders s"
  "d_events (update_expense k f s) = d_events s"
  "d_photos (update_expense k f s) = d_photos s"
  "d_parts (update_expense k f s) = d_parts s"
  "d_order_items (update_expense k f s) = d_order_items s"
  "d_history (update_expense k f s) = d_history s"
  "d_suppliers (update_expense k f s) = d_suppliers s"
  "d_categories (update_expense k f s) = d_categories s"
  "d_items (update_expense k f s) = d_items s"
  "d_movements (update_expense k f s) = d_movements s"
  "d_sessions (update_expense k f s) = d_sessions s"
  "d_transactions (update_expense k f s) = d_transactions s"
  "d_expenses (update_expense k f s) = update_row ex_id k f (d_expenses s)"
  "d_invoices (update_expense k f s) = d_invoices s"
  "d_payments (update_expense k f s) = d_payments s"
  "d_approvals (update_expense k f s) = d_approvals s"
  "d_purchases (update_expense k f s) = d_purchases s"
  "d_purchase_items (update_expense k f s) = d_purchase_items s"
  "d_commissions (update_expense k f s) = d_commissions s"
  "d_quotes (update_expense k f s) = d_quotes s"
  "d_audit (update_expense k f s) = d_audit s"
  "d_notifications (update_expense k f s) = d_notifications s"
  "d_settings (update_expense k f s) = d_settings s"
  "d_redis (update_expense k f s) = d_redis s"
  "d_sockets (update_expense k f s) = d_sockets s"
  "d_sent (update_expense k f s) = d_sent s"
  "d_jobs (update_expense k f s) = d_jobs s"
  "d_emitted (update_expense k f s) = d_emitted s"
  "account_exists a (update_expense k f s) = account_exists a s"
  by (simp_all add: update_expense_def account_exists_def)

lemma update_account_frame [simp]:
  "d_accounts (update_account k f s) = update_row ac_id k f (d_accounts s)"
  "d_tokens (update_account k f s) = d_tokens s"
  "d_personnel (update_account k f s) = d_personnel s"
  "d_attendance (update_account k f s) = d_attendance s"
  "d_vehicles (update_account k f s) = d_vehicles s"
  "d_usage (update_account k f s) = d_usage s"
  "d_clients (update_account k f s) = d_clients s"
  "d_orders (update_account k f s) = d_orders s"
  "d_events (update_account k f s) = d_events s"
  "d_photos (update_account k f s) = d_photos s"
  "d_parts (update_account k f s) = d_parts s"
  "d_order_items (update_account k f s) = d_order_items s"
  "d_history (update_account k f s) = d_history s"
  "d_suppliers (update_account k f s) = d_suppliers s"
  "d_categories (update_account k f s) = d_categories s"
  "d_items (update_account k f s) = d_items s"
  "d_movements (update_account k f s) = d_movements s"
  "d_sessions (update_account k f s) = d_sessions s"
  "d_transactions (update_account k f s) = d_transactions s"
  "d_expenses (update_account k f s) = d_expenses s"
  "d_invoices (update_account k f s) = d_invoices s"
  "d_payments (update_account k f s) = d_payments s"
  "d_approvals (update_account k f s) = d_approvals s"
  "d_purchases (update_account k f s) = d_purchases s"
  "d_purchase_items (update_account k f s) = d_purchase_items s"
  "d_commissions (update_account k f s) = d_commissions s"
  "d_quotes (update_account k f s) = d_quotes s"
  "d_audit (update_account k f s) = d_audit s"
  "d_notifications (update_account k f s) = d_notifications s"
  "d_settings (update_account k f s) = d_settings s"
  "d_redis (update_account k f s) = d_redis s"
  "d_sockets (update_account k f s) = d_sockets s"
  "d_sent (update_account k f s) = d_sent s"
  "d_jobs (update_account k f s) = d_jobs s"
  "d_emitted (update_account k f s) = d_emitted s"
  by (simp_all add: update_account_def account_exists_def)

lemma set_redis_frame [simp]:
  "d_accounts (set_redis rd s) = d_accounts s"
  "d_tokens (set_redis rd s) = d_tokens s"
  "d_personnel (set_redis rd s) = d_personnel s"
  "d_attendance (set_redis rd s) = d_attendance s"
  "d_vehicles (set_redis rd s) = d_vehicles s"
  "d_usage (set_redis rd s) = d_usage s"
  "d_clients (set_redis rd s) = d_clients s"
  "d_orders (set_redis rd s) = d_orders s"
  "d_events (set_redis rd s) = d_events s"
  "d_photos (set_redis rd s) = d_photos s"
  "d_parts (set_redis rd s) = d_parts s"
  "d_order_items (set_redis rd s) = d_order_items s"
  "d_history (set_redis rd s) = d_history s"
  "d_suppliers (set_redis rd s) = d_suppliers s"
  "d_categories (set_redis rd s) = d_categories s"
  "d_items (set_redis rd s) = d_items s"
  "d_movements (set_redis rd s) = d_movements s"
  "d_sessions (set_redis rd s) = d_sessions s"
  "d_transactions (set_redis rd s) = d_transactions s"
  "d_expenses (set_redis rd s) = d_expenses s"
  "d_invoices (set_redis rd s) = d_invoices s"
  "d_payments (set_redis rd s) = d_payments s"
  "d_approvals (set_redis rd s) = d_approvals s"
  "d_purchases (set_redis rd s) = d_purchases s"
  "d_purchase_items (set_redis rd s) = d_purchase_items s"
  "d_commissions (set_redis rd s) = d_commissions s"
  "d_quotes (set_redis rd s) = d_quotes s"
  "d_audit (set_redis rd s) = d_audit s"
  "d_notifications (set_redis rd s) = d_notifications s"
  "d_settings (set_redis rd s) = d_settings s"
  "d_redis (set_redis rd s) = rd"
  "d_sockets (set_redis rd s) = d_sockets s"
  "d_sent (set_redis rd s) = d_sent s"
  "d_jobs (set_redis rd s) = d_jobs s"
  "d_emitted (set_redis rd s) = d_emitted s"
  "account_exists a (set_redis rd s) = account_exists a s"
  by (simp_all add: set_redis_def account_exists_def)

lemma account_exists_update [simp]:
  "(\<And>r. ac_id (f r) = ac_id r) \<Longrightarrow> account_exists a (update_account k f s) = account_exists a s"
  by (simp add: account_exists_def accounts.lookup_modify)

lemma sent_jobs_frame [simp]:
  "d_sent (send r e x s) = d_sent s @ [\<lparr>wm_room = r, wm_event = e, wm_subject = x\<rparr>]"
  "d_jobs (enqueue q n x s) = d_jobs s @ [\<lparr>jb_queue = q, jb_name = n, jb_subject = x\<rparr>]"
  "d_emitted (emit_event n x s) = d_emitted s @ [(n, x)]"
  by (simp_all add: send_def enqueue_def emit_event_def)

lemma audit_create_frame: "audit_create a s = Inr s' \<Longrightarrow> s' = s\<lparr>d_audit := d_audit s @ [a]\<rparr>"
  by (auto simp: audit_create_def split: if_splits)

lemma account_exists_fields [simp]:
  "account_exists k (s\<lparr>d_audit := v1\<rparr>) = account_exists k s"
  by (simp_all add: account_exists_def)

section \<open>Decimal columns\<close>

text \<open>
  The database rounds a number that is written to a column of two decimals. The rounding is done by
  the database client and PostgreSQL: it is the parameter \<open>dec\<close> of the handlers, and what they rely on
  is that a number within a tenth of a cent of an amount is stored as that amount.
\<close>

definition decimal_column :: "(number \<Rightarrow> int) \<Rightarrow> bool" where
  "decimal_column dec \<longleftrightarrow> (\<forall>x n. approx (1 / 1000) x n \<longrightarrow> cents_range n \<longrightarrow> dec x = n)"

lemma decimal_columnD:
  "decimal_column dec \<Longrightarrow> approx e x n \<Longrightarrow> e \<le> 1 / 1000 \<Longrightarrow> cents_range n \<Longrightarrow> dec x = n"
  using approx_weaken unfolding decimal_column_def by blast

lemma decimal_column_cents: "decimal_column dec \<Longrightarrow> cents_range n \<Longrightarrow> dec (cents n) = n"
  by (rule decimal_columnD[OF _ approx_cents]) auto

text \<open>Such a rounding exists: half a cent up.\<close>

definition half_up :: "number \<Rightarrow> int" where
  "half_up x = (case x of Fin q \<Rightarrow> \<lfloor>q * 100 + 1 / 2\<rfloor> | _ \<Rightarrow> 0)"

lemma decimal_column_half_up: "decimal_column half_up"
  unfolding decimal_column_def
proof (intro allI impI)
  fix x n
  assume "approx (1 / 1000) x n" "cents_range n"
  then obtain r where r: "x = Fin r" "\<bar>r - of_int n / 100\<bar> \<le> 1 / 1000" by (auto elim!: approxE)
  then have "of_int n \<le> r * 100 + 1 / 2" "r * 100 + 1 / 2 < of_int n + 1"
    using r(2)[unfolded abs_le_iff] by linarith+
  then have "\<lfloor>r * 100 + 1 / 2\<rfloor> = n" by (simp add: floor_eq_iff)
  then show "half_up x = n" by (simp add: half_up_def r)
qed

text \<open>Document numbers: a prefix, the year and a counter of at least four digits.\<close>

primrec digits_fuel :: "nat \<Rightarrow> nat \<Rightarrow> string" where
  "digits_fuel 0 n = []"
| "digits_fuel (Suc k) n =
     (if n < 10 then [char_of (48 + n)] else digits_fuel k (n div 10) @ [char_of (48 + n mod 10)])"

definition digits_of :: "nat \<Rightarrow> string" where
  "digits_of n = digits_fuel (Suc n) n"

definition pad4 :: "string \<Rightarrow> string" where
  "pad4 s = replicate (4 - length s) (CHR ''0'') @ s"

definition document_number :: "string \<Rightarrow> int \<Rightarrow> nat \<Rightarrow> string" where
  "document_number prefix year count =
     prefix @ ''-'' @ digits_of (nat year) @ ''-'' @ pad4 (digits_of (count + 1))"

definition number_prefix :: "string \<Rightarrow> int \<Rightarrow> string" where
  "number_prefix prefix year = prefix @ ''-'' @ digits_of (nat year) @ ''-''"

definition starts_with :: "string \<Rightarrow> string \<Rightarrow> bool" where
  "starts_with p s \<longleftrightarrow> take (length p) s = p"

lemma document_number_starts: "starts_with (number_prefix p y) (document_number p y n)"
  by (simp add: starts_with_def number_prefix_def document_number_def)

section \<open>Listings\<close>

text \<open>
  A listing by cursor: \<open>findMany\<close> with \<open>cursor\<close> and \<open>skip: 1\<close> starts after the row the cursor names (a
  cursor that names no row finds nothing); one row more than the limit is read to see whether there is a
  next page, and the cursor of the next page is the last row shown.
\<close>

definition after_cursor :: "('r \<Rightarrow> string) \<Rightarrow> string option \<Rightarrow> 'r list \<Rightarrow> 'r list" where
  "after_cursor key cursor rows =
     (case cursor of None \<Rightarrow> rows | Some c \<Rightarrow> drop 1 (dropWhile (\<lambda>r. key r \<noteq> c) rows))"

definition cursor_page :: "('r \<Rightarrow> string) \<Rightarrow> nat \<Rightarrow> string option \<Rightarrow> 'r list \<Rightarrow> 'r list \<times> string option \<times> bool" where
  "cursor_page key limit cursor rows =
     (let found = take (limit + 1) (after_cursor key cursor rows);
          has_more = limit < length found;
          data = (if has_more then take limit found else found)
      in (data, if has_more then Some (key (last data)) else None, has_more))"

lemma after_cursor_at:
  "distinct (map key rows) \<Longrightarrow> rows = xs @ r # ys \<Longrightarrow> after_cursor key (Some (key r)) rows = ys"
proof -
  assume d: "distinct (map key rows)" "rows = xs @ r # ys"
  then have n: "key r \<notin> key ` set xs" by simp
  then have "\<forall>x \<in> set xs. key x \<noteq> key r" by (metis imageI)
  then have "dropWhile (\<lambda>x. key x \<noteq> key r) (xs @ r # ys) = r # ys" by (induction xs) auto
  then show ?thesis using d by (simp add: after_cursor_def)
qed

text \<open>Following the cursors from the first page shows every row exactly once.\<close>

lemma cursor_page_next:
  assumes "distinct (map key rows)" and "0 < limit" and "rows = xs @ ys"
    and "after_cursor key cursor rows = ys"
    and "cursor_page key limit cursor rows = (data, next, hm)"
  shows "\<exists>zs. ys = data @ zs \<and> (hm \<longleftrightarrow> zs \<noteq> []) \<and> (\<not> hm \<longrightarrow> next = None)
    \<and> (hm \<longrightarrow> next \<noteq> None \<and> after_cursor key next rows = zs)"
proof (cases "limit < length ys")
  case True
  have d: "data = take limit ys" "hm" "next = Some (key (last data))"
    using assms(4,5) True by (auto simp: cursor_page_def Let_def min_def split: if_splits)
  have "data \<noteq> []" using d True assms(2) by auto
  then have "butlast data @ [last data] = data" by simp
  moreover have "data @ drop limit ys = ys" using d(1) by simp
  ultimately have "ys = butlast data @ last data # drop limit ys" by (metis append.assoc append_Cons append_Nil)
  then have "rows = (xs @ butlast data) @ last data # drop limit ys" using assms(3) by simp
  then have "after_cursor key next rows = drop limit ys" unfolding d(3) by (rule after_cursor_at[OF assms(1)])
  then show ?thesis using d True by (intro exI[of _ "drop limit ys"]) auto
next
  case False
  then show ?thesis using assms(4,5) by (auto simp: cursor_page_def Let_def)
qed

end
