(* ===== verification/Listings.thy ===== *)
theory Listings
  imports Schema
begin

text \<open>
  What the listings of the services share: optional filters, case-insensitive search, and pages by offset.
\<close>

text \<open>A string that is there and not empty: what \<open>if (x)\<close> asks of an optional string.\<close>

definition nonempty :: "string option \<Rightarrow> bool" where
  "nonempty x = (case x of None \<Rightarrow> False | Some v \<Rightarrow> v \<noteq> [])"

definition lower :: "char \<Rightarrow> char" where
  "lower c = (let n = (of_char c :: nat) in if 65 \<le> n \<and> n \<le> 90 then char_of (n + 32) else c)"

primrec contains_text :: "string \<Rightarrow> string \<Rightarrow> bool" where
  "contains_text p [] = (p = [])"
| "contains_text p (c # s) = (take (length p) (c # s) = p \<or> contains_text p s)"

definition contains_insensitive :: "string \<Rightarrow> string \<Rightarrow> bool" where
  "contains_insensitive p s = contains_text (map lower p) (map lower s)"

record 'r page =
  pg_data :: "'r list"
  pg_total :: nat
  pg_page :: nat
  pg_size :: nat
  pg_total_pages :: nat

definition option_matches :: "'a option \<Rightarrow> 'a \<Rightarrow> bool" where
  "option_matches f x \<longleftrightarrow> (case f of None \<Rightarrow> True | Some y \<Rightarrow> x = y)"

definition in_range :: "int option \<Rightarrow> int option \<Rightarrow> int \<Rightarrow> bool" where
  "in_range from_t to_t t \<longleftrightarrow>
     (case from_t of None \<Rightarrow> True | Some a \<Rightarrow> a \<le> t) \<and> (case to_t of None \<Rightarrow> True | Some b \<Rightarrow> t \<le> b)"

text \<open>A page of rows by offset; \<open>Math.ceil(total / size)\<close> pages.\<close>

definition page_of :: "nat \<Rightarrow> nat \<Rightarrow> 'r list \<Rightarrow> 'r page" where
  "page_of page n rows =
     \<lparr>pg_data = take n (drop ((page - 1) * n) rows), pg_total = length rows, pg_page = page,
      pg_size = n, pg_total_pages = (length rows + n - 1) div n\<rparr>"

text \<open>The \<open>OR\<close> of a search: some column contains the text.\<close>

definition matches_search :: "string option \<Rightarrow> string option list \<Rightarrow> bool" where
  "matches_search search columns \<longleftrightarrow>
     nonempty search \<longrightarrow> list_ex (\<lambda>c. case c of Some t \<Rightarrow> contains_insensitive (the search) t | None \<Rightarrow> False) columns"

text \<open>\<open>text.split(d)\<close> for one character \<open>d\<close>.\<close>

primrec split_on :: "char \<Rightarrow> string \<Rightarrow> string list" where
  "split_on d [] = [[]]"
| "split_on d (c # t) =
     (if c = d then [] # split_on d t
      else case split_on d t of [] \<Rightarrow> [[c]] | w # ws \<Rightarrow> (c # w) # ws)"

text \<open>\<open>toUpperCase\<close> on letters without accents.\<close>

definition upper :: "char \<Rightarrow> char" where
  "upper c = (let n = (of_char c :: nat) in if 97 \<le> n \<and> n \<le> 122 then char_of (n - 32) else c)"

text \<open>The text of a role, as it is stored and compared.\<close>

fun role_name :: "UserRole \<Rightarrow> string" where
  "role_name UserRole.OWNER = ''OWNER''"
| "role_name UserRole.ADMIN = ''ADMIN''"
| "role_name UserRole.FINANCE = ''FINANCE''"
| "role_name MECHANIC = ''MECHANIC''"
| "role_name TRAINEE = ''TRAINEE''"
| "role_name CLIENT = ''CLIENT''"

end
