(* ===== verification/Guards.thy ===== *)
theory Guards
  imports Listings
begin

text \<open>
  Who gets in: the guards of \<open>src/common/guards\<close>, the JWT strategy, the interceptor that enforces the
  second factor, the guard of the payment webhook, and the rate limiter by role, which no controller applies. A guard answers \<open>Inr ()\<close> or the
  exception it throws. The HMAC of the webhook is the parameter \<open>hmac\<close>.
\<close>

section \<open>Authentication\<close>

text \<open>
  \<open>JwtStrategy.validate\<close>: only full access tokens. A token that does not name a role is kept with a role
  no guard accepts in the code; here the role is part of a full token.
\<close>

definition jwt_validate :: "jwt_payload \<Rightarrow> http_error + (string \<times> UserRole option \<times> bool option \<times> string option)" where
  "jwt_validate p =
     (if \<not> nonempty (jp_id p) \<or> jp_mfa_pending p then Inl (Unauthorized ''Token de acceso invalido'')
      else Inr (the (jp_id p), jp_role p, jp_mfa_verified p, jp_client p))"

section \<open>Roles and permissions\<close>

definition roles_guard :: "UserRole list option \<Rightarrow> UserRole option option \<Rightarrow> http_error + unit" where
  "roles_guard required user =
     (case required of
        None \<Rightarrow> Inr ()
      | Some roles \<Rightarrow>
          (case user of
             None \<Rightarrow> Inl (Forbidden ''No autenticado'')
           | Some role \<Rightarrow>
               if (\<exists>r \<in> set roles. role = Some r) then Inr ()
               else Inl (Forbidden ''INSUFFICIENT_ROLE'')))"

datatype PermissionAction = READ | CREATE | UPDATE | DELETE | APPROVE | FINANCIAL_EXPORT
  | MANAGE_PERSONNEL | VIEW_AUDIT_LOGS | MANAGE_SETTINGS

fun role_permissions :: "UserRole \<Rightarrow> PermissionAction list" where
  "role_permissions UserRole.OWNER = [READ, CREATE, UPDATE, DELETE, APPROVE, FINANCIAL_EXPORT,
     MANAGE_PERSONNEL, VIEW_AUDIT_LOGS, MANAGE_SETTINGS]"
| "role_permissions UserRole.ADMIN = [READ, CREATE, UPDATE, DELETE, APPROVE, MANAGE_PERSONNEL]"
| "role_permissions UserRole.FINANCE = [READ, CREATE, UPDATE, APPROVE, FINANCIAL_EXPORT]"
| "role_permissions MECHANIC = [READ, CREATE, UPDATE]"
| "role_permissions TRAINEE = [READ, CREATE]"
| "role_permissions CLIENT = [READ]"

definition rbac_guard :: "PermissionAction list option \<Rightarrow> UserRole option option \<Rightarrow> http_error + unit" where
  "rbac_guard required user =
     (case required of
        None \<Rightarrow> Inr ()
      | Some ps \<Rightarrow>
          if ps = [] then Inr ()
          else case user of
            None \<Rightarrow> Inl (Forbidden ''UNAUTHENTICATED'')
          | Some role \<Rightarrow>
              (let granted = (case role of None \<Rightarrow> [] | Some r \<Rightarrow> role_permissions r)
               in if list_all (\<lambda>p. p \<in> set granted) ps then Inr ()
                  else Inl (Forbidden ''INSUFFICIENT_PERMISSIONS'')))"

section \<open>Second factor\<close>

definition mfa_required_guard :: "(UserRole option \<times> bool option) option \<Rightarrow> http_error + unit" where
  "mfa_required_guard user =
     (case user of
        None \<Rightarrow> Inl (Forbidden ''No autenticado'')
      | Some (role, verified) \<Rightarrow>
          if (\<exists>r \<in> set management_roles. role = Some r) \<and> verified \<noteq> Some True
          then Inl (Forbidden ''MFA_REQUIRED'') else Inr ())"

definition ends_with :: "string \<Rightarrow> string \<Rightarrow> bool" where
  "ends_with suffix s \<longleftrightarrow> length suffix \<le> length s \<and> drop (length s - length suffix) s = suffix"

definition auth_exempt_suffixes :: "string list" where
  "auth_exempt_suffixes =
     [''/auth/login'', ''/auth/mechanic/login'', ''/auth/mfa/verify'', ''/auth/mfa/generate'',
      ''/auth/mfa/confirm'', ''/auth/refresh'', ''/auth/logout'', ''/auth/logout-all'', ''/auth/me'']"

definition path_of :: "string \<Rightarrow> string" where
  "path_of url = takeWhile (\<lambda>c. c \<noteq> CHR ''?'') url"

text \<open>The expression for \<open>/auth/sessions\<close> at the end of the path, with at most one more segment.\<close>

definition is_sessions_route :: "string \<Rightarrow> bool" where
  "is_sessions_route p \<longleftrightarrow>
     ends_with ''/auth/sessions'' p
     \<or> (let seg = takeWhile (\<lambda>c. c \<noteq> CHR ''/'') (rev p)
        in seg \<noteq> [] \<and> length seg < length p \<and> ends_with ''/auth/sessions'' (take (length p - length seg - 1) p))"

definition mfa_enforcement :: "bool \<Rightarrow> (UserRole option \<times> bool option) option \<Rightarrow> string \<Rightarrow> http_error + unit" where
  "mfa_enforcement is_http user url =
     (if \<not> is_http then Inr ()
      else case user of
        None \<Rightarrow> Inr ()
      | Some (role, verified) \<Rightarrow>
          if (\<exists>r \<in> set management_roles. role = Some r) \<and> verified \<noteq> Some True
          then (let path = path_of url
                in if (\<exists>s \<in> set auth_exempt_suffixes. ends_with s path) \<or> is_sessions_route path
                   then Inr () else Inl (Forbidden ''MFA_ENROLLMENT_REQUIRED''))
          else Inr ())"

section \<open>Devices and the payment webhook\<close>

definition safe_equal :: "string \<Rightarrow> string \<Rightarrow> bool" where
  "safe_equal a b \<longleftrightarrow> length a = length b \<and> a = b"

definition device_auth_guard :: "string option \<Rightarrow> string option \<Rightarrow> http_error + unit" where
  "device_auth_guard shared_secret provided =
     (if \<not> nonempty shared_secret then Inl (Forbidden ''IOT_BRIDGE_SHARED_SECRET no configurado en el servidor'')
      else if \<not> nonempty provided \<or> \<not> safe_equal (the provided) (the shared_secret)
      then Inl (Unauthorized ''Credencial de dispositivo IoT invalida'')
      else Inr ())"

definition payment_webhook_guard ::
    "(string \<Rightarrow> string \<Rightarrow> string) \<Rightarrow> string option \<Rightarrow> json option \<Rightarrow> json option \<Rightarrow> http_error + unit" where
  "payment_webhook_guard hmac webhook_secret provided qr_token =
     (if \<not> nonempty webhook_secret then Inl (Forbidden ''PAYMENT_WEBHOOK_SECRET no configurado en el servidor'')
      else case (provided, qr_token) of
        (Some (JStr p), Some (JStr q)) \<Rightarrow>
          if q = [] then Inl (Unauthorized ''Firma de webhook ausente o invalida'')
          else if safe_equal p (hmac (the webhook_secret) q) then Inr ()
          else Inl (Unauthorized ''Firma de webhook invalida'')
      | _ \<Rightarrow> Inl (Unauthorized ''Firma de webhook ausente o invalida''))"

section \<open>Rate limit\<close>

fun rate_points :: "UserRole option \<Rightarrow> int" where
  "rate_points (Some UserRole.OWNER) = 300"
| "rate_points (Some UserRole.ADMIN) = 300"
| "rate_points (Some UserRole.FINANCE) = 120"
| "rate_points (Some MECHANIC) = 60"
| "rate_points (Some TRAINEE) = 30"
| "rate_points (Some CLIENT) = 30"
| "rate_points None = 10"

definition rate_duration :: int where
  "rate_duration = 60"

text \<open>
  \<open>INCR\<close>: a key that is absent or expired starts at one. The code sets the time to live when the
  counter is one; the counter of a live key keeps its own.
\<close>

definition redis_incr :: "int \<Rightarrow> string \<Rightarrow> int \<Rightarrow> redis \<Rightarrow> int \<times> redis" where
  "redis_incr now k ttl r =
     (case map_of r k of
        Some (RCount n, e) \<Rightarrow>
          if now < e then (n + 1, (k, RCount (n + 1), e) # redis_del k r)
          else (1, redis_set now k (RCount 1) ttl r)
      | _ \<Rightarrow> (1, redis_set now k (RCount 1) ttl r))"

definition rate_key :: "string \<Rightarrow> string \<Rightarrow> string" where
  "rate_key identifier route = ''ratelimit:'' @ identifier @ '':'' @ route"

definition rate_limit_guard ::
    "int \<Rightarrow> (string \<times> UserRole) option \<Rightarrow> string option \<Rightarrow> string \<Rightarrow> redis \<Rightarrow> (http_error, unit, redis) outcome" where
  "rate_limit_guard now user ip route r =
     (let role = map_option snd user;
          identifier = (case user of
              Some (uid, _) \<Rightarrow> if uid \<noteq> [] then uid else if nonempty ip then the ip else ''unknown''
            | None \<Rightarrow> if nonempty ip then the ip else ''unknown'')
      in case redis_incr now (rate_key identifier route) rate_duration r of (current, r') \<Rightarrow>
           if rate_points role < current then (Inl (TooManyRequests ''RATE_LIMIT_EXCEEDED''), r')
           else (Inr (), r'))"

section \<open>Lemmas\<close>

lemma privileged_iff: "(\<exists>r \<in> set management_roles. role = Some r) \<longleftrightarrow>
    role \<in> {Some UserRole.OWNER, Some UserRole.ADMIN, Some UserRole.FINANCE}"
  by (auto simp: management_roles_def)

lemma role_permissions_mono:
  "set (role_permissions CLIENT) \<subseteq> set (role_permissions TRAINEE)"
  "set (role_permissions TRAINEE) \<subseteq> set (role_permissions MECHANIC)"
  "set (role_permissions MECHANIC) \<subseteq> set (role_permissions UserRole.FINANCE)"
  "set (role_permissions MECHANIC) \<subseteq> set (role_permissions UserRole.ADMIN)"
  "set (role_permissions r) \<subseteq> set (role_permissions UserRole.OWNER)"
  by (auto) (cases r; auto)

section \<open>Properties\<close>

text \<open>
  Nobody with a management role passes the enforcement of the second factor on an application route
  without a verified second factor: whatever is let through either has no management role, is verified, or
  asks for one of the session routes under \<open>/auth\<close>; and a user who is verified is never stopped by it.
\<close>

theorem mfa_enforced:
  "mfa_enforcement True (Some (role, verified)) url = Inr () \<longleftrightarrow>
     role \<notin> {Some UserRole.OWNER, Some UserRole.ADMIN, Some UserRole.FINANCE} \<or> verified = Some True
     \<or> (\<exists>s \<in> set auth_exempt_suffixes. ends_with s (path_of url)) \<or> is_sessions_route (path_of url)"
  by (auto simp: mfa_enforcement_def privileged_iff Let_def)

lemma mfa_enforced_witness:
  "(mfa_enforcement True (Some (Some MECHANIC, None)) ''/api/v1/orders'' = Inr ())
   \<and> (mfa_enforcement True (Some (Some UserRole.FINANCE, Some True)) ''/api/v1/finance/expenses'' = Inr ())"
  by (simp add: mfa_enforced)

text \<open>
  The payment webhook is closed: a request passes exactly when a secret is configured and the
  signature sent is the code of the token it names under that secret; without a configured secret nothing
  passes.
\<close>

theorem webhook_needs_signature:
  "payment_webhook_guard hmac webhook_secret provided qr = Inr () \<longleftrightarrow>
     (\<exists>k q. webhook_secret = Some k \<and> k \<noteq> [] \<and> qr = Some (JStr q) \<and> q \<noteq> [] \<and> provided = Some (JStr (hmac k q)))"
  by (auto simp: payment_webhook_guard_def nonempty_def safe_equal_def
      split: option.splits json.splits if_splits)

end
