(* ===== verification/SecretCipher.thy ===== *)
theory SecretCipher
  imports Listings
begin

text \<open>
  The cipher of the secrets at rest, \<open>src/common/crypto/secret-cipher.service.ts\<close>. AES-256-GCM and base64 are
  parameters: \<open>seal\<close> answers the three base64 texts of a nonce and a plain text, and \<open>unseal\<close> the plain
  text, or \<open>None\<close> where \<open>decipher.final\<close> throws. The code writes the format of the stored text.
\<close>

type_synonym seal = "string \<Rightarrow> string \<Rightarrow> string \<times> string \<times> string"
type_synonym unseal = "string \<Rightarrow> string \<Rightarrow> string \<Rightarrow> string option"

definition encrypt_secret :: "seal \<Rightarrow> string \<Rightarrow> string \<Rightarrow> string" where
  "encrypt_secret seal nonce plain =
     (case seal nonce plain of (iv, tag, ct) \<Rightarrow> ''v1:'' @ iv @ '':'' @ tag @ '':'' @ ct)"

text \<open>A text without the prefix is an old secret that was stored as it is.\<close>

definition decrypt_secret :: "unseal \<Rightarrow> string \<Rightarrow> string option" where
  "decrypt_secret unseal stored =
     (if \<not> starts_with ''v1:'' stored then Some stored
      else case split_on (CHR '':'') stored of
             _ # iv # tag # ct # _ \<Rightarrow> unseal iv tag ct
           | _ \<Rightarrow> None)"

text \<open>What is relied on: the cipher opens what it sealed, and base64 does not use the separator.\<close>

definition authenticated_cipher :: "seal \<Rightarrow> unseal \<Rightarrow> bool" where
  "authenticated_cipher seal unseal \<longleftrightarrow>
     (\<forall>nonce plain iv tag ct. seal nonce plain = (iv, tag, ct) \<longrightarrow>
        unseal iv tag ct = Some plain \<and> CHR '':'' \<notin> set iv \<union> set tag \<union> set ct)"

lemma split_on_free: "d \<notin> set t \<Longrightarrow> split_on d t = [t]"
  by (induction t) auto

lemma split_on_append: "d \<notin> set t \<Longrightarrow> split_on d (t @ d # u) = t # split_on d u"
  by (induction t) auto

text \<open>C28. A secret that was encrypted is decrypted to itself, whatever the nonce; an old secret that was stored in plain is
  read as it is, and encrypting what was read stores it in the new format.\<close>

theorem secret_roundtrip:
  assumes "authenticated_cipher seal unseal"
  shows "decrypt_secret unseal (encrypt_secret seal nonce plain) = Some plain
    \<and> starts_with ''v1:'' (encrypt_secret seal nonce plain)
    \<and> (\<not> starts_with ''v1:'' old \<longrightarrow> decrypt_secret unseal old = Some old
         \<and> decrypt_secret unseal (encrypt_secret seal nonce (the (decrypt_secret unseal old))) = Some old)"
proof -
  have rt: "decrypt_secret unseal (encrypt_secret seal nonce p) = Some p" for p
  proof -
    obtain iv tag ct where sealed: "seal nonce p = (iv, tag, ct)" by (cases "seal nonce p")
    then have law: "unseal iv tag ct = Some p" "CHR '':'' \<notin> set iv" "CHR '':'' \<notin> set tag" "CHR '':'' \<notin> set ct"
      using assms by (auto simp: authenticated_cipher_def)
    have "split_on (CHR '':'') (''v1'' @ CHR '':'' # iv @ CHR '':'' # tag @ CHR '':'' # ct) = [''v1'', iv, tag, ct]"
      using law(2-4) split_on_append[of "CHR '':''" "''v1''"] by (simp add: split_on_append split_on_free)
    then show ?thesis using sealed law(1) by (simp add: encrypt_secret_def decrypt_secret_def starts_with_def)
  qed
  have "starts_with ''v1:'' (encrypt_secret seal nonce plain)"
    by (simp add: encrypt_secret_def starts_with_def split: prod.splits)
  moreover have "\<not> starts_with ''v1:'' old \<Longrightarrow> decrypt_secret unseal old = Some old" by (simp add: decrypt_secret_def)
  ultimately show ?thesis using rt by simp
qed

text \<open>A cipher for the examples: the plain text in hexadecimal digits, which have no separator.\<close>

definition hex_digit :: "nat \<Rightarrow> char" where
  "hex_digit n = char_of (n + 97)"

definition hex_text :: "string \<Rightarrow> string" where
  "hex_text t = concat (map (\<lambda>c. let n = (of_char c :: nat) in [hex_digit (n div 16), hex_digit (n mod 16)]) t)"

fun unhex_text :: "string \<Rightarrow> string" where
  "unhex_text (a # b # t) = char_of (((of_char a :: nat) - 97) * 16 + ((of_char b :: nat) - 97)) # unhex_text t"
| "unhex_text _ = []"

lemma hex_digit_value: "n < 16 \<Longrightarrow> (of_char (hex_digit n) :: nat) = n + 97"
  by (simp add: hex_digit_def)

lemma hex_text_Cons: "hex_text (c # t) = hex_digit (of_char c div 16) # hex_digit (of_char c mod 16) # hex_text t"
  by (simp add: hex_text_def Let_def)

lemma hex_text_back: "unhex_text (hex_text t) = t"
proof (induction t)
  case Nil
  then show ?case by (simp add: hex_text_def)
next
  case (Cons c t)
  have "(of_char c :: nat) < 256" by (rule nat_of_char_less_256)
  then have "(of_char c :: nat) div 16 < 16" by (intro less_mult_imp_div_less) simp
  then show ?case using Cons by (simp add: hex_text_Cons hex_digit_value)
qed

lemma hex_text_free: "CHR '':'' \<notin> set (hex_text t)"
proof (induction t)
  case (Cons c t)
  have "(of_char c :: nat) < 256" by (rule nat_of_char_less_256)
  then have "(of_char c :: nat) div 16 < 16" by (intro less_mult_imp_div_less) simp
  then have "(of_char (hex_digit (of_char c div 16)) :: nat) \<noteq> 58" "(of_char (hex_digit (of_char c mod 16)) :: nat) \<noteq> 58"
    by (simp_all add: hex_digit_value)
  then have "hex_digit (of_char c div 16) \<noteq> CHR '':''" "hex_digit (of_char c mod 16) \<noteq> CHR '':''" by auto
  then show ?case using Cons by (simp add: hex_text_Cons)
qed (simp add: hex_text_def)

definition plain_seal :: seal where
  "plain_seal nonce plain = (hex_text nonce, [], hex_text plain)"

definition plain_unseal :: unseal where
  "plain_unseal iv tag ct = Some (unhex_text ct)"

lemma plain_cipher: "authenticated_cipher plain_seal plain_unseal"
  using hex_text_free by (simp add: authenticated_cipher_def plain_seal_def plain_unseal_def hex_text_back)

theorem secret_roundtrip_witness:
  "decrypt_secret plain_unseal (encrypt_secret plain_seal ''n'' ''JBSWY3DP'') = Some ''JBSWY3DP''"
  using secret_roundtrip[OF plain_cipher] by blast

end
