(* ===== verification/Samples.thy ===== *)
theory Samples
  imports Schema
begin

text \<open>
  Rows of a small workshop, on which the witnesses of the properties are evaluated: one account of each role
  the examples need, an order, an item and an invoice.
\<close>

definition sample_account :: "string \<Rightarrow> UserRole \<Rightarrow> account_row" where
  "sample_account k role =
     \<lparr>ac_id = k, ac_email = k @ ''@x'', ac_password_hash = ''hash'', ac_mfa_secret = None, ac_mfa_enabled = False,
      ac_role = role, ac_name = k, ac_status = AccountStatus.ACTIVE, ac_last_login_at = None, ac_last_login_ip = None,
      ac_failed_attempts = 0, ac_locked_until = None, ac_created_at = 0, ac_deleted_at = None\<rparr>"

definition sample_order :: "string \<Rightarrow> OrderStatus \<Rightarrow> order_row" where
  "sample_order k st =
     \<lparr>wo_id = k, wo_number = ''OT-2026-0001'', wo_vehicle = ''v1'', wo_client = ''cl1'', wo_mechanic = Some ''m1'',
      wo_status = st, wo_description = ''frenos'', wo_diagnosis = None, wo_odometer_in = None, wo_odometer_out = None,
      wo_labor = None, wo_parts = None, wo_total = None, wo_discount = 0, wo_final = 0, wo_received_at = 0,
      wo_estimated = None, wo_started_at = None, wo_completed_at = None, wo_delivered_at = None,
      wo_payment_status = InvoiceStatus.DRAFT, wo_notes = None, wo_photos = [], wo_created_by = ''a1''\<rparr>"

definition sample_item :: "string \<Rightarrow> int \<Rightarrow> item_row" where
  "sample_item k n =
     \<lparr>it_id = k, it_sku = k, it_name = ''filtro'', it_category = None, it_cost = 500, it_price = 1000, it_stock = n,
      it_min_stock = 2, it_imported = False, it_customs = None, it_active = True, it_created_at = 0\<rparr>"

definition sample_invoice :: "string \<Rightarrow> InvoiceStatus \<Rightarrow> int \<Rightarrow> int \<Rightarrow> invoice_row" where
  "sample_invoice k st total_cents paid =
     \<lparr>iv_id = k, iv_number = ''F001-00000001'', iv_order = Some ''o1'', iv_client = ''cl1'', iv_type = InvoiceType.BOLETA,
      iv_status = st, iv_subtotal = total_cents, iv_tax = 0, iv_discount = 0, iv_total = total_cents, iv_paid = paid,
      iv_due = total_cents - paid, iv_due_date = None, iv_notes = None, iv_issued_at = None, iv_paid_at = None, iv_cancelled_at = None,
      iv_cancel_reason = None, iv_created_by = ''a1'', iv_created_at = 0\<rparr>"

lemma sample_simps [simp]:
  "ac_id (sample_account k r) = k" "ac_role (sample_account k r) = r"
  "ac_status (sample_account k r) = AccountStatus.ACTIVE" "ac_failed_attempts (sample_account k r) = 0"
  "ac_locked_until (sample_account k r) = None" "ac_mfa_enabled (sample_account k r) = False"
  "ac_mfa_secret (sample_account k r) = None" "ac_email (sample_account k r) = k @ ''@x''"
  "ac_password_hash (sample_account k r) = ''hash''"
  "wo_id (sample_order k st) = k" "wo_status (sample_order k st) = st" "wo_mechanic (sample_order k st) = Some ''m1''"
  "wo_client (sample_order k st) = ''cl1''" "wo_total (sample_order k st) = None" "wo_final (sample_order k st) = 0"
  "wo_discount (sample_order k st) = 0" "wo_payment_status (sample_order k st) = InvoiceStatus.DRAFT"
  "it_id (sample_item k n) = k" "it_sku (sample_item k n) = k" "it_stock (sample_item k n) = n"
  "it_price (sample_item k n) = 1000" "it_cost (sample_item k n) = 500" "it_min_stock (sample_item k n) = 2"
  "iv_id (sample_invoice k ist a b) = k" "iv_status (sample_invoice k ist a b) = ist" "iv_total (sample_invoice k ist a b) = a"
  "iv_paid (sample_invoice k ist a b) = b" "iv_due (sample_invoice k ist a b) = a - b"
  "iv_order (sample_invoice k ist a b) = Some ''o1''"
  by (simp_all add: sample_account_def sample_order_def sample_item_def sample_invoice_def)

end
