(* ===== verification/Gateway.thy ===== *)
theory Gateway
  imports Guards Samples
begin

text \<open>
  The socket gateway, \<open>realtime.gateway.ts\<close>: the messages the services broadcast, who may connect and
  which rooms a socket joins, and the messages a socket may send. Verifying the token of the handshake is
  the parameter \<open>verify\<close> (\<open>None\<close> where the library throws). The interface \<open>invariant_service\<close> is
  interpreted on the gateway: every request keeps every socket in rooms its user is entitled to.
\<close>

section \<open>Broadcasts\<close>

definition broadcast_order_update :: "string \<Rightarrow> db \<Rightarrow> db" where
  "broadcast_order_update order s =
     (let s1 = send Dashboard ''order:updated'' order s
      in if order \<noteq> [] then send (OrderRoom order) ''order:updated'' order s1 else s1)"

definition emit_order_created :: "string \<Rightarrow> db \<Rightarrow> db" where
  "emit_order_created order s = send Dashboard ''order:created'' order s"

definition emit_order_status_changed :: "string \<Rightarrow> db \<Rightarrow> db" where
  "emit_order_status_changed order s =
     (let s1 = send Dashboard ''order:status_changed'' order s
      in if order \<noteq> [] then send (OrderRoom order) ''order:status_changed'' order s1 else s1)"

definition emit_qa_inspection_requested :: "string \<Rightarrow> db \<Rightarrow> db" where
  "emit_qa_inspection_requested order s =
     send (OrderRoom order) ''qa:inspection_requested'' order
       (send Dashboard ''qa:inspection_requested'' order
         (send Management ''qa:inspection_requested'' order s))"

definition emit_mechanic_progress :: "string \<Rightarrow> string \<Rightarrow> db \<Rightarrow> db" where
  "emit_mechanic_progress order mechanic s =
     (let s1 = send Dashboard ''mechanic:progress'' order s;
          s2 = (if order \<noteq> [] then send (OrderRoom order) ''mechanic:progress'' order s1 else s1)
      in if mechanic \<noteq> [] then send (MechanicRoom mechanic) ''mechanic:progress'' order s2 else s2)"

definition emit_vehicle_delivered :: "string \<Rightarrow> string \<Rightarrow> db \<Rightarrow> db" where
  "emit_vehicle_delivered order client s =
     (let s1 = send Dashboard ''vehicle:delivered'' order s
      in if client \<noteq> [] then send (ClientRoom client) ''vehicle:delivered'' order s1 else s1)"

definition emit_cashbox_closed :: "string \<Rightarrow> db \<Rightarrow> db" where
  "emit_cashbox_closed session s = send Dashboard ''cashbox:closed'' session s"

definition emit_inventory_low_stock :: "string \<Rightarrow> db \<Rightarrow> db" where
  "emit_inventory_low_stock item s = send Dashboard ''inventory:low_stock'' item s"

definition emit_payment_received :: "string \<Rightarrow> bool \<Rightarrow> db \<Rightarrow> db" where
  "emit_payment_received order is_alert s =
     (let s1 = send Dashboard ''payment:received'' order s
      in if is_alert then send Dashboard ''alert:security'' order s1 else s1)"

definition emit_personnel_check_in :: "string \<Rightarrow> db \<Rightarrow> db" where
  "emit_personnel_check_in personnel s = send Dashboard ''personnel:check_in'' personnel s"

definition emit_personnel_check_out :: "string \<Rightarrow> db \<Rightarrow> db" where
  "emit_personnel_check_out personnel s = send Dashboard ''personnel:check_out'' personnel s"

definition emit_vehicle_overdue :: "string \<Rightarrow> db \<Rightarrow> db" where
  "emit_vehicle_overdue vehicle s = send Dashboard ''vehicle:overdue'' vehicle s"

definition emit_approval_requested :: "string \<Rightarrow> db \<Rightarrow> db" where
  "emit_approval_requested approval s = send Dashboard ''approval:requested'' approval s"

definition emit_approval_resolved :: "string \<Rightarrow> db \<Rightarrow> db" where
  "emit_approval_resolved approval s = send Dashboard ''approval:resolved'' approval s"

definition emit_security_alert :: "string \<Rightarrow> db \<Rightarrow> db" where
  "emit_security_alert type s = send Dashboard ''alert:security'' type s"

definition emit_anomaly_detected :: "string \<Rightarrow> db \<Rightarrow> db" where
  "emit_anomaly_detected type s = send Dashboard ''anomaly:detected'' type s"

text \<open>A broadcast changes nothing but the messages sent.\<close>

lemma broadcast_order_update_frame [simp]:
  "d_accounts (broadcast_order_update k s) = d_accounts s"
  "d_tokens (broadcast_order_update k s) = d_tokens s"
  "d_clients (broadcast_order_update k s) = d_clients s"
  "d_vehicles (broadcast_order_update k s) = d_vehicles s"
  "d_orders (broadcast_order_update k s) = d_orders s"
  "d_events (broadcast_order_update k s) = d_events s"
  "d_photos (broadcast_order_update k s) = d_photos s"
  "d_parts (broadcast_order_update k s) = d_parts s"
  "d_history (broadcast_order_update k s) = d_history s"
  "d_items (broadcast_order_update k s) = d_items s"
  "d_movements (broadcast_order_update k s) = d_movements s"
  "d_sessions (broadcast_order_update k s) = d_sessions s"
  "d_transactions (broadcast_order_update k s) = d_transactions s"
  "d_invoices (broadcast_order_update k s) = d_invoices s"
  "d_payments (broadcast_order_update k s) = d_payments s"
  "d_approvals (broadcast_order_update k s) = d_approvals s"
  "d_purchases (broadcast_order_update k s) = d_purchases s"
  "d_quotes (broadcast_order_update k s) = d_quotes s"
  "d_redis (broadcast_order_update k s) = d_redis s"
  "d_jobs (broadcast_order_update k s) = d_jobs s"
  by (simp_all add: broadcast_order_update_def Let_def)

lemma emit_order_created_frame [simp]:
  "d_accounts (emit_order_created k s) = d_accounts s"
  "d_tokens (emit_order_created k s) = d_tokens s"
  "d_clients (emit_order_created k s) = d_clients s"
  "d_vehicles (emit_order_created k s) = d_vehicles s"
  "d_orders (emit_order_created k s) = d_orders s"
  "d_events (emit_order_created k s) = d_events s"
  "d_photos (emit_order_created k s) = d_photos s"
  "d_parts (emit_order_created k s) = d_parts s"
  "d_history (emit_order_created k s) = d_history s"
  "d_items (emit_order_created k s) = d_items s"
  "d_movements (emit_order_created k s) = d_movements s"
  "d_sessions (emit_order_created k s) = d_sessions s"
  "d_transactions (emit_order_created k s) = d_transactions s"
  "d_invoices (emit_order_created k s) = d_invoices s"
  "d_payments (emit_order_created k s) = d_payments s"
  "d_approvals (emit_order_created k s) = d_approvals s"
  "d_purchases (emit_order_created k s) = d_purchases s"
  "d_quotes (emit_order_created k s) = d_quotes s"
  "d_redis (emit_order_created k s) = d_redis s"
  "d_jobs (emit_order_created k s) = d_jobs s"
  by (simp_all add: emit_order_created_def Let_def)

lemma emit_order_status_changed_frame [simp]:
  "d_accounts (emit_order_status_changed k s) = d_accounts s"
  "d_tokens (emit_order_status_changed k s) = d_tokens s"
  "d_clients (emit_order_status_changed k s) = d_clients s"
  "d_vehicles (emit_order_status_changed k s) = d_vehicles s"
  "d_orders (emit_order_status_changed k s) = d_orders s"
  "d_events (emit_order_status_changed k s) = d_events s"
  "d_photos (emit_order_status_changed k s) = d_photos s"
  "d_parts (emit_order_status_changed k s) = d_parts s"
  "d_history (emit_order_status_changed k s) = d_history s"
  "d_items (emit_order_status_changed k s) = d_items s"
  "d_movements (emit_order_status_changed k s) = d_movements s"
  "d_sessions (emit_order_status_changed k s) = d_sessions s"
  "d_transactions (emit_order_status_changed k s) = d_transactions s"
  "d_invoices (emit_order_status_changed k s) = d_invoices s"
  "d_payments (emit_order_status_changed k s) = d_payments s"
  "d_approvals (emit_order_status_changed k s) = d_approvals s"
  "d_purchases (emit_order_status_changed k s) = d_purchases s"
  "d_quotes (emit_order_status_changed k s) = d_quotes s"
  "d_redis (emit_order_status_changed k s) = d_redis s"
  "d_jobs (emit_order_status_changed k s) = d_jobs s"
  by (simp_all add: emit_order_status_changed_def Let_def)

lemma emit_qa_inspection_requested_frame [simp]:
  "d_accounts (emit_qa_inspection_requested k s) = d_accounts s"
  "d_tokens (emit_qa_inspection_requested k s) = d_tokens s"
  "d_clients (emit_qa_inspection_requested k s) = d_clients s"
  "d_vehicles (emit_qa_inspection_requested k s) = d_vehicles s"
  "d_orders (emit_qa_inspection_requested k s) = d_orders s"
  "d_events (emit_qa_inspection_requested k s) = d_events s"
  "d_photos (emit_qa_inspection_requested k s) = d_photos s"
  "d_parts (emit_qa_inspection_requested k s) = d_parts s"
  "d_history (emit_qa_inspection_requested k s) = d_history s"
  "d_items (emit_qa_inspection_requested k s) = d_items s"
  "d_movements (emit_qa_inspection_requested k s) = d_movements s"
  "d_sessions (emit_qa_inspection_requested k s) = d_sessions s"
  "d_transactions (emit_qa_inspection_requested k s) = d_transactions s"
  "d_invoices (emit_qa_inspection_requested k s) = d_invoices s"
  "d_payments (emit_qa_inspection_requested k s) = d_payments s"
  "d_approvals (emit_qa_inspection_requested k s) = d_approvals s"
  "d_purchases (emit_qa_inspection_requested k s) = d_purchases s"
  "d_quotes (emit_qa_inspection_requested k s) = d_quotes s"
  "d_redis (emit_qa_inspection_requested k s) = d_redis s"
  "d_jobs (emit_qa_inspection_requested k s) = d_jobs s"
  by (simp_all add: emit_qa_inspection_requested_def Let_def)

lemma emit_vehicle_delivered_frame [simp]:
  "d_accounts (emit_vehicle_delivered k c s) = d_accounts s"
  "d_tokens (emit_vehicle_delivered k c s) = d_tokens s"
  "d_clients (emit_vehicle_delivered k c s) = d_clients s"
  "d_vehicles (emit_vehicle_delivered k c s) = d_vehicles s"
  "d_orders (emit_vehicle_delivered k c s) = d_orders s"
  "d_events (emit_vehicle_delivered k c s) = d_events s"
  "d_photos (emit_vehicle_delivered k c s) = d_photos s"
  "d_parts (emit_vehicle_delivered k c s) = d_parts s"
  "d_history (emit_vehicle_delivered k c s) = d_history s"
  "d_items (emit_vehicle_delivered k c s) = d_items s"
  "d_movements (emit_vehicle_delivered k c s) = d_movements s"
  "d_sessions (emit_vehicle_delivered k c s) = d_sessions s"
  "d_transactions (emit_vehicle_delivered k c s) = d_transactions s"
  "d_invoices (emit_vehicle_delivered k c s) = d_invoices s"
  "d_payments (emit_vehicle_delivered k c s) = d_payments s"
  "d_approvals (emit_vehicle_delivered k c s) = d_approvals s"
  "d_purchases (emit_vehicle_delivered k c s) = d_purchases s"
  "d_quotes (emit_vehicle_delivered k c s) = d_quotes s"
  "d_redis (emit_vehicle_delivered k c s) = d_redis s"
  "d_jobs (emit_vehicle_delivered k c s) = d_jobs s"
  by (simp_all add: emit_vehicle_delivered_def Let_def)

lemma emit_approval_requested_frame [simp]:
  "d_accounts (emit_approval_requested k s) = d_accounts s"
  "d_tokens (emit_approval_requested k s) = d_tokens s"
  "d_clients (emit_approval_requested k s) = d_clients s"
  "d_vehicles (emit_approval_requested k s) = d_vehicles s"
  "d_orders (emit_approval_requested k s) = d_orders s"
  "d_events (emit_approval_requested k s) = d_events s"
  "d_photos (emit_approval_requested k s) = d_photos s"
  "d_parts (emit_approval_requested k s) = d_parts s"
  "d_history (emit_approval_requested k s) = d_history s"
  "d_items (emit_approval_requested k s) = d_items s"
  "d_movements (emit_approval_requested k s) = d_movements s"
  "d_sessions (emit_approval_requested k s) = d_sessions s"
  "d_transactions (emit_approval_requested k s) = d_transactions s"
  "d_invoices (emit_approval_requested k s) = d_invoices s"
  "d_payments (emit_approval_requested k s) = d_payments s"
  "d_approvals (emit_approval_requested k s) = d_approvals s"
  "d_purchases (emit_approval_requested k s) = d_purchases s"
  "d_quotes (emit_approval_requested k s) = d_quotes s"
  "d_redis (emit_approval_requested k s) = d_redis s"
  "d_jobs (emit_approval_requested k s) = d_jobs s"
  by (simp_all add: emit_approval_requested_def Let_def)

lemma emit_payment_received_frame [simp]:
  "d_accounts (emit_payment_received k a s) = d_accounts s"
  "d_tokens (emit_payment_received k a s) = d_tokens s"
  "d_clients (emit_payment_received k a s) = d_clients s"
  "d_vehicles (emit_payment_received k a s) = d_vehicles s"
  "d_orders (emit_payment_received k a s) = d_orders s"
  "d_events (emit_payment_received k a s) = d_events s"
  "d_photos (emit_payment_received k a s) = d_photos s"
  "d_parts (emit_payment_received k a s) = d_parts s"
  "d_history (emit_payment_received k a s) = d_history s"
  "d_items (emit_payment_received k a s) = d_items s"
  "d_movements (emit_payment_received k a s) = d_movements s"
  "d_sessions (emit_payment_received k a s) = d_sessions s"
  "d_transactions (emit_payment_received k a s) = d_transactions s"
  "d_invoices (emit_payment_received k a s) = d_invoices s"
  "d_payments (emit_payment_received k a s) = d_payments s"
  "d_approvals (emit_payment_received k a s) = d_approvals s"
  "d_purchases (emit_payment_received k a s) = d_purchases s"
  "d_quotes (emit_payment_received k a s) = d_quotes s"
  "d_redis (emit_payment_received k a s) = d_redis s"
  "d_jobs (emit_payment_received k a s) = d_jobs s"
  by (simp_all add: emit_payment_received_def Let_def)

section \<open>Connections\<close>

text \<open>
  A socket is a row of \<open>d_sockets\<close>; disconnecting removes it. An absent id of a token is the empty
  string here, which the code treats the same way.
\<close>

definition join_room :: "string \<Rightarrow> room \<Rightarrow> db \<Rightarrow> db" where
  "join_room sid r s =
     s\<lparr>d_sockets := update_row so_id sid (\<lambda>k. k\<lparr>so_rooms := List.insert r (so_rooms k)\<rparr>) (d_sockets s)\<rparr>"

definition leave_room :: "string \<Rightarrow> room \<Rightarrow> db \<Rightarrow> db" where
  "leave_room sid r s =
     s\<lparr>d_sockets := update_row so_id sid (\<lambda>k. k\<lparr>so_rooms := removeAll r (so_rooms k)\<rparr>) (d_sockets s)\<rparr>"

definition disconnect :: "string \<Rightarrow> db \<Rightarrow> db" where
  "disconnect sid s = s\<lparr>d_sockets := filter (\<lambda>k. so_id k \<noteq> sid) (d_sockets s)\<rparr>"

text \<open>\<open>disconnectUser\<close>: every socket in the room of the account.\<close>

definition disconnect_user :: "string \<Rightarrow> db \<Rightarrow> db" where
  "disconnect_user account s =
     s\<lparr>d_sockets := filter (\<lambda>k. UserRoom account \<notin> set (so_rooms k)) (d_sockets s)\<rparr>"

definition is_management :: "UserRole option \<Rightarrow> bool" where
  "is_management role \<longleftrightarrow> (case role of Some r \<Rightarrow> r \<in> set management_roles | None \<Rightarrow> False)"

definition initial_rooms :: "UserRole option \<Rightarrow> string \<Rightarrow> room list" where
  "initial_rooms role user =
     [RoleRoom role, UserRoom user]
     @ (if role = Some MECHANIC \<or> role = Some TRAINEE then [MechanicRoom user] else [])
     @ (if role = Some CLIENT then [ClientRoom user] else [])
     @ (if is_management role then [Dashboard] else [])
     @ (if role = Some UserRole.OWNER \<or> role = Some UserRole.ADMIN then [Management] else [])"

definition handle_connection ::
    "(string \<Rightarrow> jwt_payload option) \<Rightarrow> string \<Rightarrow> string option \<Rightarrow> db \<Rightarrow> db" where
  "handle_connection verify sid token s =
     (if \<not> nonempty token then s
      else case verify (the token) of
        None \<Rightarrow> s
      | Some p \<Rightarrow>
          (let user = (if nonempty (jp_sub p) then the (jp_sub p)
                       else case jp_id p of None \<Rightarrow> [] | Some i \<Rightarrow> i);
               role = jp_role p
           in if is_management role \<and> jp_mfa_verified p \<noteq> Some True then s
              else s\<lparr>d_sockets := insert_row
                     \<lparr>so_id = sid, so_user = user, so_role = role,
                      so_token_exp = map_option (\<lambda>e. e * 1000) (jp_exp p),
                      so_rooms = initial_rooms role user\<rparr> (d_sockets s)\<rparr>))"

section \<open>Messages of a socket\<close>

datatype ws_reply = Ok "room option" | Fail string

text \<open>
  \<open>getSocketUser\<close>: the identity of the socket, never the payload of the message. A socket whose token
  expired is disconnected.
\<close>

definition get_socket_user :: "int \<Rightarrow> socket \<Rightarrow> db \<Rightarrow> (string \<times> UserRole) option \<times> db" where
  "get_socket_user now k s =
     (if so_user k = [] \<or> so_role k = None then (None, s)
      else if (case so_token_exp k of Some e \<Rightarrow> e \<le> now | None \<Rightarrow> False)
      then (None, disconnect (so_id k) s)
      else (Some (so_user k, the (so_role k)), s))"

text \<open>\<open>parseId\<close>: the message itself when it is a text, else the first of the keys that holds a text.\<close>

definition json_text :: "json option \<Rightarrow> string option" where
  "json_text j = (case j of Some (JStr v) \<Rightarrow> if v = [] then None else Some v | _ \<Rightarrow> None)"

primrec first_text :: "json \<Rightarrow> string list \<Rightarrow> string option" where
  "first_text j [] = None"
| "first_text j (k # ks) =
     (case (case j of JObj ms \<Rightarrow> json_text (map_of ms k) | _ \<Rightarrow> None) of
        Some v \<Rightarrow> Some v
      | None \<Rightarrow> first_text j ks)"

definition parse_id :: "json \<Rightarrow> string list \<Rightarrow> string option" where
  "parse_id j keys = (case j of JStr v \<Rightarrow> if v = [] then None else Some v | _ \<Rightarrow> first_text j keys)"

definition can_access_order :: "string \<Rightarrow> UserRole \<Rightarrow> string \<Rightarrow> db \<Rightarrow> bool" where
  "can_access_order user role order s =
     (if role \<in> set management_roles then True
      else case find_row wo_id order (d_orders s) of
        None \<Rightarrow> False
      | Some w \<Rightarrow>
          if role = MECHANIC \<or> role = TRAINEE then wo_mechanic w = Some user
          else if role = CLIENT then wo_client w = user
          else False)"

definition handle_status_change :: "int \<Rightarrow> socket \<Rightarrow> string option \<Rightarrow> db \<Rightarrow> ws_reply \<times> db" where
  "handle_status_change now k order s =
     (case get_socket_user now k s of
        (None, s') \<Rightarrow> (Fail ''No autenticado'', s')
      | (Some (user, role), s') \<Rightarrow>
          if \<not> nonempty order then (Fail ''orderId is required'', s')
          else if \<not> can_access_order user role (the order) s'
          then (Fail ''No autorizado para esta orden'', s')
          else (Ok None, send (OrderRoom (the order)) ''order:updated'' (the order) s'))"

definition handle_subscribe :: "int \<Rightarrow> socket \<Rightarrow> json \<Rightarrow> db \<Rightarrow> ws_reply \<times> db" where
  "handle_subscribe now k data s =
     (case get_socket_user now k s of
        (None, s') \<Rightarrow> (Fail ''No autenticado'', s')
      | (Some (user, role), s') \<Rightarrow>
          (case parse_id data [''orderId'', ''id''] of
             None \<Rightarrow> (Fail ''orderId is required'', s')
           | Some order \<Rightarrow>
               if \<not> can_access_order user role order s'
               then (Fail ''No autorizado para esta orden'', s')
               else (Ok (Some (OrderRoom order)), join_room (so_id k) (OrderRoom order) s')))"

definition handle_unsubscribe :: "socket \<Rightarrow> json \<Rightarrow> db \<Rightarrow> ws_reply \<times> db" where
  "handle_unsubscribe k data s =
     (case parse_id data [''orderId'', ''id''] of
        None \<Rightarrow> (Fail ''orderId is required'', s)
      | Some order \<Rightarrow> (Ok None, leave_room (so_id k) (OrderRoom order) s))"

text \<open>
  The figures of the progress report are numbers the code clamps and only writes into prose; the event
  and the broadcast are what is left in the state.
\<close>

definition handle_mechanic_progress :: "int \<Rightarrow> socket \<Rightarrow> string option \<Rightarrow> db \<Rightarrow> ws_reply \<times> db" where
  "handle_mechanic_progress now k order s =
     (case get_socket_user now k s of
        (None, s') \<Rightarrow> (Fail ''No autenticado'', s')
      | (Some (user, role), s') \<Rightarrow>
          if role \<notin> {MECHANIC, TRAINEE, UserRole.ADMIN, UserRole.OWNER} then (Fail ''No autorizado'', s')
          else if \<not> nonempty order then (Fail ''orderId is required'', s')
          else case find_row wo_id (the order) (d_orders s') of
            None \<Rightarrow> (Fail ''Orden no encontrada'', s')
          | Some w \<Rightarrow>
              if (role = MECHANIC \<or> role = TRAINEE) \<and> wo_mechanic w \<noteq> Some user
              then (Fail ''No autorizado para esta orden'', s')
              else (Ok None, log_event (the order) ''PROGRESS_REPORTED'' user now
                               (emit_mechanic_progress (the order) user s')))"

definition handle_client_subscribe :: "int \<Rightarrow> socket \<Rightarrow> json \<Rightarrow> db \<Rightarrow> ws_reply \<times> db" where
  "handle_client_subscribe now k data s =
     (case get_socket_user now k s of
        (None, s') \<Rightarrow> (Fail ''No autenticado'', s')
      | (Some (user, role), s') \<Rightarrow>
          (case parse_id data [''clientId'', ''id''] of
             None \<Rightarrow> (Fail ''clientId is required'', s')
           | Some client \<Rightarrow>
               if role \<notin> set management_roles \<and> user \<noteq> client
               then (Fail ''No autorizado para esta sala de cliente'', s')
               else (Ok (Some (ClientRoom client)), join_room (so_id k) (ClientRoom client) s')))"

definition handle_client_unsubscribe :: "socket \<Rightarrow> json \<Rightarrow> db \<Rightarrow> ws_reply \<times> db" where
  "handle_client_unsubscribe k data s =
     (case parse_id data [''clientId'', ''id''] of
        None \<Rightarrow> (Fail ''clientId is required'', s)
      | Some client \<Rightarrow> (Ok None, leave_room (so_id k) (ClientRoom client) s))"

definition handle_dashboard_subscribe :: "socket \<Rightarrow> db \<Rightarrow> ws_reply \<times> db" where
  "handle_dashboard_subscribe k s =
     (if is_management (so_role k) then (Ok (Some Dashboard), join_room (so_id k) Dashboard s)
      else (Fail ''Unauthorized'', s))"

section \<open>The gateway as a service\<close>

datatype ws_request =
    Connect string "string option"
  | Disconnect string
  | StatusChanged string "string option"
  | Subscribe string json
  | Unsubscribe string json
  | MechanicProgress string "string option"
  | ClientSubscribe string json
  | ClientUnsubscribe string json
  | DashboardSubscribe string

definition with_socket :: "string \<Rightarrow> (socket \<Rightarrow> db \<Rightarrow> ws_reply \<times> db) \<Rightarrow> db \<Rightarrow> ws_reply \<times> db" where
  "with_socket sid h s =
     (case find_row so_id sid (d_sockets s) of None \<Rightarrow> (Fail ''not connected'', s) | Some k \<Rightarrow> h k s)"

text \<open>One request at an instant. A socket identifier is used for one connection at a time.\<close>

fun gateway_step ::
    "(string \<Rightarrow> jwt_payload option) \<Rightarrow> int \<times> ws_request \<Rightarrow> db \<Rightarrow> (http_error, ws_reply, db) outcome" where
  "gateway_step verify (now, Connect sid token) s =
     (if find_row so_id sid (d_sockets s) \<noteq> None then (Inr (Fail ''connected''), s)
      else (Inr (Ok None), handle_connection verify sid token s))"
| "gateway_step verify (now, Disconnect sid) s = (Inr (Ok None), disconnect sid s)"
| "gateway_step verify (now, StatusChanged sid order) s =
     (case with_socket sid (\<lambda>k. handle_status_change now k order) s of (r, s') \<Rightarrow> (Inr r, s'))"
| "gateway_step verify (now, Subscribe sid data) s =
     (case with_socket sid (\<lambda>k. handle_subscribe now k data) s of (r, s') \<Rightarrow> (Inr r, s'))"
| "gateway_step verify (now, Unsubscribe sid data) s =
     (case with_socket sid (\<lambda>k. handle_unsubscribe k data) s of (r, s') \<Rightarrow> (Inr r, s'))"
| "gateway_step verify (now, MechanicProgress sid order) s =
     (case with_socket sid (\<lambda>k. handle_mechanic_progress now k order) s of (r, s') \<Rightarrow> (Inr r, s'))"
| "gateway_step verify (now, ClientSubscribe sid data) s =
     (case with_socket sid (\<lambda>k. handle_client_subscribe now k data) s of (r, s') \<Rightarrow> (Inr r, s'))"
| "gateway_step verify (now, ClientUnsubscribe sid data) s =
     (case with_socket sid (\<lambda>k. handle_client_unsubscribe k data) s of (r, s') \<Rightarrow> (Inr r, s'))"
| "gateway_step verify (now, DashboardSubscribe sid) s =
     (case with_socket sid handle_dashboard_subscribe s of (r, s') \<Rightarrow> (Inr r, s'))"

text \<open>
  The messages of a run, the last one first, each with the state it met and its instant. An order was opened to a socket when
  a message of it asked for the order while its user, under the same role and with a token still alive, had access to it.
\<close>

type_synonym history = "(db \<times> int \<times> ws_request) list"

definition admitted :: "history \<Rightarrow> socket \<Rightarrow> string \<Rightarrow> bool" where
  "admitted h k order \<longleftrightarrow>
     (\<exists>u now data k' role. (u, now, Subscribe (so_id k) data) \<in> set h \<and> find_row so_id (so_id k) (d_sockets u) = Some k'
        \<and> so_user k' = so_user k \<and> so_role k' = so_role k \<and> (\<forall>e. so_token_exp k' = Some e \<longrightarrow> now < e)
        \<and> parse_id data [''orderId'', ''id''] = Some order \<and> so_role k = Some role \<and> can_access_order (so_user k) role order u)"

text \<open>
  The rooms a socket is entitled to: the dashboard for management, the management room for owners and administrators, the
  personal rooms for the user they name, the room of an order when it was admitted to it.
\<close>

definition entitled :: "history \<Rightarrow> socket \<Rightarrow> room \<Rightarrow> bool" where
  "entitled h k r =
     (case r of
        Dashboard \<Rightarrow> is_management (so_role k)
      | Management \<Rightarrow> so_role k = Some UserRole.OWNER \<or> so_role k = Some UserRole.ADMIN
      | OrderRoom order \<Rightarrow> admitted h k order
      | MechanicRoom m \<Rightarrow> so_user k = m \<and> (so_role k = Some MECHANIC \<or> so_role k = Some TRAINEE)
      | ClientRoom c \<Rightarrow> is_management (so_role k) \<or> so_user k = c
      | RoleRoom role \<Rightarrow> so_role k = role
      | UserRoom u \<Rightarrow> so_user k = u)"

definition sockets_ok :: "history \<Rightarrow> db \<Rightarrow> bool" where
  "sockets_ok h s \<longleftrightarrow> (\<forall>k \<in> set (d_sockets s). \<forall>r \<in> set (so_rooms k). entitled h k r)"

lemma sockets_ok_cong: "d_sockets s' = d_sockets s \<Longrightarrow> sockets_ok h s' = sockets_ok h s"
  by (simp add: sockets_ok_def)

lemma sockets_ok_send [simp]: "sockets_ok h (send r e x s) = sockets_ok h s"
  by (simp add: sockets_ok_def)

lemma sockets_ok_log_event [simp]: "sockets_ok h (log_event o1 e u t s) = sockets_ok h s"
  by (simp add: sockets_ok_def)

lemma sockets_ok_disconnect: "sockets_ok h s \<Longrightarrow> sockets_ok h (disconnect sid s)"
  by (auto simp: sockets_ok_def disconnect_def)

lemma entitled_rooms [simp]: "entitled h (k\<lparr>so_rooms := rs\<rparr>) r = entitled h k r"
  by (simp add: entitled_def admitted_def split: room.splits)

lemma sockets_ok_leave: "sockets_ok h s \<Longrightarrow> sockets_ok h (leave_room sid r s)"
  by (auto simp: sockets_ok_def leave_room_def elim!: update_row_cases)

lemma sockets_ok_join:
  assumes "sockets_ok h s" and "\<And>k. k \<in> set (d_sockets s) \<Longrightarrow> so_id k = sid \<Longrightarrow> entitled h k r"
  shows "sockets_ok h (join_room sid r s)"
  using assms by (auto simp: sockets_ok_def join_room_def elim!: update_row_cases)

lemma sockets_ok_get_user:
  "get_socket_user now k s = (u, s') \<Longrightarrow> sockets_ok h s \<Longrightarrow> sockets_ok h s'"
  by (auto simp: get_socket_user_def sockets_ok_disconnect split: if_splits)

lemma get_socket_user_Some:
  "get_socket_user now k s = (Some (user, role), s') \<longleftrightarrow>
     s' = s \<and> so_user k = user \<and> user \<noteq> [] \<and> so_role k = Some role
     \<and> (\<forall>e. so_token_exp k = Some e \<longrightarrow> now < e)"
  by (auto simp: get_socket_user_def split: option.splits)

text \<open>One socket per identifier: what is known of the row found holds of every row with its id.\<close>

definition socket_ids :: "db \<Rightarrow> bool" where
  "socket_ids s \<longleftrightarrow> distinct (map so_id (d_sockets s))"

lemma socket_unique:
  "socket_ids s \<Longrightarrow> find_row so_id sid (d_sockets s) = Some k \<Longrightarrow> k' \<in> set (d_sockets s) \<Longrightarrow>
     so_id k' = sid \<Longrightarrow> k' = k"
  using find_row_distinct[of so_id "d_sockets s" k'] by (simp add: socket_ids_def)

lemma initial_rooms_entitled:
  "r \<in> set (initial_rooms role user) \<Longrightarrow> so_role k = role \<Longrightarrow> so_user k = user \<Longrightarrow> entitled h k r"
  by (auto simp: initial_rooms_def entitled_def split: if_splits)

definition gateway_inv :: "history \<Rightarrow> db \<Rightarrow> bool" where
  "gateway_inv h s \<longleftrightarrow> sockets_ok h s \<and> socket_ids s"

lemma socket_ids_cong: "map so_id (d_sockets s') = map so_id (d_sockets s) \<Longrightarrow> socket_ids s' = socket_ids s"
  by (simp add: socket_ids_def)

lemma socket_ids_join [simp]: "socket_ids (join_room sid r s) = socket_ids s"
  by (rule socket_ids_cong) (simp add: join_room_def)

lemma socket_ids_leave [simp]: "socket_ids (leave_room sid r s) = socket_ids s"
  by (rule socket_ids_cong) (simp add: leave_room_def)

lemma socket_ids_disconnect: "socket_ids s \<Longrightarrow> socket_ids (disconnect sid s)"
  by (simp add: socket_ids_def disconnect_def distinct_map_filter)

lemma socket_ids_send [simp]: "socket_ids (send r e x s) = socket_ids s"
  by (simp add: socket_ids_def)

lemma socket_ids_log_event [simp]: "socket_ids (log_event o1 e u t s) = socket_ids s"
  by (simp add: socket_ids_def)

lemma gateway_inv_disconnect: "gateway_inv h s \<Longrightarrow> gateway_inv h (disconnect sid s)"
  by (simp add: gateway_inv_def sockets_ok_disconnect socket_ids_disconnect)

lemma gateway_inv_get_user:
  "gateway_inv h s \<Longrightarrow> gateway_inv h (snd (get_socket_user now k s))"
  by (simp add: get_socket_user_def gateway_inv_disconnect)

lemma gateway_inv_join:
  assumes "gateway_inv h s" "find_row so_id sid (d_sockets s) = Some k" "entitled h k r"
  shows "gateway_inv h (join_room sid r s)"
  using assms socket_unique[OF _ assms(2)] by (auto simp: gateway_inv_def intro!: sockets_ok_join)

lemma gateway_inv_connection:
  assumes "gateway_inv h s" "find_row so_id sid (d_sockets s) = None"
  shows "gateway_inv h (handle_connection verify sid token s)"
  using assms
  by (auto simp: handle_connection_def Let_def gateway_inv_def sockets_ok_def socket_ids_def
      find_row_None_iff split: option.splits intro: initial_rooms_entitled)

lemma emit_mechanic_progress_sockets [simp]: "d_sockets (emit_mechanic_progress o1 m s) = d_sockets s"
  by (simp add: emit_mechanic_progress_def Let_def)

lemma gateway_inv_cong: "d_sockets s' = d_sockets s \<Longrightarrow> gateway_inv h s' = gateway_inv h s"
  by (simp add: gateway_inv_def sockets_ok_def socket_ids_def)

lemma gateway_inv_log_event [simp]: "gateway_inv h (log_event o1 e u t s) = gateway_inv h s"
  by (rule gateway_inv_cong) simp

lemma gateway_inv_send [simp]: "gateway_inv h (send r e x s) = gateway_inv h s"
  by (rule gateway_inv_cong) simp

lemma gateway_inv_progress [simp]: "gateway_inv h (emit_mechanic_progress o1 m s) = gateway_inv h s"
  by (rule gateway_inv_cong) simp

lemma gateway_inv_leave: "gateway_inv h s \<Longrightarrow> gateway_inv h (leave_room sid r s)"
  by (simp add: gateway_inv_def sockets_ok_leave)

lemma handlers_inv:
  assumes g: "gateway_inv h s" and k: "find_row so_id sid (d_sockets s) = Some k"
  shows "gateway_inv h (snd (handle_status_change now k order s))"
    and "(\<And>order role. so_role k = Some role \<Longrightarrow> parse_id data [''orderId'', ''id''] = Some order
        \<Longrightarrow> can_access_order (so_user k) role order s \<Longrightarrow> (\<forall>e. so_token_exp k = Some e \<longrightarrow> now < e) \<Longrightarrow> admitted h k order)
      \<Longrightarrow> gateway_inv h (snd (handle_subscribe now k data s))"
    and "gateway_inv h (snd (handle_unsubscribe k data s))"
    and "gateway_inv h (snd (handle_mechanic_progress now k order s))"
    and "gateway_inv h (snd (handle_client_subscribe now k data s))"
    and "gateway_inv h (snd (handle_client_unsubscribe k data s))"
    and "gateway_inv h (snd (handle_dashboard_subscribe k s))"
proof -
  have sid: "so_id k = sid" using k by (auto dest: find_row_SomeD)
  note user = gateway_inv_get_user[OF g, of now k]
  note join = gateway_inv_join[OF g k]
  show "gateway_inv h (snd (handle_status_change now k order s))"
    using user by (auto simp: handle_status_change_def split: prod.splits option.splits)
  show "gateway_inv h (snd (handle_subscribe now k data s))"
    if "\<And>order role. so_role k = Some role \<Longrightarrow> parse_id data [''orderId'', ''id''] = Some order
        \<Longrightarrow> can_access_order (so_user k) role order s \<Longrightarrow> (\<forall>e. so_token_exp k = Some e \<longrightarrow> now < e) \<Longrightarrow> admitted h k order"
    using user join g that
    by (auto simp: handle_subscribe_def get_socket_user_Some sid entitled_def
        split: prod.splits option.splits)
  show "gateway_inv h (snd (handle_unsubscribe k data s))"
    using g by (simp add: handle_unsubscribe_def gateway_inv_leave split: option.splits)
  show "gateway_inv h (snd (handle_mechanic_progress now k order s))"
    using user by (auto simp: handle_mechanic_progress_def split: prod.splits option.splits)
  show "gateway_inv h (snd (handle_client_subscribe now k data s))"
    using user join g
    by (auto simp: handle_client_subscribe_def get_socket_user_Some sid entitled_def is_management_def
        split: prod.splits option.splits)
  show "gateway_inv h (snd (handle_client_unsubscribe k data s))"
    using g by (simp add: handle_client_unsubscribe_def gateway_inv_leave split: option.splits)
  show "gateway_inv h (snd (handle_dashboard_subscribe k s))"
    using g join by (simp add: handle_dashboard_subscribe_def sid entitled_def)
qed

lemma with_socket_inv:
  assumes "gateway_inv h s"
    and "\<And>k. find_row so_id sid (d_sockets s) = Some k \<Longrightarrow> gateway_inv h (snd (f k s))"
  shows "gateway_inv h (snd (with_socket sid f s))"
  using assms by (simp add: with_socket_def split: option.splits)

lemma snd_wrap: "snd (case x of (r, s') \<Rightarrow> (Inr r, s')) = snd x"
  by (simp split: prod.splits)

lemma admitted_more: "admitted h k order \<Longrightarrow> admitted (x # h) k order"
  unfolding admitted_def by (meson list.set_intros(2))

lemma gateway_inv_more: "gateway_inv h s \<Longrightarrow> gateway_inv (x # h) s"
  by (fastforce simp: gateway_inv_def sockets_ok_def entitled_def admitted_more split: room.splits)

lemma admitted_now:
  assumes "find_row so_id sid (d_sockets s) = Some k" and "so_role k = Some role" and "parse_id data [''orderId'', ''id''] = Some order"
    and "can_access_order (so_user k) role order s" and "\<forall>e. so_token_exp k = Some e \<longrightarrow> now < e"
  shows "admitted ((s, now, Subscribe sid data) # h) k order"
proof -
  have "so_id k = sid" using assms(1) by (auto dest: find_row_SomeD)
  then show ?thesis using assms unfolding admitted_def by auto
qed

lemma gateway_step_inv: "gateway_inv h s \<Longrightarrow> gateway_inv ((s, q) # h) (snd (gateway_step verify q s))"
proof (cases q)
  case (Pair now r)
  assume "gateway_inv h s"
  then have g: "gateway_inv ((s, now, r) # h) s" by (rule gateway_inv_more)
  show ?thesis
  proof (cases r)
    case (Subscribe sid data)
    have "gateway_inv ((s, now, r) # h) (snd (with_socket sid (\<lambda>k. handle_subscribe now k data) s))"
      using Subscribe by (intro with_socket_inv g handlers_inv(2)[OF g]) (auto intro: admitted_now)
    then show ?thesis by (simp add: Pair Subscribe snd_wrap)
  qed (use g in \<open>simp_all add: Pair snd_wrap gateway_inv_connection gateway_inv_disconnect with_socket_inv handlers_inv\<close>)
qed

text \<open>
  The gateway inside the program: between its messages the rest of the program changes the state as it likes, and may drop
  sockets (\<open>disconnectUser\<close>), never add one or put one in a room. The history of the messages is kept beside the state.
\<close>

datatype gateway_move = Message int ws_request | Elsewhere "socket \<Rightarrow> bool" "db \<Rightarrow> db"

fun gateway_move_step ::
    "(string \<Rightarrow> jwt_payload option) \<Rightarrow> gateway_move \<Rightarrow> db \<times> history \<Rightarrow> (http_error, ws_reply, db \<times> history) outcome" where
  "gateway_move_step verify (Message now q) (s, h) =
     (case gateway_step verify (now, q) s of (r, t) \<Rightarrow> (r, (t, (s, now, q) # h)))"
| "gateway_move_step verify (Elsewhere keep f) (s, h) = (Inr (Ok None), ((f s)\<lparr>d_sockets := filter keep (d_sockets s)\<rparr>, h))"

lemma gateway_move_inv:
  assumes "case x of (s, h) \<Rightarrow> gateway_inv h s"
  shows "case snd (gateway_move_step verify m x) of (s, h) \<Rightarrow> gateway_inv h s"
proof (cases m)
  case (Message now q)
  obtain s h r t where "x = (s, h)" "gateway_step verify (now, q) s = (r, t)" by (metis surj_pair)
  then show ?thesis using assms gateway_step_inv[of h s "(now, q)" verify] by (simp add: Message)
next
  case (Elsewhere keep f)
  then show ?thesis
    using assms by (cases x) (auto simp: gateway_inv_def sockets_ok_def socket_ids_def distinct_map_filter)
qed

interpretation gateway: invariant_service "gateway_move_step verify" "\<lambda>(s, h). gateway_inv h s"
  by unfold_locales (rule gateway_move_inv)

section \<open>Properties\<close>

text \<open>
  C26. Whatever tokens are presented, whatever messages the sockets send and whatever the rest of the program does between them,
  starting with no socket connected: a socket in the dashboard belongs to management, one in the management room to an
  owner or an administrator, one in the room of a role, an account, a mechanic or a client to that role or user (or, for
  clients, to management), and one in the room of an order has sent a message for that order when its user had access to it:
  a manager, the mechanic the order was assigned to, or its client.
\<close>

theorem rooms_are_earned:
  assumes "d_sockets s = []" and "run_requests (gateway_move_step verify) ms (s, []) = (t, h)" and "k \<in> set (d_sockets t)"
    and "r \<in> set (so_rooms k)"
  shows "(r = Dashboard \<longrightarrow> so_role k \<in> {Some UserRole.OWNER, Some UserRole.ADMIN, Some UserRole.FINANCE})
    \<and> (r = Management \<longrightarrow> so_role k \<in> {Some UserRole.OWNER, Some UserRole.ADMIN})
    \<and> (\<forall>role. r = RoleRoom role \<longrightarrow> so_role k = role)
    \<and> (\<forall>u. r = UserRoom u \<longrightarrow> so_user k = u)
    \<and> (\<forall>m. r = MechanicRoom m \<longrightarrow> so_user k = m \<and> so_role k \<in> {Some MECHANIC, Some TRAINEE})
    \<and> (\<forall>c. r = ClientRoom c \<longrightarrow> so_user k = c \<or> is_management (so_role k))
    \<and> (\<forall>order. r = OrderRoom order \<longrightarrow>
         (\<exists>u now data k' role. (u, now, Subscribe (so_id k) data) \<in> set h \<and> parse_id data [''orderId'', ''id''] = Some order
            \<and> find_row so_id (so_id k) (d_sockets u) = Some k' \<and> so_user k' = so_user k \<and> so_role k' = so_role k
            \<and> (\<forall>e. so_token_exp k' = Some e \<longrightarrow> now < e) \<and> so_role k = Some role
            \<and> (role \<in> set management_roles
                \<or> (\<exists>w. find_row wo_id order (d_orders u) = Some w
                     \<and> (role \<in> {MECHANIC, TRAINEE} \<and> wo_mechanic w = Some (so_user k)
                         \<or> role = CLIENT \<and> wo_client w = so_user k)))))"
proof -
  have "case (s, []) of (s, h) \<Rightarrow> gateway_inv h s" using assms(1) by (simp add: gateway_inv_def sockets_ok_def socket_ids_def)
  then have "case run_requests (gateway_move_step verify) ms (s, []) of (s, h) \<Rightarrow> gateway_inv h s" by (rule gateway.run_inv)
  then have e: "entitled h k r" using assms(2-4) by (auto simp: gateway_inv_def sockets_ok_def)
  have rooms: "admitted h k order" if "r = OrderRoom order" for order using e that by (simp add: entitled_def)
  have access: "role \<in> set management_roles
      \<or> (\<exists>w. find_row wo_id order (d_orders u) = Some w
           \<and> (role \<in> {MECHANIC, TRAINEE} \<and> wo_mechanic w = Some i \<or> role = CLIENT \<and> wo_client w = i))"
    if "can_access_order i role order u" for i role order u
    using that by (auto simp: can_access_order_def split: option.splits if_splits)
  show ?thesis
  proof (intro conjI allI impI)
    fix order assume "r = OrderRoom order"
    then obtain u now data k' role where a: "(u, now, Subscribe (so_id k) data) \<in> set h"
      "parse_id data [''orderId'', ''id''] = Some order" "find_row so_id (so_id k) (d_sockets u) = Some k'"
      "so_user k' = so_user k" "so_role k' = so_role k" "\<forall>e. so_token_exp k' = Some e \<longrightarrow> now < e" "so_role k = Some role"
      and c: "can_access_order (so_user k) role order u"
      using rooms unfolding admitted_def by blast
    show "\<exists>u now data k' role. (u, now, Subscribe (so_id k) data) \<in> set h \<and> parse_id data [''orderId'', ''id''] = Some order
        \<and> find_row so_id (so_id k) (d_sockets u) = Some k' \<and> so_user k' = so_user k \<and> so_role k' = so_role k
        \<and> (\<forall>e. so_token_exp k' = Some e \<longrightarrow> now < e) \<and> so_role k = Some role
        \<and> (role \<in> set management_roles
            \<or> (\<exists>w. find_row wo_id order (d_orders u) = Some w
                 \<and> (role \<in> {MECHANIC, TRAINEE} \<and> wo_mechanic w = Some (so_user k)
                     \<or> role = CLIENT \<and> wo_client w = so_user k)))"
      by (intro exI[of _ u] exI[of _ now] exI[of _ data] exI[of _ k'] exI[of _ role] conjI a access[OF c])
  qed (use e in \<open>auto simp: entitled_def is_management_def management_roles_def split: option.splits\<close>)
qed

text \<open>The history is that of the messages of the run.\<close>

lemma history_of_run:
  "map snd (rev (snd (run_requests (gateway_move_step verify) ms (s, h)))) =
     map snd (rev h) @ concat (map (\<lambda>m. case m of Message now q \<Rightarrow> [(now, q)] | Elsewhere _ _ \<Rightarrow> []) ms)"
proof (induction ms arbitrary: s h)
  case (Cons m ms)
  show ?case by (cases m) (simp_all add: Cons.IH split: prod.split)
qed simp

definition sample_token :: "string \<Rightarrow> jwt_payload option" where
  "sample_token t = Some \<lparr>jp_sub = None, jp_id = Some t, jp_role = Some UserRole.OWNER,
     jp_mfa_verified = Some True, jp_mfa_pending = False, jp_client = None, jp_exp = Some 900\<rparr>"

definition sample_mechanic_token :: "string \<Rightarrow> jwt_payload option" where
  "sample_mechanic_token t = Some \<lparr>jp_sub = None, jp_id = Some t, jp_role = Some MECHANIC,
     jp_mfa_verified = None, jp_mfa_pending = False, jp_client = None, jp_exp = Some 900\<rparr>"

theorem rooms_are_earned_witness:
  "\<exists>t h k u now data. run_requests (gateway_move_step sample_mechanic_token)
       [Message 0 (Connect ''s1'' (Some ''m1'')),
        Elsewhere (\<lambda>_. True) (\<lambda>s. s\<lparr>d_orders := [sample_order ''o1'' IN_PROGRESS]\<rparr>),
        Message 1 (Subscribe ''s1'' (JStr ''o1''))] (empty_db, []) = (t, h)
     \<and> k \<in> set (d_sockets t) \<and> OrderRoom ''o1'' \<in> set (so_rooms k) \<and> (u, now, Subscribe (so_id k) data) \<in> set h"
proof -
  let ?ms = "[Message 0 (Connect ''s1'' (Some ''m1'')),
        Elsewhere (\<lambda>_. True) (\<lambda>s. s\<lparr>d_orders := [sample_order ''o1'' IN_PROGRESS]\<rparr>),
        Message 1 (Subscribe ''s1'' (JStr ''o1''))]"
  obtain t h where run: "run_requests (gateway_move_step sample_mechanic_token) ?ms (empty_db, []) = (t, h)" by force
  then have "\<exists>k \<in> set (d_sockets t). OrderRoom ''o1'' \<in> set (so_rooms k)"
    by (auto simp: sample_mechanic_token_def handle_connection_def nonempty_def initial_rooms_def is_management_def
        management_roles_def insert_row_def Let_def with_socket_def handle_subscribe_def get_socket_user_def parse_id_def
        can_access_order_def sample_order_def join_room_def update_row_def find_row_def)
  then obtain k where k: "k \<in> set (d_sockets t)" "OrderRoom ''o1'' \<in> set (so_rooms k)" by blast
  have "\<exists>u now data. (u, now, Subscribe (so_id k) data) \<in> set h"
    using rooms_are_earned[OF _ run k] by auto
  then show ?thesis using run k by blast
qed

text \<open>
  A socket joins the room of an order only with access to the order at that moment: the subscription
  succeeds exactly when the token has not expired and the user is management, the assigned mechanic or
  trainee, or the client the order names; a refused subscription leaves every room as it was.
\<close>

theorem order_room_access:
  assumes "handle_subscribe now k (JStr order) s = (reply, s')" and "order \<noteq> []"
  shows "(reply = Ok (Some (OrderRoom order)) \<longleftrightarrow>
      so_user k \<noteq> [] \<and> (\<exists>role. so_role k = Some role \<and> can_access_order (so_user k) role order s)
      \<and> (\<forall>e. so_token_exp k = Some e \<longrightarrow> now < e))
    \<and> (reply \<noteq> Ok (Some (OrderRoom order)) \<longrightarrow> set (d_sockets s') \<subseteq> set (d_sockets s))
    \<and> (\<forall>w. so_role k \<in> {Some MECHANIC, Some TRAINEE} \<longrightarrow> find_row wo_id order (d_orders s) = Some w \<longrightarrow>
        reply = Ok (Some (OrderRoom order)) \<longrightarrow> wo_mechanic w = Some (so_user k))"
  using assms
  by (auto simp: handle_subscribe_def parse_id_def get_socket_user_def can_access_order_def disconnect_def
      management_roles_def split: if_splits option.splits)

theorem order_room_access_witness:
  "\<exists>k reply s'. handle_subscribe 5 k (JStr ''o1'') empty_db = (reply, s')
     \<and> so_role k = Some MECHANIC \<and> reply = Fail ''No autorizado para esta orden'' \<and> set (d_sockets s') \<subseteq> {}"
proof -
  define k where "k = \<lparr>so_id = ''s1'', so_user = ''m1'', so_role = Some MECHANIC, so_token_exp = Some 10, so_rooms = []\<rparr>"
  obtain reply s' where r: "handle_subscribe 5 k (JStr ''o1'') empty_db = (reply, s')" by force
  have "reply = Fail ''No autorizado para esta orden''"
    using r by (simp add: handle_subscribe_def k_def get_socket_user_def parse_id_def can_access_order_def
        management_roles_def)
  then show ?thesis
    using order_room_access[OF r] r by (intro exI[of _ k] exI[of _ reply] exI[of _ s']) (auto simp: k_def)
qed

end
