(* ===== verification/FinanceService.thy ===== *)
theory FinanceService
  imports Gateway DomainFinance
begin

text \<open>
  \<open>FinanceService\<close> (\<open>finance.service.ts\<close>), the use case that closes the cashbox, the override of a
  blocked cashbox in \<open>finance.controller.ts\<close> and the payment webhook: cashbox sessions, transactions,
  expenses with their approval levels, payment codes and invoice drafts. New identifiers and the instant
  of a request are arguments. Amounts of the requests are doubles, the columns are cents (\<open>dec\<close>).
\<close>

section \<open>Cashbox sessions\<close>

definition open_session :: "session_row list \<Rightarrow> session_row option" where
  "open_session rows = List.find (\<lambda>c. cs_status c = OPEN) rows"

definition open_cashbox :: "(number \<Rightarrow> int) \<Rightarrow> int \<Rightarrow> string \<Rightarrow> string \<Rightarrow> number \<Rightarrow> db \<Rightarrow> session_row answer" where
  "open_cashbox dec now new_id user opening s =
     (if open_session (d_sessions s) \<noteq> None then (Inl (Conflict ''Ya existe una caja abierta''), s)
      else if \<not> account_exists user s then (Inl (DbError ''P2003''), s)
      else if new_id \<in> cs_id ` set (d_sessions s) then (Inl (DbError ''P2002''), s)
      else let c = \<lparr>cs_id = new_id, cs_opened_by = user, cs_closed_by = None, cs_opening = dec opening,
                    cs_closing = None, cs_actual = None, cs_discrepancy = None, cs_status = OPEN,
                    cs_notes = None, cs_justification = None, cs_opened_at = now, cs_closed_at = None\<rparr>
           in (Inr c, s\<lparr>d_sessions := insert_row c (d_sessions s)\<rparr>))"

definition session_transactions :: "string \<Rightarrow> db \<Rightarrow> transaction_row list" where
  "session_transactions k s = filter (\<lambda>t. tx_session t = k) (d_transactions s)"

definition sum_of_type :: "TransactionType \<Rightarrow> transaction_row list \<Rightarrow> number" where
  "sum_of_type type ts = js_sum (map (\<lambda>t. cents (tx_amount t)) (filter (\<lambda>t. tx_type t = type) ts))"

definition expected_cash :: "session_row \<Rightarrow> db \<Rightarrow> number" where
  "expected_cash c s =
     (let ts = session_transactions (cs_id c) s
      in js_sub (js_add (cents (cs_opening c)) (sum_of_type PAYMENT ts)) (sum_of_type TransactionType.EXPENSE ts))"

definition or_null :: "string option \<Rightarrow> string option" where
  "or_null x = (case x of Some v \<Rightarrow> if v = [] then None else Some v | None \<Rightarrow> None)"

text \<open>\<open>FinanceService.closeCashbox\<close>, which no route calls.\<close>

definition close_cashbox ::
    "(number \<Rightarrow> int) \<Rightarrow> int \<Rightarrow> string \<Rightarrow> number \<Rightarrow> string option \<Rightarrow> db \<Rightarrow> string answer" where
  "close_cashbox dec now user actual notes s =
     (case open_session (d_sessions s) of
        None \<Rightarrow> (Inl (NotFound ''No hay una caja abierta para cerrar''), s)
      | Some c \<Rightarrow>
          let expected = expected_cash c s;
              discrepancy = js_sub actual expected;
              s1 = (if js_lt (js_int 50) (js_abs discrepancy)
                    then enqueue AlertDispatcher ''cashbox-discrepancy'' (cs_id c) s else s)
          in if \<not> account_exists user s1 then (Inl (DbError ''P2003''), s1)
             else (Inr (cs_id c),
                   update_session (cs_id c)
                     (\<lambda>r. r\<lparr>cs_status := CLOSED, cs_closed_by := Some user, cs_actual := Some (dec actual),
                           cs_closing := Some (dec expected), cs_discrepancy := Some (dec discrepancy),
                           cs_notes := or_null notes, cs_closed_at := Some now\<rparr>) s1))"

definition blank :: "string option \<Rightarrow> bool" where
  "blank x = (case x of None \<Rightarrow> True | Some v \<Rightarrow> js_trim v = [])"

definition closing_status :: "number \<Rightarrow> CashboxStatus" where
  "closing_status abs_diff =
     (if js_lt abs_diff (js_int 5) then CLOSED_NORMAL
      else if js_le abs_diff (js_int 50) then CLOSED_WITH_DISCREPANCY else BLOCKED)"

text \<open>
  \<open>CloseCashboxSessionUseCase\<close>: three levels of discrepancy. A blocked session writes the audit log and
  the alert before the session itself, without a transaction around them.
\<close>

definition close_cashbox_session ::
    "(number \<Rightarrow> int) \<Rightarrow> int \<Rightarrow> string \<Rightarrow> number \<Rightarrow> string option \<Rightarrow> db \<Rightarrow> CashboxStatus answer" where
  "close_cashbox_session dec now user actual justification s =
     (case open_session (d_sessions s) of
        None \<Rightarrow> (Inl (NotFound ''No hay sesion de caja abierta para cerrar''), s)
      | Some c \<Rightarrow>
          let expected = expected_cash c s;
              raw_diff = js_sub actual expected;
              status = closing_status (js_abs raw_diff)
          in if status = CLOSED_WITH_DISCREPANCY \<and> blank justification
             then (Inl (BadRequest ''JUSTIFICATION_REQUIRED''), s)
             else
               (case (if status = BLOCKED
                      then (case audit_create
                                  \<lparr>au_user = user, au_role = ''ADMIN'',
                                   au_action = ''CASHBOX_BLOCKED_MAJOR_DISCREPANCY'',
                                   au_entity = Some ''CashboxSession'', au_entity_id = Some (cs_id c),
                                   au_severity = CRITICAL, au_hash = None\<rparr> s of
                              Inl e \<Rightarrow> Inl e
                            | Inr s1 \<Rightarrow> Inr (emit_anomaly_detected ''CASHBOX_BLOCKED''
                                              (enqueue AlertDispatcher ''cashbox-blocked'' (cs_id c) s1)))
                      else Inr s) of
                  Inl e \<Rightarrow> (Inl e, s)
                | Inr s1 \<Rightarrow>
                    if \<not> account_exists user s1 then (Inl (DbError ''P2003''), s1)
                    else
                      let s2 = update_session (cs_id c)
                                 (\<lambda>r. r\<lparr>cs_status := status, cs_closed_by := Some user,
                                       cs_actual := Some (dec actual), cs_closing := Some (dec expected),
                                       cs_discrepancy := Some (dec raw_diff),
                                       cs_justification := justification,
                                       cs_closed_at := (if status \<noteq> BLOCKED then Some now
                                                        else cs_closed_at r)\<rparr>) s1;
                          s3 = (if status \<noteq> BLOCKED
                                then emit_cashbox_closed (cs_id c) (emit_event ''cashbox.closed'' (cs_id c) s2)
                                else s2)
                      in (Inr status, s3)))"

text \<open>
  \<open>overrideCashbox\<close>: \<open>totp_ok\<close> is the outcome of the verification of the code of the owner.
\<close>

definition override_cashbox :: "int \<Rightarrow> string \<Rightarrow> bool \<Rightarrow> string \<Rightarrow> string option \<Rightarrow> db \<Rightarrow> CashboxStatus answer" where
  "override_cashbox now owner totp_ok session reason s =
     (if \<not> totp_ok then (Inl (BadRequest ''Codigo TOTP invalido''), s)
      else case find_row cs_id session (d_sessions s) of
        None \<Rightarrow> (Inl (BadRequest ''La sesion de caja no existe o no esta en estado BLOCKED.''), s)
      | Some c \<Rightarrow>
          if cs_status c \<noteq> BLOCKED
          then (Inl (BadRequest ''La sesion de caja no existe o no esta en estado BLOCKED.''), s)
          else
            let s1 = update_session session
                       (\<lambda>r. r\<lparr>cs_status := CLOSED_WITH_DISCREPANCY, cs_closed_at := Some now,
                             cs_notes := Some (js_trim (''OVERRIDE por OWNER '' @ owner @ '' con TOTP. ''
                                           @ (case reason of None \<Rightarrow> [] | Some r \<Rightarrow> r)))\<rparr>) s
            in (case audit_create
                       \<lparr>au_user = owner, au_role = ''OWNER'', au_action = ''CASHBOX_OVERRIDE_TOTP'',
                        au_entity = Some ''CashboxSession'', au_entity_id = Some session,
                        au_severity = AuditSeverity.WARNING, au_hash = None\<rparr> s1 of
                  Inl e \<Rightarrow> (Inl e, s1)
                | Inr s2 \<Rightarrow> (Inr CLOSED_WITH_DISCREPANCY, s2)))"

definition add_transaction ::
    "(number \<Rightarrow> int) \<Rightarrow> int \<Rightarrow> string \<Rightarrow> string \<Rightarrow> TransactionType \<Rightarrow> number \<Rightarrow> PaymentMethod \<Rightarrow> string option
      \<Rightarrow> db \<Rightarrow> transaction_row answer" where
  "add_transaction dec now new_id session type amount payment_method order s =
     (case find_row cs_id session (d_sessions s) of
        None \<Rightarrow> (Inl (NotFound ''Sesion de caja no encontrada''), s)
      | Some c \<Rightarrow>
          if cs_status c \<noteq> OPEN then (Inl (Conflict ''La caja no esta abierta''), s)
          else let t = \<lparr>tx_id = new_id, tx_session = session, tx_type = type, tx_amount = dec amount,
                        tx_method = payment_method, tx_reference = None, tx_order = or_null order, tx_at = now\<rparr>
               in (Inr t, s\<lparr>d_transactions := insert_row t (d_transactions s)\<rparr>))"

definition get_today_session :: "db \<Rightarrow> session_row option" where
  "get_today_session s = open_session (d_sessions s)"

text \<open>\<open>getCashboxHistory\<close>: the page of sessions with status \<open>CLOSED\<close> and the cursor of the next one.\<close>

definition get_cashbox_history :: "int option \<Rightarrow> string option \<Rightarrow> db \<Rightarrow> session_row list \<times> string option" where
  "get_cashbox_history limit cursor s =
     (let take_n = (case limit of Some l \<Rightarrow> if 0 < l \<and> l \<le> 100 then nat l else 20 | None \<Rightarrow> 20);
          closed = sort_key (\<lambda>c. - (case cs_closed_at c of Some t \<Rightarrow> t | None \<Rightarrow> 0))
                     (filter (\<lambda>c. cs_status c = CLOSED) (d_sessions s));
          from_cursor = (case cursor of
              None \<Rightarrow> closed
            | Some k \<Rightarrow> drop 1 (dropWhile (\<lambda>c. cs_id c \<noteq> k) closed));
          found = take (take_n + 1) from_cursor
      in if take_n < length found then (butlast found, Some (cs_id (last found)))
         else (found, None))"

section \<open>Expenses\<close>

definition determine_approval_level :: "number \<Rightarrow> ApprovalLevel" where
  "determine_approval_level amount =
     (if js_le amount (js_int 100) then ApprovalLevel.FINANCE
      else if js_le amount (js_int 500) then ApprovalLevel.ADMIN
      else if js_le amount (js_int 2000) then ApprovalLevel.OWNER
      else DUAL_OWNER)"

fun approval_roles :: "ApprovalLevel \<Rightarrow> UserRole list" where
  "approval_roles ApprovalLevel.FINANCE = [UserRole.FINANCE, UserRole.ADMIN, UserRole.OWNER]"
| "approval_roles ApprovalLevel.ADMIN = [UserRole.ADMIN, UserRole.OWNER]"
| "approval_roles ApprovalLevel.OWNER = [UserRole.OWNER]"
| "approval_roles DUAL_OWNER = [UserRole.OWNER]"

definition can_approve_level :: "UserRole \<Rightarrow> ApprovalLevel \<Rightarrow> bool" where
  "can_approve_level role level \<longleftrightarrow> role \<in> set (approval_roles level)"

definition create_expense ::
    "(number \<Rightarrow> int) \<Rightarrow> int \<Rightarrow> string \<Rightarrow> string \<Rightarrow> number \<Rightarrow> Currency option \<Rightarrow> ExpenseCategory \<Rightarrow> db \<Rightarrow> expense_row answer" where
  "create_expense dec now new_id requester amount currency category s =
     (let level = determine_approval_level amount;
          auto = js_lt amount (js_int 100);
          x = \<lparr>ex_id = new_id, ex_requester = requester, ex_approver = (if auto then Some requester else None),
               ex_amount = dec amount, ex_currency = (case currency of Some c \<Rightarrow> c | None \<Rightarrow> PEN),
               ex_category = category,
               ex_status = (if auto then DISBURSED else ExpenseStatus.PENDING_APPROVAL),
               ex_level = level, ex_reason = None, ex_created_at = now,
               ex_approved_at = (if auto then Some now else None),
               ex_disbursed_at = (if auto then Some now else None)\<rparr>
      in if \<not> account_exists requester s then (Inl (DbError ''P2003''), s)
         else if new_id \<in> ex_id ` set (d_expenses s) then (Inl (DbError ''P2002''), s)
         else
           let s1 = s\<lparr>d_expenses := insert_row x (d_expenses s)\<rparr>
           in if auto then (Inr x, s1)
              else
                let suspicious = (js_le (js_int 200) amount \<or> category = SERVICES \<or> category = OTHER);
                    s2 = (if suspicious then enqueue AlertDispatcher ''suspicious-expense'' new_id s1 else s1)
                in (Inr x, enqueue AlertDispatcher ''expense-approval-required'' new_id s2))"

datatype decision = Approved | Rejected "string option"

datatype approval_result = PartialApproval expense_row | Decided expense_row

definition approve_expense :: "int \<Rightarrow> string \<Rightarrow> string \<Rightarrow> decision \<Rightarrow> db \<Rightarrow> approval_result answer" where
  "approve_expense now expense approver d s =
     (case find_row ex_id expense (d_expenses s) of
        None \<Rightarrow> (Inl (NotFound ''Gasto no encontrado''), s)
      | Some x \<Rightarrow>
          if ex_status x \<noteq> ExpenseStatus.PENDING_APPROVAL then (Inl (Conflict ''El gasto ya fue procesado''), s)
          else if ex_requester x = approver then (Inl (Forbidden ''SELF_APPROVAL_FORBIDDEN''), s)
          else case find_row ac_id approver (d_accounts s) of
            None \<Rightarrow> (Inl (NotFound ''Aprobador no encontrado''), s)
          | Some a \<Rightarrow>
              if \<not> can_approve_level (ac_role a) (ex_level x)
              then (Inl (Forbidden ''INSUFFICIENT_APPROVAL_LEVEL''), s)
              else case d of
                Rejected reason \<Rightarrow>
                  (let f = (\<lambda>r. r\<lparr>ex_status := ExpenseStatus.REJECTED, ex_approver := Some approver,
                                 ex_reason := reason, ex_approved_at := Some now\<rparr>)
                   in (Inr (Decided (f x)), update_expense expense f s))
              | Approved \<Rightarrow>
                  (let disburse = (\<lambda>r. r\<lparr>ex_status := DISBURSED, ex_approver := Some approver,
                                        ex_approved_at := Some now, ex_disbursed_at := Some now,
                                        ex_reason := None\<rparr>)
                   in if ex_level x = DUAL_OWNER
                      then (case ex_approver x of
                              None \<Rightarrow>
                                (let f = (\<lambda>r. r\<lparr>ex_approver := Some approver\<rparr>)
                                 in (Inr (PartialApproval (f x)), update_expense expense f s))
                            | Some first \<Rightarrow>
                                if first = approver
                                then (Inl (Conflict ''Ya registraste la primera aprobacion de este gasto.''), s)
                                else
                                  case audit_create
                                         \<lparr>au_user = approver, au_role = ''OWNER'',
                                          au_action = ''EXPENSE_DUAL_APPROVED'',
                                          au_entity = Some ''ExpenseAuthorization'',
                                          au_entity_id = Some expense,
                                          au_severity = AuditSeverity.WARNING, au_hash = None\<rparr> s of
                                    Inl e \<Rightarrow> (Inl e, s)
                                  | Inr s1 \<Rightarrow> (Inr (Decided (disburse x)), update_expense expense disburse s1))
                      else (Inr (Decided (disburse x)), update_expense expense disburse s)))"

definition get_pending_expenses :: "string option \<Rightarrow> db \<Rightarrow> expense_row list" where
  "get_pending_expenses approver s =
     sort_key (\<lambda>x. - ex_created_at x)
       (filter (\<lambda>x. ex_status x = ExpenseStatus.PENDING_APPROVAL
                    \<and> (nonempty approver \<longrightarrow> Some (ex_requester x) \<noteq> approver)) (d_expenses s))"

record expense_filters =
  ef_status :: "ExpenseStatus option"
  ef_category :: "ExpenseCategory option"
  ef_requester :: "string option"
  ef_start :: "int option"
  ef_end :: "int option"
  ef_page :: "nat option"
  ef_page_size :: "nat option"
  ef_size :: "nat option"

definition get_expenses :: "expense_filters \<Rightarrow> db \<Rightarrow> expense_row page" where
  "get_expenses f s =
     (let page = (case ef_page f of Some p \<Rightarrow> if p = 0 then 1 else p | None \<Rightarrow> 1);
          per_page = (case ef_page_size f of Some n \<Rightarrow> n | None \<Rightarrow> (case ef_size f of Some n \<Rightarrow> n | None \<Rightarrow> 20));
          rows = sort_key (\<lambda>x. - ex_created_at x)
                   (filter (\<lambda>x. option_matches (ef_status f) (ex_status x)
                              \<and> option_matches (ef_category f) (ex_category x)
                              \<and> (nonempty (ef_requester f) \<longrightarrow> Some (ex_requester x) = ef_requester f)
                              \<and> in_range (ef_start f) (ef_end f) (ex_created_at x)) (d_expenses s))
      in page_of page per_page rows)"

section \<open>Figures\<close>

text \<open>The database adds a decimal column exactly; the code reads the sum as a double.\<close>

definition column_sum :: "('r \<Rightarrow> int) \<Rightarrow> 'r list \<Rightarrow> number" where
  "column_sum f rows = cents (\<Sum>r\<leftarrow>rows. f r)"

record dashboard =
  da_from :: int
  da_revenue :: number
  da_expenses :: number
  da_profit :: number
  da_transactions :: nat
  da_active_orders :: nat
  da_pending :: nat

text \<open>The start of the period (the day, seven days back, the month) comes from the clock: \<open>from_t\<close>.\<close>

definition get_dashboard :: "int \<Rightarrow> db \<Rightarrow> dashboard" where
  "get_dashboard from_t s =
     (let payments = filter (\<lambda>t. tx_type t = PAYMENT \<and> from_t \<le> tx_at t) (d_transactions s);
          expenses = filter (\<lambda>t. tx_type t = TransactionType.EXPENSE \<and> from_t \<le> tx_at t) (d_transactions s);
          revenue = column_sum tx_amount payments;
          spent = column_sum tx_amount expenses
      in \<lparr>da_from = from_t, da_revenue = revenue, da_expenses = spent, da_profit = js_sub revenue spent,
          da_transactions = length payments,
          da_active_orders = count_where (\<lambda>w. wo_status w \<in> {IN_DIAGNOSIS, IN_PROGRESS, IN_REVIEW, BUDGETED}) (d_orders s),
          da_pending = count_where (\<lambda>x. ex_status x = ExpenseStatus.PENDING_APPROVAL) (d_expenses s)\<rparr>)"

text \<open>The loop of \<open>getCashflow\<close>: count and total per payment method, in an object keyed by the method.\<close>

type_synonym method_totals = "(PaymentMethod \<times> nat \<times> number) list"

primrec add_to_method :: "PaymentMethod \<Rightarrow> number \<Rightarrow> method_totals \<Rightarrow> method_totals" where
  "add_to_method p a [] = [(p, 1, js_add (Fin 0) a)]"
| "add_to_method p a (e # es) =
     (if fst e = p then (p, fst (snd e) + 1, js_add (snd (snd e)) a) # es else e # add_to_method p a es)"

definition totals_by_method :: "transaction_row list \<Rightarrow> method_totals" where
  "totals_by_method ts = foldl (\<lambda>m t. add_to_method (tx_method t) (cents (tx_amount t)) m) [] ts"

record cashflow =
  cf_inflows :: method_totals
  cf_outflows :: method_totals
  cf_total_in :: number
  cf_total_out :: number
  cf_net :: number

definition get_cashflow :: "int \<Rightarrow> int \<Rightarrow> db \<Rightarrow> cashflow" where
  "get_cashflow start stop s =
     (let inflow = filter (\<lambda>t. tx_type t = PAYMENT \<and> start \<le> tx_at t \<and> tx_at t \<le> stop) (d_transactions s);
          outflow = filter (\<lambda>t. tx_type t = TransactionType.EXPENSE \<and> start \<le> tx_at t \<and> tx_at t \<le> stop) (d_transactions s);
          total_in = js_sum (map (\<lambda>t. cents (tx_amount t)) inflow);
          total_out = js_sum (map (\<lambda>t. cents (tx_amount t)) outflow)
      in \<lparr>cf_inflows = totals_by_method inflow, cf_outflows = totals_by_method outflow,
          cf_total_in = total_in, cf_total_out = total_out, cf_net = js_sub total_in total_out\<rparr>)"

section \<open>Payment codes\<close>

definition qr_key :: "string \<Rightarrow> string" where
  "qr_key t = ''qr:payment:'' @ t"

definition processed_key :: "string \<Rightarrow> string" where
  "processed_key t = ''payment:processed:'' @ t"

text \<open>
  \<open>generatePaymentQR\<close>. The column \<open>finalAmount\<close> is never null and a decimal object is truthy, so
  \<open>finalAmount || totalCost || 0\<close> is \<open>finalAmount\<close>.
\<close>

definition generate_payment_qr :: "int \<Rightarrow> string \<Rightarrow> string \<Rightarrow> string \<Rightarrow> db \<Rightarrow> number answer" where
  "generate_payment_qr now qr_token order user s =
     (case find_row wo_id order (d_orders s) of
        None \<Rightarrow> (Inl (NotFound ''Orden no encontrada''), s)
      | Some w \<Rightarrow>
          if wo_payment_status w = PAID then (Inl (Conflict ''Esta orden ya esta pagada''), s)
          else
            let amount = cents (wo_final w);
                s1 = set_redis (redis_set now (qr_key qr_token) (RQr order amount) 420 (d_redis s)) s
            in (case audit_create
                       \<lparr>au_user = user, au_role = ''FINANCE'', au_action = ''PAYMENT_QR_GENERATED'',
                        au_entity = Some ''WorkOrder'', au_entity_id = Some order,
                        au_severity = INFO, au_hash = None\<rparr> s1 of
                  Inl e \<Rightarrow> (Inl e, s1)
                | Inr s2 \<Rightarrow> (Inr amount, s2)))"

definition payment_method_of :: "string \<Rightarrow> PaymentMethod option" where
  "payment_method_of m =
     (if m = ''CASH'' then Some PaymentMethod.CASH else if m = ''YAPE'' then Some YAPE
      else if m = ''PLIN'' then Some PLIN else if m = ''TRANSFER'' then Some TRANSFER
      else if m = ''CARD'' then Some CARD else None)"

datatype webhook_result = AlreadyProcessed | Confirmed payment_row

text \<open>
  \<open>confirmPaymentWebhook\<close>: the token is marked as processed before the payment is written, and a text
  that is no payment method is refused by the database client when the payment is written.
\<close>

definition confirm_payment_webhook ::
    "(number \<Rightarrow> int) \<Rightarrow> int \<Rightarrow> string \<Rightarrow> string \<Rightarrow> string \<Rightarrow> string option \<Rightarrow> db \<Rightarrow> webhook_result answer" where
  "confirm_payment_webhook dec now new_id qr_token payment_method reference s =
     (if redis_get now (processed_key qr_token) (d_redis s) \<noteq> None then (Inr AlreadyProcessed, s)
      else case redis_get now (qr_key qr_token) (d_redis s) of
        Some (RQr order amount) \<Rightarrow>
          (let s1 = set_redis (redis_set now (processed_key qr_token) (RText ''processed'') 86400 (d_redis s)) s;
               m = (if payment_method = [] then ''YAPE'' else payment_method)
           in case payment_method_of m of
                None \<Rightarrow> (Inl (DbError ''Invalid value for argument method''), s1)
              | Some pm \<Rightarrow>
                  if find_row wo_id order (d_orders s1) = None then (Inl (DbError ''P2003''), s1)
                  else
                    let p = \<lparr>pm_id = new_id, pm_invoice = None, pm_order = Some order, pm_method = pm,
                             pm_amount = dec amount,
                             pm_reference = Some (if nonempty reference then the reference else qr_token),
                             pm_received_by = ''system'', pm_verified_by = None, pm_channel = IN_PERSON, pm_personal_yape = False,
                             pm_yape_account = None, pm_notes = None, pm_receipt = None, pm_paid_at = now, pm_created_at = now\<rparr>;
                        s2 = s1\<lparr>d_payments := insert_row p (d_payments s1)\<rparr>;
                        s3 = set_redis (redis_del (qr_key qr_token) (d_redis s2)) s2
                    in (Inr (Confirmed p), emit_payment_received order False s3))
      | _ \<Rightarrow> (Inl (BadRequest ''QR expirado o invalido''), s))"

text \<open>The route of the webhook: the guard, then the service with the default of the controller.\<close>

definition payment_webhook ::
    "(string \<Rightarrow> string \<Rightarrow> string) \<Rightarrow> string option \<Rightarrow> (number \<Rightarrow> int) \<Rightarrow> int \<Rightarrow> string
      \<Rightarrow> json option \<Rightarrow> string \<Rightarrow> string option \<Rightarrow> string option \<Rightarrow> db \<Rightarrow> webhook_result answer" where
  "payment_webhook hmac webhook_secret dec now new_id signature qr_token payment_method reference s =
     (case payment_webhook_guard hmac webhook_secret signature (Some (JStr qr_token)) of
        Inl e \<Rightarrow> (Inl e, s)
      | Inr _ \<Rightarrow>
          if qr_token = [] then (Inl (BadRequest ''qrToken es requerido''), s)
          else confirm_payment_webhook dec now new_id qr_token
                 (if nonempty payment_method then the payment_method else ''DYNAMIC_QR'') reference s)"

section \<open>Invoice drafts\<close>

definition igv :: "number \<Rightarrow> number" where
  "igv x = js_div (js_round (js_mul (js_mul x (js_lit (18 / 100))) (Fin 100))) (Fin 100)"

definition create_invoice_draft ::
    "(number \<Rightarrow> int) \<Rightarrow> int \<Rightarrow> int \<Rightarrow> string \<Rightarrow> string \<Rightarrow> string \<Rightarrow> number \<Rightarrow> number \<Rightarrow> number \<Rightarrow> string \<Rightarrow> db \<Rightarrow> invoice_row answer" where
  "create_invoice_draft dec now year new_id order client labor parts customs user s =
     (let number = document_number ''COT'' year
                     (count_where (\<lambda>i. starts_with (number_prefix ''COT'' year) (iv_number i)) (d_invoices s));
          subtotal = js_add (js_add labor parts) customs;
          tax = igv subtotal;
          total = js_add subtotal tax
      in case List.find (\<lambda>i. iv_order i = Some order) (d_invoices s) of
           Some i \<Rightarrow>
             (let f = (\<lambda>r. r\<lparr>iv_subtotal := dec subtotal, iv_tax := dec tax, iv_total := dec total,
                            iv_due := dec total\<rparr>)
              in (Inr (f i), update_invoice (iv_id i) f s))
         | None \<Rightarrow>
             if number \<in> iv_number ` set (d_invoices s) then (Inl (DbError ''P2002''), s)
             else
               let i = \<lparr>iv_id = new_id, iv_number = number, iv_order = Some order, iv_client = client,
                        iv_type = BOLETA, iv_status = InvoiceStatus.DRAFT, iv_subtotal = dec subtotal,
                        iv_tax = dec tax, iv_discount = 0, iv_total = dec total, iv_paid = 0,
                        iv_due = dec total, iv_due_date = None, iv_notes = None, iv_issued_at = None, iv_paid_at = None,
                        iv_cancelled_at = None, iv_cancel_reason = None, iv_created_by = user, iv_created_at = now\<rparr>
               in (Inr i, s\<lparr>d_invoices := insert_row i (d_invoices s)\<rparr>))"

section \<open>The expected cash in cents\<close>

definition cents_of_type :: "TransactionType \<Rightarrow> transaction_row list \<Rightarrow> int" where
  "cents_of_type type ts = (\<Sum>t\<leftarrow>filter (\<lambda>t. tx_type t = type) ts. tx_amount t)"

definition expected_cents :: "session_row \<Rightarrow> db \<Rightarrow> int" where
  "expected_cents c s =
     (let ts = session_transactions (cs_id c) s
      in cs_opening c + cents_of_type PAYMENT ts - cents_of_type TransactionType.EXPENSE ts)"

text \<open>A session of ordinary size: amounts of column range and at most three hundred transactions.\<close>

definition session_bounded :: "session_row \<Rightarrow> db \<Rightarrow> bool" where
  "session_bounded c s \<longleftrightarrow>
     (let ts = session_transactions (cs_id c) s
      in length ts \<le> 300 \<and> cents_range (\<bar>cs_opening c\<bar> + (\<Sum>t\<leftarrow>ts. \<bar>tx_amount t\<bar>)))"

lemma sum_abs_filter_le: "(\<Sum>t\<leftarrow>filter p ts. \<bar>f t\<bar>) \<le> (\<Sum>t\<leftarrow>ts. \<bar>f t :: int\<bar>)"
  by (induction ts) auto

lemma abs_sum_le: "\<bar>\<Sum>t\<leftarrow>ts. f t\<bar> \<le> (\<Sum>t\<leftarrow>ts. \<bar>f t :: int\<bar>)"
  by (induction ts) auto

lemma abs_le_sum_abs: "t \<in> set ts \<Longrightarrow> \<bar>f t\<bar> \<le> (\<Sum>t\<leftarrow>ts. \<bar>f t :: int\<bar>)"
proof (induction ts)
  case (Cons x ts)
  have "0 \<le> (\<Sum>t\<leftarrow>ts. \<bar>f t\<bar>)" by (rule sum_list_nonneg) auto
  with Cons show ?case by auto
qed simp

lemma sum_types_le:
  "(\<Sum>t\<leftarrow>filter (\<lambda>t. tx_type t = PAYMENT) ts. \<bar>tx_amount t\<bar>)
   + (\<Sum>t\<leftarrow>filter (\<lambda>t. tx_type t = TransactionType.EXPENSE) ts. \<bar>tx_amount t\<bar>) \<le> (\<Sum>t\<leftarrow>ts. \<bar>tx_amount t\<bar>)"
  by (induction ts) auto

lemma length_types_le:
  "length (filter (\<lambda>t. tx_type t = PAYMENT) ts) + length (filter (\<lambda>t. tx_type t = TransactionType.EXPENSE) ts) \<le> length ts"
  by (induction ts) auto

lemma approx_sum_of_type:
  assumes "length ts \<le> 400000" and "cents_range (\<Sum>t\<leftarrow>ts. \<bar>tx_amount t\<bar>)"
  shows "approx (of_nat (length (filter (\<lambda>t. tx_type t = type) ts)) / 400000) (sum_of_type type ts) (cents_of_type type ts)"
proof -
  let ?f = "filter (\<lambda>t. tx_type t = type) ts"
  have le: "(\<Sum>t\<leftarrow>?f. \<bar>tx_amount t\<bar>) \<le> (\<Sum>t\<leftarrow>ts. \<bar>tx_amount t\<bar>)" by (rule sum_abs_filter_le)
  have nonneg: "0 \<le> (\<Sum>t\<leftarrow>?f. \<bar>tx_amount t\<bar>)" by (rule sum_list_nonneg) auto
  have "length ?f \<le> 400000" using length_filter_le[of _ ts] assms(1) by (rule order_trans)
  moreover have "cents_range (\<Sum>n\<leftarrow>map tx_amount ?f. \<bar>n\<bar>)"
    using le nonneg assms(2) by (simp add: cents_range_def comp_def)
  moreover have "\<forall>n \<in> set (map tx_amount ?f). cents_range n"
  proof
    fix n assume "n \<in> set (map tx_amount ?f)"
    then obtain t where "t \<in> set ts" "n = tx_amount t" by auto
    then have "\<bar>n\<bar> \<le> (\<Sum>t\<leftarrow>ts. \<bar>tx_amount t\<bar>)" using abs_le_sum_abs[of t ts tx_amount] by simp
    then show "cents_range n" using assms(2) by (auto simp: cents_range_def)
  qed
  ultimately show ?thesis
    using approx_js_sum[of "map tx_amount ?f"]
    by (simp add: sum_of_type_def cents_of_type_def comp_def)
qed

lemma expected_cash_approx:
  assumes "session_bounded c s"
  shows "approx (4 / 5000) (expected_cash c s) (expected_cents c s)"
    and "cents_range (expected_cents c s)"
proof -
  let ?ts = "session_transactions (cs_id c) s"
  let ?P = "cents_of_type PAYMENT ?ts" and ?E = "cents_of_type TransactionType.EXPENSE ?ts"
  let ?np = "length (filter (\<lambda>t. tx_type t = PAYMENT) ?ts)"
  let ?ne = "length (filter (\<lambda>t. tx_type t = TransactionType.EXPENSE) ?ts)"
  let ?S = "\<Sum>t\<leftarrow>?ts. \<bar>tx_amount t\<bar>"
  have len: "length ?ts \<le> 300" and r: "cents_range (\<bar>cs_opening c\<bar> + ?S)"
    using assms by (simp_all add: session_bounded_def Let_def)
  have pos: "0 \<le> ?S" by (rule sum_list_nonneg) auto
  have S: "cents_range ?S" "cents_range (cs_opening c)" using r pos by (auto simp: cents_range_def)
  have bP: "\<bar>?P\<bar> + \<bar>?E\<bar> \<le> ?S"
    using sum_types_le[of ?ts] abs_sum_le[of tx_amount "filter (\<lambda>t. tx_type t = PAYMENT) ?ts"]
      abs_sum_le[of tx_amount "filter (\<lambda>t. tx_type t = TransactionType.EXPENSE) ?ts"]
    unfolding cents_of_type_def by linarith
  have r1: "cents_range (cs_opening c + ?P)" "cents_range (cs_opening c + ?P - ?E)"
    using bP r by (auto simp: cents_range_def)
  then show "cents_range (expected_cents c s)" by (simp add: expected_cents_def Let_def)
  have "?np + ?ne \<le> 300" using length_types_le[of ?ts] len by linarith
  then have "of_nat (?np + ?ne) \<le> (of_nat 300 :: rat)" by (simp only: of_nat_le_iff)
  then have n: "of_nat ?np / 400000 + of_nat ?ne / 400000 \<le> (300 / 400000 :: rat)" by simp
  have n0: "0 \<le> (of_nat ?np / 400000 :: rat)" "0 \<le> (of_nat ?ne / 400000 :: rat)" by simp_all
  note P = approx_sum_of_type[OF _ S(1), of PAYMENT]
  note E = approx_sum_of_type[OF _ S(1), of TransactionType.EXPENSE]
  have le: "length ?ts \<le> 400000" using len by simp
  have a1: "approx (1 / 800000 + of_nat ?np / 400000 + 1 / 800000)
      (js_add (cents (cs_opening c)) (sum_of_type PAYMENT ?ts)) (cs_opening c + ?P)"
    using n n0 by (intro approx_add[OF approx_cents[OF S(2)] P[OF le] r1(1)]) linarith
  have a2: "approx (1 / 800000 + of_nat ?np / 400000 + 1 / 800000 + of_nat ?ne / 400000 + 1 / 800000)
      (expected_cash c s) (cs_opening c + ?P - ?E)"
    unfolding expected_cash_def Let_def
    using n n0 by (intro approx_sub[OF a1 E[OF le] r1(2)]) linarith
  show "approx (4 / 5000) (expected_cash c s) (expected_cents c s)"
    unfolding expected_cents_def Let_def by (rule approx_weaken[OF a2]) (use n in linarith)
qed

section \<open>Closing levels\<close>

lemma closing_status_levels:
  assumes "approx (1 / 1000) x n"
  shows "n < 500 \<Longrightarrow> closing_status x = CLOSED_NORMAL"
    and "500 < n \<Longrightarrow> n < 5000 \<Longrightarrow> closing_status x = CLOSED_WITH_DISCREPANCY"
    and "5000 < n \<Longrightarrow> closing_status x = BLOCKED"
proof -
  have five: "approx 0 (js_int 5) 500" and fifty: "approx 0 (js_int 50) 5000"
    using approx_int[of 5] approx_int[of 50] by simp_all
  note f = approx_finite[OF assms] approx_finite[OF five] approx_finite[OF fifty]
  have lt: "js_le (js_int 5) x" if "500 < n"
    using approx_lt[OF five assms] that by (simp add: js_le_def)
  show "closing_status x = CLOSED_NORMAL" if "n < 500"
    using approx_lt[OF assms five] that by (simp add: closing_status_def)
  show "closing_status x = CLOSED_WITH_DISCREPANCY" if "500 < n" "n < 5000"
    using lt approx_lt[OF assms fifty] that js_not_lt[OF f(1,2)] by (simp add: closing_status_def js_le_def)
  show "closing_status x = BLOCKED" if "5000 < n"
    using lt approx_lt[OF fifty assms] that js_not_lt[OF f(1,2)] js_not_lt[OF f(3,1)]
    by (simp add: closing_status_def)
qed

lemma raw_diff_approx:
  assumes "session_bounded c s" and "cents_range a" and "cents_range (a - expected_cents c s)"
  shows "approx (1 / 1000) (js_sub (cents a) (expected_cash c s)) (a - expected_cents c s)"
  by (rule approx_weaken[OF approx_sub[OF approx_cents[OF assms(2)] expected_cash_approx(1)[OF assms(1)] assms(3)]])
     simp_all

lemma open_session_SomeD: "open_session rows = Some c \<Longrightarrow> c \<in> set rows \<and> cs_status c = OPEN"
  by (auto simp: open_session_def find_Some_iff)

lemma open_session_None_iff: "open_session rows = None \<longleftrightarrow> (\<forall>c \<in> set rows. cs_status c \<noteq> OPEN)"
  by (auto simp: open_session_def find_None_iff)

text \<open>The whole effect of a successful close.\<close>

definition closed_row :: "(number \<Rightarrow> int) \<Rightarrow> int \<Rightarrow> string \<Rightarrow> number \<Rightarrow> number \<Rightarrow> string option \<Rightarrow> CashboxStatus \<Rightarrow> session_row \<Rightarrow> session_row" where
  "closed_row dec now user actual expected justification status r =
     r\<lparr>cs_status := status, cs_closed_by := Some user, cs_actual := Some (dec actual),
       cs_closing := Some (dec expected), cs_discrepancy := Some (dec (js_sub actual expected)),
       cs_justification := justification,
       cs_closed_at := (if status \<noteq> BLOCKED then Some now else cs_closed_at r)\<rparr>"

lemma close_cashbox_session_eq:
  fixes actual :: number
  assumes "open_session (d_sessions s) = Some c" and "account_exists user s"
  defines "status \<equiv> closing_status (js_abs (js_sub actual (expected_cash c s)))"
  shows "fst (close_cashbox_session dec now user actual j s) =
      (if status = CLOSED_WITH_DISCREPANCY \<and> blank j then Inl (BadRequest ''JUSTIFICATION_REQUIRED'') else Inr status)"
    and "status = CLOSED_WITH_DISCREPANCY \<and> blank j \<Longrightarrow> snd (close_cashbox_session dec now user actual j s) = s"
    and "\<not> (status = CLOSED_WITH_DISCREPANCY \<and> blank j) \<Longrightarrow>
      d_sessions (snd (close_cashbox_session dec now user actual j s)) =
        update_row cs_id (cs_id c) (closed_row dec now user actual (expected_cash c s) j status) (d_sessions s)"
    and "status = BLOCKED \<Longrightarrow>
      (\<exists>a \<in> set (d_audit (snd (close_cashbox_session dec now user actual j s))).
         au_action a = ''CASHBOX_BLOCKED_MAJOR_DISCREPANCY'' \<and> au_severity a = CRITICAL
         \<and> au_entity_id a = Some (cs_id c))
      \<and> \<lparr>jb_queue = AlertDispatcher, jb_name = ''cashbox-blocked'', jb_subject = cs_id c\<rparr>
          \<in> set (d_jobs (snd (close_cashbox_session dec now user actual j s)))"
  using assms
  by (auto simp: close_cashbox_session_def Let_def audit_create_def emit_anomaly_detected_def
      emit_cashbox_closed_def closed_row_def[abs_def])

section \<open>Properties\<close>

text \<open>
  Closing the cashbox sorts by the difference between the cash counted and the cash expected (the
  opening balance plus payments less expenses, exact in cents): under five soles it closes normally;
  between five and fifty it demands a justification and changes nothing without one; above fifty the
  session is blocked, with a critical entry in the audit log and an alert. The row records the counted
  cash, the expected cash and the difference exactly.
\<close>

theorem close_session_levels:
  assumes "decimal_column dec" and "open_session (d_sessions s) = Some c" and "session_bounded c s"
    and "distinct (map cs_id (d_sessions s))" and "account_exists user s"
    and "cents_range a" and "cents_range (a - expected_cents c s)"
    and "close_cashbox_session dec now user (cents a) j s = (answer, s')"
  shows "(\<bar>a - expected_cents c s\<bar> < 500 \<longrightarrow> answer = Inr CLOSED_NORMAL)
    \<and> (500 < \<bar>a - expected_cents c s\<bar> \<and> \<bar>a - expected_cents c s\<bar> < 5000 \<longrightarrow>
        (if blank j then answer = Inl (BadRequest ''JUSTIFICATION_REQUIRED'') \<and> s' = s
         else answer = Inr CLOSED_WITH_DISCREPANCY))
    \<and> (5000 < \<bar>a - expected_cents c s\<bar> \<longrightarrow> answer = Inr BLOCKED
        \<and> (\<exists>e \<in> set (d_audit s'). au_action e = ''CASHBOX_BLOCKED_MAJOR_DISCREPANCY'' \<and> au_severity e = CRITICAL))
    \<and> (\<forall>st. answer = Inr st \<longrightarrow>
        (\<exists>r. find_row cs_id (cs_id c) (d_sessions s') = Some r \<and> cs_status r = st \<and> cs_closed_by r = Some user
          \<and> cs_actual r = Some a \<and> cs_closing r = Some (expected_cents c s)
          \<and> cs_discrepancy r = Some (a - expected_cents c s)))"
proof -
  let ?d = "a - expected_cents c s" and ?x = "js_sub (cents a) (expected_cash c s)"
  have x: "approx (1 / 1000) ?x ?d" by (rule raw_diff_approx[OF assms(3,6,7)])
  note lv = closing_status_levels[OF approx_abs[OF x]]
  have find: "find_row cs_id (cs_id c) (d_sessions s) = Some c"
    using assms(2,4) by (auto dest!: open_session_SomeD intro: find_row_distinct)
  have decs: "dec (cents a) = a" "dec (expected_cash c s) = expected_cents c s" "dec ?x = ?d"
    using decimal_column_cents[OF assms(1,6)]
      decimal_columnD[OF assms(1) expected_cash_approx(1)[OF assms(3)] _ expected_cash_approx(2)[OF assms(3)]]
      decimal_columnD[OF assms(1) x _ assms(7)] by simp_all
  note eq = close_cashbox_session_eq[OF assms(2,5), where actual = "cents a" and dec = dec and now = now and j = j, unfolded assms(8) fst_conv snd_conv]
  have row: "\<exists>r. find_row cs_id (cs_id c) (d_sessions s') = Some r \<and> cs_status r = st \<and> cs_closed_by r = Some user
          \<and> cs_actual r = Some a \<and> cs_closing r = Some (expected_cents c s) \<and> cs_discrepancy r = Some ?d"
    if "answer = Inr st" for st
  proof -
    have "\<not> (closing_status (js_abs ?x) = CLOSED_WITH_DISCREPANCY \<and> blank j)"
      "closing_status (js_abs ?x) = st" using eq(1) that by (auto split: if_splits)
    then have "d_sessions s' = update_row cs_id (cs_id c) (closed_row dec now user (cents a) (expected_cash c s) j st) (d_sessions s)"
      using eq(3) by simp
    then have "find_row cs_id (cs_id c) (d_sessions s') = Some (closed_row dec now user (cents a) (expected_cash c s) j st c)"
      using find by (simp add: sessions.lookup_modify closed_row_def)
    then show ?thesis by (simp add: closed_row_def decs)
  qed
  show ?thesis using eq(1,2,4) lv row by auto
qed

definition sample_finance_db :: db where
  "sample_finance_db = empty_db
     \<lparr>d_accounts := [\<lparr>ac_id = ''f1'', ac_email = ''f'', ac_password_hash = '''', ac_mfa_secret = None,
        ac_mfa_enabled = True, ac_role = UserRole.FINANCE, ac_name = ''f'', ac_status = ACTIVE,
        ac_last_login_at = None, ac_last_login_ip = None, ac_failed_attempts = 0, ac_locked_until = None, ac_created_at = 0, ac_deleted_at = None\<rparr>],
      d_sessions := [\<lparr>cs_id = ''c1'', cs_opened_by = ''f1'', cs_closed_by = None, cs_opening = 10000,
        cs_closing = None, cs_actual = None, cs_discrepancy = None, cs_status = OPEN, cs_notes = None,
        cs_justification = None, cs_opened_at = 0, cs_closed_at = None\<rparr>],
      d_transactions := [\<lparr>tx_id = ''t1'', tx_session = ''c1'', tx_type = PAYMENT, tx_amount = 5030,
        tx_method = YAPE, tx_reference = None, tx_order = None, tx_at = 1\<rparr>]\<rparr>"

theorem close_session_levels_witness:
  "\<exists>s'. close_cashbox_session half_up 9 ''f1'' (cents 8000) None sample_finance_db = (Inr BLOCKED, s')
     \<and> (\<exists>r. find_row cs_id ''c1'' (d_sessions s') = Some r \<and> cs_status r = BLOCKED \<and> cs_discrepancy r = Some (- 7030))"
proof -
  obtain c where c: "open_session (d_sessions sample_finance_db) = Some c" "cs_id c = ''c1''" "cs_opening c = 10000"
    by (simp add: open_session_def sample_finance_db_def)
  have tx: "session_transactions ''c1'' sample_finance_db = d_transactions sample_finance_db"
    by (simp add: session_transactions_def sample_finance_db_def)
  have e: "expected_cents c sample_finance_db = 15030"
    by (simp add: expected_cents_def Let_def tx c) (simp add: cents_of_type_def sample_finance_db_def)
  have b: "session_bounded c sample_finance_db"
    by (simp add: session_bounded_def Let_def tx c) (simp add: sample_finance_db_def cents_range_def)
  have d: "distinct (map cs_id (d_sessions sample_finance_db))" "account_exists ''f1'' sample_finance_db"
    by (simp_all add: sample_finance_db_def account_exists_def)
  obtain answer s' where r: "close_cashbox_session half_up 9 ''f1'' (cents 8000) None sample_finance_db = (answer, s')"
    by force
  have p: "cents_range 8000" "cents_range (8000 - expected_cents c sample_finance_db)"
    by (simp_all add: e cents_range_def)
  show ?thesis
    using close_session_levels[OF decimal_column_half_up c(1) b d(1,2) p r] r by (auto simp: e c(2))
qed

section \<open>The finance routes as a service\<close>

datatype finance_request =
    OpenCashbox string string number
  | CloseSession string number "string option"
  | Override string bool string "string option"
  | AddTransaction string string TransactionType number PaymentMethod "string option"
  | CreateExpense string string number "Currency option" ExpenseCategory
  | ApproveExpense string string decision
  | GenerateQr string string string
  | ConfirmPayment string string string "string option"

text \<open>The requests the controllers route to the handlers, each at an instant.\<close>

fun finance_step :: "(number \<Rightarrow> int) \<Rightarrow> int \<times> finance_request \<Rightarrow> db \<Rightarrow> unit answer" where
  "finance_step dec (now, OpenCashbox new_id user opening) s =
     drop_answer (open_cashbox dec now new_id user opening s)"
| "finance_step dec (now, CloseSession user actual j) s =
     drop_answer (close_cashbox_session dec now user actual j s)"
| "finance_step dec (now, Override owner totp session reason) s =
     drop_answer (override_cashbox now owner totp session reason s)"
| "finance_step dec (now, AddTransaction new_id session type amount m order) s =
     drop_answer (add_transaction dec now new_id session type amount m order s)"
| "finance_step dec (now, CreateExpense new_id requester amount currency category) s =
     drop_answer (create_expense dec now new_id requester amount currency category s)"
| "finance_step dec (now, ApproveExpense x approver d) s = drop_answer (approve_expense now x approver d s)"
| "finance_step dec (now, GenerateQr token order user) s = drop_answer (generate_payment_qr now token order user s)"
| "finance_step dec (now, ConfirmPayment new_id token m reference) s =
     drop_answer (confirm_payment_webhook dec now new_id token m reference s)"

definition owner_account :: "string \<Rightarrow> db \<Rightarrow> bool" where
  "owner_account k s \<longleftrightarrow> (\<exists>a. find_row ac_id k (d_accounts s) = Some a \<and> ac_role a = UserRole.OWNER)"

definition may_decide :: "string \<Rightarrow> ApprovalLevel \<Rightarrow> db \<Rightarrow> bool" where
  "may_decide k level s \<longleftrightarrow>
     (\<exists>a. find_row ac_id k (d_accounts s) = Some a \<and> can_approve_level (ac_role a) level)"

definition expense_row_ok :: "db \<Rightarrow> expense_row \<Rightarrow> bool" where
  "expense_row_ok s x \<longleftrightarrow>
     (case ex_status x of
        ExpenseStatus.PENDING_APPROVAL \<Rightarrow>
          (case ex_approver x of None \<Rightarrow> True
           | Some a \<Rightarrow> ex_level x = DUAL_OWNER \<and> a \<noteq> ex_requester x \<and> owner_account a s)
      | ExpenseStatus.APPROVED \<Rightarrow> False
      | ExpenseStatus.REJECTED \<Rightarrow> (\<exists>a. ex_approver x = Some a \<and> a \<noteq> ex_requester x \<and> may_decide a (ex_level x) s)
      | DISBURSED \<Rightarrow>
          ex_approver x = Some (ex_requester x) \<and> ex_level x = ApprovalLevel.FINANCE
          \<or> (\<exists>a. ex_approver x = Some a \<and> a \<noteq> ex_requester x \<and> may_decide a (ex_level x) s))"

definition finance_inv :: "db \<Rightarrow> bool" where
  "finance_inv s \<longleftrightarrow>
     count_where (\<lambda>c. cs_status c = OPEN) (d_sessions s) \<le> 1
     \<and> distinct (map cs_id (d_sessions s))
     \<and> (\<forall>c \<in> set (d_sessions s). cs_status c \<noteq> CLOSED)
     \<and> distinct (map ex_id (d_expenses s))
     \<and> (\<forall>x \<in> set (d_expenses s). expense_row_ok s x)"

lemma expense_row_ok_cong: "d_accounts s' = d_accounts s \<Longrightarrow> expense_row_ok s' = expense_row_ok s"
  by (auto simp: expense_row_ok_def owner_account_def may_decide_def fun_eq_iff
      split: ExpenseStatus.splits option.splits)

lemma finance_inv_cong:
  assumes "d_accounts s' = d_accounts s" "d_sessions s' = d_sessions s" "d_expenses s' = d_expenses s"
  shows "finance_inv s' = finance_inv s"
  using assms expense_row_ok_cong[OF assms(1)] by (simp add: finance_inv_def)

text \<open>Rewriting one session, or one expense, keeps the invariant when the new row does.\<close>

lemma finance_inv_session:
  assumes "finance_inv s" and "d_sessions s' = update_row cs_id k f (d_sessions s)"
    and "d_accounts s' = d_accounts s" and "d_expenses s' = d_expenses s"
    and "\<And>c. cs_id (f c) = cs_id c" and "\<And>c. cs_status (f c) \<notin> {OPEN, CLOSED}"
  shows "finance_inv s'"
proof -
  have "count_where (\<lambda>c. cs_status c = OPEN) (d_sessions s') \<le> count_where (\<lambda>c. cs_status c = OPEN) (d_sessions s)"
    unfolding assms(2) by (rule count_where_update_le) (use assms(6) in auto)
  moreover have "cs_status c \<noteq> CLOSED" if "c \<in> set (d_sessions s')" for c
    using that assms(1,6) unfolding assms(2) finance_inv_def by (auto elim!: update_row_cases)
  moreover have "map cs_id (d_sessions s') = map cs_id (d_sessions s)"
    unfolding assms(2) by (simp add: assms(5))
  ultimately show ?thesis
    using assms(1,3,4) expense_row_ok_cong[OF assms(3)] by (auto simp: finance_inv_def)
qed

lemma finance_inv_expense:
  assumes "finance_inv s" and "find_row ex_id k (d_expenses s) = Some x"
    and "d_expenses s' = update_row ex_id k f (d_expenses s)"
    and "d_accounts s' = d_accounts s" and "d_sessions s' = d_sessions s"
    and "\<And>y. ex_id (f y) = ex_id y" and "expense_row_ok s (f x)"
  shows "finance_inv s'"
proof -
  have d: "distinct (map ex_id (d_expenses s))" using assms(1) by (simp add: finance_inv_def)
  have "expense_row_ok s y" if "y \<in> set (d_expenses s')" for y
    using update_row_found[OF d assms(2), of y f] that assms(1,7) unfolding assms(3) finance_inv_def by auto
  moreover have "map ex_id (d_expenses s') = map ex_id (d_expenses s)"
    unfolding assms(3) by (simp add: assms(6))
  ultimately show ?thesis
    using assms(1,4,5) expense_row_ok_cong[OF assms(4)] by (auto simp: finance_inv_def)
qed

lemma open_cashbox_inv: "finance_inv s \<Longrightarrow> finance_inv (snd (open_cashbox dec now i u b s))"
  by (auto simp: open_cashbox_def Let_def finance_inv_def open_session_None_iff count_where_0_iff
      expense_row_ok_cong[of "s\<lparr>d_sessions := v\<rparr>" s for v])

lemma closed_row_status: "cs_id (closed_row dec now u a e j st c) = cs_id c" "cs_status (closed_row dec now u a e j st c) = st"
  by (simp_all add: closed_row_def)

lemma closing_status_not_open: "closing_status x \<notin> {OPEN, CLOSED}"
  by (simp add: closing_status_def)

lemma close_cashbox_session_frame:
  "d_accounts (snd (close_cashbox_session dec now user actual j s)) = d_accounts s
   \<and> d_expenses (snd (close_cashbox_session dec now user actual j s)) = d_expenses s"
  by (auto simp: close_cashbox_session_def Let_def emit_anomaly_detected_def emit_cashbox_closed_def
      split: option.splits sum.splits dest!: audit_create_frame)

lemma close_cashbox_session_cases:
  "d_sessions (snd (close_cashbox_session dec now user actual j s)) = d_sessions s
   \<or> (\<exists>c st. st \<notin> {OPEN, CLOSED} \<and>
        d_sessions (snd (close_cashbox_session dec now user actual j s)) =
          update_row cs_id (cs_id c) (closed_row dec now user actual (expected_cash c s) j st) (d_sessions s))"
proof (cases "open_session (d_sessions s)")
  case None
  then show ?thesis by (simp add: close_cashbox_session_def)
next
  case (Some c)
  show ?thesis
  proof (cases "account_exists user s")
    case True
    then show ?thesis
      using close_cashbox_session_eq(2,3)[OF Some True, of actual j dec now] closing_status_not_open by metis
  next
    case False
    then show ?thesis using Some
      by (auto simp: close_cashbox_session_def Let_def audit_create_def)
  qed
qed

lemma close_session_inv:
  assumes "finance_inv s"
  shows "finance_inv (snd (close_cashbox_session dec now user actual j s))"
proof -
  let ?s' = "snd (close_cashbox_session dec now user actual j s)"
  note fr = close_cashbox_session_frame[of dec now user actual j s]
  from close_cashbox_session_cases[of dec now user actual j s] show ?thesis
  proof
    assume "d_sessions ?s' = d_sessions s"
    with fr show ?thesis using assms finance_inv_cong[of ?s' s] by simp
  next
    assume "\<exists>c st. st \<notin> {OPEN, CLOSED} \<and>
        d_sessions ?s' = update_row cs_id (cs_id c) (closed_row dec now user actual (expected_cash c s) j st) (d_sessions s)"
    then obtain c st where st: "st \<notin> {OPEN, CLOSED}" and
      d: "d_sessions ?s' = update_row cs_id (cs_id c) (closed_row dec now user actual (expected_cash c s) j st) (d_sessions s)"
      by blast
    show ?thesis
      by (rule finance_inv_session[OF assms d]) (use fr st in \<open>simp_all add: closed_row_status\<close>)
  qed
qed

lemma override_cashbox_inv:
  assumes "finance_inv s"
  shows "finance_inv (snd (override_cashbox now owner ok k reason s))"
proof -
  let ?f = "\<lambda>r. r\<lparr>cs_status := CLOSED_WITH_DISCREPANCY, cs_closed_at := Some now,
      cs_notes := Some (js_trim (''OVERRIDE por OWNER '' @ owner @ '' con TOTP. ''
        @ (case reason of None \<Rightarrow> [] | Some r \<Rightarrow> r)))\<rparr>"
  have u: "finance_inv (update_session k ?f s)"
    by (rule finance_inv_session[OF assms update_session_frame(18)]) simp_all
  have "finance_inv (s1\<lparr>d_audit := v\<rparr>) = finance_inv s1" for s1 v by (rule finance_inv_cong) simp_all
  then show ?thesis using assms u
    by (auto simp: override_cashbox_def Let_def split: option.splits sum.splits dest!: audit_create_frame)
qed

lemma create_expense_inv:
  assumes "finance_inv s"
  shows "finance_inv (snd (create_expense dec now i r amount cur cat s))"
proof -
  have l: "determine_approval_level amount = ApprovalLevel.FINANCE" if "js_lt amount (js_int 100)"
    using that by (simp add: determine_approval_level_def js_le_def)
  have ok: "finance_inv (s\<lparr>d_expenses := insert_row x (d_expenses s)\<rparr>)"
    if "expense_row_ok s x" "ex_id x \<notin> ex_id ` set (d_expenses s)" for x
    using that assms expense_row_ok_cong[of "s\<lparr>d_expenses := insert_row x (d_expenses s)\<rparr>" s]
    by (auto simp: finance_inv_def)
  have en: "finance_inv (enqueue q n x s1) = finance_inv s1" for q n x s1
    by (rule finance_inv_cong) simp_all
  show ?thesis
    using assms l
    by (auto simp: create_expense_def Let_def en expense_row_ok_def intro!: ok)
qed

lemma approve_expense_inv:
  assumes inv: "finance_inv s"
  shows "finance_inv (snd (approve_expense now k approver d s))"
proof -
  have au: "finance_inv (s1\<lparr>d_audit := v\<rparr>) = finance_inv s1" for s1 v by (rule finance_inv_cong) simp_all
  have step: "finance_inv (update_expense k f s1)"
    if "find_row ex_id k (d_expenses s) = Some x" "d_expenses s1 = d_expenses s" "d_accounts s1 = d_accounts s"
      "d_sessions s1 = d_sessions s" "\<And>y. ex_id (f y) = ex_id y" "expense_row_ok s (f x)" for f x s1
    by (rule finance_inv_expense[OF inv that(1) _ _ _ that(5,6)]) (simp_all add: that)
  show ?thesis
    using inv
    by (auto simp: approve_expense_def Let_def expense_row_ok_def may_decide_def owner_account_def
        can_approve_level_def
        split: option.splits sum.splits decision.splits dest!: audit_create_frame intro!: step)
qed

lemma generate_qr_inv:
  assumes "finance_inv s"
  shows "finance_inv (snd (generate_payment_qr now t w u s))"
proof -
  have "finance_inv (set_redis r s) = finance_inv s" for r by (rule finance_inv_cong) simp_all
  moreover have "finance_inv (s1\<lparr>d_audit := v\<rparr>) = finance_inv s1" for s1 v by (rule finance_inv_cong) simp_all
  ultimately show ?thesis using assms
    by (auto simp: generate_payment_qr_def Let_def split: option.splits sum.splits dest!: audit_create_frame)
qed

lemma add_transaction_inv:
  assumes "finance_inv s"
  shows "finance_inv (snd (add_transaction dec now i k type a m w s))"
proof -
  have "finance_inv (s\<lparr>d_transactions := v\<rparr>) = finance_inv s" for v by (rule finance_inv_cong) simp_all
  then show ?thesis using assms by (auto simp: add_transaction_def Let_def split: option.splits)
qed

lemma confirm_payment_frame:
  "d_accounts (snd (confirm_payment_webhook dec now i t m r s)) = d_accounts s
   \<and> d_sessions (snd (confirm_payment_webhook dec now i t m r s)) = d_sessions s
   \<and> d_expenses (snd (confirm_payment_webhook dec now i t m r s)) = d_expenses s"
  by (auto simp: confirm_payment_webhook_def Let_def emit_payment_received_def
      split: option.splits redis_value.splits)

lemma confirm_payment_inv:
  "finance_inv s \<Longrightarrow> finance_inv (snd (confirm_payment_webhook dec now i t m r s))"
  using confirm_payment_frame[of dec now i t m r s] finance_inv_cong by metis

lemma finance_step_inv: "finance_inv s \<Longrightarrow> finance_inv (snd (finance_step dec q s))"
proof (cases q)
  case (Pair now r)
  assume "finance_inv s"
  then show ?thesis unfolding Pair
    by (cases r)
       (simp_all add: open_cashbox_inv close_session_inv override_cashbox_inv add_transaction_inv
         create_expense_inv approve_expense_inv generate_qr_inv confirm_payment_inv)
qed

interpretation finance: invariant_service "finance_step dec" finance_inv
  by unfold_locales (rule finance_step_inv)

section \<open>Properties of runs\<close>

lemma finance_inv_start: "d_sessions s = [] \<Longrightarrow> d_expenses s = [] \<Longrightarrow> finance_inv s"
  by (simp add: finance_inv_def count_where_def)

text \<open>
  C7. At every moment of any run of finance requests at most one cashbox session is open. And since no
  routed handler ever writes the status \<open>CLOSED\<close>, the history of closed sessions, which selects that
  status, is empty whatever sessions were closed.
\<close>

theorem one_open_session:
  assumes "d_sessions s = []" and "d_expenses s = []"
  shows "count_where (\<lambda>c. cs_status c = OPEN) (d_sessions (run_requests (finance_step dec) qs s)) \<le> 1
    \<and> get_cashbox_history limit cursor (run_requests (finance_step dec) qs s) = ([], None)"
proof -
  have inv: "finance_inv (run_requests (finance_step dec) qs s)"
    by (rule finance.run_inv) (rule finance_inv_start[OF assms])
  then have "filter (\<lambda>c. cs_status c = CLOSED) (d_sessions (run_requests (finance_step dec) qs s)) = []"
    by (simp add: finance_inv_def filter_empty_conv)
  then have "get_cashbox_history limit cursor (run_requests (finance_step dec) qs s) = ([], None)"
    by (simp add: get_cashbox_history_def Let_def split: option.splits)
  with inv show ?thesis by (simp add: finance_inv_def)
qed

definition one_account :: "UserRole \<Rightarrow> string \<Rightarrow> account_row" where
  "one_account role k = \<lparr>ac_id = k, ac_email = k, ac_password_hash = '''', ac_mfa_secret = None,
     ac_mfa_enabled = True, ac_role = role, ac_name = k, ac_status = ACTIVE, ac_last_login_at = None,
     ac_last_login_ip = None, ac_failed_attempts = 0, ac_locked_until = None, ac_created_at = 0, ac_deleted_at = None\<rparr>"

lemma one_account_simps [simp]: "ac_id (one_account role k) = k" "ac_role (one_account role k) = role"
  by (simp_all add: one_account_def)

definition owners_db :: db where
  "owners_db = empty_db\<lparr>d_accounts := [one_account UserRole.OWNER ''o1'', one_account UserRole.OWNER ''o2'',
     one_account UserRole.FINANCE ''f1'']\<rparr>"

theorem one_open_session_witness:
  "let s = run_requests (finance_step half_up)
             [(1, OpenCashbox ''c1'' ''f1'' (Fin 100)), (2, OpenCashbox ''c2'' ''f1'' (Fin 100))] owners_db
   in d_sessions s \<noteq> [] \<and> count_where (\<lambda>c. cs_status c = OPEN) (d_sessions s) \<le> 1
      \<and> get_cashbox_history None None s = ([], None)"
  using one_open_session[of owners_db half_up
      "[(1, OpenCashbox ''c1'' ''f1'' (Fin 100)), (2, OpenCashbox ''c2'' ''f1'' (Fin 100))]" None None]
  by (simp add: owners_db_def open_cashbox_def open_session_def account_exists_def insert_row_def Let_def)

text \<open>
  C10. Separation of duties over any run of finance requests: an expense that was paid out either fell
  into the automatic band (its own requester, level \<open>FINANCE\<close>) or was decided by another account whose
  role is entitled to the level; a rejected one was likewise decided by another, entitled account.
\<close>

theorem expense_decided_by_other:
  assumes "d_sessions s = []" and "d_expenses s = []"
    and "x \<in> set (d_expenses (run_requests (finance_step dec) qs s))"
    and "ex_status x \<in> {DISBURSED, ExpenseStatus.REJECTED}"
  shows "(ex_approver x = Some (ex_requester x) \<and> ex_level x = ApprovalLevel.FINANCE \<and> ex_status x = DISBURSED)
    \<or> (\<exists>a row. ex_approver x = Some a \<and> a \<noteq> ex_requester x
        \<and> find_row ac_id a (d_accounts (run_requests (finance_step dec) qs s)) = Some row
        \<and> ac_role row \<in> set (approval_roles (ex_level x)))"
proof -
  have "finance_inv (run_requests (finance_step dec) qs s)"
    by (rule finance.run_inv) (rule finance_inv_start[OF assms(1,2)])
  then have "expense_row_ok (run_requests (finance_step dec) qs s) x"
    using assms(3) by (simp add: finance_inv_def)
  with assms(4) show ?thesis
    by (auto simp: expense_row_ok_def may_decide_def can_approve_level_def)
qed

theorem expense_decided_by_other_witness:
  "\<exists>x \<in> set (d_expenses (run_requests (finance_step half_up)
       [(1, CreateExpense ''x1'' ''f1'' (Fin 150) None PARTS), (2, ApproveExpense ''x1'' ''o1'' Approved)] owners_db)).
     ex_status x = DISBURSED
     \<and> ((ex_approver x = Some (ex_requester x) \<and> ex_level x = ApprovalLevel.FINANCE \<and> ex_status x = DISBURSED)
        \<or> (\<exists>a row. ex_approver x = Some a \<and> a \<noteq> ex_requester x
            \<and> find_row ac_id a (d_accounts (run_requests (finance_step half_up)
                [(1, CreateExpense ''x1'' ''f1'' (Fin 150) None PARTS), (2, ApproveExpense ''x1'' ''o1'' Approved)] owners_db)) = Some row
            \<and> ac_role row \<in> set (approval_roles (ex_level x))))"
proof -
  let ?s = "run_requests (finance_step half_up)
       [(1, CreateExpense ''x1'' ''f1'' (Fin 150) None PARTS), (2, ApproveExpense ''x1'' ''o1'' Approved)] owners_db"
  have lvl: "determine_approval_level (Fin 150) = ApprovalLevel.ADMIN" "\<not> js_lt (Fin 150) (js_int 100)"
    by (simp_all add: determine_approval_level_def js_int_def)
  have acc: "account_exists ''f1'' owners_db" by (simp add: account_exists_def owners_db_def)
  obtain x where x: "x \<in> set (d_expenses ?s)" "ex_status x = DISBURSED"
    by (auto simp: create_expense_def Let_def lvl acc approve_expense_def can_approve_level_def
        insert_row_def update_row_def owners_db_def account_exists_def)
  then show ?thesis using expense_decided_by_other[OF _ _ x(1)] by (auto simp: owners_db_def)
qed

text \<open>
  C9. Two owners for the largest expenses: when, after any run, an approval pays out an expense of level
  \<open>DUAL_OWNER\<close>, a first approval by a different account is on record, both approvers are owners and
  neither requested the expense. A first approval leaves the expense pending.
\<close>

theorem dual_approval:
  assumes "d_sessions s0 = []" and "d_expenses s0 = []" and s: "s = run_requests (finance_step dec) qs s0"
    and x: "find_row ex_id k (d_expenses s) = Some x" "ex_level x = DUAL_OWNER"
    and d: "fst (approve_expense now k approver Approved s) = Inr res"
  shows "case res of
      PartialApproval y \<Rightarrow> ex_status y = ExpenseStatus.PENDING_APPROVAL \<and> ex_approver y = Some approver
        \<and> owner_account approver s \<and> approver \<noteq> ex_requester x
    | Decided y \<Rightarrow> ex_status y = DISBURSED \<and>
        (\<exists>first. ex_approver x = Some first \<and> first \<noteq> approver \<and> first \<noteq> ex_requester x
          \<and> approver \<noteq> ex_requester x \<and> owner_account first s \<and> owner_account approver s)"
proof -
  have "finance_inv s" unfolding s
    by (rule finance.run_inv) (rule finance_inv_start[OF assms(1,2)])
  then have ok: "expense_row_ok s x" using x by (auto simp: finance_inv_def dest: find_row_SomeD)
  show ?thesis using d x ok
    by (auto simp: approve_expense_def Let_def can_approve_level_def owner_account_def expense_row_ok_def
        split: if_splits option.splits sum.splits)
qed

theorem dual_approval_witness:
  "let s = run_requests (finance_step half_up)
             [(1, CreateExpense ''x1'' ''f1'' (Fin 3000) None PARTS), (2, ApproveExpense ''x1'' ''o1'' Approved)] owners_db
   in (\<exists>y. fst (approve_expense 3 ''x1'' ''o2'' Approved s) = Inr (Decided y) \<and> ex_status y = DISBURSED)
      \<and> fst (approve_expense 3 ''x1'' ''o1'' Approved s) = Inl (Conflict ''Ya registraste la primera aprobacion de este gasto.'')"
proof -
  let ?s = "run_requests (finance_step half_up)
             [(1, CreateExpense ''x1'' ''f1'' (Fin 3000) None PARTS), (2, ApproveExpense ''x1'' ''o1'' Approved)] owners_db"
  have lvl: "determine_approval_level (Fin 3000) = DUAL_OWNER" "\<not> js_lt (Fin 3000) (js_int 100)"
    by (simp_all add: determine_approval_level_def js_int_def)
  have acc: "account_exists ''f1'' owners_db" by (simp add: account_exists_def owners_db_def)
  note defs = create_expense_def Let_def lvl acc approve_expense_def can_approve_level_def
        insert_row_def update_row_def owners_db_def account_exists_def audit_create_def
  obtain x where x: "find_row ex_id ''x1'' (d_expenses ?s) = Some x" "ex_level x = DUAL_OWNER"
    by (simp add: defs)
  obtain y where y: "fst (approve_expense 3 ''x1'' ''o2'' Approved ?s) = Inr (Decided y)"
    by (simp add: defs)
  have "fst (approve_expense 3 ''x1'' ''o1'' Approved ?s) = Inl (Conflict ''Ya registraste la primera aprobacion de este gasto.'')"
    by (simp add: defs)
  then show ?thesis
    using dual_approval[OF _ _ refl x y] y by (simp add: Let_def owners_db_def)
qed

lemma processed_key_inj [simp]: "processed_key t = processed_key u \<longleftrightarrow> t = u"
  by (simp add: processed_key_def)

lemma keys_differ [simp]: "processed_key t \<noteq> qr_key u" "qr_key u \<noteq> processed_key t"
  by (simp_all add: processed_key_def qr_key_def)

lemma map_of_redis_set: "map_of (redis_set now k v ttl r) k' = (if k = k' then Some (v, now + ttl * 1000) else map_of r k')"
  by (simp add: redis_set_def map_of_redis_del)

lemma redis_get_live: "map_of r k = Some (v, e) \<Longrightarrow> now < e \<Longrightarrow> redis_get now k r = Some v"
  by (simp add: redis_get_def)

lemma redis_frames:
  "d_redis (snd (open_cashbox dec now i u b s)) = d_redis s"
  "d_redis (snd (override_cashbox now u ok k reason s)) = d_redis s"
  "d_redis (snd (add_transaction dec now i k type a m w s)) = d_redis s"
  "d_redis (snd (create_expense dec now i u a cur cat s)) = d_redis s"
  by (auto simp: open_cashbox_def override_cashbox_def add_transaction_def create_expense_def Let_def
      split: option.splits sum.splits dest!: audit_create_frame)

lemma redis_frame_close: "d_redis (snd (close_cashbox_session dec now u a j s)) = d_redis s"
  by (auto simp: close_cashbox_session_def Let_def emit_anomaly_detected_def emit_cashbox_closed_def
      split: option.splits sum.splits dest!: audit_create_frame)

lemma redis_frame_approve: "d_redis (snd (approve_expense now k u d s)) = d_redis s"
  by (auto simp: approve_expense_def Let_def
      split: option.splits sum.splits decision.splits dest!: audit_create_frame)

lemma generate_qr_redis:
  "map_of (d_redis (snd (generate_payment_qr now q w u s))) (processed_key t) = map_of (d_redis s) (processed_key t)"
  by (auto simp: generate_payment_qr_def Let_def map_of_redis_set
      split: option.splits sum.splits dest!: audit_create_frame)

lemma finance_step_processed:
  assumes "map_of (d_redis s) (processed_key t) = Some (v, e)" and "now < e"
  shows "map_of (d_redis (snd (finance_step dec (now, q) s))) (processed_key t) = Some (v, e)"
proof (cases q)
  case (ConfirmPayment new_id u m r)
  then show ?thesis using assms redis_get_live[OF assms]
    by (auto simp: confirm_payment_webhook_def Let_def emit_payment_received_def map_of_redis_set map_of_redis_del
        split: option.splits redis_value.splits)
qed (simp_all add: assms redis_frames redis_frame_close redis_frame_approve generate_qr_redis)

lemma finance_run_processed:
  assumes "map_of (d_redis s) (processed_key t) = Some (v, e)" and "\<forall>q \<in> set qs. fst q < e"
  shows "map_of (d_redis (run_requests (finance_step dec) qs s)) (processed_key t) = Some (v, e)"
  using assms
proof (induction qs arbitrary: s)
  case Nil
  then show ?case by simp
next
  case (Cons q qs)
  then show ?case using finance_step_processed[OF Cons.prems(1), of "fst q" dec "snd q"] by (cases q) auto
qed

text \<open>
  C11. A payment code is settled once: after a confirmation has recorded a payment, any other finance
  requests of the following day and then another confirmation of the same code record nothing more; it is
  answered as already processed and changes nothing.
\<close>

theorem payment_confirmed_once:
  assumes "confirm_payment_webhook dec now i t m r s = (Inr (Confirmed p), s1)"
    and "\<forall>q \<in> set qs. fst q < now + 86400 * 1000" and "later < now + 86400 * 1000"
  shows "confirm_payment_webhook dec later i' t m' r' (run_requests (finance_step dec) qs s1)
    = (Inr AlreadyProcessed, run_requests (finance_step dec) qs s1)"
proof -
  have "map_of (d_redis s1) (processed_key t) = Some (RText ''processed'', now + 86400 * 1000)"
    using assms(1)
    by (auto simp: confirm_payment_webhook_def Let_def emit_payment_received_def map_of_redis_set map_of_redis_del
        split: if_splits option.splits redis_value.splits)
  from finance_run_processed[OF this assms(2)]
  have "redis_get later (processed_key t) (d_redis (run_requests (finance_step dec) qs s1)) = Some (RText ''processed'')"
    using assms(3) by (intro redis_get_live)
  then show ?thesis by (simp add: confirm_payment_webhook_def)
qed

definition qr_db :: db where
  "qr_db = owners_db
     \<lparr>d_orders := [\<lparr>wo_id = ''w1'', wo_number = ''OT-2026-0001'', wo_vehicle = ''v'', wo_client = ''c'',
        wo_mechanic = None, wo_status = READY, wo_description = '''', wo_diagnosis = None,
        wo_odometer_in = None, wo_odometer_out = None, wo_labor = Some 5000, wo_parts = None,
        wo_total = Some 5000, wo_discount = 0, wo_final = 5000, wo_received_at = 0, wo_estimated = None,
        wo_started_at = None, wo_completed_at = None, wo_delivered_at = None,
        wo_payment_status = InvoiceStatus.DRAFT, wo_notes = None, wo_photos = [], wo_created_by = ''u''\<rparr>],
      d_redis := [(''qr:payment:q1'', RQr ''w1'' (Fin 50), 420000)]\<rparr>"

theorem payment_confirmed_once_witness:
  "\<exists>p s1. confirm_payment_webhook half_up 1000 ''p1'' ''q1'' ''YAPE'' None qr_db = (Inr (Confirmed p), s1)
     \<and> confirm_payment_webhook half_up 2000 ''p2'' ''q1'' ''YAPE'' None (run_requests (finance_step half_up) [] s1)
         = (Inr AlreadyProcessed, run_requests (finance_step half_up) [] s1)"
proof -
  obtain p s1 where "confirm_payment_webhook half_up 1000 ''p1'' ''q1'' ''YAPE'' None qr_db = (Inr (Confirmed p), s1)"
    by (simp add: confirm_payment_webhook_def qr_db_def owners_db_def redis_get_def qr_key_def processed_key_def Let_def
        payment_method_of_def)
  from this payment_confirmed_once[OF this, of "[]" 2000] show ?thesis by auto
qed

text \<open>
  A signed confirmation that names no method: the controller supplies a method the schema does not
  have, so no payment is recorded, the request fails inside the database client, and the code is used up:
  a later confirmation with a valid method is answered as already processed.
\<close>

theorem webhook_without_method_burns_code:
  assumes "secret = Some k" "k \<noteq> []" "t \<noteq> []" "\<not> nonempty m"
    and "redis_get now (qr_key t) (d_redis s) = Some (RQr w a)"
    and "redis_get now (processed_key t) (d_redis s) = None"
    and "payment_webhook hmac secret dec now i (Some (JStr (hmac k t))) t m r s = (answer, s1)"
    and "later < now + 86400 * 1000"
  shows "answer = Inl (DbError ''Invalid value for argument method'') \<and> d_payments s1 = d_payments s
    \<and> payment_webhook hmac secret dec later i' (Some (JStr (hmac k t))) t (Some ''YAPE'') r s1
        = (Inr AlreadyProcessed, s1)"
proof -
  have g: "payment_webhook_guard hmac secret (Some (JStr (hmac k t))) (Some (JStr t)) = Inr ()"
    using assms(1-3) by (simp add: payment_webhook_guard_def nonempty_def safe_equal_def)
  have s1: "answer = Inl (DbError ''Invalid value for argument method'')"
    "s1 = set_redis (redis_set now (processed_key t) (RText ''processed'') 86400 (d_redis s)) s"
    using assms(4-7) by (auto simp: payment_webhook_def g assms(3) confirm_payment_webhook_def Let_def payment_method_of_def)
  have "redis_get later (processed_key t) (d_redis s1) = Some (RText ''processed'')"
    using assms(8) by (simp add: s1(2) redis_get_set)
  then show ?thesis
    by (simp add: s1 payment_webhook_def g assms(3) confirm_payment_webhook_def nonempty_def)
qed

theorem webhook_without_method_burns_code_witness:
  "\<exists>s1. payment_webhook (\<lambda>k t. k @ t) (Some ''k'') half_up 1000 ''p1'' (Some (JStr ''kq1'')) ''q1'' None None qr_db
       = (Inl (DbError ''Invalid value for argument method''), s1)
     \<and> payment_webhook (\<lambda>k t. k @ t) (Some ''k'') half_up 2000 ''p2'' (Some (JStr ''kq1'')) ''q1'' (Some ''YAPE'') None s1
       = (Inr AlreadyProcessed, s1)"
proof -
  obtain answer s1 where r: "payment_webhook (\<lambda>k t. k @ t) (Some ''k'') half_up 1000 ''p1'' (Some (JStr (''k'' @ ''q1''))) ''q1'' None None qr_db = (answer, s1)"
    by force
  have q: "redis_get 1000 (qr_key ''q1'') (d_redis qr_db) = Some (RQr ''w1'' (Fin 50))"
    "redis_get 1000 (processed_key ''q1'') (d_redis qr_db) = None"
    by (simp_all add: qr_db_def redis_get_def qr_key_def processed_key_def)
  show ?thesis
    using webhook_without_method_burns_code[OF refl _ _ _ q r, of 2000 "''p2''"] r by (auto simp: nonempty_def)
qed

section \<open>Cash flow\<close>

lemma map_of_add_to_method:
  "map_of (add_to_method p a m) q =
     (if q = p then (case map_of m p of None \<Rightarrow> Some (1, js_add (Fin 0) a) | Some (n, t) \<Rightarrow> Some (n + 1, js_add t a))
      else map_of m q)"
  by (induction m) (auto split: option.splits)

lemma totals_by_method_snoc:
  "totals_by_method (ts @ [t]) = add_to_method (tx_method t) (cents (tx_amount t)) (totals_by_method ts)"
  by (simp add: totals_by_method_def)

text \<open>
  The loop of the cash-flow report groups exactly: for every payment method the object has an entry
  just when a transaction of the method is in the range, with the number of those transactions and the
  sum of their amounts in their order.
\<close>

theorem cashflow_groups:
  "map_of (totals_by_method ts) p =
     (let mine = filter (\<lambda>t. tx_method t = p) ts
      in if mine = [] then None else Some (length mine, js_sum (map (\<lambda>t. cents (tx_amount t)) mine)))"
proof (induction ts rule: rev_induct)
  case Nil
  then show ?case by (simp add: totals_by_method_def)
next
  case (snoc t ts)
  then show ?case
    by (auto simp: totals_by_method_snoc map_of_add_to_method Let_def js_sum_def)
qed

end
