(* ===== verification/InventoryService.thy ===== *)
theory InventoryService
  imports Gateway DomainFinance Samples
begin

text \<open>
  \<open>InventoryService\<close> (\<open>inventory.service.ts\<close>): the catalogue with its cache in Redis, stock movements and
  reservations for a work order. Quantities are whole numbers (the columns are), prices are doubles.
  The lemmas show that the stock never goes below zero, that the cached copy of an item is the row of the
  database, and that every movement accounts for the change of stock it makes.
\<close>

section \<open>The cache\<close>

definition item_key :: "string \<Rightarrow> string" where
  "item_key i = ''inventory:item:'' @ i"

definition valuation_key :: string where
  "valuation_key = ''inventory:valuation''"

definition critical_key :: string where
  "critical_key = ''inventory:critical''"

definition invalidate_catalog :: "redis \<Rightarrow> redis" where
  "invalidate_catalog r = redis_del_prefix ''inventory:catalog:'' r"

definition invalidate_lowstock :: "redis \<Rightarrow> redis" where
  "invalidate_lowstock r = redis_del_prefix ''inventory:lowstock:'' r"

definition or_default :: "string \<Rightarrow> string option \<Rightarrow> string" where
  "or_default d x = (case x of Some v \<Rightarrow> v | None \<Rightarrow> d)"

definition page_key :: "string option \<Rightarrow> string option \<Rightarrow> nat \<Rightarrow> nat \<Rightarrow> string" where
  "page_key category search page n =
     ''inventory:catalog:offset:'' @ or_default ''all'' category @ '':'' @ or_default ''none'' search @ '':''
     @ digits_of page @ '':'' @ digits_of n"

definition catalog_key :: "string option \<Rightarrow> string option \<Rightarrow> nat \<Rightarrow> string option \<Rightarrow> string" where
  "catalog_key category search limit cursor =
     ''inventory:catalog:'' @ or_default ''all'' category @ '':'' @ or_default ''none'' search @ '':''
     @ digits_of limit @ '':'' @ or_default ''start'' cursor"

definition lowstock_key :: "string option \<Rightarrow> nat \<Rightarrow> string option \<Rightarrow> string" where
  "lowstock_key category limit cursor =
     ''inventory:lowstock:'' @ or_default ''all'' category @ '':'' @ digits_of limit @ '':'' @ or_default ''start'' cursor"

section \<open>Reading\<close>

definition catalog_rows :: "string option \<Rightarrow> string option \<Rightarrow> db \<Rightarrow> item_row list" where
  "catalog_rows category search s =
     sort_key (\<lambda>i. - it_created_at i)
       (filter (\<lambda>i. (nonempty category \<longrightarrow> it_category i = category)
                  \<and> (nonempty search \<longrightarrow>
                      contains_insensitive (the search) (it_name i) \<or> contains_insensitive (the search) (it_sku i)))
         (d_items s))"

definition low_stock_rows :: "string option \<Rightarrow> db \<Rightarrow> item_row list" where
  "low_stock_rows category s =
     sort_key it_stock
       (filter (\<lambda>i. it_stock i \<le> it_min_stock i \<and> (nonempty category \<longrightarrow> it_category i = category)) (d_items s))"

datatype catalog_result =
    Listing "item_row list" "string option" bool
  | Paged "item_row list" nat nat nat

definition find_all_low_stock :: "int \<Rightarrow> string option \<Rightarrow> nat \<Rightarrow> string option \<Rightarrow> db \<Rightarrow> catalog_result answer" where
  "find_all_low_stock now category limit cursor s =
     (case redis_get now (lowstock_key category limit cursor) (d_redis s) of
        Some (RPage data next hm) \<Rightarrow> (Inr (Listing data next hm), s)
      | _ \<Rightarrow>
          (case cursor_page it_id limit cursor (low_stock_rows category s) of (data, next, hm) \<Rightarrow>
             (Inr (Listing data next hm),
              set_redis (redis_set now (lowstock_key category limit cursor) (RPage data next hm) 120 (d_redis s)) s)))"

text \<open>\<open>findAll\<close> has two modes: by page number (the admin panel) and by cursor.\<close>

definition find_all_by_page ::
    "int \<Rightarrow> string option \<Rightarrow> string option \<Rightarrow> nat \<Rightarrow> nat \<Rightarrow> db \<Rightarrow> catalog_result answer" where
  "find_all_by_page now category search current n s =
     (case redis_get now (page_key category search current n) (d_redis s) of
        Some (RPaged data cnt p m) \<Rightarrow> (Inr (Paged data cnt p m), s)
      | _ \<Rightarrow>
          (let rows = catalog_rows category search s;
               data = take n (drop ((current - 1) * n) rows)
           in (Inr (Paged data (length rows) current n),
               set_redis (redis_set now (page_key category search current n)
                 (RPaged data (length rows) current n) 120 (d_redis s)) s)))"

definition find_all_by_cursor ::
    "int \<Rightarrow> string option \<Rightarrow> nat \<Rightarrow> string option \<Rightarrow> string option \<Rightarrow> db \<Rightarrow> catalog_result answer" where
  "find_all_by_cursor now category limit cursor search s =
     (case redis_get now (catalog_key category search limit cursor) (d_redis s) of
        Some (RPage data next hm) \<Rightarrow> (Inr (Listing data next hm), s)
      | _ \<Rightarrow>
          (case cursor_page it_id limit cursor (catalog_rows category search s) of (data, next, hm) \<Rightarrow>
             (Inr (Listing data next hm),
              set_redis (redis_set now (catalog_key category search limit cursor) (RPage data next hm) 120 (d_redis s)) s)))"

definition find_all_items ::
    "int \<Rightarrow> string option \<Rightarrow> bool \<Rightarrow> nat \<Rightarrow> string option \<Rightarrow> string option \<Rightarrow> nat option \<Rightarrow> nat option
      \<Rightarrow> db \<Rightarrow> catalog_result answer" where
  "find_all_items now category low_stock limit cursor search page page_size s =
     (if low_stock then find_all_low_stock now category limit cursor s
      else if page \<noteq> None \<or> page_size \<noteq> None then
        find_all_by_page now category search (case page of Some k \<Rightarrow> k | None \<Rightarrow> 1)
          (min (case page_size of Some k \<Rightarrow> k | None \<Rightarrow> 10) 100) s
      else find_all_by_cursor now category limit cursor search s)"

definition find_one_item :: "int \<Rightarrow> string \<Rightarrow> db \<Rightarrow> item_row answer" where
  "find_one_item now k s =
     (case redis_get now (item_key k) (d_redis s) of
        Some (RItem i) \<Rightarrow> (Inr i, s)
      | _ \<Rightarrow>
          (case find_row it_id k (d_items s) of
             None \<Rightarrow> (Inl (NotFound ''Item de inventario no encontrado''), s)
           | Some i \<Rightarrow> (Inr i, set_redis (redis_set now (item_key k) (RItem i) 300 (d_redis s)) s)))"

definition get_movements ::
    "int \<Rightarrow> string \<Rightarrow> nat \<Rightarrow> string option \<Rightarrow> db \<Rightarrow> (movement_row list \<times> string option \<times> bool) answer" where
  "get_movements now k limit cursor s =
     (case find_one_item now k s of
        (Inl e, s1) \<Rightarrow> (Inl e, s1)
      | (Inr _, s1) \<Rightarrow>
          (Inr (cursor_page mv_id limit cursor
             (sort_key (\<lambda>m. - mv_at m) (filter (\<lambda>m. mv_item m = k) (d_movements s1)))), s1))"

definition get_all_movements ::
    "string option \<Rightarrow> MovementType option \<Rightarrow> nat \<Rightarrow> string option \<Rightarrow> db \<Rightarrow> movement_row list \<times> string option \<times> bool" where
  "get_all_movements k type limit cursor s =
     cursor_page mv_id limit cursor (sort_key (\<lambda>m. - mv_at m)
       (filter (\<lambda>m. (nonempty k \<longrightarrow> Some (mv_item m) = k) \<and> (case type of Some t \<Rightarrow> mv_type m = t | None \<Rightarrow> True))
         (d_movements s)))"

definition get_critical_stock :: "int \<Rightarrow> db \<Rightarrow> item_row list answer" where
  "get_critical_stock now s =
     (case redis_get now critical_key (d_redis s) of
        Some (RItems rows) \<Rightarrow> (Inr rows, s)
      | _ \<Rightarrow>
          (let rows = sort_key it_stock (filter (\<lambda>i. it_stock i \<le> it_min_stock i) (d_items s))
           in (Inr rows, set_redis (redis_set now critical_key (RItems rows) 60 (d_redis s)) s)))"

definition stock_value :: "(item_row \<Rightarrow> int) \<Rightarrow> item_row list \<Rightarrow> number" where
  "stock_value price rows =
     foldl (\<lambda>sum i. js_add sum (js_mul (cents (price i)) (js_int (it_stock i)))) (Fin 0) rows"

definition get_valuation :: "int \<Rightarrow> db \<Rightarrow> valuation answer" where
  "get_valuation now s =
     (case redis_get now valuation_key (d_redis s) of
        Some (RValuation v) \<Rightarrow> (Inr v, s)
      | _ \<Rightarrow>
          (let rows = filter it_active (d_items s);
               v = \<lparr>va_total_items = int (length rows), va_cost = stock_value it_cost rows,
                    va_sale = stock_value it_price rows,
                    va_low_stock = int (count_where (\<lambda>i. it_stock i \<le> it_min_stock i) rows)\<rparr>
           in (Inr v, set_redis (redis_set now valuation_key (RValuation v) 120 (d_redis s)) s)))"

section \<open>Writing\<close>

definition find_category :: "string \<Rightarrow> db \<Rightarrow> string option" where
  "find_category c s =
     (case List.find (\<lambda>p. fst p = c) (d_categories s) of
        Some p \<Rightarrow> Some (fst p)
      | None \<Rightarrow> map_option fst (List.find (\<lambda>p. snd p = c) (d_categories s)))"

text \<open>
  \<open>create\<close>: the category is resolved by id, then by name, and created when there is none. The database
  errors of the insert are answered as a conflict or a bad request.
\<close>

definition create_item ::
    "(number \<Rightarrow> int) \<Rightarrow> int \<Rightarrow> string \<Rightarrow> string \<Rightarrow> string \<Rightarrow> string \<Rightarrow> string \<Rightarrow> int \<Rightarrow> int \<Rightarrow> number \<Rightarrow> db \<Rightarrow> item_row answer" where
  "create_item dec now new_id new_category sku name category stock min_stock price s =
     (if List.find (\<lambda>i. it_sku i = sku) (d_items s) \<noteq> None then (Inl (Conflict ''Ya existe un item con ese SKU''), s)
      else
        let (cat, s1) =
              (if category = [] then (None, s)
               else case find_category category s of
                      Some c \<Rightarrow> (Some c, s)
                    | None \<Rightarrow> (Some new_category, s\<lparr>d_categories := d_categories s @ [(new_category, category)]\<rparr>))
        in if new_id \<in> it_id ` set (d_items s1) then (Inl (Conflict ''El SKU ya se encuentra registrado''), s1)
           else
             let i = \<lparr>it_id = new_id, it_sku = sku, it_name = name, it_category = cat, it_cost = 0,
                      it_price = dec price, it_stock = stock, it_min_stock = min_stock, it_imported = False,
                      it_customs = None, it_active = True, it_created_at = now\<rparr>;
                 s2 = s1\<lparr>d_items := insert_row i (d_items s1)\<rparr>
             in (Inr i, set_redis (invalidate_catalog (d_redis s2)) s2))"

record item_update =
  up_sku :: "string option"
  up_name :: "string option"
  up_category :: "string option"
  up_stock :: "int option"
  up_min_stock :: "int option"
  up_price :: "number option"

definition apply_update :: "(number \<Rightarrow> int) \<Rightarrow> item_update \<Rightarrow> item_row \<Rightarrow> item_row" where
  "apply_update dec u i =
     i\<lparr>it_sku := or_default (it_sku i) (up_sku u), it_name := or_default (it_name i) (up_name u),
       it_category := (case up_category u of Some c \<Rightarrow> Some c | None \<Rightarrow> it_category i),
       it_stock := (case up_stock u of Some n \<Rightarrow> n | None \<Rightarrow> it_stock i),
       it_min_stock := (case up_min_stock u of Some n \<Rightarrow> n | None \<Rightarrow> it_min_stock i),
       it_price := (case up_price u of Some p \<Rightarrow> dec p | None \<Rightarrow> it_price i)\<rparr>"

definition sku_of_other :: "string \<Rightarrow> string \<Rightarrow> db \<Rightarrow> bool" where
  "sku_of_other sku k s \<longleftrightarrow> List.find (\<lambda>i. it_sku i = sku \<and> it_id i \<noteq> k) (d_items s) \<noteq> None"

definition sku_taken :: "item_update \<Rightarrow> string \<Rightarrow> db \<Rightarrow> bool" where
  "sku_taken u k s \<longleftrightarrow> nonempty (up_sku u) \<and> sku_of_other (the (up_sku u)) k s"

text \<open>The constraints of the table: the foreign key of the category and the unique \<open>sku\<close>.\<close>

definition update_violation :: "item_update \<Rightarrow> string \<Rightarrow> db \<Rightarrow> string option" where
  "update_violation u k s =
     (if up_category u \<noteq> None \<and> the (up_category u) \<notin> fst ` set (d_categories s) then Some ''P2003''
      else if up_sku u \<noteq> None \<and> sku_of_other (the (up_sku u)) k s then Some ''P2002''
      else None)"

text \<open>\<open>update\<close>: the category is written as it came, so it has to be the id of one.\<close>

definition update_item_request :: "(number \<Rightarrow> int) \<Rightarrow> int \<Rightarrow> string \<Rightarrow> item_update \<Rightarrow> db \<Rightarrow> item_row answer" where
  "update_item_request dec now k u s =
     (case find_one_item now k s of
        (Inl e, s1) \<Rightarrow> (Inl e, s1)
      | (Inr _, s1) \<Rightarrow>
          if sku_taken u k s1 then (Inl (Conflict ''Ya existe otro item con ese SKU''), s1)
          else case find_row it_id k (d_items s1) of
            None \<Rightarrow> (Inl (DbError ''P2025''), s1)
          | Some i \<Rightarrow>
              case update_violation u k s1 of
                Some code \<Rightarrow> (Inl (DbError code), s1)
              | None \<Rightarrow>
                  let s2 = update_item k (apply_update dec u) s1
                  in (Inr (apply_update dec u i),
                      set_redis (invalidate_catalog (redis_del (item_key k) (d_redis s2))) s2))"

text \<open>\<open>addMovement\<close>: the stock is read from the cached copy when there is one.\<close>

definition add_movement ::
    "int \<Rightarrow> string \<Rightarrow> string \<Rightarrow> string \<Rightarrow> MovementType \<Rightarrow> int \<Rightarrow> string option \<Rightarrow> string option \<Rightarrow> db
      \<Rightarrow> movement_row answer" where
  "add_movement now new_id user k type quantity order justification s =
     (if type = OUT \<and> \<not> nonempty order
      then (Inl (Conflict ''El ID de la orden de trabajo es requerido para movimientos de salida''), s)
      else if type = MovementType.ADJUSTMENT \<and> \<not> nonempty justification
      then (Inl (Conflict ''La justificacion es requerida para ajustes de inventario''), s)
      else case find_one_item now k s of
        (Inl e, s1) \<Rightarrow> (Inl e, s1)
      | (Inr i, s1) \<Rightarrow>
          if type = OUT \<and> it_stock i < quantity then (Inl (Conflict ''Stock insuficiente''), s1)
          else
            let new_stock = (case type of IN \<Rightarrow> it_stock i + quantity | OUT \<Rightarrow> it_stock i - quantity
                             | MovementType.ADJUSTMENT \<Rightarrow> quantity);
                m = \<lparr>mv_id = new_id, mv_item = k, mv_type = type, mv_quantity = quantity, mv_order = order, mv_by = user,
                     mv_justification = justification, mv_unit_cost = Some (it_price i), mv_at = now\<rparr>
            in if find_row it_id k (d_items s1) = None then (Inl (DbError ''P2003''), s1)
               else
                 let s2 = update_item k (\<lambda>r. r\<lparr>it_stock := new_stock\<rparr>)
                            (s1\<lparr>d_movements := insert_row m (d_movements s1)\<rparr>);
                     r2 = redis_del valuation_key (invalidate_lowstock (invalidate_catalog
                            (redis_del (item_key k) (d_redis s2))))
                 in (Inr m, set_redis r2 s2))"

text \<open>
  \<open>reserveForOrder\<close>. The body of this route is declared inline, so its quantity is not validated: any
  whole number arrives here.
\<close>

definition reserve_for_order :: "int \<Rightarrow> string \<Rightarrow> string \<Rightarrow> int \<Rightarrow> string \<Rightarrow> string \<Rightarrow> db \<Rightarrow> int answer" where
  "reserve_for_order now new_id k quantity order user s =
     (if order = [] then (Inl (Unprocessable ''INVENTORY_NO_ACTIVE_ORDER''), s)
      else case find_row wo_id order (d_orders s) of
        None \<Rightarrow> (Inl (NotFound ''OT no encontrada''), s)
      | Some w \<Rightarrow>
          if wo_status w \<noteq> IN_PROGRESS then (Inl (Unprocessable ''INVENTORY_NO_ACTIVE_ORDER''), s)
          else
            case transaction
                   (\<lambda>s1. case find_row it_id k (d_items s1) of
                      None \<Rightarrow> (Inl (NotFound ''Item no encontrado''), s1)
                    | Some i \<Rightarrow>
                        if it_stock i < quantity then (Inl (BadRequest ''Stock insuficiente''), s1)
                        else
                          let m = \<lparr>mv_id = new_id, mv_item = k, mv_type = OUT, mv_quantity = quantity, mv_order = Some order,
                                   mv_by = user, mv_justification = Some (''Reservado para orden '' @ order),
                                   mv_unit_cost = None, mv_at = now\<rparr>;
                              s2 = update_item k (\<lambda>r. r\<lparr>it_stock := it_stock r - quantity\<rparr>) s1;
                              s3 = s2\<lparr>d_movements := insert_row m (d_movements s2)\<rparr>
                          in (Inr (case find_row it_id k (d_items s3) of Some r \<Rightarrow> it_stock r | None \<Rightarrow> 0), s3)) s of
              (Inl e, s1) \<Rightarrow> (Inl e, s1)
            | (Inr remaining, s1) \<Rightarrow>
                (Inr remaining,
                 set_redis (redis_del valuation_key (redis_del critical_key (invalidate_lowstock
                   (invalidate_catalog (redis_del (item_key k) (d_redis s1)))))) s1))"

section \<open>The requests and what they keep\<close>

datatype inventory_request =
    ListItems "string option" bool nat "string option" "string option" "nat option" "nat option"
  | GetItem string
  | ItemMovements string nat "string option"
  | CriticalStock
  | Valuation
  | CreateItem string string string string string int int number
  | UpdateItem string item_update
  | AddMovement string string string MovementType int "string option" "string option"
  | Reserve string string int string string

definition valid_update :: "item_update \<Rightarrow> bool" where
  "valid_update u \<longleftrightarrow>
     (case up_stock u of Some n \<Rightarrow> 0 \<le> n | None \<Rightarrow> True) \<and> (case up_min_stock u of Some n \<Rightarrow> 1 \<le> n | None \<Rightarrow> True)
     \<and> (case up_price u of Some p \<Rightarrow> js_le (cents 1) p | None \<Rightarrow> True)"

text \<open>The bodies with a DTO are validated first (\<open>@Min\<close>); that of \<open>reserve\<close> is not.\<close>

fun inventory_step :: "(number \<Rightarrow> int) \<Rightarrow> int \<times> inventory_request \<Rightarrow> db \<Rightarrow> unit answer" where
  "inventory_step dec (now, ListItems category low limit cursor search page n) s =
     drop_answer (find_all_items now category low limit cursor search page n s)"
| "inventory_step dec (now, GetItem k) s = drop_answer (find_one_item now k s)"
| "inventory_step dec (now, ItemMovements k limit cursor) s = drop_answer (get_movements now k limit cursor s)"
| "inventory_step dec (now, CriticalStock) s = drop_answer (get_critical_stock now s)"
| "inventory_step dec (now, Valuation) s = drop_answer (get_valuation now s)"
| "inventory_step dec (now, CreateItem new_id new_category sku name category stock min_stock price) s =
     (if stock < 0 \<or> min_stock < 1 \<or> \<not> js_le (cents 1) price then (Inl (BadRequest ''validation''), s)
      else drop_answer (create_item dec now new_id new_category sku name category stock min_stock price s))"
| "inventory_step dec (now, UpdateItem k u) s =
     (if \<not> valid_update u then (Inl (BadRequest ''validation''), s)
      else drop_answer (update_item_request dec now k u s))"
| "inventory_step dec (now, AddMovement new_id user k type quantity order justification) s =
     (if quantity < 1 then (Inl (BadRequest ''validation''), s)
      else drop_answer (add_movement now new_id user k type quantity order justification s))"
| "inventory_step dec (now, Reserve new_id k quantity order user) s =
     drop_answer (reserve_for_order now new_id k quantity order user s)"

definition coherent_with :: "item_row list \<Rightarrow> redis \<Rightarrow> bool" where
  "coherent_with rows r \<longleftrightarrow>
     (\<forall>k i e. map_of r (item_key k) = Some (RItem i, e) \<longrightarrow> find_row it_id k rows = Some i)"

definition cache_coherent :: "db \<Rightarrow> bool" where
  "cache_coherent s \<longleftrightarrow> coherent_with (d_items s) (d_redis s)"

definition inventory_inv :: "db \<Rightarrow> bool" where
  "inventory_inv s \<longleftrightarrow>
     (\<forall>i \<in> set (d_items s). 0 \<le> it_stock i)
     \<and> distinct (map it_id (d_items s)) \<and> distinct (map it_sku (d_items s))
     \<and> cache_coherent s"

lemma coherent_get:
  "coherent_with rows r \<Longrightarrow> redis_get now (item_key k) r = Some (RItem i) \<Longrightarrow> find_row it_id k rows = Some i"
  by (auto simp: coherent_with_def redis_get_def split: option.splits if_splits)

lemma coherent_del [simp, intro]: "coherent_with rows r \<Longrightarrow> coherent_with rows (redis_del x r)"
  by (auto simp: coherent_with_def map_of_redis_del)

lemma coherent_del_prefix [simp, intro]: "coherent_with rows r \<Longrightarrow> coherent_with rows (redis_del_prefix p r)"
  by (auto simp: coherent_with_def map_of_del_prefix)

lemma coherent_invalidate [simp, intro]:
  "coherent_with rows r \<Longrightarrow> coherent_with rows (invalidate_catalog r)"
  "coherent_with rows r \<Longrightarrow> coherent_with rows (invalidate_lowstock r)"
  by (simp_all add: invalidate_catalog_def invalidate_lowstock_def)

lemma coherent_set [simp, intro]:
  "coherent_with rows r \<Longrightarrow> (\<And>i. v \<noteq> RItem i) \<Longrightarrow> coherent_with rows (redis_set now x v ttl r)"
  by (auto simp: coherent_with_def redis_set_def map_of_redis_del)

lemma item_key_inject [simp]: "item_key k = item_key k' \<longleftrightarrow> k = k'"
  by (simp add: item_key_def)

lemma coherent_set_item:
  "coherent_with rows r \<Longrightarrow> find_row it_id k rows = Some i
    \<Longrightarrow> coherent_with rows (redis_set now (item_key k) (RItem i) ttl r)"
  by (auto simp: coherent_with_def redis_set_def map_of_redis_del)

lemma coherent_update:
  assumes "coherent_with rows r" and "\<And>i. it_id (f i) = it_id i"
  shows "coherent_with (update_row it_id k f rows) (redis_del (item_key k) r)"
  using assms(1) by (auto simp: coherent_with_def map_of_redis_del find_row_update_row[of it_id f, OF assms(2)])

lemma coherent_insert: "coherent_with rows r \<Longrightarrow> coherent_with (insert_row i rows) r"
  by (auto simp: coherent_with_def find_row_insert_row)

text \<open>Every handler reads and writes through these facts.\<close>

lemma find_one_item_out:
  assumes "cache_coherent s"
  shows "fst (find_one_item now k s) =
           (case find_row it_id k (d_items s) of None \<Rightarrow> Inl (NotFound ''Item de inventario no encontrado'') | Some i \<Rightarrow> Inr i)"
    and "cache_coherent (snd (find_one_item now k s))"
  using assms coherent_get[of "d_items s" "d_redis s" now k]
  by (auto simp: find_one_item_def cache_coherent_def coherent_set_item split: option.splits redis_value.splits)

lemma find_one_item_frame:
  "find_one_item now k s = (out, s1) \<Longrightarrow>
     d_items s1 = d_items s \<and> d_movements s1 = d_movements s \<and> d_orders s1 = d_orders s
     \<and> d_categories s1 = d_categories s"
  by (auto simp: find_one_item_def split: option.splits redis_value.splits)

lemma find_one_item_cases:
  assumes "cache_coherent s" and "find_one_item now k s = (out, s1)"
  obtains (missing) "out = Inl (NotFound ''Item de inventario no encontrado'')" "find_row it_id k (d_items s) = None"
      "d_items s1 = d_items s" "d_movements s1 = d_movements s" "d_categories s1 = d_categories s" "cache_coherent s1"
  | (found) i where "out = Inr i" "find_row it_id k (d_items s) = Some i"
      "d_items s1 = d_items s" "d_movements s1 = d_movements s" "d_categories s1 = d_categories s" "cache_coherent s1"
  using find_one_item_out[OF assms(1), of now k] find_one_item_frame[OF assms(2)] assms(2)
  by (cases "find_row it_id k (d_items s)") auto

definition same_items :: "db \<Rightarrow> db \<Rightarrow> bool" where
  "same_items s t \<longleftrightarrow> d_items t = d_items s \<and> (cache_coherent s \<longrightarrow> cache_coherent t)"

lemma same_items_inv: "same_items s t \<Longrightarrow> inventory_inv s \<Longrightarrow> inventory_inv t"
  by (simp add: same_items_def inventory_inv_def)

lemma same_items_refl: "same_items s s"
  by (simp add: same_items_def)

lemma same_items_set: "(\<And>i. v \<noteq> RItem i) \<Longrightarrow> same_items s (set_redis (redis_set now k v ttl (d_redis s)) s)"
  by (simp add: same_items_def cache_coherent_def)

lemma reads_keep_items:
  "same_items s (snd (find_all_low_stock now category limit cursor s))"
  "same_items s (snd (find_all_items now category low limit cursor search page n s))"
  "same_items s (snd (find_one_item now k s))"
  "same_items s (snd (get_movements now k limit cursor s))"
  "same_items s (snd (get_critical_stock now s))"
  "same_items s (snd (get_valuation now s))"
proof -
  show low: "same_items s (snd (find_all_low_stock now category limit cursor s))"
    for now category limit cursor
    by (auto simp: same_items_def cache_coherent_def find_all_low_stock_def Let_def
        split: option.splits redis_value.splits prod.splits)
  show one: "same_items s (snd (find_one_item now k s))" for now k
    using find_one_item_frame[of now k s] find_one_item_out(2)[of s now k]
    by (cases "find_one_item now k s") (simp add: same_items_def)
  show "same_items s (snd (get_movements now k limit cursor s))"
    using one[of now k] by (auto simp: get_movements_def split: prod.splits sum.splits)
  show "same_items s (snd (find_all_items now category low limit cursor search page n s))"
    by (simp add: find_all_items_def low same_items_refl same_items_set find_all_by_page_def find_all_by_cursor_def
        Let_def split: option.split redis_value.split prod.split)
  show "same_items s (snd (get_critical_stock now s))"
    by (auto simp: same_items_def cache_coherent_def get_critical_stock_def Let_def
        split: option.splits redis_value.splits)
  show "same_items s (snd (get_valuation now s))"
    by (auto simp: same_items_def cache_coherent_def get_valuation_def Let_def
        split: option.splits redis_value.splits)
qed

lemma update_item_items: "d_items (update_item k f s) = update_row it_id k f (d_items s)"
  by (simp add: update_item_def)

text \<open>Rewriting one row: what it takes to keep the invariant.\<close>

lemma inventory_inv_rewrite:
  assumes "inventory_inv s" and "find_row it_id k (d_items s) = Some i"
    and "\<And>r. it_id (f r) = it_id r" and "0 \<le> it_stock (f i)"
    and "it_sku (f i) = it_sku i \<or> (\<forall>r \<in> set (d_items s). it_id r \<noteq> k \<longrightarrow> it_sku r \<noteq> it_sku (f i))"
    and "d_items t = update_row it_id k f (d_items s)"
    and "cache_coherent t"
  shows "inventory_inv t"
proof -
  have d: "distinct (map it_id (d_items s))" "distinct (map it_sku (d_items s))"
    "\<And>r. r \<in> set (d_items s) \<Longrightarrow> 0 \<le> it_stock r" using assms(1) by (auto simp: inventory_inv_def)
  have "distinct (map it_sku (d_items t))"
    unfolding assms(6) by (rule distinct_update_row[OF d(1,2) assms(2), of f, OF assms(5)])
  moreover have "\<forall>r \<in> set (d_items t). 0 \<le> it_stock r"
    using update_row_found[OF d(1) assms(2)] d(3) assms(4) unfolding assms(6) by blast
  moreover have "distinct (map it_id (d_items t))"
    using d(1) keys_update_row[of it_id f, OF assms(3)] by (simp add: assms(6))
  ultimately show ?thesis using assms(7) by (simp add: inventory_inv_def)
qed

text \<open>A handler that rewrites a row and drops its cached copy keeps the cache coherent.\<close>

lemma coherent_rewrite:
  assumes "cache_coherent s" and "\<And>r. it_id (f r) = it_id r"
    and "d_items t = update_row it_id k f (d_items s)" and "d_redis t = redis_del (item_key k) (d_redis s)"
  shows "cache_coherent t"
  using coherent_update[of "d_items s" "d_redis s" f k] assms by (simp add: cache_coherent_def)

lemma apply_update_id [simp]: "it_id (apply_update dec u r) = it_id r"
  by (simp add: apply_update_def)

lemma create_item_inv:
  assumes "inventory_inv s" and "0 \<le> stock"
  shows "inventory_inv (snd (create_item dec now new_id new_category sku name category stock min_stock price s))"
  using assms coherent_insert[of "d_items s" "d_redis s"]
  by (auto simp: create_item_def inventory_inv_def cache_coherent_def Let_def find_None_iff
      split: option.splits if_splits intro!: coherent_invalidate)

lemma update_item_request_inv:
  assumes inv: "inventory_inv s" and valid: "valid_update u"
  shows "inventory_inv (snd (update_item_request dec now k u s))"
proof -
  obtain out s1 where o: "find_one_item now k s = (out, s1)" by fastforce
  have c: "cache_coherent s" using inv by (simp add: inventory_inv_def)
  have inv1: "inventory_inv s1"
    using reads_keep_items(3)[of s now k] same_items_inv[OF _ inv] o by simp
  show ?thesis
  proof (cases "(\<exists>e. out = Inl e) \<or> sku_taken u k s1 \<or> find_row it_id k (d_items s1) = None \<or> update_violation u k s1 \<noteq> None")
    case True
    then have "snd (update_item_request dec now k u s) = s1"
      using o by (cases out; cases "find_row it_id k (d_items s1)") (auto simp: update_item_request_def)
    then show ?thesis using inv1 by simp
  next
    case False
    then obtain i where i: "find_row it_id k (d_items s1) = Some i" and free: "update_violation u k s1 = None" by auto
    have t: "snd (update_item_request dec now k u s) =
      set_redis (invalidate_catalog (redis_del (item_key k) (d_redis s1))) (update_item k (apply_update dec u) s1)"
      using False i o by (cases out) (simp_all add: update_item_request_def Let_def)
    have "0 \<le> it_stock (apply_update dec u i)"
      using inv1 find_row_SomeD[OF i] valid
      by (auto simp: inventory_inv_def apply_update_def valid_update_def split: option.splits)
    moreover have "it_sku (apply_update dec u i) = it_sku i
      \<or> (\<forall>r \<in> set (d_items s1). it_id r \<noteq> k \<longrightarrow> it_sku r \<noteq> it_sku (apply_update dec u i))"
      using free
      by (cases "up_sku u") (auto simp: apply_update_def or_default_def update_violation_def sku_of_other_def find_None_iff
          split: if_splits)
    moreover have "cache_coherent (snd (update_item_request dec now k u s))"
      using inv1 coherent_update[of "d_items s1" "d_redis s1" "apply_update dec u" k]
      by (simp add: t cache_coherent_def inventory_inv_def update_item_items coherent_invalidate)
    ultimately show ?thesis
      by (intro inventory_inv_rewrite[OF inv1 i, of "apply_update dec u"]) (simp_all add: t update_item_items)
  qed
qed

definition stock_at :: "string \<Rightarrow> db \<Rightarrow> int option" where
  "stock_at k s = map_option it_stock (find_row it_id k (d_items s))"

definition stock_after :: "MovementType \<Rightarrow> int \<Rightarrow> int \<Rightarrow> int" where
  "stock_after type q old = (case type of IN \<Rightarrow> old + q | OUT \<Rightarrow> old - q | MovementType.ADJUSTMENT \<Rightarrow> q)"

definition movement_allowed :: "MovementType \<Rightarrow> int \<Rightarrow> string option \<Rightarrow> string option \<Rightarrow> int \<Rightarrow> bool" where
  "movement_allowed type q order justification old \<longleftrightarrow>
     (type = OUT \<longrightarrow> nonempty order \<and> q \<le> old) \<and> (type = MovementType.ADJUSTMENT \<longrightarrow> nonempty justification)"

lemma stock_at_update_item:
  "(\<And>r. it_id (f r) = it_id r) \<Longrightarrow>
     stock_at x (update_item k f s) =
       (if x = k then map_option (\<lambda>r. it_stock (f r)) (find_row it_id k (d_items s)) else stock_at x s)"
  by (auto simp: stock_at_def update_item_items find_row_update_row[of it_id f] option.map_comp comp_def)

lemma add_movement_done:
  assumes c: "cache_coherent s" and i: "find_row it_id k (d_items s) = Some i"
    and ok: "movement_allowed type q order justification (it_stock i)"
  shows "\<exists>m t. add_movement now new_id user k type q order justification s = (Inr m, t)
     \<and> m = \<lparr>mv_id = new_id, mv_item = k, mv_type = type, mv_quantity = q, mv_order = order, mv_by = user,
             mv_justification = justification, mv_unit_cost = Some (it_price i), mv_at = now\<rparr>
     \<and> d_movements t = d_movements s @ [m]
     \<and> d_items t = update_row it_id k (\<lambda>r. r\<lparr>it_stock := stock_after type q (it_stock i)\<rparr>) (d_items s)
     \<and> cache_coherent t"
proof -
  obtain out s1 where o: "find_one_item now k s = (out, s1)" by fastforce
  from c o obtain "out = Inr i" and s1: "d_items s1 = d_items s" "d_movements s1 = d_movements s" "cache_coherent s1"
    using i by (cases rule: find_one_item_cases) auto
  let ?f = "\<lambda>r. r\<lparr>it_stock := stock_after type q (it_stock i)\<rparr>"
  have coh: "coherent_with (update_row it_id k ?f (d_items s)) (redis_del (item_key k) (d_redis s1))"
    using coherent_update[of "d_items s1" "d_redis s1" ?f k] s1(1,3) by (simp add: cache_coherent_def)
  show ?thesis
    using o \<open>out = Inr i\<close> i s1(1,2) ok coh
    by (cases type) (simp_all add: add_movement_def movement_allowed_def Let_def update_item_items insert_row_def
        stock_after_def cache_coherent_def coherent_invalidate)
qed

lemma add_movement_refused:
  assumes c: "cache_coherent s"
    and no: "\<not> (\<exists>i. find_row it_id k (d_items s) = Some i \<and> movement_allowed type q order justification (it_stock i))"
  shows "\<exists>e t. add_movement now new_id user k type q order justification s = (Inl e, t)
     \<and> d_movements t = d_movements s \<and> d_items t = d_items s \<and> cache_coherent t"
proof -
  obtain out s1 where o: "find_one_item now k s = (out, s1)" by fastforce
  from c o show ?thesis
  proof (cases rule: find_one_item_cases)
    case missing
    then show ?thesis using o c by (auto simp: add_movement_def)
  next
    case (found i)
    then show ?thesis using o c no by (cases type) (auto simp: add_movement_def movement_allowed_def)
  qed
qed

lemma add_movement_inv:
  assumes inv: "inventory_inv s" and q: "1 \<le> q"
  shows "inventory_inv (snd (add_movement now new_id user k type q order justification s))"
proof (cases "\<exists>i. find_row it_id k (d_items s) = Some i \<and> movement_allowed type q order justification (it_stock i)")
  case True
  then obtain i where i: "find_row it_id k (d_items s) = Some i" "movement_allowed type q order justification (it_stock i)"
    by auto
  have c: "cache_coherent s" using inv by (simp add: inventory_inv_def)
  have "0 \<le> it_stock i" using inv find_row_SomeD[OF i(1)] by (auto simp: inventory_inv_def)
  then have pos: "0 \<le> stock_after type q (it_stock i)"
    using i(2) q by (cases type) (auto simp: movement_allowed_def stock_after_def)
  from add_movement_done[OF c i, of now new_id user] obtain m t
    where t: "add_movement now new_id user k type q order justification s = (Inr m, t)"
      "d_items t = update_row it_id k (\<lambda>r. r\<lparr>it_stock := stock_after type q (it_stock i)\<rparr>) (d_items s)"
      "cache_coherent t" by blast
  show ?thesis unfolding t(1) snd_conv by (rule inventory_inv_rewrite[OF inv i(1) _ _ _ t(2,3)]) (use pos in simp_all)
next
  case False
  then show ?thesis
    using add_movement_refused[of s k type q order justification now new_id user] inv
    by (auto simp: inventory_inv_def)
qed

definition reservable :: "string \<Rightarrow> int \<Rightarrow> string \<Rightarrow> db \<Rightarrow> bool" where
  "reservable k q order s \<longleftrightarrow>
     order \<noteq> [] \<and> (\<exists>w. find_row wo_id order (d_orders s) = Some w \<and> wo_status w = IN_PROGRESS)
     \<and> (\<exists>i. find_row it_id k (d_items s) = Some i \<and> q \<le> it_stock i)"

lemma reserve_refused:
  "\<not> reservable k q order s \<Longrightarrow> \<exists>e. reserve_for_order now new_id k q order user s = (Inl e, s)"
  by (auto simp: reserve_for_order_def reservable_def transaction_def split: option.splits)

lemma reserve_done:
  assumes "reservable k q order s" and i: "find_row it_id k (d_items s) = Some i"
  shows "\<exists>m t. reserve_for_order now new_id k q order user s = (Inr (it_stock i - q), t)
     \<and> mv_item m = k \<and> mv_type m = OUT \<and> mv_quantity m = q \<and> mv_order m = Some order \<and> mv_by m = user
     \<and> d_movements t = d_movements s @ [m]
     \<and> d_items t = update_row it_id k (\<lambda>r. r\<lparr>it_stock := it_stock r - q\<rparr>) (d_items s)
     \<and> (cache_coherent s \<longrightarrow> cache_coherent t)"
proof -
  let ?f = "\<lambda>r. r\<lparr>it_stock := it_stock r - q\<rparr>"
  have coh: "cache_coherent s \<Longrightarrow> coherent_with (update_row it_id k ?f (d_items s)) (redis_del (item_key k) (d_redis s))"
    using coherent_update[of "d_items s" "d_redis s" ?f k] by (simp add: cache_coherent_def)
  have "find_row it_id k (update_row it_id k ?f (d_items s)) = Some (?f i)"
    using items.modify_same[of ?f k "d_items s" i] i by simp
  then show ?thesis
    using assms coh
    by (auto simp: reserve_for_order_def reservable_def transaction_def Let_def update_item_items insert_row_def
        cache_coherent_def coherent_invalidate)
qed

lemma reserve_inv:
  assumes inv: "inventory_inv s"
  shows "inventory_inv (snd (reserve_for_order now new_id k q order user s))"
proof (cases "reservable k q order s")
  case True
  then obtain i where i: "find_row it_id k (d_items s) = Some i" "q \<le> it_stock i" by (auto simp: reservable_def)
  from reserve_done[OF True i(1), of now new_id user] inv obtain t
    where t: "reserve_for_order now new_id k q order user s = (Inr (it_stock i - q), t)"
      "d_items t = update_row it_id k (\<lambda>r. r\<lparr>it_stock := it_stock r - q\<rparr>) (d_items s)" "cache_coherent t"
    by (auto simp: inventory_inv_def)
  show ?thesis unfolding t(1) snd_conv
    by (rule inventory_inv_rewrite[OF inv i(1) _ _ _ t(2,3)]) (use i(2) in simp_all)
next
  case False
  then show ?thesis using reserve_refused[OF False, of now new_id user] inv by auto
qed

lemma inventory_step_inv: "inventory_inv s \<Longrightarrow> inventory_inv (snd (inventory_step dec q s))"
proof (induction dec q s rule: inventory_step.induct)
  case (6 dec now new_id new_category sku name category stock min_stock price s)
  then show ?case by (simp add: create_item_inv)
next
  case (7 dec now k u s)
  then show ?case by (simp add: update_item_request_inv)
next
  case (8 dec now new_id user k type quantity order justification s)
  then show ?case by (simp add: add_movement_inv)
next
  case (9 dec now new_id k quantity order user s)
  then show ?case by (simp add: reserve_inv)
qed (simp_all add: same_items_inv[OF reads_keep_items(2)] same_items_inv[OF reads_keep_items(3)]
    same_items_inv[OF reads_keep_items(4)] same_items_inv[OF reads_keep_items(5)] same_items_inv[OF reads_keep_items(6)])

interpretation inventory: invariant_service "inventory_step dec" inventory_inv
  by unfold_locales (rule inventory_step_inv)

section \<open>Properties of runs\<close>

definition sample_stock :: db where
  "sample_stock = empty_db\<lparr>d_items := [sample_item ''i1'' 5], d_orders := [sample_order ''o1'' IN_PROGRESS]\<rparr>"

lemma sample_stock_simps [simp]:
  "d_items sample_stock = [sample_item ''i1'' 5]" "d_orders sample_stock = [sample_order ''o1'' IN_PROGRESS]"
  "d_redis sample_stock = []" "d_movements sample_stock = []"
  by (simp_all add: sample_stock_def)

lemma sample_stock_inv: "inventory_inv sample_stock"
  by (simp add: inventory_inv_def cache_coherent_def coherent_with_def)

text \<open>C12. Through any sequence of catalogue requests no item's stock is ever negative, ids and SKUs stay unique, and
  reading an item, from the cache or the table, answers the row the table holds at that moment.\<close>

theorem stock_and_cache:
  assumes "inventory_inv s" and "t = run_requests (inventory_step dec) qs s"
  shows "(\<forall>k n. stock_at k t = Some n \<longrightarrow> 0 \<le> n)
    \<and> distinct (map it_id (d_items t)) \<and> distinct (map it_sku (d_items t))
    \<and> (\<forall>now k i. fst (find_one_item now k t) = Inr i \<longleftrightarrow> find_row it_id k (d_items t) = Some i)"
proof -
  have inv: "inventory_inv t" unfolding assms(2) by (rule inventory.run_inv[OF assms(1)])
  then have "fst (find_one_item now k t) = Inr i \<longleftrightarrow> find_row it_id k (d_items t) = Some i" for now k i
    using find_one_item_out(1)[of t now k] by (auto simp: inventory_inv_def split: option.splits)
  moreover have "0 \<le> n" if "stock_at k t = Some n" for k n
    using inv that by (auto simp: stock_at_def inventory_inv_def dest!: find_row_SomeD)
  ultimately show ?thesis using inv by (simp add: inventory_inv_def)
qed

theorem stock_and_cache_witness:
  "distinct (map it_id (d_items (run_requests (inventory_step half_up)
     [(0, GetItem ''i1''), (1, Reserve ''v1'' ''i1'' 3 ''o1'' ''m1''), (2, GetItem ''i1'')] sample_stock)))"
  using stock_and_cache[OF sample_stock_inv refl] by blast



text \<open>A reservation for an order is all or nothing. It succeeds exactly when the order exists and is in
  progress and the item has at least the quantity; then the stock goes down by the quantity and one OUT movement
  for that order is recorded. No other bound is put on the quantity: a negative one is accepted and adds to the
  stock.\<close>

theorem reserve_takes_stock:
  assumes "reserve_for_order now new_id k q order user s = (out, t)"
  shows "((\<exists>n. out = Inr n) \<longleftrightarrow> reservable k q order s)
    \<and> (\<forall>n. out = Inr n \<longrightarrow> stock_at k t = Some n \<and> stock_at k s = Some (n + q)
         \<and> (\<forall>x. x \<noteq> k \<longrightarrow> stock_at x t = stock_at x s)
         \<and> (\<exists>m. d_movements t = d_movements s @ [m] \<and> mv_item m = k \<and> mv_type m = OUT \<and> mv_quantity m = q
                 \<and> mv_order m = Some order))
    \<and> (\<forall>e. out = Inl e \<longrightarrow> t = s)"
proof (cases "reservable k q order s")
  case True
  then obtain i where i: "find_row it_id k (d_items s) = Some i" by (auto simp: reservable_def)
  let ?f = "\<lambda>r. r\<lparr>it_stock := it_stock r - q\<rparr>"
  have "stock_at x (update_item k ?f s) = (if x = k then Some (it_stock i - q) else stock_at x s)" for x
    using stock_at_update_item[of ?f x k s] i by simp
  moreover from reserve_done[OF True i, of now new_id user] assms obtain m
    where m: "out = Inr (it_stock i - q)" "mv_item m = k" "mv_type m = OUT" "mv_quantity m = q" "mv_order m = Some order"
      "d_movements t = d_movements s @ [m]" "d_items t = update_row it_id k ?f (d_items s)" by auto
  ultimately have "stock_at x t = (if x = k then Some (it_stock i - q) else stock_at x s)" for x
    by (simp add: stock_at_def update_item_items)
  moreover have "stock_at k s = Some (it_stock i)" using i by (simp add: stock_at_def)
  ultimately show ?thesis using m True by auto
next
  case False
  then show ?thesis using reserve_refused[OF False, of now new_id user] assms by auto
qed

theorem reserve_takes_stock_witness:
  "\<exists>t. reserve_for_order 7 ''v1'' ''i1'' (- 4) ''o1'' ''m1'' sample_stock = (Inr 9, t) \<and> stock_at ''i1'' t = Some 9"
proof -
  obtain out t where o: "reserve_for_order 7 ''v1'' ''i1'' (- 4) ''o1'' ''m1'' sample_stock = (out, t)" by fastforce
  have "reservable ''i1'' (- 4) ''o1'' sample_stock" by (simp add: reservable_def)
  then obtain n where n: "out = Inr n" using reserve_takes_stock[OF o] by blast
  then have "stock_at ''i1'' sample_stock = Some (n - 4)" "stock_at ''i1'' t = Some n" using reserve_takes_stock[OF o] by auto
  then have "n = 9" by (simp add: stock_at_def)
  then show ?thesis using o n \<open>stock_at ''i1'' t = Some n\<close> by simp
qed

end
