(* ===== verification/PaymentsService.thy ===== *)
theory PaymentsService
  imports FinanceService Samples
begin

text \<open>
  \<open>PaymentsService\<close> (\<open>payments.service.ts\<close>): registering a payment with the checks on its method and on the
  Yape account of the shop, settling the invoice it pays, and the verification by a second account. Amounts of
  the requests have two decimals and are counted in cents; the sums are computed on doubles, as in the code.
  The lemmas show that the tables stay well formed and that an invoice always carries the sum of its payments.
\<close>

section \<open>Requests\<close>

record payment_input =
  pa_invoice :: "string option"
  pa_order :: "string option"
  pa_method :: PaymentMethod
  pa_amount :: int
  pa_reference :: "string option"
  pa_channel :: "PaymentChannel option"
  pa_personal :: "bool option"
  pa_yape :: "string option"
  pa_notes :: "string option"
  pa_receipt :: "string option"
  pa_paid_at :: "int option"

record payment_filters =
  pf_method :: "PaymentMethod option"
  pf_invoice :: "string option"
  pf_order :: "string option"
  pf_search :: "string option"
  pf_from :: "int option"
  pf_to :: "int option"
  pf_page :: "nat option"
  pf_limit :: "nat option"

text \<open>What the validation of the DTO admits.\<close>

definition valid_payment :: "payment_input \<Rightarrow> bool" where
  "valid_payment p \<longleftrightarrow> 1 \<le> pa_amount p"

section \<open>Reading\<close>

definition find_all_payments :: "payment_filters \<Rightarrow> db \<Rightarrow> payment_row page" where
  "find_all_payments f s =
     (let rows = sort_key (\<lambda>p. - pm_created_at p)
                   (filter (\<lambda>p. option_matches (pf_method f) (pm_method p)
                              \<and> (nonempty (pf_invoice f) \<longrightarrow> pm_invoice p = pf_invoice f)
                              \<and> (nonempty (pf_order f) \<longrightarrow> pm_order p = pf_order f)
                              \<and> in_range (pf_from f) (pf_to f) (pm_created_at p)
                              \<and> matches_search (pf_search f) [pm_reference p, pm_notes p]) (d_payments s))
      in page_of (case pf_page f of Some n \<Rightarrow> n | None \<Rightarrow> 1) (case pf_limit f of Some n \<Rightarrow> n | None \<Rightarrow> 20) rows)"

definition payments_by_order :: "string \<Rightarrow> db \<Rightarrow> http_error + payment_row list" where
  "payments_by_order k s =
     (if find_row wo_id k (d_orders s) = None then Inl (NotFound ''Orden de trabajo no encontrada'')
      else Inr (sort_key (\<lambda>p. - pm_created_at p) (filter (\<lambda>p. pm_order p = Some k) (d_payments s))))"

definition payments_by_method :: "PaymentMethod \<Rightarrow> int \<Rightarrow> int \<Rightarrow> db \<Rightarrow> payment_row list" where
  "payments_by_method m from_t to_t s =
     sort_key (\<lambda>p. - pm_created_at p)
       (filter (\<lambda>p. pm_method p = m \<and> in_range (Some from_t) (Some to_t) (pm_created_at p)) (d_payments s))"

record payment_summary =
  ps_count :: nat
  ps_grand_total :: number
  ps_by_method :: method_totals

definition payment_totals :: "payment_row list \<Rightarrow> method_totals" where
  "payment_totals ps = foldl (\<lambda>acc p. add_to_method (pm_method p) (cents (pm_amount p)) acc) [] ps"

text \<open>The payments of the day, whose first and last instant are given.\<close>

definition get_today_summary :: "int \<Rightarrow> int \<Rightarrow> db \<Rightarrow> payment_summary" where
  "get_today_summary start stop s =
     (let ps = filter (\<lambda>p. in_range (Some start) (Some stop) (pm_created_at p)) (d_payments s)
      in \<lparr>ps_count = length ps, ps_grand_total = js_sum (map (\<lambda>p. cents (pm_amount p)) ps),
          ps_by_method = payment_totals ps\<rparr>)"

section \<open>Registering a payment\<close>

definition official_yape :: "db \<Rightarrow> string option" where
  "official_yape s =
     (case find_row se_key ''TALLER_YAPE_NUMBER'' (d_settings s) of
        Some r \<Rightarrow> if se_value r = [] then None else Some (se_value r)
      | None \<Rightarrow> None)"

text \<open>
  A payment to a Yape account that is not the one of the shop is recorded in the audit log and announced; it is
  then registered all the same, as personal.
\<close>

definition check_yape :: "int \<Rightarrow> payment_input \<Rightarrow> string \<Rightarrow> db \<Rightarrow> (http_error + bool) \<times> db" where
  "check_yape now p user s =
     (if pa_method p = YAPE \<and> nonempty (pa_yape p) \<and> official_yape s \<noteq> None \<and> pa_yape p \<noteq> official_yape s then
        (case audit_create
                \<lparr>au_user = user, au_role = ''SYSTEM'', au_action = ''PAYMENT_UNAUTHORIZED_YAPE'',
                 au_entity = Some ''Payment'', au_entity_id = None, au_severity = SECURITY_ALERT, au_hash = None\<rparr> s of
           Inl e \<Rightarrow> (Inl e, s)
         | Inr s1 \<Rightarrow>
             (Inr True, s1\<lparr>d_notifications := insert_row \<lparr>nt_user = user, nt_type = ''SECURITY_ALERT'', nt_at = now\<rparr>
                                                (d_notifications s1)\<rparr>))
      else (Inr (pa_personal p = Some True), s))"

definition invoice_payments :: "string \<Rightarrow> db \<Rightarrow> payment_row list" where
  "invoice_payments k s = filter (\<lambda>p. pm_invoice p = Some k) (d_payments s)"

definition payment_status :: "number \<Rightarrow> number \<Rightarrow> InvoiceStatus" where
  "payment_status total_amount paid =
     (if js_le total_amount paid then InvoiceStatus.PAID
      else if js_lt (Fin 0) paid then PARTIALLY_PAID else ISSUED)"

definition settle_invoice :: "(number \<Rightarrow> int) \<Rightarrow> int \<Rightarrow> string \<Rightarrow> db \<Rightarrow> db" where
  "settle_invoice dec now k s =
     (case find_row iv_id k (d_invoices s) of
        None \<Rightarrow> s
      | Some v \<Rightarrow>
          let paid = js_sum (map (\<lambda>p. cents (pm_amount p)) (invoice_payments k s));
              due = js_sub (cents (iv_total v)) paid;
              status = payment_status (cents (iv_total v)) paid;
              s1 = update_invoice k
                     (\<lambda>r. r\<lparr>iv_status := status, iv_paid := dec paid,
                           iv_due := (if js_lt (Fin 0) due then dec due else 0),
                           iv_paid_at := (if status = InvoiceStatus.PAID then Some now else iv_paid_at v)\<rparr>) s
          in (case iv_order v of
                None \<Rightarrow> s1
              | Some k' \<Rightarrow> update_order k' (\<lambda>r. r\<lparr>wo_payment_status := status\<rparr>) s1))"

definition missing_reference :: "payment_input \<Rightarrow> db \<Rightarrow> http_error option" where
  "missing_reference p s =
     (if nonempty (pa_invoice p) \<and> find_row iv_id (the (pa_invoice p)) (d_invoices s) = None
      then Some (NotFound ''Factura no encontrada'')
      else if nonempty (pa_order p) \<and> find_row wo_id (the (pa_order p)) (d_orders s) = None
      then Some (NotFound ''Orden de trabajo no encontrada'')
      else if pa_invoice p = Some [] \<or> pa_order p = Some [] then Some (DbError ''P2003'')
      else None)"

definition create_payment ::
    "(number \<Rightarrow> int) \<Rightarrow> int \<Rightarrow> string \<Rightarrow> payment_input \<Rightarrow> string \<Rightarrow> db \<Rightarrow> payment_row answer" where
  "create_payment dec now new_id p user s =
     (if \<not> nonempty (pa_invoice p) \<and> \<not> nonempty (pa_order p)
      then (Inl (BadRequest ''Debe especificar una factura o una orden de trabajo''), s)
      else if pa_method p = CASH \<and> \<not> nonempty (pa_invoice p)
      then (Inl (BadRequest ''Los pagos en efectivo requieren una factura asociada''), s)
      else if pa_method p = CARD \<and> \<not> nonempty (pa_receipt p)
      then (Inl (BadRequest ''Los pagos con tarjeta requieren comprobante (receiptUrl)''), s)
      else if pa_personal p = Some True \<and> \<not> nonempty (pa_yape p)
      then (Inl (BadRequest ''Debe especificar la cuenta Yape (yapeAccount)''), s)
      else
        (case check_yape now p user s of
           (Inl e, s1) \<Rightarrow> (Inl e, s1)
         | (Inr personal, s1) \<Rightarrow>
             (case missing_reference p s1 of
                Some e \<Rightarrow> (Inl e, s1)
              | None \<Rightarrow>
                  if new_id \<in> pm_id ` set (d_payments s1) then (Inl (DbError ''P2002''), s1)
                  else
                    let row = \<lparr>pm_id = new_id, pm_invoice = pa_invoice p, pm_order = pa_order p, pm_method = pa_method p,
                               pm_amount = pa_amount p, pm_reference = pa_reference p, pm_received_by = user,
                               pm_verified_by = None,
                               pm_channel = (case pa_channel p of Some c \<Rightarrow> c | None \<Rightarrow> IN_PERSON),
                               pm_personal_yape = personal, pm_yape_account = pa_yape p, pm_notes = pa_notes p,
                               pm_receipt = pa_receipt p,
                               pm_paid_at = (case pa_paid_at p of Some t \<Rightarrow> t | None \<Rightarrow> now), pm_created_at = now\<rparr>;
                        s2 = s1\<lparr>d_payments := insert_row row (d_payments s1)\<rparr>
                    in (Inr row, if nonempty (pa_invoice p) then settle_invoice dec now (the (pa_invoice p)) s2 else s2))))"

definition verify_payment :: "string \<Rightarrow> string \<Rightarrow> db \<Rightarrow> payment_row answer" where
  "verify_payment k verifier s =
     (case find_row pm_id k (d_payments s) of
        None \<Rightarrow> (Inl (NotFound ''Pago no encontrado''), s)
      | Some p \<Rightarrow>
          if nonempty (pm_verified_by p) then (Inl (Conflict ''Este pago ya fue verificado''), s)
          else if \<not> account_exists verifier s then (Inl (NotFound ''Verificador no encontrado''), s)
          else
            let f = (\<lambda>r. r\<lparr>pm_verified_by := Some verifier\<rparr>)
            in (Inr (f p), s\<lparr>d_payments := update_row pm_id k f (d_payments s)\<rparr>))"

datatype payment_request =
    CreatePayment string payment_input string
  | VerifyPayment string string

fun payment_step :: "(number \<Rightarrow> int) \<Rightarrow> int \<times> payment_request \<Rightarrow> db \<Rightarrow> unit answer" where
  "payment_step dec (now, CreatePayment i p user) s =
     (if \<not> valid_payment p then (Inl (BadRequest ''validation''), s)
      else drop_answer (create_payment dec now i p user s))"
| "payment_step dec (now, VerifyPayment k v) s = drop_answer (verify_payment k v s)"

section \<open>Well-formed tables\<close>

definition payment_ok :: "db \<Rightarrow> payment_row \<Rightarrow> bool" where
  "payment_ok s p \<longleftrightarrow> 0 < pm_amount p \<and> (pm_invoice p \<noteq> None \<or> pm_order p \<noteq> None)
     \<and> (pm_method p = CASH \<longrightarrow> pm_invoice p \<noteq> None) \<and> (pm_method p = CARD \<longrightarrow> nonempty (pm_receipt p))
     \<and> (\<forall>k. pm_invoice p = Some k \<longrightarrow> find_row iv_id k (d_invoices s) \<noteq> None)
     \<and> (\<forall>k. pm_order p = Some k \<longrightarrow> find_row wo_id k (d_orders s) \<noteq> None)
     \<and> (\<forall>v. pm_verified_by p = Some v \<longrightarrow> account_exists v s)
     \<and> (pm_method p = YAPE \<and> nonempty (pm_yape_account p) \<and> official_yape s \<noteq> None
          \<and> pm_yape_account p \<noteq> official_yape s \<longrightarrow> pm_personal_yape p)"

definition payments_wf :: "db \<Rightarrow> bool" where
  "payments_wf s \<longleftrightarrow> distinct (map pm_id (d_payments s)) \<and> (\<forall>p \<in> set (d_payments s). payment_ok s p)"

text \<open>What the service never touches: the accounts, the settings and which rows the other tables have.\<close>

definition same_frame :: "db \<Rightarrow> db \<Rightarrow> bool" where
  "same_frame s t \<longleftrightarrow> d_accounts t = d_accounts s \<and> d_settings t = d_settings s
     \<and> map wo_id (d_orders t) = map wo_id (d_orders s)
     \<and> map (\<lambda>v. (iv_id v, iv_total v)) (d_invoices t) = map (\<lambda>v. (iv_id v, iv_total v)) (d_invoices s)"

lemma find_row_keys: "map key xs = map key ys \<Longrightarrow> find_row key k xs = None \<longleftrightarrow> find_row key k ys = None"
  by (metis find_row_None_iff set_map)

lemma same_frame_refl [simp]: "same_frame s s"
  by (simp add: same_frame_def)

lemma same_frame_trans: "same_frame s t \<Longrightarrow> same_frame t u \<Longrightarrow> same_frame s u"
  by (simp add: same_frame_def)

lemma same_frame_ids: "same_frame s t \<Longrightarrow> map iv_id (d_invoices t) = map iv_id (d_invoices s)"
proof -
  assume "same_frame s t"
  then have "map fst (map (\<lambda>v. (iv_id v, iv_total v)) (d_invoices t)) = map fst (map (\<lambda>v. (iv_id v, iv_total v)) (d_invoices s))"
    by (simp add: same_frame_def)
  then show ?thesis by (simp add: comp_def)
qed

lemma payment_ok_frame:
  assumes "same_frame s t"
  shows "payment_ok t p = payment_ok s p"
proof -
  have "find_row iv_id k (d_invoices t) = None \<longleftrightarrow> find_row iv_id k (d_invoices s) = None" for k
    using same_frame_ids[OF assms] by (rule find_row_keys)
  moreover have "find_row wo_id k (d_orders t) = None \<longleftrightarrow> find_row wo_id k (d_orders s) = None" for k
    using assms by (intro find_row_keys) (simp add: same_frame_def)
  ultimately show ?thesis
    using assms by (simp add: payment_ok_def same_frame_def account_exists_def official_yape_def)
qed

lemma settle_frame:
  "same_frame s (settle_invoice dec now k s)" "d_payments (settle_invoice dec now k s) = d_payments s"
proof -
  have inv: "map (\<lambda>v. (iv_id v, iv_total v)) (update_row iv_id k f rows) = map (\<lambda>v. (iv_id v, iv_total v)) rows"
    if "\<And>r. iv_id (f r) = iv_id r \<and> iv_total (f r) = iv_total r" for f rows
    using that by (intro map_update_row_frame) simp
  show "same_frame s (settle_invoice dec now k s)" "d_payments (settle_invoice dec now k s) = d_payments s"
    by (auto simp: settle_invoice_def same_frame_def Let_def inv split: option.splits)
qed

lemma check_yape_out:
  assumes "check_yape now p user s = (out, t)"
  shows "same_frame s t \<and> d_payments t = d_payments s \<and> d_invoices t = d_invoices s \<and> d_orders t = d_orders s
    \<and> (\<forall>b. out = Inr b \<longrightarrow> pa_method p = YAPE \<and> nonempty (pa_yape p) \<and> official_yape s \<noteq> None
          \<and> pa_yape p \<noteq> official_yape s \<longrightarrow> b)"
  using assms by (auto simp: check_yape_def same_frame_def dest!: audit_create_frame split: if_splits sum.splits)

text \<open>What registering a payment does: refused without a row, or one row is added and its invoice settled.\<close>

lemma create_payment_cases:
  assumes "create_payment dec now i p user s = (out, t)"
  obtains e where "out = Inl e" "same_frame s t" "d_payments t = d_payments s" "d_invoices t = d_invoices s"
  | row s1 where "out = Inr row" "same_frame s s1" "d_payments s1 = insert_row row (d_payments s)"
      "d_invoices s1 = d_invoices s" "i \<notin> pm_id ` set (d_payments s)" "pm_id row = i"
      "pm_amount row = pa_amount p" "pm_invoice row = pa_invoice p" "pm_order row = pa_order p"
      "pm_verified_by row = None" "pa_invoice p \<noteq> Some []"
      "valid_payment p \<longrightarrow> payment_ok s row"
      "t = (if nonempty (pa_invoice p) then settle_invoice dec now (the (pa_invoice p)) s1 else s1)"
proof -
  obtain y s1 where y: "check_yape now p user s = (y, s1)" by fastforce
  note f = check_yape_out[OF y]
  have off: "official_yape s1 = official_yape s" using f by (simp add: official_yape_def same_frame_def)
  show thesis
  proof (cases out)
    case (Inl e)
    then show ?thesis
      using assms f that(1)[of e] by (auto simp: create_payment_def y Let_def split: if_splits sum.splits option.splits)
  next
    case (Inr row)
    then obtain b where b: "y = Inr b" and m: "missing_reference p s1 = None" and i: "i \<notin> pm_id ` set (d_payments s)"
      and g: "nonempty (pa_invoice p) \<or> nonempty (pa_order p)" "pa_method p = CASH \<longrightarrow> nonempty (pa_invoice p)"
        "pa_method p = CARD \<longrightarrow> nonempty (pa_receipt p)"
      and row: "row = \<lparr>pm_id = i, pm_invoice = pa_invoice p, pm_order = pa_order p, pm_method = pa_method p,
                 pm_amount = pa_amount p, pm_reference = pa_reference p, pm_received_by = user, pm_verified_by = None,
                 pm_channel = (case pa_channel p of Some c \<Rightarrow> c | None \<Rightarrow> IN_PERSON), pm_personal_yape = b,
                 pm_yape_account = pa_yape p, pm_notes = pa_notes p, pm_receipt = pa_receipt p,
                 pm_paid_at = (case pa_paid_at p of Some t \<Rightarrow> t | None \<Rightarrow> now), pm_created_at = now\<rparr>"
      and t: "t = (if nonempty (pa_invoice p)
                   then settle_invoice dec now (the (pa_invoice p)) (s1\<lparr>d_payments := insert_row row (d_payments s1)\<rparr>)
                   else s1\<lparr>d_payments := insert_row row (d_payments s1)\<rparr>)"
      using assms f by (auto simp: create_payment_def y Let_def split: if_splits sum.splits option.splits)
    have fk: "pa_invoice p = Some k \<Longrightarrow> find_row iv_id k (d_invoices s) \<noteq> None"
      "pa_order p = Some k \<Longrightarrow> find_row wo_id k (d_orders s) \<noteq> None" for k
      using m f by (auto simp: missing_reference_def nonempty_def split: if_splits option.splits)
    have "valid_payment p \<longrightarrow> payment_ok s row"
      using g fk f b unfolding row payment_ok_def valid_payment_def by (auto simp: nonempty_def split: option.splits)
    moreover have "pa_invoice p \<noteq> Some []" using m by (auto simp: missing_reference_def split: if_splits)
    ultimately show ?thesis
      using that(2)[of row "s1\<lparr>d_payments := insert_row row (d_payments s1)\<rparr>"] Inr f i t
      by (simp add: row same_frame_def)
  qed
qed

lemma payments_wf_frame: "same_frame s t \<Longrightarrow> d_payments t = d_payments s \<Longrightarrow> payments_wf t = payments_wf s"
  by (simp add: payments_wf_def payment_ok_frame)

lemma payments_wf_insert:
  assumes "payments_wf s" and "same_frame s t" and "d_payments t = insert_row row (d_payments s)"
    and "pm_id row \<notin> pm_id ` set (d_payments s)" and "payment_ok s row"
  shows "payments_wf t"
  using assms by (auto simp: payments_wf_def payment_ok_frame)

lemma create_payment_wf:
  assumes "payments_wf s" and "valid_payment p"
  shows "payments_wf (snd (create_payment dec now i p user s))"
proof -
  obtain out t where c: "create_payment dec now i p user s = (out, t)" by fastforce
  then show ?thesis
  proof (cases rule: create_payment_cases)
    case (1 e)
    then show ?thesis using assms c payments_wf_frame by simp
  next
    case (2 row s1)
    then have "payments_wf s1" using assms payments_wf_insert by simp
    then have "payments_wf t"
      using 2(13) payments_wf_frame[OF settle_frame] by simp
    then show ?thesis using c by simp
  qed
qed

text \<open>A verification fills one column of one payment.\<close>

lemma verify_payment_cases:
  assumes "verify_payment k v s = (out, t)"
  obtains e where "out = Inl e" "t = s"
  | p where "out = Inr (p\<lparr>pm_verified_by := Some v\<rparr>)" "find_row pm_id k (d_payments s) = Some p"
      "\<not> nonempty (pm_verified_by p)" "account_exists v s"
      "t = s\<lparr>d_payments := update_row pm_id k (\<lambda>r. r\<lparr>pm_verified_by := Some v\<rparr>) (d_payments s)\<rparr>"
proof (cases "find_row pm_id k (d_payments s)")
  case None
  then show thesis using assms by (intro that(1)[of "NotFound ''Pago no encontrado''"]) (simp_all add: verify_payment_def)
next
  case (Some p)
  then show thesis using assms that(1) that(2)[of p] by (fastforce simp: verify_payment_def Let_def split: if_splits)
qed

lemma verify_payment_wf:
  assumes "payments_wf s"
  shows "payments_wf (snd (verify_payment k v s))"
proof -
  obtain out t where c: "verify_payment k v s = (out, t)" by fastforce
  then show ?thesis
  proof (cases rule: verify_payment_cases)
    case (1 e)
    then show ?thesis using assms c by simp
  next
    case (2 p)
    have f: "same_frame s t" using 2(5) by (simp add: same_frame_def)
    have "payment_ok s r" if r: "r \<in> set (d_payments t)" for r
      using r[unfolded 2(5), simplified]
    proof (rule update_row_cases)
      assume "r \<in> set (d_payments s)"
      then show ?thesis using assms by (simp add: payments_wf_def)
    next
      fix y assume y: "y \<in> set (d_payments s)" "r = y\<lparr>pm_verified_by := Some v\<rparr>"
      then have "payment_ok s y" using assms by (simp add: payments_wf_def)
      then show ?thesis using y 2(4) by (simp add: payment_ok_def)
    qed
    then have "payments_wf t" using assms 2(5) f by (simp add: payments_wf_def payment_ok_frame)
    then show ?thesis using c by simp
  qed
qed

lemma payment_step_wf: "payments_wf s \<Longrightarrow> payments_wf (snd (payment_step dec q s))"
  by (cases "(dec, q, s)" rule: payment_step.cases) (auto simp: create_payment_wf verify_payment_wf)

interpretation payments_service: invariant_service "payment_step dec" payments_wf
  by unfold_locales (rule payment_step_wf)

section \<open>The ledger of an invoice\<close>

definition charges :: "db \<Rightarrow> (string option \<times> int) list" where
  "charges s = map (\<lambda>p. (pm_invoice p, pm_amount p)) (d_payments s)"

definition amounts_for :: "string \<Rightarrow> (string option \<times> int) list \<Rightarrow> int list" where
  "amounts_for k cs = map snd (filter (\<lambda>c. fst c = Some k) cs)"

definition paid_for :: "string \<Rightarrow> db \<Rightarrow> int" where
  "paid_for k s = sum_list (amounts_for k (charges s))"

text \<open>
  The row of an invoice carries the sum of its payments; once it has one, the amount due is the rest and the
  status says whether the payments cover it.
\<close>

definition invoice_ok :: "db \<Rightarrow> invoice_row \<Rightarrow> bool" where
  "invoice_ok s v \<longleftrightarrow> iv_paid v = paid_for (iv_id v) s
     \<and> (amounts_for (iv_id v) (charges s) \<noteq> [] \<longrightarrow>
          iv_due v = max 0 (iv_total v - paid_for (iv_id v) s)
          \<and> iv_status v = payment_status (cents (iv_total v)) (js_sum (map cents (amounts_for (iv_id v) (charges s))))
          \<and> (iv_total v < paid_for (iv_id v) s \<longrightarrow> iv_status v = InvoiceStatus.PAID)
          \<and> (paid_for (iv_id v) s < iv_total v \<longrightarrow> iv_status v = PARTIALLY_PAID)
          \<and> iv_status v \<in> {InvoiceStatus.PAID, PARTIALLY_PAID})"

definition reconciled :: "db \<Rightarrow> bool" where
  "reconciled s \<longleftrightarrow> distinct (map iv_id (d_invoices s)) \<and> (\<forall>v \<in> set (d_invoices s). invoice_ok s v)"

text \<open>Amounts below about eleven thousand million soles and at most 200 payments of one invoice.\<close>

definition ledger_bounded :: "db \<Rightarrow> bool" where
  "ledger_bounded s \<longleftrightarrow>
     (\<forall>v \<in> set (d_invoices s). length (amounts_for (iv_id v) (charges s)) \<le> 200
        \<and> cents_range (\<bar>iv_total v\<bar> + (\<Sum>a\<leftarrow>amounts_for (iv_id v) (charges s). \<bar>a\<bar>)))"

lemma invoice_payments_amounts: "map pm_amount (invoice_payments k s) = amounts_for k (charges s)"
  by (simp add: invoice_payments_def amounts_for_def charges_def filter_map comp_def)

lemma abs_sum_nonneg: "0 \<le> (\<Sum>a\<leftarrow>xs. \<bar>a :: int\<bar>)"
  by (induction xs) auto

lemma invoice_sum:
  "js_sum (map (\<lambda>p. cents (pm_amount p)) (invoice_payments k s)) = js_sum (map cents (amounts_for k (charges s)))"
  by (simp add: invoice_payments_amounts[symmetric] comp_def)

lemma settled_row:
  fixes paid :: int
  assumes dec: "decimal_column dec" and pos: "\<forall>a \<in> set (amounts_for k (charges s)). 0 < a"
    and some: "amounts_for k (charges s) \<noteq> []"
    and len: "length (amounts_for k (charges s)) \<le> 200"
    and range: "cents_range (\<bar>iv_total v\<bar> + (\<Sum>a\<leftarrow>amounts_for k (charges s). \<bar>a\<bar>))"
  defines "paid \<equiv> paid_for k s" and "x \<equiv> js_sum (map cents (amounts_for k (charges s)))"
  shows "dec x = paid
    \<and> payment_status (cents (iv_total v)) x \<in> {InvoiceStatus.PAID, PARTIALLY_PAID}
    \<and> (if js_lt (Fin 0) (js_sub (cents (iv_total v)) x) then dec (js_sub (cents (iv_total v)) x) else 0) = max 0 (iv_total v - paid)
    \<and> (iv_total v < paid \<longrightarrow> payment_status (cents (iv_total v)) x = InvoiceStatus.PAID)
    \<and> (paid < iv_total v \<longrightarrow> payment_status (cents (iv_total v)) x = PARTIALLY_PAID)"
proof -
  let ?as = "amounts_for k (charges s)" and ?t = "iv_total v"
  let ?y = "js_sub (cents ?t) x"
  have abs: "(\<Sum>a\<leftarrow>?as. \<bar>a\<bar>) = paid"
    unfolding paid_def paid_for_def using pos by (intro arg_cong[of _ _ sum_list] map_idI) auto
  have ge: "0 < paid" "a \<in> set ?as \<Longrightarrow> a \<le> paid" for a
  proof -
    obtain b bs where "?as = b # bs" using some by (cases ?as) auto
    moreover have "0 \<le> sum_list bs" using pos calculation by (intro sum_list_nonneg) auto
    ultimately show "0 < paid" using pos by (auto simp: paid_def paid_for_def)
    show "a \<le> paid" if "a \<in> set ?as"
      using pos that unfolding paid_def paid_for_def by (intro member_le_sum_list) (auto intro: less_imp_le)
  qed
  note r = range[unfolded abs]
  have cr: "cents_range paid" "cents_range ?t" "cents_range (?t - paid)" "cents_range 0"
    using ge(1) by (auto intro: cents_range_le[OF r])
  have each: "cents_range a" if "a \<in> set ?as" for a
    using ge(2)[OF that] pos that by (intro cents_range_le[OF cr(1)]) auto
  have "approx (of_nat (length ?as) / 400000) (js_sum (map cents ?as)) (sum_list ?as)"
    using each len cr(1) abs by (intro approx_js_sum) auto
  moreover have "(of_nat (length ?as) :: rat) / 400000 \<le> 1 / 2000"
    using len by (simp add: divide_le_eq)
  ultimately have x: "approx (1 / 2000) x paid"
    unfolding paid_def paid_for_def x_def using approx_weaken by simp
  have t: "approx (1 / 800000) (cents ?t) ?t" by (rule approx_cents[OF cr(2)])
  have y: "approx (1 / 1000) ?y (?t - paid)"
    using approx_sub[OF t x cr(3)] by (auto intro: approx_weaken)
  have zero: "approx 0 (Fin 0) 0" by (simp add: approx_def)
  have fin: "is_finite x" "is_finite ?y" "is_finite (cents ?t)" using approx_finite x y t by blast+
  have due: "(if js_lt (Fin 0) ?y then dec ?y else 0) = max 0 (?t - paid)"
  proof (cases "js_lt (Fin 0) ?y")
    case True
    then have "js_le (Fin 0) ?y" using js_not_lt[of ?y "Fin 0"] fin by (cases ?y) auto
    then have "0 \<le> ?t - paid" by (intro approx_le[OF zero y]) auto
    then show ?thesis using True decimal_columnD[OF dec y _ cr(3)] by simp
  next
    case False
    then have "js_le ?y (Fin 0)" using js_not_lt[of "Fin 0" ?y] fin by simp
    then have "?t - paid \<le> 0" by (intro approx_le[OF y zero]) auto
    then show ?thesis using False by simp
  qed
  have full: "js_lt (cents ?t) x" if "?t < paid" by (rule approx_lt[OF t x _ that]) simp
  have part: "js_lt x (cents ?t)" if "paid < ?t" by (rule approx_lt[OF x t _ that]) simp
  have pos_x: "js_lt (Fin 0) x" by (rule approx_lt[OF zero x _ ge(1)]) simp
  have "js_le (cents ?t) x" if "?t < paid" using full[OF that] fin by (cases x; cases "cents ?t") auto
  moreover have "\<not> js_le (cents ?t) x" if "paid < ?t" using part[OF that] js_not_lt[of x "cents ?t"] fin by simp
  ultimately show ?thesis
    using due pos_x decimal_columnD[OF dec x _ cr(1)] by (simp add: payment_status_def)
qed

lemma settle_invoices:
  assumes dec: "decimal_column dec" and f: "find_row iv_id k (d_invoices s) = Some v"
    and pos: "\<forall>a \<in> set (amounts_for k (charges s)). 0 < a" and some: "amounts_for k (charges s) \<noteq> []"
    and bounded: "ledger_bounded s" and d: "distinct (map iv_id (d_invoices s))"
    and w: "w \<in> set (d_invoices (settle_invoice dec now k s))"
  shows "(w \<in> set (d_invoices s) \<and> iv_id w \<noteq> k) \<or> (iv_id w = k \<and> invoice_ok s w)"
proof -
  let ?x = "js_sum (map cents (amounts_for k (charges s)))"
  let ?st = "payment_status (cents (iv_total v)) ?x" and ?due = "js_sub (cents (iv_total v)) ?x"
  define g where "g = (\<lambda>r :: invoice_row. r\<lparr>iv_status := ?st, iv_paid := dec ?x,
    iv_due := (if js_lt (Fin 0) ?due then dec ?due else 0),
    iv_paid_at := (if ?st = InvoiceStatus.PAID then Some now else iv_paid_at v)\<rparr>)"
  note v = find_row_SomeD[OF f]
  have b: "length (amounts_for k (charges s)) \<le> 200"
    "cents_range (\<bar>iv_total v\<bar> + (\<Sum>a\<leftarrow>amounts_for k (charges s). \<bar>a\<bar>))"
    using bounded v by (auto simp: ledger_bounded_def)
  have "d_invoices (settle_invoice dec now k s) = update_row iv_id k g (d_invoices s)"
    using f by (auto simp: settle_invoice_def g_def Let_def invoice_sum split: option.splits)
  with w have "w \<in> set (update_row iv_id k g (d_invoices s))" by simp
  then show ?thesis
  proof (rule update_row_cases)
    fix y assume y: "y \<in> set (d_invoices s)" "iv_id y = k" "w = g y"
    then have "y = v" using find_row_distinct[OF d y(1)] f by simp
    then have "invoice_ok s w"
      using settled_row[OF dec pos some b] y by (simp add: invoice_ok_def g_def)
    then show ?thesis using y by (simp add: g_def)
  qed simp
qed

lemma invoice_ok_charges:
  assumes "amounts_for (iv_id v) (charges t) = amounts_for (iv_id v) (charges s)"
  shows "invoice_ok t v = invoice_ok s v"
  using assms by (simp add: invoice_ok_def paid_for_def)

lemma amounts_for_append [simp]: "amounts_for k (cs @ ds) = amounts_for k cs @ amounts_for k ds"
  by (simp add: amounts_for_def)

text \<open>A step adds charges and keeps the invoices and their totals.\<close>

definition grows :: "db \<Rightarrow> db \<Rightarrow> bool" where
  "grows s t \<longleftrightarrow> same_frame s t \<and> (\<exists>cs. charges t = charges s @ cs)"

lemma grows_refl [simp]: "grows s s"
  by (simp add: grows_def)

lemma grows_trans: "grows s t \<Longrightarrow> grows t u \<Longrightarrow> grows s u"
  unfolding grows_def using same_frame_trans by fastforce

lemma same_frame_invoice:
  assumes "same_frame s t" and "v \<in> set (d_invoices s)"
  obtains w where "w \<in> set (d_invoices t)" "iv_id w = iv_id v" "iv_total w = iv_total v"
proof -
  have "(iv_id v, iv_total v) \<in> set (map (\<lambda>v. (iv_id v, iv_total v)) (d_invoices t))"
    using assms by (auto simp: same_frame_def)
  then show thesis using that by auto
qed

lemma ledger_bounded_grows:
  assumes "grows s t" and "ledger_bounded t"
  shows "ledger_bounded s"
  unfolding ledger_bounded_def
proof (intro ballI)
  fix v assume v: "v \<in> set (d_invoices s)"
  obtain cs where f: "same_frame s t" and cs: "charges t = charges s @ cs" using assms(1) by (auto simp: grows_def)
  obtain w where w: "w \<in> set (d_invoices t)" "iv_id w = iv_id v" "iv_total w = iv_total v"
    using same_frame_invoice[OF f v] .
  have b: "length (amounts_for (iv_id v) (charges t)) \<le> 200"
    "cents_range (\<bar>iv_total v\<bar> + (\<Sum>a\<leftarrow>amounts_for (iv_id v) (charges t). \<bar>a\<bar>))"
    using assms(2) w by (auto simp: ledger_bounded_def)
  note nn = abs_sum_nonneg
  have "cents_range (\<bar>iv_total v\<bar> + (\<Sum>a\<leftarrow>amounts_for (iv_id v) (charges s). \<bar>a\<bar>))"
    using nn[of "amounts_for (iv_id v) cs"] nn[of "amounts_for (iv_id v) (charges s)"]
    by (intro cents_range_le[OF b(2)]) (simp add: cs)
  then show "length (amounts_for (iv_id v) (charges s)) \<le> 200
      \<and> cents_range (\<bar>iv_total v\<bar> + (\<Sum>a\<leftarrow>amounts_for (iv_id v) (charges s). \<bar>a\<bar>))"
    using b(1) by (simp add: cs)
qed

lemma verify_charges:
  assumes "verify_payment k v s = (out, t)"
  shows "charges t = charges s \<and> same_frame s t \<and> d_invoices t = d_invoices s"
  using assms
proof (cases rule: verify_payment_cases)
  case (2 p)
  have "map (\<lambda>p. (pm_invoice p, pm_amount p)) (update_row pm_id k (\<lambda>r. r\<lparr>pm_verified_by := Some v\<rparr>) (d_payments s)) = charges s"
    unfolding charges_def by (rule map_update_row_frame) simp
  then show ?thesis using 2(5) by (simp add: charges_def same_frame_def)
qed simp

lemma create_charges:
  assumes "create_payment dec now i p user s = (out, t)"
  shows "(\<exists>e. out = Inl e) \<and> charges t = charges s \<and> same_frame s t \<and> d_invoices t = d_invoices s
    \<or> (\<exists>row. out = Inr row) \<and> charges t = charges s @ [(pa_invoice p, pa_amount p)] \<and> same_frame s t"
  using assms
proof (cases rule: create_payment_cases)
  case (1 e)
  then show ?thesis by (simp add: charges_def)
next
  case (2 row s1)
  have "same_frame s t" using 2(2,13) settle_frame(1) same_frame_trans by auto
  moreover have "charges t = charges s @ [(pa_invoice p, pa_amount p)]"
    using 2 by (simp add: charges_def settle_frame insert_row_def)
  ultimately show ?thesis using 2(1) by simp
qed

lemma payment_step_grows: "grows s (snd (payment_step dec q s))"
proof (cases "(dec, q, s)" rule: payment_step.cases)
  case (1 d now i p user s')
  then show ?thesis
    using create_charges[of dec now i p user s] by (cases "create_payment dec now i p user s") (auto simp: grows_def)
next
  case (2 d now k v s')
  then show ?thesis
    using verify_charges[of k v s] by (cases "verify_payment k v s") (auto simp: grows_def)
qed

lemma payment_run_grows: "grows s (run_requests (payment_step dec) qs s)"
  by (induction qs arbitrary: s) (auto intro: grows_trans payment_step_grows)

lemma reconciled_same: "d_invoices t = d_invoices s \<Longrightarrow> charges t = charges s \<Longrightarrow> reconciled t = reconciled s"
proof -
  assume i: "d_invoices t = d_invoices s" and c: "charges t = charges s"
  have "invoice_ok t v = invoice_ok s v" for v by (rule invoice_ok_charges) (simp add: c)
  then show ?thesis by (simp add: reconciled_def i)
qed

lemma amounts_other: "x \<noteq> Some k \<Longrightarrow> amounts_for k [(x, a)] = []"
  by (simp add: amounts_for_def)

lemma amounts_positive:
  assumes "payments_wf s" and "a \<in> set (amounts_for k (charges s))"
  shows "0 < a"
  using assms by (auto simp: amounts_for_def charges_def payments_wf_def payment_ok_def)

lemma create_payment_reconciled:
  assumes dec: "decimal_column dec" and "reconciled s" and "payments_wf s" and "valid_payment p"
    and c: "create_payment dec now i p user s = (out, t)" and "ledger_bounded t"
  shows "reconciled t"
  using c
proof (cases rule: create_payment_cases)
  case (1 e)
  then show ?thesis using assms(2) reconciled_same[of t s] by (simp add: charges_def)
next
  case (2 row s1)
  have ch: "charges s1 = charges s @ [(pa_invoice p, pa_amount p)]" using 2 by (simp add: charges_def insert_row_def)
  have d: "distinct (map iv_id (d_invoices s1))" using 2(4) assms(2) by (simp add: reconciled_def)
  have ok: "payment_ok s row" using 2(12) assms(4) by simp
  have other: "invoice_ok s1 w" if "w \<in> set (d_invoices s)" "pa_invoice p \<noteq> Some (iv_id w)" for w
    using that assms(2) invoice_ok_charges[of w s1 s] by (simp add: ch amounts_other reconciled_def)
  show ?thesis
  proof (cases "nonempty (pa_invoice p)")
    case False
    have "pa_invoice p \<noteq> Some (iv_id w)" for w
      using False 2(11) by (cases "pa_invoice p") (auto simp: nonempty_def)
    then show ?thesis using False 2(4,13) d other by (auto simp: reconciled_def)
  next
    case True
    define k where "k = the (pa_invoice p)"
    have k: "pa_invoice p = Some k" using True by (auto simp: nonempty_def k_def split: option.splits)
    have t: "t = settle_invoice dec now k s1" using 2(13) True k_def by simp
    have "find_row iv_id k (d_invoices s1) \<noteq> None" using ok k unfolding 2(4) by (simp add: payment_ok_def 2(8))
    then obtain v where v: "find_row iv_id k (d_invoices s1) = Some v" by auto
    have wf: "payments_wf s1" using payments_wf_insert[OF assms(3) 2(2,3)] 2(5,6) ok by simp
    have g: "charges t = charges s1" "same_frame s1 t" using settle_frame(1)[of s1 dec now k] by (simp_all add: t charges_def settle_frame(2))
    then have b: "ledger_bounded s1" using assms(6) by (intro ledger_bounded_grows[of s1 t]) (auto simp: grows_def)
    have some: "amounts_for k (charges s1) \<noteq> []" by (simp add: ch k amounts_for_def)
    have "invoice_ok t w" if w: "w \<in> set (d_invoices t)" for w
    proof -
      have "invoice_ok s1 w"
        using settle_invoices[OF dec v _ some b d w[unfolded t]] amounts_positive[OF wf]
      proof (elim disjE meta_impE ballI)
        assume "w \<in> set (d_invoices s1) \<and> iv_id w \<noteq> k"
        then show ?thesis using other[of w] k unfolding 2(4) by auto
      qed (blast+)
      then show ?thesis using invoice_ok_charges[of w t s1] g(1) by simp
    qed
    moreover have "distinct (map iv_id (d_invoices t))" using same_frame_ids[OF g(2)] d by simp
    ultimately show ?thesis by (simp add: reconciled_def)
  qed
qed

lemma payment_step_reconciled:
  assumes "decimal_column dec" and "reconciled s" and "payments_wf s" and "ledger_bounded (snd (payment_step dec q s))"
  shows "reconciled (snd (payment_step dec q s))"
proof (cases "(dec, q, s)" rule: payment_step.cases)
  case (1 d now i p user s')
  then show ?thesis
    using assms create_payment_reconciled[of dec s p now i user]
    by (cases "create_payment dec now i p user s") auto
next
  case (2 d now k v s')
  then show ?thesis
    using assms verify_charges[of k v s] reconciled_same[of "snd (verify_payment k v s)" s]
    by (cases "verify_payment k v s") auto
qed

lemma payment_run_reconciled:
  assumes "decimal_column dec" and "reconciled s" and "payments_wf s" and "ledger_bounded (run_requests (payment_step dec) qs s)"
  shows "reconciled (run_requests (payment_step dec) qs s)"
  using assms(2-4)
proof (induction qs arbitrary: s)
  case (Cons q qs)
  let ?t = "snd (payment_step dec q s)"
  have "ledger_bounded ?t" using Cons.prems(3) payment_run_grows ledger_bounded_grows by fastforce
  then show ?case
    using Cons.IH[of ?t] Cons.prems payment_step_reconciled[OF assms(1) Cons.prems(1,2)] payment_step_wf[OF Cons.prems(2)]
    by simp
qed simp

text \<open>A verified payment stays verified, by the same account.\<close>

definition verified_by :: "string \<Rightarrow> db \<Rightarrow> string option" where
  "verified_by k s = (case find_row pm_id k (d_payments s) of Some p \<Rightarrow> pm_verified_by p | None \<Rightarrow> None)"

lemma verify_again:
  "nonempty (verified_by k s) \<Longrightarrow> verify_payment k v s = (Inl (Conflict ''Este pago ya fue verificado''), s)"
  by (auto simp: verified_by_def verify_payment_def nonempty_def split: option.splits)

lemma payment_step_verified:
  assumes "nonempty (verified_by k s)"
  shows "verified_by k (snd (payment_step dec q s)) = verified_by k s"
proof (cases "(dec, q, s)" rule: payment_step.cases)
  case (1 d now i p user s')
  obtain out t where c: "create_payment dec now i p user s = (out, t)" by fastforce
  then have "verified_by k t = verified_by k s"
  proof (cases rule: create_payment_cases)
    case (2 row s1)
    then have "d_payments t = insert_row row (d_payments s)" by (simp add: settle_frame)
    moreover obtain p where "find_row pm_id k (d_payments s) = Some p"
      using assms by (cases "find_row pm_id k (d_payments s)") (auto simp: verified_by_def nonempty_def)
    ultimately show ?thesis by (simp add: verified_by_def payments.create_keeps)
  qed (simp add: verified_by_def)
  then show ?thesis using 1 c by simp
next
  case (2 d now k' v s')
  obtain out t where c: "verify_payment k' v s = (out, t)" by fastforce
  then have "verified_by k t = verified_by k s"
  proof (cases rule: verify_payment_cases)
    case (2 p)
    then have "k \<noteq> k'" using assms by (auto simp: verified_by_def)
    then show ?thesis using 2(5) by (simp add: verified_by_def payments.lookup_modify)
  qed simp
  then show ?thesis using 2 c by simp
qed

lemma payment_run_verified:
  "nonempty (verified_by k s) \<Longrightarrow> verified_by k (run_requests (payment_step dec) qs s) = verified_by k s"
  by (induction qs arbitrary: s) (simp_all add: payment_step_verified)

section \<open>Properties\<close>

definition sample_payment :: "PaymentMethod \<Rightarrow> int \<Rightarrow> payment_input" where
  "sample_payment m a =
     \<lparr>pa_invoice = Some ''i1'', pa_order = Some ''o1'', pa_method = m, pa_amount = a, pa_reference = None,
      pa_channel = None, pa_personal = None, pa_yape = Some ''999'', pa_notes = None, pa_receipt = Some ''r'',
      pa_paid_at = None\<rparr>"

definition sample_ledger :: db where
  "sample_ledger = empty_db
     \<lparr>d_accounts := [sample_account ''a1'' UserRole.ADMIN], d_orders := [sample_order ''o1'' READY],
      d_invoices := [sample_invoice ''i1'' ISSUED 11800 0],
      d_settings := [\<lparr>se_key = ''TALLER_YAPE_NUMBER'', se_value = ''123'', se_category = ''GENERAL'', se_public = False, se_updated_by = None\<rparr>]\<rparr>"

lemma sample_ledger_simps [simp]:
  "d_accounts sample_ledger = [sample_account ''a1'' UserRole.ADMIN]"
  "d_orders sample_ledger = [sample_order ''o1'' READY]"
  "d_invoices sample_ledger = [sample_invoice ''i1'' ISSUED 11800 0]"
  "d_payments sample_ledger = []" "account_exists ''a1'' sample_ledger"
  "official_yape sample_ledger = Some ''123''"
  by (simp_all add: sample_ledger_def account_exists_def official_yape_def)

lemma sample_ledger_wf: "payments_wf sample_ledger"
  by (simp add: payments_wf_def)

text \<open>C17. Through any run of payment requests every payment stays well typed: its amount is positive, it names an invoice or
  an order, the ones it names exist, cash has an invoice and a card payment its receipt, whoever verified it is an
  account, and a payment to another Yape account than the shop's is marked as personal. Payment ids stay unique.\<close>

theorem payments_well_typed:
  assumes "payments_wf s" and "t = run_requests (payment_step dec) qs s"
  shows "distinct (map pm_id (d_payments t))
    \<and> (\<forall>p \<in> set (d_payments t). 0 < pm_amount p
         \<and> (pm_invoice p \<noteq> None \<or> pm_order p \<noteq> None)
         \<and> (pm_method p = CASH \<longrightarrow> pm_invoice p \<noteq> None) \<and> (pm_method p = CARD \<longrightarrow> nonempty (pm_receipt p))
         \<and> (\<forall>k. pm_invoice p = Some k \<longrightarrow> find_row iv_id k (d_invoices t) \<noteq> None)
         \<and> (\<forall>k. pm_order p = Some k \<longrightarrow> find_row wo_id k (d_orders t) \<noteq> None)
         \<and> (\<forall>v. pm_verified_by p = Some v \<longrightarrow> account_exists v t)
         \<and> (pm_method p = YAPE \<and> nonempty (pm_yape_account p) \<and> official_yape t \<noteq> None
              \<and> pm_yape_account p \<noteq> official_yape t \<longrightarrow> pm_personal_yape p))"
  using payments_service.run_inv[OF assms(1), of dec qs] assms(2)
  by (simp add: payments_wf_def payment_ok_def)

theorem payments_well_typed_witness:
  "\<exists>t. t = run_requests (payment_step half_up) [(5, CreatePayment ''p1'' (sample_payment YAPE 6000) ''a1'')] sample_ledger
     \<and> distinct (map pm_id (d_payments t))"
  using payments_well_typed[OF sample_ledger_wf refl,
      of half_up "[(5, CreatePayment ''p1'' (sample_payment YAPE 6000) ''a1'')]"] by blast

text \<open>C16. After any run of payment requests, of up to 200 payments per invoice, each invoice carries exactly, to the cent, the
  sum of its payments, although it is computed on doubles; once it has a payment, the amount due is the rest, never
  below zero, it is paid when the payments exceed its total and partially paid while they do not reach it. When they
  reach it exactly, a single payment makes it paid; of several, the sum of the doubles decides, and it may fall short.\<close>

theorem ledger_reconciled:
  assumes "decimal_column dec" and "payments_wf s" and "reconciled s"
    and "t = run_requests (payment_step dec) qs s" and "ledger_bounded t" and "v \<in> set (d_invoices t)"
  shows "iv_paid v = paid_for (iv_id v) t
    \<and> (amounts_for (iv_id v) (charges t) \<noteq> [] \<longrightarrow>
         iv_due v = max 0 (iv_total v - paid_for (iv_id v) t)
         \<and> (iv_total v < paid_for (iv_id v) t \<longrightarrow> iv_status v = InvoiceStatus.PAID)
         \<and> (paid_for (iv_id v) t < iv_total v \<longrightarrow> iv_status v = PARTIALLY_PAID)
         \<and> (amounts_for (iv_id v) (charges t) = [iv_total v] \<longrightarrow> iv_status v = InvoiceStatus.PAID)
         \<and> (paid_for (iv_id v) t = iv_total v \<longrightarrow>
               iv_status v = (if js_le (cents (iv_total v)) (js_sum (map cents (amounts_for (iv_id v) (charges t))))
                              then InvoiceStatus.PAID else PARTIALLY_PAID)))"
proof -
  have ok: "invoice_ok t v"
    using payment_run_reconciled[OF assms(1,3,2), of qs] assms(4-6) by (simp add: reconciled_def)
  have "cents_range (iv_total v)" using assms(5,6) abs_sum_nonneg[of "amounts_for (iv_id v) (charges t)"]
    by (auto simp: ledger_bounded_def cents_range_def)
  then have "js_le (cents (iv_total v)) (js_sum [cents (iv_total v)])" by (simp add: js_sum_one cents_le)
  then show ?thesis
    using ok by (auto simp: invoice_ok_def payment_status_def split: if_splits)
qed

lemma sample_cents:
  "cents 80 = Fin (7205759403792794 / 2 ^ 53)" "cents 70 = Fin (6305039478318694 / 2 ^ 53)"
  "cents 10 = Fin (7205759403792794 / 2 ^ 56)"
  using cents_at[of "- 1" 80 7205759403792794] cents_at[of "- 1" 70 6305039478318694] cents_at[of "- 4" 10 7205759403792794]
  by (simp_all add: power_int_minus inverse_eq_divide cents_range_def)

lemma sample_sum: "js_sum [cents 70, cents 10] = Fin (7205759403792793 / 2 ^ 53)"
proof -
  have "js_sum [cents 70, cents 10] = js_add (cents 70) (cents 10)" using js_sum_one[of 70] by (simp add: js_sum_def cents_range_def)
  also have "\<dots> = Fin (rnd (6305039478318694 / 2 ^ 53 + 7205759403792794 / 2 ^ 56))" by (simp add: sample_cents fl_rnd)
  also have "rnd (6305039478318694 / 2 ^ 53 + 7205759403792794 / 2 ^ 56) = of_int 7205759403792793 * 2 powi (- 1 - 52)"
    by (rule rnd_at) (simp_all add: power_int_minus inverse_eq_divide)
  finally show ?thesis by (simp add: power_int_minus inverse_eq_divide)
qed

text \<open>Payments of 0.70 and 0.10 soles leave an invoice of 0.80 partially paid, with nothing due.\<close>

lemma exact_payments_may_fall_short:
  "payment_status (cents 80) (js_sum [cents 70, cents 10]) = PARTIALLY_PAID"
  by (simp add: payment_status_def sample_sum sample_cents(1))

lemma sample_ledger_run:
  assumes "t = run_requests (payment_step half_up) [(5, CreatePayment ''p1'' (sample_payment YAPE 6000) ''a1'')] sample_ledger"
  shows "map (\<lambda>v. (iv_id v, iv_total v)) (d_invoices t) = [(''i1'', 11800)]" "charges t = [(Some ''i1'', 6000)]"
proof -
  have "same_frame sample_ledger t" unfolding assms using payment_run_grows by (simp only: grows_def)
  then show "map (\<lambda>v. (iv_id v, iv_total v)) (d_invoices t) = [(''i1'', 11800)]" by (simp add: same_frame_def)
  show "charges t = [(Some ''i1'', 6000)]"
    by (simp add: assms charges_def settle_frame valid_payment_def sample_payment_def create_payment_def nonempty_def
        check_yape_def audit_create_def missing_reference_def Let_def insert_row_def account_exists_def)
qed

theorem ledger_reconciled_witness:
  "\<exists>t v. t = run_requests (payment_step half_up) [(5, CreatePayment ''p1'' (sample_payment YAPE 6000) ''a1'')] sample_ledger
     \<and> v \<in> set (d_invoices t) \<and> iv_paid v = 6000 \<and> iv_due v = 5800 \<and> iv_status v = PARTIALLY_PAID"
proof -
  obtain t where t: "t = run_requests (payment_step half_up) [(5, CreatePayment ''p1'' (sample_payment YAPE 6000) ''a1'')] sample_ledger" by simp
  note r = sample_ledger_run[OF t]
  obtain v where v: "d_invoices t = [v]" "iv_id v = ''i1''" "iv_total v = 11800" using r(1) by auto
  have rec: "reconciled sample_ledger"
    by (simp add: reconciled_def invoice_ok_def paid_for_def charges_def amounts_for_def)
  have "ledger_bounded t" by (simp add: ledger_bounded_def v r(2) amounts_for_def cents_range_def)
  then have "iv_paid v = 6000 \<and> iv_due v = 5800 \<and> iv_status v = PARTIALLY_PAID"
    using ledger_reconciled[OF decimal_column_half_up sample_ledger_wf rec t, of v]
    by (simp add: v r(2) amounts_for_def paid_for_def)
  then show ?thesis using t v by auto
qed

text \<open>A payment is verified at most once: the verification succeeds exactly when the payment is there, has no verifier and
  the verifier is an account, whoever registered the payment; after it, whatever payment requests follow, every
  other verification is refused and changes nothing.\<close>

theorem payment_verified_once:
  "((\<exists>r. fst (verify_payment k v s) = Inr r) \<longleftrightarrow>
      (\<exists>p. find_row pm_id k (d_payments s) = Some p \<and> \<not> nonempty (pm_verified_by p) \<and> account_exists v s))
    \<and> (\<forall>r t. verify_payment k v s = (Inr r, t) \<and> v \<noteq> [] \<longrightarrow>
         (\<forall>v' qs. verify_payment k v' (run_requests (payment_step dec) qs t)
                    = (Inl (Conflict ''Este pago ya fue verificado''), run_requests (payment_step dec) qs t)))"
proof -
  have "verified_by k t = Some v" if c: "verify_payment k v s = (Inr r, t)" for r t
    using c
  proof (cases rule: verify_payment_cases)
    case (2 p)
    then show ?thesis by (simp add: verified_by_def payments.lookup_modify)
  qed simp_all
  then have "verify_payment k v' (run_requests (payment_step dec) qs t)
      = (Inl (Conflict ''Este pago ya fue verificado''), run_requests (payment_step dec) qs t)"
    if "verify_payment k v s = (Inr r, t)" "v \<noteq> []" for r t v' qs
    using that by (intro verify_again) (simp add: payment_run_verified nonempty_def)
  moreover have "(\<exists>r. fst (verify_payment k v s) = Inr r) \<longleftrightarrow>
      (\<exists>p. find_row pm_id k (d_payments s) = Some p \<and> \<not> nonempty (pm_verified_by p) \<and> account_exists v s)"
    by (simp add: verify_payment_def Let_def split: option.splits)
  ultimately show ?thesis by blast
qed

theorem payment_verified_once_witness:
  "\<exists>r t. verify_payment ''p1'' ''a1'' (sample_ledger\<lparr>d_payments := [\<lparr>pm_id = ''p1'', pm_invoice = Some ''i1'', pm_order = None,
       pm_method = YAPE, pm_amount = 6000, pm_reference = None, pm_received_by = ''a1'', pm_verified_by = None,
       pm_channel = IN_PERSON, pm_personal_yape = False, pm_yape_account = None, pm_notes = None, pm_receipt = None,
       pm_paid_at = 0, pm_created_at = 0\<rparr>]\<rparr>) = (Inr r, t)
     \<and> fst (verify_payment ''p1'' ''a2'' t) = Inl (Conflict ''Este pago ya fue verificado'')"
  (is "\<exists>r t. verify_payment _ _ ?s = _ \<and> _")
proof -
  obtain r t where v: "verify_payment ''p1'' ''a1'' ?s = (Inr r, t)"
    by (simp add: verify_payment_def nonempty_def account_exists_def Let_def)
  then have "\<forall>v' qs. verify_payment ''p1'' v' (run_requests (payment_step half_up) qs t)
      = (Inl (Conflict ''Este pago ya fue verificado''), run_requests (payment_step half_up) qs t)"
    using payment_verified_once[of "''p1''" "''a1''" ?s half_up] by simp
  from this[rule_format, of "''a2''" "[]"] show ?thesis using v by simp
qed

end
