(* ===== verification/PurchasesService.thy ===== *)
theory PurchasesService
  imports InventoryService DomainInventory
begin

text \<open>
  \<open>PurchasesService\<close> (\<open>purchases.service.ts\<close>): purchase orders, their status machine and the reception of goods,
  which raises the stock and blends the cost of the items with the landed cost of the purchase. The reception
  works on the rows it read before its transaction, as the code does. The interface \<open>status_machine\<close> is
  interpreted on the transition table; the reception is shown to refine a ledger of received and stocked units.
\<close>

section \<open>The status machine\<close>

fun purchase_transitions :: "PurchaseStatus \<Rightarrow> PurchaseStatus list" where
  "purchase_transitions PurchaseStatus.DRAFT = [PurchaseStatus.SENT, PurchaseStatus.CANCELLED]"
| "purchase_transitions PurchaseStatus.SENT = [CONFIRMED, PurchaseStatus.CANCELLED]"
| "purchase_transitions CONFIRMED = [PARTIALLY_RECEIVED, PurchaseStatus.RECEIVED, PurchaseStatus.CANCELLED]"
| "purchase_transitions PARTIALLY_RECEIVED = [PurchaseStatus.RECEIVED, PurchaseStatus.CANCELLED]"
| "purchase_transitions PurchaseStatus.RECEIVED = []"
| "purchase_transitions PurchaseStatus.CANCELLED = []"

interpretation purchase_machine: status_machine purchase_transitions PurchaseStatus.CANCELLED
proof
  show "a \<notin> set (purchase_transitions a)" for a by (cases a) simp_all
  show "PurchaseStatus.CANCELLED \<in> set (purchase_transitions a)" if "purchase_transitions a \<noteq> []" for a
    using that by (cases a) simp_all
qed simp

section \<open>Reading\<close>

record purchase_filters =
  uf_status :: "PurchaseStatus option"
  uf_supplier :: "string option"
  uf_search :: "string option"
  uf_from :: "int option"
  uf_to :: "int option"
  uf_page :: "nat option"
  uf_limit :: "nat option"

definition find_all_purchases :: "purchase_filters \<Rightarrow> db \<Rightarrow> purchase_row page" where
  "find_all_purchases f s =
     (let rows = sort_key (\<lambda>p. - pu_created_at p)
                   (filter (\<lambda>p. option_matches (uf_status f) (pu_status p)
                              \<and> (nonempty (uf_supplier f) \<longrightarrow> Some (pu_supplier p) = uf_supplier f)
                              \<and> in_range (uf_from f) (uf_to f) (pu_created_at p)
                              \<and> matches_search (uf_search f) [Some (pu_number p), pu_notes p]) (d_purchases s))
      in page_of (case uf_page f of Some n \<Rightarrow> n | None \<Rightarrow> 1) (case uf_limit f of Some n \<Rightarrow> n | None \<Rightarrow> 20) rows)"

definition items_of :: "string \<Rightarrow> db \<Rightarrow> purchase_item_row list" where
  "items_of k s = filter (\<lambda>i. pi_purchase i = k) (d_purchase_items s)"

definition find_one_purchase :: "string \<Rightarrow> db \<Rightarrow> http_error + (purchase_row \<times> purchase_item_row list)" where
  "find_one_purchase k s =
     (case find_row pu_id k (d_purchases s) of
        None \<Rightarrow> Inl (NotFound ''Compra no encontrada'')
      | Some p \<Rightarrow> Inr (p, items_of k s))"

definition purchases_by_supplier :: "string \<Rightarrow> db \<Rightarrow> http_error + purchase_row list" where
  "purchases_by_supplier k s =
     (if find_row su_id k (d_suppliers s) = None then Inl (NotFound ''Proveedor no encontrado'')
      else Inr (sort_key (\<lambda>p. - pu_created_at p) (filter (\<lambda>p. pu_supplier p = k) (d_purchases s))))"

definition get_imports :: "db \<Rightarrow> purchase_row list" where
  "get_imports s = sort_key (\<lambda>p. - pu_created_at p) (filter pu_imported (d_purchases s))"

section \<open>Creating a purchase\<close>

record purchase_line_input =
  ul_id :: string
  ul_item :: string
  ul_quantity :: int
  ul_unit_cost :: int

record purchase_input =
  ui_supplier :: string
  ui_lines :: "purchase_line_input list"
  ui_tax :: "int option"
  ui_shipping :: "int option"
  ui_customs :: "int option"
  ui_imported :: "bool option"
  ui_notes :: "string option"
  ui_commission_amount :: "int option"
  ui_commission_to :: "string option"

definition line_cost :: "purchase_line_input \<Rightarrow> number" where
  "line_cost l = js_mul (js_int (ul_quantity l)) (cents (ul_unit_cost l))"

primrec lines_cost :: "purchase_line_input list \<Rightarrow> number \<Rightarrow> db \<Rightarrow> http_error + number" where
  "lines_cost [] acc s = Inr acc"
| "lines_cost (l # ls) acc s =
     (if find_row it_id (ul_item l) (d_items s) = None then Inl (NotFound ''Item de inventario no encontrado'')
      else lines_cost ls (js_add acc (line_cost l)) s)"

definition amount_or_zero :: "int option \<Rightarrow> number" where
  "amount_or_zero x = cents (case x of Some n \<Rightarrow> n | None \<Rightarrow> 0)"

definition new_purchase_item :: "(number \<Rightarrow> int) \<Rightarrow> string \<Rightarrow> purchase_line_input \<Rightarrow> purchase_item_row" where
  "new_purchase_item dec k l =
     \<lparr>pi_id = ul_id l, pi_purchase = k, pi_item = ul_item l, pi_quantity = ul_quantity l,
      pi_unit_cost = ul_unit_cost l, pi_total_cost = dec (line_cost l), pi_received = 0\<rparr>"

definition purchase_number :: "int \<Rightarrow> db \<Rightarrow> string" where
  "purchase_number year s =
     document_number ''OC'' year (count_where (\<lambda>p. starts_with (number_prefix ''OC'' year) (pu_number p)) (d_purchases s))"

definition new_purchase ::
    "(number \<Rightarrow> int) \<Rightarrow> int \<Rightarrow> string \<Rightarrow> string \<Rightarrow> purchase_input \<Rightarrow> bool \<Rightarrow> number \<Rightarrow> string \<Rightarrow> purchase_row" where
  "new_purchase dec now k num u imp subtotal user =
     (let tax = amount_or_zero (ui_tax u); shipping = amount_or_zero (ui_shipping u); customs = amount_or_zero (ui_customs u)
      in \<lparr>pu_id = k, pu_number = num, pu_supplier = ui_supplier u, pu_status = PurchaseStatus.DRAFT,
          pu_subtotal = dec subtotal, pu_tax = dec tax, pu_shipping = dec shipping, pu_customs = dec customs,
          pu_total = dec (js_add (js_add (js_add subtotal tax) shipping) customs),
          pu_commission_amount = ui_commission_amount u, pu_commission_to = ui_commission_to u,
          pu_imported = imp, pu_ordered_at = None, pu_received_at = None, pu_notes = ui_notes u,
          pu_created_by = user, pu_created_at = now\<rparr>)"

definition purchase_ids_taken :: "string \<Rightarrow> string \<Rightarrow> purchase_line_input list \<Rightarrow> db \<Rightarrow> bool" where
  "purchase_ids_taken k num ls s \<longleftrightarrow> num \<in> pu_number ` set (d_purchases s) \<or> k \<in> pu_id ` set (d_purchases s)
     \<or> (\<exists>l \<in> set ls. ul_id l \<in> pi_id ` set (d_purchase_items s)) \<or> \<not> distinct (map ul_id ls)"

definition create_purchase ::
    "(number \<Rightarrow> int) \<Rightarrow> int \<Rightarrow> int \<Rightarrow> string \<Rightarrow> purchase_input \<Rightarrow> string \<Rightarrow> db \<Rightarrow> purchase_row answer" where
  "create_purchase dec now year k u user s =
     (case find_row su_id (ui_supplier u) (d_suppliers s) of
        None \<Rightarrow> (Inl (NotFound ''Proveedor no encontrado''), s)
      | Some su \<Rightarrow>
          (case lines_cost (ui_lines u) (Fin 0) s of
             Inl e \<Rightarrow> (Inl e, s)
           | Inr subtotal \<Rightarrow>
               let imp = (case ui_imported u of Some b \<Rightarrow> b | None \<Rightarrow> su_importer su);
                   num = purchase_number year s
               in (case and_then (assert_import_declaration imp (amount_or_zero (ui_customs u)))
                          (\<lambda>_. assert_commission_recipient (map_option cents (ui_commission_amount u)) (ui_commission_to u)) of
                     Inl e \<Rightarrow> (Inl e, s)
                   | Inr _ \<Rightarrow>
                       if purchase_ids_taken k num (ui_lines u) s then (Inl (DbError ''P2002''), s)
                       else
                         let p = new_purchase dec now k num u imp subtotal user
                         in (Inr p, s\<lparr>d_purchases := insert_row p (d_purchases s),
                                     d_purchase_items := d_purchase_items s @ map (new_purchase_item dec k) (ui_lines u)\<rparr>))))"

section \<open>Changing the status\<close>

definition update_purchase :: "string \<Rightarrow> (purchase_row \<Rightarrow> purchase_row) \<Rightarrow> db \<Rightarrow> db" where
  "update_purchase k f s = s\<lparr>d_purchases := update_row pu_id k f (d_purchases s)\<rparr>"

definition update_purchase_status :: "int \<Rightarrow> string \<Rightarrow> PurchaseStatus \<Rightarrow> db \<Rightarrow> purchase_row answer" where
  "update_purchase_status now k st s =
     (case find_row pu_id k (d_purchases s) of
        None \<Rightarrow> (Inl (NotFound ''Compra no encontrada''), s)
      | Some p \<Rightarrow>
          if st \<notin> set (purchase_transitions (pu_status p)) then (Inl (Conflict ''No se puede cambiar de estado''), s)
          else
            let f = (\<lambda>r. r\<lparr>pu_status := st,
                           pu_ordered_at := (if st = PurchaseStatus.SENT then Some now else pu_ordered_at r),
                           pu_received_at := (if st = PurchaseStatus.RECEIVED then Some now else pu_received_at r)\<rparr>)
            in (Inr (f p), update_purchase k f s))"

section \<open>Receiving goods\<close>

record receipt_line =
  rl_item :: string
  rl_quantity :: int
  rl_movement :: string

text \<open>The items of a purchase with the rows of the inventory, as they were read.\<close>

definition received_snapshot :: "string \<Rightarrow> db \<Rightarrow> (purchase_item_row \<times> item_row) list" where
  "received_snapshot k s = [(i, r). i \<leftarrow> items_of k s, Some r \<leftarrow> [find_row it_id (pi_item i) (d_items s)]]"

definition purchase_allocations :: "purchase_row \<Rightarrow> (purchase_item_row \<times> item_row) list \<Rightarrow> landed_cost_allocation list" where
  "purchase_allocations p snap =
     allocate (map (\<lambda>(i, r). \<lparr>pl_item_id = pi_item i, pl_quantity = pi_quantity i, pl_unit_cost = cents (pi_unit_cost i)\<rparr>) snap)
       (cents (pu_customs p)) (cents (case pu_commission_amount p of Some n \<Rightarrow> n | None \<Rightarrow> 0))"

text \<open>The item after a reception: more stock, and the cost blended with what the row was when it was read (\<open>r\<close>).\<close>

definition restock :: "(number \<Rightarrow> int) \<Rightarrow> bool \<Rightarrow> item_row \<Rightarrow> int \<Rightarrow> landed_cost_allocation \<Rightarrow> item_row \<Rightarrow> item_row" where
  "restock dec imp r q a x =
     (let blended = blend_average_cost (it_stock r) (cents (it_cost r))
                      (cents (case it_customs r of Some n \<Rightarrow> n | None \<Rightarrow> 0)) q
                      (al_landed_unit_cost a) (al_customs_per_unit a)
      in x\<lparr>it_stock := it_stock x + q, it_cost := dec (bl_cost_price blended),
           it_customs := Some (dec (bl_customs_cost blended)), it_imported := (imp \<or> it_imported r)\<rparr>)"

lemma restock_simps [simp]:
  "it_id (restock dec imp r q a x) = it_id x" "it_sku (restock dec imp r q a x) = it_sku x"
  "it_stock (restock dec imp r q a x) = it_stock x + q"
  by (simp_all add: restock_def Let_def)

definition receive_line ::
    "(number \<Rightarrow> int) \<Rightarrow> int \<Rightarrow> string \<Rightarrow> purchase_row \<Rightarrow> (purchase_item_row \<times> item_row) list \<Rightarrow> receipt_line \<Rightarrow> db
      \<Rightarrow> string answer" where
  "receive_line dec now user p snap l s =
     (case List.find (\<lambda>x. pi_id (fst x) = rl_item l) snap of
        None \<Rightarrow> (Inl (NotFound ''Item de compra no encontrado''), s)
      | Some (i, r) \<Rightarrow>
          if pi_quantity i < pi_received i + rl_quantity l
          then (Inl (Conflict ''Cantidad recibida excede la ordenada''), s)
          else
            (case List.find (\<lambda>a. al_item_id a = pi_item i) (purchase_allocations p snap) of
               None \<Rightarrow> (Inl (DomainError ''TypeError''), s)
             | Some a \<Rightarrow>
                 let s1 = s\<lparr>d_purchase_items := update_row pi_id (rl_item l)
                              (\<lambda>x. x\<lparr>pi_received := pi_received i + rl_quantity l\<rparr>) (d_purchase_items s)\<rparr>;
                     s2 = update_item (pi_item i) (restock dec (pu_imported p) r (rl_quantity l) a) s1;
                     m = \<lparr>mv_id = rl_movement l, mv_item = pi_item i, mv_type = IN, mv_quantity = rl_quantity l,
                          mv_order = None, mv_by = user, mv_justification = Some (''Recepcion de compra '' @ pu_number p),
                          mv_unit_cost = Some (dec (al_landed_unit_cost a)), mv_at = now\<rparr>
                 in (Inr (pi_item i), s2\<lparr>d_movements := insert_row m (d_movements s2)\<rparr>)))"

primrec receive_lines ::
    "(number \<Rightarrow> int) \<Rightarrow> int \<Rightarrow> string \<Rightarrow> purchase_row \<Rightarrow> (purchase_item_row \<times> item_row) list \<Rightarrow> receipt_line list \<Rightarrow> db
      \<Rightarrow> string list answer" where
  "receive_lines dec now user p snap [] s = (Inr [], s)"
| "receive_lines dec now user p snap (l # ls) s =
     (case receive_line dec now user p snap l s of
        (Inl e, s1) \<Rightarrow> (Inl e, s1)
      | (Inr x, s1) \<Rightarrow>
          (case receive_lines dec now user p snap ls s1 of
             (Inl e, s2) \<Rightarrow> (Inl e, s2)
           | (Inr xs, s2) \<Rightarrow> (Inr (x # xs), s2)))"

definition settle_purchase :: "int \<Rightarrow> string \<Rightarrow> db \<Rightarrow> db" where
  "settle_purchase now k s =
     (if list_all (\<lambda>i. pi_quantity i \<le> pi_received i) (items_of k s)
      then update_purchase k (\<lambda>r. r\<lparr>pu_status := PurchaseStatus.RECEIVED, pu_received_at := Some now\<rparr>) s
      else if list_ex (\<lambda>i. 0 < pi_received i) (items_of k s)
      then update_purchase k (\<lambda>r. r\<lparr>pu_status := PARTIALLY_RECEIVED\<rparr>) s
      else s)"

definition receivable :: "PurchaseStatus list" where
  "receivable = [CONFIRMED, PurchaseStatus.SENT, PARTIALLY_RECEIVED]"

definition receive_items ::
    "(number \<Rightarrow> int) \<Rightarrow> int \<Rightarrow> string \<Rightarrow> receipt_line list \<Rightarrow> string \<Rightarrow> db \<Rightarrow> purchase_item_row list answer" where
  "receive_items dec now k ls user s =
     (case find_row pu_id k (d_purchases s) of
        None \<Rightarrow> (Inl (NotFound ''Compra no encontrada''), s)
      | Some p \<Rightarrow>
          if pu_status p = PurchaseStatus.CANCELLED
          then (Inl (Conflict ''No se pueden recibir items de una compra cancelada''), s)
          else if pu_status p \<notin> set receivable
          then (Inl (Conflict ''La compra debe estar en estado CONFIRMED, SENT o PARTIALLY_RECEIVED''), s)
          else
            (case transaction (receive_lines dec now user p (received_snapshot k s) ls) s of
               (Inl e, s1) \<Rightarrow> (Inl e, s1)
             | (Inr touched, s1) \<Rightarrow>
                 let s2 = set_redis (redis_del valuation_key
                            (foldl (\<lambda>r x. redis_del (item_key x) r) (d_redis s1) touched)) s1
                 in (Inr (items_of k s2), settle_purchase now k s2)))"

section \<open>The requests\<close>

datatype purchase_request =
    CreatePurchase string purchase_input string
  | SetPurchaseStatus string PurchaseStatus
  | ReceiveItems string "receipt_line list" string

definition valid_purchase :: "purchase_input \<Rightarrow> bool" where
  "valid_purchase u \<longleftrightarrow> list_all (\<lambda>l. 1 \<le> ul_quantity l) (ui_lines u)"

definition valid_receipt :: "receipt_line list \<Rightarrow> bool" where
  "valid_receipt ls \<longleftrightarrow> list_all (\<lambda>l. 1 \<le> rl_quantity l) ls"

fun purchase_step :: "(number \<Rightarrow> int) \<Rightarrow> int \<times> int \<times> purchase_request \<Rightarrow> db \<Rightarrow> unit answer" where
  "purchase_step dec (now, year, CreatePurchase i u user) s =
     (if \<not> valid_purchase u then (Inl (BadRequest ''validation''), s)
      else drop_answer (create_purchase dec now year i u user s))"
| "purchase_step dec (now, year, SetPurchaseStatus k st) s = drop_answer (update_purchase_status now k st s)"
| "purchase_step dec (now, year, ReceiveItems k ls user) s =
     (if \<not> valid_receipt ls then (Inl (BadRequest ''validation''), s)
      else drop_answer (receive_items dec now k ls user s))"

section \<open>Well-formed purchases\<close>

definition purchase_item_ok :: "db \<Rightarrow> purchase_item_row \<Rightarrow> bool" where
  "purchase_item_ok s i \<longleftrightarrow> 1 \<le> pi_quantity i \<and> 0 \<le> pi_received i \<and> pi_received i \<le> pi_quantity i
     \<and> find_row it_id (pi_item i) (d_items s) \<noteq> None"

definition purchases_wf :: "db \<Rightarrow> bool" where
  "purchases_wf s \<longleftrightarrow> distinct (map pu_id (d_purchases s)) \<and> distinct (map pi_id (d_purchase_items s))
     \<and> (\<forall>i \<in> set (d_purchase_items s). purchase_item_ok s i)"

text \<open>The line of a receipt that a purchase can still take, judged on the rows read before the transaction.\<close>

definition line_fits :: "purchase_item_row list \<Rightarrow> receipt_line \<Rightarrow> bool" where
  "line_fits rows l \<longleftrightarrow> (\<exists>i \<in> set rows. pi_id i = rl_item l \<and> pi_received i + rl_quantity l \<le> pi_quantity i)"

lemma find_SomeD: "List.find P xs = Some x \<Longrightarrow> x \<in> set xs \<and> P x"
  by (auto simp: find_Some_iff)

lemma same_key: "distinct (map f xs) \<Longrightarrow> x \<in> set xs \<Longrightarrow> y \<in> set xs \<Longrightarrow> f x = f y \<Longrightarrow> x = y"
  by (auto simp: distinct_map dest: inj_onD)

lemma snapshot_items:
  assumes "purchases_wf s"
  shows "map fst (received_snapshot k s) = items_of k s"
    and "(i, r) \<in> set (received_snapshot k s) \<Longrightarrow> find_row it_id (pi_item i) (d_items s) = Some r"
proof -
  have "map fst [(i, r). i \<leftarrow> is, Some r \<leftarrow> [find_row it_id (pi_item i) (d_items s)]] = is"
    if "\<forall>i \<in> set is. find_row it_id (pi_item i) (d_items s) \<noteq> None" for "is"
    using that by (induction "is") auto
  from this[of "items_of k s"] show "map fst (received_snapshot k s) = items_of k s"
    using assms by (simp add: received_snapshot_def items_of_def purchases_wf_def purchase_item_ok_def)
  show "(i, r) \<in> set (received_snapshot k s) \<Longrightarrow> find_row it_id (pi_item i) (d_items s) = Some r"
    by (auto simp: received_snapshot_def split: option.splits)
qed

lemma find_snapshot:
  assumes "purchases_wf s" and "i \<in> set (items_of k s)"
  obtains r where "List.find (\<lambda>x. pi_id (fst x) = pi_id i) (received_snapshot k s) = Some (i, r)"
    "find_row it_id (pi_item i) (d_items s) = Some r"
proof -
  have d: "distinct (map pi_id (items_of k s))"
    using assms(1) by (simp add: purchases_wf_def items_of_def distinct_map_filter)
  have "find (\<lambda>x. pi_id (fst x) = pi_id i) xs \<noteq> None \<and> (\<forall>y. find (\<lambda>x. pi_id (fst x) = pi_id i) xs = Some y \<longrightarrow> fst y = i)"
    if "distinct (map pi_id (map fst xs))" "i \<in> set (map fst xs)" for xs :: "(purchase_item_row \<times> item_row) list"
    using that by (induction xs) (force simp: image_iff)+
  from this[of "received_snapshot k s"] snapshot_items(1)[OF assms(1), of k] d assms(2)
  obtain r where f: "List.find (\<lambda>x. pi_id (fst x) = pi_id i) (received_snapshot k s) = Some (i, r)" by fastforce
  then show thesis using that f find_SomeD[OF f] snapshot_items(2)[OF assms(1)] by blast
qed

lemma allocation_found:
  assumes "(i, r) \<in> set snap"
  shows "\<exists>a. List.find (\<lambda>a. al_item_id a = pi_item i) (purchase_allocations p snap) = Some a"
proof -
  have "pi_item i \<in> set (map al_item_id (purchase_allocations p snap))"
    using assms unfolding purchase_allocations_def allocate_items by force
  then have "\<exists>a \<in> set (purchase_allocations p snap). al_item_id a = pi_item i" by auto
  then show ?thesis by (metis (mono_tags, lifting) find_None_iff option.exhaust)
qed

lemma snapshot_find_row:
  assumes "List.find (\<lambda>x. pi_id (fst x) = rl_item l) (received_snapshot k s) = Some (i, r)" and "purchases_wf s"
  shows "i \<in> set (items_of k s) \<and> pi_id i = rl_item l \<and> find_row it_id (pi_item i) (d_items s) = Some r
    \<and> (i, r) \<in> set (received_snapshot k s)"
proof -
  have m: "(i, r) \<in> set (received_snapshot k s)" "pi_id i = rl_item l"
    using find_SomeD[OF assms(1)] by simp_all
  then have "i \<in> set (map fst (received_snapshot k s))" by force
  then show ?thesis using m snapshot_items[OF assms(2)] by auto
qed

text \<open>One line: accepted exactly when it fits, whatever the lines before it did.\<close>

lemma receive_line_out:
  assumes wf: "purchases_wf s0" and c: "receive_line dec now user p (received_snapshot k s0) l s = (out, t)"
  shows "(line_fits (items_of k s0) l \<longleftrightarrow> (\<exists>x. out = Inr x)) \<and> (\<forall>e. out = Inl e \<longrightarrow> t = s)
    \<and> (\<forall>x. out = Inr x \<longrightarrow> (\<exists>i f. i \<in> set (items_of k s0) \<and> pi_id i = rl_item l \<and> x = pi_item i
         \<and> pi_received i + rl_quantity l \<le> pi_quantity i
         \<and> (\<forall>r. it_id (f r) = it_id r \<and> it_sku (f r) = it_sku r \<and> it_stock (f r) = it_stock r + rl_quantity l)
         \<and> d_purchase_items t = update_row pi_id (rl_item l) (\<lambda>r. r\<lparr>pi_received := pi_received i + rl_quantity l\<rparr>) (d_purchase_items s)
         \<and> d_items t = update_row it_id (pi_item i) f (d_items s)
         \<and> d_purchases t = d_purchases s \<and> d_redis t = d_redis s))"
proof (cases "List.find (\<lambda>x. pi_id (fst x) = rl_item l) (received_snapshot k s0)")
  case None
  have "\<not> line_fits (items_of k s0) l"
  proof
    assume "line_fits (items_of k s0) l"
    then obtain i where "i \<in> set (items_of k s0)" "pi_id i = rl_item l" by (auto simp: line_fits_def)
    then show False using find_snapshot[OF wf, of i k] None by auto
  qed
  then show ?thesis using c None by (auto simp: receive_line_def)
next
  case (Some x)
  obtain i r where x: "x = (i, r)" by fastforce
  note f = snapshot_find_row[OF Some[unfolded x] wf]
  obtain a where a: "List.find (\<lambda>a. al_item_id a = pi_item i) (purchase_allocations p (received_snapshot k s0)) = Some a"
    using allocation_found f by blast
  have d: "distinct (map pi_id (items_of k s0))" using wf by (simp add: purchases_wf_def items_of_def distinct_map_filter)
  have fits: "line_fits (items_of k s0) l \<longleftrightarrow> pi_received i + rl_quantity l \<le> pi_quantity i"
    using f same_key[OF d] unfolding line_fits_def by metis
  show ?thesis
  proof (cases "pi_quantity i < pi_received i + rl_quantity l")
    case True
    then show ?thesis using c Some x fits by (auto simp: receive_line_def)
  next
    case False
    then show ?thesis
      using c fits f unfolding receive_line_def Some x option.case prod.case a Let_def
      by (auto simp: update_item_items intro!: exI[of _ i] exI[of _ "restock dec (pu_imported p) r (rl_quantity l) a"])
  qed
qed

section \<open>The ledger of goods\<close>

text \<open>
  The abstract view of a reception: how many units of each purchase item were received, and the stock of each item
  of the inventory. A delivery of units of a purchase item raises both.
\<close>

record goods =
  gd_received :: "string \<Rightarrow> int option"
  gd_stock :: "string \<Rightarrow> int option"

definition goods_of :: "db \<Rightarrow> goods" where
  "goods_of s = \<lparr>gd_received = (\<lambda>j. map_option pi_received (find_row pi_id j (d_purchase_items s))),
                 gd_stock = (\<lambda>x. stock_at x s)\<rparr>"

definition item_named :: "db \<Rightarrow> string \<Rightarrow> string option" where
  "item_named s j = map_option pi_item (find_row pi_id j (d_purchase_items s))"

definition deliver :: "(string \<Rightarrow> string option) \<Rightarrow> goods \<Rightarrow> receipt_line \<Rightarrow> goods" where
  "deliver item_of g l =
     \<lparr>gd_received = (\<lambda>j. if j = rl_item l then map_option (\<lambda>n. n + rl_quantity l) (gd_received g j) else gd_received g j),
      gd_stock = (\<lambda>x. if item_of (rl_item l) = Some x then map_option (\<lambda>n. n + rl_quantity l) (gd_stock g x)
                      else gd_stock g x)\<rparr>"

text \<open>What a reception leaves alone.\<close>

definition blank_received :: "purchase_item_row \<Rightarrow> purchase_item_row" where
  "blank_received i = i\<lparr>pi_received := 0\<rparr>"

lemma blank_received_simps [simp]:
  "pi_id (blank_received i) = pi_id i" "pi_quantity (blank_received i) = pi_quantity i"
  "pi_item (blank_received i) = pi_item i" "pi_purchase (blank_received i) = pi_purchase i"
  by (simp_all add: blank_received_def)

definition receipt_frame :: "db \<Rightarrow> db \<Rightarrow> bool" where
  "receipt_frame s t \<longleftrightarrow> map blank_received (d_purchase_items t) = map blank_received (d_purchase_items s)
     \<and> map it_id (d_items t) = map it_id (d_items s) \<and> map it_sku (d_items t) = map it_sku (d_items s)
     \<and> d_purchases t = d_purchases s \<and> d_redis t = d_redis s"

lemma receipt_frame_refl [simp]: "receipt_frame s s"
  by (simp add: receipt_frame_def)

lemma receipt_frame_trans: "receipt_frame s t \<Longrightarrow> receipt_frame t u \<Longrightarrow> receipt_frame s u"
  by (simp add: receipt_frame_def)

lemma blank_ids: "map blank_received xs = map blank_received ys \<Longrightarrow> map pi_id xs = map pi_id ys"
proof -
  assume "map blank_received xs = map blank_received ys"
  then have "map pi_id (map blank_received xs) = map pi_id (map blank_received ys)" by simp
  then show ?thesis by (simp add: comp_def)
qed

lemma blank_find:
  "map blank_received xs = map blank_received ys \<Longrightarrow>
     map_option blank_received (find_row pi_id k xs) = map_option blank_received (find_row pi_id k ys)"
proof (induction xs arbitrary: ys)
  case (Cons x xs)
  then obtain y ys' where ys: "ys = y # ys'" and e: "blank_received x = blank_received y" "map blank_received xs = map blank_received ys'"
    by (cases ys) auto
  have "pi_id x = pi_id y" using arg_cong[OF e(1), of pi_id] by simp
  then show ?case using Cons.IH[OF e(2)] e(1) ys by simp
qed simp

lemma receive_line_simulates:
  fixes t :: db
  assumes wf0: "purchases_wf s0" and wf: "purchases_wf s" and fr: "receipt_frame s0 s" and q: "1 \<le> rl_quantity l"
    and c: "receive_line dec now user p (received_snapshot k s0) l s = (Inr x, t)"
  shows "receipt_frame s t \<and> purchases_wf t
    \<and> (gd_received (goods_of s) (rl_item l) = gd_received (goods_of s0) (rl_item l) \<longrightarrow>
         goods_of t = deliver (item_named s0) (goods_of s) l)
    \<and> gd_stock (goods_of t) = gd_stock (deliver (item_named s0) (goods_of s) l)
    \<and> gd_received (goods_of t) = (gd_received (goods_of s))(rl_item l :=
         map_option (\<lambda>n. n + rl_quantity l) (gd_received (goods_of s0) (rl_item l)))"
proof -
  let ?g = "\<lambda>n r. r\<lparr>pi_received := n\<rparr> :: purchase_item_row"
  obtain i f where i: "i \<in> set (items_of k s0)" "pi_id i = rl_item l" "x = pi_item i"
      "pi_received i + rl_quantity l \<le> pi_quantity i"
    and f: "\<And>r. it_id (f r) = it_id r" "\<And>r. it_sku (f r) = it_sku r" "\<And>r. it_stock (f r) = it_stock r + rl_quantity l"
    and t: "d_purchase_items t = update_row pi_id (rl_item l) (?g (pi_received i + rl_quantity l)) (d_purchase_items s)"
      "d_items t = update_row it_id (pi_item i) f (d_items s)" "d_purchases t = d_purchases s" "d_redis t = d_redis s"
    using receive_line_out[OF wf0 c] by auto
  have mem: "i \<in> set (d_purchase_items s0)" using i(1) by (simp add: items_of_def)
  have at0: "find_row pi_id (rl_item l) (d_purchase_items s0) = Some i"
    using find_row_distinct[of pi_id, OF _ mem] wf0 i(2) by (simp add: purchases_wf_def)
  then have ok: "purchase_item_ok s0 i" using wf0 mem by (simp add: purchases_wf_def)
  have frm: "receipt_frame s t"
    unfolding receipt_frame_def t(3,4) unfolding t(1,2) using f
    by (simp add: map_update_row_frame blank_received_def)
  have blank: "map_option blank_received (find_row pi_id (rl_item l) (d_purchase_items s)) = Some (blank_received i)"
    using fr blank_find[of "d_purchase_items s" "d_purchase_items s0" "rl_item l"] at0 by (simp add: receipt_frame_def)
  then obtain j where j: "find_row pi_id (rl_item l) (d_purchase_items s) = Some j" "blank_received j = blank_received i" by auto
  have rec: "gd_received (goods_of t) = (gd_received (goods_of s))(rl_item l := Some (pi_received i + rl_quantity l))"
    using j by (auto simp: goods_of_def t(1) purchase_items.lookup_modify fun_eq_iff)
  have stock: "gd_stock (goods_of t) = gd_stock (deliver (item_named s0) (goods_of s) l)"
    using f at0 by (auto simp: goods_of_def deliver_def item_named_def stock_at_def t(2) items.lookup_modify
        fun_eq_iff option.map_comp comp_def)
  have "purchase_item_ok t r" if r: "r \<in> set (d_purchase_items t)" for r
    using r[unfolded t(1)]
  proof (rule update_row_cases)
    have items: "find_row it_id y (d_items t) = None \<longleftrightarrow> find_row it_id y (d_items s) = None" for y
      using f by (simp add: t(2) items.lookup_modify)
    { assume "r \<in> set (d_purchase_items s)"
      then show ?thesis using wf by (simp add: purchases_wf_def purchase_item_ok_def items) }
    fix y assume y: "y \<in> set (d_purchase_items s)" "pi_id y = rl_item l" "r = ?g (pi_received i + rl_quantity l) y"
    then have "y = j" using find_row_distinct[of pi_id, OF _ y(1)] wf j(1) by (simp add: purchases_wf_def)
    then have "pi_quantity y = pi_quantity i" using arg_cong[OF j(2), of pi_quantity] by simp
    then show ?thesis using wf y i(4) ok q by (simp add: purchases_wf_def purchase_item_ok_def items)
  qed
  then have "purchases_wf t" using wf blank_ids[of "d_purchase_items t" "d_purchase_items s"] frm
    by (simp add: purchases_wf_def receipt_frame_def)
  moreover have "gd_received (goods_of s0) (rl_item l) = Some (pi_received i)" using at0 by (simp add: goods_of_def)
  moreover have "goods_of t = deliver (item_named s0) (goods_of s) l"
    if "gd_received (goods_of s) (rl_item l) = Some (pi_received i)"
    using rec stock that by (intro goods.equality) (auto simp: deliver_def fun_eq_iff)
  ultimately show ?thesis using frm rec stock by simp
qed

lemma deliver_received_other: "j \<noteq> rl_item l \<Longrightarrow> gd_received (deliver f g l) j = gd_received g j"
  by (simp add: deliver_def)

lemma receive_lines_accepts:
  assumes "purchases_wf s0"
  shows "(\<exists>xs. fst (receive_lines dec now user p (received_snapshot k s0) ls s) = Inr xs)
    \<longleftrightarrow> list_all (line_fits (items_of k s0)) ls"
proof (induction ls arbitrary: s)
  case (Cons l ls)
  obtain out t where c: "receive_line dec now user p (received_snapshot k s0) l s = (out, t)" by fastforce
  note o = receive_line_out[OF assms c]
  show ?case
  proof (cases out)
    case (Inl e)
    then show ?thesis using o c by auto
  next
    case (Inr x)
    then show ?thesis using o c Cons.IH[of t] by (auto split: prod.splits sum.splits)
  qed
qed simp

text \<open>The loop: every line that was read as not yet received in this request is a delivery.\<close>

lemma receive_lines_simulate:
  assumes wf0: "purchases_wf s0"
  shows "purchases_wf s \<Longrightarrow> receipt_frame s0 s \<Longrightarrow> valid_receipt ls \<Longrightarrow>
    receive_lines dec now user p (received_snapshot k s0) ls s = (Inr xs, t) \<Longrightarrow>
    receipt_frame s t \<and> purchases_wf t
    \<and> (distinct (map rl_item ls) \<and> (\<forall>l \<in> set ls. gd_received (goods_of s) (rl_item l) = gd_received (goods_of s0) (rl_item l)) \<longrightarrow>
        goods_of t = foldl (deliver (item_named s0)) (goods_of s) ls)"
proof (induction ls arbitrary: s xs)
  case (Cons l ls)
  obtain x u ys where l: "receive_line dec now user p (received_snapshot k s0) l s = (Inr x, u)"
    and r: "receive_lines dec now user p (received_snapshot k s0) ls u = (Inr ys, t)"
    using Cons.prems(4) by (auto split: prod.splits sum.splits)
  have q: "1 \<le> rl_quantity l" "valid_receipt ls" using Cons.prems(3) by (auto simp: valid_receipt_def)
  note one = receive_line_simulates[OF wf0 Cons.prems(1,2) q(1) l]
  have fr: "receipt_frame s0 u" using one Cons.prems(2) receipt_frame_trans by blast
  have ih: "receipt_frame u t \<and> purchases_wf t
    \<and> (distinct (map rl_item ls) \<and> (\<forall>l \<in> set ls. gd_received (goods_of u) (rl_item l) = gd_received (goods_of s0) (rl_item l)) \<longrightarrow>
        goods_of t = foldl (deliver (item_named s0)) (goods_of u) ls)"
    by (rule Cons.IH[OF _ fr q(2) r]) (use one in simp)
  have "goods_of t = foldl (deliver (item_named s0)) (goods_of s) (l # ls)"
    if d: "distinct (map rl_item (l # ls))"
      and e: "\<forall>l \<in> set (l # ls). gd_received (goods_of s) (rl_item l) = gd_received (goods_of s0) (rl_item l)"
  proof -
    have u: "goods_of u = deliver (item_named s0) (goods_of s) l" using one e by simp
    have "gd_received (goods_of u) (rl_item x) = gd_received (goods_of s0) (rl_item x)" if "x \<in> set ls" for x
    proof -
      have "rl_item x \<noteq> rl_item l" using d that by (auto simp: image_iff)
      then show ?thesis using e that by (simp add: u deliver_received_other)
    qed
    then show ?thesis using ih d u by simp
  qed
  then show ?case using one ih receipt_frame_trans by blast
qed simp

text \<open>What settling the status and the cache leave alone.\<close>

lemma settle_purchase_frame [simp]:
  "d_purchase_items (settle_purchase now k s) = d_purchase_items s" "d_items (settle_purchase now k s) = d_items s"
  "d_movements (settle_purchase now k s) = d_movements s" "d_redis (settle_purchase now k s) = d_redis s"
  by (simp_all add: settle_purchase_def update_purchase_def)

lemma goods_of_cong: "d_purchase_items t = d_purchase_items s \<Longrightarrow> d_items t = d_items s \<Longrightarrow> goods_of t = goods_of s"
  by (simp add: goods_of_def stock_at_def)

definition open_purchase :: "string \<Rightarrow> db \<Rightarrow> bool" where
  "open_purchase k s \<longleftrightarrow> (\<exists>p. find_row pu_id k (d_purchases s) = Some p \<and> pu_status p \<in> set receivable)"

lemma receive_items_out:
  assumes wf: "purchases_wf s" and v: "valid_receipt ls" and c: "receive_items dec now k ls user s = (out, t)"
  shows "((\<exists>xs. out = Inr xs) \<longleftrightarrow> open_purchase k s \<and> list_all (line_fits (items_of k s)) ls)
    \<and> (\<forall>e. out = Inl e \<longrightarrow> t = s)
    \<and> (\<forall>xs. out = Inr xs \<longrightarrow> (\<exists>u. receipt_frame s u \<and> purchases_wf u
         \<and> (distinct (map rl_item ls) \<longrightarrow> goods_of u = foldl (deliver (item_named s)) (goods_of s) ls)
         \<and> d_purchase_items t = d_purchase_items u \<and> d_items t = d_items u
         \<and> d_purchases t = d_purchases (settle_purchase now k u)))"
proof (cases "find_row pu_id k (d_purchases s)")
  case None
  then show ?thesis using c by (auto simp: receive_items_def open_purchase_def)
next
  case (Some p)
  show ?thesis
  proof (cases "pu_status p \<in> set receivable")
    case False
    then show ?thesis using c Some by (auto simp: receive_items_def open_purchase_def split: if_splits)
  next
    case True
    then have nc: "pu_status p \<noteq> PurchaseStatus.CANCELLED" by (auto simp: receivable_def)
    obtain y u where y: "receive_lines dec now user p (received_snapshot k s) ls s = (y, u)" by fastforce
    note acc = receive_lines_accepts[OF wf, of dec now user p k ls s]
    show ?thesis
    proof (cases y)
      case (Inl e)
      then show ?thesis using c Some True nc y acc
        by (auto simp: receive_items_def transaction_def)
    next
      case (Inr xs)
      have sim: "receipt_frame s u \<and> purchases_wf u
          \<and> (distinct (map rl_item ls) \<longrightarrow> goods_of u = foldl (deliver (item_named s)) (goods_of s) ls)"
        using receive_lines_simulate[OF wf wf receipt_frame_refl v y[unfolded Inr]] by simp
      have t: "out = Inr (items_of k u)"
        "t = settle_purchase now k (set_redis (redis_del valuation_key (foldl (\<lambda>r x. redis_del (item_key x) r) (d_redis u) xs)) u)"
        using c Some True nc y Inr by (auto simp: receive_items_def transaction_def Let_def items_of_def)
      have "d_purchases t = d_purchases (settle_purchase now k u)"
        by (simp add: t(2) settle_purchase_def update_purchase_def items_of_def)
      moreover have "list_all (line_fits (items_of k s)) ls" using acc y Inr by auto
      moreover have "open_purchase k s" using Some True by (simp add: open_purchase_def)
      ultimately show ?thesis using sim t by auto
    qed
  qed
qed

section \<open>Every request keeps the purchases well formed\<close>

lemma receipt_frame_wf_cong:
  assumes "purchases_wf u" and "d_purchase_items t = d_purchase_items u" and "d_items t = d_items u"
    and "map pu_id (d_purchases t) = map pu_id (d_purchases u)"
  shows "purchases_wf t"
  using assms by (simp add: purchases_wf_def purchase_item_ok_def)

lemma settle_purchase_ids: "map pu_id (d_purchases (settle_purchase now k u)) = map pu_id (d_purchases u)"
  by (simp add: settle_purchase_def update_purchase_def)

lemma lines_cost_items: "lines_cost ls x s = Inr y \<Longrightarrow> l \<in> set ls \<Longrightarrow> find_row it_id (ul_item l) (d_items s) \<noteq> None"
  by (induction ls arbitrary: x) (auto split: if_splits)

lemma create_purchase_cases:
  assumes "create_purchase dec now y k u user s = (out, t)"
  obtains e where "out = Inl e" "t = s"
  | p where "out = Inr p" "pu_id p = k" "pu_status p = PurchaseStatus.DRAFT"
      "\<not> purchase_ids_taken k (pu_number p) (ui_lines u) s"
      "\<forall>l \<in> set (ui_lines u). find_row it_id (ul_item l) (d_items s) \<noteq> None"
      "t = s\<lparr>d_purchases := insert_row p (d_purchases s),
             d_purchase_items := d_purchase_items s @ map (new_purchase_item dec k) (ui_lines u)\<rparr>"
proof (cases out)
  case (Inl e)
  then show thesis using assms that(1)[of e]
    by (auto simp: create_purchase_def Let_def split: option.splits sum.splits if_splits)
next
  case (Inr p)
  then show thesis using assms that(2)[of p] lines_cost_items
    by (auto simp: create_purchase_def Let_def new_purchase_def split: option.splits sum.splits if_splits)
qed

lemma create_purchase_wf:
  assumes "purchases_wf s" and "valid_purchase u"
  shows "purchases_wf (snd (create_purchase dec now y k u user s))"
proof -
  obtain out t where c: "create_purchase dec now y k u user s = (out, t)" by fastforce
  then show ?thesis
  proof (cases rule: create_purchase_cases)
    case (2 p)
    then show ?thesis
      using assms c
      by (auto simp: purchases_wf_def purchase_ids_taken_def purchase_item_ok_def new_purchase_item_def valid_purchase_def
          list_all_iff comp_def image_iff) metis
  qed (use assms c in simp)
qed

lemma update_purchase_status_cases:
  assumes "update_purchase_status now k st s = (out, t)"
  obtains e where "out = Inl e" "t = s"
  | p f where "out = Inr (f p)" "find_row pu_id k (d_purchases s) = Some p" "st \<in> set (purchase_transitions (pu_status p))"
      "\<And>r. pu_id (f r) = pu_id r" "\<And>r. pu_status (f r) = st" "t = update_purchase k f s"
proof (cases "find_row pu_id k (d_purchases s)")
  case None
  then show thesis using assms by (intro that(1)[of "NotFound ''Compra no encontrada''"]) (simp_all add: update_purchase_status_def)
next
  case (Some p)
  let ?f = "\<lambda>r :: purchase_row. r\<lparr>pu_status := st,
     pu_ordered_at := (if st = PurchaseStatus.SENT then Some now else pu_ordered_at r),
     pu_received_at := (if st = PurchaseStatus.RECEIVED then Some now else pu_received_at r)\<rparr>"
  show thesis
  proof (cases "st \<in> set (purchase_transitions (pu_status p))")
    case True
    then show thesis using assms Some by (intro that(2)[of ?f p]) (simp_all add: update_purchase_status_def Let_def)
  next
    case False
    then show thesis using assms Some
      by (intro that(1)[of "Conflict ''No se puede cambiar de estado''"]) (simp_all add: update_purchase_status_def)
  qed
qed

lemma update_purchase_status_wf:
  assumes "purchases_wf s"
  shows "purchases_wf (snd (update_purchase_status now k st s))"
proof -
  obtain out t where c: "update_purchase_status now k st s = (out, t)" by fastforce
  then show ?thesis
  proof (cases rule: update_purchase_status_cases)
    case (2 p f)
    then have "purchases_wf t" using assms by (simp add: purchases_wf_def purchase_item_ok_def update_purchase_def)
    then show ?thesis using c by simp
  qed (use assms c in simp)
qed

lemma receive_items_wf:
  assumes "purchases_wf s" and "valid_receipt ls"
  shows "purchases_wf (snd (receive_items dec now k ls user s))"
proof -
  obtain out t where c: "receive_items dec now k ls user s = (out, t)" by fastforce
  note o = receive_items_out[OF assms c]
  show ?thesis
  proof (cases out)
    case (Inl e)
    then show ?thesis using o assms c by simp
  next
    case (Inr xs)
    then obtain u where "purchases_wf u" "d_purchase_items t = d_purchase_items u" "d_items t = d_items u"
      "d_purchases t = d_purchases (settle_purchase now k u)" using o by auto
    then have "purchases_wf t" using receipt_frame_wf_cong settle_purchase_ids by metis
    then show ?thesis using c by simp
  qed
qed

lemma purchase_step_wf: "purchases_wf s \<Longrightarrow> purchases_wf (snd (purchase_step dec q s))"
  by (cases "(dec, q, s)" rule: purchase_step.cases)
     (auto simp: create_purchase_wf update_purchase_status_wf receive_items_wf)

interpretation purchases_service: invariant_service "purchase_step dec" purchases_wf
  by unfold_locales (rule purchase_step_wf)

section \<open>The life of a purchase\<close>

definition purchase_status :: "string \<Rightarrow> db \<Rightarrow> PurchaseStatus option" where
  "purchase_status k s = map_option pu_status (find_row pu_id k (d_purchases s))"

text \<open>How far a purchase has come; it only moves forward.\<close>

fun purchase_rank :: "PurchaseStatus option \<Rightarrow> nat" where
  "purchase_rank (Some PurchaseStatus.SENT) = 1"
| "purchase_rank (Some CONFIRMED) = 2"
| "purchase_rank (Some PARTIALLY_RECEIVED) = 3"
| "purchase_rank (Some PurchaseStatus.RECEIVED) = 4"
| "purchase_rank (Some PurchaseStatus.CANCELLED) = 4"
| "purchase_rank _ = 0"

lemma purchase_rank_le: "purchase_rank x \<le> 4"
  by (cases x rule: purchase_rank.cases) simp_all

lemma purchase_rank_step: "b \<in> set (purchase_transitions a) \<Longrightarrow> purchase_rank (Some a) < purchase_rank (Some b)"
  by (cases a) auto

lemma purchase_status_update:
  assumes "\<And>r. pu_id (f r) = pu_id r"
  shows "purchase_status x (update_purchase k f s) =
    (if x = k then map_option (\<lambda>r. pu_status (f r)) (find_row pu_id k (d_purchases s)) else purchase_status x s)"
  using assms by (simp add: purchase_status_def update_purchase_def purchases.lookup_modify option.map_comp comp_def)

lemma settle_purchase_status:
  "purchase_status x (settle_purchase now k s) =
     (if x = k \<and> purchase_status k s \<noteq> None
      then Some (if list_all (\<lambda>i. pi_quantity i \<le> pi_received i) (items_of k s) then PurchaseStatus.RECEIVED
                 else if list_ex (\<lambda>i. 0 < pi_received i) (items_of k s) then PARTIALLY_RECEIVED
                 else the (purchase_status k s))
      else purchase_status x s)"
  by (simp add: settle_purchase_def purchase_status_update) (auto simp: purchase_status_def)

lemma purchase_status_cong: "d_purchases t = d_purchases s \<Longrightarrow> purchase_status k t = purchase_status k s"
  by (simp add: purchase_status_def)

text \<open>A step leaves the status of a purchase, moves it along the table, or receives goods of an open purchase.\<close>

definition purchase_moves :: "PurchaseStatus option \<Rightarrow> PurchaseStatus option \<Rightarrow> bool" where
  "purchase_moves a b \<longleftrightarrow> a = b \<or> (a = None \<and> b = Some PurchaseStatus.DRAFT)
     \<or> (\<exists>x y. a = Some x \<and> b = Some y \<and> y \<in> set (purchase_transitions x))
     \<or> (\<exists>x \<in> set receivable. a = Some x \<and> (b = Some PARTIALLY_RECEIVED \<or> b = Some PurchaseStatus.RECEIVED))"

lemma purchase_moves_rank: "purchase_moves a b \<Longrightarrow> purchase_rank a \<le> purchase_rank b"
  by (auto simp: purchase_moves_def receivable_def dest: purchase_rank_step)

lemma purchase_moves_terminal: "purchase_moves (Some a) b \<Longrightarrow> purchase_transitions a = [] \<Longrightarrow> b = Some a"
  by (auto simp: purchase_moves_def receivable_def)

lemma receive_line_purchases: "d_purchases (snd (receive_line dec now user p snap l s)) = d_purchases s"
  by (simp add: receive_line_def Let_def split: option.splits prod.splits)

lemma receive_lines_purchases: "d_purchases (snd (receive_lines dec now user p snap ls s)) = d_purchases s"
proof (induction ls arbitrary: s)
  case (Cons l ls)
  obtain y u where y: "receive_line dec now user p snap l s = (y, u)" by fastforce
  have u: "d_purchases u = d_purchases s" using receive_line_purchases[of dec now user p snap l s] y by simp
  show ?case using Cons.IH[of u] u y by (auto split: prod.splits sum.splits)
qed simp

lemma receive_items_status:
  assumes c: "receive_items dec now k ls user s = (out, t)"
  shows "(\<forall>x. purchase_status x t = purchase_status x s)
    \<or> (\<exists>st u. purchase_status k s = Some st \<and> st \<in> set receivable \<and> d_purchases u = d_purchases s
         \<and> d_purchase_items u = d_purchase_items t \<and> d_purchases t = d_purchases (settle_purchase now k u))"
proof (cases "open_purchase k s")
  case False
  then have "t = s" using c
    by (auto simp: receive_items_def open_purchase_def split: option.splits if_splits)
  then show ?thesis by simp
next
  case True
  then obtain p where p: "find_row pu_id k (d_purchases s) = Some p" "pu_status p \<in> set receivable"
    by (auto simp: open_purchase_def)
  then have nc: "pu_status p \<noteq> PurchaseStatus.CANCELLED" by (auto simp: receivable_def)
  obtain y u where y: "receive_lines dec now user p (received_snapshot k s) ls s = (y, u)" by fastforce
  have u: "d_purchases u = d_purchases s"
    using receive_lines_purchases[of dec now user p "received_snapshot k s" ls s] y by simp
  show ?thesis
  proof (cases y)
    case (Inl e)
    then have "t = s" using c p nc y by (simp add: receive_items_def transaction_def)
    then show ?thesis by simp
  next
    case (Inr xs)
    then have "t = settle_purchase now k (set_redis (redis_del valuation_key (foldl (\<lambda>r x. redis_del (item_key x) r) (d_redis u) xs)) u)"
      using c p nc y by (simp add: receive_items_def transaction_def Let_def)
    then have "d_purchases t = d_purchases (settle_purchase now k u)" "d_purchase_items u = d_purchase_items t"
      by (simp_all add: settle_purchase_def update_purchase_def items_of_def)
    then show ?thesis using p u by (intro disjI2 exI[of _ "pu_status p"] exI[of _ u]) (simp add: purchase_status_def)
  qed
qed

lemma receive_items_moves:
  assumes c: "receive_items dec now k ls user s = (out, t)"
  shows "purchase_moves (purchase_status x s) (purchase_status x t)"
  using receive_items_status[OF c]
proof (elim disjE exE conjE)
  fix st u assume st: "purchase_status k s = Some st" "st \<in> set receivable" and u: "d_purchases u = d_purchases s"
    and t: "d_purchases t = d_purchases (settle_purchase now k u)"
  have us: "purchase_status y u = purchase_status y s" for y using u by (rule purchase_status_cong)
  show ?thesis
    unfolding purchase_status_cong[OF t] settle_purchase_status us using st by (auto simp: purchase_moves_def)
qed (simp add: purchase_moves_def)

lemma purchase_step_moves: "purchase_moves (purchase_status x s) (purchase_status x (snd (purchase_step dec q s)))"
proof (cases "(dec, q, s)" rule: purchase_step.cases)
  case (1 d now y k u user s')
  obtain out t where c: "create_purchase dec now y k u user s = (out, t)" by fastforce
  then have "purchase_moves (purchase_status x s) (purchase_status x t)"
  proof (cases rule: create_purchase_cases)
    case (2 p)
    then have "find_row pu_id k (d_purchases s) = None" by (simp add: purchase_ids_taken_def find_row_None_iff)
    then show ?thesis
      using 2 by (auto simp: purchase_status_def purchases.lookup_create purchase_moves_def split: option.splits)
  qed (simp add: purchase_moves_def)
  then show ?thesis using 1 c by (simp add: purchase_moves_def)
next
  case (2 d now y k st s')
  obtain out t where c: "update_purchase_status now k st s = (out, t)" by fastforce
  then have "purchase_moves (purchase_status x s) (purchase_status x t)"
  proof (cases rule: update_purchase_status_cases)
    case (2 p f)
    have "purchase_status x t = (if x = k then Some st else purchase_status x s)"
      unfolding 2(6) by (simp add: purchase_status_update 2)
    moreover have "purchase_status k s = Some (pu_status p)" using 2(2) by (simp add: purchase_status_def)
    ultimately show ?thesis using 2(3) by (auto simp: purchase_moves_def)
  qed (simp add: purchase_moves_def)
  then show ?thesis using 2 c by simp
next
  case (3 d now y k ls user s')
  obtain out t where c: "receive_items dec now k ls user s = (out, t)" by fastforce
  then show ?thesis using 3 receive_items_moves[OF c] by (simp add: purchase_moves_def)
qed

text \<open>The status changes a run accepts for a purchase.\<close>

fun changes_status :: "string \<Rightarrow> int \<times> int \<times> purchase_request \<Rightarrow> bool" where
  "changes_status k (now, y, SetPurchaseStatus k' st) = (k' = k)"
| "changes_status k q = False"

primrec accepted_changes :: "(number \<Rightarrow> int) \<Rightarrow> string \<Rightarrow> (int \<times> int \<times> purchase_request) list \<Rightarrow> db \<Rightarrow> nat" where
  "accepted_changes dec k [] s = 0"
| "accepted_changes dec k (q # qs) s =
     (if changes_status k q \<and> is_ok (purchase_step dec q s) then 1 else 0)
     + accepted_changes dec k qs (snd (purchase_step dec q s))"

lemma accepted_change_rank:
  assumes "changes_status k q" and "is_ok (purchase_step dec q s)"
  shows "purchase_rank (purchase_status k s) < purchase_rank (purchase_status k (snd (purchase_step dec q s)))"
proof -
  obtain now y st where q: "q = (now, y, SetPurchaseStatus k st)" using assms(1) by (cases "(k, q)" rule: changes_status.cases) auto
  obtain out t where c: "update_purchase_status now k st s = (out, t)" by fastforce
  then show ?thesis
  proof (cases rule: update_purchase_status_cases)
    case (1 e)
    then show ?thesis using assms(2) q c by (simp add: is_ok_def drop_answer_def)
  next
    case (2 p f)
    then show ?thesis using q c purchase_rank_step[of st "pu_status p"]
      by (simp add: purchase_status_update) (simp add: purchase_status_def)
  qed
qed

lemma accepted_changes_rank:
  "accepted_changes dec k qs s + purchase_rank (purchase_status k s)
     \<le> purchase_rank (purchase_status k (run_requests (purchase_step dec) qs s))"
proof (induction qs arbitrary: s)
  case (Cons q qs)
  show ?case
    using Cons.IH[of "snd (purchase_step dec q s)"] accepted_change_rank[of k q dec s]
      purchase_moves_rank[OF purchase_step_moves[of k s dec q]] by auto
qed simp

lemma purchase_run_terminal:
  "purchase_status k s = Some a \<Longrightarrow> purchase_transitions a = [] \<Longrightarrow>
     purchase_status k (run_requests (purchase_step dec) qs s) = Some a"
proof (induction qs arbitrary: s)
  case (Cons q qs)
  have "purchase_moves (Some a) (purchase_status k (snd (purchase_step dec q s)))"
    using purchase_step_moves[of k s dec q] Cons.prems(1) by simp
  then show ?case using purchase_moves_terminal Cons by simp
qed simp

section \<open>Properties\<close>

definition sample_purchase :: "PurchaseStatus \<Rightarrow> purchase_row" where
  "sample_purchase st =
     \<lparr>pu_id = ''p1'', pu_number = ''OC-2026-0001'', pu_supplier = ''su1'', pu_status = st, pu_subtotal = 5000, pu_tax = 0,
      pu_shipping = 0, pu_customs = 0, pu_total = 5000, pu_commission_amount = None, pu_commission_to = None,
      pu_imported = False, pu_ordered_at = None, pu_received_at = None, pu_notes = None, pu_created_by = ''a1'',
      pu_created_at = 0\<rparr>"

definition sample_purchase_item :: purchase_item_row where
  "sample_purchase_item =
     \<lparr>pi_id = ''u1'', pi_purchase = ''p1'', pi_item = ''i1'', pi_quantity = 10, pi_unit_cost = 500, pi_total_cost = 5000,
      pi_received = 2\<rparr>"

definition sample_purchases :: "PurchaseStatus \<Rightarrow> db" where
  "sample_purchases st = empty_db\<lparr>d_items := [sample_item ''i1'' 4], d_purchases := [sample_purchase st],
     d_purchase_items := [sample_purchase_item]\<rparr>"

lemma sample_purchases_simps [simp]:
  "d_items (sample_purchases st) = [sample_item ''i1'' 4]" "d_purchases (sample_purchases st) = [sample_purchase st]"
  "d_purchase_items (sample_purchases st) = [sample_purchase_item]"
  "pu_id (sample_purchase st) = ''p1''" "pu_status (sample_purchase st) = st"
  "pi_id sample_purchase_item = ''u1''" "pi_purchase sample_purchase_item = ''p1''" "pi_item sample_purchase_item = ''i1''"
  "pi_quantity sample_purchase_item = 10" "pi_received sample_purchase_item = 2"
  by (simp_all add: sample_purchases_def sample_purchase_def sample_purchase_item_def)

lemma sample_purchases_wf: "purchases_wf (sample_purchases st)"
  by (simp add: purchases_wf_def purchase_item_ok_def)

lemma sample_items_of: "items_of ''p1'' (sample_purchases st) = [sample_purchase_item]"
  by (simp add: items_of_def)

lemma sample_open: "open_purchase ''p1'' (sample_purchases PurchaseStatus.SENT)"
  by (simp add: open_purchase_def receivable_def)

definition outstanding :: "(string \<Rightarrow> string) \<Rightarrow> string \<Rightarrow> db \<Rightarrow> receipt_line list" where
  "outstanding mid k s =
     map (\<lambda>i. \<lparr>rl_item = pi_id i, rl_quantity = pi_quantity i - pi_received i, rl_movement = mid (pi_id i)\<rparr>)
       (filter (\<lambda>i. pi_received i < pi_quantity i) (items_of k s))"

lemma foldl_deliver_received:
  "distinct (map rl_item ls) \<Longrightarrow> gd_received (foldl (deliver f) g ls) j =
     (case find_row rl_item j ls of None \<Rightarrow> gd_received g j
      | Some l \<Rightarrow> map_option (\<lambda>n. n + rl_quantity l) (gd_received g j))"
proof (induction ls arbitrary: g)
  case (Cons l ls)
  have "find_row rl_item (rl_item l) ls = None" using Cons.prems by (simp add: find_row_None_iff)
  then show ?case using Cons by (auto simp: deliver_def split: option.splits)
qed simp

lemma outstanding_distinct: "purchases_wf s \<Longrightarrow> distinct (map rl_item (outstanding mid k s))"
  by (simp add: outstanding_def purchases_wf_def comp_def items_of_def distinct_map_filter)

lemma outstanding_fits:
  "purchases_wf s \<Longrightarrow> valid_receipt (outstanding mid k s) \<and> list_all (line_fits (items_of k s)) (outstanding mid k s)"
  by (auto simp: outstanding_def valid_receipt_def list_all_iff line_fits_def)

text \<open>After receiving everything that is missing, every item of the purchase is complete.\<close>

lemma outstanding_completes:
  assumes wf: "purchases_wf s" and wfu: "purchases_wf u" and fr: "receipt_frame s u"
    and g: "goods_of u = foldl (deliver (item_named s)) (goods_of s) (outstanding mid k s)"
    and r: "r \<in> set (items_of k u)"
  shows "pi_received r = pi_quantity r"
proof -
  have "blank_received r \<in> set (map blank_received (d_purchase_items s))"
    using fr r unfolding receipt_frame_def items_of_def by (metis filter_is_subset image_eqI set_map subsetD)
  then obtain i where i: "i \<in> set (d_purchase_items s)" "blank_received i = blank_received r" by auto
  have e: "pi_id i = pi_id r" "pi_quantity i = pi_quantity r" "pi_purchase i = pi_purchase r"
    using arg_cong[OF i(2), of pi_id] arg_cong[OF i(2), of pi_quantity] arg_cong[OF i(2), of pi_purchase] by simp_all
  then have mem: "i \<in> set (items_of k s)" using r i(1) by (simp add: items_of_def)
  have ok: "pi_received i \<le> pi_quantity i" using wf i(1) by (simp add: purchases_wf_def purchase_item_ok_def)
  have at: "gd_received (goods_of s) (pi_id r) = Some (pi_received i)"
    using find_row_distinct[of pi_id, OF _ i(1)] wf e by (simp add: goods_of_def purchases_wf_def)
  have ru: "r \<in> set (d_purchase_items u)" using r by (simp add: items_of_def)
  have "Some (pi_received r) = gd_received (goods_of u) (pi_id r)"
    using find_row_distinct[of pi_id, OF _ ru] wfu by (simp add: goods_of_def purchases_wf_def)
  also have "\<dots> = (case find_row rl_item (pi_id r) (outstanding mid k s) of None \<Rightarrow> Some (pi_received i)
      | Some l \<Rightarrow> Some (pi_received i + rl_quantity l))"
    unfolding g foldl_deliver_received[OF outstanding_distinct[OF wf]] at by (auto split: option.splits)
  also have "\<dots> = Some (pi_quantity i)"
  proof (cases "pi_received i < pi_quantity i")
    case True
    let ?l = "\<lparr>rl_item = pi_id i, rl_quantity = pi_quantity i - pi_received i, rl_movement = mid (pi_id i)\<rparr>"
    have "?l \<in> set (outstanding mid k s)" using mem True by (auto simp: outstanding_def)
    then have "find_row rl_item (rl_item ?l) (outstanding mid k s) = Some ?l"
      by (rule find_row_distinct[OF outstanding_distinct[OF wf]])
    then show ?thesis using e by simp
  next
    case False
    have "pi_id r \<notin> rl_item ` set (outstanding mid k s)"
    proof
      assume "pi_id r \<in> rl_item ` set (outstanding mid k s)"
      then obtain j where "j \<in> set (items_of k s)" "pi_id j = pi_id i" "pi_received j < pi_quantity j"
        using e by (auto simp: outstanding_def)
      moreover have "j = i" using same_key[of pi_id "d_purchase_items s" j i] wf calculation(1,2) i(1)
        by (simp add: purchases_wf_def items_of_def)
      ultimately show False using False by simp
    qed
    then have "find_row rl_item (pi_id r) (outstanding mid k s) = None" by (rule find_row_None_iff[THEN iffD2])
    then show ?thesis using False ok by simp
  qed
  finally show ?thesis using e by simp
qed

lemma completing_request:
  assumes wf: "purchases_wf s" and o: "open_purchase k s"
    and t: "t = snd (receive_items dec now k (outstanding mid k s) user s)"
  shows "purchase_status k t = Some PurchaseStatus.RECEIVED \<and> (\<forall>i \<in> set (items_of k t). pi_received i = pi_quantity i)"
proof -
  obtain out where c: "receive_items dec now k (outstanding mid k s) user s = (out, t)"
    by (cases "receive_items dec now k (outstanding mid k s) user s") (simp add: t)
  note v = outstanding_fits[OF wf, of mid k]
  note r = receive_items_out[OF wf conjunct1[OF v] c]
  obtain xs where xs: "out = Inr xs" using r o v by auto
  obtain u where u: "receipt_frame s u" "purchases_wf u"
      "goods_of u = foldl (deliver (item_named s)) (goods_of s) (outstanding mid k s)"
      "d_purchase_items t = d_purchase_items u" "d_purchases t = d_purchases (settle_purchase now k u)"
    using r[THEN conjunct2, THEN conjunct2, rule_format, OF xs] outstanding_distinct[OF wf] by blast
  have full: "\<forall>i \<in> set (items_of k u). pi_received i = pi_quantity i"
    using outstanding_completes[OF wf u(2,1,3)] by blast
  have items: "items_of k t = items_of k u" using u(4) by (simp add: items_of_def)
  have "purchase_status k u \<noteq> None" using o u(1) by (auto simp: purchase_status_def open_purchase_def receipt_frame_def)
  then have "purchase_status k t = Some PurchaseStatus.RECEIVED"
    unfolding purchase_status_cong[OF u(5)] settle_purchase_status using full by (simp add: list_all_iff)
  then show ?thesis using full items by simp
qed

text \<open>C18. Receiving goods implements the ledger of deliveries: a request whose lines name different purchase items is accepted
  exactly when the purchase is open and every line fits what is still missing; then the units received and the
  stock are those of delivering its lines one after the other, and a refused request changes nothing.\<close>

theorem receive_refines_ledger:
  assumes "purchases_wf s" and "valid_receipt ls" and "distinct (map rl_item ls)"
    and "receive_items dec now k ls user s = (out, t)"
  shows "((\<exists>xs. out = Inr xs) \<longleftrightarrow> open_purchase k s \<and> (\<forall>l \<in> set ls. line_fits (items_of k s) l))
    \<and> (\<forall>xs. out = Inr xs \<longrightarrow> goods_of t = foldl (deliver (item_named s)) (goods_of s) ls)
    \<and> (\<forall>e. out = Inl e \<longrightarrow> t = s)"
proof -
  note o = receive_items_out[OF assms(1,2,4)]
  have "goods_of t = foldl (deliver (item_named s)) (goods_of s) ls" if x: "out = Inr xs" for xs
  proof -
    obtain u where u: "goods_of u = foldl (deliver (item_named s)) (goods_of s) ls"
      "d_purchase_items t = d_purchase_items u" "d_items t = d_items u"
      using o[THEN conjunct2, THEN conjunct2, rule_format, OF x] assms(3) by blast
    then show ?thesis using goods_of_cong[OF u(2,3)] by simp
  qed
  then show ?thesis using o by (simp add: list_all_iff)
qed

theorem receive_refines_ledger_witness:
  "\<exists>xs t. receive_items half_up 7 ''p1'' [\<lparr>rl_item = ''u1'', rl_quantity = 5, rl_movement = ''m1''\<rparr>] ''a1''
       (sample_purchases PurchaseStatus.SENT) = (Inr xs, t)
     \<and> gd_received (goods_of t) ''u1'' = Some 7 \<and> gd_stock (goods_of t) ''i1'' = Some 9"
  (is "\<exists>xs t. receive_items half_up 7 _ ?ls _ ?s = _ \<and> _")
proof -
  obtain out t where c: "receive_items half_up 7 ''p1'' ?ls ''a1'' ?s = (out, t)" by fastforce
  have v: "valid_receipt ?ls" "distinct (map rl_item ?ls)" by (simp_all add: valid_receipt_def)
  note r = receive_refines_ledger[OF sample_purchases_wf v c]
  have "line_fits (items_of ''p1'' ?s) \<lparr>rl_item = ''u1'', rl_quantity = 5, rl_movement = ''m1''\<rparr>"
    by (simp add: sample_items_of line_fits_def)
  then obtain xs where xs: "out = Inr xs" using r sample_open by auto
  have g: "goods_of t = deliver (item_named ?s) (goods_of ?s) \<lparr>rl_item = ''u1'', rl_quantity = 5, rl_movement = ''m1''\<rparr>"
    using r xs by simp
  have "gd_received (goods_of t) ''u1'' = Some 7 \<and> gd_stock (goods_of t) ''i1'' = Some 9"
    unfolding g by (simp add: deliver_def goods_of_def stock_at_def item_named_def)
  then show ?thesis using c xs by blast
qed

text \<open>A line that is repeated is counted once as received but twice in the stock: both lines are judged, and written, on the
  quantity read before the request.\<close>

theorem repeated_line_overstocks:
  assumes "purchases_wf s" and "open_purchase k s" and "i \<in> set (items_of k s)" and "1 \<le> a" and "1 \<le> b"
    and "pi_received i + a \<le> pi_quantity i" and "pi_received i + b \<le> pi_quantity i"
  shows "\<exists>xs t. receive_items dec now k
        [\<lparr>rl_item = pi_id i, rl_quantity = a, rl_movement = m\<rparr>, \<lparr>rl_item = pi_id i, rl_quantity = b, rl_movement = m'\<rparr>] user s
      = (Inr xs, t)
    \<and> gd_received (goods_of t) (pi_id i) = Some (pi_received i + b)
    \<and> stock_at (pi_item i) t = map_option (\<lambda>n. n + a + b) (stock_at (pi_item i) s)"
proof -
  let ?l = "\<lparr>rl_item = pi_id i, rl_quantity = a, rl_movement = m\<rparr>"
    and ?l' = "\<lparr>rl_item = pi_id i, rl_quantity = b, rl_movement = m'\<rparr>"
  have v: "valid_receipt [?l, ?l']" and fits: "list_all (line_fits (items_of k s)) [?l, ?l']"
    using assms by (auto simp: valid_receipt_def line_fits_def)
  obtain p where p: "find_row pu_id k (d_purchases s) = Some p" "pu_status p \<in> set receivable"
    using assms(2) by (auto simp: open_purchase_def)
  obtain ys u where lines: "receive_lines dec now user p (received_snapshot k s) [?l, ?l'] s = (Inr ys, u)"
    using receive_lines_accepts[OF assms(1), of dec now user p k "[?l, ?l']" s] fits by (metis prod.collapse)
  then obtain x v' y where one: "receive_line dec now user p (received_snapshot k s) ?l s = (Inr x, v')"
    and two: "receive_line dec now user p (received_snapshot k s) ?l' v' = (Inr y, u)"
    by (auto split: prod.splits sum.splits)
  note s1 = receive_line_simulates[OF assms(1,1) receipt_frame_refl _ one, simplified]
  have w: "purchases_wf v'" "receipt_frame s v'" using s1 assms(4) by auto
  note s2 = receive_line_simulates[OF assms(1) w _ two, simplified]
  have mem: "i \<in> set (d_purchase_items s)" using assms(3) by (simp add: items_of_def)
  have at: "find_row pi_id (pi_id i) (d_purchase_items s) = Some i"
    using find_row_distinct[of pi_id, OF _ mem] assms(1) by (simp add: purchases_wf_def)
  have rec: "gd_received (goods_of u) (pi_id i) = Some (pi_received i + b)"
    using s2 assms(5) at by (simp add: goods_of_def)
  have "gd_stock (goods_of v') (pi_item i) = map_option (\<lambda>n. n + a) (stock_at (pi_item i) s)"
    "gd_stock (goods_of u) (pi_item i) = map_option (\<lambda>n. n + b) (gd_stock (goods_of v') (pi_item i))"
    using s1 s2 assms(4,5) at by (simp_all add: deliver_def item_named_def) (simp add: goods_of_def)
  then have stock: "stock_at (pi_item i) u = map_option (\<lambda>n. n + a + b) (stock_at (pi_item i) s)"
    by (cases "stock_at (pi_item i) s") (simp_all add: goods_of_def)
  let ?w = "set_redis (redis_del valuation_key (foldl (\<lambda>r x. redis_del (item_key x) r) (d_redis u) ys)) u"
  have "receive_items dec now k [?l, ?l'] user s = (Inr (items_of k ?w), settle_purchase now k ?w)"
    using p lines by (auto simp: receive_items_def transaction_def Let_def receivable_def)
  moreover have "goods_of (settle_purchase now k ?w) = goods_of u" by (rule goods_of_cong) simp_all
  moreover have "stock_at x (settle_purchase now k ?w) = stock_at x u" for x by (simp add: stock_at_def)
  ultimately show ?thesis using rec stock by simp
qed

theorem repeated_line_overstocks_witness:
  "\<exists>xs t. receive_items half_up 7 ''p1'' [\<lparr>rl_item = ''u1'', rl_quantity = 6, rl_movement = ''m1''\<rparr>,
       \<lparr>rl_item = ''u1'', rl_quantity = 6, rl_movement = ''m2''\<rparr>] ''a1'' (sample_purchases PurchaseStatus.SENT) = (Inr xs, t)
     \<and> gd_received (goods_of t) ''u1'' = Some 8 \<and> stock_at ''i1'' t = Some 16"
  using repeated_line_overstocks[OF sample_purchases_wf sample_open, of sample_purchase_item 6 6 half_up 7 "''m1''" "''m2''" "''a1''"]
  by (simp add: sample_items_of stock_at_def)

text \<open>C20. However long a run of purchase requests is, it accepts at most four changes of the status of a purchase, fewer the
  further the purchase has come; a purchase that was received or cancelled keeps its status for good.\<close>

theorem purchase_changes_end:
  shows "accepted_changes dec k qs s \<le> 4 - purchase_rank (purchase_status k s)
    \<and> (\<forall>a. purchase_status k s = Some a \<and> purchase_transitions a = [] \<longrightarrow>
         purchase_status k (run_requests (purchase_step dec) qs s) = Some a)"
  using accepted_changes_rank[of dec k qs s]
    purchase_rank_le[of "purchase_status k (run_requests (purchase_step dec) qs s)"] purchase_run_terminal by auto

theorem purchase_changes_end_witness:
  "purchase_status ''p1'' (run_requests (purchase_step half_up)
      [(0, 2026, SetPurchaseStatus ''p1'' PurchaseStatus.CANCELLED)] (sample_purchases PurchaseStatus.RECEIVED))
    = Some PurchaseStatus.RECEIVED"
  using purchase_changes_end[of half_up "''p1''" "[(0, 2026, SetPurchaseStatus ''p1'' PurchaseStatus.CANCELLED)]"
      "sample_purchases PurchaseStatus.RECEIVED"]
  by (simp add: purchase_status_def)

text \<open>C19. A purchase that is not closed can always be completed: after sending it, if it is a draft, the request for exactly what
  is missing is accepted, and leaves every item of it received in full and the purchase received.\<close>

theorem purchase_can_be_completed:
  assumes "purchases_wf s" and "purchase_status k s = Some a" and "purchase_transitions a \<noteq> []"
  shows "\<exists>qs. length qs \<le> 2 \<and>
    (let t = run_requests (purchase_step dec) qs s
     in purchase_status k t = Some PurchaseStatus.RECEIVED \<and> (\<forall>i \<in> set (items_of k t). pi_received i = pi_quantity i))"
proof (cases "a = PurchaseStatus.DRAFT")
  case False
  then have o: "open_purchase k s"
    using assms(2,3) by (cases a) (auto simp: open_purchase_def purchase_status_def receivable_def)
  show ?thesis
    using completing_request[OF assms(1) o refl, where dec = dec and now = 0 and mid = "\<lambda>x. x" and user = "[]"] outstanding_fits[OF assms(1), of "\<lambda>x. x" k]
    by (intro exI[of _ "[(0, 0, ReceiveItems k (outstanding (\<lambda>x. x) k s) [])]"]) (simp add: Let_def)
next
  case True
  let ?s = "snd (purchase_step dec (0, 0, SetPurchaseStatus k PurchaseStatus.SENT) s)"
  have wf: "purchases_wf ?s" by (rule purchase_step_wf[OF assms(1)])
  obtain p where p: "find_row pu_id k (d_purchases s) = Some p" "pu_status p = PurchaseStatus.DRAFT"
    using assms(2) True by (auto simp: purchase_status_def)
  then have o: "open_purchase k ?s"
    by (simp add: update_purchase_status_def Let_def open_purchase_def update_purchase_def purchases.lookup_modify receivable_def)
  show ?thesis
    using completing_request[OF wf o refl, where dec = dec and now = 0 and mid = "\<lambda>x. x" and user = "[]"] outstanding_fits[OF wf, of "\<lambda>x. x" k]
    by (intro exI[of _ "[(0, 0, SetPurchaseStatus k PurchaseStatus.SENT),
          (0, 0, ReceiveItems k (outstanding (\<lambda>x. x) k ?s) [])]"]) (simp add: Let_def)
qed

theorem purchase_can_be_completed_witness:
  "\<exists>qs. length qs \<le> 2 \<and>
    (let t = run_requests (purchase_step half_up) qs (sample_purchases PurchaseStatus.DRAFT)
     in purchase_status ''p1'' t = Some PurchaseStatus.RECEIVED \<and> list_all (\<lambda>i. pi_received i = pi_quantity i) (items_of ''p1'' t))"
  using purchase_can_be_completed[OF sample_purchases_wf, of "''p1''" PurchaseStatus.DRAFT PurchaseStatus.DRAFT half_up]
  by (simp add: purchase_status_def list_all_iff)

end
