(* ===== verification/Shares.thy ===== *)
theory Shares
  imports CentsArith
begin

text \<open>The share one amount is of another, in percent, against a fifth.\<close>

lemma rnd_le:
  assumes "q \<le> c" and "0 \<le> c"
  shows "rnd q \<le> c + c / 2 ^ 53 + 1 / 2 ^ 1075"
proof -
  have "q + \<bar>q\<bar> / 2 ^ 53 \<le> c + c / 2 ^ 53"
  proof (cases "0 \<le> q")
    case True
    then show ?thesis using assms(1) by (intro add_mono divide_right_mono) auto
  next
    case False
    then have "\<bar>q\<bar> / 2 ^ 53 \<le> \<bar>q\<bar>" by (simp add: divide_le_eq)
    then have "q + \<bar>q\<bar> / 2 ^ 53 \<le> 0" using False by linarith
    moreover have "0 \<le> c + c / 2 ^ 53" using assms(2) by simp
    ultimately show ?thesis by linarith
  qed
  then show ?thesis using rnd_err[of q] by linarith
qed

lemma rnd_ge:
  assumes "c \<le> q" and "0 \<le> c"
  shows "c - c / 2 ^ 53 - 1 / 2 ^ 1075 \<le> rnd q"
proof -
  have "c * (1 - 1 / 2 ^ 53) \<le> q * (1 - 1 / 2 ^ 53)" using assms(1) by (intro mult_right_mono) auto
  then have "c - c / 2 ^ 53 \<le> q - q / 2 ^ 53" by (simp add: algebra_simps)
  then show ?thesis using rnd_err[of q] assms by linarith
qed

lemma share_of_cents:
  assumes D: "cents_range D" and T: "1 \<le> T" "cents_range T"
  obtains p where "js_mul (js_div (cents D) (cents T)) (Fin 100) = Fin p"
    and "5 * D < T \<Longrightarrow> p \<le> 20" and "T < 5 * D \<Longrightarrow> 20 < p"
proof -
  define d t where "d = rnd (of_int D / 100)" and "t = rnd (of_int T / 100 :: rat)"
  let ?T = "of_int T :: rat" and ?D = "of_int D :: rat"
  have Tr: "1 \<le> ?T" "?T \<le> 2 ^ 40"
  proof -
    show "1 \<le> ?T" using T(1) by simp
    have "?T \<le> of_int (2 ^ 40)" using T by (simp only: of_int_le_iff) (simp add: cents_range_def)
    then show "?T \<le> 2 ^ 40" by simp
  qed
  have Dr: "\<bar>?D / 100\<bar> \<le> 2 ^ 40 / 100" by (rule cents_range_rat[OF D])
  have c: "cents D = Fin d" "cents T = Fin t"
    unfolding d_def t_def cents_def using cents_range_rat[OF D] cents_range_rat[OF T(2)] by (intro fl_rnd; simp)+
  have t_le: "t \<le> ?T / 100 + ?T / 100 / 2 ^ 53 + 1 / 2 ^ 1075"
    unfolding t_def by (rule rnd_le) (use Tr in auto)
  have t_ge: "?T / 100 - ?T / 100 / 2 ^ 53 - 1 / 2 ^ 1075 \<le> t"
    unfolding t_def by (rule rnd_ge) (use Tr in auto)
  have t_pos: "1 / 200 \<le> t" using t_ge Tr by simp
  have "\<bar>d\<bar> \<le> 2 ^ 41"
    using rnd_err[of "?D / 100"] Dr unfolding d_def by simp
  then have "\<bar>d / t\<bar> \<le> 2 ^ 41 / (1 / 200)"
    unfolding abs_divide using t_pos by (intro frac_le) auto
  then have dt: "\<bar>d / t\<bar> \<le> 2 ^ 60" by simp
  define q where "q = rnd (d / t)"
  have q: "js_div (cents D) (cents T) = Fin q"
    using t_pos dt fl_rnd[of "d / t"] by (simp add: c q_def)
  have "\<bar>q\<bar> \<le> 2 ^ 61" using rnd_err[of "d / t"] dt unfolding q_def by simp
  then have p: "js_mul (js_div (cents D) (cents T)) (Fin 100) = Fin (rnd (q * 100))"
    using fl_rnd[of "q * 100"] by (simp add: q)
  show ?thesis
  proof (rule that[OF p])
    assume "5 * D < T"
    then have "5 * D \<le> T - 1" by simp
    then have "of_int (5 * D) \<le> (of_int (T - 1) :: rat)" by (simp only: of_int_le_iff)
    then have DT: "?D / 100 \<le> (?T - 1) / 500" by simp
    have "d \<le> (?T - 1) / 500 + (?T - 1) / 500 / 2 ^ 53 + 1 / 2 ^ 1075"
      unfolding d_def by (rule rnd_le[OF DT]) (use Tr in simp)
    also have "\<dots> \<le> (1 / 5 - 1 / 2 ^ 44) * (?T / 100 - ?T / 100 / 2 ^ 53 - 1 / 2 ^ 1075)"
      using Tr by (simp add: field_simps)
    also have "\<dots> \<le> (1 / 5 - 1 / 2 ^ 44) * t" using t_ge by (intro mult_left_mono) auto
    finally have "d / t \<le> 1 / 5 - 1 / 2 ^ 44" using t_pos by (simp add: divide_le_eq)
    from rnd_le[OF this] have "q * 100 \<le> 20 - 1 / 2 ^ 40" by (simp add: q_def)
    from rnd_le[OF this] show "rnd (q * 100) \<le> 20" by simp
  next
    assume "T < 5 * D"
    then have "T + 1 \<le> 5 * D" by simp
    then have "of_int (T + 1) \<le> (of_int (5 * D) :: rat)" by (simp only: of_int_le_iff)
    then have DT: "(?T + 1) / 500 \<le> ?D / 100" by simp
    have "(1 / 5 + 1 / 2 ^ 44) * t \<le> (1 / 5 + 1 / 2 ^ 44) * (?T / 100 + ?T / 100 / 2 ^ 53 + 1 / 2 ^ 1075)"
      using t_le by (intro mult_left_mono) auto
    also have "\<dots> \<le> (?T + 1) / 500 - (?T + 1) / 500 / 2 ^ 53 - 1 / 2 ^ 1075"
      using Tr by (simp add: field_simps)
    also have "\<dots> \<le> d" unfolding d_def by (rule rnd_ge[OF DT]) (use Tr in simp)
    finally have "1 / 5 + 1 / 2 ^ 44 \<le> d / t" using t_pos by (simp add: le_divide_eq)
    from rnd_ge[OF this] have "20 + 1 / 2 ^ 40 \<le> q * 100" by (simp add: q_def)
    from rnd_ge[OF this] show "20 < rnd (q * 100)" by simp
  qed
qed

end
