(* ===== verification/OrdersService.thy ===== *)
theory OrdersService
  imports FinanceService DomainWorkOrders Samples Shares "HOL-Library.List_Lexorder" "HOL-Library.Char_ord" "HOL-Library.Word"
begin

text \<open>
  \<open>OrdersService\<close> (\<open>orders.service.ts\<close>): the handlers of work orders. A requester is the identity the
  token gives; the bytes of an uploaded file are given, their digest and their base64 text are the parameters
  \<open>sha\<close> and \<open>b64\<close>. Amounts of the requests have two decimals and are counted in cents.
\<close>

section \<open>Who asks\<close>

record requester =
  rq_id :: string
  rq_role :: UserRole
  rq_client :: "string option"

definition assert_mutation_scope :: "string option \<Rightarrow> requester \<Rightarrow> http_error + unit" where
  "assert_mutation_scope mechanic rq =
     (if (rq_role rq = MECHANIC \<or> rq_role rq = TRAINEE) \<and> mechanic \<noteq> Some (rq_id rq)
      then Inl (NotFound ''Orden de trabajo no encontrada'') else Inr ())"

text \<open>The prologue of the handlers: the order exists, and the requester may change it.\<close>

definition scoped_order :: "string \<Rightarrow> requester \<Rightarrow> (order_row \<Rightarrow> db \<Rightarrow> 'a answer) \<Rightarrow> db \<Rightarrow> 'a answer" where
  "scoped_order k rq body s =
     (case find_row wo_id k (d_orders s) of
        None \<Rightarrow> (Inl (NotFound ''Orden de trabajo no encontrada''), s)
      | Some w \<Rightarrow>
          (case assert_mutation_scope (wo_mechanic w) rq of
             Inl e \<Rightarrow> (Inl e, s)
           | Inr _ \<Rightarrow> body w s))"

section \<open>Uploaded files\<close>

record upload =
  fu_id :: string
  fu_mime :: string
  fu_bytes :: "8 word list"

definition ascii_bytes :: "string \<Rightarrow> 8 word list" where
  "ascii_bytes t = map (\<lambda>c. word_of_nat (of_char c)) t"

definition is_image_buffer :: "8 word list \<Rightarrow> bool" where
  "is_image_buffer b \<longleftrightarrow>
     12 \<le> length b \<and>
     (take 3 b = [0xff, 0xd8, 0xff]
      \<or> take 8 b = [0x89, 0x50, 0x4e, 0x47, 0x0d, 0x0a, 0x1a, 0x0a]
      \<or> take 4 b = ascii_bytes ''RIFF'' \<and> take 4 (drop 8 b) = ascii_bytes ''WEBP'')"

definition data_url :: "(8 word list \<Rightarrow> string) \<Rightarrow> string \<Rightarrow> 8 word list \<Rightarrow> string" where
  "data_url b64 mime bytes = ''data:'' @ mime @ '';base64,'' @ b64 bytes"

definition max_photos_per_order :: nat where
  "max_photos_per_order = 30"

definition photo_count :: "string \<Rightarrow> db \<Rightarrow> nat" where
  "photo_count k s = count_where (\<lambda>p. ph_order p = k) (d_photos s)"

section \<open>Creating and reading\<close>

definition order_number :: "int \<Rightarrow> db \<Rightarrow> string" where
  "order_number year s = document_number ''OT'' year
     (count_where (\<lambda>w. starts_with (number_prefix ''OT'' year) (wo_number w)) (d_orders s))"

definition new_order :: "string \<Rightarrow> string \<Rightarrow> string \<Rightarrow> string \<Rightarrow> string option \<Rightarrow> string \<Rightarrow> int option \<Rightarrow> int \<Rightarrow> string \<Rightarrow> order_row" where
  "new_order k number vehicle client mechanic description odometer now user =
     \<lparr>wo_id = k, wo_number = number, wo_vehicle = vehicle, wo_client = client, wo_mechanic = mechanic,
      wo_status = OrderStatus.RECEIVED, wo_description = description, wo_diagnosis = None,
      wo_odometer_in = odometer, wo_odometer_out = None, wo_labor = None, wo_parts = None, wo_total = None,
      wo_discount = 0, wo_final = 0, wo_received_at = now, wo_estimated = None, wo_started_at = None,
      wo_completed_at = None, wo_delivered_at = None, wo_payment_status = InvoiceStatus.DRAFT, wo_notes = None,
      wo_photos = [], wo_created_by = user\<rparr>"

text \<open>The constraints of \<open>work_orders\<close>: unique id and number, and the foreign keys of the row.\<close>

definition insert_order :: "order_row \<Rightarrow> db \<Rightarrow> http_error + db" where
  "insert_order w s =
     (if wo_id w \<in> wo_id ` set (d_orders s) \<or> wo_number w \<in> wo_number ` set (d_orders s) then Inl (DbError ''P2002'')
      else if find_row ve_id (wo_vehicle w) (d_vehicles s) = None \<or> find_row cl_id (wo_client w) (d_clients s) = None
              \<or> (case wo_mechanic w of Some m \<Rightarrow> \<not> account_exists m s | None \<Rightarrow> False)
      then Inl (DbError ''P2003'')
      else Inr (s\<lparr>d_orders := insert_row w (d_orders s)\<rparr>))"

definition create_order ::
    "int \<Rightarrow> int \<Rightarrow> string \<Rightarrow> string \<Rightarrow> string \<Rightarrow> string \<Rightarrow> string \<Rightarrow> string \<Rightarrow> db \<Rightarrow> order_row answer" where
  "create_order now year new_id vehicle client mechanic description user s =
     (let w = new_order new_id (order_number year s) vehicle client (Some mechanic) description None now user
      in case insert_order w s of
           Inl e \<Rightarrow> (Inl e, s)
         | Inr s1 \<Rightarrow> (Inr w, emit_order_created new_id s1))"

record order_filters =
  of_status :: "OrderStatus option"
  of_mechanic :: "string option"
  of_from :: "int option"
  of_to :: "int option"
  of_limit :: "nat option"
  of_cursor :: "string option"
  of_page :: "nat option"
  of_page_size :: "nat option"

definition order_matches :: "order_filters \<Rightarrow> order_row \<Rightarrow> bool" where
  "order_matches f w \<longleftrightarrow>
     (case of_status f of Some st \<Rightarrow> wo_status w = st | None \<Rightarrow> True)
     \<and> (nonempty (of_mechanic f) \<longrightarrow> wo_mechanic w = of_mechanic f)
     \<and> (case of_from f of Some t \<Rightarrow> t \<le> wo_received_at w | None \<Rightarrow> True)
     \<and> (case of_to f of Some t \<Rightarrow> wo_received_at w \<le> t | None \<Rightarrow> True)"

definition by_cursor :: "order_filters \<Rightarrow> order_row list \<Rightarrow> order_row list \<times> string option" where
  "by_cursor f rows =
     (case cursor_page wo_id (case of_limit f of Some n \<Rightarrow> n | None \<Rightarrow> 20)
             (if nonempty (of_cursor f) then of_cursor f else None) (sort_key wo_id rows) of
        (data, next, _) \<Rightarrow> (data, next))"

definition find_all_orders :: "order_filters \<Rightarrow> db \<Rightarrow> order_row list \<times> string option" where
  "find_all_orders f s =
     (let rows = filter (order_matches f) (d_orders s)
      in if of_page f \<noteq> None \<or> of_page_size f \<noteq> None then
           let n = min (case of_page_size f of Some k \<Rightarrow> k | None \<Rightarrow> 10) 100;
               current = (case of_page f of Some k \<Rightarrow> k | None \<Rightarrow> 1)
           in (take n (drop ((current - 1) * n) (sort_key (\<lambda>w. - wo_received_at w) rows)), None)
         else by_cursor f rows)"

definition find_all_for_client ::
    "string option \<Rightarrow> order_filters \<Rightarrow> db \<Rightarrow> http_error + order_row list \<times> string option" where
  "find_all_for_client client f s =
     (if \<not> nonempty client then Inl (Forbidden ''CLIENT_NOT_LINKED'')
      else Inr (by_cursor f (filter (\<lambda>w. Some (wo_client w) = client) (d_orders s))))"

definition find_by_mechanic :: "string \<Rightarrow> order_filters \<Rightarrow> db \<Rightarrow> order_row list \<times> string option" where
  "find_by_mechanic mechanic f s = by_cursor f (filter (\<lambda>w. wo_mechanic w = Some mechanic) (d_orders s))"

definition find_one_order :: "string \<Rightarrow> requester option \<Rightarrow> db \<Rightarrow> http_error + order_row" where
  "find_one_order k requester s =
     (case find_row wo_id k (d_orders s) of
        None \<Rightarrow> Inl (NotFound ''Orden de trabajo no encontrada'')
      | Some w \<Rightarrow>
          (case requester of
             None \<Rightarrow> Inr w
           | Some rq \<Rightarrow>
               if rq_role rq \<notin> {UserRole.OWNER, UserRole.ADMIN, UserRole.FINANCE} then
                 let assigned = ((rq_role rq = MECHANIC \<or> rq_role rq = TRAINEE) \<and> wo_mechanic w = Some (rq_id rq));
                     owning = (rq_role rq = CLIENT \<and> nonempty (rq_client rq) \<and> Some (wo_client w) = rq_client rq)
                 in if \<not> assigned \<and> \<not> owning then Inl (NotFound ''Orden de trabajo no encontrada'') else Inr w
               else Inr w))"

text \<open>The routes of the controller that list orders: who is asked for which listing.\<close>

definition list_orders_route :: "requester \<Rightarrow> order_filters \<Rightarrow> db \<Rightarrow> http_error + order_row list \<times> string option" where
  "list_orders_route rq f s =
     (case roles_guard (Some [UserRole.OWNER, UserRole.ADMIN, UserRole.FINANCE, CLIENT]) (Some (Some (rq_role rq))) of
        Inl e \<Rightarrow> Inl e
      | Inr _ \<Rightarrow> if rq_role rq = CLIENT then find_all_for_client (rq_client rq) f s else Inr (find_all_orders f s))"

definition no_filters :: order_filters where
  "no_filters = \<lparr>of_status = None, of_mechanic = None, of_from = None, of_to = None, of_limit = None,
     of_cursor = None, of_page = None, of_page_size = None\<rparr>"

text \<open>\<open>GET by-status/:status\<close> has no role guard: any authenticated user gets the whole listing.\<close>

definition by_status_route :: "requester \<Rightarrow> OrderStatus \<Rightarrow> db \<Rightarrow> order_row list \<times> string option" where
  "by_status_route rq st s = find_all_orders (no_filters\<lparr>of_status := Some st\<rparr>) s"

section \<open>Changing an order\<close>

record order_update =
  ou_status :: "OrderStatus option"
  ou_diagnosis :: "string option"
  ou_labor :: "int option"
  ou_parts :: "int option"
  ou_estimated :: "int option"

definition or_zero :: "int option \<Rightarrow> int" where
  "or_zero x = (case x of Some n \<Rightarrow> n | None \<Rightarrow> 0)"

text \<open>Decimal arithmetic is exact, so the new total is the sum of the cents.\<close>

definition apply_order_update :: "order_update \<Rightarrow> order_row \<Rightarrow> order_row" where
  "apply_order_update u w =
     w\<lparr>wo_status := (case ou_status u of Some st \<Rightarrow> st | None \<Rightarrow> wo_status w),
       wo_diagnosis := (case ou_diagnosis u of Some d \<Rightarrow> Some d | None \<Rightarrow> wo_diagnosis w),
       wo_labor := (case ou_labor u of Some n \<Rightarrow> Some n | None \<Rightarrow> wo_labor w),
       wo_parts := (case ou_parts u of Some n \<Rightarrow> Some n | None \<Rightarrow> wo_parts w),
       wo_estimated := (case ou_estimated u of Some t \<Rightarrow> Some t | None \<Rightarrow> wo_estimated w),
       wo_total := (if ou_labor u \<noteq> None \<or> ou_parts u \<noteq> None
                    then Some ((case ou_labor u of Some n \<Rightarrow> n | None \<Rightarrow> or_zero (wo_labor w))
                               + (case ou_parts u of Some n \<Rightarrow> n | None \<Rightarrow> or_zero (wo_parts w)))
                    else wo_total w)\<rparr>"

definition update_order_request :: "string \<Rightarrow> order_update \<Rightarrow> requester \<Rightarrow> db \<Rightarrow> order_row answer" where
  "update_order_request k u rq =
     scoped_order k rq (\<lambda>w s.
       if ou_status u \<noteq> None \<and> wo_status w = OrderStatus.CANCELLED
       then (Inl (Conflict ''No se puede modificar una orden cancelada''), s)
       else (Inr (apply_order_update u w), update_order k (apply_order_update u) s))"

definition order_parts :: "string \<Rightarrow> db \<Rightarrow> part_row list" where
  "order_parts k s = filter (\<lambda>p. op_order p = k) (d_parts s)"

definition order_payments :: "string \<Rightarrow> db \<Rightarrow> payment_row list" where
  "order_payments k s = filter (\<lambda>p. pm_order p = Some k) (d_payments s)"

definition parts_cost :: "part_row list \<Rightarrow> number" where
  "parts_cost ps = foldl (\<lambda>sum p. js_add sum (js_mul (cents (op_unit_price p)) (js_int (op_quantity p)))) (Fin 0) ps"

definition paid_amount :: "payment_row list \<Rightarrow> number" where
  "paid_amount ps = foldl (\<lambda>sum p. js_add sum (cents (pm_amount p))) (Fin 0) ps"

definition validate_vehicle_delivery :: "string \<Rightarrow> db \<Rightarrow> http_error + unit" where
  "validate_vehicle_delivery k s =
     (case find_row wo_id k (d_orders s) of
        None \<Rightarrow> Inl (NotFound ''Orden no encontrada para validacion de entrega'')
      | Some w \<Rightarrow>
          let required = js_add (cents (or_zero (wo_labor w))) (parts_cost (order_parts k s));
              paid = paid_amount (order_payments k s)
          in if js_le required (Fin 0) then Inl (BadRequest ''No se puede entregar un vehiculo sin costos'')
             else if js_lt paid required then Inl (BadRequest ''No se puede entregar: existe un saldo pendiente'')
             else Inr ())"

definition update_status :: "int \<Rightarrow> string \<Rightarrow> OrderStatus \<Rightarrow> requester \<Rightarrow> db \<Rightarrow> order_row answer" where
  "update_status now k st rq =
     scoped_order k rq (\<lambda>w s.
       if st \<notin> set (order_transitions (wo_status w)) then (Inl (Conflict ''No se puede cambiar de estado''), s)
       else if st = IN_PROGRESS \<and> count_where (\<lambda>p. op_order p = k) (d_parts s) = 0
       then (Inl (BadRequest ''Regla Anti-Fraude AF-01''), s)
       else
         (case (if st = DELIVERED then validate_vehicle_delivery k s else Inr ()) of
            Inl e \<Rightarrow> (Inl e, s)
          | Inr _ \<Rightarrow>
              let f = (\<lambda>r. r\<lparr>wo_status := st,
                             wo_delivered_at := (if st = DELIVERED then Some now else wo_delivered_at r)\<rparr>);
                  s1 = log_status k st (rq_id rq) now (update_order k f s)
              in (Inr (f w), broadcast_order_update k (emit_order_status_changed k s1))))"

definition soft_delete_order :: "string \<Rightarrow> db \<Rightarrow> order_row answer" where
  "soft_delete_order k s =
     (case find_row wo_id k (d_orders s) of
        None \<Rightarrow> (Inl (NotFound ''Orden de trabajo no encontrada''), s)
      | Some w \<Rightarrow>
          if wo_status w = OrderStatus.CANCELLED then (Inl (Conflict ''La orden ya esta cancelada''), s)
          else (Inr (w\<lparr>wo_status := OrderStatus.CANCELLED\<rparr>),
                update_order k (\<lambda>r. r\<lparr>wo_status := OrderStatus.CANCELLED\<rparr>) s))"

definition assign_mechanic :: "string \<Rightarrow> string \<Rightarrow> db \<Rightarrow> order_row answer" where
  "assign_mechanic k mechanic s =
     (case find_row wo_id k (d_orders s) of
        None \<Rightarrow> (Inl (NotFound ''Orden de trabajo no encontrada''), s)
      | Some w \<Rightarrow>
          if wo_status w = OrderStatus.CANCELLED \<or> wo_status w = DELIVERED
          then (Inl (Conflict ''No se puede reasignar una orden finalizada o cancelada''), s)
          else
            (case find_row ac_id mechanic (d_accounts s) of
               None \<Rightarrow> (Inl (BadRequest ''El destinatario no es un mecanico activo valido''), s)
             | Some a \<Rightarrow>
                 if ac_status a \<noteq> AccountStatus.ACTIVE \<or> ac_role a \<notin> {MECHANIC, TRAINEE}
                 then (Inl (BadRequest ''El destinatario no es un mecanico activo valido''), s)
                 else (Inr (w\<lparr>wo_mechanic := Some mechanic\<rparr>),
                       update_order k (\<lambda>r. r\<lparr>wo_mechanic := Some mechanic\<rparr>) s)))"

datatype discount_result = DiscountPending string | DiscountApplied order_row

text \<open>
  \<open>applyDiscount\<close>. The total is the one of the order, or its final amount when it has none. The amount of
  the request, or the percentage of the total, is compared as a share of the total; it is stored through
  the rounding of its column.
\<close>

definition discount_total :: "order_row \<Rightarrow> number" where
  "discount_total w = cents (case wo_total w of Some n \<Rightarrow> n | None \<Rightarrow> wo_final w)"

definition discount_amount :: "number \<Rightarrow> int option \<Rightarrow> int option \<Rightarrow> number" where
  "discount_amount t amount percentage =
     (case amount of Some n \<Rightarrow> cents n
      | None \<Rightarrow> js_div (js_mul t (cents (or_zero percentage))) (Fin 100))"

definition discount_pct :: "number \<Rightarrow> number \<Rightarrow> number" where
  "discount_pct t d = (if js_lt (Fin 0) t then js_mul (js_div d t) (Fin 100) else Fin 0)"

definition apply_discount_request ::
    "(number \<Rightarrow> int) \<Rightarrow> string \<Rightarrow> string \<Rightarrow> int option \<Rightarrow> int option \<Rightarrow> requester \<Rightarrow> db \<Rightarrow> discount_result answer" where
  "apply_discount_request dec new_id k amount percentage rq =
     scoped_order k rq (\<lambda>w s.
       if wo_status w = DELIVERED \<or> wo_status w = OrderStatus.CANCELLED
       then (Inl (Conflict ''No se puede aplicar descuento a ordenes finalizadas''), s)
       else
         let t = discount_total w;
             d = discount_amount t amount percentage
         in if js_lt (Fin 20) (discount_pct t d) \<and> rq_role rq \<noteq> UserRole.OWNER then
              (if \<not> account_exists (rq_id rq) s then (Inl (DbError ''P2003''), s)
               else
                 let a = \<lparr>ap_id = new_id, ap_type = DISCOUNT, ap_status = ApprovalStatus.PENDING,
                          ap_amount = Some (dec d), ap_requested_by = rq_id rq\<rparr>
                 in (Inr (DiscountPending new_id),
                     emit_approval_requested new_id (s\<lparr>d_approvals := insert_row a (d_approvals s)\<rparr>)))
            else
              let f = (\<lambda>r. r\<lparr>wo_discount := dec d, wo_final := dec (js_max (Fin 0) (js_sub t d))\<rparr>)
              in (Inr (DiscountApplied (f w)), update_order k f s))"

text \<open>
  \<open>reportProgress\<close>: the hours add to the cost of the labour at fifty soles an hour; the total of the order
  is left as it was.
\<close>

definition report_progress ::
    "(number \<Rightarrow> int) \<Rightarrow> int \<Rightarrow> string \<Rightarrow> number \<Rightarrow> requester \<Rightarrow> db \<Rightarrow> unit answer" where
  "report_progress dec now k hours rq =
     scoped_order k rq (\<lambda>w s.
       let s1 = log_event k ''PROGRESS_REPORTED'' (rq_id rq) now s
       in if js_lt (Fin 0) hours
          then (Inr (), update_order k (\<lambda>r. r\<lparr>wo_labor :=
                  Some (dec (js_add (cents (or_zero (wo_labor w))) (js_mul hours (Fin 50))))\<rparr>) s1)
          else (Inr (), s1))"

section \<open>Photographs\<close>

definition add_photo_row :: "string \<Rightarrow> string \<Rightarrow> string \<Rightarrow> string \<Rightarrow> string \<Rightarrow> db \<Rightarrow> db" where
  "add_photo_row new_id k url mime hash s =
     s\<lparr>d_photos := insert_row \<lparr>ph_id = new_id, ph_order = k, ph_url = url, ph_type = mime, ph_hash = hash\<rparr> (d_photos s)\<rparr>"

definition upload_photo ::
    "(8 word list \<Rightarrow> string) \<Rightarrow> (8 word list \<Rightarrow> string) \<Rightarrow> int \<Rightarrow> string \<Rightarrow> upload \<Rightarrow> requester \<Rightarrow> db \<Rightarrow> string answer" where
  "upload_photo sha b64 now k photo rq =
     scoped_order k rq (\<lambda>w s.
       if \<not> is_image_buffer (fu_bytes photo) then (Inl (BadRequest ''El archivo no es una imagen valida''), s)
       else if max_photos_per_order \<le> photo_count k s
       then (Inl (Conflict ''La OT ya tiene el maximo de fotos permitidas''), s)
       else
         let url = data_url b64 (fu_mime photo) (fu_bytes photo);
             s1 = add_photo_row (fu_id photo) k url (fu_mime photo) (sha (fu_bytes photo)) s;
             s2 = update_order k (\<lambda>r. r\<lparr>wo_photos := wo_photos r @ [url]\<rparr>) s1
         in (Inr url, log_event k ''PHOTO_UPLOADED'' (rq_id rq) now s2))"

definition delete_photo :: "int \<Rightarrow> string \<Rightarrow> string \<Rightarrow> requester \<Rightarrow> db \<Rightarrow> unit answer" where
  "delete_photo now k photo rq =
     scoped_order k rq (\<lambda>w s.
       case List.find (\<lambda>p. ph_id p = photo \<and> ph_order p = k) (d_photos s) of
         None \<Rightarrow> (Inl (NotFound ''Foto no encontrada en esta orden''), s)
       | Some p \<Rightarrow>
           let s1 = s\<lparr>d_photos := filter (\<lambda>q. ph_id q \<noteq> photo) (d_photos s)\<rparr>;
               s2 = update_order k (\<lambda>r. r\<lparr>wo_photos := filter (\<lambda>u. u \<noteq> ph_url p) (wo_photos w)\<rparr>) s1
           in (Inr (), log_event k ''PHOTO_DELETED'' (rq_id rq) now s2))"

definition normalized :: "string \<Rightarrow> string" where
  "normalized t = js_trim (map upper t)"

definition supplied_positions :: "string option \<Rightarrow> string list" where
  "supplied_positions positions =
     filter (\<lambda>p. p \<noteq> []) (map normalized (split_on (CHR '','') (case positions of Some p \<Rightarrow> p | None \<Rightarrow> [])))"

text \<open>\<open>parseInt(text, 10) || null\<close>: the digits after the space and the sign; no digit, or zero, is \<open>null\<close>.\<close>

definition decimal_digit :: "char \<Rightarrow> bool" where
  "decimal_digit c \<longleftrightarrow> 48 \<le> (of_char c :: nat) \<and> (of_char c :: nat) \<le> 57"

definition digits_value :: "string \<Rightarrow> int" where
  "digits_value t = foldl (\<lambda>n c. 10 * n + (int (of_char c) - 48)) 0 t"

definition parse_int_or_null :: "string option \<Rightarrow> int option" where
  "parse_int_or_null text =
     (case text of None \<Rightarrow> None
      | Some t \<Rightarrow>
          let u = dropWhile js_space t;
              negative = (u \<noteq> [] \<and> hd u = CHR ''-'');
              v = (if u \<noteq> [] \<and> (hd u = CHR ''-'' \<or> hd u = CHR ''+'') then tl u else u);
              n = digits_value (takeWhile decimal_digit v)
          in if takeWhile decimal_digit v = [] \<or> n = 0 then None else Some (if negative then - n else n))"

definition default_client_email :: string where
  "default_client_email = ''sinasignar@arellanhnos.com''"

record checkin =
  ck_plate :: string
  ck_kilometers :: "string option"
  ck_description :: "string option"
  ck_positions :: "string option"
  ck_brand :: "string option"
  ck_model :: "string option"

text \<open>The client a new vehicle is put under: found by its address, or created with a fixed document number.\<close>

definition default_client :: "int \<Rightarrow> string \<Rightarrow> db \<Rightarrow> (http_error + string) \<times> db" where
  "default_client now new_client s =
     (case List.find (\<lambda>c. cl_email c = Some default_client_email) (d_clients s) of
        Some c \<Rightarrow> (Inr (cl_id c), s)
      | None \<Rightarrow>
          if Some ''00000000'' \<in> cl_dni ` set (d_clients s) then (Inl (DbError ''P2002''), s)
          else (Inr new_client,
                s\<lparr>d_clients := insert_row \<lparr>cl_id = new_client, cl_account = None, cl_first_name = ''Cliente'',
                                          cl_last_name = Some ''Sin Asignar'', cl_phone = ''000000000'',
                                          cl_email = Some default_client_email, cl_dni = Some ''00000000'',
                                          cl_created_at = now, cl_deleted_at = None\<rparr> (d_clients s)\<rparr>))"

definition given_or :: "string \<Rightarrow> string option \<Rightarrow> string" where
  "given_or d x = (if nonempty x then the x else d)"

definition checkin_vehicle ::
    "int \<Rightarrow> int \<Rightarrow> string \<Rightarrow> string \<Rightarrow> checkin \<Rightarrow> vehicle_row option \<Rightarrow> db \<Rightarrow> (http_error + vehicle_row) \<times> db" where
  "checkin_vehicle now year new_vehicle new_client body existing s =
     (case existing of
        Some v \<Rightarrow> (Inr v, s)
      | None \<Rightarrow>
          (case default_client now new_client s of
             (Inl e, s1) \<Rightarrow> (Inl e, s1)
           | (Inr c, s1) \<Rightarrow>
               let plate = normalized (ck_plate body);
                   v = \<lparr>ve_id = new_vehicle, ve_plate = plate, ve_brand = given_or ''No especificado'' (ck_brand body),
                        ve_model = given_or ''No especificado'' (ck_model body), ve_year = year,
                        ve_color = Some ''No especificado'', ve_client = c, ve_created_at = now\<rparr>
               in if new_vehicle \<in> ve_id ` set (d_vehicles s1) \<or> plate \<in> ve_plate ` set (d_vehicles s1)
                  then (Inl (DbError ''P2002''), s1)
                  else (Inr v, s1\<lparr>d_vehicles := insert_row v (d_vehicles s1)\<rparr>)))"

primrec add_photos ::
    "(8 word list \<Rightarrow> string) \<Rightarrow> (8 word list \<Rightarrow> string) \<Rightarrow> string \<Rightarrow> upload list \<Rightarrow> db \<Rightarrow> db" where
  "add_photos sha b64 k [] s = s"
| "add_photos sha b64 k (p # ps) s =
     add_photos sha b64 k ps
       (add_photo_row (fu_id p) k (data_url b64 (fu_mime p) (fu_bytes p)) (fu_mime p) (sha (fu_bytes p)) s)"

definition active_order_of :: "string \<Rightarrow> db \<Rightarrow> order_row option" where
  "active_order_of vehicle s =
     List.find (\<lambda>w. wo_vehicle w = vehicle \<and> wo_status w \<notin> {DELIVERED, OrderStatus.CANCELLED}) (d_orders s)"

definition vehicle_by_plate :: "string \<Rightarrow> db \<Rightarrow> vehicle_row option" where
  "vehicle_by_plate plate s = List.find (\<lambda>v. map upper (ve_plate v) = map upper plate) (d_vehicles s)"

text \<open>The transaction: the vehicle, the order, its photographs with their digests, and the event.\<close>

definition checkin_transaction ::
    "(8 word list \<Rightarrow> string) \<Rightarrow> (8 word list \<Rightarrow> string) \<Rightarrow> int \<Rightarrow> int \<Rightarrow> string \<Rightarrow> string \<Rightarrow> string
      \<Rightarrow> checkin \<Rightarrow> vehicle_row option \<Rightarrow> upload list \<Rightarrow> string \<Rightarrow> db \<Rightarrow> order_row answer" where
  "checkin_transaction sha b64 now year new_order_id new_vehicle new_client body existing photos user t =
     (let plate = normalized (ck_plate body)
      in case checkin_vehicle now year new_vehicle new_client body existing t of
           (Inl e, t1) \<Rightarrow> (Inl e, t1)
         | (Inr v, t1) \<Rightarrow>
             let w = new_order new_order_id (order_number year t1) (ve_id v) (ve_client v) (Some user)
                       (if nonempty (ck_description body) then the (ck_description body)
                        else ''Ingreso de vehiculo '' @ plate)
                       (parse_int_or_null (ck_kilometers body)) now user
             in (case insert_order w t1 of
                   Inl e \<Rightarrow> (Inl e, t1)
                 | Inr t2 \<Rightarrow>
                     let urls = map (\<lambda>p. data_url b64 (fu_mime p) (fu_bytes p)) photos;
                         t3 = add_photos sha b64 new_order_id photos t2;
                         t4 = update_order new_order_id (\<lambda>r. r\<lparr>wo_photos := urls\<rparr>) t3
                     in (Inr (w\<lparr>wo_photos := urls\<rparr>), log_event new_order_id ''VEHICLE_INTAKE'' user now t4)))"

definition vehicle_busy :: "vehicle_row option \<Rightarrow> db \<Rightarrow> bool" where
  "vehicle_busy existing s \<longleftrightarrow> (case existing of Some v \<Rightarrow> active_order_of (ve_id v) s \<noteq> None | None \<Rightarrow> False)"

definition vehicle_checkin ::
    "(8 word list \<Rightarrow> string) \<Rightarrow> (8 word list \<Rightarrow> string) \<Rightarrow> int \<Rightarrow> int \<Rightarrow> string \<Rightarrow> string \<Rightarrow> string
      \<Rightarrow> checkin \<Rightarrow> upload list \<Rightarrow> string \<Rightarrow> db \<Rightarrow> order_row answer" where
  "vehicle_checkin sha b64 now year new_order_id new_vehicle new_client body photos user s =
     (let existing = vehicle_by_plate (normalized (ck_plate body)) s
      in if length photos < length required_checkin_positions then (Inl (BadRequest ''Regla Anti-Fraude #8''), s)
         else if \<not> list_all (\<lambda>p. is_image_buffer (fu_bytes p)) photos
         then (Inl (BadRequest ''Una de las fotos de check-in no es una imagen valida''), s)
         else
           (case assert_checkin_photo_positions (supplied_positions (ck_positions body)) of
              Inl _ \<Rightarrow> (Inl (BadRequest ''Regla Anti-Fraude #8: Posiciones de fotos faltantes''), s)
            | Inr _ \<Rightarrow>
                if vehicle_busy existing s then (Inl (Conflict ''Ya existe una OT activa para la placa''), s)
                else
                  (case transaction (checkin_transaction sha b64 now year new_order_id new_vehicle new_client
                                       body existing photos user) s of
                     (Inl e, s1) \<Rightarrow> (Inl e, s1)
                   | (Inr w, s1) \<Rightarrow> (Inr w, emit_order_created new_order_id s1))))"

text \<open>
  \<open>captureCameraPhoto\<close>: the device sends the picture as base64, which \<open>unb64\<close> decodes. It is the bridge that
  asks, so there is no requester.
\<close>

definition capture_camera_photo ::
    "(8 word list \<Rightarrow> string) \<Rightarrow> (string \<Rightarrow> 8 word list) \<Rightarrow> int \<Rightarrow> string \<Rightarrow> string \<Rightarrow> string \<Rightarrow> string \<Rightarrow> string option
      \<Rightarrow> db \<Rightarrow> (string \<times> nat) answer" where
  "capture_camera_photo sha unb64 now new_id k position picture mime s =
     (case find_row wo_id k (d_orders s) of
        None \<Rightarrow> (Inl (NotFound ''OT no encontrada''), s)
      | Some w \<Rightarrow>
          let pos = normalized position;
              bytes = unb64 picture;
              type = (case mime of Some m \<Rightarrow> m | None \<Rightarrow> ''image/jpeg'')
          in if pos \<notin> set required_checkin_positions then (Inl (BadRequest ''Posicion invalida''), s)
             else if \<not> is_image_buffer bytes then (Inl (BadRequest ''La captura no es una imagen valida''), s)
             else if max_photos_per_order \<le> photo_count k s
             then (Inl (Conflict ''La OT ya tiene el maximo de fotos permitidas''), s)
             else
               let url = ''data:'' @ type @ '';base64,'' @ picture;
                   s1 = add_photo_row new_id k url type (sha bytes) s;
                   s2 = update_order k (\<lambda>r. r\<lparr>wo_photos := wo_photos r @ [url]\<rparr>) s1
               in (Inr (sha bytes, length (wo_photos w) + 1), log_event k ''ONVIF_CAMERA_CHECKIN'' ''system'' now s2))"

text \<open>\<open>requestCameraCapture\<close>: whether the bridge answers is the argument \<open>bridge\<close>; the state does not change.\<close>

definition request_camera_capture :: "bool \<Rightarrow> string \<Rightarrow> string \<Rightarrow> requester \<Rightarrow> db \<Rightarrow> bool answer" where
  "request_camera_capture bridge k position rq =
     scoped_order k rq (\<lambda>w s.
       if normalized position \<notin> set required_checkin_positions then (Inl (BadRequest ''Posicion invalida''), s)
       else (Inr bridge, s))"

section \<open>The summary of the day\<close>

record order_summary =
  sm_active :: nat
  sm_received :: nat
  sm_completed :: nat
  sm_delivered :: nat
  sm_total :: nat
  sm_pending_payment :: nat
  sm_revenue :: number
  sm_low_stock :: nat

definition on_day :: "int \<Rightarrow> int \<Rightarrow> int option \<Rightarrow> bool" where
  "on_day today tomorrow t = (case t of Some x \<Rightarrow> today \<le> x \<and> x < tomorrow | None \<Rightarrow> False)"

definition get_summary_stats :: "int \<Rightarrow> int \<Rightarrow> db \<Rightarrow> order_summary" where
  "get_summary_stats today tomorrow s =
     \<lparr>sm_active = count_where (\<lambda>w. wo_status w \<notin> {DELIVERED, OrderStatus.CANCELLED}) (d_orders s),
      sm_received = count_where (\<lambda>w. on_day today tomorrow (Some (wo_received_at w))) (d_orders s),
      sm_completed = count_where (\<lambda>w. on_day today tomorrow (wo_completed_at w)) (d_orders s),
      sm_delivered = count_where (\<lambda>w. on_day today tomorrow (wo_delivered_at w)) (d_orders s),
      sm_total = length (d_orders s),
      sm_pending_payment = count_where (\<lambda>w. wo_status w \<in> {READY, IN_REVIEW}
        \<and> wo_payment_status w \<in> {InvoiceStatus.DRAFT, ISSUED}) (d_orders s),
      sm_revenue = column_sum tx_amount
        (filter (\<lambda>t. tx_type t = PAYMENT \<and> on_day today tomorrow (Some (tx_at t))) (d_transactions s)),
      sm_low_stock = count_where (\<lambda>i. it_stock i \<le> it_min_stock i) (d_items s)\<rparr>"

section \<open>The status of an order\<close>

definition status_of :: "string \<Rightarrow> db \<Rightarrow> OrderStatus option" where
  "status_of k s = map_option wo_status (find_row wo_id k (d_orders s))"

text \<open>Between two states every order keeps its status or takes one transition of the table.\<close>

definition rows_step :: "order_row list \<Rightarrow> order_row list \<Rightarrow> bool" where
  "rows_step rs ts \<longleftrightarrow>
     (\<forall>k w. find_row wo_id k rs = Some w \<longrightarrow>
        (\<exists>v. find_row wo_id k ts = Some v
           \<and> (wo_status v = wo_status w \<or> wo_status v \<in> set (order_transitions (wo_status w)))))"

definition status_step :: "db \<Rightarrow> db \<Rightarrow> bool" where
  "status_step s t \<longleftrightarrow> rows_step (d_orders s) (d_orders t)"

lemma status_stepD:
  "status_step s t \<Longrightarrow> status_of k s = Some a \<Longrightarrow>
     \<exists>b. status_of k t = Some b \<and> (b = a \<or> b \<in> set (order_transitions a))"
  by (auto simp: status_step_def rows_step_def status_of_def) fastforce

lemma rows_step_refl [simp]: "rows_step rs rs"
  by (simp add: rows_step_def)

lemma rows_step_insert [simp]: "rows_step rs (insert_row w rs)"
  by (auto simp: rows_step_def orders.lookup_create)

lemma rows_step_update [simp]:
  assumes "\<And>r. wo_id (f r) = wo_id r" and "\<And>r. wo_status (f r) = wo_status r"
  shows "rows_step rs (update_row wo_id k f rs)"
  using assms by (auto simp: rows_step_def orders.lookup_modify)

lemma rows_step_transition:
  assumes "find_row wo_id k rs = Some w" and "\<And>r. wo_id (f r) = wo_id r"
    and "wo_status (f w) \<in> set (order_transitions (wo_status w))"
  shows "rows_step rs (update_row wo_id k f rs)"
  using assms by (auto simp: rows_step_def orders.lookup_modify)

text \<open>Writing a new order and then filling it in is no change of an order that was there.\<close>

lemma rows_step_fill:
  assumes "k \<notin> wo_id ` set rs" and "wo_id w = k" and "\<And>r. wo_id (f r) = wo_id r"
  shows "rows_step rs (update_row wo_id k f (insert_row w rs))"
  using assms
  by (auto simp: rows_step_def orders.lookup_modify orders.lookup_create find_row_None_iff dest!: find_row_SomeD)
    (metis imageI)

lemma update_order_orders [simp]: "d_orders (update_order k f s) = update_row wo_id k f (d_orders s)"
  by (simp add: update_order_def)

text \<open>What the prologue answers.\<close>

definition in_scope :: "string \<Rightarrow> requester \<Rightarrow> db \<Rightarrow> bool" where
  "in_scope k rq s \<longleftrightarrow>
     (\<exists>w. find_row wo_id k (d_orders s) = Some w
        \<and> (rq_role rq = MECHANIC \<or> rq_role rq = TRAINEE \<longrightarrow> wo_mechanic w = Some (rq_id rq)))"

lemma scoped_order_out:
  "\<not> in_scope k rq s \<Longrightarrow> scoped_order k rq body s = (Inl (NotFound ''Orden de trabajo no encontrada''), s)"
  by (auto simp: scoped_order_def in_scope_def assert_mutation_scope_def split: option.splits)

lemma scoped_order_in:
  "in_scope k rq s \<Longrightarrow> find_row wo_id k (d_orders s) = Some w \<Longrightarrow> scoped_order k rq body s = body w s"
  by (auto simp: scoped_order_def in_scope_def assert_mutation_scope_def)

lemma scoped_order_ok:
  assumes "scoped_order k rq body s = (Inr a, t)"
  obtains w where "find_row wo_id k (d_orders s) = Some w" "in_scope k rq s" "body w s = (Inr a, t)"
  using assms scoped_order_out[of k rq s body] scoped_order_in[of k rq s _ body]
  by (cases "in_scope k rq s") (auto simp: in_scope_def)

lemma status_step_scoped:
  assumes "\<And>w. find_row wo_id k (d_orders s) = Some w \<Longrightarrow> status_step s (snd (body w s))"
  shows "status_step s (snd (scoped_order k rq body s))"
proof (cases "in_scope k rq s")
  case True
  then obtain w where w: "find_row wo_id k (d_orders s) = Some w" by (auto simp: in_scope_def)
  then show ?thesis using scoped_order_in[OF True w, of body] assms[OF w] by simp
qed (simp add: scoped_order_out status_step_def)

lemma insert_order_orders: "insert_order w s = Inr t \<Longrightarrow> t = s\<lparr>d_orders := insert_row w (d_orders s)\<rparr>"
  by (auto simp: insert_order_def split: if_splits)

lemma apply_order_update_simps [simp]:
  "wo_id (apply_order_update u w) = wo_id w"
  "ou_status u = None \<Longrightarrow> wo_status (apply_order_update u w) = wo_status w"
  by (simp_all add: apply_order_update_def)

lemma create_order_status: "status_step s (snd (create_order now year k v c m d u s))"
  by (auto simp: create_order_def Let_def status_step_def split: sum.splits dest!: insert_order_orders)

lemma update_order_request_status:
  "ou_status u = None \<Longrightarrow> status_step s (snd (update_order_request k u rq s))"
  unfolding update_order_request_def by (rule status_step_scoped) (auto simp: status_step_def)

lemma update_status_status: "status_step s (snd (update_status now k st rq s))"
  unfolding update_status_def
  by (rule status_step_scoped)
     (auto simp: status_step_def Let_def split: sum.splits intro: rows_step_transition)

lemma assign_mechanic_status: "status_step s (snd (assign_mechanic k m s))"
  by (auto simp: assign_mechanic_def status_step_def split: option.splits)

lemma apply_discount_status: "status_step s (snd (apply_discount_request dec new_id k a p rq s))"
  unfolding apply_discount_request_def by (rule status_step_scoped) (auto simp: status_step_def Let_def)

lemma report_progress_status: "status_step s (snd (report_progress dec now k h rq s))"
  unfolding report_progress_def by (rule status_step_scoped) (auto simp: status_step_def Let_def)

lemma add_photo_row_frame [simp]:
  "d_orders (add_photo_row i k u m h s) = d_orders s"
  "d_items (add_photo_row i k u m h s) = d_items s"
  "d_redis (add_photo_row i k u m h s) = d_redis s"
  "d_events (add_photo_row i k u m h s) = d_events s"
  "d_parts (add_photo_row i k u m h s) = d_parts s"
  by (simp_all add: add_photo_row_def)

lemma add_photos_frame [simp]: "d_orders (add_photos sha b64 k ps s) = d_orders s"
  by (induction ps arbitrary: s) simp_all

lemma upload_photo_status: "status_step s (snd (upload_photo sha b64 now k ph rq s))"
  unfolding upload_photo_def by (rule status_step_scoped) (auto simp: status_step_def Let_def)

lemma delete_photo_status: "status_step s (snd (delete_photo now k ph rq s))"
  unfolding delete_photo_def
  by (rule status_step_scoped) (auto simp: status_step_def Let_def split: option.splits)

lemma capture_camera_photo_status: "status_step s (snd (capture_camera_photo sha unb64 now i k pos pic mime s))"
  by (auto simp: capture_camera_photo_def status_step_def Let_def split: option.splits)

lemma request_camera_capture_status: "status_step s (snd (request_camera_capture br k pos rq s))"
  unfolding request_camera_capture_def by (rule status_step_scoped) (auto simp: status_step_def)

lemma checkin_vehicle_orders: "checkin_vehicle now year nv nc body existing s = (out, t) \<Longrightarrow> d_orders t = d_orders s"
  by (auto simp: checkin_vehicle_def default_client_def Let_def split: option.splits sum.splits if_splits prod.splits)

lemma insert_order_fresh: "insert_order w s = Inr t \<Longrightarrow> wo_id w \<notin> wo_id ` set (d_orders s)"
  by (auto simp: insert_order_def split: if_splits)

lemma new_order_simps [simp]:
  "wo_id (new_order k number vehicle client mechanic description odometer now user) = k"
  "wo_status (new_order k number vehicle client mechanic description odometer now user) = OrderStatus.RECEIVED"
  "wo_vehicle (new_order k number vehicle client mechanic description odometer now user) = vehicle"
  "wo_mechanic (new_order k number vehicle client mechanic description odometer now user) = mechanic"
  "wo_number (new_order k number vehicle client mechanic description odometer now user) = number"
  "wo_client (new_order k number vehicle client mechanic description odometer now user) = client"
  by (simp_all add: new_order_def)

definition photo_row_of :: "(8 word list \<Rightarrow> string) \<Rightarrow> (8 word list \<Rightarrow> string) \<Rightarrow> string \<Rightarrow> upload \<Rightarrow> photo_row" where
  "photo_row_of sha b64 k p =
     \<lparr>ph_id = fu_id p, ph_order = k, ph_url = data_url b64 (fu_mime p) (fu_bytes p), ph_type = fu_mime p,
      ph_hash = sha (fu_bytes p)\<rparr>"

lemma add_photos_photos: "d_photos (add_photos sha b64 k ps s) = d_photos s @ map (photo_row_of sha b64 k) ps"
  by (induction ps arbitrary: s) (simp_all add: add_photo_row_def photo_row_of_def insert_row_def)

lemma checkin_vehicle_photos: "checkin_vehicle now year nv nc body existing s = (out, t) \<Longrightarrow> d_photos t = d_photos s"
  by (auto simp: checkin_vehicle_def default_client_def Let_def split: option.splits sum.splits if_splits prod.splits)

lemma checkin_transaction_ok:
  assumes "checkin_transaction sha b64 now year k nv nc body existing photos user s = (Inr w, t)"
  obtains v s1 where "checkin_vehicle now year nv nc body existing s = (Inr v, s1)"
    and "d_orders t = update_row wo_id k (\<lambda>r. r\<lparr>wo_photos := wo_photos w\<rparr>)
           (insert_row (w\<lparr>wo_photos := []\<rparr>) (d_orders s))"
    and "wo_id w = k" "wo_vehicle w = ve_id v" "wo_client w = ve_client v" "wo_mechanic w = Some user"
      "wo_status w = OrderStatus.RECEIVED" "wo_number w = order_number year s" "k \<notin> wo_id ` set (d_orders s)"
      "wo_photos w = map (\<lambda>p. data_url b64 (fu_mime p) (fu_bytes p)) photos"
    and "d_photos t = d_photos s @ map (photo_row_of sha b64 k) photos"
proof -
  obtain v s1 where v: "checkin_vehicle now year nv nc body existing s = (Inr v, s1)"
    using assms by (auto simp: checkin_transaction_def Let_def split: prod.splits sum.splits)
  have o: "d_orders s1 = d_orders s" by (rule checkin_vehicle_orders[OF v])
  let ?d = "if nonempty (ck_description body) then the (ck_description body)
    else ''Ingreso de vehiculo '' @ normalized (ck_plate body)"
  let ?w = "new_order k (order_number year s) (ve_id v) (ve_client v) (Some user) ?d
    (parse_int_or_null (ck_kilometers body)) now user"
  have num: "order_number year s1 = order_number year s" by (simp add: order_number_def o)
  obtain s2 where s2: "insert_order ?w s1 = Inr s2"
    using assms v num by (auto simp: checkin_transaction_def Let_def split: sum.splits)
  have photos: "d_photos (add_photos sha b64 k photos s2) = d_photos s @ map (photo_row_of sha b64 k) photos"
    using insert_order_orders[OF s2] checkin_vehicle_photos[OF v] by (simp add: add_photos_photos)
  have w: "w = ?w\<lparr>wo_photos := map (\<lambda>p. data_url b64 (fu_mime p) (fu_bytes p)) photos\<rparr>"
    and t: "t = log_event k ''VEHICLE_INTAKE'' user now (update_order k (\<lambda>r. r\<lparr>wo_photos := wo_photos w\<rparr>)
                  (add_photos sha b64 k photos s2))"
    using assms v s2 num by (auto simp: checkin_transaction_def Let_def)
  have "w\<lparr>wo_photos := []\<rparr> = ?w" by (simp add: w new_order_def)
  moreover have "d_orders t = update_row wo_id k (\<lambda>r. r\<lparr>wo_photos := wo_photos w\<rparr>) (insert_row ?w (d_orders s))"
    using t insert_order_orders[OF s2] o by simp
  moreover have "d_photos t = d_photos s @ map (photo_row_of sha b64 k) photos" using t photos by simp
  moreover have "k \<notin> wo_id ` set (d_orders s)" using insert_order_fresh[OF s2] o by simp
  ultimately show ?thesis by (intro that[OF v]) (simp_all add: w)
qed

lemma vehicle_checkin_out:
  "(\<exists>e. vehicle_checkin sha b64 now year k nv nc body photos user s = (Inl e, s))
   \<or> (\<exists>w t. vehicle_checkin sha b64 now year k nv nc body photos user s = (Inr w, emit_order_created k t)
        \<and> checkin_transaction sha b64 now year k nv nc body (vehicle_by_plate (normalized (ck_plate body)) s) photos user s
            = (Inr w, t)
        \<and> length required_checkin_positions \<le> length photos \<and> list_all (\<lambda>p. is_image_buffer (fu_bytes p)) photos
        \<and> set required_checkin_positions \<subseteq> set (supplied_positions (ck_positions body))
        \<and> \<not> vehicle_busy (vehicle_by_plate (normalized (ck_plate body)) s) s)"
  by (auto simp: vehicle_checkin_def Let_def transaction_def assert_checkin_photo_positions_def filter_empty_conv
      split: prod.splits sum.splits if_splits)

lemma vehicle_checkin_status: "status_step s (snd (vehicle_checkin sha b64 now year k nv nc body photos user s))"
  using vehicle_checkin_out[of sha b64 now year k nv nc body photos user s]
  by (auto simp: status_step_def elim!: checkin_transaction_ok intro!: rows_step_fill)

section \<open>What a delivery needs\<close>

definition required_cents :: "order_row \<Rightarrow> part_row list \<Rightarrow> int" where
  "required_cents w ps = or_zero (wo_labor w) + (\<Sum>p\<leftarrow>ps. op_unit_price p * op_quantity p)"

definition paid_cents :: "payment_row list \<Rightarrow> int" where
  "paid_cents ps = (\<Sum>p\<leftarrow>ps. pm_amount p)"

text \<open>Amounts as the tables hold them: not negative, in the range of the columns, and not too many of them.\<close>

definition bill_bounded :: "order_row \<Rightarrow> part_row list \<Rightarrow> payment_row list \<Rightarrow> bool" where
  "bill_bounded w ps pays \<longleftrightarrow>
     0 \<le> or_zero (wo_labor w) \<and> cents_range (required_cents w ps)
     \<and> (\<forall>p \<in> set ps. 0 \<le> op_unit_price p \<and> 0 \<le> op_quantity p \<and> cents_range (op_unit_price p) \<and> op_quantity p \<le> 2 ^ 40)
     \<and> length ps \<le> 400
     \<and> (\<forall>p \<in> set pays. 0 \<le> pm_amount p \<and> cents_range (pm_amount p)) \<and> cents_range (paid_cents pays)
     \<and> length pays \<le> 400"

lemma approx_foldl_terms:
  assumes "approx e x m" and "\<forall>r \<in> set rs. approx d (g r) (h r) \<and> 0 \<le> h r" and "0 \<le> m" and "0 \<le> d"
    and "cents_range (m + (\<Sum>r\<leftarrow>rs. h r))" and "e + of_nat (length rs) * (d + 1 / 800000) \<le> 1"
  shows "approx (e + of_nat (length rs) * (d + 1 / 800000)) (foldl (\<lambda>a r. js_add a (g r)) x rs) (m + (\<Sum>r\<leftarrow>rs. h r))"
  using assms
proof (induction rs arbitrary: e x m)
  case Nil
  then show ?case by simp
next
  case (Cons r rs)
  have nn: "0 \<le> (\<Sum>r\<leftarrow>rs. h r)" by (rule sum_list_nonneg) (use Cons.prems(2) in auto)
  have r: "approx d (g r) (h r)" "0 \<le> h r" using Cons.prems(2) by auto
  have split: "e + of_nat (length (r # rs)) * (d + 1 / 800000) = (e + d + 1 / 800000) + of_nat (length rs) * (d + 1 / 800000)"
    by (simp add: algebra_simps)
  have "0 \<le> of_nat (length rs) * (d + 1 / 800000)" using Cons.prems(4) by simp
  then have le: "e + d \<le> 1" using Cons.prems(6) unfolding split by linarith
  have "cents_range (m + h r)" using Cons.prems(3,5) nn r(2) by (auto simp: cents_range_def)
  from approx_add[OF Cons.prems(1) r(1) this le]
  have "approx (e + d + 1 / 800000) (js_add x (g r)) (m + h r)" .
  from Cons.IH[OF this] Cons.prems(2-6) r(2)
  show ?case unfolding split by (simp add: add.assoc)
qed

lemma sum_list_terms_nonneg:
  assumes "\<forall>p \<in> set ps. (0 :: int) \<le> f p"
  shows "0 \<le> (\<Sum>p\<leftarrow>ps. f p)" and "p \<in> set ps \<Longrightarrow> f p \<le> (\<Sum>p\<leftarrow>ps. f p)"
proof -
  show nn: "0 \<le> (\<Sum>p\<leftarrow>ps. f p)" by (rule sum_list_nonneg) (use assms in auto)
  assume "p \<in> set ps"
  then show "f p \<le> (\<Sum>p\<leftarrow>ps. f p)"
    using assms
  proof (induction ps)
    case (Cons q ps)
    then have "0 \<le> (\<Sum>p\<leftarrow>ps. f p)" by (intro sum_list_nonneg) auto
    then show ?case using Cons by auto
  qed simp
qed

lemma approx_parts_cost:
  assumes "bill_bounded w ps pays"
  shows "approx (1 / 400) (parts_cost ps) (\<Sum>p\<leftarrow>ps. op_unit_price p * op_quantity p)"
proof -
  let ?h = "\<lambda>p. op_unit_price p * op_quantity p"
  have nn: "\<forall>p \<in> set ps. 0 \<le> ?h p" using assms by (auto simp: bill_bounded_def)
  have total: "cents_range (\<Sum>p\<leftarrow>ps. ?h p)"
    using assms sum_list_terms_nonneg(1)[OF nn]
    by (auto simp: bill_bounded_def required_cents_def cents_range_def)
  have "approx (1 / 200000) (js_mul (cents (op_unit_price p)) (js_int (op_quantity p))) (?h p)" if "p \<in> set ps" for p
  proof (rule approx_cents_mul_int)
    have "?h p \<le> (\<Sum>p\<leftarrow>ps. ?h p)" by (rule sum_list_terms_nonneg(2)[OF nn that])
    then show "cents_range (?h p)" using total nn that by (auto simp: cents_range_def)
  qed (use assms that in \<open>auto simp: bill_bounded_def\<close>)
  moreover have "approx 0 (Fin 0) 0" by (simp add: approx_def)
  moreover have len: "(of_nat (length ps) :: rat) \<le> 400" using assms by (simp add: bill_bounded_def)
  ultimately have "approx (0 + of_nat (length ps) * (1 / 200000 + 1 / 800000)) (parts_cost ps) (0 + (\<Sum>p\<leftarrow>ps. ?h p))"
    unfolding parts_cost_def using nn total by (intro approx_foldl_terms) auto
  then show ?thesis using approx_weaken[of _ _ _ "1 / 400"] len by simp
qed

lemma approx_paid_amount:
  assumes "bill_bounded w ps pays"
  shows "approx (1 / 800) (paid_amount pays) (paid_cents pays)"
proof -
  have len: "(of_nat (length pays) :: rat) \<le> 400" using assms by (simp add: bill_bounded_def)
  have "approx 0 (Fin 0) 0" by (simp add: approx_def)
  then have "approx (0 + of_nat (length pays) * (1 / 800000 + 1 / 800000)) (paid_amount pays) (0 + paid_cents pays)"
    unfolding paid_amount_def paid_cents_def using assms len
    by (intro approx_foldl_terms) (auto simp: bill_bounded_def paid_cents_def approx_cents)
  then show ?thesis using approx_weaken[of _ _ _ "1 / 800"] len by simp
qed

lemma fl_0 [simp]: "fl 0 = Fin 0"
  using fl_int[of 0] by simp

lemma parts_cost_zero:
  assumes "\<forall>p \<in> set ps. op_unit_price p * op_quantity p = 0 \<and> cents_range (op_unit_price p)"
  shows "parts_cost ps = Fin 0"
proof -
  have z: "js_mul (cents n) (js_int k) = Fin 0" if "n * k = 0" "cents_range n" for n k
    using that approx_cents[OF that(2)] by (auto simp: js_int_def approx_def)
  show ?thesis
    using assms unfolding parts_cost_def by (induction ps) (auto simp: z)
qed

lemma validate_vehicle_delivery_cents:
  assumes w: "find_row wo_id k (d_orders s) = Some w"
    and b: "bill_bounded w (order_parts k s) (order_payments k s)"
  shows "validate_vehicle_delivery k s = Inr () \<Longrightarrow>
           0 < required_cents w (order_parts k s) \<and> required_cents w (order_parts k s) \<le> paid_cents (order_payments k s)"
    and "0 < required_cents w (order_parts k s) \<Longrightarrow> required_cents w (order_parts k s) < paid_cents (order_payments k s)
           \<Longrightarrow> validate_vehicle_delivery k s = Inr ()"
proof -
  let ?ps = "order_parts k s" and ?pays = "order_payments k s"
  let ?sum = "\<Sum>p\<leftarrow>?ps. op_unit_price p * op_quantity p"
  let ?l = "or_zero (wo_labor w)"
  let ?req = "js_add (cents ?l) (parts_cost ?ps)" and ?paid = "paid_amount ?pays"
  have nn: "\<forall>p \<in> set ?ps. 0 \<le> op_unit_price p * op_quantity p" using b by (auto simp: bill_bounded_def)
  note sums = sum_list_terms_nonneg[OF nn]
  have l: "0 \<le> ?l" "cents_range (?l + ?sum)" using b by (auto simp: bill_bounded_def required_cents_def)
  then have lr: "cents_range ?l" using sums(1) by (auto simp: cents_range_def)
  have req: "approx (1 / 300) ?req (required_cents w ?ps)"
    using approx_add[OF approx_cents[OF lr] approx_parts_cost[OF b] l(2)]
    by (auto simp: required_cents_def intro: approx_weaken)
  have paid: "approx (1 / 800) ?paid (paid_cents ?pays)" by (rule approx_paid_amount[OF b])
  have zero: "approx 0 (Fin 0) 0" by (simp add: approx_def)
  have none: "?req = Fin 0" if z: "required_cents w ?ps = 0"
  proof -
    have "?l = 0" "?sum = 0" using z l(1) sums(1) by (auto simp: required_cents_def)
    moreover have "op_unit_price p * op_quantity p = 0" if "p \<in> set ?ps" for p
      using sums(2)[OF that] nn that \<open>?sum = 0\<close> by auto
    ultimately have "cents ?l = Fin 0" "parts_cost ?ps = Fin 0"
      using b by (auto intro!: parts_cost_zero simp: bill_bounded_def)
    then show ?thesis by simp
  qed
  have pos: "js_le ?req (Fin 0) \<longleftrightarrow> \<not> 0 < required_cents w ?ps"
  proof (cases "0 < required_cents w ?ps")
    case True
    then have "js_lt (Fin 0) ?req" by (intro approx_lt[OF zero req]) auto
    then have "\<not> js_le ?req (Fin 0)" using js_not_lt[of "Fin 0" ?req] approx_finite[OF req] by auto
    then show ?thesis using True by simp
  next
    case False
    then have "required_cents w ?ps = 0" using l(1) sums(1) by (auto simp: required_cents_def)
    then show ?thesis using none False by simp
  qed
  have out: "validate_vehicle_delivery k s = Inr () \<longleftrightarrow> 0 < required_cents w ?ps \<and> \<not> js_lt ?paid ?req"
    using w pos by (simp add: validate_vehicle_delivery_def Let_def)
  show "0 < required_cents w ?ps \<and> required_cents w ?ps \<le> paid_cents ?pays" if "validate_vehicle_delivery k s = Inr ()"
  proof -
    have "js_lt ?paid ?req" if "paid_cents ?pays < required_cents w ?ps"
      by (rule approx_lt[OF paid req _ that]) simp
    then show ?thesis using that out by fastforce
  qed
  show "validate_vehicle_delivery k s = Inr ()" if "0 < required_cents w ?ps" "required_cents w ?ps < paid_cents ?pays"
  proof -
    have "js_lt ?req ?paid" by (rule approx_lt[OF req paid _ that(2)]) simp
    then have "\<not> js_lt ?paid ?req" using approx_finite[OF req] approx_finite[OF paid] by (cases ?req; cases ?paid) auto
    then show ?thesis using out that(1) by simp
  qed
qed

section \<open>Properties\<close>

text \<open>C27. A mechanic or trainee to whom an order is not assigned cannot tell it from one that does not exist: every
  handler that changes an order, and reading it, answers the same not-found error and changes nothing.\<close>

theorem foreign_order_hidden:
  fixes hidden :: http_error
  assumes "rq_role rq = MECHANIC \<or> rq_role rq = TRAINEE"
    and "\<not> (\<exists>w. find_row wo_id k (d_orders s) = Some w \<and> wo_mechanic w = Some (rq_id rq))"
  defines "hidden \<equiv> NotFound ''Orden de trabajo no encontrada''"
  shows "update_order_request k u rq s = (Inl hidden, s)
    \<and> update_status now k st rq s = (Inl hidden, s)
    \<and> apply_discount_request dec i k a p rq s = (Inl hidden, s)
    \<and> report_progress dec now k h rq s = (Inl hidden, s)
    \<and> upload_photo sha b64 now k ph rq s = (Inl hidden, s)
    \<and> delete_photo now k x rq s = (Inl hidden, s)
    \<and> request_camera_capture br k pos rq s = (Inl hidden, s)
    \<and> find_one_order k (Some rq) s = Inl hidden"
proof -
  have out: "\<not> in_scope k rq s" using assms(1,2) by (auto simp: in_scope_def)
  have "find_one_order k (Some rq) s = Inl hidden"
    using assms(1,2) by (auto simp: find_one_order_def hidden_def split: option.split)
  then show ?thesis
    by (simp add: hidden_def scoped_order_out[OF out] update_order_request_def update_status_def apply_discount_request_def
        report_progress_def upload_photo_def delete_photo_def request_camera_capture_def)
qed

theorem foreign_order_hidden_witness:
  "update_status 7 ''o1'' READY \<lparr>rq_id = ''m2'', rq_role = TRAINEE, rq_client = None\<rparr>
     (empty_db\<lparr>d_orders := [sample_order ''o1'' IN_PROGRESS]\<rparr>)
   = (Inl (NotFound ''Orden de trabajo no encontrada''), empty_db\<lparr>d_orders := [sample_order ''o1'' IN_PROGRESS]\<rparr>)"
  using foreign_order_hidden[of "\<lparr>rq_id = ''m2'', rq_role = TRAINEE, rq_client = None\<rparr>" "''o1''"
      "empty_db\<lparr>d_orders := [sample_order ''o1'' IN_PROGRESS]\<rparr>"] by simp

text \<open>The listing of orders shows a client only the orders of the client linked to the account, and nothing when none
  is linked; staff other than management gets an error. The listing by status has no such check: its answer does
  not depend on who asks.\<close>

theorem listing_scope:
  shows "(rq_role rq = CLIENT \<longrightarrow>
      (\<forall>data next. list_orders_route rq f s = Inr (data, next) \<longrightarrow>
         (\<forall>w \<in> set data. nonempty (rq_client rq) \<and> Some (wo_client w) = rq_client rq \<and> w \<in> set (d_orders s))))
    \<and> (rq_role rq = MECHANIC \<or> rq_role rq = TRAINEE \<longrightarrow> (\<exists>e. list_orders_route rq f s = Inl e))
    \<and> by_status_route rq st s = by_status_route rq' st s"
proof (intro conjI impI allI ballI)
  have sub: "set (fst (by_cursor f rows)) \<subseteq> set rows" for rows
    by (auto simp: by_cursor_def cursor_page_def after_cursor_def Let_def
        split: option.splits dest!: in_set_takeD in_set_dropD set_dropWhileD)
  fix data "next" w
  assume h: "rq_role rq = CLIENT" "list_orders_route rq f s = Inr (data, next)" "w \<in> set data"
  then show "nonempty (rq_client rq)" "Some (wo_client w) = rq_client rq" "w \<in> set (d_orders s)"
    using sub[of "filter (\<lambda>w. Some (wo_client w) = rq_client rq) (d_orders s)"]
    by (auto simp: list_orders_route_def roles_guard_def find_all_for_client_def split: if_splits)
next
  assume "rq_role rq = MECHANIC \<or> rq_role rq = TRAINEE"
  then show "\<exists>e. list_orders_route rq f s = Inl e" by (auto simp: list_orders_route_def roles_guard_def)
qed (simp add: by_status_route_def)

theorem listing_scope_witness:
  "\<exists>e. list_orders_route \<lparr>rq_id = ''m1'', rq_role = MECHANIC, rq_client = None\<rparr> no_filters empty_db = Inl e"
  using listing_scope[of "\<lparr>rq_id = ''m1'', rq_role = MECHANIC, rq_client = None\<rparr>" no_filters empty_db] by simp

text \<open>C6. Through the transition handler an order is delivered only when it was ready and, to the cent, its payments cover
  labour and parts, which are not zero; and payments above that are never refused, though the documentation of the
  route asks for equality. (An exact payment may be refused: the sums are doubles.)\<close>

theorem delivery_is_paid:
  fixes required paid :: int
  assumes "find_row wo_id k (d_orders s) = Some w"
    and "bill_bounded w (order_parts k s) (order_payments k s)"
  defines "required \<equiv> required_cents w (order_parts k s)" and "paid \<equiv> paid_cents (order_payments k s)"
  shows "(\<forall>w' t. update_status now k DELIVERED rq s = (Inr w', t) \<longrightarrow>
           wo_status w = READY \<and> 0 < required \<and> required \<le> paid \<and> status_of k t = Some DELIVERED)
    \<and> (in_scope k rq s \<and> wo_status w = READY \<and> 0 < required \<and> required < paid \<longrightarrow>
           (\<exists>w' t. update_status now k DELIVERED rq s = (Inr w', t)))"
proof (intro conjI allI impI)
  note v = validate_vehicle_delivery_cents[OF assms(1,2)]
  fix w' t assume ok: "update_status now k DELIVERED rq s = (Inr w', t)"
  from ok[unfolded update_status_def] have "validate_vehicle_delivery k s = Inr () \<and> DELIVERED \<in> set (order_transitions (wo_status w))
      \<and> d_orders t = update_row wo_id k (\<lambda>r. r\<lparr>wo_status := DELIVERED, wo_delivered_at := Some now\<rparr>) (d_orders s)"
    by (elim scoped_order_ok) (use assms(1) in \<open>auto simp: Let_def split: if_splits sum.splits\<close>)
  then show "wo_status w = READY" "0 < required" "required \<le> paid" "status_of k t = Some DELIVERED"
    using v(1) assms(1) by (auto simp: required_def paid_def order_transitions_DELIVERED status_of_def orders.lookup_modify)
next
  assume h: "in_scope k rq s \<and> wo_status w = READY \<and> 0 < required \<and> required < paid"
  then have "validate_vehicle_delivery k s = Inr ()"
    using validate_vehicle_delivery_cents(2)[OF assms(1,2)] by (simp add: required_def paid_def)
  then show "\<exists>w' t. update_status now k DELIVERED rq s = (Inr w', t)"
    using h by (simp add: update_status_def scoped_order_in[OF _ assms(1)] Let_def)
qed

definition sample_ready :: db where
  "sample_ready = empty_db
     \<lparr>d_orders := [(sample_order ''o1'' READY)\<lparr>wo_labor := Some 5000\<rparr>],
      d_parts := [\<lparr>op_order = ''o1'', op_item = ''i1'', op_quantity = 2, op_unit_price = 1000\<rparr>],
      d_payments := [\<lparr>pm_id = ''p1'', pm_invoice = None, pm_order = Some ''o1'', pm_method = CASH, pm_amount = 7100,
        pm_reference = None, pm_received_by = ''f1'', pm_verified_by = None, pm_channel = IN_PERSON, pm_personal_yape = False,
        pm_yape_account = None, pm_notes = None, pm_receipt = None, pm_paid_at = 0, pm_created_at = 0\<rparr>]\<rparr>"

theorem delivery_is_paid_witness:
  "\<exists>w t. update_status 7 ''o1'' DELIVERED \<lparr>rq_id = ''a1'', rq_role = UserRole.ADMIN, rq_client = None\<rparr> sample_ready = (Inr w, t)"
proof -
  let ?w = "(sample_order ''o1'' READY)\<lparr>wo_labor := Some 5000\<rparr>"
  have w: "find_row wo_id ''o1'' (d_orders sample_ready) = Some ?w" by (simp add: sample_ready_def)
  have b: "bill_bounded ?w (order_parts ''o1'' sample_ready) (order_payments ''o1'' sample_ready)"
    by (simp add: sample_ready_def order_parts_def order_payments_def bill_bounded_def required_cents_def paid_cents_def
        cents_range_def or_zero_def)
  have "in_scope ''o1'' \<lparr>rq_id = ''a1'', rq_role = UserRole.ADMIN, rq_client = None\<rparr> sample_ready"
    using w by (simp add: in_scope_def)
  then show ?thesis
    using delivery_is_paid[OF w b] by (simp add: required_cents_def paid_cents_def or_zero_def sample_ready_def
        order_parts_def order_payments_def)
qed

text \<open>A vehicle is checked in only with at least five pictures that are images by their content, one for each of the five
  positions, and when the plate has no order under way. The order that results is received, assigned to whoever
  checked it in, and has every picture with its digest; a refused check-in changes nothing.\<close>

theorem checkin_has_evidence:
  assumes "vehicle_checkin sha b64 now year k nv nc body photos user s = (out, t)"
  shows "(\<forall>e. out = Inl e \<longrightarrow> t = s)
    \<and> (\<forall>w. out = Inr w \<longrightarrow>
         5 \<le> length photos \<and> (\<forall>p \<in> set photos. is_image_buffer (fu_bytes p))
         \<and> {''FRONT'', ''BACK'', ''LEFT'', ''RIGHT'', ''DASHBOARD''} \<subseteq> set (supplied_positions (ck_positions body))
         \<and> (\<forall>v. vehicle_by_plate (normalized (ck_plate body)) s = Some v \<longrightarrow>
              active_order_of (ve_id v) s = None \<and> wo_vehicle w = ve_id v)
         \<and> find_row wo_id k (d_orders t) = Some w \<and> wo_status w = OrderStatus.RECEIVED \<and> wo_mechanic w = Some user
         \<and> d_photos t = d_photos s @ map (photo_row_of sha b64 k) photos
         \<and> wo_photos w = map (\<lambda>p. data_url b64 (fu_mime p) (fu_bytes p)) photos)"
  using vehicle_checkin_out[of sha b64 now year k nv nc body photos user s]
proof (elim disjE exE conjE)
  fix e assume "vehicle_checkin sha b64 now year k nv nc body photos user s = (Inl e, s)"
  then show ?thesis using assms by simp
next
  fix w u
  assume ok: "vehicle_checkin sha b64 now year k nv nc body photos user s = (Inr w, emit_order_created k u)"
    and tr: "checkin_transaction sha b64 now year k nv nc body
      (vehicle_by_plate (normalized (ck_plate body)) s) photos user s = (Inr w, u)"
    and guards: "length required_checkin_positions \<le> length photos" "list_all (\<lambda>p. is_image_buffer (fu_bytes p)) photos"
      "set required_checkin_positions \<subseteq> set (supplied_positions (ck_positions body))"
      "\<not> vehicle_busy (vehicle_by_plate (normalized (ck_plate body)) s) s"
  from tr show ?thesis
  proof (rule checkin_transaction_ok, goal_cases)
    case (1 v s1)
    have t: "out = Inr w" "t = emit_order_created k u" using ok assms by simp_all
    have "find_row wo_id k (d_orders s) = None" using 1 by (simp add: find_row_None_iff)
    then have "find_row wo_id k (d_orders t) = Some w"
      using 1 by (simp add: t orders.lookup_modify orders.lookup_create)
    moreover have "ve = v" if "vehicle_by_plate (normalized (ck_plate body)) s = Some ve" for ve
      using 1(1) that by (simp add: checkin_vehicle_def)
    ultimately show ?case
      using guards 1 by (auto simp: t required_checkin_positions_def list_all_iff vehicle_busy_def)
  qed
qed

definition sample_pictures :: "upload list" where
  "sample_pictures = map (\<lambda>i. \<lparr>fu_id = i, fu_mime = ''image/jpeg'', fu_bytes = [0xff, 0xd8, 0xff, 0, 0, 0, 0, 0, 0, 0, 0, 0]\<rparr>)
     [''p1'', ''p2'', ''p3'', ''p4'', ''p5'']"

definition sample_vehicle :: vehicle_row where
  "sample_vehicle = \<lparr>ve_id = ''v1'', ve_plate = ''ABC-123'', ve_brand = ''Toyota'', ve_model = ''Hilux'', ve_year = 2022,
     ve_color = None, ve_client = ''cl1'', ve_created_at = 0\<rparr>"

lemma sample_vehicle_simps [simp]:
  "ve_id sample_vehicle = ''v1''" "ve_plate sample_vehicle = ''ABC-123''" "ve_client sample_vehicle = ''cl1''"
  by (simp_all add: sample_vehicle_def)

definition sample_workshop :: db where
  "sample_workshop = empty_db
     \<lparr>d_accounts := [sample_account ''m1'' MECHANIC],
      d_clients := [\<lparr>cl_id = ''cl1'', cl_account = None, cl_first_name = ''Rosa'', cl_last_name = None, cl_phone = ''987654321'',
                      cl_email = None, cl_dni = None, cl_created_at = 0, cl_deleted_at = None\<rparr>],
      d_vehicles := [sample_vehicle]\<rparr>"

definition sample_checkin :: checkin where
  "sample_checkin = \<lparr>ck_plate = ''abc-123'', ck_kilometers = Some ''85000'', ck_description = None,
     ck_positions = Some ''front, back,LEFT,RIGHT,DASHBOARD'',
     ck_brand = None, ck_model = None\<rparr>"

theorem checkin_has_evidence_witness:
  "\<exists>w t. vehicle_checkin (\<lambda>_. ''h'') (\<lambda>_. ''b'') 7 2026 ''o1'' ''v9'' ''c9'' sample_checkin sample_pictures ''m1'' sample_workshop
     = (Inr w, t) \<and> find_row wo_id ''o1'' (d_orders t) = Some w \<and> length (d_photos t) = 5"
proof -
  have plate: "normalized ''abc-123'' = ''ABC-123''" by code_simp
  have pos: "supplied_positions (Some ''front, back,LEFT,RIGHT,DASHBOARD'') = [''FRONT'', ''BACK'', ''LEFT'', ''RIGHT'', ''DASHBOARD'']"
    by code_simp
  have v: "vehicle_by_plate ''ABC-123'' sample_workshop = Some sample_vehicle"
    by (simp add: vehicle_by_plate_def sample_workshop_def)
  have imgs: "list_all (\<lambda>p. is_image_buffer (fu_bytes p)) sample_pictures" "length sample_pictures = 5"
    by (simp_all add: sample_pictures_def is_image_buffer_def)
  let ?v = "sample_vehicle"
  have busy: "\<not> vehicle_busy (Some ?v) sample_workshop"
    by (simp add: vehicle_busy_def active_order_of_def sample_workshop_def)
  have ins: "insert_order (new_order ''o1'' n ''v1'' ''cl1'' (Some ''m1'') d km 7 ''m1'') sample_workshop
      = Inr (sample_workshop\<lparr>d_orders := insert_row (new_order ''o1'' n ''v1'' ''cl1'' (Some ''m1'') d km 7 ''m1'')
          (d_orders sample_workshop)\<rparr>)" for n d km
    by (simp add: insert_order_def account_exists_def) (simp add: sample_workshop_def)
  have "\<exists>w u. checkin_transaction (\<lambda>_. ''h'') (\<lambda>_. ''b'') 7 2026 ''o1'' ''v9'' ''c9'' sample_checkin (Some ?v) sample_pictures ''m1'' sample_workshop
      = (Inr w, u)"
    by (simp add: checkin_transaction_def Let_def checkin_vehicle_def ins)
  then obtain w u where tr: "checkin_transaction (\<lambda>_. ''h'') (\<lambda>_. ''b'') 7 2026 ''o1'' ''v9'' ''c9'' sample_checkin (Some ?v) sample_pictures ''m1'' sample_workshop
      = (Inr w, u)" by blast
  have p: "ck_plate sample_checkin = ''abc-123''" "ck_positions sample_checkin = Some ''front, back,LEFT,RIGHT,DASHBOARD''"
    by (simp_all add: sample_checkin_def)
  have o: "vehicle_checkin (\<lambda>_. ''h'') (\<lambda>_. ''b'') 7 2026 ''o1'' ''v9'' ''c9'' sample_checkin sample_pictures ''m1'' sample_workshop
     = (Inr w, emit_order_created ''o1'' u)"
    by (simp add: vehicle_checkin_def Let_def p plate pos v imgs required_checkin_positions_def
        assert_checkin_photo_positions_def busy transaction_def tr)
  show ?thesis using checkin_has_evidence[OF o] o imgs(2) by (simp add: sample_workshop_def)
qed

text \<open>A discount of more than a fifth of the total, asked for by anyone but the owner, leaves the order as it was and
  files a pending approval for that amount; a discount under a fifth, or the owner's, is applied and the final
  amount is the total less the discount, not below zero.\<close>

theorem discount_rule:
  assumes "find_row wo_id k (d_orders s) = Some w" and "in_scope k rq s"
    and "wo_status w \<noteq> DELIVERED" and "wo_status w \<noteq> OrderStatus.CANCELLED"
    and "wo_total w = Some T" and "1 \<le> T" and "cents_range T" and "cents_range D" and "cents_range (T - D)"
    and "decimal_column dec" and "account_exists (rq_id rq) s"
  shows "(T < 5 * D \<and> rq_role rq \<noteq> UserRole.OWNER \<longrightarrow>
      (\<exists>t. apply_discount_request dec new_id k (Some D) pct rq s = (Inr (DiscountPending new_id), t)
         \<and> d_orders t = d_orders s
         \<and> d_approvals t = d_approvals s @ [\<lparr>ap_id = new_id, ap_type = DISCOUNT, ap_status = ApprovalStatus.PENDING,
                                             ap_amount = Some D, ap_requested_by = rq_id rq\<rparr>]))
    \<and> (5 * D < T \<or> rq_role rq = UserRole.OWNER \<longrightarrow>
      (\<exists>w' t. apply_discount_request dec new_id k (Some D) pct rq s = (Inr (DiscountApplied w'), t)
         \<and> find_row wo_id k (d_orders t) = Some w' \<and> wo_discount w' = D \<and> wo_final w' = max 0 (T - D)
         \<and> d_approvals t = d_approvals s))"
proof -
  obtain p where p: "js_mul (js_div (cents D) (cents T)) (Fin 100) = Fin p"
    and le: "5 * D < T \<Longrightarrow> p \<le> 20" and gt: "T < 5 * D \<Longrightarrow> 20 < p"
    using share_of_cents[OF assms(8,6,7)] by blast
  have "js_lt (Fin 0) (cents T)" using cents_lt[of 0 T] assms(6,7) by (simp add: cents_range_def del: cents_lt)
  then have pct: "discount_pct (cents T) (cents D) = Fin p" by (simp add: discount_pct_def p)
  have total_T: "discount_total w = cents T" by (simp add: discount_total_def assms(5))
  have amount: "discount_amount t (Some D) pct = cents D" for t by (simp add: discount_amount_def)
  have dec: "dec (cents D) = D" by (rule decimal_column_cents[OF assms(10,8)])
  have "approx (1 / 800000 + 1 / 800000 + 1 / 800000) (js_sub (cents T) (cents D)) (T - D)"
    by (intro approx_sub approx_cents assms) simp
  moreover have "approx 0 (Fin 0) 0" by (simp add: approx_def)
  ultimately have "approx (1 / 1000) (js_max (Fin 0) (js_sub (cents T) (cents D))) (max 0 (T - D))"
    by (intro approx_max) (auto intro: approx_weaken)
  then have final: "dec (js_max (Fin 0) (js_sub (cents T) (cents D))) = max 0 (T - D)"
    using assms(9) by (intro decimal_columnD[OF assms(10)]) (auto simp: cents_range_def)
  show ?thesis
    using assms(1,3,4,11) le gt
    by (auto simp: apply_discount_request_def scoped_order_in[OF assms(2,1)] Let_def total_T amount pct dec final
        insert_row_def orders.lookup_modify)
qed

theorem discount_rule_witness:
  "\<exists>w t. apply_discount_request half_up ''ap1'' ''o1'' (Some 1000) None
       \<lparr>rq_id = ''m1'', rq_role = MECHANIC, rq_client = None\<rparr>
       (empty_db\<lparr>d_accounts := [sample_account ''m1'' MECHANIC],
         d_orders := [(sample_order ''o1'' IN_PROGRESS)\<lparr>wo_total := Some 10000\<rparr>]\<rparr>) = (Inr (DiscountApplied w), t)
     \<and> wo_final w = 9000"
proof -
  let ?rq = "\<lparr>rq_id = ''m1'', rq_role = MECHANIC, rq_client = None\<rparr>"
  let ?s = "empty_db\<lparr>d_accounts := [sample_account ''m1'' MECHANIC],
         d_orders := [(sample_order ''o1'' IN_PROGRESS)\<lparr>wo_total := Some 10000\<rparr>]\<rparr>"
  have "find_row wo_id ''o1'' (d_orders ?s) = Some ((sample_order ''o1'' IN_PROGRESS)\<lparr>wo_total := Some 10000\<rparr>)" by simp
  from discount_rule[OF this, of ?rq 10000 1000 half_up "''ap1''" None] show ?thesis
    by (auto simp: in_scope_def account_exists_def cents_range_def decimal_column_half_up)
qed

end
