(* ===== verification/OrderUseCases.thy ===== *)
theory OrderUseCases
  imports OrdersService InventoryService
begin

text \<open>
  The use cases of an order (\<open>orders/use-cases\<close>): sending its quote, the client's answer to it, dispatching
  parts from the store, finishing the work and handing the vehicle over. Each runs the domain rules of
  \<open>WorkOrder\<close>, one database transaction, and the messages that follow it.
\<close>

section \<open>The quote\<close>

definition quote_of :: "string \<Rightarrow> db \<Rightarrow> quote_row option" where
  "quote_of k s = List.find (\<lambda>q. qu_order q = Some k) (d_quotes s)"

definition update_quote :: "string \<Rightarrow> (quote_row \<Rightarrow> quote_row) \<Rightarrow> db \<Rightarrow> db" where
  "update_quote k f s = s\<lparr>d_quotes := update_row qu_id k f (d_quotes s)\<rparr>"

definition quote_number :: "int \<Rightarrow> db \<Rightarrow> string" where
  "quote_number year s = document_number ''QUO'' year
     (count_where (\<lambda>q. starts_with (number_prefix ''QUO'' year) (qu_number q)) (d_quotes s))"

definition import_commission_rate :: number where
  "import_commission_rate = js_lit (18 / 100)"

text \<open>The parts of the order with the item each is of.\<close>

definition parts_with_items :: "string \<Rightarrow> db \<Rightarrow> (part_row \<times> item_row option) list" where
  "parts_with_items k s = map (\<lambda>p. (p, find_row it_id (op_item p) (d_items s))) (order_parts k s)"

definition imported_parts :: "string \<Rightarrow> db \<Rightarrow> (part_row \<times> item_row) list" where
  "imported_parts k s =
     [(p, i). (p, Some i) \<leftarrow> parts_with_items k s, it_imported i]"

definition customs_of_parts :: "(part_row \<times> item_row) list \<Rightarrow> number" where
  "customs_of_parts ps =
     foldl (\<lambda>sum (p, i). js_add sum (js_mul (js_mul (cents (or_zero (it_customs i))) (js_int (op_quantity p)))
                                            (js_add (Fin 1) import_commission_rate))) (Fin 0) ps"

text \<open>The order as the domain sees it, with the amounts of the request.\<close>

definition quoted_entity :: "order_row \<Rightarrow> int \<Rightarrow> int \<Rightarrow> http_error + work_order_entity" where
  "quoted_entity w labor parts =
     and_then (money_of (cents labor) ''PEN'') (\<lambda>l.
     and_then (money_of (cents parts) ''PEN'') (\<lambda>p.
     and_then (money_from_decimal (wo_discount w) ''PEN'') (\<lambda>d.
       Inr \<lparr>we_id = wo_id w, we_order_number = 0, we_client_id = wo_client w, we_vehicle_id = wo_vehicle w,
            we_mechanic_id = wo_mechanic w, we_status = vo (wo_status w), we_labor_cost = l, we_parts_cost = p,
            we_discount = d, we_description = wo_description w, we_observations = None, we_completed_at = None,
            we_created_at = wo_received_at w, we_updated_at = wo_received_at w\<rparr>)))"

text \<open>A stored total that is positive has to agree with the amounts of the request to the cent.\<close>

definition check_stored_total :: "work_order_entity \<Rightarrow> order_row \<Rightarrow> int \<Rightarrow> int \<Rightarrow> http_error + unit" where
  "check_stored_total e w labor parts =
     (let stored = cents (or_zero (wo_total w));
          updated = js_sub (js_add (cents labor) (cents parts)) (cents (wo_discount w))
      in if js_lt (Fin 0) stored \<and> js_lt (js_lit (1 / 100)) (js_abs (js_sub stored updated))
         then assert_total_consistency e stored else Inr ())"

record quote_amounts =
  qa_customs :: number
  qa_parts :: number
  qa_total :: number

definition quote_amounts_of :: "string \<Rightarrow> order_row \<Rightarrow> int \<Rightarrow> int \<Rightarrow> db \<Rightarrow> quote_amounts" where
  "quote_amounts_of k w labor parts s =
     (let customs = round2 (customs_of_parts (imported_parts k s));
          final_parts = js_add (cents parts) customs
      in \<lparr>qa_customs = customs, qa_parts = final_parts,
          qa_total = js_sub (js_add (cents labor) final_parts) (cents (wo_discount w))\<rparr>)"

text \<open>The transaction: the costs of the order, the quote (rewritten when the order has one) and the event.\<close>

definition write_quote ::
    "(number \<Rightarrow> int) \<Rightarrow> int \<Rightarrow> int \<Rightarrow> string \<Rightarrow> string \<Rightarrow> order_row \<Rightarrow> int \<Rightarrow> quote_amounts \<Rightarrow> int \<Rightarrow> string
      \<Rightarrow> db \<Rightarrow> quote_row answer" where
  "write_quote dec now year new_quote k w labor am valid_until user t =
     (let subtotal = dec (js_add (cents labor) (qa_parts am));
          tax = dec (igv (qa_total am));
          t1 = update_order k (\<lambda>r. r\<lparr>wo_labor := Some labor, wo_parts := Some (dec (qa_parts am)),
                                     wo_total := Some (dec (qa_total am)), wo_final := dec (qa_total am)\<rparr>) t;
          number = quote_number year t1
      in (case quote_of k t1 of
            Some q \<Rightarrow>
              let f = (\<lambda>r. r\<lparr>qu_status := QuoteStatus.SENT, qu_subtotal := subtotal, qu_tax := tax,
                             qu_total := dec (qa_total am), qu_valid_until := valid_until,
                             qu_approved_at := None, qu_rejected_at := None, qu_rejection_reason := None\<rparr>)
              in (Inr (f q), log_event k ''QUOTE_SENT'' user now (update_quote (qu_id q) f t1))
          | None \<Rightarrow>
              let q = \<lparr>qu_id = new_quote, qu_number = number, qu_client = wo_client w,
                       qu_order = Some k, qu_status = QuoteStatus.SENT, qu_valid_until = valid_until,
                       qu_subtotal = subtotal, qu_tax = tax, qu_total = dec (qa_total am),
                       qu_notes = None, qu_created_by = user, qu_created_at = now, qu_approved_at = None, qu_rejected_at = None,
                       qu_rejection_reason = None\<rparr>
              in if new_quote \<in> qu_id ` set (d_quotes t1) \<or> number \<in> qu_number ` set (d_quotes t1)
                 then (Inl (DbError ''P2002''), t1)
                 else (Inr q, log_event k ''QUOTE_SENT'' user now (t1\<lparr>d_quotes := insert_row q (d_quotes t1)\<rparr>))))"

text \<open>The draft of the invoice is written after the transaction: when it fails the quote stays sent.\<close>

definition send_order_quote ::
    "(number \<Rightarrow> int) \<Rightarrow> int \<Rightarrow> int \<Rightarrow> string \<Rightarrow> string \<Rightarrow> string \<Rightarrow> int \<Rightarrow> int \<Rightarrow> int \<Rightarrow> string \<Rightarrow> db \<Rightarrow> quote_row answer" where
  "send_order_quote dec now year new_quote new_invoice k labor parts valid_until user s =
     (case find_row wo_id k (d_orders s) of
        None \<Rightarrow> (Inl (NotFound ''Orden de trabajo no encontrada''), s)
      | Some w \<Rightarrow>
          if wo_status w \<noteq> BUDGETED then (Inl (Conflict ''La OT debe estar en estado BUDGETED''), s)
          else
            (case and_then (quoted_entity w labor parts) (\<lambda>e.
                  and_then (assert_can_send_quote e) (\<lambda>_. check_stored_total e w labor parts)) of
               Inl err \<Rightarrow> (Inl err, s)
             | Inr _ \<Rightarrow>
                 let am = quote_amounts_of k w labor parts s
                 in if imported_parts k s \<noteq> [] \<and> js_le (qa_customs am) (Fin 0)
                    then (Inl (BadRequest ''Regla Anti-Fraude: customsCost es cero''), s)
                    else
                      (case transaction (write_quote dec now year new_quote k w labor am valid_until user) s of
                         (Inl e, s1) \<Rightarrow> (Inl e, s1)
                       | (Inr q, s1) \<Rightarrow>
                           (case create_invoice_draft dec now year new_invoice k (wo_client w) (cents labor) (qa_parts am)
                                   (qa_customs am) user s1 of
                              (Inl e, s2) \<Rightarrow> (Inl e, s2)
                            | (Inr _, s2) \<Rightarrow> (Inr q, broadcast_order_update k (enqueue Notifications ''quote-sent'' k s2))))))"

definition assert_client_ownership :: "order_row \<Rightarrow> requester \<Rightarrow> http_error + unit" where
  "assert_client_ownership w rq =
     (if rq_role rq = CLIENT \<and> Some (wo_client w) \<noteq> rq_client rq
      then Inl (NotFound ''Orden de trabajo no encontrada'') else Inr ())"

definition approve_quote :: "int \<Rightarrow> string \<Rightarrow> requester \<Rightarrow> db \<Rightarrow> string answer" where
  "approve_quote now k rq s =
     (case find_row wo_id k (d_orders s) of
        None \<Rightarrow> (Inl (NotFound ''Orden de trabajo no encontrada''), s)
      | Some w \<Rightarrow>
          (case assert_client_ownership w rq of
             Inl e \<Rightarrow> (Inl e, s)
           | Inr _ \<Rightarrow>
               if wo_status w \<noteq> BUDGETED then (Inl (Conflict ''Solo se puede aprobar cotizaciones en estado BUDGETED''), s)
               else
                 (case quote_of k s of
                    None \<Rightarrow> (Inl (BadRequest ''La orden no tiene cotizacion emitida''), s)
                  | Some q \<Rightarrow>
                      if qu_status q \<noteq> QuoteStatus.SENT then (Inl (Conflict ''La cotizacion no esta en estado SENT''), s)
                      else
                        (case transaction (\<lambda>t.
                                if list_ex (\<lambda>(p, i). case i of Some x \<Rightarrow> it_stock x < 0 | None \<Rightarrow> False) (parts_with_items k s)
                                then (Inl (Conflict ''Stock negativo detectado''), t)
                                else
                                  let t1 = update_order k (\<lambda>r. r\<lparr>wo_status := IN_PROGRESS, wo_started_at := Some now\<rparr>) t;
                                      t2 = update_quote (qu_id q)
                                             (\<lambda>r. r\<lparr>qu_status := QuoteStatus.APPROVED, qu_approved_at := Some now\<rparr>) t1;
                                      t3 = log_event k ''QUOTE_APPROVED'' (rq_id rq) now
                                             (log_status k IN_PROGRESS (rq_id rq) now t2)
                                  in (Inr (qu_id q), t3)) s of
                           (Inl e, s1) \<Rightarrow> (Inl e, s1)
                         | (Inr a, s1) \<Rightarrow> (Inr a, broadcast_order_update k (emit_order_status_changed k s1))))))"

definition reject_quote :: "int \<Rightarrow> string \<Rightarrow> string \<Rightarrow> requester \<Rightarrow> db \<Rightarrow> string answer" where
  "reject_quote now k reason rq s =
     (case find_row wo_id k (d_orders s) of
        None \<Rightarrow> (Inl (NotFound ''Orden de trabajo no encontrada''), s)
      | Some w \<Rightarrow>
          (case assert_client_ownership w rq of
             Inl e \<Rightarrow> (Inl e, s)
           | Inr _ \<Rightarrow>
               (case quote_of k s of
                  None \<Rightarrow> (Inl (BadRequest ''No hay cotizacion SENT activa para rechazar''), s)
                | Some q \<Rightarrow>
                    if qu_status q \<noteq> QuoteStatus.SENT
                    then (Inl (BadRequest ''No hay cotizacion SENT activa para rechazar''), s)
                    else (Inr (qu_id q),
                          log_event k ''QUOTE_REJECTED'' (rq_id rq) now
                            (update_quote (qu_id q) (\<lambda>r. r\<lparr>qu_status := QuoteStatus.REJECTED, qu_rejected_at := Some now,
                               qu_rejection_reason := Some reason\<rparr>) s)))))"

section \<open>Dispatching parts\<close>

record dispatch_line =
  dl_item :: string
  dl_quantity :: int
  dl_movement :: string

text \<open>One line inside the transaction; the answer is whether its item is now under its minimum.\<close>

definition dispatch_line_step :: "int \<Rightarrow> string \<Rightarrow> string \<Rightarrow> dispatch_line \<Rightarrow> db \<Rightarrow> (http_error + bool) \<times> db" where
  "dispatch_line_step now k user l s =
     (case find_row it_id (dl_item l) (d_items s) of
        None \<Rightarrow> (Inl (NotFound ''Repuesto no encontrado en inventario''), s)
      | Some i \<Rightarrow>
          if it_stock i < dl_quantity l then (Inl (Conflict ''Stock insuficiente''), s)
          else
            let left = it_stock i - dl_quantity l;
                p = \<lparr>op_order = k, op_item = dl_item l, op_quantity = dl_quantity l, op_unit_price = it_price i\<rparr>;
                m = \<lparr>mv_id = dl_movement l, mv_item = dl_item l, mv_type = OUT, mv_quantity = dl_quantity l,
                     mv_order = Some k, mv_by = user, mv_justification = Some ''Despacho para OT'',
                     mv_unit_cost = Some (it_cost i), mv_at = now\<rparr>;
                s1 = s\<lparr>d_parts := insert_row p (d_parts s), d_movements := insert_row m (d_movements s)\<rparr>;
                s2 = log_event k ''PART_REQUESTED'' user now (update_item (dl_item l) (\<lambda>r. r\<lparr>it_stock := left\<rparr>) s1)
            in (Inr (left < it_min_stock i), s2))"

primrec dispatch_lines :: "int \<Rightarrow> string \<Rightarrow> string \<Rightarrow> dispatch_line list \<Rightarrow> db \<Rightarrow> (http_error + string list) \<times> db" where
  "dispatch_lines now k user [] s = (Inr [], s)"
| "dispatch_lines now k user (l # ls) s =
     (case dispatch_line_step now k user l s of
        (Inl e, s1) \<Rightarrow> (Inl e, s1)
      | (Inr low, s1) \<Rightarrow>
          (case dispatch_lines now k user ls s1 of
             (Inl e, s2) \<Rightarrow> (Inl e, s2)
           | (Inr alerts, s2) \<Rightarrow> (Inr (if low then dl_item l # alerts else alerts), s2)))"

definition dispatch_invalidate :: "dispatch_line list \<Rightarrow> redis \<Rightarrow> redis" where
  "dispatch_invalidate ls r =
     redis_del critical_key (redis_del valuation_key
       (foldl (\<lambda>r l. redis_del (item_key (dl_item l)) r) r ls))"

definition dispatch_parts :: "int \<Rightarrow> string \<Rightarrow> dispatch_line list \<Rightarrow> requester \<Rightarrow> db \<Rightarrow> nat answer" where
  "dispatch_parts now k ls rq =
     scoped_order k rq (\<lambda>w s.
       if wo_status w \<noteq> IN_PROGRESS then (Inl (Unprocessable ''INVENTORY_NO_ACTIVE_ORDER''), s)
       else
         (case transaction (dispatch_lines now k (rq_id rq) ls) s of
            (Inl e, s1) \<Rightarrow> (Inl e, s1)
          | (Inr alerts, s1) \<Rightarrow>
              (Inr (length alerts),
               foldl (\<lambda>t i. enqueue AlertDispatcher ''low-stock-alert'' i t)
                 (set_redis (dispatch_invalidate ls (d_redis s1)) s1) alerts)))"

section \<open>Finishing the work\<close>

definition complete_work_order ::
    "int \<Rightarrow> string \<Rightarrow> int \<Rightarrow> OrderStatus \<Rightarrow> requester \<Rightarrow> db \<Rightarrow> OrderStatus answer" where
  "complete_work_order now k odometer_out requested rq =
     scoped_order k rq (\<lambda>w s.
       if wo_status w \<noteq> IN_PROGRESS then (Inl (Conflict ''Solo se puede finalizar trabajo de OT en estado IN_PROGRESS''), s)
       else
         (case and_then (assert_odometer_out (wo_odometer_in w) odometer_out) (\<lambda>_.
                 resolve_completion_target (vo (wo_status w)) (vo requested) (rq_role rq)) of
            Inl e \<Rightarrow> (Inl e, s)
          | Inr target \<Rightarrow>
              let ready = (os_value target = ''READY'');
                  st = (if ready then READY else IN_REVIEW);
                  s1 = update_order k (\<lambda>r. r\<lparr>wo_status := st, wo_odometer_out := Some odometer_out,
                                             wo_completed_at := Some now\<rparr>) s;
                  s2 = log_event k (if ready then ''WORK_COMPLETED'' else ''SENT_TO_REVIEW'') (rq_id rq) now
                         (log_status k st (rq_id rq) now s1);
                  s3 = emit_order_status_changed k (enqueue AuditEvents ''mechanic-efficiency'' k s2)
              in (Inr st, if st = IN_REVIEW then emit_qa_inspection_requested k s3 else s3)))"

section \<open>Handing the vehicle over\<close>

definition deliver_vehicle ::
    "(number \<Rightarrow> int) \<Rightarrow> int \<Rightarrow> int \<times> int \<Rightarrow> string \<Rightarrow> string \<Rightarrow> string \<Rightarrow> PaymentMethod \<Rightarrow> string \<Rightarrow> db \<Rightarrow> string answer" where
  "deliver_vehicle dec now today new_tx k signature m user s =
     (case find_row wo_id k (d_orders s) of
        None \<Rightarrow> (Inl (NotFound ''Orden de trabajo no encontrada''), s)
      | Some w \<Rightarrow>
          if wo_status w \<noteq> READY then (Inl (Conflict ''Solo se puede entregar OT en estado READY''), s)
          else
            (case List.find (\<lambda>c. cs_status c = OPEN \<and> fst today \<le> cs_opened_at c \<and> cs_opened_at c \<le> snd today) (d_sessions s) of
               None \<Rightarrow> (Inl (BadRequest ''NO_OPEN_CASHBOX''), s)
             | Some c \<Rightarrow>
                 let s1 = update_order k (\<lambda>r. r\<lparr>wo_status := DELIVERED, wo_delivered_at := Some now,
                                                wo_payment_status := InvoiceStatus.PAID\<rparr>) s;
                     x = \<lparr>tx_id = new_tx, tx_session = cs_id c, tx_type = PAYMENT, tx_amount = dec (cents (wo_final w)),
                          tx_method = m, tx_reference = Some signature, tx_order = Some k, tx_at = now\<rparr>;
                     s2 = log_status k DELIVERED user now s1;
                     s3 = s2\<lparr>d_transactions := insert_row x (d_transactions s2)\<rparr>;
                     s4 = emit_vehicle_delivered k (wo_client w)
                            (emit_order_status_changed k (log_event k ''VEHICLE_DELIVERED'' user now s3))
                 in (Inr (cs_id c), emit_event ''order.delivered'' k s4)))"

section \<open>Dispatching: what a list of lines takes\<close>

definition dispatched :: "string \<Rightarrow> dispatch_line list \<Rightarrow> int" where
  "dispatched x ls = (\<Sum>l\<leftarrow>ls. if dl_item l = x then dl_quantity l else 0)"

text \<open>The effect of the lines on the store, as one relation between the two states.\<close>

definition took :: "string \<Rightarrow> dispatch_line list \<Rightarrow> db \<Rightarrow> db \<Rightarrow> bool" where
  "took k ls s t \<longleftrightarrow>
     map it_id (d_items t) = map it_id (d_items s) \<and> map it_sku (d_items t) = map it_sku (d_items s)
     \<and> (\<forall>x. stock_at x t = map_option (\<lambda>n. n - dispatched x ls) (stock_at x s))
     \<and> (\<forall>x. x \<notin> dl_item ` set ls \<longrightarrow> find_row it_id x (d_items t) = find_row it_id x (d_items s))
     \<and> (\<exists>ps ms. d_parts t = d_parts s @ ps \<and> d_movements t = d_movements s @ ms
          \<and> map (\<lambda>p. (op_order p, op_item p, op_quantity p)) ps = map (\<lambda>l. (k, dl_item l, dl_quantity l)) ls
          \<and> map (\<lambda>m. (mv_order m, mv_item m, mv_quantity m, mv_type m)) ms
             = map (\<lambda>l. (Some k, dl_item l, dl_quantity l, OUT)) ls)
     \<and> d_redis t = d_redis s \<and> d_orders t = d_orders s \<and> d_quotes t = d_quotes s"

lemma took_Nil: "took k [] s s"
  by (auto simp: took_def dispatched_def option.map_ident)

lemma took_trans:
  assumes "took k ls s t" and "took k ms t u"
  shows "took k (ls @ ms) s u"
proof -
  have sum: "dispatched x (ls @ ms) = dispatched x ls + dispatched x ms" for x by (simp add: dispatched_def)
  have stock: "stock_at x u = map_option (\<lambda>n. n - dispatched x (ls @ ms)) (stock_at x s)" for x
    using assms by (simp add: took_def sum option.map_comp comp_def diff_diff_eq)
  obtain ps mvs where p: "d_parts t = d_parts s @ ps" "d_movements t = d_movements s @ mvs"
      "map (\<lambda>p. (op_order p, op_item p, op_quantity p)) ps = map (\<lambda>l. (k, dl_item l, dl_quantity l)) ls"
      "map (\<lambda>m. (mv_order m, mv_item m, mv_quantity m, mv_type m)) mvs = map (\<lambda>l. (Some k, dl_item l, dl_quantity l, OUT)) ls"
    using assms(1) by (auto simp: took_def)
  obtain qs nvs where q: "d_parts u = d_parts t @ qs" "d_movements u = d_movements t @ nvs"
      "map (\<lambda>p. (op_order p, op_item p, op_quantity p)) qs = map (\<lambda>l. (k, dl_item l, dl_quantity l)) ms"
      "map (\<lambda>m. (mv_order m, mv_item m, mv_quantity m, mv_type m)) nvs = map (\<lambda>l. (Some k, dl_item l, dl_quantity l, OUT)) ms"
    using assms(2) by (auto simp: took_def)
  have rows: "\<exists>ps mvs. d_parts u = d_parts s @ ps \<and> d_movements u = d_movements s @ mvs
      \<and> map (\<lambda>p. (op_order p, op_item p, op_quantity p)) ps = map (\<lambda>l. (k, dl_item l, dl_quantity l)) (ls @ ms)
      \<and> map (\<lambda>m. (mv_order m, mv_item m, mv_quantity m, mv_type m)) mvs
         = map (\<lambda>l. (Some k, dl_item l, dl_quantity l, OUT)) (ls @ ms)"
    using p q by (intro exI[of _ "ps @ qs"] exI[of _ "mvs @ nvs"]) simp
  show ?thesis
    using assms stock unfolding took_def by (intro conjI rows) (simp_all add: image_Un)
qed

lemma dispatch_line_took:
  assumes "dispatch_line_step now k user l s = (Inr low, t)"
  shows "took k [l] s t"
    and "\<exists>i. find_row it_id (dl_item l) (d_items s) = Some i \<and> dl_quantity l \<le> it_stock i
           \<and> d_items t = update_row it_id (dl_item l) (\<lambda>r. r\<lparr>it_stock := it_stock i - dl_quantity l\<rparr>) (d_items s)"
proof -
  obtain i where i: "find_row it_id (dl_item l) (d_items s) = Some i" "dl_quantity l \<le> it_stock i"
    using assms by (auto simp: dispatch_line_step_def split: option.splits if_splits)
  let ?f = "\<lambda>r. r\<lparr>it_stock := it_stock i - dl_quantity l\<rparr>"
  have items: "d_items t = update_row it_id (dl_item l) ?f (d_items s)"
    using assms i by (auto simp: dispatch_line_step_def Let_def update_item_items)
  have "stock_at x t = map_option (\<lambda>n. n - dispatched x [l]) (stock_at x s)" for x
    using i by (auto simp: stock_at_def items items.lookup_modify dispatched_def option.map_comp comp_def option.map_ident)
  moreover have "map it_sku (d_items t) = map it_sku (d_items s)"
    unfolding items by (rule map_update_row_frame) simp
  moreover have "map it_id (d_items t) = map it_id (d_items s)" unfolding items by simp
  moreover have "x \<noteq> dl_item l \<Longrightarrow> find_row it_id x (d_items t) = find_row it_id x (d_items s)" for x
    unfolding items by (rule items.modify_other) simp_all
  ultimately show "took k [l] s t"
    using assms i unfolding took_def
    by (auto simp: dispatch_line_step_def Let_def insert_row_def)
  show "\<exists>i. find_row it_id (dl_item l) (d_items s) = Some i \<and> dl_quantity l \<le> it_stock i
           \<and> d_items t = update_row it_id (dl_item l) (\<lambda>r. r\<lparr>it_stock := it_stock i - dl_quantity l\<rparr>) (d_items s)"
    using i items by blast
qed

lemma dispatch_lines_took:
  "dispatch_lines now k user ls s = (Inr alerts, t) \<Longrightarrow> took k ls s t"
proof (induction ls arbitrary: s alerts)
  case Nil
  then show ?case by (simp add: took_Nil)
next
  case (Cons l ls)
  then obtain low s1 alerts' where a: "dispatch_line_step now k user l s = (Inr low, s1)"
    "dispatch_lines now k user ls s1 = (Inr alerts', t)"
    by (auto split: prod.splits sum.splits)
  show ?case using took_trans[OF dispatch_line_took(1)[OF a(1)] Cons.IH[OF a(2)]] by simp
qed

lemma dispatch_lines_stock:
  assumes "dispatch_lines now k user ls s = (Inr alerts, t)" and "\<forall>i \<in> set (d_items s). 0 \<le> it_stock i"
    and "distinct (map it_id (d_items s))"
  shows "\<forall>i \<in> set (d_items t). 0 \<le> it_stock i"
  using assms
proof (induction ls arbitrary: s alerts)
  case (Cons l ls)
  then obtain low s1 alerts' where a: "dispatch_line_step now k user l s = (Inr low, s1)"
    "dispatch_lines now k user ls s1 = (Inr alerts', t)"
    by (auto split: prod.splits sum.splits)
  from dispatch_line_took(2)[OF a(1)] obtain i where i: "find_row it_id (dl_item l) (d_items s) = Some i"
    "dl_quantity l \<le> it_stock i"
    "d_items s1 = update_row it_id (dl_item l) (\<lambda>r. r\<lparr>it_stock := it_stock i - dl_quantity l\<rparr>) (d_items s)" by blast
  have "0 \<le> it_stock j" if "j \<in> set (d_items s1)" for j
    using update_row_found[OF Cons.prems(3) i(1) that[unfolded i(3)]] i(2) Cons.prems(2) by auto
  moreover have "distinct (map it_id (d_items s1))"
    using dispatch_line_took(1)[OF a(1)] Cons.prems(3) by (simp add: took_def)
  ultimately show ?case using Cons.IH[OF a(2)] by blast
qed simp

lemma dispatch_invalidate_map:
  "map_of (dispatch_invalidate ls r) (item_key x) = (if x \<in> dl_item ` set ls then None else map_of r (item_key x))"
proof -
  have fold: "map_of (foldl (\<lambda>r l. redis_del (item_key (dl_item l)) r) r ls) (item_key x)
      = (if x \<in> dl_item ` set ls then None else map_of r (item_key x))"
    by (induction ls arbitrary: r) (auto simp: map_of_redis_del)
  have "item_key x \<noteq> critical_key" "item_key x \<noteq> valuation_key"
    by (simp_all add: item_key_def critical_key_def valuation_key_def)
  then show ?thesis by (auto simp: dispatch_invalidate_def map_of_redis_del fold)
qed

lemma foldl_enqueue_frame [simp]:
  "d_items (foldl (\<lambda>t i. enqueue q n i t) s xs) = d_items s"
  "d_redis (foldl (\<lambda>t i. enqueue q n i t) s xs) = d_redis s"
  "d_orders (foldl (\<lambda>t i. enqueue q n i t) s xs) = d_orders s"
  "d_parts (foldl (\<lambda>t i. enqueue q n i t) s xs) = d_parts s"
  "d_movements (foldl (\<lambda>t i. enqueue q n i t) s xs) = d_movements s"
  "d_quotes (foldl (\<lambda>t i. enqueue q n i t) s xs) = d_quotes s"
  by (induction xs arbitrary: s) simp_all

lemma dispatch_parts_out:
  "(\<exists>e. dispatch_parts now k ls rq s = (Inl e, s))
   \<or> (\<exists>w alerts t1. dispatch_lines now k (rq_id rq) ls s = (Inr alerts, t1) \<and> in_scope k rq s
        \<and> find_row wo_id k (d_orders s) = Some w \<and> wo_status w = IN_PROGRESS
        \<and> dispatch_parts now k ls rq s = (Inr (length alerts),
            foldl (\<lambda>t i. enqueue AlertDispatcher ''low-stock-alert'' i t)
              (set_redis (dispatch_invalidate ls (d_redis t1)) t1) alerts))"
proof (cases "in_scope k rq s")
  case True
  then obtain w where w: "find_row wo_id k (d_orders s) = Some w" by (auto simp: in_scope_def)
  show ?thesis
    using True w
    by (auto simp: dispatch_parts_def scoped_order_in[OF True w] transaction_def split: prod.splits sum.splits)
qed (simp add: dispatch_parts_def scoped_order_out)

lemma dispatch_parts_inventory:
  assumes inv: "inventory_inv s"
  shows "inventory_inv (snd (dispatch_parts now k ls rq s))"
  using dispatch_parts_out[of now k ls rq s]
proof (elim disjE exE conjE)
  fix e assume "dispatch_parts now k ls rq s = (Inl e, s)"
  then show ?thesis using inv by simp
next
  fix w alerts t1
  assume l: "dispatch_lines now k (rq_id rq) ls s = (Inr alerts, t1)"
    and d: "dispatch_parts now k ls rq s = (Inr (length alerts),
            foldl (\<lambda>t i. enqueue AlertDispatcher ''low-stock-alert'' i t)
              (set_redis (dispatch_invalidate ls (d_redis t1)) t1) alerts)"
  note t = dispatch_lines_took[OF l]
  have "coherent_with (d_items t1) (dispatch_invalidate ls (d_redis t1))"
    using inv t by (auto simp: coherent_with_def dispatch_invalidate_map inventory_inv_def cache_coherent_def took_def
        split: if_splits)
  moreover have "\<forall>i \<in> set (d_items t1). 0 \<le> it_stock i"
    using dispatch_lines_stock[OF l] inv by (simp add: inventory_inv_def)
  ultimately show ?thesis
    using inv t by (simp add: d inventory_inv_def took_def cache_coherent_def)
qed

section \<open>The status of an order through the use cases\<close>

lemma create_invoice_draft_orders:
  "create_invoice_draft dec now y i k c l p cu u s = (out, t) \<Longrightarrow> d_orders t = d_orders s"
  by (auto simp: create_invoice_draft_def Let_def split: option.splits if_splits)

lemma create_invoice_draft_orders_snd [simp]:
  "d_orders (snd (create_invoice_draft dec now y i k c l p cu u s)) = d_orders s"
  using create_invoice_draft_orders[of dec now y i k c l p cu u s] by (cases "create_invoice_draft dec now y i k c l p cu u s") simp

lemma update_quote_frame [simp]:
  "d_orders (update_quote k f s) = d_orders s"
  "d_items (update_quote k f s) = d_items s"
  "d_redis (update_quote k f s) = d_redis s"
  "d_transactions (update_quote k f s) = d_transactions s"
  "d_parts (update_quote k f s) = d_parts s"
  "d_quotes (update_quote k f s) = update_row qu_id k f (d_quotes s)"
  by (simp_all add: update_quote_def)

lemma write_quote_orders:
  "write_quote dec now y nq k w l am v u s = (out, t) \<Longrightarrow>
     d_orders t = update_row wo_id k (\<lambda>r. r\<lparr>wo_labor := Some l, wo_parts := Some (dec (qa_parts am)),
       wo_total := Some (dec (qa_total am)), wo_final := dec (qa_total am)\<rparr>) (d_orders s)"
  by (auto simp: write_quote_def Let_def split: option.splits if_splits)

text \<open>What \<open>send_order_quote\<close> may answer, and the state it leaves behind.\<close>

lemma send_order_quote_cases:
  obtains (refused) e where "send_order_quote dec now y nq ni k l p v u s = (Inl e, s)"
  | (written) w q s1 out s2 where "find_row wo_id k (d_orders s) = Some w" "wo_status w = BUDGETED"
      "and_then (quoted_entity w l p) (\<lambda>e. and_then (assert_can_send_quote e) (\<lambda>_. check_stored_total e w l p)) = Inr ()"
      "write_quote dec now y nq k w l (quote_amounts_of k w l p s) v u s = (Inr q, s1)"
      "create_invoice_draft dec now y ni k (wo_client w) (cents l) (qa_parts (quote_amounts_of k w l p s))
         (qa_customs (quote_amounts_of k w l p s)) u s1 = (out, s2)"
      "send_order_quote dec now y nq ni k l p v u s =
         (case out of Inl e \<Rightarrow> (Inl e, s2)
          | Inr _ \<Rightarrow> (Inr q, broadcast_order_update k (enqueue Notifications ''quote-sent'' k s2)))"
proof (cases "find_row wo_id k (d_orders s)")
  case None
  then show ?thesis by (intro refused) (simp add: send_order_quote_def)
next
  case (Some w)
  let ?am = "quote_amounts_of k w l p s"
  let ?check = "and_then (quoted_entity w l p) (\<lambda>e. and_then (assert_can_send_quote e) (\<lambda>_. check_stored_total e w l p))"
  show ?thesis
  proof (cases "wo_status w \<noteq> BUDGETED \<or> (\<exists>e. ?check = Inl e) \<or> imported_parts k s \<noteq> [] \<and> js_le (qa_customs ?am) (Fin 0)")
    case True
    then have "\<exists>e. send_order_quote dec now y nq ni k l p v u s = (Inl e, s)"
      using Some by (cases ?check) (auto simp: send_order_quote_def Let_def)
    then show ?thesis using refused by blast
  next
    case False
    then have c: "wo_status w = BUDGETED" "?check = Inr ()" "\<not> (imported_parts k s \<noteq> [] \<and> js_le (qa_customs ?am) (Fin 0))"
      by (cases ?check; simp)+
    obtain o1 s1 where w1: "write_quote dec now y nq k w l ?am v u s = (o1, s1)" by fastforce
    show ?thesis
    proof (cases o1)
      case (Inl e)
      then have "send_order_quote dec now y nq ni k l p v u s = (Inl e, s)"
        using Some c w1 by (auto simp: send_order_quote_def Let_def transaction_def)
      then show ?thesis by (rule refused)
    next
      case (Inr q)
      obtain out s2 where d: "create_invoice_draft dec now y ni k (wo_client w) (cents l) (qa_parts ?am) (qa_customs ?am) u s1
        = (out, s2)" by fastforce
      have "send_order_quote dec now y nq ni k l p v u s = (case out of Inl e \<Rightarrow> (Inl e, s2)
          | Inr _ \<Rightarrow> (Inr q, broadcast_order_update k (enqueue Notifications ''quote-sent'' k s2)))"
        using Some c w1 Inr d by (auto simp: send_order_quote_def Let_def transaction_def split: sum.split)
      then show ?thesis using written[OF Some c(1,2) _ d] w1 Inr by simp
    qed
  qed
qed

lemma send_order_quote_status: "status_step s (snd (send_order_quote dec now y nq ni k l p v u s))"
proof (cases rule: send_order_quote_cases[of dec now y nq ni k l p v u s])
  case (written w q s1 out s2)
  have "d_orders s2 = d_orders s1" using create_invoice_draft_orders[OF written(5)] .
  then show ?thesis
    using write_quote_orders[OF written(4)] written(6) by (cases out) (simp_all add: status_step_def)
qed (simp add: status_step_def)

lemma approve_quote_status: "status_step s (snd (approve_quote now k rq s))"
  by (auto simp: approve_quote_def transaction_def status_step_def Let_def order_transitions_IN_PROGRESS
      split: option.splits sum.splits intro!: rows_step_transition)

lemma reject_quote_status: "status_step s (snd (reject_quote now k r rq s))"
  by (auto simp: reject_quote_def status_step_def split: option.splits sum.splits)

lemma dispatch_parts_status: "status_step s (snd (dispatch_parts now k ls rq s))"
  using dispatch_parts_out[of now k ls rq s]
  by (auto simp: status_step_def dest!: dispatch_lines_took simp: took_def)

lemma complete_target:
  assumes "and_then (assert_odometer_out i out) (\<lambda>_. resolve_completion_target (vo IN_PROGRESS) (vo requested) role) = Inr target"
  shows "target = vo READY \<or> target = vo IN_REVIEW" and "role = TRAINEE \<Longrightarrow> target = vo IN_REVIEW"
  using assms
  by (auto simp: and_then_Inr resolve_completion_target_def Let_def split: if_splits)

lemma complete_work_order_status: "status_step s (snd (complete_work_order now k out requested rq s))"
  unfolding complete_work_order_def
  by (rule status_step_scoped)
     (auto simp: status_step_def Let_def order_transitions_READY split: sum.splits intro!: rows_step_transition)

lemma deliver_vehicle_status: "status_step s (snd (deliver_vehicle dec now today i k sg m u s))"
  by (auto simp: deliver_vehicle_def status_step_def Let_def order_transitions_DELIVERED split: option.splits
      intro!: rows_step_transition)

text \<open>All the requests that write to orders.\<close>

datatype order_request =
    CreateOrder string string string string string string
  | UpdateOrder string order_update requester
  | SetStatus string OrderStatus requester
  | CancelOrder string
  | AssignOrder string string
  | DiscountOrder string string "int option" "int option" requester
  | ProgressOrder string number requester
  | UploadPhoto string upload requester
  | DeletePhoto string string requester
  | CheckIn string string string checkin "upload list" string
  | CameraPhoto string string string string "string option"
  | SendQuote string string string int int int string
  | ApproveQuote string requester
  | RejectQuote string string requester
  | DispatchParts string "dispatch_line list" requester
  | CompleteWork string int OrderStatus requester
  | DeliverVehicle "int \<times> int" string string string PaymentMethod string

record order_env =
  en_dec :: "number \<Rightarrow> int"
  en_sha :: "8 word list \<Rightarrow> string"
  en_b64 :: "8 word list \<Rightarrow> string"
  en_unb64 :: "string \<Rightarrow> 8 word list"

fun order_step :: "order_env \<Rightarrow> int \<times> int \<times> order_request \<Rightarrow> db \<Rightarrow> unit answer" where
  "order_step e (now, y, CreateOrder i v c m d u) s = drop_answer (create_order now y i v c m d u s)"
| "order_step e (now, y, UpdateOrder k u rq) s = drop_answer (update_order_request k u rq s)"
| "order_step e (now, y, SetStatus k st rq) s = drop_answer (update_status now k st rq s)"
| "order_step e (now, y, CancelOrder k) s = drop_answer (soft_delete_order k s)"
| "order_step e (now, y, AssignOrder k m) s = drop_answer (assign_mechanic k m s)"
| "order_step e (now, y, DiscountOrder i k a p rq) s = drop_answer (apply_discount_request (en_dec e) i k a p rq s)"
| "order_step e (now, y, ProgressOrder k h rq) s = drop_answer (report_progress (en_dec e) now k h rq s)"
| "order_step e (now, y, UploadPhoto k p rq) s = drop_answer (upload_photo (en_sha e) (en_b64 e) now k p rq s)"
| "order_step e (now, y, DeletePhoto k p rq) s = drop_answer (delete_photo now k p rq s)"
| "order_step e (now, y, CheckIn k v c body ps u) s =
     drop_answer (vehicle_checkin (en_sha e) (en_b64 e) now y k v c body ps u s)"
| "order_step e (now, y, CameraPhoto i k pos pic mime) s =
     drop_answer (capture_camera_photo (en_sha e) (en_unb64 e) now i k pos pic mime s)"
| "order_step e (now, y, SendQuote q i k l p v u) s = drop_answer (send_order_quote (en_dec e) now y q i k l p v u s)"
| "order_step e (now, y, ApproveQuote k rq) s = drop_answer (approve_quote now k rq s)"
| "order_step e (now, y, RejectQuote k r rq) s = drop_answer (reject_quote now k r rq s)"
| "order_step e (now, y, DispatchParts k ls rq) s = drop_answer (dispatch_parts now k ls rq s)"
| "order_step e (now, y, CompleteWork k out st rq) s = drop_answer (complete_work_order now k out st rq s)"
| "order_step e (now, y, DeliverVehicle today i k sg m u) s =
     drop_answer (deliver_vehicle (en_dec e) now today i k sg m u s)"

text \<open>The two requests that may leave the table: a status in the body of \<open>PATCH\<close>, and cancelling.\<close>

fun bypasses_table :: "order_request \<Rightarrow> bool" where
  "bypasses_table (UpdateOrder k u rq) \<longleftrightarrow> ou_status u \<noteq> None"
| "bypasses_table (CancelOrder k) \<longleftrightarrow> True"
| "bypasses_table _ \<longleftrightarrow> False"

lemma order_step_status: "\<not> bypasses_table q \<Longrightarrow> status_step s (snd (order_step e (now, y, q) s))"
  by (cases q)
     (simp_all add: create_order_status update_order_request_status update_status_status assign_mechanic_status
       apply_discount_status report_progress_status upload_photo_status delete_photo_status vehicle_checkin_status
       capture_camera_photo_status send_order_quote_status approve_quote_status reject_quote_status
       dispatch_parts_status complete_work_order_status deliver_vehicle_status)

section \<open>Properties\<close>

lemma order_run_status:
  assumes "\<forall>x \<in> set qs. \<not> bypasses_table (snd (snd x))" and "status_of k s = Some a"
  shows "\<exists>b. status_of k (run_requests (order_step e) qs s) = Some b \<and> reaches order_transitions a b"
  using assms
proof (induction qs arbitrary: s a)
  case Nil
  then show ?case by (auto intro: reaches.intros)
next
  case (Cons x qs)
  obtain now y q where x: "x = (now, y, q)" by (cases x)
  have "status_step s (snd (order_step e x s))" using Cons.prems(1) order_step_status[of q s e now y] x by simp
  from status_stepD[OF this Cons.prems(2)] obtain b where b: "status_of k (snd (order_step e x s)) = Some b"
    "b = a \<or> b \<in> set (order_transitions a)" by blast
  from Cons.IH[OF _ b(1)] Cons.prems(1) obtain c where
    "status_of k (run_requests (order_step e) qs (snd (order_step e x s))) = Some c" "reaches order_transitions b c" by auto
  then show ?case using b(2) by (auto intro: reaches_front)
qed

definition sample_admin :: requester where
  "sample_admin = \<lparr>rq_id = ''a1'', rq_role = UserRole.ADMIN, rq_client = None\<rparr>"

lemma sample_admin_simps [simp]: "rq_id sample_admin = ''a1''" "rq_role sample_admin = UserRole.ADMIN"
  by (simp_all add: sample_admin_def)

definition sample_orders :: "OrderStatus \<Rightarrow> db" where
  "sample_orders st = empty_db\<lparr>d_orders := [sample_order ''o1'' st], d_items := [sample_item ''i1'' 5]\<rparr>"

lemma sample_orders_simps [simp]:
  "d_orders (sample_orders st) = [sample_order ''o1'' st]" "d_items (sample_orders st) = [sample_item ''i1'' 5]"
  "d_redis (sample_orders st) = []" "d_parts (sample_orders st) = []" "d_movements (sample_orders st) = []"
  "d_quotes (sample_orders st) = []" "d_invoices (sample_orders st) = []" "d_sessions (sample_orders st) = []"
  "status_of ''o1'' (sample_orders st) = Some st" "in_scope ''o1'' sample_admin (sample_orders st)"
  by (simp_all add: sample_orders_def status_of_def in_scope_def)

text \<open>C1. No request on orders, but a status written by \<open>PATCH\<close> or a cancellation, moves any order outside the table: after a run
  of the others every order is still there and its status is reachable from the one it had; so a delivered or
  cancelled order stays as it is.\<close>

theorem status_follows_table:
  assumes "\<forall>x \<in> set qs. \<not> bypasses_table (snd (snd x))" and "status_of k s = Some a"
  shows "\<exists>b. status_of k (run_requests (order_step e) qs s) = Some b \<and> reaches order_transitions a b
      \<and> order_stage a \<le> order_stage b \<and> (a = DELIVERED \<or> a = OrderStatus.CANCELLED \<longrightarrow> b = a)"
proof -
  obtain b where b: "status_of k (run_requests (order_step e) qs s) = Some b" "reaches order_transitions a b"
    using order_run_status[OF assms] by blast
  have "order_transitions a = [] \<Longrightarrow> b = a" using order_machine.terminal_stays b(2) by blast
  then show ?thesis using b order_stage_mono[OF b(2)] by auto
qed

theorem status_follows_table_witness:
  "\<exists>b. status_of ''o1'' (run_requests (order_step
     \<lparr>en_dec = \<lambda>_. 0, en_sha = \<lambda>_. [], en_b64 = \<lambda>_. [], en_unb64 = \<lambda>_. []\<rparr>) [(1, 2026, SetStatus ''o1'' IN_DIAGNOSIS sample_admin),
      (2, 2026, SetStatus ''o1'' READY sample_admin)] (sample_orders DELIVERED)) = Some b \<and> b = DELIVERED"
  using status_follows_table[of "[(1, 2026, SetStatus ''o1'' IN_DIAGNOSIS sample_admin),
      (2, 2026, SetStatus ''o1'' READY sample_admin)]" "''o1''" "sample_orders DELIVERED" DELIVERED
      "\<lparr>en_dec = \<lambda>_. 0, en_sha = \<lambda>_. [], en_b64 = \<lambda>_. [], en_unb64 = \<lambda>_. []\<rparr>"]
  by auto

text \<open>The general update of an order is outside the state machine: whoever may edit an order that is not cancelled sets any
  status with it, without parts, without payment and without an entry in the history.\<close>

theorem patch_sets_any_status:
  assumes "in_scope k rq s" and "status_of k s = Some a" and "a \<noteq> OrderStatus.CANCELLED" and "ou_status u = Some st"
  shows "\<exists>w t. update_order_request k u rq s = (Inr w, t) \<and> status_of k t = Some st \<and> d_history t = d_history s"
proof -
  obtain w where w: "find_row wo_id k (d_orders s) = Some w" "wo_status w = a" using assms(2) by (auto simp: status_of_def)
  have id: "\<And>r. wo_id (apply_order_update u r) = wo_id r" by simp
  have "wo_status (apply_order_update u r) = st" for r by (simp add: apply_order_update_def assms(4))
  then show ?thesis
    using w assms(3)
    by (simp add: update_order_request_def scoped_order_in[OF assms(1) w(1)] status_of_def orders.lookup_modify[OF id])
qed

theorem patch_sets_any_status_witness:
  "\<exists>w t. update_order_request ''o1'' \<lparr>ou_status = Some DELIVERED, ou_diagnosis = None, ou_labor = None, ou_parts = None,
     ou_estimated = None\<rparr> sample_admin (sample_orders OrderStatus.RECEIVED) = (Inr w, t) \<and> status_of ''o1'' t = Some DELIVERED"
  using patch_sets_any_status[of "''o1''" sample_admin "sample_orders OrderStatus.RECEIVED" OrderStatus.RECEIVED
      "\<lparr>ou_status = Some DELIVERED, ou_diagnosis = None, ou_labor = None, ou_parts = None, ou_estimated = None\<rparr>" DELIVERED]
  by auto

text \<open>C14. Dispatching parts is all or nothing, and only to an order in progress that the requester may change: each item loses
  exactly what the lines took of it and is not below zero, every line leaves a part of the order and an OUT movement,
  and a refused request changes nothing.\<close>

theorem dispatch_all_or_nothing:
  assumes "inventory_inv s" and "dispatch_parts now k ls rq s = (out, t)"
  shows "(\<forall>e. out = Inl e \<longrightarrow> t = s)
    \<and> (\<forall>n. out = Inr n \<longrightarrow>
         in_scope k rq s \<and> status_of k s = Some IN_PROGRESS
         \<and> (\<forall>x. stock_at x t = map_option (\<lambda>m. m - dispatched x ls) (stock_at x s))
         \<and> (\<forall>x m. stock_at x t = Some m \<longrightarrow> 0 \<le> m)
         \<and> (\<exists>ps ms. d_parts t = d_parts s @ ps \<and> d_movements t = d_movements s @ ms
              \<and> map (\<lambda>p. (op_order p, op_item p, op_quantity p)) ps = map (\<lambda>l. (k, dl_item l, dl_quantity l)) ls
              \<and> map (\<lambda>m. (mv_order m, mv_item m, mv_quantity m, mv_type m)) ms
                 = map (\<lambda>l. (Some k, dl_item l, dl_quantity l, OUT)) ls))"
  using dispatch_parts_out[of now k ls rq s]
proof (elim disjE exE conjE)
  fix e assume "dispatch_parts now k ls rq s = (Inl e, s)"
  then show ?thesis using assms(2) by simp
next
  fix w alerts t1
  assume l: "dispatch_lines now k (rq_id rq) ls s = (Inr alerts, t1)" and h: "in_scope k rq s"
    "find_row wo_id k (d_orders s) = Some w" "wo_status w = IN_PROGRESS"
    and d: "dispatch_parts now k ls rq s = (Inr (length alerts),
            foldl (\<lambda>t i. enqueue AlertDispatcher ''low-stock-alert'' i t)
              (set_redis (dispatch_invalidate ls (d_redis t1)) t1) alerts)"
  have t: "out = Inr (length alerts)" "d_items t = d_items t1" "d_parts t = d_parts t1" "d_movements t = d_movements t1"
    using assms(2) d by auto
  have "inventory_inv t" using dispatch_parts_inventory[OF assms(1), of now k ls rq] assms(2) by simp
  then have pos: "\<forall>x m. stock_at x t = Some m \<longrightarrow> 0 \<le> m"
    by (auto simp: stock_at_def inventory_inv_def dest!: find_row_SomeD)
  have "stock_at x t1 = stock_at x t" for x by (simp add: stock_at_def t)
  then have "took k ls s t1" "\<And>x. stock_at x t = map_option (\<lambda>m. m - dispatched x ls) (stock_at x s)"
    using dispatch_lines_took[OF l] by (simp_all add: took_def)
  then show ?thesis using pos h by (simp add: t took_def status_of_def)
qed

theorem dispatch_all_or_nothing_witness:
  "\<exists>n t. dispatch_parts 7 ''o1'' [\<lparr>dl_item = ''i1'', dl_quantity = 2, dl_movement = ''v1''\<rparr>,
      \<lparr>dl_item = ''i1'', dl_quantity = 3, dl_movement = ''v2''\<rparr>] sample_admin (sample_orders IN_PROGRESS) = (Inr n, t)
     \<and> stock_at ''i1'' t = Some 0"
proof -
  let ?ls = "[\<lparr>dl_item = ''i1'', dl_quantity = 2, dl_movement = ''v1''\<rparr>, \<lparr>dl_item = ''i1'', dl_quantity = 3, dl_movement = ''v2''\<rparr>]"
  have inv: "inventory_inv (sample_orders IN_PROGRESS)" by (simp add: inventory_inv_def cache_coherent_def coherent_with_def)
  obtain out t where o: "dispatch_parts 7 ''o1'' ?ls sample_admin (sample_orders IN_PROGRESS) = (out, t)" by fastforce
  have "\<exists>a u. dispatch_lines 7 ''o1'' ''a1'' ?ls (sample_orders IN_PROGRESS) = (Inr a, u)"
    by (simp add: dispatch_line_step_def update_item_items Let_def items.lookup_modify)
  then obtain n where "out = Inr n"
    using dispatch_parts_out[of 7 "''o1''" ?ls sample_admin "sample_orders IN_PROGRESS"] o
    by (auto simp: dispatch_parts_def scoped_order_def assert_mutation_scope_def transaction_def)
  then have "stock_at ''i1'' t = map_option (\<lambda>m. m - dispatched ''i1'' ?ls) (stock_at ''i1'' (sample_orders IN_PROGRESS))"
    using dispatch_all_or_nothing[OF inv o] by blast
  also have "\<dots> = Some 0" by (simp add: stock_at_def dispatched_def)
  finally show ?thesis using o \<open>out = Inr n\<close> by blast
qed

text \<open>Finishing the work takes an order in progress that the requester may change, and an odometer that did not run backwards;
  it becomes ready or goes to review, and a trainee's always goes to review, which is announced to management.\<close>

theorem completion_checks:
  assumes "complete_work_order now k odometer requested rq s = (Inr st, t)"
  shows "in_scope k rq s \<and> status_of k s = Some IN_PROGRESS \<and> status_of k t = Some st
    \<and> (st = READY \<or> st = IN_REVIEW) \<and> (rq_role rq = TRAINEE \<longrightarrow> st = IN_REVIEW)
    \<and> (\<forall>w i. find_row wo_id k (d_orders s) = Some w \<and> wo_odometer_in w = Some i \<longrightarrow> i \<le> odometer)
    \<and> (st = IN_REVIEW \<longrightarrow> \<lparr>wm_room = Management, wm_event = ''qa:inspection_requested'', wm_subject = k\<rparr> \<in> set (d_sent t))"
proof -
  from assms[unfolded complete_work_order_def] obtain w where w: "find_row wo_id k (d_orders s) = Some w" "in_scope k rq s"
    and body: "wo_status w = IN_PROGRESS"
      "\<exists>target. and_then (assert_odometer_out (wo_odometer_in w) odometer) (\<lambda>_.
         resolve_completion_target (vo (wo_status w)) (vo requested) (rq_role rq)) = Inr target
       \<and> st = (if os_value target = ''READY'' then READY else IN_REVIEW)"
      "status_of k t = Some st"
      "st = IN_REVIEW \<longrightarrow> \<lparr>wm_room = Management, wm_event = ''qa:inspection_requested'', wm_subject = k\<rparr> \<in> set (d_sent t)"
    by (elim scoped_order_ok)
       (auto simp: Let_def status_of_def orders.lookup_modify emit_qa_inspection_requested_def split: if_splits sum.splits)
  then obtain target where target: "and_then (assert_odometer_out (wo_odometer_in w) odometer) (\<lambda>_.
         resolve_completion_target (vo IN_PROGRESS) (vo requested) (rq_role rq)) = Inr target"
    "st = (if os_value target = ''READY'' then READY else IN_REVIEW)" by auto
  have "wo_odometer_in w = Some i \<Longrightarrow> i \<le> odometer" for i
    using target(1) by (auto simp: and_then_Inr assert_odometer_out_def split: if_splits)
  moreover have "st = READY \<or> st = IN_REVIEW" "rq_role rq = TRAINEE \<longrightarrow> st = IN_REVIEW"
    using complete_target[OF target(1)] target(2) by auto
  ultimately show ?thesis using w body by (auto simp: status_of_def)
qed

theorem completion_checks_witness:
  "\<exists>t. complete_work_order 7 ''o1'' 10 READY \<lparr>rq_id = ''m1'', rq_role = TRAINEE, rq_client = None\<rparr> (sample_orders IN_PROGRESS)
     = (Inr IN_REVIEW, t) \<and> status_of ''o1'' t = Some IN_REVIEW"
proof -
  let ?rq = "\<lparr>rq_id = ''m1'', rq_role = TRAINEE, rq_client = None\<rparr>"
  have "\<exists>st t. complete_work_order 7 ''o1'' 10 READY ?rq (sample_orders IN_PROGRESS) = (Inr st, t)"
    by (simp add: complete_work_order_def scoped_order_def assert_mutation_scope_def assert_odometer_out_def
        resolve_completion_target_def Let_def sample_order_def)
  then obtain st t where o: "complete_work_order 7 ''o1'' 10 READY ?rq (sample_orders IN_PROGRESS) = (Inr st, t)" by blast
  then show ?thesis using completion_checks[OF o] by simp
qed

text \<open>A quote is approved only while its order is budgeted and it is sent, and by a client only for an order of that client;
  then the order is in progress and the quote approved, and no one approves it a second time.\<close>

theorem quote_approved_once:
  assumes "approve_quote now k rq s = (Inr q, t)"
  shows "status_of k s = Some BUDGETED \<and> status_of k t = Some IN_PROGRESS
    \<and> (\<exists>r. quote_of k s = Some r \<and> qu_id r = q \<and> qu_status r = QuoteStatus.SENT)
    \<and> (rq_role rq = CLIENT \<longrightarrow> (\<exists>w. find_row wo_id k (d_orders s) = Some w \<and> rq_client rq = Some (wo_client w)))
    \<and> (\<forall>r \<in> set (d_quotes t). qu_id r = q \<longrightarrow> qu_status r = QuoteStatus.APPROVED)
    \<and> (\<forall>now' rq'. \<exists>e. approve_quote now' k rq' t = (Inl e, t))"
proof -
  obtain w r where w: "find_row wo_id k (d_orders s) = Some w" "wo_status w = BUDGETED"
      "assert_client_ownership w rq = Inr ()"
    and r: "quote_of k s = Some r" "qu_status r = QuoteStatus.SENT" "q = qu_id r"
    and t: "d_orders t = update_row wo_id k (\<lambda>r. r\<lparr>wo_status := IN_PROGRESS, wo_started_at := Some now\<rparr>) (d_orders s)"
      "d_quotes t = update_row qu_id q (\<lambda>r. r\<lparr>qu_status := QuoteStatus.APPROVED, qu_approved_at := Some now\<rparr>) (d_quotes s)"
    using assms
    by (auto simp: approve_quote_def transaction_def Let_def split: option.splits sum.splits if_splits)
  have after: "find_row wo_id k (d_orders t) = Some (w\<lparr>wo_status := IN_PROGRESS, wo_started_at := Some now\<rparr>)"
    by (simp add: t(1) orders.lookup_modify w(1))
  have "\<exists>e. approve_quote now' k rq' t = (Inl e, t)" for now' rq'
    by (auto simp: approve_quote_def after split: sum.split)
  moreover have "qu_status x = QuoteStatus.APPROVED" if "x \<in> set (d_quotes t)" "qu_id x = q" for x
    using that(1)[unfolded t(2)] by (rule update_row_cases) (use that(2) in simp_all)
  moreover have "rq_role rq = CLIENT \<longrightarrow> rq_client rq = Some (wo_client w)"
    using w(3) by (simp add: assert_client_ownership_def split: if_splits)
  moreover have "status_of k s = Some BUDGETED" "status_of k t = Some IN_PROGRESS"
    using w(1,2) after by (simp_all add: status_of_def)
  ultimately show ?thesis using w(1) r by simp
qed

definition sample_quote :: quote_row where
  "sample_quote = \<lparr>qu_id = ''q1'', qu_number = ''QUO-2026-0001'', qu_client = ''cl1'', qu_order = Some ''o1'',
     qu_status = QuoteStatus.SENT, qu_valid_until = 99, qu_subtotal = 100, qu_tax = 18, qu_total = 100, qu_notes = None, qu_created_by = ''a1'', qu_created_at = 0,
     qu_approved_at = None, qu_rejected_at = None, qu_rejection_reason = None\<rparr>"

theorem quote_approved_once_witness:
  "\<exists>t e. approve_quote 7 ''o1'' \<lparr>rq_id = ''c1'', rq_role = CLIENT, rq_client = Some ''cl1''\<rparr>
       ((sample_orders BUDGETED)\<lparr>d_quotes := [sample_quote]\<rparr>) = (Inr ''q1'', t)
     \<and> approve_quote 8 ''o1'' sample_admin t = (Inl e, t)"
proof -
  let ?rq = "\<lparr>rq_id = ''c1'', rq_role = CLIENT, rq_client = Some ''cl1''\<rparr>"
  let ?s = "(sample_orders BUDGETED)\<lparr>d_quotes := [sample_quote]\<rparr>"
  have "\<exists>t. approve_quote 7 ''o1'' ?rq ?s = (Inr ''q1'', t)"
    by (simp add: approve_quote_def assert_client_ownership_def quote_of_def sample_quote_def transaction_def Let_def
        parts_with_items_def order_parts_def)
  then obtain t where o: "approve_quote 7 ''o1'' ?rq ?s = (Inr ''q1'', t)" by blast
  then show ?thesis using quote_approved_once[OF o] by blast
qed

text \<open>Handing a vehicle over takes a ready order and a cash session opened that day; it records one payment of the order's final
  amount in that session and marks the order delivered and paid.\<close>

theorem delivery_records_payment:
  assumes "deliver_vehicle dec now today new_tx k sg m user s = (Inr c, t)" and "find_row wo_id k (d_orders s) = Some w"
    and "decimal_column dec" and "cents_range (wo_final w)"
  shows "wo_status w = READY
    \<and> (\<exists>x \<in> set (d_sessions s). cs_id x = c \<and> cs_status x = OPEN \<and> fst today \<le> cs_opened_at x \<and> cs_opened_at x \<le> snd today)
    \<and> find_row wo_id k (d_orders t) = Some (w\<lparr>wo_status := DELIVERED, wo_delivered_at := Some now,
                                              wo_payment_status := InvoiceStatus.PAID\<rparr>)
    \<and> d_transactions t = d_transactions s @ [\<lparr>tx_id = new_tx, tx_session = c, tx_type = PAYMENT, tx_amount = wo_final w,
         tx_method = m, tx_reference = Some sg, tx_order = Some k, tx_at = now\<rparr>]"
proof -
  have found: "List.find P xs = Some x \<Longrightarrow> x \<in> set xs \<and> P x" for P :: "session_row \<Rightarrow> bool" and xs x
    by (auto simp: find_Some_iff)
  have st: "wo_status w = READY" using assms(1,2) by (auto simp: deliver_vehicle_def split: if_splits)
  obtain x where x: "List.find (\<lambda>c. cs_status c = OPEN \<and> fst today \<le> cs_opened_at c \<and> cs_opened_at c \<le> snd today) (d_sessions s) = Some x"
    using assms(1,2) st by (auto simp: deliver_vehicle_def split: option.splits)
  have "c = cs_id x" and orders: "d_orders t = update_row wo_id k (\<lambda>r. r\<lparr>wo_status := DELIVERED, wo_delivered_at := Some now,
                                              wo_payment_status := InvoiceStatus.PAID\<rparr>) (d_orders s)"
    and tx: "d_transactions t = d_transactions s @ [\<lparr>tx_id = new_tx, tx_session = cs_id x, tx_type = PAYMENT,
         tx_amount = wo_final w, tx_method = m, tx_reference = Some sg, tx_order = Some k, tx_at = now\<rparr>]"
    using assms(1,2) st x decimal_column_cents[OF assms(3,4)]
    by (simp_all add: deliver_vehicle_def Let_def insert_row_def del: reads_keep_items) (auto simp: insert_row_def)
  then show ?thesis using found[OF x] st assms(2) by (auto simp: orders.lookup_modify)
qed

theorem delivery_records_payment_witness:
  "\<exists>t. deliver_vehicle half_up 7 (0, 9) ''x1'' ''o1'' ''firma'' CASH ''a1''
       ((sample_orders READY)\<lparr>d_sessions := [\<lparr>cs_id = ''c1'', cs_opened_by = ''f1'', cs_closed_by = None, cs_opening = 0,
          cs_closing = None, cs_actual = None, cs_discrepancy = None, cs_status = OPEN, cs_notes = None,
          cs_justification = None, cs_opened_at = 1, cs_closed_at = None\<rparr>]\<rparr>) = (Inr ''c1'', t)
     \<and> length (d_transactions t) = 1"
proof -
  let ?s = "(sample_orders READY)\<lparr>d_sessions := [\<lparr>cs_id = ''c1'', cs_opened_by = ''f1'', cs_closed_by = None, cs_opening = 0,
          cs_closing = None, cs_actual = None, cs_discrepancy = None, cs_status = OPEN, cs_notes = None,
          cs_justification = None, cs_opened_at = 1, cs_closed_at = None\<rparr>]\<rparr>"
  have "\<exists>t. deliver_vehicle half_up 7 (0, 9) ''x1'' ''o1'' ''firma'' CASH ''a1'' ?s = (Inr ''c1'', t)"
    by (simp add: deliver_vehicle_def Let_def)
  then obtain t where o: "deliver_vehicle half_up 7 (0, 9) ''x1'' ''o1'' ''firma'' CASH ''a1'' ?s = (Inr ''c1'', t)" by blast
  have "find_row wo_id ''o1'' (d_orders ?s) = Some (sample_order ''o1'' READY)" by simp
  from delivery_records_payment[OF o this decimal_column_half_up] show ?thesis
    using o by (simp add: cents_range_def sample_orders_def)
qed

section \<open>What is quoted and what is invoiced\<close>

definition invoice_of :: "string \<Rightarrow> db \<Rightarrow> invoice_row option" where
  "invoice_of k s = List.find (\<lambda>i. iv_order i = Some k) (d_invoices s)"

lemma find_update_row:
  assumes "\<And>r. P (f r) = P r" and "List.find P rows = Some x"
  shows "List.find P (update_row key (key x) f rows) = Some (f x)"
  using assms(2)
proof (induction rows)
  case (Cons r rows)
  then show ?case using assms(1) by (cases "P r") (auto simp: update_row_def split: if_splits)
qed simp

lemma find_insert_row: "List.find P rows = None \<Longrightarrow> P r \<Longrightarrow> List.find P (insert_row r rows) = Some r"
  by (induction rows) (auto simp: insert_row_def split: if_splits)

lemma create_invoice_draft_invoice:
  assumes "create_invoice_draft dec now y ni k c l p cu u s = (Inr i, t)"
  shows "invoice_of k t = Some i \<and> iv_subtotal i = dec (js_add (js_add l p) cu)"
proof (cases "List.find (\<lambda>i. iv_order i = Some k) (d_invoices s)")
  case None
  then show ?thesis
    using assms by (auto simp: create_invoice_draft_def Let_def invoice_of_def find_insert_row split: if_splits)
next
  case (Some x)
  let ?sub = "js_add (js_add l p) cu"
  let ?f = "\<lambda>r. r\<lparr>iv_subtotal := dec ?sub, iv_tax := dec (igv ?sub), iv_total := dec (js_add ?sub (igv ?sub)),
                   iv_due := dec (js_add ?sub (igv ?sub))\<rparr>"
  have i: "i = ?f x" "d_invoices t = update_row iv_id (iv_id x) ?f (d_invoices s)"
    using assms Some by (auto simp: create_invoice_draft_def Let_def update_invoice_def)
  then show ?thesis
    using find_update_row[of "\<lambda>i. iv_order i = Some k" ?f "d_invoices s" x iv_id] Some by (simp add: invoice_of_def)
qed

lemma write_quote_total:
  "write_quote dec now y nq k w l am v u s = (Inr q, t) \<Longrightarrow> qu_total q = dec (qa_total am) \<and> qu_status q = QuoteStatus.SENT"
  by (auto simp: write_quote_def Let_def split: option.splits if_splits)

text \<open>To the cent, a quote's total is labour, parts and customs less the discount. The draft invoice that goes with it is not that
  amount before tax: its subtotal counts the customs a second time and leaves the discount out.\<close>

theorem quote_and_invoice_differ:
  assumes "send_order_quote dec now y nq ni k l p v u s = (Inr q, t)" and "find_row wo_id k (d_orders s) = Some w"
    and "decimal_column dec" and "approx (1 / 1000) (customs_of_parts (imported_parts k s)) C"
    and "cents_range l" and "cents_range p" and "cents_range C" and "cents_range (wo_discount w)"
    and "cents_range (p + C)" and "cents_range (l + p + C)" and "cents_range (l + p + C - wo_discount w)"
    and "cents_range (l + p + 2 * C)"
  shows "qu_total q = l + p + C - wo_discount w \<and> qu_status q = QuoteStatus.SENT
    \<and> (\<exists>i. invoice_of k t = Some i \<and> iv_subtotal i = l + p + 2 * C)"
proof (cases rule: send_order_quote_cases[of dec now y nq ni k l p v u s])
  case (refused e)
  then show ?thesis using assms(1) by simp
next
  case (written w' q' s1 out s2)
  let ?am = "quote_amounts_of k w l p s"
  have w: "w' = w" using written(1) assms(2) by simp
  have customs: "qa_customs ?am = cents C"
    using round2_near[OF assms(4)] assms(7) by (simp add: quote_amounts_of_def Let_def)
  have parts: "approx (1 / 200000) (qa_parts ?am) (p + C)"
    using approx_add[OF approx_cents[OF assms(6)] approx_cents[OF assms(7)] assms(9)] customs
    by (auto simp: quote_amounts_of_def Let_def intro: approx_weaken)
  have lp: "approx (1 / 100000) (js_add (cents l) (qa_parts ?am)) (l + p + C)"
    using approx_add[OF approx_cents[OF assms(5)] parts] assms(10) by (auto simp: add.assoc intro: approx_weaken)
  have "approx (1 / 50000) (qa_total ?am) (l + p + C - wo_discount w)"
    using approx_sub[OF lp approx_cents[OF assms(8)]] assms(11)
    by (auto simp: quote_amounts_of_def Let_def intro: approx_weaken)
  then have total_q: "dec (qa_total ?am) = l + p + C - wo_discount w"
    by (rule decimal_columnD[OF assms(3)]) (use assms(11) in auto)
  have "approx (1 / 50000) (js_add (js_add (cents l) (qa_parts ?am)) (qa_customs ?am)) (l + p + 2 * C)"
    using approx_add[OF lp approx_cents[OF assms(7)]] assms(12) unfolding customs
    by (auto simp: algebra_simps intro: approx_weaken)
  then have sub: "dec (js_add (js_add (cents l) (qa_parts ?am)) (qa_customs ?am)) = l + p + 2 * C"
    by (rule decimal_columnD[OF assms(3)]) (use assms(12) in auto)
  obtain i where i: "out = Inr i" "q = q'" "t = broadcast_order_update k (enqueue Notifications ''quote-sent'' k s2)"
    using written(6) assms(1) by (cases out) auto
  have "invoice_of k t = invoice_of k s2" by (simp add: invoice_of_def i(3))
  then show ?thesis
    using create_invoice_draft_invoice[OF written(5)[unfolded i(1)]] write_quote_total[OF written(4)] total_q sub i(2) w
    by simp
qed

theorem quote_and_invoice_differ_witness:
  "\<exists>q t i. send_order_quote half_up 7 2026 ''q1'' ''n1'' ''o1'' 5000 3000 99 ''a1'' (sample_orders BUDGETED) = (Inr q, t)
     \<and> qu_total q = 8000 \<and> invoice_of ''o1'' t = Some i \<and> iv_subtotal i = 8000"
proof -
  let ?s = "sample_orders BUDGETED"
  have r: "cents_range n" if "0 \<le> n" "n \<le> 10000" for n using that by (simp add: cents_range_def)
  have imp: "imported_parts ''o1'' ?s = []" by (simp add: imported_parts_def parts_with_items_def order_parts_def)
  have m: "money_of (cents n) ''PEN'' = Inr (soles n)" if "0 \<le> n" "n \<le> 10000" for n
    using mk_money_cents[of n "''PEN''"] r[OF that] that by (simp add: money_of_def soles_def)
  have pos: "\<not> js_le (cents 5000) (Fin 0)" using cents_le[of 5000 0] r by (simp del: cents_le)
  have "and_then (quoted_entity (sample_order ''o1'' BUDGETED) 5000 3000) (\<lambda>e.
      and_then (assert_can_send_quote e) (\<lambda>_. check_stored_total e (sample_order ''o1'' BUDGETED) 5000 3000)) = Inr ()"
    using m[of 5000] m[of 3000] m[of 0] pos
    by (simp add: quoted_entity_def money_from_decimal_def assert_can_send_quote_def soles_def check_stored_total_def
        or_zero_def)
  then have "\<exists>q t. send_order_quote half_up 7 2026 ''q1'' ''n1'' ''o1'' 5000 3000 99 ''a1'' ?s = (Inr q, t)"
    by (simp add: send_order_quote_def imp Let_def transaction_def write_quote_def quote_of_def create_invoice_draft_def)
  then obtain q t where o: "send_order_quote half_up 7 2026 ''q1'' ''n1'' ''o1'' 5000 3000 99 ''a1'' ?s = (Inr q, t)" by blast
  have w: "find_row wo_id ''o1'' (d_orders ?s) = Some (sample_order ''o1'' BUDGETED)" by simp
  have c: "approx (1 / 1000) (customs_of_parts (imported_parts ''o1'' ?s)) 0"
    by (simp add: imp customs_of_parts_def approx_def)
  show ?thesis using quote_and_invoice_differ[OF o w decimal_column_half_up c] o r by simp
qed

end
