(* ===== verification/QuotesInvoices.thy ===== *)
theory QuotesInvoices
  imports OrderUseCases PaymentsService
begin

text \<open>
  Quotes and invoices by hand: \<open>src/modules/quotes/quotes.service.ts\<close> and \<open>src/modules/invoices/invoices.service.ts\<close>.
  They work on the same tables as the use cases of the orders and the payments: a quote that is approved here
  writes the status of its order, an invoice the payment status.
\<close>

section \<open>Quotes\<close>

record quote_filters =
  tf_status :: "QuoteStatus option"
  tf_client :: "string option"
  tf_search :: "string option"
  tf_from :: "int option"
  tf_to :: "int option"
  tf_page :: "nat option"
  tf_limit :: "nat option"

definition find_all_quotes :: "quote_filters \<Rightarrow> db \<Rightarrow> quote_row page" where
  "find_all_quotes f s =
     (let rows = sort_key (\<lambda>q. - qu_created_at q)
                   (filter (\<lambda>q. option_matches (tf_status f) (qu_status q)
                              \<and> (nonempty (tf_client f) \<longrightarrow> Some (qu_client q) = tf_client f)
                              \<and> in_range (tf_from f) (tf_to f) (qu_created_at q)
                              \<and> matches_search (tf_search f) [Some (qu_number q), qu_notes q]) (d_quotes s))
      in page_of (case tf_page f of Some n \<Rightarrow> n | None \<Rightarrow> 1) (case tf_limit f of Some n \<Rightarrow> n | None \<Rightarrow> 20) rows)"

definition find_one_quote :: "string \<Rightarrow> db \<Rightarrow> http_error + quote_row" where
  "find_one_quote k s =
     (case find_row qu_id k (d_quotes s) of None \<Rightarrow> Inl (NotFound ''Cotizacion no encontrada'') | Some q \<Rightarrow> Inr q)"

record quote_input =
  qi_client :: string
  qi_order :: "string option"
  qi_valid_until :: int
  qi_notes :: "string option"

definition order_items_total :: "string \<Rightarrow> db \<Rightarrow> number" where
  "order_items_total k s = js_sum (map (\<lambda>i. cents (oi_total i)) (filter (\<lambda>i. oi_order i = k) (d_order_items s)))"

definition create_quote ::
    "(number \<Rightarrow> int) \<Rightarrow> int \<Rightarrow> int \<Rightarrow> string \<Rightarrow> quote_input \<Rightarrow> string \<Rightarrow> db \<Rightarrow> quote_row answer" where
  "create_quote dec now year new_id d user s =
     (if find_row cl_id (qi_client d) (d_clients s) = None then (Inl (NotFound ''Cliente no encontrado''), s)
      else if \<not> nonempty (qi_order d)
      then (Inl (BadRequest ''Se requiere una orden de trabajo para crear una cotizacion''), s)
      else if find_row wo_id (the (qi_order d)) (d_orders s) = None
      then (Inl (NotFound ''Orden de trabajo no encontrada''), s)
      else
        let num = document_number ''COT'' year
                    (count_where (\<lambda>q. starts_with (number_prefix ''COT'' year) (qu_number q)) (d_quotes s));
            subtotal = order_items_total (the (qi_order d)) s;
            tax = js_mul subtotal (js_lit (18 / 100));
            q = \<lparr>qu_id = new_id, qu_number = num, qu_client = qi_client d, qu_order = qi_order d,
                 qu_status = QuoteStatus.DRAFT, qu_valid_until = qi_valid_until d, qu_subtotal = dec subtotal,
                 qu_tax = dec tax, qu_total = dec (js_add subtotal tax), qu_notes = qi_notes d, qu_created_by = user,
                 qu_created_at = now, qu_approved_at = None, qu_rejected_at = None, qu_rejection_reason = None\<rparr>
        in if new_id \<in> qu_id ` set (d_quotes s) \<or> num \<in> qu_number ` set (d_quotes s)
             \<or> qi_order d \<in> qu_order ` set (d_quotes s)
           then (Inl (DbError ''P2002''), s)
           else (Inr q, s\<lparr>d_quotes := insert_row q (d_quotes s)\<rparr>))"

text \<open>The order is written whatever its status is.\<close>

definition quotes_approve :: "int \<Rightarrow> string \<Rightarrow> db \<Rightarrow> quote_row answer" where
  "quotes_approve now k s =
     (case find_row qu_id k (d_quotes s) of
        None \<Rightarrow> (Inl (NotFound ''Cotizacion no encontrada''), s)
      | Some q \<Rightarrow>
          if qu_status q \<noteq> QuoteStatus.DRAFT \<and> qu_status q \<noteq> QuoteStatus.SENT
          then (Inl (Conflict ''Solo se pueden aprobar cotizaciones en estado DRAFT o SENT''), s)
          else
            let f = (\<lambda>r. r\<lparr>qu_status := QuoteStatus.APPROVED, qu_approved_at := Some now\<rparr>);
                s1 = update_quote k f s
            in (Inr (f q),
                if nonempty (qu_order q)
                then log_status (the (qu_order q)) BUDGETED (qu_created_by q) now
                       (update_order (the (qu_order q)) (\<lambda>w. w\<lparr>wo_status := BUDGETED\<rparr>) s1)
                else s1))"

definition quotes_reject :: "int \<Rightarrow> string \<Rightarrow> string \<Rightarrow> db \<Rightarrow> quote_row answer" where
  "quotes_reject now k reason s =
     (case find_row qu_id k (d_quotes s) of
        None \<Rightarrow> (Inl (NotFound ''Cotizacion no encontrada''), s)
      | Some q \<Rightarrow>
          if qu_status q = QuoteStatus.APPROVED \<or> qu_status q = CONVERTED
          then (Inl (Conflict ''No se puede rechazar una cotizacion aprobada o convertida''), s)
          else
            let f = (\<lambda>r. r\<lparr>qu_status := QuoteStatus.REJECTED, qu_rejected_at := Some now, qu_rejection_reason := Some reason\<rparr>)
            in (Inr (f q), update_quote k f s))"

definition convert_to_order :: "int \<Rightarrow> string \<Rightarrow> string \<Rightarrow> db \<Rightarrow> quote_row answer" where
  "convert_to_order now k user s =
     (case find_row qu_id k (d_quotes s) of
        None \<Rightarrow> (Inl (NotFound ''Cotizacion no encontrada''), s)
      | Some q \<Rightarrow>
          if qu_status q \<noteq> QuoteStatus.APPROVED then (Inl (Conflict ''Solo se pueden convertir cotizaciones aprobadas''), s)
          else if \<not> nonempty (qu_order q) \<or> find_row wo_id (the (qu_order q)) (d_orders s) = None
          then (Inl (BadRequest ''La cotizacion no tiene una orden de trabajo asociada''), s)
          else
            let f = (\<lambda>r. r\<lparr>qu_status := CONVERTED\<rparr>); w = the (qu_order q)
            in (Inr (f q),
                log_status w IN_PROGRESS user now
                  (update_order w (\<lambda>o'. o'\<lparr>wo_status := IN_PROGRESS, wo_started_at := Some now,
                                          wo_total := Some (qu_total q), wo_final := qu_total q\<rparr>)
                    (update_quote k f s))))"

section \<open>Invoices\<close>

record invoice_filters =
  vf_status :: "InvoiceStatus option"
  vf_client :: "string option"
  vf_search :: "string option"
  vf_from :: "int option"
  vf_to :: "int option"
  vf_page :: "nat option"
  vf_limit :: "nat option"

definition find_all_invoices :: "invoice_filters \<Rightarrow> db \<Rightarrow> invoice_row page" where
  "find_all_invoices f s =
     (let rows = sort_key (\<lambda>v. - iv_created_at v)
                   (filter (\<lambda>v. option_matches (vf_status f) (iv_status v)
                              \<and> (nonempty (vf_client f) \<longrightarrow> Some (iv_client v) = vf_client f)
                              \<and> in_range (vf_from f) (vf_to f) (iv_created_at v)
                              \<and> matches_search (vf_search f) [Some (iv_number v), iv_notes v]) (d_invoices s))
      in page_of (case vf_page f of Some n \<Rightarrow> n | None \<Rightarrow> 1) (case vf_limit f of Some n \<Rightarrow> n | None \<Rightarrow> 20) rows)"

definition find_one_invoice :: "string \<Rightarrow> db \<Rightarrow> http_error + (invoice_row \<times> payment_row list)" where
  "find_one_invoice k s =
     (case find_row iv_id k (d_invoices s) of
        None \<Rightarrow> Inl (NotFound ''Factura no encontrada'')
      | Some v \<Rightarrow> Inr (v, sort_key (\<lambda>p. - pm_paid_at p) (invoice_payments k s)))"

definition create_from_order ::
    "(number \<Rightarrow> int) \<Rightarrow> int \<Rightarrow> int \<Rightarrow> string \<Rightarrow> string \<Rightarrow> string \<Rightarrow> db \<Rightarrow> invoice_row answer" where
  "create_from_order dec now year new_id k user s =
     (case find_row wo_id k (d_orders s) of
        None \<Rightarrow> (Inl (NotFound ''Orden de trabajo no encontrada''), s)
      | Some w \<Rightarrow>
          if Some k \<in> iv_order ` set (d_invoices s) then (Inl (Conflict ''Ya existe una factura para esta orden''), s)
          else
            let num = document_number ''INV'' year
                        (count_where (\<lambda>v. starts_with (number_prefix ''INV'' year) (iv_number v)) (d_invoices s));
                subtotal = cents (case wo_total w of Some n \<Rightarrow> n | None \<Rightarrow> 0);
                discount = cents (wo_discount w);
                base = js_sub subtotal discount;
                tax = js_mul base (js_lit (18 / 100));
                total = js_add base tax;
                v = \<lparr>iv_id = new_id, iv_number = num, iv_order = Some k, iv_client = wo_client w, iv_type = BOLETA,
                     iv_status = InvoiceStatus.DRAFT, iv_subtotal = dec subtotal, iv_tax = dec tax,
                     iv_discount = dec discount, iv_total = dec total, iv_paid = 0, iv_due = dec total,
                     iv_due_date = None, iv_notes = None, iv_issued_at = None, iv_paid_at = None, iv_cancelled_at = None,
                     iv_cancel_reason = None, iv_created_by = user, iv_created_at = now\<rparr>
            in if new_id \<in> iv_id ` set (d_invoices s) \<or> num \<in> iv_number ` set (d_invoices s)
               then (Inl (DbError ''P2002''), s)
               else (Inr v, update_order k (\<lambda>x. x\<lparr>wo_payment_status := InvoiceStatus.DRAFT\<rparr>)
                             (s\<lparr>d_invoices := insert_row v (d_invoices s)\<rparr>)))"

definition issue_invoice :: "int \<Rightarrow> string \<Rightarrow> db \<Rightarrow> invoice_row answer" where
  "issue_invoice now k s =
     (case find_row iv_id k (d_invoices s) of
        None \<Rightarrow> (Inl (NotFound ''Factura no encontrada''), s)
      | Some v \<Rightarrow>
          if iv_status v \<noteq> InvoiceStatus.DRAFT
          then (Inl (Conflict ''Solo se pueden emitir facturas en estado DRAFT''), s)
          else
            let f = (\<lambda>r. r\<lparr>iv_status := ISSUED, iv_issued_at := Some now,
                           iv_due_date := (case iv_due_date v of Some t \<Rightarrow> Some t
                                           | None \<Rightarrow> Some (now + 30 * 24 * 60 * 60 * 1000))\<rparr>);
                s1 = update_invoice k f s
            in (Inr (f v),
                case iv_order v of
                  None \<Rightarrow> s1 | Some w \<Rightarrow> update_order w (\<lambda>x. x\<lparr>wo_payment_status := ISSUED\<rparr>) s1))"

definition cancel_invoice :: "int \<Rightarrow> string \<Rightarrow> string \<Rightarrow> db \<Rightarrow> invoice_row answer" where
  "cancel_invoice now k reason s =
     (case find_row iv_id k (d_invoices s) of
        None \<Rightarrow> (Inl (NotFound ''Factura no encontrada''), s)
      | Some v \<Rightarrow>
          if iv_status v = InvoiceStatus.CANCELLED then (Inl (Conflict ''La factura ya esta cancelada''), s)
          else if iv_status v = InvoiceStatus.PAID
          then (Inl (Conflict ''No se puede cancelar una factura ya pagada''), s)
          else
            let f = (\<lambda>r. r\<lparr>iv_status := InvoiceStatus.CANCELLED, iv_cancelled_at := Some now, iv_cancel_reason := Some reason\<rparr>)
            in (Inr (f v), update_invoice k f s))"

definition invoices_by_client :: "string \<Rightarrow> db \<Rightarrow> http_error + invoice_row list" where
  "invoices_by_client k s =
     (if find_row cl_id k (d_clients s) = None then Inl (NotFound ''Cliente no encontrado'')
      else Inr (sort_key (\<lambda>v. - iv_created_at v) (filter (\<lambda>v. iv_client v = k) (d_invoices s))))"

definition get_overdue :: "int \<Rightarrow> db \<Rightarrow> invoice_row list" where
  "get_overdue now s =
     sort_key (\<lambda>v. the (iv_due_date v))
       (filter (\<lambda>v. iv_status v = InvoiceStatus.OVERDUE \<and> (\<exists>t. iv_due_date v = Some t \<and> t < now) \<and> 0 < iv_due v) (d_invoices s))"

section \<open>The requests\<close>

datatype billing_request =
    CreateQuote string quote_input string
  | ApproveQuote string
  | RejectQuote string string
  | ConvertQuote string string
  | InvoiceFromOrder string string string
  | IssueInvoice string
  | CancelInvoice string string

fun billing_step :: "(number \<Rightarrow> int) \<Rightarrow> int \<times> int \<times> billing_request \<Rightarrow> db \<Rightarrow> unit answer" where
  "billing_step dec (now, year, CreateQuote i d user) s = drop_answer (create_quote dec now year i d user s)"
| "billing_step dec (now, year, ApproveQuote k) s = drop_answer (quotes_approve now k s)"
| "billing_step dec (now, year, RejectQuote k r) s = drop_answer (quotes_reject now k r s)"
| "billing_step dec (now, year, ConvertQuote k user) s = drop_answer (convert_to_order now k user s)"
| "billing_step dec (now, year, InvoiceFromOrder i k user) s = drop_answer (create_from_order dec now year i k user s)"
| "billing_step dec (now, year, IssueInvoice k) s = drop_answer (issue_invoice now k s)"
| "billing_step dec (now, year, CancelInvoice k r) s = drop_answer (cancel_invoice now k r s)"

section \<open>The life of a quote\<close>

interpretation quotes: repository "find_row qu_id" "update_row qu_id" insert_row qu_id
  by (rule repository_list)

definition quote_stage :: "string \<Rightarrow> db \<Rightarrow> (QuoteStatus \<times> int \<times> string option) option" where
  "quote_stage k s = map_option (\<lambda>q. (qu_status q, qu_total q, qu_order q)) (find_row qu_id k (d_quotes s))"

text \<open>What one request may do to a quote: create it as a draft, approve an open one, reject one that is not accepted,
  convert an approved one, or leave it.\<close>

fun quote_allowed :: "QuoteStatus \<Rightarrow> QuoteStatus list" where
  "quote_allowed QuoteStatus.DRAFT = [QuoteStatus.APPROVED, QuoteStatus.REJECTED]"
| "quote_allowed QuoteStatus.SENT = [QuoteStatus.APPROVED, QuoteStatus.REJECTED]"
| "quote_allowed QuoteStatus.REJECTED = [QuoteStatus.REJECTED]"
| "quote_allowed QuoteStatus.EXPIRED = [QuoteStatus.REJECTED]"
| "quote_allowed QuoteStatus.APPROVED = [CONVERTED]"
| "quote_allowed CONVERTED = []"

definition quote_moves ::
    "(QuoteStatus \<times> int \<times> string option) option \<Rightarrow> (QuoteStatus \<times> int \<times> string option) option \<Rightarrow> bool" where
  "quote_moves x y \<longleftrightarrow>
     (case x of
        None \<Rightarrow> (case y of None \<Rightarrow> True | Some (st, _) \<Rightarrow> st = QuoteStatus.DRAFT)
      | Some (st, r) \<Rightarrow> y = x \<or> (\<exists>st'. y = Some (st', r) \<and> st' \<in> set (quote_allowed st)))"

text \<open>The three decisions, by their outcome.\<close>

lemma quotes_approve_cases:
  assumes "quotes_approve now k s = (out, t)"
  obtains e where "out = Inl e" "t = s"
  | q where "find_row qu_id k (d_quotes s) = Some q" "qu_status q = QuoteStatus.DRAFT \<or> qu_status q = QuoteStatus.SENT"
      "out = Inr (q\<lparr>qu_status := QuoteStatus.APPROVED, qu_approved_at := Some now\<rparr>)"
      "d_quotes t = update_row qu_id k (\<lambda>r. r\<lparr>qu_status := QuoteStatus.APPROVED, qu_approved_at := Some now\<rparr>) (d_quotes s)"
      "d_invoices t = d_invoices s"
      "d_orders t = (if nonempty (qu_order q)
                     then update_row wo_id (the (qu_order q)) (\<lambda>w. w\<lparr>wo_status := BUDGETED\<rparr>) (d_orders s) else d_orders s)"
proof (cases "find_row qu_id k (d_quotes s)")
  case None
  then show ?thesis using assms that(1) by (auto simp: quotes_approve_def)
next
  case (Some q)
  show ?thesis
  proof (cases "qu_status q = QuoteStatus.DRAFT \<or> qu_status q = QuoteStatus.SENT")
    case False
    then show ?thesis using assms that(1) Some by (auto simp: quotes_approve_def)
  next
    case True
    show ?thesis
      by (rule that(2)[OF Some True])
         (use assms Some True in \<open>auto simp: quotes_approve_def Let_def log_status_def update_order_def update_quote_def\<close>)
  qed
qed

lemma quotes_reject_cases:
  assumes "quotes_reject now k reason s = (out, t)"
  obtains e where "out = Inl e" "t = s"
  | q where "find_row qu_id k (d_quotes s) = Some q" "qu_status q \<noteq> QuoteStatus.APPROVED" "qu_status q \<noteq> CONVERTED"
      "d_quotes t = update_row qu_id k (\<lambda>r. r\<lparr>qu_status := QuoteStatus.REJECTED, qu_rejected_at := Some now,
                                           qu_rejection_reason := Some reason\<rparr>) (d_quotes s)"
proof (cases "find_row qu_id k (d_quotes s)")
  case None
  then show ?thesis using assms that(1) by (auto simp: quotes_reject_def)
next
  case (Some q)
  show ?thesis
  proof (cases "qu_status q = QuoteStatus.APPROVED \<or> qu_status q = CONVERTED")
    case True
    then show ?thesis using assms that(1) Some by (auto simp: quotes_reject_def)
  next
    case False
    show ?thesis
      by (rule that(2)[OF Some]) (use assms Some False in \<open>auto simp: quotes_reject_def Let_def update_quote_def\<close>)
  qed
qed

lemma convert_cases:
  assumes "convert_to_order now k user s = (out, t)"
  obtains e where "out = Inl e" "t = s"
  | q where "find_row qu_id k (d_quotes s) = Some q" "qu_status q = QuoteStatus.APPROVED" "nonempty (qu_order q)"
      "find_row wo_id (the (qu_order q)) (d_orders s) \<noteq> None" "out = Inr (q\<lparr>qu_status := CONVERTED\<rparr>)"
      "d_quotes t = update_row qu_id k (\<lambda>r. r\<lparr>qu_status := CONVERTED\<rparr>) (d_quotes s)"
      "d_orders t = update_row wo_id (the (qu_order q))
         (\<lambda>w. w\<lparr>wo_status := IN_PROGRESS, wo_started_at := Some now, wo_total := Some (qu_total q), wo_final := qu_total q\<rparr>)
         (d_orders s)"
proof (cases "find_row qu_id k (d_quotes s)")
  case None
  then show ?thesis using assms that(1) by (auto simp: convert_to_order_def)
next
  case (Some q)
  show ?thesis
  proof (cases "qu_status q = QuoteStatus.APPROVED \<and> nonempty (qu_order q)
      \<and> find_row wo_id (the (qu_order q)) (d_orders s) \<noteq> None")
    case False
    then show ?thesis using assms that(1) Some by (auto simp: convert_to_order_def split: if_splits)
  next
    case True
    show ?thesis
      by (rule that(2)[OF Some])
         (use assms Some True in \<open>auto simp: convert_to_order_def Let_def log_status_def update_order_def update_quote_def\<close>)
  qed
qed

lemma create_quote_moves: "quote_moves (quote_stage k s) (quote_stage k (snd (create_quote dec now year i d user s)))"
  by (auto simp: create_quote_def Let_def quote_stage_def quote_moves_def quotes.lookup_create
      split: option.splits)

lemma quote_moves_refl [simp]: "quote_moves x x"
  by (auto simp: quote_moves_def split: option.splits)

lemma quote_moves_update:
  assumes "d_quotes t = update_row qu_id k' f (d_quotes s)" and "\<And>q. qu_id (f q) = qu_id q"
    and q: "find_row qu_id k' (d_quotes s) = Some q"
    and "qu_status (f q) \<in> set (quote_allowed (qu_status q))" and "qu_total (f q) = qu_total q" "qu_order (f q) = qu_order q"
  shows "quote_moves (quote_stage k s) (quote_stage k t)"
proof (cases "k = k'")
  case True
  then have "quote_stage k s = Some (qu_status q, qu_total q, qu_order q)"
    "quote_stage k t = Some (qu_status (f q), qu_total q, qu_order q)"
    using assms by (simp_all add: quote_stage_def quotes.lookup_modify)
  then show ?thesis using assms(4) by (simp add: quote_moves_def)
next
  case False
  then have "quote_stage k t = quote_stage k s"
    using assms by (simp add: quote_stage_def quotes.lookup_modify)
  then show ?thesis by simp
qed

lemma quotes_approve_moves: "quote_moves (quote_stage k s) (quote_stage k (snd (quotes_approve now k' s)))"
proof -
  obtain out t where c: "quotes_approve now k' s = (out, t)" by fastforce
  then show ?thesis
  proof (cases rule: quotes_approve_cases)
    case (2 q)
    have "quote_moves (quote_stage k s) (quote_stage k t)" by (rule quote_moves_update[OF 2(4) _ 2(1)]) (use 2(2) in auto)
    then show ?thesis using c by simp
  qed (use c in simp)
qed

lemma quotes_reject_moves: "quote_moves (quote_stage k s) (quote_stage k (snd (quotes_reject now k' r s)))"
proof -
  obtain out t where c: "quotes_reject now k' r s = (out, t)" by fastforce
  then show ?thesis
  proof (cases rule: quotes_reject_cases)
    case (2 q)
    have "quote_moves (quote_stage k s) (quote_stage k t)"
      by (rule quote_moves_update[OF 2(4) _ 2(1)]) (use 2(2,3) in \<open>cases "qu_status q"; simp\<close>)+
    then show ?thesis using c by simp
  qed (use c in simp)
qed

lemma convert_moves: "quote_moves (quote_stage k s) (quote_stage k (snd (convert_to_order now k' user s)))"
proof -
  obtain out t where c: "convert_to_order now k' user s = (out, t)" by fastforce
  then show ?thesis
  proof (cases rule: convert_cases)
    case (2 q)
    have "quote_moves (quote_stage k s) (quote_stage k t)" by (rule quote_moves_update[OF 2(6) _ 2(1)]) (use 2(2) in auto)
    then show ?thesis using c by simp
  qed (use c in simp)
qed

lemma create_from_order_quotes [simp]: "d_quotes (snd (create_from_order dec now year i k user s)) = d_quotes s"
  by (auto simp: create_from_order_def Let_def update_order_def split: option.splits)

lemma issue_invoice_quotes [simp]: "d_quotes (snd (issue_invoice now k s)) = d_quotes s"
  by (auto simp: issue_invoice_def Let_def update_order_def update_invoice_def split: option.splits)

lemma cancel_invoice_quotes [simp]: "d_quotes (snd (cancel_invoice now k r s)) = d_quotes s"
  by (auto simp: cancel_invoice_def Let_def update_invoice_def split: option.splits)

lemma billing_step_moves: "quote_moves (quote_stage k s) (quote_stage k (snd (billing_step dec q s)))"
  by (cases "(dec, q, s)" rule: billing_step.cases)
     (simp_all add: create_quote_moves quotes_approve_moves quotes_reject_moves convert_moves,
      simp_all add: quote_stage_def)

lemma converted_stays:
  "quote_stage k s = Some (CONVERTED, r) \<Longrightarrow> quote_stage k (run_requests (billing_step dec) qs s) = Some (CONVERTED, r)"
proof (induction qs arbitrary: s)
  case (Cons q qs)
  have "quote_stage k (snd (billing_step dec q s)) = Some (CONVERTED, r)"
    using billing_step_moves[of k s dec q] Cons.prems by (simp add: quote_moves_def)
  then show ?case using Cons.IH by simp
qed simp

lemma approved_stays:
  "quote_stage k s = Some (QuoteStatus.APPROVED, r) \<Longrightarrow>
     quote_stage k (run_requests (billing_step dec) qs s) \<in> {Some (QuoteStatus.APPROVED, r), Some (CONVERTED, r)}"
proof (induction qs arbitrary: s)
  case (Cons q qs)
  have "quote_stage k (snd (billing_step dec q s)) \<in> {Some (QuoteStatus.APPROVED, r), Some (CONVERTED, r)}"
    using billing_step_moves[of k s dec q] Cons.prems by (auto simp: quote_moves_def)
  then show ?case using Cons.IH[of "snd (billing_step dec q s)"] converted_stays[of k "snd (billing_step dec q s)" r] by auto
qed simp

section \<open>A cancelled invoice\<close>

lemma create_quote_invoices [simp]: "d_invoices (snd (create_quote dec now year i d user s)) = d_invoices s"
  by (auto simp: create_quote_def Let_def)

lemma quotes_approve_invoices [simp]: "d_invoices (snd (quotes_approve now k s)) = d_invoices s"
  by (auto simp: quotes_approve_def Let_def log_status_def update_order_def update_quote_def split: option.splits)

lemma quotes_reject_invoices [simp]: "d_invoices (snd (quotes_reject now k r s)) = d_invoices s"
  by (auto simp: quotes_reject_def Let_def update_quote_def split: option.splits)

lemma convert_invoices [simp]: "d_invoices (snd (convert_to_order now k user s)) = d_invoices s"
  by (auto simp: convert_to_order_def Let_def log_status_def update_order_def update_quote_def split: option.splits)

definition cancelled_invoice :: "string \<Rightarrow> invoice_row \<Rightarrow> db \<Rightarrow> bool" where
  "cancelled_invoice k v s \<longleftrightarrow> find_row iv_id k (d_invoices s) = Some v \<and> iv_status v = InvoiceStatus.CANCELLED"

lemma create_from_order_cancelled:
  "cancelled_invoice k v s \<Longrightarrow> cancelled_invoice k v (snd (create_from_order dec now year i w user s))"
  by (auto simp: create_from_order_def Let_def cancelled_invoice_def update_order_def invoices.create_keeps
      split: option.splits)

lemma issue_invoice_cancelled: "cancelled_invoice k v s \<Longrightarrow> cancelled_invoice k v (snd (issue_invoice now k' s))"
  by (auto simp: issue_invoice_def Let_def cancelled_invoice_def update_order_def update_invoice_def invoices.lookup_modify
      split: option.splits)

lemma cancel_invoice_cancelled:
  assumes "cancelled_invoice k v s"
  shows "cancelled_invoice k v (snd (cancel_invoice now k' r s))"
proof (cases "k' = k")
  case True
  then show ?thesis using assms by (simp add: cancel_invoice_def cancelled_invoice_def)
next
  case False
  then show ?thesis
    using assms
    by (cases "find_row iv_id k' (d_invoices s)")
       (simp_all add: cancel_invoice_def cancelled_invoice_def update_invoice_def invoices.lookup_modify Let_def)
qed

lemma billing_step_cancelled: "cancelled_invoice k v s \<Longrightarrow> cancelled_invoice k v (snd (billing_step dec q s))"
  by (cases "(dec, q, s)" rule: billing_step.cases)
     (simp_all add: create_from_order_cancelled issue_invoice_cancelled cancel_invoice_cancelled,
      simp_all add: cancelled_invoice_def)

interpretation billing: invariant_service "billing_step dec" "cancelled_invoice k v"
  by unfold_locales (rule billing_step_cancelled)

lemma cancel_invoice_ok:
  assumes "cancel_invoice now k r s = (Inr v, t)"
  shows "cancelled_invoice k v t" and "iv_cancelled_at v = Some now"
  using assms
  by (auto simp: cancel_invoice_def Let_def cancelled_invoice_def update_invoice_def invoices.lookup_modify
      split: option.splits if_splits)

lemma settle_found:
  assumes "find_row iv_id k (d_invoices s) = Some v"
  shows "\<exists>w. find_row iv_id k (d_invoices (settle_invoice dec now k s)) = Some w
    \<and> iv_cancelled_at w = iv_cancelled_at v \<and> iv_total w = iv_total v
    \<and> iv_status w = payment_status (cents (iv_total v)) (js_sum (map (\<lambda>p. cents (pm_amount p)) (invoice_payments k s)))"
proof -
  have "\<exists>st x y z. d_invoices (settle_invoice dec now k s)
      = update_row iv_id k (\<lambda>r. r\<lparr>iv_status := st, iv_paid := x, iv_due := y, iv_paid_at := z\<rparr>) (d_invoices s)
    \<and> st = payment_status (cents (iv_total v)) (js_sum (map (\<lambda>p. cents (pm_amount p)) (invoice_payments k s)))"
    using assms
    by (cases "iv_order v") (simp_all add: settle_invoice_def Let_def update_invoice_def update_order_def, blast+)
  then show ?thesis using assms by (auto simp: invoices.lookup_modify)
qed

section \<open>Properties\<close>

text \<open>A quote is approved exactly when it is a draft or sent. Whatever requests follow, an approved quote keeps its total
  and its order and can only be converted: it is never approved or rejected again.\<close>

theorem quote_decided_once:
  "(is_ok (quotes_approve now k s) \<longleftrightarrow>
      (\<exists>r. quote_stage k s = Some (QuoteStatus.DRAFT, r) \<or> quote_stage k s = Some (QuoteStatus.SENT, r)))
    \<and> (\<forall>q t qs. quotes_approve now k s = (Inr q, t) \<longrightarrow>
         (let u = run_requests (billing_step dec) qs t in
            quote_stage k u \<in> {Some (QuoteStatus.APPROVED, qu_total q, qu_order q), Some (CONVERTED, qu_total q, qu_order q)}
            \<and> (\<forall>now' reason. \<not> is_ok (quotes_approve now' k u) \<and> \<not> is_ok (quotes_reject now' k reason u))))"
proof -
  have ok: "is_ok (quotes_approve now k s) \<longleftrightarrow>
      (\<exists>r. quote_stage k s = Some (QuoteStatus.DRAFT, r) \<or> quote_stage k s = Some (QuoteStatus.SENT, r))" for now s
    by (auto simp: quotes_approve_def Let_def is_ok_def quote_stage_def split: option.splits)
  have after: "quote_stage k t = Some (QuoteStatus.APPROVED, qu_total q, qu_order q)"
    if "quotes_approve now k s = (Inr q, t)" for q t
    using that by (cases rule: quotes_approve_cases) (auto simp: quote_stage_def quotes.lookup_modify)
  have closed: "\<not> is_ok (quotes_approve now' k u) \<and> \<not> is_ok (quotes_reject now' k reason u)"
    if "quote_stage k u \<in> {Some (QuoteStatus.APPROVED, r), Some (CONVERTED, r)}" for u r now' reason
    using that ok[of now' u] by (auto simp: quotes_reject_def is_ok_def quote_stage_def split: option.splits)
  show ?thesis
    using ok after approved_stays closed by (simp only: Let_def) blast
qed

theorem quote_decided_once_witness:
  "\<exists>q t. quotes_approve 7 ''q1'' ((sample_orders READY)\<lparr>d_quotes := [sample_quote]\<rparr>) = (Inr q, t)
     \<and> \<not> is_ok (quotes_approve 8 ''q1'' t)"
proof -
  let ?s = "(sample_orders READY)\<lparr>d_quotes := [sample_quote]\<rparr>"
  obtain q t where c: "quotes_approve 7 ''q1'' ?s = (Inr q, t)"
    by (simp add: quotes_approve_def sample_quote_def Let_def)
  have "\<not> is_ok (quotes_approve 8 ''q1'' (run_requests (billing_step half_up) [] t))"
    using quote_decided_once[of 7 "''q1''" ?s half_up] c by (auto simp only: Let_def)
  then show ?thesis using c by auto
qed

text \<open>Approving and converting a quote write the status of its order whatever that status is: a delivered or cancelled
  order, which by its own transitions is final, is open again.\<close>

theorem quote_reopens_order:
  assumes "quote_stage k s = Some (st, n, Some w)" and "w \<noteq> []"
    and "find_row wo_id w (d_orders s) = Some x" and "wo_status x = DELIVERED \<or> wo_status x = OrderStatus.CANCELLED"
  shows "(\<forall>st'. reaches order_transitions (wo_status x) st' \<longrightarrow> st' = wo_status x)
    \<and> (st = QuoteStatus.DRAFT \<or> st = QuoteStatus.SENT \<longrightarrow>
        (\<exists>q t. quotes_approve now k s = (Inr q, t)
           \<and> find_row wo_id w (d_orders t) = Some (x\<lparr>wo_status := BUDGETED\<rparr>)))
    \<and> (st = QuoteStatus.APPROVED \<longrightarrow>
        (\<exists>q t. convert_to_order now k user s = (Inr q, t)
           \<and> find_row wo_id w (d_orders t)
               = Some (x\<lparr>wo_status := IN_PROGRESS, wo_started_at := Some now, wo_total := Some n, wo_final := n\<rparr>)))"
proof (intro conjI allI impI)
  show "st' = wo_status x" if "reaches order_transitions (wo_status x) st'" for st'
    using order_machine.terminal_stays[OF that] assms(4) by auto
next
  assume "st = QuoteStatus.DRAFT \<or> st = QuoteStatus.SENT"
  then show "\<exists>q t. quotes_approve now k s = (Inr q, t) \<and> find_row wo_id w (d_orders t) = Some (x\<lparr>wo_status := BUDGETED\<rparr>)"
    using assms
    by (auto simp: quote_stage_def quotes_approve_def Let_def nonempty_def log_status_def update_order_def update_quote_def
        orders.lookup_modify)
next
  assume "st = QuoteStatus.APPROVED"
  then show "\<exists>q t. convert_to_order now k user s = (Inr q, t) \<and> find_row wo_id w (d_orders t)
      = Some (x\<lparr>wo_status := IN_PROGRESS, wo_started_at := Some now, wo_total := Some n, wo_final := n\<rparr>)"
    using assms
    by (auto simp: quote_stage_def convert_to_order_def Let_def nonempty_def log_status_def update_order_def update_quote_def
        orders.lookup_modify)
qed

theorem quote_reopens_order_witness:
  "\<exists>q t. quotes_approve 7 ''q1'' ((sample_orders DELIVERED)\<lparr>d_quotes := [sample_quote]\<rparr>) = (Inr q, t)
     \<and> find_row wo_id ''o1'' (d_orders t) = Some ((sample_order ''o1'' DELIVERED)\<lparr>wo_status := BUDGETED\<rparr>)"
  using quote_reopens_order[of "''q1''" "(sample_orders DELIVERED)\<lparr>d_quotes := [sample_quote]\<rparr>" QuoteStatus.SENT 100 "''o1''"
      "sample_order ''o1'' DELIVERED" 7]
  by (simp add: quote_stage_def sample_quote_def sample_orders_def)

text \<open>A cancelled invoice stays cancelled, unchanged, through any run of the requests on quotes and invoices; but the next
  payment that names it is accepted like any other and gives it a status in force again, with its date of cancellation.\<close>

theorem payment_revives_cancelled_invoice:
  assumes "cancel_invoice now k reason s = (Inr v, t)" and "u = run_requests (billing_step dec) qs t"
  shows "find_row iv_id k (d_invoices u) = Some v \<and> iv_status v = InvoiceStatus.CANCELLED
    \<and> (\<forall>now' i p user row u'. create_payment dec now' i p user u = (Inr row, u') \<and> pa_invoice p = Some k \<longrightarrow>
         (\<exists>v'. find_row iv_id k (d_invoices u') = Some v' \<and> iv_cancelled_at v' = Some now
            \<and> iv_status v' \<in> {ISSUED, PARTIALLY_PAID, InvoiceStatus.PAID}))"
proof -
  have c: "cancelled_invoice k v u"
    unfolding assms(2) by (rule billing.run_inv[OF cancel_invoice_ok(1)[OF assms(1)]])
  have "\<exists>v'. find_row iv_id k (d_invoices u') = Some v' \<and> iv_cancelled_at v' = Some now
      \<and> iv_status v' \<in> {ISSUED, PARTIALLY_PAID, InvoiceStatus.PAID}"
    if "create_payment dec now' i p user u = (Inr row, u')" "pa_invoice p = Some k" for now' i p user row u'
    using that(1)
  proof (cases rule: create_payment_cases)
    case (2 row' s1)
    then have u': "u' = settle_invoice dec now' k s1" using that(2) by (auto simp: nonempty_def)
    have f: "find_row iv_id k (d_invoices s1) = Some v" using c 2(4) by (simp add: cancelled_invoice_def)
    show ?thesis
      unfolding u' using settle_found[OF f, of dec now'] cancel_invoice_ok(2)[OF assms(1)] by (auto simp: payment_status_def)
  qed simp
  then show ?thesis using c unfolding cancelled_invoice_def by blast
qed

lemma sample_payment_simps: "pa_invoice (sample_payment m a) = Some ''i1''"
  by (simp add: sample_payment_def)

theorem payment_revives_cancelled_invoice_witness:
  "\<exists>v t row u v'. cancel_invoice 7 ''i1'' ''error'' sample_ledger = (Inr v, t)
     \<and> create_payment half_up 8 ''p1'' (sample_payment CASH 100) ''a1'' t = (Inr row, u)
     \<and> find_row iv_id ''i1'' (d_invoices u) = Some v' \<and> iv_status v' \<noteq> InvoiceStatus.CANCELLED"
proof -
  obtain v t where c: "cancel_invoice 7 ''i1'' ''error'' sample_ledger = (Inr v, t)"
    and t: "t = update_invoice ''i1'' (\<lambda>r. r\<lparr>iv_status := InvoiceStatus.CANCELLED, iv_cancelled_at := Some 7,
              iv_cancel_reason := Some ''error''\<rparr>) sample_ledger"
    by (simp add: cancel_invoice_def Let_def)
  obtain row u where p: "create_payment half_up 8 ''p1'' (sample_payment CASH 100) ''a1'' t = (Inr row, u)"
    unfolding t
    by (simp add: create_payment_def check_yape_def missing_reference_def sample_payment_def nonempty_def Let_def
        update_invoice_def update_row_def)
  have "\<exists>v'. find_row iv_id ''i1'' (d_invoices u) = Some v' \<and> iv_cancelled_at v' = Some 7
      \<and> iv_status v' \<in> {ISSUED, PARTIALLY_PAID, InvoiceStatus.PAID}"
    using payment_revives_cancelled_invoice[OF c, of t half_up "[]"] p
    by (simp only: run_requests.simps simp_thms) (metis sample_payment_simps)
  then show ?thesis using c p by fastforce
qed

end
