(* ===== verification/AuthService.thy ===== *)
theory AuthService
  imports Gateway SecretCipher Samples
begin

text \<open>
  Accounts and sessions: \<open>src/modules/auth/auth.service.ts\<close>, every operation. A session is a row of
  \<open>refresh_tokens\<close> with the hash of the token, a key of Redis and the sockets of the user. bcrypt, SHA-256,
  signing and verifying JSON web tokens, one-time codes and the cipher of the secrets are the fields of the
  environment \<open>auth_env\<close>, with the secrets and lifetimes of the configuration; random salts, nonces, secrets
  and new ids are arguments. The claims that only display a name are left out of the payloads.
\<close>

section \<open>The environment\<close>

record auth_env =
  en_compare :: "string \<Rightarrow> string \<Rightarrow> bool"
  en_hash :: "string \<Rightarrow> string \<Rightarrow> string"
  en_sha :: "string \<Rightarrow> string"
  en_sign :: "string \<Rightarrow> jwt_payload \<Rightarrow> string"
  en_verify :: "string \<Rightarrow> int \<Rightarrow> string \<Rightarrow> jwt_payload option"
  en_totp :: "int \<Rightarrow> string \<Rightarrow> string \<Rightarrow> bool"
  en_seal :: seal
  en_unseal :: unseal
  en_access_secret :: string
  en_refresh_secret :: string
  en_access_ttl :: int
  en_refresh_ttl :: int

definition privileged_roles :: "UserRole list" where
  "privileged_roles = [UserRole.OWNER, UserRole.ADMIN, UserRole.FINANCE]"

definition mfa_pending_key :: "string \<Rightarrow> string" where
  "mfa_pending_key account = ''mfa:pending:'' @ account"

definition session_prefix :: "string \<Rightarrow> string" where
  "session_prefix account = ''session:'' @ account @ '':''"

definition session_key :: "string \<Rightarrow> string \<Rightarrow> string" where
  "session_key account h = session_prefix account @ h"

definition hash_token :: "auth_env \<Rightarrow> string \<Rightarrow> string" where
  "hash_token env t = en_sha env t"

section \<open>Sessions\<close>

definition store_session :: "int \<Rightarrow> string \<Rightarrow> string \<Rightarrow> db \<Rightarrow> db" where
  "store_session now account h s = set_redis (redis_set now (session_key account h) (RText h) 604800 (d_redis s)) s"

definition invalidate_session :: "string \<Rightarrow> string \<Rightarrow> db \<Rightarrow> db" where
  "invalidate_session account h s = set_redis (redis_del (session_key account h) (d_redis s)) s"

definition invalidate_all_sessions :: "string \<Rightarrow> db \<Rightarrow> db" where
  "invalidate_all_sessions account s = set_redis (redis_del_prefix (session_prefix account) (d_redis s)) s"

definition revoke_tokens :: "(token_row \<Rightarrow> bool) \<Rightarrow> db \<Rightarrow> db" where
  "revoke_tokens p s = s\<lparr>d_tokens := update_where p (\<lambda>r. r\<lparr>rt_revoked := True\<rparr>) (d_tokens s)\<rparr>"

text \<open>The rows, the keys and the sockets of a user.\<close>

definition revoke_all_user_sessions :: "string \<Rightarrow> db \<Rightarrow> db" where
  "revoke_all_user_sessions account s =
     disconnect_user account
       (invalidate_all_sessions account (revoke_tokens (\<lambda>r. rt_account r = account \<and> \<not> rt_revoked r) s))"

text \<open>The keys that have not expired, in the order of the store.\<close>

definition get_active_sessions :: "int \<Rightarrow> string \<Rightarrow> db \<Rightarrow> string list" where
  "get_active_sessions now account s =
     [h. (k, RText h, e) \<leftarrow> d_redis s, starts_with (session_prefix account) k \<and> now < e]"

section \<open>Issuing tokens\<close>

record token_pair =
  tp_access :: string
  tp_refresh :: string
  tp_user :: string
  tp_role :: UserRole
  tp_mfa_enabled :: bool

definition access_payload :: "auth_env \<Rightarrow> int \<Rightarrow> account_row \<Rightarrow> bool \<Rightarrow> db \<Rightarrow> jwt_payload" where
  "access_payload env now a verified s =
     \<lparr>jp_sub = None, jp_id = Some (ac_id a), jp_role = Some (ac_role a), jp_mfa_verified = Some verified,
      jp_mfa_pending = False,
      jp_client = (if ac_role a = CLIENT then map_option cl_id (find_row cl_account (Some (ac_id a)) (d_clients s)) else None),
      jp_exp = Some (now div 1000 + en_access_ttl env)\<rparr>"

definition refresh_payload :: "auth_env \<Rightarrow> int \<Rightarrow> account_row \<Rightarrow> bool \<Rightarrow> jwt_payload" where
  "refresh_payload env now a verified =
     \<lparr>jp_sub = Some (ac_id a), jp_id = None, jp_role = None, jp_mfa_verified = Some verified,
      jp_mfa_pending = False, jp_client = None, jp_exp = Some (now div 1000 + en_refresh_ttl env)\<rparr>"

text \<open>\<open>refreshToken.create\<close>: the account is a foreign key, the token and the id are unique.\<close>

definition insert_token :: "token_row \<Rightarrow> db \<Rightarrow> http_error + db" where
  "insert_token r s =
     (if \<not> account_exists (rt_account r) s then Inl (DbError ''P2003'')
      else if rt_token r \<in> rt_token ` set (d_tokens s) \<or> rt_id r \<in> rt_id ` set (d_tokens s)
      then Inl (DbError ''P2002'')
      else Inr (s\<lparr>d_tokens := insert_row r (d_tokens s)\<rparr>))"

definition effective_mfa :: "account_row \<Rightarrow> bool \<Rightarrow> bool" where
  "effective_mfa a verified \<longleftrightarrow> verified \<or> ac_role a \<notin> set privileged_roles"

definition generate_tokens ::
    "auth_env \<Rightarrow> int \<Rightarrow> string \<Rightarrow> account_row \<Rightarrow> bool \<Rightarrow> string option \<Rightarrow> string option \<Rightarrow> db \<Rightarrow> token_pair answer" where
  "generate_tokens env now new_id a verified ip agent s =
     (let eff = effective_mfa a verified;
          access = en_sign env (en_access_secret env) (access_payload env now a eff s);
          refresh = en_sign env (en_refresh_secret env) (refresh_payload env now a eff);
          h = hash_token env refresh
      in (case insert_token
                 \<lparr>rt_id = new_id, rt_token = h, rt_account = ac_id a, rt_expires_at = now + 604800000, rt_revoked = False,
                  rt_device = agent, rt_ip = ip, rt_created_at = now\<rparr> s of
            Inl e \<Rightarrow> (Inl e, s)
          | Inr s1 \<Rightarrow>
              (Inr \<lparr>tp_access = access, tp_refresh = refresh, tp_user = ac_id a, tp_role = ac_role a,
                    tp_mfa_enabled = ac_mfa_enabled a\<rparr>,
               store_session now (ac_id a) h s1)))"

section \<open>Logging in\<close>

datatype login_result =
    MfaPending string
  | LoggedIn token_pair bool

definition record_failure :: "int \<Rightarrow> account_row \<Rightarrow> db \<Rightarrow> db" where
  "record_failure now a s =
     (let n = ac_failed_attempts a + 1
      in update_account (ac_id a)
           (\<lambda>r. r\<lparr>ac_failed_attempts := n,
                  ac_locked_until := (if 5 \<le> n then Some (now + 15 * 60 * 1000) else ac_locked_until r)\<rparr>) s)"

definition record_login :: "int \<Rightarrow> string \<Rightarrow> account_row \<Rightarrow> account_row" where
  "record_login now ip r =
     r\<lparr>ac_failed_attempts := 0, ac_locked_until := None, ac_last_login_at := Some now, ac_last_login_ip := Some ip\<rparr>"

definition locked :: "int \<Rightarrow> account_row \<Rightarrow> bool" where
  "locked now a \<longleftrightarrow> (case ac_locked_until a of Some t \<Rightarrow> now < t | None \<Rightarrow> False)"

definition pending_payload :: "int \<Rightarrow> account_row \<Rightarrow> jwt_payload" where
  "pending_payload now a =
     \<lparr>jp_sub = Some (ac_id a), jp_id = None, jp_role = Some (ac_role a), jp_mfa_verified = None,
      jp_mfa_pending = True, jp_client = None, jp_exp = Some (now div 1000 + 300)\<rparr>"

definition login ::
    "auth_env \<Rightarrow> int \<Rightarrow> string \<Rightarrow> string \<Rightarrow> string \<Rightarrow> string \<Rightarrow> string option \<Rightarrow> db \<Rightarrow> login_result answer" where
  "login env now new_id email password ip agent s =
     (case find_row ac_email email (d_accounts s) of
        None \<Rightarrow> (Inl (Unauthorized ''Credenciales invalidas''), s)
      | Some a \<Rightarrow>
          if ac_status a = AccountStatus.TERMINATED then (Inl (Unauthorized ''Credenciales invalidas''), s)
          else if locked now a then (Inl (TooManyRequests ''ACCOUNT_LOCKED''), s)
          else if \<not> en_compare env password (ac_password_hash a)
          then (Inl (Unauthorized ''Credenciales invalidas''), record_failure now a s)
          else
            let s1 = update_account (ac_id a) (record_login now ip) s
            in if ac_mfa_enabled a
               then (Inr (MfaPending (en_sign env (en_access_secret env) (pending_payload now a))), s1)
               else (case generate_tokens env now new_id a False (Some ip) agent s1 of
                       (Inl e, s2) \<Rightarrow> (Inl e, s2)
                     | (Inr p, s2) \<Rightarrow> (Inr (LoggedIn p (ac_role a \<in> set privileged_roles \<and> \<not> ac_mfa_enabled a)), s2)))"

definition mechanic_login ::
    "auth_env \<Rightarrow> int \<Rightarrow> string \<Rightarrow> string \<Rightarrow> string \<Rightarrow> string option \<Rightarrow> db \<Rightarrow> token_pair answer" where
  "mechanic_login env now new_id pin ip agent s =
     (case find_row pe_pin (Some pin) (d_personnel s) of
        None \<Rightarrow> (Inl (Unauthorized ''PIN invalido''), s)
      | Some p \<Rightarrow>
          (case find_row ac_id (pe_account p) (d_accounts s) of
             None \<Rightarrow> (Inl (Unauthorized ''PIN invalido''), s)
           | Some a \<Rightarrow>
               if ac_status a \<noteq> AccountStatus.ACTIVE
               then (Inl (Unauthorized ''Cuenta inactiva. Contacte al administrador.''), s)
               else if ac_role a \<notin> {MECHANIC, TRAINEE}
               then (Inl (Unauthorized ''Este PIN no corresponde a un perfil de taller''), s)
               else generate_tokens env now new_id a False (Some ip) agent
                      (update_account (ac_id a) (\<lambda>r. r\<lparr>ac_last_login_at := Some now, ac_last_login_ip := Some ip\<rparr>) s)))"

section \<open>The second factor\<close>

definition verify_mfa ::
    "auth_env \<Rightarrow> int \<Rightarrow> string \<Rightarrow> string \<Rightarrow> string \<Rightarrow> db \<Rightarrow> token_pair answer" where
  "verify_mfa env now new_id session_token code s =
     (case en_verify env (en_access_secret env) now session_token of
        None \<Rightarrow> (Inl (Unauthorized ''Session de MFA expirada. Inicia sesion nuevamente.''), s)
      | Some p \<Rightarrow>
          if \<not> jp_mfa_pending p then (Inl (Unauthorized ''Session invalida para MFA''), s)
          else (case jp_sub p of
                  None \<Rightarrow> (Inl (DbError ''validation''), s)
                | Some k \<Rightarrow>
                    (case find_row ac_id k (d_accounts s) of
                       None \<Rightarrow> (Inl (Unauthorized ''MFA no configurada''), s)
                     | Some a \<Rightarrow>
                         if \<not> nonempty (ac_mfa_secret a) then (Inl (Unauthorized ''MFA no configurada''), s)
                         else (case decrypt_secret (en_unseal env) (the (ac_mfa_secret a)) of
                                 None \<Rightarrow> (Inl (DomainError ''decrypt''), s)
                               | Some secret \<Rightarrow>
                                   if \<not> en_totp env now code secret
                                   then (Inl (Unauthorized ''Codigo MFA invalido''), s)
                                   else generate_tokens env now new_id a True None None s))))"

definition account_audit :: "string \<Rightarrow> UserRole \<Rightarrow> string \<Rightarrow> string option \<Rightarrow> string option \<Rightarrow> AuditSeverity \<Rightarrow> audit_row" where
  "account_audit user role action entity entity_id severity =
     \<lparr>au_user = user, au_role = role_name role, au_action = action, au_entity = entity, au_entity_id = entity_id,
      au_severity = severity, au_hash = None\<rparr>"

definition audited :: "audit_row \<Rightarrow> 'a \<Rightarrow> db \<Rightarrow> 'a answer" where
  "audited r answer s = (case audit_create r s of Inl e \<Rightarrow> (Inl e, s) | Inr s1 \<Rightarrow> (Inr answer, s1))"

text \<open>The new secret stays in Redis, encrypted, until a code confirms it.\<close>

definition generate_mfa_secret ::
    "auth_env \<Rightarrow> int \<Rightarrow> string \<Rightarrow> bool \<Rightarrow> string \<Rightarrow> string \<Rightarrow> db \<Rightarrow> string answer" where
  "generate_mfa_secret env now user verified secret nonce s =
     (case find_row ac_id user (d_accounts s) of
        None \<Rightarrow> (Inl (NotFound ''Usuario no encontrado''), s)
      | Some a \<Rightarrow>
          if ac_mfa_enabled a \<and> \<not> verified then (Inl (Forbidden ''MFA_REQUIRED''), s)
          else audited (account_audit user (ac_role a) ''MFA_ENROLL_STARTED'' (Some ''Account'') (Some user) INFO) secret
                 (set_redis (redis_set now (mfa_pending_key user) (RText (encrypt_secret (en_seal env) nonce secret)) 600
                               (d_redis s)) s))"

definition confirm_mfa_setup :: "auth_env \<Rightarrow> int \<Rightarrow> string \<Rightarrow> string \<Rightarrow> string \<Rightarrow> db \<Rightarrow> unit answer" where
  "confirm_mfa_setup env now user code nonce s =
     (case find_row ac_id user (d_accounts s) of
        None \<Rightarrow> (Inl (NotFound ''Usuario no encontrado''), s)
      | Some a \<Rightarrow>
          (case redis_get now (mfa_pending_key user) (d_redis s) of
             Some (RText stored) \<Rightarrow>
               (case decrypt_secret (en_unseal env) stored of
                  None \<Rightarrow> (Inl (DomainError ''decrypt''), s)
                | Some secret \<Rightarrow>
                    if \<not> en_totp env now code secret then (Inl (Unauthorized ''Codigo MFA invalido''), s)
                    else
                      let s1 = update_account user
                                 (\<lambda>r. r\<lparr>ac_mfa_secret := Some (encrypt_secret (en_seal env) nonce secret),
                                        ac_mfa_enabled := True\<rparr>) s;
                          s2 = set_redis (redis_del (mfa_pending_key user) (d_redis s1)) s1
                      in audited (account_audit user (ac_role a) ''MFA_ENABLED'' (Some ''Account'') (Some user) WARNING) ()
                           (revoke_all_user_sessions user s2))
           | _ \<Rightarrow> (Inl (NotFound ''No hay un enrolamiento MFA pendiente. Genera un secreto primero.''), s)))"

definition verify_totp_for_account :: "auth_env \<Rightarrow> int \<Rightarrow> string \<Rightarrow> string \<Rightarrow> db \<Rightarrow> http_error + bool" where
  "verify_totp_for_account env now k code s =
     (case find_row ac_id k (d_accounts s) of
        None \<Rightarrow> Inr False
      | Some a \<Rightarrow>
          if \<not> ac_mfa_enabled a \<or> \<not> nonempty (ac_mfa_secret a) then Inr False
          else (case decrypt_secret (en_unseal env) (the (ac_mfa_secret a)) of
                  None \<Rightarrow> Inl (DomainError ''decrypt'')
                | Some secret \<Rightarrow> Inr (en_totp env now code secret)))"

section \<open>Accounts and passwords\<close>

record register_input =
  re_email :: string
  re_password :: string
  re_name :: string
  re_role :: UserRole

definition register :: "auth_env \<Rightarrow> int \<Rightarrow> string \<Rightarrow> string \<Rightarrow> register_input \<Rightarrow> db \<Rightarrow> account_row answer" where
  "register env now new_id salt d s =
     (if find_row ac_email (re_email d) (d_accounts s) \<noteq> None
      then (Inl (Unauthorized ''El correo ya esta registrado''), s)
      else if new_id \<in> ac_id ` set (d_accounts s) then (Inl (DbError ''P2002''), s)
      else
        let a = \<lparr>ac_id = new_id, ac_email = re_email d, ac_password_hash = en_hash env salt (re_password d),
                 ac_mfa_secret = None, ac_mfa_enabled = False, ac_role = re_role d, ac_name = re_name d,
                 ac_status = AccountStatus.ACTIVE, ac_last_login_at = None, ac_last_login_ip = None,
                 ac_failed_attempts = 0, ac_locked_until = None, ac_created_at = now, ac_deleted_at = None\<rparr>
        in (Inr a, s\<lparr>d_accounts := insert_row a (d_accounts s)\<rparr>))"

definition change_password ::
    "auth_env \<Rightarrow> string \<Rightarrow> string \<Rightarrow> string \<Rightarrow> string \<Rightarrow> db \<Rightarrow> unit answer" where
  "change_password env user current new salt s =
     (case find_row ac_id user (d_accounts s) of
        None \<Rightarrow> (Inl (NotFound ''Usuario no encontrado''), s)
      | Some a \<Rightarrow>
          if \<not> en_compare env current (ac_password_hash a)
          then (Inl (Unauthorized ''Contrasena actual incorrecta''), s)
          else if en_compare env new (ac_password_hash a)
          then (Inl (Unauthorized ''La nueva contrasena debe ser distinta a la actual''), s)
          else
            let s1 = update_account user (\<lambda>r. r\<lparr>ac_password_hash := en_hash env salt new\<rparr>) s
            in audited (account_audit user (ac_role a) ''PASSWORD_CHANGED'' (Some ''Account'') (Some user) WARNING) ()
                 (revoke_all_user_sessions user s1))"

section \<open>Refreshing and ending sessions\<close>

text \<open>A token that was revoked and comes back ends every session of its account.\<close>

definition token_reused :: "token_row \<Rightarrow> db \<Rightarrow> token_pair answer" where
  "token_reused r s =
     (let s1 = revoke_all_user_sessions (rt_account r) s
      in case find_row ac_id (rt_account r) (d_accounts s) of
           None \<Rightarrow> (Inl (DbError ''P2003''), s1)
         | Some a \<Rightarrow>
             (case audit_create (account_audit (rt_account r) (ac_role a) ''REFRESH_TOKEN_REUSE_DETECTED''
                     (Some ''RefreshToken'') (Some (rt_id r)) SECURITY_ALERT) s1 of
                Inl e \<Rightarrow> (Inl e, s1)
              | Inr s2 \<Rightarrow> (Inl (Unauthorized ''Refresh token revocado''), s2)))"

definition optional_text :: "string option \<Rightarrow> string option" where
  "optional_text x = (if nonempty x then x else None)"

definition refresh_token :: "auth_env \<Rightarrow> int \<Rightarrow> string \<Rightarrow> string \<Rightarrow> db \<Rightarrow> token_pair answer" where
  "refresh_token env now new_id token s =
     (case en_verify env (en_refresh_secret env) now token of
        None \<Rightarrow> (Inl (Unauthorized ''Refresh token invalido o expirado''), s)
      | Some p \<Rightarrow>
          (case find_row rt_token (hash_token env token) (d_tokens s) of
             None \<Rightarrow> (Inl (Unauthorized ''Refresh token revocado''), s)
           | Some r \<Rightarrow>
               if rt_revoked r then token_reused r s
               else if rt_expires_at r < now then (Inl (Unauthorized ''Refresh token revocado''), s)
               else
                 let s1 = revoke_tokens (\<lambda>x. rt_id x = rt_id r) s
                 in (case find_row ac_id (rt_account r) (d_accounts s) of
                       None \<Rightarrow> (Inl (DomainError ''TypeError''), s1)
                     | Some a \<Rightarrow>
                         generate_tokens env now new_id a (jp_mfa_verified p = Some True)
                           (optional_text (rt_ip r)) (optional_text (rt_device r)) s1)))"

definition logout :: "auth_env \<Rightarrow> string \<Rightarrow> db \<Rightarrow> unit answer" where
  "logout env token s =
     (let h = hash_token env token;
          s1 = (case find_row rt_token h (d_tokens s) of
                  None \<Rightarrow> s | Some r \<Rightarrow> invalidate_session (rt_account r) (rt_token r) s)
      in (Inr (), revoke_tokens (\<lambda>r. rt_token r = h) s1))"

definition force_logout_user :: "string \<Rightarrow> db \<Rightarrow> unit answer" where
  "force_logout_user target s = (Inr (), revoke_all_user_sessions target s)"

definition logout_all :: "string \<Rightarrow> db \<Rightarrow> unit answer" where
  "logout_all user s =
     (case find_row ac_id user (d_accounts s) of
        None \<Rightarrow> (Inl (NotFound ''Usuario no encontrado''), s)
      | Some a \<Rightarrow>
          audited (account_audit user (ac_role a) ''LOGOUT_ALL'' None None INFO) () (revoke_all_user_sessions user s))"

definition get_sessions :: "string \<Rightarrow> db \<Rightarrow> token_row list" where
  "get_sessions user s =
     sort_key (\<lambda>r. - rt_created_at r) (filter (\<lambda>r. rt_account r = user \<and> \<not> rt_revoked r) (d_tokens s))"

definition revoke_session :: "string \<Rightarrow> string \<Rightarrow> db \<Rightarrow> unit answer" where
  "revoke_session k user s =
     (case List.find (\<lambda>r. rt_id r = k \<and> rt_account r = user \<and> \<not> rt_revoked r) (d_tokens s) of
        None \<Rightarrow> (Inl (NotFound ''Sesion no encontrada''), s)
      | Some r \<Rightarrow> (Inr (), invalidate_session user (rt_token r) (revoke_tokens (\<lambda>x. rt_id x = k) s)))"

definition get_profile :: "string \<Rightarrow> db \<Rightarrow> http_error + account_row" where
  "get_profile user s =
     (case find_row ac_id user (d_accounts s) of None \<Rightarrow> Inl (NotFound ''Usuario no encontrado'') | Some a \<Rightarrow> Inr a)"

definition get_user_with_personnel :: "string \<Rightarrow> db \<Rightarrow> http_error + account_row \<times> personnel_row option" where
  "get_user_with_personnel user s =
     and_then (get_profile user s) (\<lambda>a. Inr (a, find_row pe_account user (d_personnel s)))"

section \<open>The requests\<close>

datatype auth_request =
    Login string string string string "string option"
  | MechanicLogin string string string "string option"
  | VerifyMfa string string string
  | GenerateMfa string bool string string
  | ConfirmMfa string string string
  | Register string string register_input
  | ChangePassword string string string string
  | Refresh string string
  | Logout string
  | ForceLogout string
  | LogoutAll string
  | RevokeSession string string

text \<open>A request with its instant; the lengths are what the DTOs ask for.\<close>

fun auth_step :: "auth_env \<Rightarrow> int \<times> auth_request \<Rightarrow> db \<Rightarrow> unit answer" where
  "auth_step env (now, Login i email password ip agent) s =
     (if length password < 6 then (Inl (BadRequest ''validation''), s)
      else drop_answer (login env now i email password ip agent s))"
| "auth_step env (now, MechanicLogin i pin ip agent) s =
     (if length pin < 6 then (Inl (BadRequest ''validation''), s)
      else drop_answer (mechanic_login env now i pin ip agent s))"
| "auth_step env (now, VerifyMfa i token code) s = drop_answer (verify_mfa env now i token code s)"
| "auth_step env (now, GenerateMfa user verified secret nonce) s =
     drop_answer (generate_mfa_secret env now user verified secret nonce s)"
| "auth_step env (now, ConfirmMfa user code nonce) s = confirm_mfa_setup env now user code nonce s"
| "auth_step env (now, Register i salt d) s =
     (if length (re_password d) < 6 \<or> length (re_name d) < 2 then (Inl (BadRequest ''validation''), s)
      else drop_answer (register env now i salt d s))"
| "auth_step env (now, ChangePassword user current new salt) s =
     (if length new < 6 then (Inl (BadRequest ''validation''), s) else change_password env user current new salt s)"
| "auth_step env (now, Refresh i token) s = drop_answer (refresh_token env now i token s)"
| "auth_step env (now, Logout token) s = logout env token s"
| "auth_step env (now, ForceLogout target) s = force_logout_user target s"
| "auth_step env (now, LogoutAll user) s = logout_all user s"
| "auth_step env (now, RevokeSession k user) s = revoke_session k user s"

section \<open>Tokens are only added and revoked\<close>

text \<open>A later table of tokens: every token is still there with its account, and stays revoked once it was.\<close>

definition tokens_grow :: "token_row list \<Rightarrow> token_row list \<Rightarrow> bool" where
  "tokens_grow ts us \<longleftrightarrow>
     (\<forall>h r. find_row rt_token h ts = Some r \<longrightarrow>
        (\<exists>r'. find_row rt_token h us = Some r' \<and> rt_account r' = rt_account r \<and> (rt_revoked r \<longrightarrow> rt_revoked r')))"

lemma tokens_grow_refl [simp]: "tokens_grow ts ts"
  by (simp add: tokens_grow_def)

lemma tokens_growD:
  "tokens_grow ts us \<Longrightarrow> find_row rt_token h ts = Some r \<Longrightarrow>
     \<exists>r'. find_row rt_token h us = Some r' \<and> rt_account r' = rt_account r \<and> (rt_revoked r \<longrightarrow> rt_revoked r')"
  unfolding tokens_grow_def by blast

lemma tokens_grow_trans:
  assumes "tokens_grow ts us" and "tokens_grow us vs"
  shows "tokens_grow ts vs"
  unfolding tokens_grow_def
proof (intro allI impI)
  fix h r assume "find_row rt_token h ts = Some r"
  then obtain r1 where r1: "find_row rt_token h us = Some r1" "rt_account r1 = rt_account r" "rt_revoked r \<longrightarrow> rt_revoked r1"
    using tokens_growD[OF assms(1)] by blast
  show "\<exists>r'. find_row rt_token h vs = Some r' \<and> rt_account r' = rt_account r \<and> (rt_revoked r \<longrightarrow> rt_revoked r')"
    using tokens_growD[OF assms(2) r1(1)] r1(2,3) by auto
qed

lemma tokens_grow_insert [simp]: "tokens_grow ts (insert_row r ts)"
  by (simp add: tokens_grow_def find_row_insert_row)

lemma find_row_update_where:
  assumes "\<And>r. key (f r) = key r"
  shows "find_row key k (update_where p f rows) = map_option (\<lambda>r. if p r then f r else r) (find_row key k rows)"
  using assms by (induction rows) (auto simp: update_where_def)

lemma tokens_grow_revoke [simp]: "tokens_grow ts (update_where p (\<lambda>r. r\<lparr>rt_revoked := True\<rparr>) ts)"
  by (auto simp: tokens_grow_def find_row_update_where)

lemma session_frames [simp]:
  "d_tokens (store_session now k h s) = d_tokens s" "d_tokens (invalidate_session k h s) = d_tokens s"
  "d_tokens (invalidate_all_sessions k s) = d_tokens s" "d_tokens (disconnect_user k s) = d_tokens s"
  "d_accounts (store_session now k h s) = d_accounts s" "d_accounts (invalidate_session k h s) = d_accounts s"
  "d_accounts (invalidate_all_sessions k s) = d_accounts s" "d_accounts (disconnect_user k s) = d_accounts s"
  "d_accounts (revoke_tokens p s) = d_accounts s" "d_accounts (revoke_all_user_sessions k s) = d_accounts s"
  "d_tokens (record_failure now a s) = d_tokens s" "d_redis (disconnect_user k s) = d_redis s"
  "d_redis (revoke_tokens p s) = d_redis s" "d_sockets (revoke_tokens p s) = d_sockets s"
  by (simp_all add: store_session_def invalidate_session_def invalidate_all_sessions_def disconnect_user_def
      revoke_tokens_def revoke_all_user_sessions_def record_failure_def Let_def)

lemma revoke_grows [simp]:
  "tokens_grow (d_tokens s) (d_tokens (revoke_tokens p s))"
  "tokens_grow (d_tokens s) (d_tokens (revoke_all_user_sessions k s))"
  by (simp_all add: revoke_tokens_def revoke_all_user_sessions_def)

lemma audited_tokens [simp]: "d_tokens (snd (audited r x s)) = d_tokens s"
  by (auto simp: audited_def audit_create_def)

lemma generate_tokens_grows: "tokens_grow (d_tokens s) (d_tokens (snd (generate_tokens env now i a v ip ag s)))"
  by (auto simp: generate_tokens_def insert_token_def Let_def)

lemma generate_tokens_grows_from:
  "tokens_grow ts (d_tokens s) \<Longrightarrow> tokens_grow ts (d_tokens (snd (generate_tokens env now i a v ip ag s)))"
  using tokens_grow_trans generate_tokens_grows by blast

lemma login_grows: "tokens_grow (d_tokens s) (d_tokens (snd (login env now i email pw ip ag s)))"
proof -
  have "tokens_grow (d_tokens s)
      (d_tokens (snd (generate_tokens env now i a v ip' ag (update_account k f s))))" for a v ip' k f
    by (rule generate_tokens_grows_from) simp
  then show ?thesis
    by (auto simp: login_def Let_def split: option.splits prod.splits sum.splits) (metis snd_conv)+
qed

lemma token_reused_grows: "tokens_grow (d_tokens s) (d_tokens (snd (token_reused r s)))"
  by (auto simp: token_reused_def Let_def audit_create_def split: option.splits)

lemma refresh_token_grows: "tokens_grow (d_tokens s) (d_tokens (snd (refresh_token env now i t s)))"
  by (auto simp: refresh_token_def Let_def token_reused_grows intro!: generate_tokens_grows_from split: option.splits)

lemma auth_step_grows: "tokens_grow (d_tokens s) (d_tokens (snd (auth_step env q s)))"
proof (cases "(env, q, s)" rule: auth_step.cases)
  case (1 env now i email pw ip ag s)
  then show ?thesis by (simp add: login_grows)
next
  case (2 env now i pin ip ag s)
  then show ?thesis
    by (auto simp: mechanic_login_def intro!: generate_tokens_grows_from split: option.splits)
next
  case (3 env now i t c s)
  then show ?thesis by (auto simp: verify_mfa_def intro!: generate_tokens_grows split: option.splits)
next
  case (4 env now u v se n s)
  then show ?thesis by (auto simp: generate_mfa_secret_def split: option.splits)
next
  case (5 env now u c n s)
  then show ?thesis
    by (auto simp: confirm_mfa_setup_def Let_def revoke_all_user_sessions_def revoke_tokens_def
        split: option.splits redis_value.splits)
next
  case (8 env now i t s)
  then show ?thesis by (simp add: refresh_token_grows)
qed (auto simp: register_def change_password_def logout_def force_logout_user_def logout_all_def revoke_session_def
      Let_def revoke_all_user_sessions_def revoke_tokens_def split: option.splits)

lemma auth_run_grows: "tokens_grow (d_tokens s) (d_tokens (run_requests (auth_step env) qs s))"
  by (induction qs arbitrary: s) (auto intro: tokens_grow_trans auth_step_grows)

section \<open>Ended sessions\<close>

text \<open>Nothing of a user is left: no live token, no key, no socket.\<close>

definition sessions_ended :: "string \<Rightarrow> db \<Rightarrow> bool" where
  "sessions_ended user s \<longleftrightarrow>
     (\<forall>r \<in> set (d_tokens s). rt_account r = user \<longrightarrow> rt_revoked r)
     \<and> (\<forall>e \<in> set (d_redis s). \<not> starts_with (session_prefix user) (fst e))
     \<and> (\<forall>k \<in> set (d_sockets s). UserRoom user \<notin> set (so_rooms k))"

lemma revoke_all_ends [simp]: "sessions_ended user (revoke_all_user_sessions user s)"
proof -
  let ?s = "revoke_all_user_sessions user s"
  have t: "d_tokens ?s = update_where (\<lambda>r. rt_account r = user \<and> \<not> rt_revoked r) (\<lambda>r. r\<lparr>rt_revoked := True\<rparr>) (d_tokens s)"
    by (simp add: revoke_all_user_sessions_def revoke_tokens_def)
  have r: "d_redis ?s = redis_del_prefix (session_prefix user) (d_redis s)"
    by (simp add: revoke_all_user_sessions_def invalidate_all_sessions_def set_redis_def revoke_tokens_def)
  have k: "d_sockets ?s = filter (\<lambda>k. UserRoom user \<notin> set (so_rooms k)) (d_sockets s)"
    by (simp add: revoke_all_user_sessions_def invalidate_all_sessions_def set_redis_def revoke_tokens_def disconnect_user_def)
  show ?thesis
    unfolding sessions_ended_def t r k
  proof (intro conjI ballI impI)
    fix x assume "x \<in> set (update_where (\<lambda>r. rt_account r = user \<and> \<not> rt_revoked r) (\<lambda>r. r\<lparr>rt_revoked := True\<rparr>) (d_tokens s))"
      and "rt_account x = user"
    then obtain y where "x = (if rt_account y = user \<and> \<not> rt_revoked y then y\<lparr>rt_revoked := True\<rparr> else y)" "rt_account x = user"
      unfolding set_update_where by blast
    then show "rt_revoked x" by (cases "rt_account y = user \<and> \<not> rt_revoked y") simp_all
  qed (simp_all add: redis_del_prefix_def starts_with_def)
qed

lemma audited_keeps [simp]: "sessions_ended user (snd (audited r x s)) = sessions_ended user s"
  by (auto simp: sessions_ended_def audited_def audit_create_def)

lemma token_reused_ends: "sessions_ended (rt_account r) (snd (token_reused r s))"
proof -
  have "sessions_ended (rt_account r) (revoke_all_user_sessions (rt_account r) s\<lparr>d_audit := v\<rparr>)" for v
    using revoke_all_ends[of "rt_account r" s] by (simp add: sessions_ended_def)
  then show ?thesis by (auto simp: token_reused_def Let_def audit_create_def split: option.splits)
qed

lemma token_reused_refused: "\<exists>e. fst (token_reused r s) = Inl e"
  by (auto simp: token_reused_def Let_def audit_create_def split: option.splits)

text \<open>A token that was revoked is refused for good, and coming back it ends the sessions of its account.\<close>

lemma revoked_token_refused:
  assumes "find_row rt_token (hash_token env tok) (d_tokens s) = Some r" and "rt_revoked r"
  shows "\<exists>e. fst (refresh_token env now i tok (run_requests (auth_step env) qs s)) = Inl e"
    and "en_verify env (en_refresh_secret env) now tok \<noteq> None \<Longrightarrow>
           sessions_ended (rt_account r) (snd (refresh_token env now i tok (run_requests (auth_step env) qs s)))"
proof -
  let ?u = "run_requests (auth_step env) qs s"
  obtain r' where r': "find_row rt_token (hash_token env tok) (d_tokens ?u) = Some r'" "rt_account r' = rt_account r" "rt_revoked r'"
    using tokens_growD[OF auth_run_grows assms(1)] assms(2) by blast
  show "\<exists>e. fst (refresh_token env now i tok ?u) = Inl e"
    using r' token_reused_refused by (auto simp: refresh_token_def split: option.splits)
  show "sessions_ended (rt_account r) (snd (refresh_token env now i tok ?u))"
    if "en_verify env (en_refresh_secret env) now tok \<noteq> None"
    using r' token_reused_ends[of r'] that by (auto simp: refresh_token_def)
qed

text \<open>What a refresh that succeeds has found and done.\<close>

lemma refresh_token_ok:
  assumes "refresh_token env now i tok s = (Inr p, t)"
  obtains pl r a where "en_verify env (en_refresh_secret env) now tok = Some pl"
    "find_row rt_token (hash_token env tok) (d_tokens s) = Some r" "\<not> rt_revoked r" "now \<le> rt_expires_at r"
    "find_row ac_id (rt_account r) (d_accounts s) = Some a"
    "generate_tokens env now i a (jp_mfa_verified pl = Some True) (optional_text (rt_ip r)) (optional_text (rt_device r))
       (revoke_tokens (\<lambda>x. rt_id x = rt_id r) s) = (Inr p, t)"
proof -
  have nr: "token_reused r s \<noteq> (Inr p, t)" for r using token_reused_refused[of r s] by auto
  obtain pl where pl: "en_verify env (en_refresh_secret env) now tok = Some pl"
    using assms by (cases "en_verify env (en_refresh_secret env) now tok") (simp_all add: refresh_token_def)
  obtain r where r: "find_row rt_token (hash_token env tok) (d_tokens s) = Some r"
    using assms pl by (cases "find_row rt_token (hash_token env tok) (d_tokens s)") (simp_all add: refresh_token_def)
  have live: "\<not> rt_revoked r" "now \<le> rt_expires_at r"
    using assms pl r nr[of r] by (simp_all add: refresh_token_def not_less split: if_splits)
  obtain a where "find_row ac_id (rt_account r) (d_accounts s) = Some a"
    using assms pl r live
    by (cases "find_row ac_id (rt_account r) (d_accounts s)") (simp_all add: refresh_token_def Let_def)
  then show thesis using assms pl r live by (intro that[of pl r a]) (simp_all add: refresh_token_def Let_def)
qed

lemma refresh_revokes_old:
  assumes "refresh_token env now i tok s = (Inr p, t)"
  obtains r where "find_row rt_token (hash_token env tok) (d_tokens t) = Some r" "rt_revoked r"
  using assms
proof (rule refresh_token_ok)
  fix pl r a
  assume r: "find_row rt_token (hash_token env tok) (d_tokens s) = Some r"
    and g: "generate_tokens env now i a (jp_mfa_verified pl = Some True) (optional_text (rt_ip r)) (optional_text (rt_device r))
       (revoke_tokens (\<lambda>x. rt_id x = rt_id r) s) = (Inr p, t)"
  have "find_row rt_token (hash_token env tok) (d_tokens (revoke_tokens (\<lambda>x. rt_id x = rt_id r) s)) = Some (r\<lparr>rt_revoked := True\<rparr>)"
    using r by (simp add: revoke_tokens_def find_row_update_where)
  moreover have "tokens_grow (d_tokens (revoke_tokens (\<lambda>x. rt_id x = rt_id r) s)) (d_tokens t)"
    using generate_tokens_grows[of "revoke_tokens (\<lambda>x. rt_id x = rt_id r) s"] g by (metis snd_conv)
  ultimately obtain r' where "find_row rt_token (hash_token env tok) (d_tokens t) = Some r'" "rt_revoked r'"
    using tokens_growD by fastforce
  then show thesis by (rule that)
qed

section \<open>Guessing a password\<close>

text \<open>The answers to a sequence of attempts on one address.\<close>

primrec login_answers ::
    "auth_env \<Rightarrow> string \<Rightarrow> string \<Rightarrow> (int \<times> string) list \<Rightarrow> db \<Rightarrow> (http_error + login_result) list" where
  "login_answers env email ip [] s = []"
| "login_answers env email ip (q # qs) s =
     (case login env (fst q) [] email (snd q) ip None s of
        (out, s1) \<Rightarrow> out # login_answers env email ip qs s1)"

definition wrong_password :: "http_error + login_result" where
  "wrong_password = Inl (Unauthorized ''Credenciales invalidas'')"

lemma login_wrong:
  assumes "find_row ac_email email (d_accounts s) = Some a" and "ac_status a \<noteq> AccountStatus.TERMINATED"
    and "\<not> en_compare env pw (ac_password_hash a)"
  shows "login env now i email pw ip ag s =
     (if locked now a then (Inl (TooManyRequests ''ACCOUNT_LOCKED''), s) else (wrong_password, record_failure now a s))"
  using assms by (simp add: login_def wrong_password_def)

lemma record_failure_row:
  assumes "distinct (map ac_id (d_accounts s))" and "find_row ac_email email (d_accounts s) = Some a"
  shows "find_row ac_email email (d_accounts (record_failure now a s)) =
     Some (a\<lparr>ac_failed_attempts := ac_failed_attempts a + 1,
             ac_locked_until := (if 5 \<le> ac_failed_attempts a + 1 then Some (now + 900000) else ac_locked_until a)\<rparr>)"
    and "map ac_id (d_accounts (record_failure now a s)) = map ac_id (d_accounts s)"
proof -
  have gen: "find_row ac_email email (update_row ac_id (ac_id a) f rows) = Some (f a)"
    if "find_row ac_email email rows = Some a" "distinct (map ac_id rows)"
      "\<And>r. ac_email (f r) = ac_email r" for f rows
    using that by (induction rows) (auto simp: update_row_def dest!: find_row_SomeD split: if_splits)
  show "find_row ac_email email (d_accounts (record_failure now a s)) =
     Some (a\<lparr>ac_failed_attempts := ac_failed_attempts a + 1,
             ac_locked_until := (if 5 \<le> ac_failed_attempts a + 1 then Some (now + 900000) else ac_locked_until a)\<rparr>)"
    using assms by (simp add: record_failure_def Let_def gen)
  show "map ac_id (d_accounts (record_failure now a s)) = map ac_id (d_accounts s)"
    by (simp add: record_failure_def Let_def)
qed

lemma answers_locked:
  assumes "find_row ac_email email (d_accounts s) = Some a" and "ac_status a \<noteq> AccountStatus.TERMINATED"
    and "ac_locked_until a = Some stop" and "\<forall>q \<in> set qs. fst q < stop"
  shows "login_answers env email ip qs s = replicate (length qs) (Inl (TooManyRequests ''ACCOUNT_LOCKED''))"
  using assms by (induction qs) (simp_all add: login_def locked_def)

lemma answers_guesses:
  assumes "distinct (map ac_id (d_accounts s))" and "find_row ac_email email (d_accounts s) = Some a"
    and "ac_status a \<noteq> AccountStatus.TERMINATED" and "0 \<le> ac_failed_attempts a" and "\<not> locked start a"
    and "\<forall>q \<in> set qs. start \<le> fst q \<and> fst q < start + 900000"
    and "\<forall>q \<in> set (take (max 1 (5 - nat (ac_failed_attempts a))) qs). \<not> en_compare env (snd q) (ac_password_hash a)"
  shows "login_answers env email ip qs s =
     replicate (min (length qs) (max 1 (5 - nat (ac_failed_attempts a)))) wrong_password
     @ replicate (length qs - max 1 (5 - nat (ac_failed_attempts a))) (Inl (TooManyRequests ''ACCOUNT_LOCKED''))"
  using assms
proof (induction qs arbitrary: s a)
  case (Cons q qs)
  define n where "n = nat (ac_failed_attempts a)"
  have n: "ac_failed_attempts a = int n" using Cons.prems(4) by (simp add: n_def)
  let ?a = "a\<lparr>ac_failed_attempts := int n + 1,
      ac_locked_until := (if 5 \<le> int n + 1 then Some (fst q + 900000) else ac_locked_until a)\<rparr>"
  let ?s = "record_failure (fst q) a s"
  have open_: "\<not> locked (fst q) a" using Cons.prems(5,6) by (auto simp: locked_def split: option.splits)
  have "\<not> en_compare env (snd q) (ac_password_hash a)" using Cons.prems(7) by (cases "max 1 (5 - nat (ac_failed_attempts a))") auto
  then have step: "login_answers env email ip (q # qs) s = wrong_password # login_answers env email ip qs ?s"
    using login_wrong[OF Cons.prems(2,3)] open_ by simp
  have row: "find_row ac_email email (d_accounts ?s) = Some ?a" and ids: "distinct (map ac_id (d_accounts ?s))"
    using record_failure_row[OF Cons.prems(1,2)] Cons.prems(1) n by simp_all
  show ?case
  proof (cases "4 \<le> n")
    case True
    then have "login_answers env email ip qs ?s = replicate (length qs) (Inl (TooManyRequests ''ACCOUNT_LOCKED''))"
      using row Cons.prems(3,6) by (intro answers_locked[where a = ?a and stop = "fst q + 900000"]) auto
    then show ?thesis using True step n by simp
  next
    case False
    have k: "max 1 (5 - nat (ac_failed_attempts a)) = Suc (max 1 (5 - nat (int n + 1)))" using False n by simp
    have "login_answers env email ip qs ?s =
        replicate (min (length qs) (max 1 (5 - nat (ac_failed_attempts ?a)))) wrong_password
        @ replicate (length qs - max 1 (5 - nat (ac_failed_attempts ?a))) (Inl (TooManyRequests ''ACCOUNT_LOCKED''))"
    proof (rule Cons.IH[OF ids row])
      show "\<not> locked start ?a" using Cons.prems(5) False by (simp add: locked_def)
      show "\<forall>x \<in> set (take (max 1 (5 - nat (ac_failed_attempts ?a))) qs). \<not> en_compare env (snd x) (ac_password_hash ?a)"
        using Cons.prems(7) unfolding k by simp
    qed (use Cons.prems in auto)
    then show ?thesis unfolding k step by simp
  qed
qed simp

section \<open>What a token says\<close>

lemma generate_tokens_ok:
  "generate_tokens env now i a v ip ag s = (Inr p, t) \<Longrightarrow>
     tp_access p = en_sign env (en_access_secret env) (access_payload env now a (effective_mfa a v) s)
     \<and> tp_refresh p = en_sign env (en_refresh_secret env) (refresh_payload env now a (effective_mfa a v))
     \<and> tp_user p = ac_id a \<and> tp_role p = ac_role a"
  by (auto simp: generate_tokens_def Let_def split: sum.splits)

lemma privileged_management: "set privileged_roles = set management_roles"
  by (simp add: privileged_roles_def management_roles_def)

text \<open>What the interceptor does with the claims of a token.\<close>

definition blocked_by_mfa :: "jwt_payload \<Rightarrow> bool" where
  "blocked_by_mfa p \<longleftrightarrow>
     (\<forall>url. (\<forall>x \<in> set auth_exempt_suffixes. \<not> ends_with x (path_of url)) \<and> \<not> is_sessions_route (path_of url) \<longrightarrow>
        mfa_enforcement True (Some (jp_role p, jp_mfa_verified p)) url = Inl (Forbidden ''MFA_ENROLLMENT_REQUIRED''))"

lemma blocked_by_mfaI:
  "jp_role p = Some r \<Longrightarrow> r \<in> set management_roles \<Longrightarrow> jp_mfa_verified p \<noteq> Some True \<Longrightarrow> blocked_by_mfa p"
  by (auto simp: blocked_by_mfa_def mfa_enforcement_def Let_def)

lemma login_ok_cases:
  assumes "login env now i email pw ip ag s = (Inr out, t)"
  obtains a where "find_row ac_email email (d_accounts s) = Some a" "ac_status a \<noteq> AccountStatus.TERMINATED"
      "\<not> locked now a" "en_compare env pw (ac_password_hash a)" "ac_mfa_enabled a"
      "out = MfaPending (en_sign env (en_access_secret env) (pending_payload now a))"
  | a p s1 where "find_row ac_email email (d_accounts s) = Some a" "ac_status a \<noteq> AccountStatus.TERMINATED"
      "\<not> locked now a" "en_compare env pw (ac_password_hash a)" "\<not> ac_mfa_enabled a"
      "out = LoggedIn p (ac_role a \<in> set privileged_roles)"
      "s1 = update_account (ac_id a) (record_login now ip) s"
      "generate_tokens env now i a False (Some ip) ag s1 = (Inr p, t)"
proof -
  obtain a where a: "find_row ac_email email (d_accounts s) = Some a"
    using assms by (cases "find_row ac_email email (d_accounts s)") (simp_all add: login_def)
  have ok: "ac_status a \<noteq> AccountStatus.TERMINATED" "\<not> locked now a" "en_compare env pw (ac_password_hash a)"
    using assms a by (simp_all add: login_def split: if_splits)
  show thesis
  proof (cases "ac_mfa_enabled a")
    case True
    then show thesis using assms a ok by (intro that(1)[of a]) (simp_all add: login_def Let_def)
  next
    case False
    let ?s1 = "update_account (ac_id a) (record_login now ip) s"
    obtain g s2 where g: "generate_tokens env now i a False (Some ip) ag ?s1 = (g, s2)" by fastforce
    obtain p where "g = Inr p" using assms a ok False g by (cases g) (simp_all add: login_def Let_def)
    then show thesis using assms a ok False g by (intro that(2)[of a p ?s1]) (simp_all add: login_def Let_def)
  qed
qed

section \<open>A small environment\<close>

definition sample_env :: auth_env where
  "sample_env =
     \<lparr>en_compare = (\<lambda>pw h. pw = h), en_hash = (\<lambda>salt pw. pw), en_sha = (\<lambda>t. t),
      en_sign = (\<lambda>k p. k @ (case jp_sub p of Some u \<Rightarrow> u | None \<Rightarrow> [])),
      en_verify = (\<lambda>k now t. Some \<lparr>jp_sub = Some ''a1'', jp_id = None, jp_role = None, jp_mfa_verified = Some True,
                                   jp_mfa_pending = False, jp_client = None, jp_exp = None\<rparr>),
      en_totp = (\<lambda>now code secret. code = secret), en_seal = plain_seal, en_unseal = plain_unseal,
      en_access_secret = ''A'', en_refresh_secret = ''R'', en_access_ttl = 900, en_refresh_ttl = 604800\<rparr>"

definition sample_sessions :: db where
  "sample_sessions = empty_db
     \<lparr>d_accounts := [sample_account ''a1'' UserRole.OWNER],
      d_tokens := [\<lparr>rt_id = ''t1'', rt_token = ''tok'', rt_account = ''a1'', rt_expires_at = 604800000, rt_revoked = False,
                    rt_device = None, rt_ip = None, rt_created_at = 0\<rparr>]\<rparr>"

section \<open>Properties\<close>

text \<open>C29. Within any fifteen minutes the password of an account is compared only until five failures in a row are counted
  (at least once, when an old lock has run out): the attempts up to there are answered as wrong credentials, and
  every later one, with whatever password, is refused as locked.\<close>

theorem lockout_bounds_guesses:
  assumes "distinct (map ac_id (d_accounts s))" and "find_row ac_email email (d_accounts s) = Some a"
    and "ac_status a \<noteq> AccountStatus.TERMINATED" and "0 \<le> ac_failed_attempts a" and "\<not> locked start a"
    and "guesses = max 1 (5 - nat (ac_failed_attempts a))"
    and "\<forall>q \<in> set qs. start \<le> fst q \<and> fst q < start + 15 * 60 * 1000"
    and "\<forall>q \<in> set (take guesses qs). \<not> en_compare env (snd q) (ac_password_hash a)"
  shows "login_answers env email ip qs s =
     replicate (min (length qs) guesses) (Inl (Unauthorized ''Credenciales invalidas''))
     @ replicate (length qs - guesses) (Inl (TooManyRequests ''ACCOUNT_LOCKED''))"
  using answers_guesses[OF assms(1-5), of qs env ip] assms(6-8) by (simp add: wrong_password_def)

theorem lockout_bounds_guesses_witness:
  "login_answers sample_env ''a1@x'' ''ip'' (map (\<lambda>n. (n, ''guess'')) [0, 1, 2, 3, 4, 5] @ [(6, ''hash'')]) sample_sessions =
     replicate 5 (Inl (Unauthorized ''Credenciales invalidas'')) @ replicate 2 (Inl (TooManyRequests ''ACCOUNT_LOCKED''))"
  (is "login_answers _ _ _ ?qs _ = _")
proof -
  have "login_answers sample_env ''a1@x'' ''ip'' ?qs sample_sessions =
      replicate (min (length ?qs) 5) (Inl (Unauthorized ''Credenciales invalidas''))
      @ replicate (length ?qs - 5) (Inl (TooManyRequests ''ACCOUNT_LOCKED''))"
    by (rule lockout_bounds_guesses[where start = 0 and a = "sample_account ''a1'' UserRole.OWNER"])
      (simp_all add: sample_sessions_def locked_def sample_env_def)
  moreover have "min (length ?qs) 5 = 5" and "length ?qs - 5 = 2" by simp_all
  ultimately show ?thesis by (simp only:)
qed

text \<open>C30. A refresh token is accepted only if it verifies and its row is neither revoked nor expired, and at most once: after
  it was accepted, whatever requests follow, it is refused, and when it still verifies all sessions of its
  account are then ended.\<close>

theorem refresh_token_used_once:
  assumes "refresh_token env now i tok s = (Inr p, t)" and "u = run_requests (auth_step env) qs t"
  shows "en_verify env (en_refresh_secret env) now tok \<noteq> None
    \<and> (\<exists>r. find_row rt_token (hash_token env tok) (d_tokens s) = Some r \<and> \<not> rt_revoked r \<and> now \<le> rt_expires_at r
         \<and> (\<exists>e. fst (refresh_token env now' i' tok u) = Inl e)
         \<and> (en_verify env (en_refresh_secret env) now' tok \<noteq> None \<longrightarrow>
              sessions_ended (rt_account r) (snd (refresh_token env now' i' tok u))))"
proof -
  obtain pl r a where r: "en_verify env (en_refresh_secret env) now tok = Some pl"
    "find_row rt_token (hash_token env tok) (d_tokens s) = Some r" "\<not> rt_revoked r" "now \<le> rt_expires_at r"
    using assms(1) by (rule refresh_token_ok)
  obtain r' where r': "find_row rt_token (hash_token env tok) (d_tokens t) = Some r'" "rt_revoked r'"
    using assms(1) by (rule refresh_revokes_old)
  have "tokens_grow (d_tokens s) (d_tokens t)" using refresh_token_grows[of s env now i tok] assms(1) by simp
  then have "rt_account r' = rt_account r" using tokens_growD[of "d_tokens s" "d_tokens t"] r(2) r'(1) by fastforce
  then show ?thesis using r revoked_token_refused[OF r', of now' i' qs] by (simp add: assms(2))
qed

theorem refresh_token_used_once_witness:
  "\<exists>p t e. refresh_token sample_env 5 ''t2'' ''tok'' sample_sessions = (Inr p, t)
     \<and> fst (refresh_token sample_env 9 ''t3'' ''tok'' t) = Inl e"
proof -
  obtain p t where t: "refresh_token sample_env 5 ''t2'' ''tok'' sample_sessions = (Inr p, t)"
    by (simp add: refresh_token_def sample_sessions_def sample_env_def hash_token_def Let_def generate_tokens_def
        insert_token_def revoke_tokens_def update_where_def account_exists_def refresh_payload_def)
  show ?thesis using refresh_token_used_once[OF t, where qs = "[]" and now' = 9 and i' = "''t3''"] t by auto
qed

text \<open>The requests that end the sessions of a user.\<close>

fun ends_sessions :: "string \<Rightarrow> auth_request \<Rightarrow> bool" where
  "ends_sessions user (ConfirmMfa u _ _) = (u = user)"
| "ends_sessions user (ChangePassword u _ _ _) = (u = user)"
| "ends_sessions user (ForceLogout u) = (u = user)"
| "ends_sessions user (LogoutAll u) = (u = user)"
| "ends_sessions user _ = False"

lemma audited_ok: "fst (audited r x s) = Inr y \<Longrightarrow> snd (audited r x s) = s\<lparr>d_audit := d_audit s @ [r]\<rparr>"
  by (auto simp: audited_def audit_create_def split: if_splits)

lemma ending_request:
  assumes "ends_sessions user q" and "fst (auth_step env (now, q) s) = Inr ()"
  shows "sessions_ended user (snd (auth_step env (now, q) s))"
  using assms
  by (cases "(user, q)" rule: ends_sessions.cases)
    (auto simp: confirm_mfa_setup_def change_password_def force_logout_user_def logout_all_def Let_def
      split: option.splits redis_value.splits if_splits)

text \<open>C31. Changing the password, confirming a second factor, closing all sessions and a forced logout leave no live token, no
  key and no socket of the user, and no refresh token he had before is ever accepted again.\<close>

theorem sessions_end_for_good:
  assumes "ends_sessions user q" and "auth_step env (now, q) s = (Inr (), t)"
  shows "sessions_ended user t
    \<and> (\<forall>tok r qs now' i. find_row rt_token (hash_token env tok) (d_tokens s) = Some r \<and> rt_account r = user \<longrightarrow>
         (\<exists>e. fst (refresh_token env now' i tok (run_requests (auth_step env) qs t)) = Inl e))"
proof -
  have ended: "sessions_ended user t" using ending_request[OF assms(1), of env now s] assms(2) by simp
  moreover have "\<exists>e. fst (refresh_token env now' i tok (run_requests (auth_step env) qs t)) = Inl e"
    if r: "find_row rt_token (hash_token env tok) (d_tokens s) = Some r" "rt_account r = user" for tok r qs now' i
  proof -
    have "tokens_grow (d_tokens s) (d_tokens t)" using auth_step_grows[of s env "(now, q)"] assms(2) by simp
    then obtain r' where r': "find_row rt_token (hash_token env tok) (d_tokens t) = Some r'" "rt_account r' = user"
      using tokens_growD r by blast
    then have "rt_revoked r'" using ended find_row_SomeD[OF r'(1)] by (simp add: sessions_ended_def)
    then show ?thesis using revoked_token_refused(1)[OF r'(1)] by blast
  qed
  ultimately show ?thesis by blast
qed

theorem sessions_end_for_good_witness:
  "\<exists>t e. auth_step sample_env (7, ChangePassword ''a1'' ''hash'' ''secret'' ''salt'') sample_sessions = (Inr (), t)
     \<and> sessions_ended ''a1'' t \<and> fst (refresh_token sample_env 9 ''t3'' ''tok'' t) = Inl e"
proof -
  obtain t where t: "auth_step sample_env (7, ChangePassword ''a1'' ''hash'' ''secret'' ''salt'') sample_sessions = (Inr (), t)"
    by (simp add: change_password_def sample_sessions_def sample_env_def Let_def audited_def audit_create_def
        account_exists_def account_audit_def find_row_update_row)
  have "ends_sessions ''a1'' (ChangePassword ''a1'' ''hash'' ''secret'' ''salt'')" by simp
  note end_ = sessions_end_for_good[OF this t]
  have "\<exists>r. find_row rt_token (hash_token sample_env ''tok'') (d_tokens sample_sessions) = Some r \<and> rt_account r = ''a1''"
    by (simp add: hash_token_def sample_env_def sample_sessions_def)
  then have "\<exists>e. fst (refresh_token sample_env 9 ''t3'' ''tok'' (run_requests (auth_step sample_env) [] t)) = Inl e"
    using end_ by blast
  then show ?thesis using t end_ by auto
qed

text \<open>C32. A login with a password alone opens nothing to an owner, an administrator or finance: with a second factor it only
  answers a pending token, which is no access token, and without one the access token is stopped by the
  interceptor on every route outside the exempt ones. It succeeds only with the right password, for an account
  that is not terminated nor locked.\<close>

theorem password_alone_is_not_enough:
  assumes "login env now i email pw ip ag s = (Inr out, t)"
  shows "\<exists>a. find_row ac_email email (d_accounts s) = Some a \<and> ac_status a \<noteq> AccountStatus.TERMINATED
    \<and> \<not> locked now a \<and> en_compare env pw (ac_password_hash a)
    \<and> (\<exists>payload. case out of
          MfaPending tok \<Rightarrow> ac_mfa_enabled a \<and> tok = en_sign env (en_access_secret env) payload
            \<and> (\<exists>e. jwt_validate payload = Inl e)
        | LoggedIn p enroll \<Rightarrow> \<not> ac_mfa_enabled a \<and> tp_access p = en_sign env (en_access_secret env) payload
            \<and> jp_id payload = Some (ac_id a) \<and> jp_role payload = Some (ac_role a)
            \<and> (enroll \<longleftrightarrow> ac_role a \<in> set privileged_roles) \<and> (enroll \<longrightarrow> blocked_by_mfa payload))"
  using assms
proof (cases rule: login_ok_cases)
  case (1 a)
  then show ?thesis
    by (intro exI[of _ a] conjI exI[of _ "pending_payload now a"]) (simp_all add: pending_payload_def jwt_validate_def)
next
  case (2 a p s1)
  let ?p = "access_payload env now a (effective_mfa a False) s1"
  have "blocked_by_mfa ?p" if "ac_role a \<in> set privileged_roles"
    using that by (intro blocked_by_mfaI[of _ "ac_role a"]) (simp_all add: access_payload_def effective_mfa_def privileged_management)
  moreover have "tp_access p = en_sign env (en_access_secret env) ?p" using generate_tokens_ok[OF 2(8)] by simp
  moreover have "jp_id ?p = Some (ac_id a)" "jp_role ?p = Some (ac_role a)" by (simp_all add: access_payload_def)
  ultimately show ?thesis using 2(1-6) by (intro exI[of _ a] conjI exI[of _ ?p]) simp_all
qed

theorem password_alone_is_not_enough_witness:
  "\<exists>out t a. login sample_env 3 ''t2'' ''a1@x'' ''hash'' ''ip'' None sample_sessions = (Inr out, t)
     \<and> find_row ac_email ''a1@x'' (d_accounts sample_sessions) = Some a \<and> \<not> locked 3 a"
proof -
  obtain out t where "login sample_env 3 ''t2'' ''a1@x'' ''hash'' ''ip'' None sample_sessions = (Inr out, t)"
    by (simp add: login_def sample_sessions_def sample_env_def hash_token_def Let_def generate_tokens_def locked_def
        insert_token_def account_exists_def refresh_payload_def update_account_def update_row_def record_login_def)
  then show ?thesis using password_alone_is_not_enough by blast
qed

end
