(* ===== verification/Attendance.thy ===== *)
theory Attendance
  imports DomainPersonnel Listings Samples
begin

text \<open>
  Attendance: \<open>src/modules/attendance/attendance.service.ts\<close>, the use case for the marks of the biometric device
  (\<open>use-cases/process-biometric-attendance.use-case.ts\<close>), and the check-in and check-out of
  \<open>src/modules/personnel/personnel.service.ts\<close>. The code names a day by the instant of its local midnight, \<open>tz\<close> being the offset
  of the zone of the server; the column keeps the date alone. \<open>JSON.parse\<close> of the schedule setting is the parameter \<open>parse_json\<close>.
\<close>

definition local_midnight :: "int \<Rightarrow> int \<Rightarrow> int" where
  "local_midnight tz t = set_hours tz t 0 0"

text \<open>
  The column is \<open>@db.Date\<close> (\<open>schema.prisma\<close>): of an instant, in a row or in a filter, the client of the database keeps the
  date in UTC, and it reads it back as the midnight of that date in UTC.
\<close>

definition date_column :: "int \<Rightarrow> int" where
  "date_column t = t div 86400000 * 86400000"

definition find_attendance :: "string \<Rightarrow> int \<Rightarrow> db \<Rightarrow> attendance_row option" where
  "find_attendance p day s = List.find (\<lambda>r. at_personnel r = p \<and> at_date r = date_column day) (d_attendance s)"

definition update_attendance :: "string \<Rightarrow> (attendance_row \<Rightarrow> attendance_row) \<Rightarrow> db \<Rightarrow> db" where
  "update_attendance k f s = s\<lparr>d_attendance := update_row at_id k f (d_attendance s)\<rparr>"

text \<open>\<open>attendance.create\<close>: the person is a foreign key, the id and the person with the day are unique.\<close>

definition insert_attendance :: "attendance_row \<Rightarrow> db \<Rightarrow> attendance_row answer" where
  "insert_attendance r s =
     (let row = r\<lparr>at_date := date_column (at_date r)\<rparr>
      in if find_row pe_id (at_personnel r) (d_personnel s) = None then (Inl (DbError ''P2003''), s)
         else if at_id r \<in> at_id ` set (d_attendance s) \<or> find_attendance (at_personnel r) (at_date r) s \<noteq> None
         then (Inl (DbError ''P2002''), s)
         else (Inr row, s\<lparr>d_attendance := insert_row row (d_attendance s)\<rparr>))"

definition schedule_of :: "(string \<Rightarrow> json option) \<Rightarrow> db \<Rightarrow> work_schedule" where
  "schedule_of parse_json s =
     parse_schedule parse_json (map_option se_value (find_row se_key ''attendance_schedule'' (d_settings s)))"

section \<open>Reading\<close>

record attendance_filters =
  af_search :: "string option"
  af_type :: "AttendanceType option"
  af_from :: "int option"
  af_to :: "int option"
  af_page :: "nat option"
  af_limit :: "nat option"

definition find_all_attendance :: "attendance_filters \<Rightarrow> db \<Rightarrow> attendance_row page" where
  "find_all_attendance f s =
     (let rows = sort_key (\<lambda>r. - at_date r)
                   (filter (\<lambda>r. option_matches (af_type f) (at_type r)
                              \<and> in_range (map_option date_column (af_from f)) (map_option date_column (af_to f)) (at_date r)
                              \<and> (case find_row pe_id (at_personnel r) (d_personnel s) of
                                    None \<Rightarrow> \<not> nonempty (af_search f)
                                  | Some p \<Rightarrow> matches_search (af_search f) [Some (pe_first_name p), Some (pe_last_name p)]))
                      (d_attendance s))
      in page_of (case af_page f of Some n \<Rightarrow> n | None \<Rightarrow> 1) (case af_limit f of Some n \<Rightarrow> n | None \<Rightarrow> 20) rows)"

definition attendance_by_personnel ::
    "string \<Rightarrow> int option \<Rightarrow> int option \<Rightarrow> db \<Rightarrow> http_error + attendance_row list" where
  "attendance_by_personnel p from_t to_t s =
     (if find_row pe_id p (d_personnel s) = None then Inl (NotFound ''Personal no encontrado'')
      else Inr (sort_key (\<lambda>r. - at_date r)
                  (filter (\<lambda>r. at_personnel r = p \<and> in_range (map_option date_column from_t) (map_option date_column to_t) (at_date r)) (d_attendance s))))"

record today_stats =
  ts_present :: nat
  ts_absent :: nat
  ts_late :: nat
  ts_completed :: nat
  ts_total :: nat

definition get_today_stats :: "int \<Rightarrow> int \<Rightarrow> db \<Rightarrow> today_stats" where
  "get_today_stats tz now s =
     (let rows = filter (\<lambda>r. at_date r = date_column (local_midnight tz now)) (d_attendance s)
      in \<lparr>ts_present = count_where (\<lambda>r. at_check_in r \<noteq> None \<and> at_check_out r = None) rows,
          ts_absent = count_where (\<lambda>r. at_check_in r = None) rows,
          ts_late = count_where (\<lambda>r. at_type r = LATE) rows,
          ts_completed = count_where (\<lambda>r. at_check_out r \<noteq> None) rows, ts_total = length rows\<rparr>)"

section \<open>Coming and going\<close>

definition later_notes :: "string option \<Rightarrow> attendance_row \<Rightarrow> string option" where
  "later_notes notes r = (case notes of Some n \<Rightarrow> Some n | None \<Rightarrow> at_notes r)"

definition attendance_check_in ::
    "(string \<Rightarrow> json option) \<Rightarrow> int \<Rightarrow> int \<Rightarrow> string \<Rightarrow> string \<Rightarrow> string option \<Rightarrow> db \<Rightarrow> attendance_row answer" where
  "attendance_check_in parse_json tz now new_id p notes s =
     (if find_row pe_id p (d_personnel s) = None then (Inl (NotFound ''Personal no encontrado''), s)
      else
        (case find_attendance p (local_midnight tz now) s of
           Some r \<Rightarrow>
             if at_check_in r \<noteq> None then (Inl (Conflict ''Ya se registro la entrada hoy''), s)
             else
               let f = (\<lambda>x. x\<lparr>at_check_in := Some now, at_notes := later_notes notes r\<rparr>)
               in (Inr (f r), update_attendance (at_id r) f s)
         | None \<Rightarrow>
             insert_attendance
               \<lparr>at_id = new_id, at_personnel = p, at_date = local_midnight tz now, at_check_in = Some now,
                at_check_out = None,
                at_type = (if ae_is_late (evaluate_attendance tz now (schedule_of parse_json s)) then LATE else PRESENT),
                at_notes = notes, at_verified_by = None\<rparr> s))"

definition attendance_check_out :: "int \<Rightarrow> int \<Rightarrow> string \<Rightarrow> string option \<Rightarrow> db \<Rightarrow> attendance_row answer" where
  "attendance_check_out tz now p notes s =
     (if find_row pe_id p (d_personnel s) = None then (Inl (NotFound ''Personal no encontrado''), s)
      else
        (case find_attendance p (local_midnight tz now) s of
           None \<Rightarrow> (Inl (NotFound ''No hay check-in registrado para hoy''), s)
         | Some r \<Rightarrow>
             if at_check_in r = None then (Inl (BadRequest ''No tienes hora de entrada registrada''), s)
             else if at_check_out r \<noteq> None then (Inl (Conflict ''Ya se registro la salida hoy''), s)
             else
               let f = (\<lambda>x. x\<lparr>at_check_out := Some now, at_notes := later_notes notes r\<rparr>)
               in (Inr (f r), update_attendance (at_id r) f s)))"

text \<open>The date of the request is an instant; \<open>setHours\<close> takes the local day it falls on.\<close>

definition verify_attendance :: "int \<Rightarrow> string \<Rightarrow> int \<Rightarrow> string \<Rightarrow> db \<Rightarrow> attendance_row answer" where
  "verify_attendance tz p date verifier s =
     (case find_attendance p (local_midnight tz date) s of
        None \<Rightarrow> (Inl (NotFound ''No se encontro registro de asistencia para esa fecha''), s)
      | Some r \<Rightarrow>
          let f = (\<lambda>x. x\<lparr>at_verified_by := Some verifier\<rparr>)
          in (Inr (f r), update_attendance (at_id r) f s))"

section \<open>The personnel service\<close>

text \<open>The same two operations once more, with the limit of nine o'clock and without notes.\<close>

definition personnel_check_in :: "int \<Rightarrow> int \<Rightarrow> string \<Rightarrow> string \<Rightarrow> db \<Rightarrow> attendance_row answer" where
  "personnel_check_in tz now new_id p s =
     (if find_row pe_id p (d_personnel s) = None then (Inl (NotFound ''Personal no encontrado''), s)
      else
        (case find_attendance p (local_midnight tz now) s of
           Some r \<Rightarrow>
             if at_check_in r \<noteq> None then (Inl (Conflict ''Ya registraste tu entrada hoy''), s)
             else (Inr (r\<lparr>at_check_in := Some now\<rparr>), update_attendance (at_id r) (\<lambda>x. x\<lparr>at_check_in := Some now\<rparr>) s)
         | None \<Rightarrow>
             insert_attendance
               \<lparr>at_id = new_id, at_personnel = p, at_date = local_midnight tz now, at_check_in = Some now,
                at_check_out = None, at_type = (if 9 \<le> (now + tz) mod 86400000 div 3600000 then LATE else PRESENT),
                at_notes = None, at_verified_by = None\<rparr> s))"

definition personnel_check_out :: "int \<Rightarrow> int \<Rightarrow> string \<Rightarrow> db \<Rightarrow> attendance_row answer" where
  "personnel_check_out tz now p s =
     (if find_row pe_id p (d_personnel s) = None then (Inl (NotFound ''Personal no encontrado''), s)
      else
        (case find_attendance p (local_midnight tz now) s of
           None \<Rightarrow> (Inl (NotFound ''No hay registro de entrada para hoy. Debes hacer check-in primero.''), s)
         | Some r \<Rightarrow>
             if at_check_in r = None then (Inl (BadRequest ''No tienes hora de entrada registrada.''), s)
             else if at_check_out r \<noteq> None then (Inl (Conflict ''Ya registraste tu salida hoy''), s)
             else (Inr (r\<lparr>at_check_out := Some now\<rparr>), update_attendance (at_id r) (\<lambda>x. x\<lparr>at_check_out := Some now\<rparr>) s)))"

definition check_in_by_user :: "int \<Rightarrow> int \<Rightarrow> string \<Rightarrow> string \<Rightarrow> db \<Rightarrow> attendance_row answer" where
  "check_in_by_user tz now new_id user s =
     (case find_row pe_account user (d_personnel s) of
        None \<Rightarrow> (Inl (NotFound ''Personal no encontrado para este usuario''), s)
      | Some p \<Rightarrow> personnel_check_in tz now new_id (pe_id p) s)"

definition check_out_by_user :: "int \<Rightarrow> int \<Rightarrow> string \<Rightarrow> db \<Rightarrow> attendance_row answer" where
  "check_out_by_user tz now user s =
     (case find_row pe_account user (d_personnel s) of
        None \<Rightarrow> (Inl (NotFound ''Personal no encontrado para este usuario''), s)
      | Some p \<Rightarrow> personnel_check_out tz now (pe_id p) s)"

section \<open>Biometric marks\<close>

record biometric_result =
  br_attendance :: string
  br_personnel :: string
  br_date :: int
  br_type :: AttendanceType
  br_late :: bool
  br_late_minutes :: number
  br_penalty :: number

definition mark_attendance ::
    "string \<Rightarrow> string \<Rightarrow> int \<Rightarrow> int \<Rightarrow> AttendanceType \<Rightarrow> string \<Rightarrow> db \<Rightarrow> attendance_row answer" where
  "mark_attendance new_id p day t type notes s =
     (case find_attendance p day s of
        Some r \<Rightarrow>
          let f = (\<lambda>x. if at_check_in r \<noteq> None then x
                        else x\<lparr>at_check_in := Some t, at_type := type, at_notes := Some notes\<rparr>)
          in (Inr (f r), update_attendance (at_id r) f s)
      | None \<Rightarrow>
          insert_attendance
            \<lparr>at_id = new_id, at_personnel = p, at_date = day, at_check_in = Some t, at_check_out = None,
             at_type = type, at_notes = Some notes, at_verified_by = None\<rparr> s)"

definition penalty_audit :: "string \<Rightarrow> audit_row" where
  "penalty_audit p =
     \<lparr>au_user = ''system'', au_role = ''SYSTEM'', au_action = ''ATTENDANCE_LATE_PENALTY'', au_entity = Some ''Personnel'',
      au_entity_id = Some p, au_severity = WARNING, au_hash = None\<rparr>"

text \<open>The transaction: the row, and for a late arrival the entry of the penalty under the user \<open>system\<close>.\<close>

definition record_mark ::
    "personnel_row \<Rightarrow> attendance_evaluation \<Rightarrow> int \<Rightarrow> int \<Rightarrow> string \<Rightarrow> string \<Rightarrow> db \<Rightarrow> attendance_row answer" where
  "record_mark p ev tz t new_id notes s0 =
     (case mark_attendance new_id (pe_id p) (local_midnight tz t) t (if ae_is_late ev then LATE else PRESENT) notes s0 of
        (Inl e, s1) \<Rightarrow> (Inl e, s1)
      | (Inr r, s1) \<Rightarrow>
          if \<not> ae_is_late ev then (Inr r, s1)
          else (case audit_create (penalty_audit (pe_id p)) s1 of Inl e \<Rightarrow> (Inl e, s1) | Inr s2 \<Rightarrow> (Inr r, s2)))"

definition biometric_answer :: "personnel_row \<Rightarrow> attendance_evaluation \<Rightarrow> attendance_row \<Rightarrow> biometric_result" where
  "biometric_answer p ev r =
     \<lparr>br_attendance = at_id r, br_personnel = pe_id p, br_date = at_date r,
      br_type = (if ae_is_late ev then LATE else PRESENT), br_late = ae_is_late ev,
      br_late_minutes = ae_late_minutes ev,
      br_penalty = (if ae_is_late ev
                    then calculate_penalty (cents (pe_salary p)) (pe_salary_type p) (ae_late_minutes ev) else Fin 0)\<rparr>"

definition process_biometric ::
    "(string \<Rightarrow> json option) \<Rightarrow> int \<Rightarrow> int \<Rightarrow> string \<Rightarrow> string \<Rightarrow> string \<Rightarrow> db \<Rightarrow> biometric_result answer" where
  "process_biometric parse_json tz t new_id dni notes s =
     (case find_row pe_dni dni (d_personnel s) of
        None \<Rightarrow> (Inl (NotFound ''No existe personal con DNI''), s)
      | Some p \<Rightarrow>
          let ev = evaluate_attendance tz t (schedule_of parse_json s)
          in (case transaction (record_mark p ev tz t new_id notes) s of
                (Inl e, s1) \<Rightarrow> (Inl e, s1)
              | (Inr r, s1) \<Rightarrow> (Inr (biometric_answer p ev r), s1)))"

section \<open>The requests\<close>

datatype attendance_request =
    AttendanceCheckIn string string "string option"
  | AttendanceCheckOut string "string option"
  | VerifyAttendance string int string
  | PersonnelCheckIn string string
  | PersonnelCheckOut string
  | BiometricMark int string string string

fun attendance_step ::
    "(string \<Rightarrow> json option) \<Rightarrow> int \<Rightarrow> int \<times> attendance_request \<Rightarrow> db \<Rightarrow> unit answer" where
  "attendance_step pj tz (now, AttendanceCheckIn i p notes) s = drop_answer (attendance_check_in pj tz now i p notes s)"
| "attendance_step pj tz (now, AttendanceCheckOut p notes) s = drop_answer (attendance_check_out tz now p notes s)"
| "attendance_step pj tz (now, VerifyAttendance p date v) s = drop_answer (verify_attendance tz p date v s)"
| "attendance_step pj tz (now, PersonnelCheckIn i user) s = drop_answer (check_in_by_user tz now i user s)"
| "attendance_step pj tz (now, PersonnelCheckOut user) s = drop_answer (check_out_by_user tz now user s)"
| "attendance_step pj tz (now, BiometricMark t i dni notes) s =
     (if dni = [] then (Inl (BadRequest ''validation''), s) else drop_answer (process_biometric pj tz t i dni notes s))"

section \<open>Days\<close>

lemma date_column_idem [simp]: "date_column (date_column t) = date_column t"
  by (simp add: date_column_def)

text \<open>Each local day has a date of its own; west of Greenwich it is the one the clock shows.\<close>

lemma date_of_midnight: "date_column (local_midnight tz t) = ((t + tz) div 86400000 + (- tz) div 86400000) * 86400000"
  by (simp add: date_column_def local_midnight_def set_hours_def div_mult_self3 diff_conv_add_uminus del: add_uminus_conv_diff)

lemma dates_apart: "date_column (local_midnight tz x) = date_column (local_midnight tz y) \<longleftrightarrow> local_midnight tz x = local_midnight tz y"
  unfolding date_of_midnight by (simp add: local_midnight_def set_hours_def)

lemma date_west: "- 86400000 < tz \<Longrightarrow> tz \<le> 0 \<Longrightarrow> date_column (local_midnight tz t) = local_midnight tz t + tz"
  unfolding date_of_midnight by (simp add: local_midnight_def set_hours_def)

lemma midnight_of_midnight [simp]: "local_midnight tz (local_midnight tz t) = local_midnight tz t"
  by (simp add: local_midnight_def set_hours_def)

text \<open>A row of a person who exists, on a day, with the times of that day, and no exit without an entry.\<close>

definition in_day :: "int \<Rightarrow> int \<Rightarrow> int option \<Rightarrow> bool" where
  "in_day tz day t \<longleftrightarrow> (case t of None \<Rightarrow> True | Some x \<Rightarrow> date_column (local_midnight tz x) = day)"

lemma in_day_None [simp]: "in_day tz day None"
  by (simp add: in_day_def)

definition attendance_ok :: "int \<Rightarrow> db \<Rightarrow> attendance_row \<Rightarrow> bool" where
  "attendance_ok tz s r \<longleftrightarrow>
     find_row pe_id (at_personnel r) (d_personnel s) \<noteq> None \<and> date_column (at_date r) = at_date r
     \<and> in_day tz (at_date r) (at_check_in r) \<and> in_day tz (at_date r) (at_check_out r)
     \<and> (at_check_out r \<noteq> None \<longrightarrow> at_check_in r \<noteq> None)"

definition attendance_wf :: "int \<Rightarrow> db \<Rightarrow> bool" where
  "attendance_wf tz s \<longleftrightarrow>
     distinct (map at_id (d_attendance s)) \<and> distinct (map (\<lambda>r. (at_personnel r, at_date r)) (d_attendance s))
     \<and> (\<forall>r \<in> set (d_attendance s). attendance_ok tz s r)"

lemma find_attendance_SomeD:
  "find_attendance p day s = Some r \<Longrightarrow> r \<in> set (d_attendance s) \<and> at_personnel r = p \<and> at_date r = date_column day"
  unfolding find_attendance_def by (auto simp: find_Some_iff)

lemma attendance_ok_frame: "d_personnel s' = d_personnel s \<Longrightarrow> attendance_ok tz s' r = attendance_ok tz s r"
  by (simp add: attendance_ok_def)

lemma attendance_wf_cong:
  "d_personnel s' = d_personnel s \<Longrightarrow> d_attendance s' = d_attendance s \<Longrightarrow> attendance_wf tz s' = attendance_wf tz s"
  by (simp add: attendance_wf_def attendance_ok_def)

lemma update_attendance_wf:
  assumes wf: "attendance_wf tz s" and k: "\<And>x. at_id (f x) = at_id x \<and> at_personnel (f x) = at_personnel x \<and> at_date (f x) = at_date x"
    and r: "r \<in> set (d_attendance s)" "attendance_ok tz s (f r)"
  shows "attendance_wf tz (update_attendance (at_id r) f s)"
proof -
  let ?rows = "update_row at_id (at_id r) f (d_attendance s)"
  have ids: "map at_id ?rows = map at_id (d_attendance s)" using k by (intro map_update_row_frame) simp
  have days: "map (\<lambda>r. (at_personnel r, at_date r)) ?rows = map (\<lambda>r. (at_personnel r, at_date r)) (d_attendance s)"
    using k by (intro map_update_row_frame) simp
  have d: "distinct (map at_id (d_attendance s))" using wf by (simp add: attendance_wf_def)
  have "attendance_ok tz s x" if "x \<in> set ?rows" for x
    using update_row_found[OF d find_row_distinct[OF d r(1)] that] wf r(2) by (auto simp: attendance_wf_def)
  then show ?thesis
    using wf ids days attendance_ok_frame[of "update_attendance (at_id r) f s" s tz]
    by (simp add: attendance_wf_def update_attendance_def)
qed

lemma insert_attendance_wf:
  assumes wf: "attendance_wf tz s" and ok: "attendance_ok tz s (r\<lparr>at_date := date_column (at_date r)\<rparr>)"
  shows "attendance_wf tz (snd (insert_attendance r s))"
proof -
  have "(at_personnel r, date_column (at_date r)) \<notin> (\<lambda>r. (at_personnel r, at_date r)) ` set (d_attendance s)"
    if "find_attendance (at_personnel r) (at_date r) s = None"
    using that by (auto simp: find_attendance_def find_None_iff)
  moreover have "attendance_ok tz (s\<lparr>d_attendance := v\<rparr>) x = attendance_ok tz s x" for v x
    by (rule attendance_ok_frame) simp
  ultimately show ?thesis using wf ok by (auto simp: insert_attendance_def attendance_wf_def insert_row_def Let_def)
qed

lemma in_day_now: "in_day tz (date_column (local_midnight tz t)) (Some t)"
  by (simp add: in_day_def)

lemma new_row_ok:
  "find_row pe_id p (d_personnel s) \<noteq> None \<Longrightarrow>
     attendance_ok tz s \<lparr>at_id = i, at_personnel = p, at_date = date_column (local_midnight tz t), at_check_in = Some t,
       at_check_out = None, at_type = ty, at_notes = n, at_verified_by = v\<rparr>"
  using in_day_now by (simp add: attendance_ok_def in_day_def)

lemma found_ok: "attendance_wf tz s \<Longrightarrow> find_attendance p day s = Some r \<Longrightarrow> attendance_ok tz s r \<and> r \<in> set (d_attendance s) \<and> at_date r = date_column day"
  using find_attendance_SomeD by (auto simp: attendance_wf_def)

lemma check_in_wf: "attendance_wf tz s \<Longrightarrow> attendance_wf tz (snd (attendance_check_in pj tz now i p notes s))"
  using in_day_now
  by (auto simp: attendance_check_in_def Let_def attendance_ok_def dest: found_ok intro!: update_attendance_wf
      insert_attendance_wf new_row_ok split: option.splits)

lemma check_out_wf: "attendance_wf tz s \<Longrightarrow> attendance_wf tz (snd (attendance_check_out tz now p notes s))"
  using in_day_now
  by (auto simp: attendance_check_out_def Let_def attendance_ok_def dest: found_ok intro!: update_attendance_wf
      split: option.splits)

lemma verify_wf: "attendance_wf tz s \<Longrightarrow> attendance_wf tz (snd (verify_attendance tz p date v s))"
  by (auto simp: verify_attendance_def Let_def attendance_ok_def dest: found_ok intro!: update_attendance_wf
      split: option.splits)

lemma personnel_check_wf:
  "attendance_wf tz s \<Longrightarrow> attendance_wf tz (snd (check_in_by_user tz now i user s))"
  "attendance_wf tz s \<Longrightarrow> attendance_wf tz (snd (check_out_by_user tz now user s))"
  using in_day_now
  by (auto simp: check_in_by_user_def check_out_by_user_def personnel_check_in_def personnel_check_out_def Let_def
      attendance_ok_def dest: found_ok intro!: update_attendance_wf insert_attendance_wf new_row_ok split: option.splits)

lemma mark_wf:
  assumes "attendance_wf tz s" and "find_row pe_id p (d_personnel s) \<noteq> None"
  shows "attendance_wf tz (snd (mark_attendance i p (local_midnight tz t) t ty n s))"
proof (cases "find_attendance p (local_midnight tz t) s")
  case None
  then show ?thesis using assms by (simp add: mark_attendance_def insert_attendance_wf new_row_ok)
next
  case (Some r)
  then have r: "attendance_ok tz s r" "r \<in> set (d_attendance s)" "at_date r = date_column (local_midnight tz t)"
    using found_ok[OF assms(1)] by auto
  show ?thesis
    using Some r in_day_now assms(1)
    by (auto simp: mark_attendance_def Let_def attendance_ok_def intro!: update_attendance_wf)
qed

text \<open>What a mark comes to: an error, or the row, with the entry of the penalty when it is late.\<close>

lemma record_mark_cases:
  assumes "record_mark p ev tz t i notes s = (out, s')"
  obtains e where "out = Inl e" | r s1 where "out = Inr r"
      "mark_attendance i (pe_id p) (local_midnight tz t) t (if ae_is_late ev then LATE else PRESENT) notes s = (Inr r, s1)"
      "ae_is_late ev \<Longrightarrow> account_exists ''system'' s1"
      "s' = (if ae_is_late ev then s1\<lparr>d_audit := d_audit s1 @ [penalty_audit (pe_id p)]\<rparr> else s1)"
proof -
  obtain m s1 where m: "mark_attendance i (pe_id p) (local_midnight tz t) t (if ae_is_late ev then LATE else PRESENT) notes s = (m, s1)"
    by fastforce
  show thesis
  proof (cases m)
    case (Inl e)
    then show thesis using assms m by (intro that(1)[of e]) (simp add: record_mark_def)
  next
    case (Inr r)
    show thesis
    proof (cases "ae_is_late ev \<and> \<not> account_exists ''system'' s1")
      case True
      then show thesis using assms m Inr
        by (intro that(1)[of "DbError ''P2003''"]) (simp add: record_mark_def audit_create_def penalty_audit_def)
    next
      case False
      then show thesis using assms m Inr
        by (intro that(2)[of r s1]) (auto simp: record_mark_def audit_create_def penalty_audit_def split: if_splits sum.splits)
    qed
  qed
qed

lemma record_mark_wf:
  assumes "attendance_wf tz s" and "find_row pe_id (pe_id p) (d_personnel s) \<noteq> None"
    and "record_mark p ev tz t i notes s = (Inr r, s')"
  shows "attendance_wf tz s'"
  using assms(3)
proof (cases rule: record_mark_cases)
  case (2 r' s1)
  have "attendance_wf tz s1" using mark_wf[OF assms(1,2), of i t _ "notes"] 2(2) by (metis snd_conv)
  moreover have "attendance_wf tz (s1\<lparr>d_audit := v\<rparr>) = attendance_wf tz s1" for v by (rule attendance_wf_cong) simp_all
  ultimately show ?thesis using 2(4) by simp
qed simp

lemma process_biometric_cases:
  assumes "process_biometric pj tz t i dni notes s = (out, s')"
  obtains e where "out = Inl e" "s' = s"
  | p r where "find_row pe_dni dni (d_personnel s) = Some p"
      "record_mark p (evaluate_attendance tz t (schedule_of pj s)) tz t i notes s = (Inr r, s')"
      "out = Inr (biometric_answer p (evaluate_attendance tz t (schedule_of pj s)) r)"
proof (cases "find_row pe_dni dni (d_personnel s)")
  case None
  then show thesis using assms by (intro that(1)[of "NotFound ''No existe personal con DNI''"]) (simp_all add: process_biometric_def)
next
  case (Some p)
  define ev where "ev = evaluate_attendance tz t (schedule_of pj s)"
  obtain m s1 where m: "record_mark p ev tz t i notes s = (m, s1)" by fastforce
  have eq: "process_biometric pj tz t i dni notes s =
      (case m of Inl e \<Rightarrow> (Inl e, s) | Inr r \<Rightarrow> (Inr (biometric_answer p ev r), s1))"
    using Some m by (simp add: process_biometric_def Let_def transaction_def ev_def[symmetric] split: sum.splits)
  show thesis
    using assms m Some by (cases m) (auto simp: eq ev_def[symmetric] intro: that)
qed

lemma personnel_by_dni: "find_row pe_dni dni (d_personnel s) = Some p \<Longrightarrow> find_row pe_id (pe_id p) (d_personnel s) \<noteq> None"
  using find_row_SomeD[of pe_dni dni "d_personnel s" p] by (auto simp: find_row_None_iff)

lemma biometric_wf:
  assumes "attendance_wf tz s"
  shows "attendance_wf tz (snd (process_biometric pj tz t i dni notes s))"
proof -
  obtain out s' where c: "process_biometric pj tz t i dni notes s = (out, s')" by fastforce
  then show ?thesis
  proof (cases rule: process_biometric_cases)
    case (2 p r)
    then show ?thesis using record_mark_wf[OF assms personnel_by_dni[OF 2(1)] 2(2)] c by simp
  qed (simp add: assms c)
qed

lemma attendance_step_wf: "attendance_wf tz s \<Longrightarrow> attendance_wf tz (snd (attendance_step pj tz q s))"
  by (cases "(pj, tz, q, s)" rule: attendance_step.cases)
    (auto simp: check_in_wf check_out_wf verify_wf personnel_check_wf biometric_wf)

interpretation attendance_service: invariant_service "attendance_step pj tz" "attendance_wf tz"
  by unfold_locales (rule attendance_step_wf)

section \<open>Properties\<close>

definition sample_staff :: db where
  "sample_staff = empty_db
     \<lparr>d_accounts := [sample_account ''m1'' MECHANIC],
      d_personnel := [\<lparr>pe_id = ''p1'', pe_account = ''m1'', pe_first_name = ''Luis'', pe_last_name = ''Rojas'', pe_dni = ''45678912'',
                       pe_pin = None, pe_salary = 150000, pe_salary_type = MONTHLY, pe_deleted_at = None\<rparr>]\<rparr>"

lemma sample_staff_wf: "attendance_wf tz sample_staff"
  by (simp add: attendance_wf_def sample_staff_def)

text \<open>C35. Through any run of requests to the attendance and personnel services and of biometric marks, a person has at most one
  row per date, of an existing person. The entry and the exit of a row fall on one local day, whose midnight has the date of the row in UTC;
  in a zone west of Greenwich that is the date the clock of the server shows. There is no exit without an entry.\<close>

theorem attendance_days:
  assumes "attendance_wf tz s" and "t = run_requests (attendance_step pj tz) qs s"
  shows "distinct (map (\<lambda>r. (at_personnel r, at_date r)) (d_attendance t))
    \<and> (\<forall>r \<in> set (d_attendance t). find_row pe_id (at_personnel r) (d_personnel t) \<noteq> None
         \<and> (\<forall>x. at_check_in r = Some x \<or> at_check_out r = Some x \<longrightarrow>
              at_date r = local_midnight tz x div (24 * 60 * 60 * 1000) * (24 * 60 * 60 * 1000)
              \<and> (- 24 * 60 * 60 * 1000 < tz \<and> tz \<le> 0 \<longrightarrow> at_date r = local_midnight tz x + tz))
         \<and> (\<forall>x y. at_check_in r = Some x \<and> at_check_out r = Some y \<longrightarrow> local_midnight tz x = local_midnight tz y)
         \<and> (at_check_out r \<noteq> None \<longrightarrow> at_check_in r \<noteq> None))"
proof -
  have wf: "attendance_wf tz t" using attendance_service.run_inv[OF assms(1), of pj qs] assms(2) by simp
  have "at_date r = date_column (local_midnight tz x)"
    if "r \<in> set (d_attendance t)" "at_check_in r = Some x \<or> at_check_out r = Some x" for r x
    using wf that by (auto simp: attendance_wf_def attendance_ok_def in_day_def)
  note day = this
  have "local_midnight tz x = local_midnight tz y"
    if "r \<in> set (d_attendance t)" "at_check_in r = Some x" "at_check_out r = Some y" for r x y
    using day[OF that(1)] that(2,3) dates_apart by metis
  then show ?thesis
    using wf day date_west by (auto simp: attendance_wf_def attendance_ok_def date_column_def[symmetric])
qed

theorem attendance_days_witness:
  "\<exists>t. t = run_requests (attendance_step (\<lambda>_. None) (- 18000000))
        [(50000000, PersonnelCheckIn ''x1'' ''m1''), (60000000, PersonnelCheckOut ''m1'')] sample_staff
     \<and> distinct (map (\<lambda>r. (at_personnel r, at_date r)) (d_attendance t))"
  using attendance_days[where tz = "- 18000000" and pj = "\<lambda>_. None"
      and qs = "[(50000000, PersonnelCheckIn ''x1'' ''m1''), (60000000, PersonnelCheckOut ''m1'')]", OF sample_staff_wf refl]
  by blast

text \<open>A late biometric mark is recorded only if there is an account named system, because the entry of its penalty is
  written under that user: without one the whole transaction is undone and nothing is recorded. A mark in time of a
  known person on a day without a row is always recorded.\<close>

theorem late_mark_needs_system_account:
  assumes "find_row pe_dni dni (d_personnel s) = Some p" and "ev = evaluate_attendance tz t (schedule_of pj s)"
  shows "(ae_is_late ev \<and> \<not> account_exists ''system'' s \<longrightarrow> (\<exists>e. process_biometric pj tz t i dni notes s = (Inl e, s)))
    \<and> (\<not> ae_is_late ev \<and> find_attendance (pe_id p) (local_midnight tz t) s = None \<and> i \<notin> at_id ` set (d_attendance s) \<longrightarrow>
         (\<exists>s'. process_biometric pj tz t i dni notes s = (Inr (biometric_answer p ev \<lparr>at_id = i, at_personnel = pe_id p,
              at_date = date_column (local_midnight tz t), at_check_in = Some t, at_check_out = None, at_type = PRESENT,
              at_notes = Some notes, at_verified_by = None\<rparr>), s')
            \<and> length (d_attendance s') = Suc (length (d_attendance s))))"
proof (intro conjI impI)
  assume late: "ae_is_late ev \<and> \<not> account_exists ''system'' s"
  obtain out s' where c: "process_biometric pj tz t i dni notes s = (out, s')" by fastforce
  have no: "\<not> account_exists ''system'' s1" if "mark_attendance i q d t ty notes s = (Inr r, s1)" for q d ty r s1
    using that late by (auto simp: mark_attendance_def insert_attendance_def update_attendance_def account_exists_def
        Let_def split: option.splits if_splits)
  from c show "\<exists>e. process_biometric pj tz t i dni notes s = (Inl e, s)"
  proof (cases rule: process_biometric_cases)
    case (2 p' r)
    have "\<exists>e. fst (record_mark p' ev tz t i notes s) = Inl e"
    proof -
      obtain o1 s1 where o1: "record_mark p' ev tz t i notes s = (o1, s1)" by fastforce
      then show ?thesis
      proof (cases rule: record_mark_cases)
        case (2 r1 s2)
        then show ?thesis using no late by blast
      qed (simp add: o1)
    qed
    then show ?thesis using 2(2) assms(2) by simp
  qed (simp add: c)
next
  assume fresh: "\<not> ae_is_late ev \<and> find_attendance (pe_id p) (local_midnight tz t) s = None \<and> i \<notin> at_id ` set (d_attendance s)"
  let ?r = "\<lparr>at_id = i, at_personnel = pe_id p, at_date = date_column (local_midnight tz t), at_check_in = Some t, at_check_out = None,
      at_type = PRESENT, at_notes = Some notes, at_verified_by = None\<rparr>"
  have "record_mark p ev tz t i notes s = (Inr ?r, s\<lparr>d_attendance := insert_row ?r (d_attendance s)\<rparr>)"
    using fresh personnel_by_dni[OF assms(1)] by (simp add: record_mark_def mark_attendance_def insert_attendance_def Let_def)
  then have "process_biometric pj tz t i dni notes s
      = (Inr (biometric_answer p ev ?r), s\<lparr>d_attendance := insert_row ?r (d_attendance s)\<rparr>)"
    using assms by (simp add: process_biometric_def transaction_def)
  then show "\<exists>s'. process_biometric pj tz t i dni notes s = (Inr (biometric_answer p ev ?r), s')
      \<and> length (d_attendance s') = Suc (length (d_attendance s))" by (simp add: insert_row_def)
qed

theorem late_mark_needs_system_account_witness:
  "\<exists>e. process_biometric (\<lambda>_. None) (- 18000000) 68400000 ''x1'' ''45678912'' ''huella'' sample_staff = (Inl e, sample_staff)"
proof -
  obtain p where p: "find_row pe_dni ''45678912'' (d_personnel sample_staff) = Some p" by (simp add: sample_staff_def)
  have "schedule_of (\<lambda>_. None) sample_staff = default_schedule"
    by (simp add: schedule_of_def sample_staff_def parse_schedule_def)
  moreover have "ae_is_late (evaluate_attendance (- 18000000) 68400000 default_schedule)"
  proof -
    have d: "ws_tolerance_minutes default_schedule = js_int 60" "parse_time (ws_start_time default_schedule) = (8, 0)"
      by (simp_all add: default_schedule_def js_int_def parse_time_def match_time_def is_digit_def digit_def
          js_trim_def js_space_def)
    show ?thesis using evaluate_attendance_minutes[OF d(2,1), of "- 18000000" 68400000] by (simp add: set_hours_def)
  qed
  ultimately show ?thesis
    using late_mark_needs_system_account[OF p refl, of "- 18000000" 68400000 "\<lambda>_. None" "''x1''" "''huella''"]
    by (simp add: sample_staff_def account_exists_def)
qed

text \<open>In a zone west of Greenwich the verification of a date, which arrives as midnight UTC, goes to the row of the day
  before: a row of the requested local day is never the one that is verified.\<close>

theorem verify_hits_day_before:
  assumes "- 86400000 < tz" and "tz < 0" and "verify_attendance tz p (n * 86400000) v s = (Inr r, t)"
  shows "at_date r = (n - 1) * 86400000 \<and> at_date r \<noteq> date_column (n * 86400000 - tz) \<and> at_verified_by r = Some v
    \<and> filter (\<lambda>x. at_id x \<noteq> at_id r) (d_attendance t) = filter (\<lambda>x. at_id x \<noteq> at_id r) (d_attendance s)"
proof -
  have "(n * 86400000 + tz) div 86400000 = n - 1"
    using assms(1,2) by (intro int_div_pos_eq[where r = "86400000 + tz"]) simp_all
  moreover have "(- tz) div 86400000 = 0" "(n * 86400000 - tz) div 86400000 = n" using assms(1,2) by simp_all
  ultimately have day: "date_column (local_midnight tz (n * 86400000)) = (n - 1) * 86400000"
    and other: "date_column (n * 86400000 - tz) = n * 86400000"
    unfolding date_of_midnight by (simp_all add: date_column_def)
  obtain x where x: "find_attendance p (local_midnight tz (n * 86400000)) s = Some x"
    "r = x\<lparr>at_verified_by := Some v\<rparr>" "t = update_attendance (at_id x) (\<lambda>x. x\<lparr>at_verified_by := Some v\<rparr>) s"
    using assms(3) by (auto simp: verify_attendance_def Let_def split: option.splits)
  have "filter (\<lambda>y. at_id y \<noteq> at_id x) (update_row at_id (at_id x) (\<lambda>x. x\<lparr>at_verified_by := Some v\<rparr>) rows)
      = filter (\<lambda>y. at_id y \<noteq> at_id x) rows" for rows
    by (induction rows) (simp_all add: update_row_def)
  then show ?thesis using x find_attendance_SomeD[OF x(1)] day other by (simp add: update_attendance_def)
qed

theorem verify_hits_day_before_witness:
  "\<exists>r t. verify_attendance (- 18000000) ''p1'' (20000 * 86400000) ''a1''
       (sample_staff\<lparr>d_attendance := [\<lparr>at_id = ''x1'', at_personnel = ''p1'', at_date = 19999 * 86400000,
          at_check_in = Some (19999 * 86400000 + 50000000), at_check_out = None, at_type = PRESENT, at_notes = None,
          at_verified_by = None\<rparr>]\<rparr>) = (Inr r, t) \<and> at_date r \<noteq> date_column (20000 * 86400000 + 18000000)"
  (is "\<exists>r t. verify_attendance _ _ _ _ ?s = _ \<and> _")
proof -
  obtain r t where v: "verify_attendance (- 18000000) ''p1'' (20000 * 86400000) ''a1'' ?s = (Inr r, t)"
    by (simp add: verify_attendance_def find_attendance_def date_column_def local_midnight_def set_hours_def Let_def)
  then show ?thesis using verify_hits_day_before[OF _ _ v] by auto
qed

end
