(* ===== verification/PersonnelService.thy ===== *)
theory PersonnelService
  imports AuthService Attendance "HOL-Library.List_Lexorder"
begin

text \<open>
  Staff and their accounts, \<open>src/modules/personnel/personnel.service.ts\<close>: the list and the profile, hiring and
  leaving, roles and states, the use of the vehicles of the shop and the performance report. The check-in and
  check-out of the service are in theory Attendance. Months are given by their first and last instant. Columns
  that are only stored and shown (telephones, address, contract) are left out.
\<close>

section \<open>Reading\<close>

record personnel_filters =
  rf_role :: "UserRole option"
  rf_status :: "AccountStatus option"
  rf_search :: "string option"
  rf_page :: "nat option"
  rf_limit :: "nat option"
  rf_page_size :: "nat option"

definition find_all_personnel :: "personnel_filters \<Rightarrow> db \<Rightarrow> account_row page" where
  "find_all_personnel f s =
     (let limit = (case rf_page_size f of Some n \<Rightarrow> n | None \<Rightarrow> (case rf_limit f of Some n \<Rightarrow> n | None \<Rightarrow> 20));
          rows = sort_key (\<lambda>a. - ac_created_at a)
                   (filter (\<lambda>a. option_matches (rf_role f) (ac_role a) \<and> option_matches (rf_status f) (ac_status a)
                              \<and> matches_search (rf_search f) [Some (ac_name a), Some (ac_email a)]) (d_accounts s))
      in page_of (case rf_page f of Some n \<Rightarrow> n | None \<Rightarrow> 1) limit rows)"

record personnel_profile =
  pp_account :: account_row
  pp_personnel :: "personnel_row option"
  pp_attendance :: "attendance_row list"
  pp_vehicles :: "usage_row list"

definition find_one_personnel :: "int \<Rightarrow> int \<Rightarrow> string \<Rightarrow> db \<Rightarrow> http_error + personnel_profile" where
  "find_one_personnel month_start now k s =
     (case find_row ac_id k (d_accounts s) of
        None \<Rightarrow> Inl (NotFound ''Personal no encontrado'')
      | Some a \<Rightarrow>
          (case find_row pe_account k (d_personnel s) of
             None \<Rightarrow> Inr \<lparr>pp_account = a, pp_personnel = None, pp_attendance = [], pp_vehicles = []\<rparr>
           | Some p \<Rightarrow>
               Inr \<lparr>pp_account = a, pp_personnel = Some p,
                    pp_attendance = sort_key (\<lambda>r. - at_date r)
                      (filter (\<lambda>r. at_personnel r = pe_id p \<and> in_range (Some (date_column month_start)) (Some (date_column now)) (at_date r)) (d_attendance s)),
                    pp_vehicles = filter (\<lambda>u. us_personnel u = pe_id p \<and> us_status u = PENDING_RETURN) (d_usage s)\<rparr>))"

definition get_attendance_month ::
    "string \<Rightarrow> int \<Rightarrow> int \<Rightarrow> db \<Rightarrow> http_error + (attendance_row list \<times> (AttendanceType \<times> nat) list)" where
  "get_attendance_month p start stop s =
     (if find_row pe_id p (d_personnel s) = None then Inl (NotFound ''Personal no encontrado'')
      else
        let rows = sort_key (\<lambda>r. - at_date r)
                     (filter (\<lambda>r. at_personnel r = p \<and> in_range (Some (date_column start)) (Some (date_column stop)) (at_date r)) (d_attendance s))
        in Inr (rows, map (\<lambda>ty. (ty, count_where (\<lambda>r. at_type r = ty) rows))
                        [PRESENT, ABSENT, LATE, HALF_DAY, PERMISSION, VACATION, SICK_LEAVE, HOLIDAY]))"

text \<open>Rows by the time of entry; the database puts those without one last.\<close>

definition get_today_attendance :: "int \<Rightarrow> int \<Rightarrow> db \<Rightarrow> attendance_row list \<times> nat \<times> nat \<times> nat" where
  "get_today_attendance tz now s =
     (let rows = filter (\<lambda>r. at_date r = date_column (local_midnight tz now)) (d_attendance s);
          present = filter (\<lambda>r. at_check_in r \<noteq> None) rows
      in (sort_key (\<lambda>r. the (at_check_in r)) present @ filter (\<lambda>r. at_check_in r = None) rows, length present,
          count_where (\<lambda>r. at_check_in r = None \<and> at_type r = ABSENT) rows, count_where (\<lambda>r. at_type r = LATE) rows))"

definition get_all_security_list :: "UserRole \<Rightarrow> db \<Rightarrow> account_row list" where
  "get_all_security_list role s =
     (let allowed = (if role = UserRole.OWNER then [UserRole.OWNER, UserRole.ADMIN, UserRole.FINANCE, MECHANIC, TRAINEE, CLIENT]
                     else [UserRole.ADMIN, UserRole.FINANCE, MECHANIC, TRAINEE])
      in sort_key (\<lambda>a. map (of_char :: char \<Rightarrow> nat) (ac_name a))
           (filter (\<lambda>a. ac_role a \<in> set allowed \<and> ac_status a = AccountStatus.ACTIVE) (d_accounts s)))"

section \<open>Hiring and leaving\<close>

record personnel_input =
  ni_first_name :: string
  ni_last_name :: string
  ni_dni :: string
  ni_email :: string
  ni_password :: string
  ni_role :: UserRole
  ni_salary :: int
  ni_salary_type :: "SalaryType option"

definition create_personnel ::
    "auth_env \<Rightarrow> int \<Rightarrow> string \<Rightarrow> string \<Rightarrow> string \<Rightarrow> personnel_input \<Rightarrow> db \<Rightarrow> personnel_row answer" where
  "create_personnel env now account_id new_id salt d s =
     (if find_row ac_email (ni_email d) (d_accounts s) \<noteq> None
      then (Inl (Conflict ''Ya existe una cuenta con ese email''), s)
      else if find_row pe_dni (ni_dni d) (d_personnel s) \<noteq> None
      then (Inl (Conflict ''Ya existe un personal con ese DNI''), s)
      else if account_id \<in> ac_id ` set (d_accounts s) \<or> new_id \<in> pe_id ` set (d_personnel s)
        \<or> account_id \<in> pe_account ` set (d_personnel s)
      then (Inl (DbError ''P2002''), s)
      else
        let a = \<lparr>ac_id = account_id, ac_email = ni_email d, ac_password_hash = en_hash env salt (ni_password d),
                 ac_mfa_secret = None, ac_mfa_enabled = False, ac_role = ni_role d,
                 ac_name = ni_first_name d @ '' '' @ ni_last_name d, ac_status = AccountStatus.ACTIVE,
                 ac_last_login_at = None, ac_last_login_ip = None, ac_failed_attempts = 0, ac_locked_until = None,
                 ac_created_at = now, ac_deleted_at = None\<rparr>;
            p = \<lparr>pe_id = new_id, pe_account = account_id, pe_first_name = ni_first_name d, pe_last_name = ni_last_name d,
                 pe_dni = ni_dni d, pe_pin = None, pe_salary = ni_salary d,
                 pe_salary_type = (case ni_salary_type d of Some ty \<Rightarrow> ty | None \<Rightarrow> MONTHLY), pe_deleted_at = None\<rparr>
        in (Inr p, s\<lparr>d_accounts := insert_row a (d_accounts s), d_personnel := insert_row p (d_personnel s)\<rparr>))"

record personnel_update_input =
  nu_first_name :: "string option"
  nu_last_name :: "string option"
  nu_dni :: "string option"
  nu_salary :: "int option"
  nu_salary_type :: "SalaryType option"

definition or_old :: "'a option \<Rightarrow> 'a \<Rightarrow> 'a" where
  "or_old x old = (case x of Some v \<Rightarrow> v | None \<Rightarrow> old)"

definition apply_personnel_update :: "personnel_update_input \<Rightarrow> personnel_row \<Rightarrow> personnel_row" where
  "apply_personnel_update d p =
     p\<lparr>pe_first_name := or_old (nu_first_name d) (pe_first_name p), pe_last_name := or_old (nu_last_name d) (pe_last_name p),
       pe_dni := or_old (nu_dni d) (pe_dni p), pe_salary := or_old (nu_salary d) (pe_salary p),
       pe_salary_type := or_old (nu_salary_type d) (pe_salary_type p)\<rparr>"

definition update_personnel_row :: "string \<Rightarrow> (personnel_row \<Rightarrow> personnel_row) \<Rightarrow> db \<Rightarrow> db" where
  "update_personnel_row k f s = s\<lparr>d_personnel := update_row pe_id k f (d_personnel s)\<rparr>"

definition update_personnel :: "string \<Rightarrow> personnel_update_input \<Rightarrow> db \<Rightarrow> personnel_row answer" where
  "update_personnel k d s =
     (case find_row pe_id k (d_personnel s) of
        None \<Rightarrow> (Inl (NotFound ''Personal no encontrado''), s)
      | Some p \<Rightarrow>
          if nonempty (nu_dni d) \<and> nu_dni d \<noteq> Some (pe_dni p)
            \<and> list_ex (\<lambda>q. Some (pe_dni q) = nu_dni d \<and> pe_id q \<noteq> k) (d_personnel s)
          then (Inl (Conflict ''Ya existe un personal con ese DNI''), s)
          else if nu_dni d = Some [] \<and> list_ex (\<lambda>q. pe_dni q = [] \<and> pe_id q \<noteq> k) (d_personnel s)
          then (Inl (DbError ''P2002''), s)
          else
            let q = apply_personnel_update d p;
                s1 = update_personnel_row k (apply_personnel_update d) s
            in (Inr q,
                if nonempty (nu_first_name d) \<or> nonempty (nu_last_name d)
                then update_account (pe_account p) (\<lambda>a. a\<lparr>ac_name := pe_first_name q @ '' '' @ pe_last_name q\<rparr>) s1
                else s1))"

text \<open>The row is kept; the account is terminated. The sessions of the account are left as they are.\<close>

definition soft_delete_personnel :: "int \<Rightarrow> string \<Rightarrow> db \<Rightarrow> unit answer" where
  "soft_delete_personnel now k s =
     (case find_row pe_id k (d_personnel s) of
        None \<Rightarrow> (Inl (NotFound ''Personal no encontrado''), s)
      | Some p \<Rightarrow>
          (Inr (), update_account (pe_account p) (\<lambda>a. a\<lparr>ac_status := AccountStatus.TERMINATED, ac_deleted_at := Some now\<rparr>)
                     (update_personnel_row k (\<lambda>q. q\<lparr>pe_deleted_at := Some now\<rparr>) s)))"

definition update_role :: "string \<Rightarrow> UserRole \<Rightarrow> db \<Rightarrow> account_row answer" where
  "update_role k role s =
     (case find_row ac_id k (d_accounts s) of
        None \<Rightarrow> (Inl (NotFound ''Personal no encontrado''), s)
      | Some a \<Rightarrow>
          if ac_role a = UserRole.OWNER then (Inl (Forbidden ''No se puede cambiar el rol de un OWNER''), s)
          else if role = UserRole.OWNER then (Inl (Forbidden ''No se puede asignar rol OWNER''), s)
          else (Inr (a\<lparr>ac_role := role\<rparr>), update_account k (\<lambda>a. a\<lparr>ac_role := role\<rparr>) s))"

definition update_account_status :: "string \<Rightarrow> AccountStatus \<Rightarrow> db \<Rightarrow> account_row answer" where
  "update_account_status k st s =
     (case find_row ac_id k (d_accounts s) of
        None \<Rightarrow> (Inl (NotFound ''Personal no encontrado''), s)
      | Some a \<Rightarrow>
          if ac_role a = UserRole.OWNER then (Inl (Forbidden ''No se puede cambiar el estado de un OWNER''), s)
          else (Inr (a\<lparr>ac_status := st\<rparr>), update_account k (\<lambda>a. a\<lparr>ac_status := st\<rparr>) s))"

section \<open>Vehicles of the shop\<close>

record usage_input =
  ug_personnel :: string
  ug_vehicle :: string
  ug_odometer :: "int option"
  ug_expected :: "int option"

definition authorize_vehicle_usage ::
    "int \<Rightarrow> string \<Rightarrow> usage_input \<Rightarrow> string \<Rightarrow> UserRole \<Rightarrow> db \<Rightarrow> usage_row answer" where
  "authorize_vehicle_usage now new_id d user role s =
     (if find_row pe_id (ug_personnel d) (d_personnel s) = None then (Inl (NotFound ''Personal no encontrado''), s)
      else if find_row ve_id (ug_vehicle d) (d_vehicles s) = None then (Inl (NotFound ''Vehiculo no encontrado''), s)
      else if role \<notin> {UserRole.OWNER, UserRole.ADMIN}
      then (Inl (Forbidden ''Solo OWNER o ADMIN pueden autorizar uso de vehiculos''), s)
      else if new_id \<in> us_id ` set (d_usage s) then (Inl (DbError ''P2002''), s)
      else
        let u = \<lparr>us_id = new_id, us_vehicle = ug_vehicle d, us_personnel = ug_personnel d, us_authorized_by = Some user,
                 us_odometer_out = ug_odometer d, us_odometer_in = None, us_checkout_at = now,
                 us_expected_return = (case ug_expected d of Some t \<Rightarrow> t | None \<Rightarrow> now + 24 * 60 * 60 * 1000),
                 us_return_at = None, us_status = PENDING_RETURN\<rparr>
        in (Inr u, s\<lparr>d_usage := insert_row u (d_usage s)\<rparr>))"

definition get_active_vehicle_usages :: "db \<Rightarrow> usage_row list" where
  "get_active_vehicle_usages s =
     sort_key (\<lambda>u. - us_checkout_at u) (filter (\<lambda>u. us_status u = PENDING_RETURN) (d_usage s))"

definition get_overdue_vehicle_usages :: "int \<Rightarrow> db \<Rightarrow> usage_row list" where
  "get_overdue_vehicle_usages now s =
     sort_key us_expected_return (filter (\<lambda>u. us_status u = PENDING_RETURN \<and> us_expected_return u < now) (d_usage s))"

definition return_vehicle :: "int \<Rightarrow> string \<Rightarrow> int \<Rightarrow> db \<Rightarrow> usage_row answer" where
  "return_vehicle now k odometer s =
     (case find_row us_id k (d_usage s) of
        None \<Rightarrow> (Inl (NotFound ''Registro de uso de vehiculo no encontrado''), s)
      | Some u \<Rightarrow>
          if us_status u \<noteq> PENDING_RETURN then (Inl (Conflict ''Este vehiculo ya fue devuelto''), s)
          else
            let f = (\<lambda>x. x\<lparr>us_odometer_in := Some odometer, us_return_at := Some now,
                           us_status := (if us_expected_return u < now then RETURNED_LATE else RETURNED_ON_TIME)\<rparr>)
            in (Inr (f u), s\<lparr>d_usage := update_row us_id k f (d_usage s)\<rparr>))"

section \<open>Performance\<close>

record performance_report =
  pr_completed :: nat
  pr_average_minutes :: number
  pr_parts :: "(string \<times> int) list"

text \<open>The parts of the finished orders, counted by item in the order they first appear.\<close>

fun add_part :: "string \<Rightarrow> int \<Rightarrow> (string \<times> int) list \<Rightarrow> (string \<times> int) list" where
  "add_part k n [] = [(k, n)]"
| "add_part k n ((k', m) # ps) = (if k = k' then (k', m + n) # ps else (k', m) # add_part k n ps)"

definition parts_used :: "order_row list \<Rightarrow> db \<Rightarrow> (string \<times> int) list" where
  "parts_used ws s =
     foldl (\<lambda>acc p. add_part (op_item p) (op_quantity p) acc) []
       (concat (map (\<lambda>w. filter (\<lambda>p. op_order p = wo_id w) (d_parts s)) ws))"

definition minutes_of :: "order_row \<Rightarrow> number option" where
  "minutes_of w =
     (case (wo_started_at w, wo_completed_at w) of
        (Some a, Some b) \<Rightarrow> Some (js_div (js_int (b - a)) (js_int 60000))
      | _ \<Rightarrow> None)"

definition get_performance_report :: "string \<Rightarrow> db \<Rightarrow> http_error + performance_report" where
  "get_performance_report p s =
     (case find_row pe_id p (d_personnel s) of
        None \<Rightarrow> Inl (NotFound ''Personal no encontrado'')
      | Some q \<Rightarrow>
          (case find_row ac_id (pe_account q) (d_accounts s) of
             None \<Rightarrow> Inl (NotFound ''Cuenta no encontrada'')
           | Some a \<Rightarrow>
               let finished = filter (\<lambda>w. wo_mechanic w = Some (ac_id a) \<and> wo_status w \<in> {DELIVERED, READY}) (d_orders s);
                   ws = sort_key (\<lambda>w. - the (wo_completed_at w)) (filter (\<lambda>w. wo_completed_at w \<noteq> None) finished);
                   times = [m. Some m \<leftarrow> map minutes_of ws]
               in Inr \<lparr>pr_completed = length finished,
                       pr_average_minutes =
                         (if times \<noteq> [] then js_round (js_div (js_sum times) (js_int (int (length times)))) else Fin 0),
                       pr_parts = sort_key (\<lambda>x. - snd x) (parts_used ws s)\<rparr>))"

section \<open>Properties\<close>

lemma find_update_account:
  "find_row ac_id k (d_accounts (update_account k' f s)) =
     (if k = k' then map_option f (find_row ac_id k (d_accounts s)) else find_row ac_id k (d_accounts s))"
  if "\<And>a. ac_id (f a) = ac_id a"
  using accounts.lookup_modify[of f k k' "d_accounts s"] that by simp

text \<open>A refresh succeeds when the token verifies, its row is live and the new ids and hash are free.\<close>

lemma refresh_succeeds:
  assumes "en_verify env (en_refresh_secret env) now tok = Some pl"
    and "find_row rt_token (hash_token env tok) (d_tokens s) = Some r" and "\<not> rt_revoked r" and "now \<le> rt_expires_at r"
    and "find_row ac_id (rt_account r) (d_accounts s) = Some a" and "i \<notin> rt_id ` set (d_tokens s)"
    and "hash_token env (en_sign env (en_refresh_secret env)
            (refresh_payload env now a (effective_mfa a (jp_mfa_verified pl = Some True)))) \<notin> rt_token ` set (d_tokens s)"
  shows "\<exists>p t. refresh_token env now i tok s = (Inr p, t) \<and> tp_role p = ac_role a
    \<and> (\<exists>c. tp_access p = en_sign env (en_access_secret env) c \<and> jp_role c = Some (ac_role a)
         \<and> jp_mfa_verified c = Some (effective_mfa a (jp_mfa_verified pl = Some True)))"
proof -
  let ?s = "revoke_tokens (\<lambda>x. rt_id x = rt_id r) s" and ?v = "jp_mfa_verified pl = Some True"
  have a: "ac_id a = rt_account r" using find_row_SomeD[OF assms(5)] by simp
  have "map rt_id (d_tokens ?s) = map rt_id (d_tokens s)" "map rt_token (d_tokens ?s) = map rt_token (d_tokens s)"
    by (auto simp: revoke_tokens_def update_where_def)
  then have "rt_id ` set (d_tokens ?s) = rt_id ` set (d_tokens s)" "rt_token ` set (d_tokens ?s) = rt_token ` set (d_tokens s)"
    by (metis list.set_map)+
  then obtain p t where g: "generate_tokens env now i a ?v (optional_text (rt_ip r)) (optional_text (rt_device r)) ?s = (Inr p, t)"
    using assms(5-7) a by (simp add: generate_tokens_def insert_token_def Let_def account_exists_def)
  then have "refresh_token env now i tok s = (Inr p, t)"
    using assms(1-5) by (simp add: refresh_token_def Let_def)
  moreover note generate_tokens_ok[OF g]
  moreover have "jp_role (access_payload env now a (effective_mfa a ?v) ?s) = Some (ac_role a)"
    "jp_mfa_verified (access_payload env now a (effective_mfa a ?v) ?s) = Some (effective_mfa a ?v)"
    by (simp_all add: access_payload_def)
  ultimately show ?thesis by blast
qed

lemma blocked_by_mfa_verified: "jp_mfa_verified c = Some True \<Longrightarrow> mfa_enforcement True (Some (jp_role c, jp_mfa_verified c)) url = Inr ()"
  by (auto simp: mfa_enforcement_def)

text \<open>Changing the role of an account does not end its sessions, and a session of a role without second factor is marked as
  verified: a mechanic who is made administrator refreshes the token he had and gets an administrator's token that
  the interceptor lets through on every route, without any one-time code. Terminating an account does not end its
  sessions either: its refresh token still buys new tokens.\<close>

theorem old_session_outlives_change:
  assumes "find_row ac_id k (d_accounts s) = Some a" and "ac_role a \<in> {MECHANIC, TRAINEE}"
    and "find_row rt_token (hash_token env tok) (d_tokens s) = Some r" and "rt_account r = k" and "\<not> rt_revoked r"
    and "now \<le> rt_expires_at r"
    and "en_verify env (en_refresh_secret env) now tok = Some (refresh_payload env before a (effective_mfa a False))"
    and "i \<notin> rt_id ` set (d_tokens s)"
    and "hash_token env (en_sign env (en_refresh_secret env) (refresh_payload env now a True)) \<notin> rt_token ` set (d_tokens s)"
  shows "(\<forall>x t. update_role k UserRole.ADMIN s = (Inr x, t) \<longrightarrow>
        (\<exists>p u c. refresh_token env now i tok t = (Inr p, u) \<and> tp_access p = en_sign env (en_access_secret env) c
           \<and> jp_role c = Some UserRole.ADMIN \<and> (\<forall>url. mfa_enforcement True (Some (jp_role c, jp_mfa_verified c)) url = Inr ())))
    \<and> (\<forall>q t. soft_delete_personnel gone q s = (Inr (), t) \<and> (\<exists>p. find_row pe_id q (d_personnel s) = Some p \<and> pe_account p = k) \<longrightarrow>
        (\<exists>p u. refresh_token env now i tok t = (Inr p, u))
        \<and> (\<exists>b. find_row ac_id k (d_accounts t) = Some b \<and> ac_status b = AccountStatus.TERMINATED))"
proof -
  have v: "jp_mfa_verified (refresh_payload env before a (effective_mfa a False)) = Some True"
    using assms(2) by (auto simp: refresh_payload_def effective_mfa_def privileged_roles_def)
  have id: "ac_id a = k" using find_row_SomeD[OF assms(1)] by simp
  have same: "refresh_payload env now b True = refresh_payload env now a True" if "ac_id b = k" for b
    using that id by (simp add: refresh_payload_def)
  have go: "\<exists>p u. refresh_token env now i tok t = (Inr p, u) \<and> tp_role p = ac_role b
      \<and> (\<exists>c. tp_access p = en_sign env (en_access_secret env) c \<and> jp_role c = Some (ac_role b) \<and> jp_mfa_verified c = Some True)"
    if t: "d_tokens t = d_tokens s" "find_row ac_id k (d_accounts t) = Some b" "ac_id b = k" for t b
    using refresh_succeeds[OF assms(7), of t r b i] assms(3-6,8,9) same[OF t(3)] t v by (simp add: effective_mfa_def)
  show ?thesis
  proof (intro conjI allI impI)
    fix x t assume "update_role k UserRole.ADMIN s = (Inr x, t)"
    then have t: "t = update_account k (\<lambda>a. a\<lparr>ac_role := UserRole.ADMIN\<rparr>) s"
      using assms(1) by (simp add: update_role_def split: if_splits)
    have "find_row ac_id k (d_accounts t) = Some (a\<lparr>ac_role := UserRole.ADMIN\<rparr>)" using assms(1) t by (simp add: find_row_update_row)
    then show "\<exists>p u c. refresh_token env now i tok t = (Inr p, u) \<and> tp_access p = en_sign env (en_access_secret env) c
        \<and> jp_role c = Some UserRole.ADMIN \<and> (\<forall>url. mfa_enforcement True (Some (jp_role c, jp_mfa_verified c)) url = Inr ())"
      using go[of t "a\<lparr>ac_role := UserRole.ADMIN\<rparr>"] t id blocked_by_mfa_verified by auto
  next
    fix q t assume "soft_delete_personnel gone q s = (Inr (), t) \<and> (\<exists>p. find_row pe_id q (d_personnel s) = Some p \<and> pe_account p = k)"
    then have t: "d_tokens t = d_tokens s"
      "find_row ac_id k (d_accounts t) = Some (a\<lparr>ac_status := AccountStatus.TERMINATED, ac_deleted_at := Some gone\<rparr>)"
      using assms(1) by (auto simp: soft_delete_personnel_def update_personnel_row_def find_row_update_row)
    show "\<exists>p u. refresh_token env now i tok t = (Inr p, u)" using go[OF t] id by auto
    show "\<exists>b. find_row ac_id k (d_accounts t) = Some b \<and> ac_status b = AccountStatus.TERMINATED" using t(2) by simp
  qed
qed

definition sample_mechanic_session :: db where
  "sample_mechanic_session = empty_db
     \<lparr>d_accounts := [sample_account ''m1'' MECHANIC],
      d_tokens := [\<lparr>rt_id = ''t1'', rt_token = ''tok'', rt_account = ''m1'', rt_expires_at = 604800000, rt_revoked = False,
                    rt_device = None, rt_ip = None, rt_created_at = 0\<rparr>]\<rparr>"

definition mechanic_env :: auth_env where
  "mechanic_env = sample_env\<lparr>en_verify := (\<lambda>k now t. Some (refresh_payload sample_env 0 (sample_account ''m1'' MECHANIC) True))\<rparr>"

theorem old_session_outlives_change_witness:
  "\<exists>x t p u c. update_role ''m1'' UserRole.ADMIN sample_mechanic_session = (Inr x, t)
     \<and> refresh_token mechanic_env 5 ''t2'' ''tok'' t = (Inr p, u) \<and> tp_access p = en_sign mechanic_env ''A'' c
     \<and> jp_role c = Some UserRole.ADMIN \<and> mfa_enforcement True (Some (jp_role c, jp_mfa_verified c)) ''/api/v1/finance'' = Inr ()"
proof -
  let ?s = sample_mechanic_session
  obtain x t where t: "update_role ''m1'' UserRole.ADMIN ?s = (Inr x, t)"
    by (simp add: update_role_def sample_mechanic_session_def)
  obtain r where r: "find_row rt_token (hash_token mechanic_env ''tok'') (d_tokens ?s) = Some r" "rt_account r = ''m1''"
    "\<not> rt_revoked r" "5 \<le> rt_expires_at r"
    by (simp add: sample_mechanic_session_def hash_token_def mechanic_env_def sample_env_def)
  have a: "find_row ac_id ''m1'' (d_accounts ?s) = Some (sample_account ''m1'' MECHANIC)"
    by (simp add: sample_mechanic_session_def)
  have "\<exists>p u c. refresh_token mechanic_env 5 ''t2'' ''tok'' t = (Inr p, u)
      \<and> tp_access p = en_sign mechanic_env (en_access_secret mechanic_env) c \<and> jp_role c = Some UserRole.ADMIN
      \<and> (\<forall>url. mfa_enforcement True (Some (jp_role c, jp_mfa_verified c)) url = Inr ())"
  proof (rule old_session_outlives_change[OF a _ r(1-4), where before = 0 and i = "''t2''", THEN conjunct1, rule_format, OF _ _ _ _ t])
    show "en_verify mechanic_env (en_refresh_secret mechanic_env) 5 ''tok'' =
        Some (refresh_payload mechanic_env 0 (sample_account ''m1'' MECHANIC) (effective_mfa (sample_account ''m1'' MECHANIC) False))"
      by (simp add: mechanic_env_def refresh_payload_def effective_mfa_def privileged_roles_def)
  qed (simp_all add: sample_mechanic_session_def mechanic_env_def sample_env_def hash_token_def refresh_payload_def)
  moreover have "en_access_secret mechanic_env = ''A''" by (simp add: mechanic_env_def sample_env_def)
  ultimately show ?thesis using t by metis
qed

text \<open>
  The attendance of a month, from the first instant of its day \<open>a\<close> to the last second before its next month's day \<open>b\<close>, is
  read by dates: where the clock of the server is that of UTC it holds the rows of the days of the month, and in every other
  zone those of the first day of the next month too, which the report then counts in both months. No route
  asks for this report yet.
\<close>

theorem month_takes_next_day:
  assumes "attendance_wf tz s" and "60000 dvd tz" and "\<bar>tz\<bar> < 86400000" and "r \<in> set (d_attendance s)" and "at_check_in r = Some x"
    and "get_attendance_month p (a * 86400000 - tz) (b * 86400000 - 1000 - tz) s = Inr (rows, counts)"
  shows "r \<in> set rows \<longleftrightarrow> at_personnel r = p \<and> a \<le> (x + tz) div 86400000
    \<and> (if tz = 0 then (x + tz) div 86400000 < b else (x + tz) div 86400000 \<le> b)"
proof -
  define e where "e = (- tz) div 86400000"
  have "at_date r = date_column (local_midnight tz x)"
    using assms(1,4,5) by (auto simp: attendance_wf_def attendance_ok_def in_day_def)
  then have r: "at_date r = ((x + tz) div 86400000 + e) * 86400000" by (simp add: date_of_midnight e_def)
  have start: "date_column (a * 86400000 - tz) = (a + e) * 86400000"
    by (simp add: date_column_def e_def div_mult_self3 diff_conv_add_uminus del: add_uminus_conv_diff)
  have late: "(- 1000 - tz) div 86400000 = (if tz = 0 then - 1 else e)"
  proof -
    obtain m where m: "tz = 60000 * m" using assms(2) by blast
    have "(- 1000 - tz) div 86400000 = - 1" "(- tz) div 86400000 = - 1" if "0 < m"
      using assms(3) that unfolding m
      by (auto intro!: int_div_pos_eq[where r = "86400000 - 1000 - 60000 * m"] int_div_pos_eq[where r = "86400000 - 60000 * m"])
    then show ?thesis using assms(3) unfolding e_def m by (cases "m = 0"; cases "0 < m") auto
  qed
  have "date_column (b * 86400000 - 1000 - tz) = (b + (- 1000 - tz) div 86400000) * 86400000"
    using div_mult_self3[of 86400000 b "- 1000 - tz"] by (simp add: date_column_def algebra_simps)
  then have stop: "date_column (b * 86400000 - 1000 - tz) = (b + (if tz = 0 then - 1 else e)) * 86400000" using late by simp
  have "e = 0" if "tz = 0" using that by (simp add: e_def)
  then show ?thesis
    using assms(4,6) by (auto simp: get_attendance_month_def Let_def in_range_def start stop r split: if_splits)
qed

theorem month_takes_next_day_witness:
  "\<exists>rows counts x. get_attendance_month ''p1'' (0 * 86400000 + 18000000) (31 * 86400000 - 1000 + 18000000)
      (run_requests (attendance_step (\<lambda>_. None) (- 18000000)) [(31 * 86400000 + 50000000, PersonnelCheckIn ''x1'' ''m1'')] sample_staff)
      = Inr (rows, counts) \<and> x \<in> set rows \<and> at_check_in x = Some (31 * 86400000 + 50000000)"
proof -
  let ?s = "run_requests (attendance_step (\<lambda>_. None) (- 18000000)) [(31 * 86400000 + 50000000, PersonnelCheckIn ''x1'' ''m1'')] sample_staff"
  have wf: "attendance_wf (- 18000000) ?s"
    by (rule attendance_service.run_inv[OF sample_staff_wf])
  obtain x where x: "x \<in> set (d_attendance ?s)" "at_check_in x = Some (31 * 86400000 + 50000000)" "at_personnel x = ''p1''"
    by (simp add: sample_staff_def check_in_by_user_def personnel_check_in_def find_attendance_def insert_attendance_def
        insert_row_def Let_def)
  have "find_row pe_id ''p1'' (d_personnel ?s) \<noteq> None"
    by (simp add: sample_staff_def check_in_by_user_def personnel_check_in_def find_attendance_def insert_attendance_def
        insert_row_def Let_def)
  then obtain rows counts where m: "get_attendance_month ''p1'' (0 * 86400000 - - 18000000) (31 * 86400000 - 1000 - - 18000000) ?s
      = Inr (rows, counts)" by (simp add: get_attendance_month_def Let_def)
  have "x \<in> set rows" using month_takes_next_day[OF wf _ _ x(1,2) m] x(3) by simp
  then show ?thesis using m x(2) by auto
qed

end
