(* ===== verification/AuditTrail.thy ===== *)
theory AuditTrail
  imports Listings Json Samples "HOL-Library.List_Lexorder" "HOL-Library.Char_ord"
begin

text \<open>
  The audit trail: the interceptor that writes an entry for every request that changes something
  (\<open>src/common/interceptors/audit.interceptor.ts\<close>) and the integrity hash of the entries
  (\<open>src/common/crypto/integrity-hash.service.ts\<close>). The HMAC with the key of the server is the parameter \<open>hmac\<close>;
  it is given the JSON value whose text the code hashes.
\<close>

section \<open>Redaction\<close>

definition sensitive_fields :: "string list" where
  "sensitive_fields =
     [''password'', ''token'', ''mfaSecret'', ''passwordHash'', ''refreshToken'', ''accessToken'', ''secret'', ''pin'', ''ssn'']"

definition is_sensitive :: "string \<Rightarrow> bool" where
  "is_sensitive k \<longleftrightarrow> list_ex (\<lambda>f. map lower k = map lower f) sensitive_fields"

definition redacted :: json where
  "redacted = JStr ''***REDACTED***''"

fun sanitize_members :: "(string \<times> json) list \<Rightarrow> (string \<times> json) list" where
  "sanitize_members [] = []"
| "sanitize_members ((k, JObj ns) # ms) =
     (k, if is_sensitive k then redacted else JObj (sanitize_members ns)) # sanitize_members ms"
| "sanitize_members ((k, v) # ms) = (k, if is_sensitive k then redacted else v) # sanitize_members ms"

text \<open>\<open>Object.entries\<close>: of an array, the elements under their indices. Anything else is no object.\<close>

definition entries_of :: "json \<Rightarrow> (string \<times> json) list option" where
  "entries_of j =
     (case j of
        JObj ms \<Rightarrow> Some ms
      | JArr xs \<Rightarrow> Some (map (\<lambda>i. (digits_of i, xs ! i)) [0..<length xs])
      | _ \<Rightarrow> None)"

definition sanitize :: "json option \<Rightarrow> (string \<times> json) list option" where
  "sanitize x = (case x of None \<Rightarrow> None | Some j \<Rightarrow> map_option sanitize_members (entries_of j))"

section \<open>The integrity hash\<close>

text \<open>
  \<open>JSON.stringify\<close> with a list of names: objects, at every depth, keep only the members that are named, in
  the order of the list; arrays keep their elements.
\<close>

definition in_order :: "string list \<Rightarrow> (string \<times> json) list \<Rightarrow> (string \<times> json) list" where
  "in_order allow ms = [(k, v). k \<leftarrow> allow, Some v \<leftarrow> [map_of ms k]]"

primrec pick :: "string list \<Rightarrow> json \<Rightarrow> json" where
  "pick allow JNull = JNull"
| "pick allow (JBool b) = JBool b"
| "pick allow (JNum x) = JNum x"
| "pick allow (JStr t) = JStr t"
| "pick allow (JArr xs) = JArr (map (pick allow) xs)"
| "pick allow (JObj ms) = JObj (in_order allow (map (map_prod id (pick allow)) ms))"

type_synonym entity_state = "(string \<times> json) list option"

definition state_keys :: "entity_state \<Rightarrow> string list" where
  "state_keys x = (case x of None \<Rightarrow> [] | Some ms \<Rightarrow> map fst ms)"

definition state_value :: "entity_state \<Rightarrow> json" where
  "state_value x = (case x of None \<Rightarrow> JNull | Some ms \<Rightarrow> JObj ms)"

datatype mutation_action = CREATED | UPDATED | DELETED

fun action_name :: "mutation_action \<Rightarrow> string" where
  "action_name CREATED = ''CREATE''"
| "action_name UPDATED = ''UPDATE''"
| "action_name DELETED = ''DELETE''"

definition canonical :: "string \<Rightarrow> string \<Rightarrow> mutation_action \<Rightarrow> entity_state \<Rightarrow> entity_state \<Rightarrow> json" where
  "canonical entity entity_id action before after =
     pick (sort (remdups (state_keys before @ state_keys after)))
       (JObj [(''e'', JStr entity), (''id'', JStr entity_id), (''a'', JStr (action_name action)),
              (''b'', state_value before), (''f'', state_value after)])"

definition generate_mutation_hash ::
    "(json \<Rightarrow> string) \<Rightarrow> string \<Rightarrow> string \<Rightarrow> mutation_action \<Rightarrow> entity_state \<Rightarrow> entity_state \<Rightarrow> string" where
  "generate_mutation_hash hmac entity entity_id action before after = hmac (canonical entity entity_id action before after)"

text \<open>\<open>timingSafeEqual\<close> throws for texts of different lengths.\<close>

definition verify_audit_log_integrity ::
    "(json \<Rightarrow> string) \<Rightarrow> string \<Rightarrow> string \<Rightarrow> mutation_action \<Rightarrow> entity_state \<Rightarrow> entity_state \<Rightarrow> string \<Rightarrow> http_error + bool" where
  "verify_audit_log_integrity hmac entity entity_id action before after stored =
     (let expected = generate_mutation_hash hmac entity entity_id action before after
      in if length expected \<noteq> length stored then Inl (DomainError ''RangeError'') else Inr (expected = stored))"

text \<open>\<open>generatePaymentHash\<close>, over a text in which cash and the reference CASH are the same.\<close>

definition generate_payment_hash ::
    "(string \<Rightarrow> string) \<Rightarrow> (number \<Rightarrow> string) \<Rightarrow> string \<Rightarrow> number \<Rightarrow> string \<Rightarrow> string option \<Rightarrow> string" where
  "generate_payment_hash hmac num order amount m reference =
     hmac (order @ '':'' @ num amount @ '':'' @ m @ '':'' @ (case reference of Some r \<Rightarrow> r | None \<Rightarrow> ''CASH''))"

section \<open>The interceptor\<close>

record http_request =
  hr_user :: "(string \<times> UserRole) option"
  hr_method :: string
  hr_url :: string
  hr_body :: "json option"
  hr_params :: "(string \<times> json) list"
  hr_id :: "string option"

record audit_entry =
  ae_row :: audit_row
  ae_before :: entity_state
  ae_after :: entity_state

definition financial_keywords :: "string list" where
  "financial_keywords =
     [''payment'', ''pago'', ''transaction'', ''transaccion'', ''invoice'', ''factura'', ''billing'', ''facturacion'',
      ''refund'', ''reembolso'', ''charge'', ''cobro'', ''finance'', ''cashbox'']"

definition to_mutation_action :: "string \<Rightarrow> mutation_action" where
  "to_mutation_action verb =
     (if verb = ''POST'' then CREATED else if verb = ''DELETE'' then DELETED else UPDATED)"

text \<open>The segment after the one that follows \<open>api\<close>; without \<open>api\<close> the index is -1 and the second is taken.\<close>

definition extract_entity :: "string \<Rightarrow> string" where
  "extract_entity url =
     (let parts = filter (\<lambda>p. p \<noteq> []) (split_on (CHR ''/'') url);
          before = takeWhile (\<lambda>p. p \<noteq> ''api'') parts;
          i = (if length before < length parts then length before + 2 else 1)
      in if i < length parts then parts ! i else ''unknown'')"

definition build_action :: "string \<Rightarrow> string \<Rightarrow> string" where
  "build_action verb url =
     map upper (extract_entity url)
     @ (if verb = ''POST'' then ''_CREATED'' else if verb = ''PATCH'' \<or> verb = ''PUT'' then ''_UPDATED''
        else if verb = ''DELETE'' then ''_DELETED'' else ''_MODIFIED'')"

definition detect_severity :: "string \<Rightarrow> string \<Rightarrow> string \<Rightarrow> AuditSeverity" where
  "detect_severity verb action url =
     (if contains_text ''force-logout'' (map lower url) then SECURITY_ALERT
      else if list_ex (\<lambda>k. contains_text k (map lower url) \<or> contains_text k (map lower action)) financial_keywords
      then CRITICAL
      else if verb = ''DELETE'' \<or> contains_text ''LOGOUT'' action then WARNING
      else if contains_text ''CANCEL'' action then WARNING
      else INFO)"

definition capture_before_state :: "http_request \<Rightarrow> entity_state" where
  "capture_before_state rq =
     (if hr_method rq = ''PATCH'' \<or> hr_method rq = ''PUT'' then sanitize (hr_body rq)
      else if hr_method rq = ''DELETE''
      then (if hr_params rq = [] then None else sanitize (Some (JObj (hr_params rq))))
      else None)"

definition audit_entry_of :: "(json \<Rightarrow> string) \<Rightarrow> http_request \<Rightarrow> audit_entry option" where
  "audit_entry_of hmac rq =
     (case hr_user rq of
        None \<Rightarrow> None
      | Some (user, role) \<Rightarrow>
          if hr_method rq \<in> {''GET'', ''HEAD'', ''OPTIONS''} then None
          else
            let action = build_action (hr_method rq) (hr_url rq);
                entity = extract_entity (hr_url rq);
                before = capture_before_state rq;
                after = (if hr_method rq = ''POST'' then sanitize (hr_body rq) else None);
                hash = generate_mutation_hash hmac entity (case hr_id rq of Some k \<Rightarrow> k | None \<Rightarrow> ''unknown'')
                         (to_mutation_action (hr_method rq)) before after
            in Some \<lparr>ae_row = \<lparr>au_user = user, au_role = role_name role, au_action = action,
                               au_entity = Some entity, au_entity_id = hr_id rq,
                               au_severity = detect_severity (hr_method rq) action (hr_url rq), au_hash = Some hash\<rparr>,
                     ae_before = before, ae_after = after\<rparr>)"

text \<open>The entry is written after the request succeeded; when the write fails the error is only logged.\<close>

definition audit_intercept :: "(json \<Rightarrow> string) \<Rightarrow> http_request \<Rightarrow> (http_error, 'a, db) outcome \<Rightarrow> (http_error, 'a, db) outcome" where
  "audit_intercept hmac rq out =
     (case fst out of
        Inl e \<Rightarrow> out
      | Inr x \<Rightarrow>
          (case audit_entry_of hmac rq of
             None \<Rightarrow> out
           | Some en \<Rightarrow> (Inr x, case audit_create (ae_row en) (snd out) of Inl _ \<Rightarrow> snd out | Inr s \<Rightarrow> s)))"

text \<open>What the metadata of the entry says of the request; the status is that of the answer, when it has one.\<close>

definition critical_routes :: "string list" where
  "critical_routes =
     [''/api/v1/finance'', ''/api/v1/orders'', ''/api/v1/inventory'', ''/api/v1/purchases'', ''/api/v1/payments'']"

definition is_critical_route :: "string \<Rightarrow> bool" where
  "is_critical_route url \<longleftrightarrow> list_ex (\<lambda>r. starts_with (map lower r) (map lower url)) critical_routes"

record audit_metadata =
  am_method :: string
  am_path :: string
  am_correlation :: string
  am_status :: json
  am_critical :: bool

definition audit_metadata_of :: "string option \<Rightarrow> string \<Rightarrow> json \<Rightarrow> http_request \<Rightarrow> audit_metadata" where
  "audit_metadata_of correlation fresh response rq =
     \<lparr>am_method = hr_method rq, am_path = hr_url rq,
      am_correlation = (case correlation of Some c \<Rightarrow> c | None \<Rightarrow> fresh),
      am_status = (case response of
          JObj ms \<Rightarrow> (case map_of ms ''statusCode'' of None \<Rightarrow> JNum (Fin 200) | Some JNull \<Rightarrow> JNum (Fin 200) | Some v \<Rightarrow> v)
        | _ \<Rightarrow> JNum (Fin 200)),
      am_critical = is_critical_route (hr_url rq)\<rparr>"

text \<open>An entry may be critical on a route that is not among the critical ones.\<close>

lemma critical_severity_and_route:
  "detect_severity ''POST'' a ''/api/v1/invoices'' = CRITICAL \<and> \<not> is_critical_route ''/api/v1/invoices''"
  by (simp add: detect_severity_def is_critical_route_def critical_routes_def financial_keywords_def starts_with_def lower_def)

section \<open>What redaction reaches\<close>

text \<open>The members of an object and of the objects inside it; what is inside an array is not among them.\<close>

inductive member_of :: "(string \<times> json) list \<Rightarrow> string \<Rightarrow> json \<Rightarrow> bool" where
  member_here: "(k, v) \<in> set ms \<Longrightarrow> member_of ms k v"
| member_there: "(n, JObj ns) \<in> set ms \<Longrightarrow> member_of ns k v \<Longrightarrow> member_of ms k v"

inductive_cases member_ofE: "member_of ms k v"

lemma member_of_split: "member_of (m # ms) k v \<longleftrightarrow>
    m = (k, v) \<or> (\<exists>n ns. m = (n, JObj ns) \<and> member_of ns k v) \<or> member_of ms k v"
proof
  assume "member_of (m # ms) k v"
  then show "m = (k, v) \<or> (\<exists>n ns. m = (n, JObj ns) \<and> member_of ns k v) \<or> member_of ms k v"
  proof (rule member_ofE)
    assume "(k, v) \<in> set (m # ms)"
    then show ?thesis using member_here[of k v ms] by auto
  next
    fix n ns assume "(n, JObj ns) \<in> set (m # ms)" "member_of ns k v"
    then show ?thesis using member_there[of n ns ms k v] by auto
  qed
next
  assume "m = (k, v) \<or> (\<exists>n ns. m = (n, JObj ns) \<and> member_of ns k v) \<or> member_of ms k v"
  then consider "m = (k, v)" | n ns where "m = (n, JObj ns)" "member_of ns k v" | "member_of ms k v" by blast
  then show "member_of (m # ms) k v"
  proof cases
    case 3
    then show ?thesis by (rule member_ofE) (auto intro: member_of.intros)
  qed (auto intro: member_of.intros)
qed

lemma sanitize_members_redacts:
  "member_of (sanitize_members ms) k v \<Longrightarrow> is_sensitive k \<Longrightarrow> v = redacted"
proof (induction ms rule: sanitize_members.induct)
  case 1
  then show ?case by (auto elim: member_of.cases)
qed (auto simp: member_of_split redacted_def split: if_splits)

lemma sanitize_members_names: "map fst (sanitize_members ms) = map fst ms"
  by (induction ms rule: sanitize_members.induct) simp_all

lemma sanitize_members_keeps:
  "(k, v) \<in> set ms \<Longrightarrow> \<not> is_sensitive k \<Longrightarrow> (\<And>ns. v \<noteq> JObj ns) \<Longrightarrow> (k, v) \<in> set (sanitize_members ms)"
  by (induction ms rule: sanitize_members.induct) auto

text \<open>What is found under the names of a path, from object to object.\<close>

fun at_path :: "json \<Rightarrow> string list \<Rightarrow> json option" where
  "at_path v [] = Some v"
| "at_path (JObj ms) (k # ks) = (case map_of ms k of None \<Rightarrow> None | Some v \<Rightarrow> at_path v ks)"
| "at_path _ (_ # _) = None"

text \<open>Along a path without the name of a secret both have the same values, but that objects are only known by their names.\<close>

definition same_but_secrets :: "(string \<times> json) list \<Rightarrow> (string \<times> json) list \<Rightarrow> bool" where
  "same_but_secrets ms kept \<longleftrightarrow>
     (\<forall>ks. list_all (\<lambda>k. \<not> is_sensitive k) ks \<longrightarrow>
        (\<forall>v. (\<forall>ns. v \<noteq> JObj ns) \<longrightarrow> at_path (JObj kept) ks = Some v \<longleftrightarrow> at_path (JObj ms) ks = Some v)
        \<and> (\<forall>names. (\<exists>ns. at_path (JObj kept) ks = Some (JObj ns) \<and> map fst ns = names)
             \<longleftrightarrow> (\<exists>ns. at_path (JObj ms) ks = Some (JObj ns) \<and> map fst ns = names)))"

definition cleaned :: "json \<Rightarrow> json" where
  "cleaned v = (case v of JObj ns \<Rightarrow> JObj (sanitize_members ns) | _ \<Rightarrow> v)"

lemma map_of_sanitize:
  "map_of (sanitize_members ms) k = map_option (\<lambda>v. if is_sensitive k then redacted else cleaned v) (map_of ms k)"
  by (induction ms rule: sanitize_members.induct) (simp_all add: cleaned_def)

lemma at_path_leaf: "(\<And>ms. v \<noteq> JObj ms) \<Longrightarrow> at_path v ks = (if ks = [] then Some v else None)"
  by (cases ks; cases v) auto

lemma sanitize_at_path:
  "list_all (\<lambda>k. \<not> is_sensitive k) ks \<Longrightarrow> at_path (JObj (sanitize_members ms)) ks = map_option cleaned (at_path (JObj ms) ks)"
proof (induction ks arbitrary: ms)
  case (Cons k ks)
  show ?case
  proof (cases "map_of ms k")
    case (Some v)
    then show ?thesis
      using Cons by (cases v) (simp_all add: map_of_sanitize cleaned_def at_path_leaf)
  qed (simp add: map_of_sanitize)
qed (simp add: cleaned_def)

lemma cleaned_leaf: "(\<forall>ns. v \<noteq> JObj ns) \<Longrightarrow> cleaned w = v \<longleftrightarrow> w = v"
  by (cases w) (auto simp: cleaned_def split: json.splits)

lemma sanitize_same_but_secrets: "same_but_secrets ms (sanitize_members ms)"
  unfolding same_but_secrets_def
proof (intro allI impI conjI)
  fix ks names assume "list_all (\<lambda>k. \<not> is_sensitive k) ks"
  note p = sanitize_at_path[OF this, of ms]
  show "at_path (JObj (sanitize_members ms)) ks = Some v \<longleftrightarrow> at_path (JObj ms) ks = Some v" if "\<forall>ns. v \<noteq> JObj ns" for v
    using cleaned_leaf[OF that] by (cases "at_path (JObj ms) ks") (simp_all add: p)
  have obj: "cleaned w = JObj ns \<longleftrightarrow> (\<exists>ns'. w = JObj ns' \<and> ns = sanitize_members ns')" for w ns
    by (cases w) (auto simp: cleaned_def)
  show "(\<exists>ns. at_path (JObj (sanitize_members ms)) ks = Some (JObj ns) \<and> map fst ns = names)
      \<longleftrightarrow> (\<exists>ns. at_path (JObj ms) ks = Some (JObj ns) \<and> map fst ns = names)"
    by (auto simp: p obj sanitize_members_names)
qed

lemma audit_entry_state:
  assumes "audit_entry_of hmac rq = Some en" and "Some ms \<in> {ae_before en, ae_after en}"
  obtains ns where "ms = sanitize_members ns"
proof -
  have "ae_before en = capture_before_state rq"
    "ae_after en = (if hr_method rq = ''POST'' then sanitize (hr_body rq) else None)"
    using assms(1) by (auto simp: audit_entry_of_def Let_def split: option.splits if_splits)
  then obtain x where "Some ms = sanitize x"
    using assms(2) by (cases "hr_method rq = ''POST''") (auto simp: capture_before_state_def split: if_splits)
  then have "sanitize x = Some ms" by simp
  then show thesis using that by (auto simp: sanitize_def split: option.splits)
qed

section \<open>What the hash binds\<close>

definition hash_names :: "string set" where
  "hash_names = {''e'', ''a'', ''b'', ''f''}"

lemma in_order_id:
  assumes "set allow \<inter> hash_names = {}" and "distinct allow"
  shows "in_order allow [(''e'', e), (''id'', i), (''a'', a), (''b'', b), (''f'', f)] =
    (if ''id'' \<in> set allow then [(''id'', i)] else [])"
proof -
  let ?ms = "[(''e'', e), (''id'', i), (''a'', a), (''b'', b), (''f'', f)]"
  have m: "map_of ?ms k = (if k = ''id'' then Some i else None)" if "k \<in> set allow" for k
    using that assms(1) by (auto simp: hash_names_def)
  have "in_order ks ?ms = map (\<lambda>k. (k, i)) (filter (\<lambda>k. k = ''id'') ks)" if "set ks \<subseteq> set allow" for ks
    using that
  proof (induction ks)
    case (Cons k ks)
    then have "map_of ?ms k = (if k = ''id'' then Some i else None)" by (intro m) simp
    then show ?case using Cons by (cases "k = ''id''") (simp_all add: in_order_def del: map_of.simps)
  qed (simp add: in_order_def)
  moreover have "filter (\<lambda>k. k = ''id'') ks = (if ''id'' \<in> set ks then [''id''] else [])" if "distinct ks" for ks
    using that by (induction ks) auto
  ultimately show ?thesis using assms(2) by auto
qed

lemma canonical_id:
  assumes "(set (state_keys before) \<union> set (state_keys after)) \<inter> hash_names = {}"
  shows "canonical entity entity_id action before after =
     JObj (if ''id'' \<in> set (state_keys before) \<union> set (state_keys after) then [(''id'', JStr entity_id)] else [])"
proof -
  let ?allow = "sort (remdups (state_keys before @ state_keys after))"
  have "set ?allow \<inter> hash_names = {}" "distinct ?allow" using assms by auto
  then show ?thesis by (simp add: canonical_def in_order_id)
qed

section \<open>Properties\<close>

text \<open>C33. In the states an audit entry keeps, at whatever depth of objects, a member with the name of a secret is redacted. Everything
  that is reached without such a name, at any depth, is in the entry as it came and nothing else is: of the body of a creation in the
  state after it, of the body of an update and of the parameters of a removal in the state before it. An array counts as a value: a secret
  inside one is stored as it came.\<close>

theorem audit_redacts_secrets:
  assumes "audit_entry_of hmac rq = Some en"
  shows "(\<forall>ms k v. Some ms \<in> {ae_before en, ae_after en} \<and> member_of ms k v \<and> is_sensitive k \<longrightarrow> v = redacted)
    \<and> (\<forall>body. hr_method rq = ''POST'' \<and> hr_body rq = Some (JObj body) \<longrightarrow>
         ae_before en = None \<and> (\<exists>kept. ae_after en = Some kept \<and> same_but_secrets body kept))
    \<and> (\<forall>body. hr_method rq \<in> {''PATCH'', ''PUT''} \<and> hr_body rq = Some (JObj body) \<longrightarrow>
         ae_after en = None \<and> (\<exists>kept. ae_before en = Some kept \<and> same_but_secrets body kept))
    \<and> (hr_method rq = ''DELETE'' \<longrightarrow>
         ae_after en = None \<and> (hr_params rq \<noteq> [] \<longrightarrow> (\<exists>kept. ae_before en = Some kept \<and> same_but_secrets (hr_params rq) kept)))"
proof -
  have states: "ae_before en = capture_before_state rq"
    "ae_after en = (if hr_method rq = ''POST'' then sanitize (hr_body rq) else None)"
    using assms by (auto simp: audit_entry_of_def Let_def split: option.splits if_splits)
  have "v = redacted" if "Some ms \<in> {ae_before en, ae_after en}" "member_of ms k v" "is_sensitive k" for ms k v
    using audit_entry_state[OF assms that(1)] sanitize_members_redacts that(2,3) by metis
  then show ?thesis
    using sanitize_same_but_secrets
    by (auto simp: states capture_before_state_def sanitize_def entries_of_def)
qed

definition sample_request :: http_request where
  "sample_request =
     \<lparr>hr_user = Some (''a1'', UserRole.OWNER), hr_method = ''POST'', hr_url = ''/api/v1/auth/register'',
      hr_body = Some (JObj [(''Password'', JStr ''p''), (''owner'', JObj [(''name'', JStr ''n''), (''token'', JStr ''t'')]),
        (''list'', JArr [JObj [(''pin'', JStr ''1'')]])]),
      hr_params = [], hr_id = None\<rparr>"

theorem audit_redacts_secrets_witness:
  "\<exists>en kept. audit_entry_of (\<lambda>_. ''h'') sample_request = Some en \<and> ae_after en = Some kept
     \<and> at_path (JObj kept) [''owner'', ''name''] = Some (JStr ''n'')
     \<and> at_path (JObj kept) [''list''] = Some (JArr [JObj [(''pin'', JStr ''1'')]])"
proof -
  obtain en where en: "audit_entry_of (\<lambda>_. ''h'') sample_request = Some en"
    by (simp add: audit_entry_of_def sample_request_def Let_def)
  let ?body = "[(''Password'', JStr ''p''), (''owner'', JObj [(''name'', JStr ''n''), (''token'', JStr ''t'')]),
    (''list'', JArr [JObj [(''pin'', JStr ''1'')]])]"
  obtain kept where kept: "ae_after en = Some kept" "same_but_secrets ?body kept"
    using audit_redacts_secrets[OF en] by (auto simp: sample_request_def)
  have n: "list_all (\<lambda>k. \<not> is_sensitive k) [''owner'', ''name'']" "list_all (\<lambda>k. \<not> is_sensitive k) [''list'']"
    by (simp_all add: is_sensitive_def sensitive_fields_def lower_def)
  have "at_path (JObj kept) [''owner'', ''name''] = Some (JStr ''n'')"
    using kept(2) n(1) unfolding same_but_secrets_def by fastforce
  moreover have "at_path (JObj kept) [''list''] = Some (JArr [JObj [(''pin'', JStr ''1'')]])"
    using kept(2) n(2) unfolding same_but_secrets_def by fastforce
  ultimately show ?thesis using en kept(1) by blast
qed

text \<open>C40. The integrity hash of an entry whose states have no member named e, a, b or f is computed from nothing but the
  identifier, and only if some member is named id: two such entries with the same identifier have the same hash
  whatever the entity, the action and the states are, and the check accepts any of them in place of the other.\<close>

theorem integrity_hash_binds_id_only:
  assumes "(set (state_keys before) \<union> set (state_keys after)) \<inter> {''e'', ''a'', ''b'', ''f''} = {}"
    and "(set (state_keys before') \<union> set (state_keys after')) \<inter> {''e'', ''a'', ''b'', ''f''} = {}"
    and "(''id'' \<in> set (state_keys before) \<union> set (state_keys after)) =
           (''id'' \<in> set (state_keys before') \<union> set (state_keys after'))"
    and "''id'' \<in> set (state_keys before) \<union> set (state_keys after) \<longrightarrow> entity_id = entity_id'"
  shows "generate_mutation_hash hmac entity entity_id action before after =
      generate_mutation_hash hmac entity' entity_id' action' before' after'
    \<and> verify_audit_log_integrity hmac entity' entity_id' action' before' after'
        (generate_mutation_hash hmac entity entity_id action before after) = Inr True"
proof -
  have "canonical entity entity_id action before after = canonical entity' entity_id' action' before' after'"
    using assms canonical_id[of before after, unfolded hash_names_def] canonical_id[of before' after', unfolded hash_names_def]
    by auto
  then show ?thesis by (simp add: generate_mutation_hash_def verify_audit_log_integrity_def)
qed

theorem integrity_hash_binds_id_only_witness:
  "\<forall>hmac. verify_audit_log_integrity hmac ''expenses'' ''x9'' UPDATED (Some [(''amount'', JStr ''9999'')]) None
     (generate_mutation_hash hmac ''payments'' ''p1'' CREATED None (Some [(''amount'', JStr ''10'')])) = Inr True"
  using integrity_hash_binds_id_only[of None "Some [(''amount'', JStr ''10'')]" "Some [(''amount'', JStr ''9999'')]" None
      "''p1''" "''x9''"] by (simp add: state_keys_def)

end
