(* ===== verification/Masking.thy ===== *)
theory Masking
  imports Schema
begin

text \<open>
  The interceptor that hides the data of clients from mechanics, \<open>src/common/interceptors/data-masking.interceptor.ts\<close>.
  It runs on the values the services answer, which are not yet JSON: \<open>VDate\<close> and \<open>VDecimal\<close> are the objects of
  dates and of decimal columns. Their own members, which spreading copies, are none for a date; for a decimal
  they are those of the decimal library, the parameter \<open>own\<close>.
\<close>

datatype js_value =
    VNull
  | VUndefined
  | VBool bool
  | VNum number
  | VStr string
  | VArr "js_value list"
  | VObj "(string \<times> js_value) list"
  | VDate int
  | VDecimal int

definition masked_fields :: "string list" where
  "masked_fields =
     [''phone'', ''email'', ''address'', ''dni'', ''ruc'', ''phone2'', ''creditLimit'', ''creditBalance'']"

fun js_truthy :: "js_value \<Rightarrow> bool" where
  "js_truthy VNull = False"
| "js_truthy VUndefined = False"
| "js_truthy (VBool b) = b"
| "js_truthy (VNum x) = (case x of Fin q \<Rightarrow> q \<noteq> 0 | PosInf \<Rightarrow> True | NegInf \<Rightarrow> True | NaN \<Rightarrow> False)"
| "js_truthy (VStr t) = (t \<noteq> [])"
| "js_truthy _ = True"

definition indexed :: "js_value list \<Rightarrow> (string \<times> js_value) list" where
  "indexed xs = map (\<lambda>i. (digits_of i, xs ! i)) [0..<length xs]"

definition hide_fields :: "(string \<times> js_value) list \<Rightarrow> (string \<times> js_value) list" where
  "hide_fields ms = filter (\<lambda>m. fst m \<notin> set masked_fields) ms"

primrec weight :: "js_value \<Rightarrow> nat" where
  "weight VNull = 1"
| "weight VUndefined = 1"
| "weight (VBool b) = 1"
| "weight (VNum x) = 1"
| "weight (VStr t) = 1"
| "weight (VArr xs) = 1 + length xs + sum_list (map weight xs)"
| "weight (VObj ms) = 1 + length ms + sum_list (map snd (map (map_prod id weight) ms))"
| "weight (VDate t) = 1"
| "weight (VDecimal n) = 1"

definition members_weight :: "(string \<times> js_value) list \<Rightarrow> nat" where
  "members_weight ms = length ms + sum_list (map (\<lambda>m. weight (snd m)) ms)"

lemma weight_VObj: "weight (VObj ms) = Suc (members_weight ms)"
  by (simp add: members_weight_def comp_def)

lemma members_weight_Cons [simp]: "members_weight (m # ms) = Suc (weight (snd m) + members_weight ms)"
  by (simp add: members_weight_def)

lemma members_weight_hide: "members_weight (hide_fields ms) \<le> members_weight ms"
  by (induction ms) (simp_all add: hide_fields_def members_weight_def)

lemma members_weight_indexed: "members_weight (indexed xs) = length xs + sum_list (map weight xs)"
proof -
  have "map (\<lambda>m. weight (snd m)) (indexed xs) = map weight xs"
    by (rule nth_equalityI) (simp_all add: indexed_def)
  then show ?thesis by (simp add: members_weight_def indexed_def)
qed

text \<open>
  \<open>maskObject\<close>, and what a member named \<open>client\<close> becomes: its members are copied without the fields, then
  masked in turn. The members of a text, of a date and of a decimal hold no objects with a client.
\<close>

function mask_object :: "(int \<Rightarrow> (string \<times> js_value) list) \<Rightarrow> js_value \<Rightarrow> js_value"
  and mask_client :: "(int \<Rightarrow> (string \<times> js_value) list) \<Rightarrow> js_value \<Rightarrow> js_value"
  and mask_members :: "(int \<Rightarrow> (string \<times> js_value) list) \<Rightarrow> (string \<times> js_value) list \<Rightarrow> (string \<times> js_value) list"
  and mask_list :: "(int \<Rightarrow> (string \<times> js_value) list) \<Rightarrow> js_value list \<Rightarrow> js_value list" where
  "mask_object own v =
     (case v of
        VArr xs \<Rightarrow> VArr (mask_list own xs)
      | VObj ms \<Rightarrow> VObj (mask_members own ms)
      | VDate t \<Rightarrow> VObj []
      | VDecimal n \<Rightarrow> VObj (own n)
      | _ \<Rightarrow> v)"
| "mask_client own v =
     (case v of
        VArr xs \<Rightarrow> VObj (mask_members own (indexed xs))
      | VObj ms \<Rightarrow> VObj (mask_members own (hide_fields ms))
      | VStr t \<Rightarrow> VObj (indexed (map (\<lambda>c. VStr [c]) t))
      | VDecimal n \<Rightarrow> VObj (hide_fields (own n))
      | _ \<Rightarrow> VObj [])"
| "mask_members own [] = []"
| "mask_members own ((k, v) # ms) =
     (k, if k = ''client'' \<and> js_truthy v then mask_client own v else mask_object own v) # mask_members own ms"
| "mask_list own [] = []"
| "mask_list own (x # xs) = mask_object own x # mask_list own xs"
  by pat_completeness auto
termination
  by (relation "measure (case_sum (case_sum (\<lambda>(_, v). weight v) (\<lambda>(_, v). weight v))
        (case_sum (\<lambda>(_, ms). members_weight ms) (\<lambda>(_, xs). length xs + sum_list (map weight xs))))")
    (simp_all add: weight_VObj members_weight_indexed le_imp_less_Suc members_weight_hide del: weight.simps(7))

definition mask_intercept :: "(int \<Rightarrow> (string \<times> js_value) list) \<Rightarrow> UserRole option \<Rightarrow> js_value \<Rightarrow> js_value" where
  "mask_intercept own role v =
     (if role = Some MECHANIC \<or> role = Some TRAINEE then mask_object own v else v)"

section \<open>What stays visible\<close>

text \<open>Somewhere in the value an object is the client of another and has a member with the name.\<close>

inductive shows_client :: "js_value \<Rightarrow> string \<Rightarrow> bool" where
  client_member: "(''client'', VObj ns) \<in> set ms \<Longrightarrow> f \<in> fst ` set ns \<Longrightarrow> shows_client (VObj ms) f"
| inner_member: "(k, v) \<in> set ms \<Longrightarrow> shows_client v f \<Longrightarrow> shows_client (VObj ms) f"
| inner_element: "x \<in> set xs \<Longrightarrow> shows_client x f \<Longrightarrow> shows_client (VArr xs) f"

inductive_cases shows_objE: "shows_client (VObj ms) f"
inductive_cases shows_arrE: "shows_client (VArr xs) f"
inductive_simps shows_simps [simp]:
  "shows_client VNull f" "shows_client VUndefined f" "shows_client (VBool b) f" "shows_client (VNum x) f"
  "shows_client (VStr t) f" "shows_client (VDate d) f" "shows_client (VDecimal n) f"

text \<open>What is relied on of the decimals: their members are texts and numbers or lists of them, none named client.\<close>

definition plain_fields :: "(int \<Rightarrow> (string \<times> js_value) list) \<Rightarrow> bool" where
  "plain_fields own \<longleftrightarrow>
     (\<forall>n. \<forall>(k, v) \<in> set (own n). k \<noteq> ''client'' \<and> (\<forall>f. \<not> shows_client v f))"

lemma members_hidden:
  "\<not> shows_client (VObj ms) f \<longleftrightarrow>
     (\<forall>(k, v) \<in> set ms. \<not> shows_client v f \<and> (k = ''client'' \<longrightarrow> (\<forall>ns. v = VObj ns \<longrightarrow> f \<notin> fst ` set ns)))"
  by (fastforce intro: shows_client.intros elim: shows_objE)

lemma elements_hidden: "\<not> shows_client (VArr xs) f \<longleftrightarrow> (\<forall>x \<in> set xs. \<not> shows_client x f)"
  by (auto intro: shows_client.intros elim: shows_arrE)

lemma mask_members_names: "map fst (mask_members own ms) = map fst ms"
proof (induction ms)
  case (Cons m ms)
  then show ?case by (cases m) simp
qed simp

lemma mask_members_name_set: "fst ` set (mask_members own ms) = fst ` set ms"
  using arg_cong[OF mask_members_names, of set] by simp

lemma digits_are_digits: "c \<in> set (digits_of n) \<Longrightarrow> c \<in> char_of ` {48..<58::nat}"
proof -
  have "c \<in> set (digits_fuel k m) \<Longrightarrow> c \<in> char_of ` {48..<58::nat}" for k m
  proof (induction k arbitrary: m)
    case (Suc k)
    have "m mod 10 < 10" by simp
    then have "48 + m mod 10 \<in> {48..<58::nat}" by simp
    then show ?case using Suc by (auto split: if_splits)
  qed simp
  then show "c \<in> set (digits_of n) \<Longrightarrow> c \<in> char_of ` {48..<58::nat}" unfolding digits_of_def by blast
qed

lemma index_not_masked: "f \<in> set masked_fields \<Longrightarrow> f \<notin> fst ` set (indexed xs)"
proof
  assume f: "f \<in> set masked_fields" "f \<in> fst ` set (indexed xs)"
  then obtain i where i: "f = digits_of i" by (auto simp: indexed_def)
  have "\<forall>x \<in> set masked_fields. x \<noteq> [] \<and> 96 < (of_char (hd x) :: nat)" by (simp add: masked_fields_def)
  then have "f \<noteq> []" "96 < (of_char (hd f) :: nat)" using f(1) by auto
  moreover have "hd f \<in> char_of ` {48..<58::nat}" if "f \<noteq> []" using digits_are_digits[of "hd f" i] that i by simp
  ultimately show False by auto
qed

lemma plain_fields_hidden: "plain_fields own \<Longrightarrow> set ms \<subseteq> set (own n) \<Longrightarrow> \<not> shows_client (VObj ms) f"
  unfolding members_hidden plain_fields_def by blast

lemma masked_hides:
  assumes "plain_fields own" and "f \<in> set masked_fields"
  shows "\<not> shows_client (mask_object own v) f"
    and "\<not> shows_client (mask_client own v) f \<and> (\<forall>ns. mask_client own v = VObj ns \<longrightarrow> f \<notin> fst ` set ns)"
    and "\<forall>(k, v) \<in> set (mask_members own ms). \<not> shows_client v f \<and> (k = ''client'' \<longrightarrow> (\<forall>ns. v = VObj ns \<longrightarrow> f \<notin> fst ` set ns))"
    and "\<forall>x \<in> set (mask_list own xs). \<not> shows_client x f"
  using assms
proof (induction own v and own v and own ms and own xs rule: mask_object_mask_client_mask_members_mask_list.induct)
  case (1 own v)
  then show ?case
  proof (cases v)
    case (VArr xs)
    then show ?thesis using 1(1)[OF VArr 1(3,4)] by (simp add: elements_hidden)
  next
    case (VObj ms)
    then show ?thesis using 1(2)[OF VObj 1(3,4)] by (simp add: members_hidden)
  next
    case (VDecimal n)
    then show ?thesis using plain_fields_hidden[OF 1(3), of "own n" n f] by simp
  qed (auto simp: members_hidden)
next
  case (2 own v)
  then show ?case
  proof (cases v)
    case (VArr xs)
    then show ?thesis using 2 index_not_masked by (simp add: members_hidden mask_members_name_set)
  next
    case (VObj ms)
    have "f \<notin> fst ` set (hide_fields ms)" using 2(4) by (auto simp: hide_fields_def)
    then show ?thesis using VObj 2 by (simp add: members_hidden mask_members_name_set)
  next
    case (VStr t)
    have "\<not> shows_client (VObj (indexed (map (\<lambda>c. VStr [c]) t))) f" by (auto simp: members_hidden indexed_def)
    then show ?thesis using VStr 2(4) index_not_masked by simp
  next
    case (VDecimal n)
    have "f \<notin> fst ` set (hide_fields (own n))" using 2(4) by (auto simp: hide_fields_def)
    moreover have "\<not> shows_client (VObj (hide_fields (own n))) f"
      using 2(3) by (rule plain_fields_hidden[of _ _ n]) (auto simp: hide_fields_def)
    ultimately show ?thesis using VDecimal by simp
  qed (auto simp: members_hidden)
next
  case (4 own k v ms)
  have "(\<forall>ns. mask_object own v \<noteq> VObj ns)" if "\<not> js_truthy v" using that by (cases v) auto
  then show ?case using 4 by (auto split: if_splits)
qed simp_all

text \<open>Every date of an object that is masked becomes an empty object, since it is copied member by member.\<close>

lemma mask_empties_dates: "(k, VDate t) \<in> set ms \<Longrightarrow> (k, VObj []) \<in> set (mask_members own ms)"
  by (induction ms) auto

lemma mask_intercept_hides:
  assumes "plain_fields own" and "r = MECHANIC \<or> r = TRAINEE"
  shows "\<forall>f \<in> set masked_fields. \<not> shows_client (mask_intercept own (Some r) v) f"
    and "(k, VDate t) \<in> set ms \<Longrightarrow> \<exists>ns. mask_intercept own (Some r) (VObj ms) = VObj ns \<and> (k, VObj []) \<in> set ns"
  using assms masked_hides(1)[OF assms(1)] mask_empties_dates[of k t ms own] by (auto simp: mask_intercept_def)

end
