(* ===== verification/Settings.thy ===== *)
theory Settings
  imports Listings "HOL-Library.List_Lexorder"
begin

text \<open>
  The settings, \<open>src/modules/settings/settings.service.ts\<close>: a table of texts under unique keys, and the proof that
  its operations are those of a finite map.
\<close>

section \<open>The service\<close>

definition get_all_settings :: "db \<Rightarrow> setting_row list" where
  "get_all_settings s = sort_key (\<lambda>r. map (of_char :: char \<Rightarrow> nat) (se_category r)) (d_settings s)"

definition settings_by_category :: "string \<Rightarrow> db \<Rightarrow> setting_row list" where
  "settings_by_category c s =
     sort_key (\<lambda>r. map (of_char :: char \<Rightarrow> nat) (se_key r)) (filter (\<lambda>r. se_category r = c) (d_settings s))"

definition get_setting :: "string \<Rightarrow> db \<Rightarrow> http_error + setting_row" where
  "get_setting k s =
     (case find_row se_key k (d_settings s) of
        None \<Rightarrow> Inl (NotFound ''Configuracion no encontrada'')
      | Some r \<Rightarrow> Inr r)"

definition write_setting :: "string \<Rightarrow> string \<Rightarrow> string option \<Rightarrow> db \<Rightarrow> db" where
  "write_setting k v user s =
     s\<lparr>d_settings := update_row se_key k
         (\<lambda>r. r\<lparr>se_value := v, se_updated_by := (case user of Some u \<Rightarrow> Some u | None \<Rightarrow> se_updated_by r)\<rparr>) (d_settings s)\<rparr>"

definition add_setting :: "setting_row \<Rightarrow> db \<Rightarrow> db" where
  "add_setting r s = s\<lparr>d_settings := insert_row r (d_settings s)\<rparr>"

definition set_setting :: "string \<Rightarrow> string \<Rightarrow> string option \<Rightarrow> db \<Rightarrow> unit answer" where
  "set_setting k v user s =
     (case find_row se_key k (d_settings s) of
        Some r \<Rightarrow> (Inr (), write_setting k v user s)
      | None \<Rightarrow>
          (Inr (), add_setting \<lparr>se_key = k, se_value = v, se_category = ''GENERAL'', se_public = False, se_updated_by = user\<rparr> s))"

definition create_setting ::
    "string \<Rightarrow> string \<Rightarrow> string option \<Rightarrow> bool option \<Rightarrow> string option \<Rightarrow> db \<Rightarrow> unit answer" where
  "create_setting k v category public user s =
     (if find_row se_key k (d_settings s) \<noteq> None
      then (Inl (Conflict ''Ya existe una configuracion con esa clave''), s)
      else (Inr (), add_setting \<lparr>se_key = k, se_value = v,
                                 se_category = (case category of Some c \<Rightarrow> c | None \<Rightarrow> ''GENERAL''),
                                 se_public = (case public of Some b \<Rightarrow> b | None \<Rightarrow> False), se_updated_by = user\<rparr> s))"

definition update_setting :: "string \<Rightarrow> string \<Rightarrow> string option \<Rightarrow> db \<Rightarrow> unit answer" where
  "update_setting k v user s =
     (if find_row se_key k (d_settings s) = None then (Inl (NotFound ''Configuracion no encontrada''), s)
      else (Inr (), write_setting k v user s))"

definition delete_setting :: "string \<Rightarrow> db \<Rightarrow> unit answer" where
  "delete_setting k s =
     (if find_row se_key k (d_settings s) = None then (Inl (NotFound ''Configuracion no encontrada''), s)
      else (Inr (), s\<lparr>d_settings := filter (\<lambda>r. se_key r \<noteq> k) (d_settings s)\<rparr>))"

datatype setting_request =
    SetSetting string string "string option"
  | CreateSetting string string "string option" "bool option" "string option"
  | UpdateSetting string string "string option"
  | DeleteSetting string

fun setting_step :: "setting_request \<Rightarrow> db \<Rightarrow> unit answer" where
  "setting_step (SetSetting k v u) s = set_setting k v u s"
| "setting_step (CreateSetting k v c b u) s = create_setting k v c b u s"
| "setting_step (UpdateSetting k v u) s = update_setting k v u s"
| "setting_step (DeleteSetting k) s = delete_setting k s"

section \<open>The abstract map\<close>

text \<open>What a reader of the settings sees, and the operations on it: an operation that is refused leaves the map.\<close>

definition settings_map :: "db \<Rightarrow> string \<rightharpoonup> string" where
  "settings_map s k = map_option se_value (find_row se_key k (d_settings s))"

fun map_step :: "setting_request \<Rightarrow> (string \<rightharpoonup> string) \<Rightarrow> bool \<times> (string \<rightharpoonup> string)" where
  "map_step (SetSetting k v _) m = (True, m(k \<mapsto> v))"
| "map_step (CreateSetting k v _ _ _) m = (if m k = None then (True, m(k \<mapsto> v)) else (False, m))"
| "map_step (UpdateSetting k v _) m = (if m k = None then (False, m) else (True, m(k \<mapsto> v)))"
| "map_step (DeleteSetting k) m = (if m k = None then (False, m) else (True, m(k := None)))"

primrec map_run :: "setting_request list \<Rightarrow> (string \<rightharpoonup> string) \<Rightarrow> (string \<rightharpoonup> string)" where
  "map_run [] m = m"
| "map_run (q # qs) m = map_run qs (snd (map_step q m))"

lemma find_row_filter: "find_row key k (filter (\<lambda>r. key r \<noteq> k') rows) = (if k = k' then None else find_row key k rows)"
  by (induction rows) auto

interpretation settings: repository "find_row se_key" "update_row se_key" insert_row se_key
  by (rule repository_list)

lemma settings_map_write:
  "settings_map s k \<noteq> None \<Longrightarrow> settings_map (write_setting k v u s) = (settings_map s)(k \<mapsto> v)"
  by (rule ext) (auto simp: settings_map_def write_setting_def settings.lookup_modify option.map_comp comp_def split: option.splits)

lemma settings_map_add:
  "settings_map s (se_key r) = None \<Longrightarrow> settings_map (add_setting r s) = (settings_map s)(se_key r \<mapsto> se_value r)"
  by (rule ext) (auto simp: settings_map_def add_setting_def settings.lookup_create split: option.splits)

lemma settings_map_delete:
  "settings_map (s\<lparr>d_settings := filter (\<lambda>r. se_key r \<noteq> k) (d_settings s)\<rparr>) = (settings_map s)(k := None)"
  by (rule ext) (simp add: settings_map_def find_row_filter)

lemma settings_map_None: "(settings_map s k = None) = (find_row se_key k (d_settings s) = None)"
  by (simp add: settings_map_def)

lemma setting_step_simulates:
  "map_step q (settings_map s) = (is_ok (setting_step q s), settings_map (snd (setting_step q s)))"
proof (cases q)
  case (SetSetting k v u)
  then show ?thesis
    by (cases "find_row se_key k (d_settings s)")
      (simp_all add: set_setting_def is_ok_def settings_map_write settings_map_add settings_map_None)
next
  case (CreateSetting k v c b u)
  then show ?thesis
    by (cases "find_row se_key k (d_settings s)")
      (simp_all add: create_setting_def is_ok_def settings_map_add settings_map_None)
next
  case (UpdateSetting k v u)
  then show ?thesis
    by (cases "find_row se_key k (d_settings s)")
      (simp_all add: update_setting_def is_ok_def settings_map_write settings_map_None)
next
  case (DeleteSetting k)
  then show ?thesis
    by (cases "find_row se_key k (d_settings s)")
      (simp_all add: delete_setting_def is_ok_def settings_map_delete settings_map_None)
qed

definition unique_settings :: "db \<Rightarrow> bool" where
  "unique_settings s \<longleftrightarrow> distinct (map se_key (d_settings s))"

lemma distinct_map_filter_keys: "distinct (map f xs) \<Longrightarrow> distinct (map f (filter p xs))"
  by (induction xs) auto

lemma write_setting_keys: "map se_key (d_settings (write_setting k v u s)) = map se_key (d_settings s)"
  by (simp add: write_setting_def)

lemma setting_step_unique: "unique_settings s \<Longrightarrow> unique_settings (snd (setting_step q s))"
  by (cases q)
    (auto simp: set_setting_def create_setting_def update_setting_def delete_setting_def unique_settings_def
      write_setting_keys add_setting_def find_row_None_iff distinct_map_filter_keys insert_row_def split: option.splits)

interpretation settings_service: invariant_service setting_step unique_settings
  by unfold_locales (rule setting_step_unique)

section \<open>Properties\<close>

text \<open>C36. The settings implement a map from keys to values: every request succeeds exactly when it does on the map, and after
  any run of requests what is read under each key is what the map run with the same requests holds, with each
  key on one row.\<close>

theorem settings_refine_map:
  assumes "unique_settings s"
  shows "settings_map (run_requests setting_step qs s) = map_run qs (settings_map s)
    \<and> unique_settings (run_requests setting_step qs s)
    \<and> (\<forall>q. is_ok (setting_step q s) = fst (map_step q (settings_map s)))
    \<and> (\<forall>k. (case get_setting k (run_requests setting_step qs s) of Inl _ \<Rightarrow> None | Inr r \<Rightarrow> Some (se_value r))
           = map_run qs (settings_map s) k)"
proof -
  have sim: "settings_map (run_requests setting_step qs s) = map_run qs (settings_map s)" for s
    by (induction qs arbitrary: s) (simp_all add: setting_step_simulates)
  have "(case get_setting k t of Inl _ \<Rightarrow> None | Inr r \<Rightarrow> Some (se_value r)) = settings_map t k" for k t
    by (simp add: get_setting_def settings_map_def split: option.splits)
  then show ?thesis using sim settings_service.run_inv[OF assms] by (simp add: setting_step_simulates)
qed

theorem settings_refine_map_witness:
  "settings_map (run_requests setting_step [SetSetting ''a'' ''1'' None, CreateSetting ''a'' ''2'' None None None,
     SetSetting ''b'' ''3'' None, DeleteSetting ''b''] empty_db) = [''a'' \<mapsto> ''1'']"
proof -
  have "unique_settings empty_db" by (simp add: unique_settings_def)
  note run = settings_refine_map[OF this, THEN conjunct1]
  have "settings_map empty_db = Map.empty" by (rule ext) (simp add: settings_map_def)
  then show ?thesis unfolding run by (simp add: fun_upd_def fun_eq_iff)
qed

end
