(* ===== verification/Commissions.thy ===== *)
theory Commissions
  imports Listings Samples
begin

text \<open>
  Commissions, \<open>src/modules/commissions/commissions.service.ts\<close>: created by the owner, approved by an account that the
  request names, and paid once.
\<close>

record commission_filters =
  cf_status :: "ApprovalStatus option"
  cf_personnel :: "string option"
  cf_supplier :: "string option"
  cf_from :: "int option"
  cf_to :: "int option"
  cf_page :: "nat option"
  cf_limit :: "nat option"

definition find_all_commissions :: "commission_filters \<Rightarrow> db \<Rightarrow> commission_row page" where
  "find_all_commissions f s =
     (let rows = sort_key (\<lambda>c. - co_created_at c)
                   (filter (\<lambda>c. option_matches (cf_status f) (co_status c)
                              \<and> (nonempty (cf_personnel f) \<longrightarrow> Some (co_personnel c) = cf_personnel f)
                              \<and> (nonempty (cf_supplier f) \<longrightarrow> co_supplier c = cf_supplier f)
                              \<and> in_range (cf_from f) (cf_to f) (co_created_at c)) (d_commissions s))
      in page_of (case cf_page f of Some n \<Rightarrow> n | None \<Rightarrow> 1) (case cf_limit f of Some n \<Rightarrow> n | None \<Rightarrow> 20) rows)"

text \<open>\<open>FinanceService.getCommissions\<close>: the listing of the finance service, with fewer filters and no defaults.\<close>

definition finance_commissions :: "ApprovalStatus option \<Rightarrow> string option \<Rightarrow> nat \<Rightarrow> nat \<Rightarrow> db \<Rightarrow> commission_row page" where
  "finance_commissions status personnel page limit s =
     page_of page limit
       (sort_key (\<lambda>c. - co_created_at c)
          (filter (\<lambda>c. option_matches status (co_status c) \<and> (nonempty personnel \<longrightarrow> Some (co_personnel c) = personnel))
             (d_commissions s)))"

lemma commission_listings_agree:
  "find_all_commissions \<lparr>cf_status = status, cf_personnel = personnel, cf_supplier = None, cf_from = None, cf_to = None,
       cf_page = Some page, cf_limit = Some limit\<rparr> s
     = finance_commissions status personnel page limit s"
  by (simp add: find_all_commissions_def finance_commissions_def in_range_def nonempty_def)

record commission_input =
  ci_personnel :: string
  ci_supplier :: "string option"
  ci_purchase :: "string option"
  ci_type :: string
  ci_amount :: int
  ci_percentage :: "int option"
  ci_notes :: "string option"

definition create_commission ::
    "int \<Rightarrow> string \<Rightarrow> commission_input \<Rightarrow> UserRole \<Rightarrow> db \<Rightarrow> commission_row answer" where
  "create_commission now new_id d role s =
     (if role \<noteq> UserRole.OWNER then (Inl (Forbidden ''Solo el OWNER puede crear comisiones''), s)
      else if find_row pe_id (ci_personnel d) (d_personnel s) = None then (Inl (NotFound ''Personal no encontrado''), s)
      else if nonempty (ci_purchase d) \<and> find_row pu_id (the (ci_purchase d)) (d_purchases s) = None
      then (Inl (NotFound ''Compra no encontrada''), s)
      else if nonempty (ci_supplier d) \<and> find_row su_id (the (ci_supplier d)) (d_suppliers s) = None
      then (Inl (NotFound ''Proveedor no encontrado''), s)
      else if ci_purchase d = Some [] \<or> ci_supplier d = Some [] then (Inl (DbError ''P2003''), s)
      else if new_id \<in> co_id ` set (d_commissions s) then (Inl (DbError ''P2002''), s)
      else
        let c = \<lparr>co_id = new_id, co_personnel = ci_personnel d, co_supplier = ci_supplier d, co_purchase = ci_purchase d,
                 co_type = ci_type d, co_amount = ci_amount d, co_percentage = ci_percentage d, co_status = PENDING,
                 co_notes = ci_notes d, co_paid_at = None, co_created_at = now\<rparr>
        in (Inr c, s\<lparr>d_commissions := insert_row c (d_commissions s)\<rparr>))"

definition update_commission :: "string \<Rightarrow> (commission_row \<Rightarrow> commission_row) \<Rightarrow> db \<Rightarrow> db" where
  "update_commission k f s = s\<lparr>d_commissions := update_row co_id k f (d_commissions s)\<rparr>"

definition approve_commission :: "string \<Rightarrow> string \<Rightarrow> db \<Rightarrow> commission_row answer" where
  "approve_commission k approver s =
     (case find_row co_id k (d_commissions s) of
        None \<Rightarrow> (Inl (NotFound ''Comision no encontrada''), s)
      | Some c \<Rightarrow>
          if co_status c \<noteq> PENDING then (Inl (Conflict ''La comision ya fue decidida''), s)
          else (case find_row ac_id approver (d_accounts s) of
                  None \<Rightarrow> (Inl (NotFound ''Aprobador no encontrado''), s)
                | Some a \<Rightarrow>
                    if ac_role a \<notin> {UserRole.OWNER, UserRole.ADMIN}
                    then (Inl (Forbidden ''Solo OWNER o ADMIN pueden aprobar comisiones''), s)
                    else (Inr (c\<lparr>co_status := ApprovalStatus.APPROVED\<rparr>),
                          update_commission k (\<lambda>c. c\<lparr>co_status := ApprovalStatus.APPROVED\<rparr>) s)))"

definition pay_commission :: "int \<Rightarrow> string \<Rightarrow> db \<Rightarrow> commission_row answer" where
  "pay_commission now k s =
     (case find_row co_id k (d_commissions s) of
        None \<Rightarrow> (Inl (NotFound ''Comision no encontrada''), s)
      | Some c \<Rightarrow>
          if co_status c \<noteq> ApprovalStatus.APPROVED then (Inl (Conflict ''Solo se pueden pagar comisiones aprobadas''), s)
          else if co_paid_at c \<noteq> None then (Inl (Conflict ''Esta comision ya fue pagada''), s)
          else (Inr (c\<lparr>co_paid_at := Some now\<rparr>), update_commission k (\<lambda>c. c\<lparr>co_paid_at := Some now\<rparr>) s))"

definition commissions_by_personnel :: "string \<Rightarrow> db \<Rightarrow> http_error + commission_row list" where
  "commissions_by_personnel k s =
     (if find_row pe_id k (d_personnel s) = None then Inl (NotFound ''Personal no encontrado'')
      else Inr (sort_key (\<lambda>c. - co_created_at c) (filter (\<lambda>c. co_personnel c = k) (d_commissions s))))"

definition commissions_by_supplier :: "string \<Rightarrow> db \<Rightarrow> http_error + commission_row list" where
  "commissions_by_supplier k s =
     (if find_row su_id k (d_suppliers s) = None then Inl (NotFound ''Proveedor no encontrado'')
      else Inr (sort_key (\<lambda>c. - co_created_at c) (filter (\<lambda>c. co_supplier c = Some k) (d_commissions s))))"

text \<open>The requests; approving and paying are behind the guard for owners and administrators, who are the caller.\<close>

datatype commission_request =
    CreateCommission string commission_input UserRole
  | ApproveCommission string string
  | PayCommission string

fun commission_step :: "int \<times> commission_request \<Rightarrow> db \<Rightarrow> unit answer" where
  "commission_step (now, CreateCommission i d role) s = drop_answer (create_commission now i d role s)"
| "commission_step (now, ApproveCommission k approver) s = drop_answer (approve_commission k approver s)"
| "commission_step (now, PayCommission k) s = drop_answer (pay_commission now k s)"

section \<open>The life of a commission\<close>

interpretation commissions: repository "find_row co_id" "update_row co_id" insert_row co_id
  by (rule repository_list)

definition commission_stage :: "string \<Rightarrow> db \<Rightarrow> (ApprovalStatus \<times> int option \<times> int \<times> string) option" where
  "commission_stage k s =
     map_option (\<lambda>c. (co_status c, co_paid_at c, co_amount c, co_personnel c)) (find_row co_id k (d_commissions s))"

text \<open>What one request may do to a commission: create it pending, approve it, pay it, or leave it.\<close>

definition commission_moves ::
    "(ApprovalStatus \<times> int option \<times> int \<times> string) option \<Rightarrow> (ApprovalStatus \<times> int option \<times> int \<times> string) option \<Rightarrow> bool" where
  "commission_moves x y \<longleftrightarrow>
     (case x of
        None \<Rightarrow> (case y of None \<Rightarrow> True | Some (st, p, n, k) \<Rightarrow> st = PENDING \<and> p = None)
      | Some (st, p, n, k) \<Rightarrow>
          y = x \<or> (st = PENDING \<and> y = Some (ApprovalStatus.APPROVED, p, n, k))
          \<or> (st = ApprovalStatus.APPROVED \<and> p = None \<and> (\<exists>t. y = Some (st, Some t, n, k))))"

lemma commission_step_moves: "commission_moves (commission_stage k s) (commission_stage k (snd (commission_step q s)))"
proof (cases "(q, s)" rule: commission_step.cases)
  case (1 now i d role)
  then show ?thesis
    by (auto simp: create_commission_def Let_def commission_stage_def commission_moves_def commissions.lookup_create
        split: option.splits)
next
  case (2 now k' a)
  then show ?thesis
    by (auto simp: approve_commission_def commission_stage_def commission_moves_def update_commission_def
        commissions.lookup_modify split: option.splits)
next
  case (3 now k')
  then show ?thesis
    by (auto simp: pay_commission_def commission_stage_def commission_moves_def update_commission_def
        commissions.lookup_modify split: option.splits)
qed

text \<open>A paid commission was approved; once paid it does not change.\<close>

definition paid_is_approved :: "db \<Rightarrow> bool" where
  "paid_is_approved s \<longleftrightarrow> (\<forall>k st p n e. commission_stage k s = Some (st, p, n, e) \<and> p \<noteq> None \<longrightarrow> st = ApprovalStatus.APPROVED)"

lemma commission_step_paid: "paid_is_approved s \<Longrightarrow> paid_is_approved (snd (commission_step q s))"
proof -
  assume p: "paid_is_approved s"
  show ?thesis
    unfolding paid_is_approved_def
  proof (intro allI impI)
    fix k st p' n e
    assume a: "commission_stage k (snd (commission_step q s)) = Some (st, p', n, e) \<and> p' \<noteq> None"
    have "commission_moves (commission_stage k s) (Some (st, p', n, e))" using commission_step_moves[of k s q] a by simp
    moreover have "st0 = ApprovalStatus.APPROVED" if "commission_stage k s = Some (st0, p0, n0, e0)" "p0 \<noteq> None" for st0 p0 n0 e0
      using p that unfolding paid_is_approved_def by blast
    ultimately show "st = ApprovalStatus.APPROVED"
      using a by (auto simp: commission_moves_def split: option.splits)
  qed
qed

interpretation commissions_service: invariant_service commission_step paid_is_approved
  by unfold_locales (rule commission_step_paid)

lemma paid_stays:
  "commission_stage k s = Some (ApprovalStatus.APPROVED, Some t, n, e) \<Longrightarrow>
     commission_stage k (run_requests commission_step qs s) = Some (ApprovalStatus.APPROVED, Some t, n, e)"
proof (induction qs arbitrary: s)
  case (Cons q qs)
  have "commission_stage k (snd (commission_step q s)) = Some (ApprovalStatus.APPROVED, Some t, n, e)"
    using commission_step_moves[of k s q] Cons.prems by (simp add: commission_moves_def)
  then show ?case using Cons.IH by simp
qed simp

section \<open>Properties\<close>

definition sample_commissions :: "ApprovalStatus \<Rightarrow> db" where
  "sample_commissions st = empty_db
     \<lparr>d_accounts := [sample_account ''a1'' UserRole.OWNER],
      d_commissions := [\<lparr>co_id = ''c1'', co_personnel = ''p1'', co_supplier = None, co_purchase = None, co_type = ''IMPORT'',
         co_amount = 35000, co_percentage = None, co_status = st, co_notes = None, co_paid_at = None, co_created_at = 0\<rparr>]\<rparr>"

text \<open>A commission is paid exactly when it is there, approved and unpaid; after that, whatever requests follow, it stays paid
  at the same instant for the same amount and person, and every further payment is refused. Through any run, what
  is paid was approved.\<close>

theorem commission_paid_once:
  "(is_ok (pay_commission now k s) \<longleftrightarrow>
      (\<exists>n e. commission_stage k s = Some (ApprovalStatus.APPROVED, None, n, e)))
    \<and> (\<forall>r t qs. pay_commission now k s = (Inr r, t) \<longrightarrow>
         commission_stage k (run_requests commission_step qs t)
           = Some (ApprovalStatus.APPROVED, Some now, co_amount r, co_personnel r)
         \<and> (\<forall>now'. pay_commission now' k (run_requests commission_step qs t)
              = (Inl (Conflict ''Esta comision ya fue pagada''), run_requests commission_step qs t)))
    \<and> (paid_is_approved s \<longrightarrow> (\<forall>qs. paid_is_approved (run_requests commission_step qs s)))"
proof -
  have paid: "commission_stage k t = Some (ApprovalStatus.APPROVED, Some now, co_amount r, co_personnel r)"
    if "pay_commission now k s = (Inr r, t)" for r t
    using that
    by (auto simp: pay_commission_def commission_stage_def update_commission_def commissions.lookup_modify
        split: option.splits if_splits)
  have refused: "pay_commission now' k u = (Inl (Conflict ''Esta comision ya fue pagada''), u)"
    if "commission_stage k u = Some (ApprovalStatus.APPROVED, Some x, n, e)" for now' u x n e
    using that by (auto simp: pay_commission_def commission_stage_def)
  have "is_ok (pay_commission now k s) \<longleftrightarrow> (\<exists>n e. commission_stage k s = Some (ApprovalStatus.APPROVED, None, n, e))"
    by (auto simp: pay_commission_def is_ok_def commission_stage_def split: option.splits)
  then show ?thesis using paid paid_stays refused commissions_service.run_inv by blast
qed

theorem commission_paid_once_witness:
  "\<exists>r t. pay_commission 7 ''c1'' (sample_commissions ApprovalStatus.APPROVED) = (Inr r, t)
     \<and> \<not> is_ok (pay_commission 8 ''c1'' t)"
proof -
  obtain r t where p: "pay_commission 7 ''c1'' (sample_commissions ApprovalStatus.APPROVED) = (Inr r, t)"
    by (simp add: pay_commission_def sample_commissions_def)
  then have "pay_commission 8 ''c1'' (run_requests commission_step [] t)
      = (Inl (Conflict ''Esta comision ya fue pagada''), run_requests commission_step [] t)"
    using commission_paid_once[of 7 "''c1''" "sample_commissions ApprovalStatus.APPROVED"] by blast
  then show ?thesis using p by (auto simp: is_ok_def)
qed

end
