(* ===== verification/ClientsVehicles.thy ===== *)
theory ClientsVehicles
  imports OrdersService InventoryService
begin

text \<open>
  Clients and vehicles: \<open>src/modules/clients/clients.service.ts\<close> and \<open>src/modules/vehicles/vehicles.service.ts\<close>, every
  operation. Vehicles are read through a cache in Redis with three families of keys (by id, by plate, listings);
  the lemmas show that what it answers about vehicles is what the table holds.
\<close>

section \<open>Clients\<close>

definition given_cursor :: "string option \<Rightarrow> string option" where
  "given_cursor c = (if nonempty c then c else None)"

definition client_rows :: "string option \<Rightarrow> db \<Rightarrow> client_row list" where
  "client_rows search s =
     sort_key (\<lambda>c. - cl_created_at c)
       (filter (\<lambda>c. matches_search search [Some (cl_first_name c), cl_last_name c, cl_dni c]) (d_clients s))"

definition find_all_clients ::
    "string option \<Rightarrow> nat \<Rightarrow> string option \<Rightarrow> db \<Rightarrow> client_row list \<times> string option \<times> bool" where
  "find_all_clients search limit cursor s = cursor_page cl_id limit (given_cursor cursor) (client_rows search s)"

definition find_one_client :: "string \<Rightarrow> db \<Rightarrow> http_error + client_row \<times> vehicle_row list" where
  "find_one_client k s =
     (case find_row cl_id k (d_clients s) of
        None \<Rightarrow> Inl (NotFound ''Cliente no encontrado'')
      | Some c \<Rightarrow> Inr (c, filter (\<lambda>v. ve_client v = k) (d_vehicles s)))"

record client_input =
  ki_first_name :: string
  ki_last_name :: string
  ki_phone :: "string option"
  ki_email :: "string option"
  ki_dni :: "string option"

definition create_client :: "int \<Rightarrow> string \<Rightarrow> client_input \<Rightarrow> db \<Rightarrow> client_row answer" where
  "create_client now new_id d s =
     (if nonempty (ki_dni d) \<and> ki_dni d \<in> cl_dni ` set (d_clients s)
      then (Inl (Conflict ''Ya existe un cliente con ese DNI''), s)
      else if new_id \<in> cl_id ` set (d_clients s) \<or> (ki_dni d \<noteq> None \<and> ki_dni d \<in> cl_dni ` set (d_clients s))
      then (Inl (DbError ''P2002''), s)
      else
        let c = \<lparr>cl_id = new_id, cl_account = None, cl_first_name = ki_first_name d, cl_last_name = Some (ki_last_name d),
                 cl_phone = (case ki_phone d of Some p \<Rightarrow> p | None \<Rightarrow> ''-''), cl_email = ki_email d, cl_dni = ki_dni d,
                 cl_created_at = now, cl_deleted_at = None\<rparr>
        in (Inr c, s\<lparr>d_clients := insert_row c (d_clients s)\<rparr>))"

record client_update =
  ku_first_name :: "string option"
  ku_last_name :: "string option"
  ku_phone :: "string option"
  ku_email :: "string option"
  ku_dni :: "string option"

definition or_kept :: "'a option \<Rightarrow> 'a option \<Rightarrow> 'a option" where
  "or_kept new old = (case new of Some x \<Rightarrow> Some x | None \<Rightarrow> old)"

definition apply_client_update :: "client_update \<Rightarrow> client_row \<Rightarrow> client_row" where
  "apply_client_update d c =
     c\<lparr>cl_first_name := (case ku_first_name d of Some x \<Rightarrow> x | None \<Rightarrow> cl_first_name c),
       cl_last_name := or_kept (ku_last_name d) (cl_last_name c),
       cl_phone := (case ku_phone d of Some x \<Rightarrow> x | None \<Rightarrow> cl_phone c),
       cl_email := or_kept (ku_email d) (cl_email c), cl_dni := or_kept (ku_dni d) (cl_dni c)\<rparr>"

definition dni_of_other :: "string option \<Rightarrow> string \<Rightarrow> db \<Rightarrow> bool" where
  "dni_of_other dni k s \<longleftrightarrow> list_ex (\<lambda>c. cl_dni c = dni \<and> cl_id c \<noteq> k) (d_clients s)"

definition update_client :: "string \<Rightarrow> client_update \<Rightarrow> db \<Rightarrow> client_row answer" where
  "update_client k d s =
     (case find_row cl_id k (d_clients s) of
        None \<Rightarrow> (Inl (NotFound ''Cliente no encontrado''), s)
      | Some c \<Rightarrow>
          if nonempty (ku_dni d) \<and> dni_of_other (ku_dni d) k s
          then (Inl (Conflict ''Ya existe otro cliente con ese DNI''), s)
          else if ku_dni d \<noteq> None \<and> dni_of_other (ku_dni d) k s then (Inl (DbError ''P2002''), s)
          else (Inr (apply_client_update d c),
                s\<lparr>d_clients := update_row cl_id k (apply_client_update d) (d_clients s)\<rparr>))"

text \<open>The rows of orders carry the instant they were received for that of their creation, as the database sets both.\<close>

definition get_client_history :: "string \<Rightarrow> db \<Rightarrow> http_error + order_row list" where
  "get_client_history k s =
     (case find_row cl_id k (d_clients s) of
        None \<Rightarrow> Inl (NotFound ''Cliente no encontrado'')
      | Some c \<Rightarrow> Inr (sort_key (\<lambda>w. - wo_received_at w) (filter (\<lambda>w. wo_client w = k) (d_orders s))))"

section \<open>Vehicles\<close>

definition vehicle_id_key :: "string \<Rightarrow> string" where
  "vehicle_id_key i = ''vehicles:id:'' @ i"

definition plate_key :: "string \<Rightarrow> string" where
  "plate_key p = ''vehicles:plate:'' @ map upper p"

definition vehicle_list_prefix :: string where
  "vehicle_list_prefix = ''vehicles:list:''"

definition vehicle_list_key :: "string option \<Rightarrow> nat \<Rightarrow> string option \<Rightarrow> string" where
  "vehicle_list_key search limit cursor =
     vehicle_list_prefix @ or_default ''all'' search @ '':'' @ digits_of limit @ '':'' @ or_default ''start'' cursor"

definition vehicle_rows :: "string option \<Rightarrow> db \<Rightarrow> vehicle_row list" where
  "vehicle_rows search s =
     sort_key (\<lambda>v. - ve_created_at v)
       (filter (\<lambda>v. matches_search search [Some (ve_plate v), Some (ve_brand v)]) (d_vehicles s))"

definition owner_of :: "vehicle_row \<Rightarrow> db \<Rightarrow> client_row option" where
  "owner_of v s = find_row cl_id (ve_client v) (d_clients s)"

type_synonym vehicle_page = "(vehicle_row \<times> client_row option) list \<times> string option \<times> bool"

definition find_all_vehicles :: "int \<Rightarrow> string option \<Rightarrow> nat \<Rightarrow> string option \<Rightarrow> db \<Rightarrow> vehicle_page answer" where
  "find_all_vehicles now search limit cursor s =
     (case redis_get now (vehicle_list_key search limit cursor) (d_redis s) of
        Some (RVehicles rows nx hm) \<Rightarrow> (Inr (rows, nx, hm), s)
      | _ \<Rightarrow>
          (case cursor_page ve_id limit (given_cursor cursor) (vehicle_rows search s) of (data, nx, hm) \<Rightarrow>
             let rows = map (\<lambda>v. (v, owner_of v s)) data
             in (Inr (rows, nx, hm),
                 set_redis (redis_set now (vehicle_list_key search limit cursor) (RVehicles rows nx hm) 60 (d_redis s)) s)))"

definition find_by_plate :: "int \<Rightarrow> string \<Rightarrow> db \<Rightarrow> (vehicle_row \<times> client_row option) answer" where
  "find_by_plate now p s =
     (case redis_get now (plate_key p) (d_redis s) of
        Some (RVehicle v c ws) \<Rightarrow> (Inr (v, c), s)
      | _ \<Rightarrow>
          (case vehicle_by_plate p s of
             None \<Rightarrow> (Inl (NotFound ''Vehiculo no encontrado''), s)
           | Some v \<Rightarrow>
               (Inr (v, owner_of v s),
                set_redis (redis_set now (plate_key p) (RVehicle v (owner_of v s) []) 300 (d_redis s)) s)))"

definition latest_orders :: "string \<Rightarrow> db \<Rightarrow> order_row list" where
  "latest_orders v s = take 10 (sort_key (\<lambda>w. - wo_received_at w) (filter (\<lambda>w. wo_vehicle w = v) (d_orders s)))"

definition find_one_vehicle :: "int \<Rightarrow> string \<Rightarrow> db \<Rightarrow> (vehicle_row \<times> client_row option \<times> order_row list) answer" where
  "find_one_vehicle now k s =
     (case redis_get now (vehicle_id_key k) (d_redis s) of
        Some (RVehicle v c ws) \<Rightarrow> (Inr (v, c, ws), s)
      | _ \<Rightarrow>
          (case find_row ve_id k (d_vehicles s) of
             None \<Rightarrow> (Inl (NotFound ''Vehiculo no encontrado''), s)
           | Some v \<Rightarrow>
               (Inr (v, owner_of v s, latest_orders k s),
                set_redis (redis_set now (vehicle_id_key k) (RVehicle v (owner_of v s) (latest_orders k s)) 300 (d_redis s)) s)))"

definition invalidate_vehicle_cache :: "redis \<Rightarrow> redis" where
  "invalidate_vehicle_cache r = redis_del_prefix vehicle_list_prefix r"

record vehicle_input =
  vi_plate :: string
  vi_brand :: string
  vi_model :: string
  vi_year :: int
  vi_color :: string
  vi_client :: string

definition create_vehicle :: "int \<Rightarrow> string \<Rightarrow> vehicle_input \<Rightarrow> db \<Rightarrow> vehicle_row answer" where
  "create_vehicle now new_id d s =
     (if vehicle_by_plate (vi_plate d) s \<noteq> None then (Inl (Conflict ''Ya existe un vehiculo con esa placa''), s)
      else if find_row cl_id (vi_client d) (d_clients s) = None then (Inl (NotFound ''Cliente no encontrado''), s)
      else if new_id \<in> ve_id ` set (d_vehicles s) then (Inl (DbError ''P2002''), s)
      else
        let v = \<lparr>ve_id = new_id, ve_plate = vi_plate d, ve_brand = vi_brand d, ve_model = vi_model d, ve_year = vi_year d,
                 ve_color = Some (vi_color d), ve_client = vi_client d, ve_created_at = now\<rparr>;
            s1 = s\<lparr>d_vehicles := insert_row v (d_vehicles s)\<rparr>
        in (Inr v, set_redis (invalidate_vehicle_cache (d_redis s1)) s1))"

record vehicle_update =
  vu_plate :: "string option"
  vu_brand :: "string option"
  vu_model :: "string option"
  vu_year :: "int option"
  vu_color :: "string option"
  vu_client :: "string option"

definition apply_vehicle_update :: "vehicle_update \<Rightarrow> vehicle_row \<Rightarrow> vehicle_row" where
  "apply_vehicle_update d v =
     v\<lparr>ve_plate := (case vu_plate d of Some x \<Rightarrow> x | None \<Rightarrow> ve_plate v),
       ve_brand := (case vu_brand d of Some x \<Rightarrow> x | None \<Rightarrow> ve_brand v),
       ve_model := (case vu_model d of Some x \<Rightarrow> x | None \<Rightarrow> ve_model v),
       ve_year := (case vu_year d of Some x \<Rightarrow> x | None \<Rightarrow> ve_year v),
       ve_color := or_kept (vu_color d) (ve_color v),
       ve_client := (case vu_client d of Some x \<Rightarrow> x | None \<Rightarrow> ve_client v)\<rparr>"

definition plate_of_other :: "string \<Rightarrow> string \<Rightarrow> db \<Rightarrow> bool" where
  "plate_of_other p k s \<longleftrightarrow> list_ex (\<lambda>v. map upper (ve_plate v) = map upper p \<and> ve_id v \<noteq> k) (d_vehicles s)"

text \<open>The keys that an update deletes: the listings, the vehicle, and its plate before and after.\<close>

definition forget_vehicle :: "string \<Rightarrow> string \<Rightarrow> string option \<Rightarrow> redis \<Rightarrow> redis" where
  "forget_vehicle k old new r =
     (let r1 = redis_del (vehicle_id_key k) (invalidate_vehicle_cache r);
          r2 = (if old \<noteq> [] then redis_del (plate_key old) r1 else r1)
      in if nonempty new then redis_del (plate_key (the new)) r2 else r2)"

definition update_vehicle :: "int \<Rightarrow> string \<Rightarrow> vehicle_update \<Rightarrow> db \<Rightarrow> vehicle_row answer" where
  "update_vehicle now k d s =
     (case find_one_vehicle now k s of
        (Inl e, s1) \<Rightarrow> (Inl e, s1)
      | (Inr (existing, _, _), s1) \<Rightarrow>
          if nonempty (vu_plate d) \<and> plate_of_other (the (vu_plate d)) k s1
          then (Inl (Conflict ''Ya existe otro vehiculo con esa placa''), s1)
          else if nonempty (vu_client d) \<and> find_row cl_id (the (vu_client d)) (d_clients s1) = None
          then (Inl (NotFound ''Cliente no encontrado''), s1)
          else
            (case find_row ve_id k (d_vehicles s1) of
               None \<Rightarrow> (Inl (DbError ''P2025''), s1)
             | Some v \<Rightarrow>
                 let s2 = s1\<lparr>d_vehicles := update_row ve_id k (apply_vehicle_update d) (d_vehicles s1)\<rparr>
                 in (Inr (apply_vehicle_update d v),
                     set_redis (forget_vehicle k (ve_plate existing) (vu_plate d) (d_redis s2)) s2)))"

definition get_workshop_fleet :: "db \<Rightarrow> (vehicle_row \<times> usage_row list) list" where
  "get_workshop_fleet s =
     map (\<lambda>v. (v, take 1 (filter (\<lambda>u. us_vehicle u = ve_id v \<and> us_status u = PENDING_RETURN) (d_usage s))))
       (sort_key (\<lambda>v. - ve_created_at v) (filter (\<lambda>v. starts_with ''TAL-'' (ve_plate v)) (d_vehicles s)))"

section \<open>The requests\<close>

datatype vehicle_request =
    ListVehicles "string option" nat "string option"
  | VehicleByPlate string
  | GetVehicle string
  | CreateVehicle string vehicle_input
  | UpdateVehicle string vehicle_update

definition valid_vehicle :: "vehicle_input \<Rightarrow> bool" where
  "valid_vehicle d \<longleftrightarrow> 3 \<le> length (vi_plate d) \<and> 1900 \<le> vi_year d \<and> vi_year d \<le> 2099"

definition valid_vehicle_update :: "vehicle_update \<Rightarrow> bool" where
  "valid_vehicle_update d \<longleftrightarrow>
     (case vu_plate d of Some p \<Rightarrow> 3 \<le> length p | None \<Rightarrow> True)
     \<and> (case vu_year d of Some y \<Rightarrow> 1900 \<le> y \<and> y \<le> 2099 | None \<Rightarrow> True)
     \<and> vu_client d \<noteq> Some []"

fun vehicle_step :: "int \<times> vehicle_request \<Rightarrow> db \<Rightarrow> unit answer" where
  "vehicle_step (now, ListVehicles q n c) s = drop_answer (find_all_vehicles now q n c s)"
| "vehicle_step (now, VehicleByPlate p) s = drop_answer (find_by_plate now p s)"
| "vehicle_step (now, GetVehicle k) s = drop_answer (find_one_vehicle now k s)"
| "vehicle_step (now, CreateVehicle i d) s =
     (if \<not> valid_vehicle d then (Inl (BadRequest ''validation''), s) else drop_answer (create_vehicle now i d s))"
| "vehicle_step (now, UpdateVehicle k d) s =
     (if \<not> valid_vehicle_update d then (Inl (BadRequest ''validation''), s) else drop_answer (update_vehicle now k d s))"

section \<open>Keys\<close>

lemma vehicle_keys_differ [simp]:
  "vehicle_id_key i \<noteq> plate_key p" "plate_key p \<noteq> vehicle_id_key i"
  "vehicle_id_key i \<noteq> vehicle_list_key q n c" "vehicle_list_key q n c \<noteq> vehicle_id_key i"
  "plate_key p \<noteq> vehicle_list_key q n c" "vehicle_list_key q n c \<noteq> plate_key p"
  by (simp_all add: vehicle_id_key_def plate_key_def vehicle_list_key_def vehicle_list_prefix_def)

lemma vehicle_id_key_inject [simp]: "vehicle_id_key i = vehicle_id_key j \<longleftrightarrow> i = j"
  by (simp add: vehicle_id_key_def)

lemma plate_key_eq [simp]: "plate_key p = plate_key q \<longleftrightarrow> map upper p = map upper q"
  by (simp add: plate_key_def)

lemma list_key_prefix [simp]:
  "take (length vehicle_list_prefix) (vehicle_list_key q n c) = vehicle_list_prefix"
  "take (length vehicle_list_prefix) (vehicle_id_key i) \<noteq> vehicle_list_prefix"
  "take (length vehicle_list_prefix) (plate_key p) \<noteq> vehicle_list_prefix"
  by (simp_all add: vehicle_list_key_def vehicle_list_prefix_def vehicle_id_key_def plate_key_def)

lemma map_of_forget:
  "map_of (forget_vehicle k old new r) x = Some y \<Longrightarrow>
     map_of r x = Some y \<and> x \<noteq> vehicle_id_key k \<and> take (length vehicle_list_prefix) x \<noteq> vehicle_list_prefix
     \<and> (old \<noteq> [] \<longrightarrow> x \<noteq> plate_key old) \<and> (nonempty new \<longrightarrow> x \<noteq> plate_key (the new))"
  by (auto simp: forget_vehicle_def Let_def invalidate_vehicle_cache_def map_of_redis_del map_of_del_prefix split: if_splits)

section \<open>The cache is current\<close>

text \<open>What the table answers now under a key: of an entry by id or plate the row, of a listing its rows and its cursor.\<close>

definition current_answer :: "vehicle_row list \<Rightarrow> string \<Rightarrow> redis_value \<Rightarrow> bool" where
  "current_answer rows x val \<longleftrightarrow>
     (\<forall>k. x = vehicle_id_key k \<longrightarrow> (\<exists>v c ws. val = RVehicle v c ws \<and> find_row ve_id k rows = Some v))
     \<and> (\<forall>p. x = plate_key p \<longrightarrow>
          (\<exists>v c ws. val = RVehicle v c ws \<and> List.find (\<lambda>v. map upper (ve_plate v) = map upper p) rows = Some v))
     \<and> (take (length vehicle_list_prefix) x = vehicle_list_prefix \<longrightarrow>
          (\<exists>q n c data nx hm. x = vehicle_list_key q n c \<and> val = RVehicles data nx hm
             \<and> (map fst data, nx, hm)
                 = cursor_page ve_id n (given_cursor c)
                     (sort_key (\<lambda>v. - ve_created_at v)
                       (filter (\<lambda>v. matches_search q [Some (ve_plate v), Some (ve_brand v)]) rows))))"

definition vehicle_cache_current :: "db \<Rightarrow> bool" where
  "vehicle_cache_current s \<longleftrightarrow>
     (\<forall>x val e. map_of (d_redis s) x = Some (val, e) \<longrightarrow> current_answer (d_vehicles s) x val)"

definition vehicles_inv :: "db \<Rightarrow> bool" where
  "vehicles_inv s \<longleftrightarrow>
     distinct (map ve_id (d_vehicles s)) \<and> distinct (map (map upper \<circ> ve_plate) (d_vehicles s))
     \<and> (\<forall>v \<in> set (d_vehicles s). ve_plate v \<noteq> []) \<and> vehicle_cache_current s"

lemma cache_get:
  "vehicle_cache_current s \<Longrightarrow> redis_get now x (d_redis s) = Some val \<Longrightarrow> current_answer (d_vehicles s) x val"
  by (auto simp: vehicle_cache_current_def redis_get_def split: option.splits if_splits)

lemma cache_set:
  assumes "vehicle_cache_current s" and "current_answer (d_vehicles s) x val"
  shows "vehicle_cache_current (set_redis (redis_set now x val ttl (d_redis s)) s)"
  using assms by (auto simp: vehicle_cache_current_def redis_set_def map_of_redis_del)

lemma current_id: "current_answer rows (vehicle_id_key k) (RVehicle v c ws) \<longleftrightarrow> find_row ve_id k rows = Some v"
  by (auto simp: current_answer_def)

lemma current_plate:
  "current_answer rows (plate_key p) (RVehicle v c ws)
    \<longleftrightarrow> List.find (\<lambda>v. map upper (ve_plate v) = map upper p) rows = Some v"
  by (auto simp: current_answer_def)

lemma current_answer_transfer:
  assumes "current_answer rows x val" and "take (length vehicle_list_prefix) x \<noteq> vehicle_list_prefix"
    and "\<And>k. x = vehicle_id_key k \<Longrightarrow> find_row ve_id k rows' = find_row ve_id k rows"
    and "\<And>p. x = plate_key p \<Longrightarrow> List.find (\<lambda>v. map upper (ve_plate v) = map upper p) rows'
          = List.find (\<lambda>v. map upper (ve_plate v) = map upper p) rows"
  shows "current_answer rows' x val"
  using assms unfolding current_answer_def by simp

lemma vehicles_inv_redis:
  "vehicles_inv s \<Longrightarrow> current_answer (d_vehicles s) x val
    \<Longrightarrow> vehicles_inv (set_redis (redis_set now x val ttl (d_redis s)) s)"
  using cache_set[of s x val now ttl] by (simp add: vehicles_inv_def)

text \<open>Reading answers the row of the table and keeps the invariant.\<close>

lemma find_one_vehicle_out:
  assumes "vehicles_inv s" and "find_one_vehicle now k s = (out, t)"
  shows "vehicles_inv t \<and> d_vehicles t = d_vehicles s \<and> d_clients t = d_clients s
    \<and> (case find_row ve_id k (d_vehicles s) of
         None \<Rightarrow> out = Inl (NotFound ''Vehiculo no encontrado'') | Some v \<Rightarrow> \<exists>c ws. out = Inr (v, c, ws))"
proof -
  have c: "vehicle_cache_current s" using assms(1) by (simp add: vehicles_inv_def)
  show ?thesis
  proof (cases "redis_get now (vehicle_id_key k) (d_redis s)")
    case None
    then show ?thesis
      using assms vehicles_inv_redis[OF assms(1), of "vehicle_id_key k"]
      by (cases "find_row ve_id k (d_vehicles s)") (auto simp: find_one_vehicle_def current_id)
  next
    case (Some val)
    obtain v cl ws where v: "val = RVehicle v cl ws" "find_row ve_id k (d_vehicles s) = Some v"
      using cache_get[OF c Some] by (auto simp: current_answer_def)
    then show ?thesis using assms Some by (auto simp: find_one_vehicle_def)
  qed
qed

lemma find_by_plate_out:
  assumes "vehicles_inv s" and "find_by_plate now p s = (out, t)"
  shows "vehicles_inv t \<and> d_vehicles t = d_vehicles s
    \<and> (case vehicle_by_plate p s of
         None \<Rightarrow> out = Inl (NotFound ''Vehiculo no encontrado'') | Some v \<Rightarrow> \<exists>c. out = Inr (v, c))"
proof -
  have c: "vehicle_cache_current s" using assms(1) by (simp add: vehicles_inv_def)
  show ?thesis
  proof (cases "redis_get now (plate_key p) (d_redis s)")
    case None
    then show ?thesis
      using assms vehicles_inv_redis[OF assms(1), of "plate_key p"]
      by (cases "vehicle_by_plate p s") (auto simp: find_by_plate_def current_plate vehicle_by_plate_def)
  next
    case (Some val)
    obtain v cl ws where v: "val = RVehicle v cl ws" "vehicle_by_plate p s = Some v"
      using cache_get[OF c Some] by (auto simp: current_answer_def vehicle_by_plate_def)
    then show ?thesis using assms Some by (auto simp: find_by_plate_def)
  qed
qed

lemma find_all_vehicles_inv:
  assumes "vehicles_inv s"
  shows "vehicles_inv (snd (find_all_vehicles now q n c s))"
proof -
  obtain data nx hm where p: "cursor_page ve_id n (given_cursor c) (vehicle_rows q s) = (data, nx, hm)"
    using prod_cases3 by blast
  let ?rows = "map (\<lambda>v. (v, owner_of v s)) data"
  have "\<exists>q' n' c'. vehicle_list_key q n c = vehicle_list_key q' n' c'
      \<and> (data, nx, hm) = cursor_page ve_id n' (given_cursor c') (vehicle_rows q' s)"
    using p by (metis (no_types))
  then have "current_answer (d_vehicles s) (vehicle_list_key q n c) (RVehicles ?rows nx hm)"
    by (simp add: current_answer_def vehicle_rows_def comp_def)
  from vehicles_inv_redis[OF assms this] show ?thesis
    using assms by (auto simp: find_all_vehicles_def p Let_def split: option.splits redis_value.splits)
qed

section \<open>Writing\<close>

lemma list_find_insert:
  "List.find P rows = Some v \<Longrightarrow> List.find P (insert_row r rows) = Some v"
  by (induction rows) (auto simp: insert_row_def split: if_splits)

lemma list_find_update:
  assumes "\<And>r. r \<in> set rows \<Longrightarrow> key r = k \<Longrightarrow> \<not> P r \<and> \<not> P (f r)"
  shows "List.find P (update_row key k f rows) = List.find P rows"
  using assms by (induction rows) (auto simp: update_row_def)

lemma find_None_all: "List.find P rows = None \<longleftrightarrow> (\<forall>r \<in> set rows. \<not> P r)"
  by (induction rows) auto

lemma create_vehicle_inv:
  assumes "vehicles_inv s" and "vi_plate d \<noteq> []"
  shows "vehicles_inv (snd (create_vehicle now i d s))"
proof (cases "fst (create_vehicle now i d s)")
  case (Inl e)
  then have "snd (create_vehicle now i d s) = s" by (auto simp: create_vehicle_def Let_def split: if_splits)
  then show ?thesis using assms(1) by simp
next
  case (Inr v)
  then have v: "ve_id v = i" "ve_plate v = vi_plate d" "i \<notin> ve_id ` set (d_vehicles s)" "vehicle_by_plate (vi_plate d) s = None"
    and t: "snd (create_vehicle now i d s)
      = set_redis (invalidate_vehicle_cache (d_redis s)) (s\<lparr>d_vehicles := insert_row v (d_vehicles s)\<rparr>)"
    by (auto simp: create_vehicle_def Let_def split: if_splits)
  have new: "map upper (vi_plate d) \<notin> (map upper \<circ> ve_plate) ` set (d_vehicles s)"
    using v(4) by (auto simp: vehicle_by_plate_def find_None_all)
  have "current_answer (insert_row v (d_vehicles s)) x val"
    if "map_of (invalidate_vehicle_cache (d_redis s)) x = Some (val, e)" for x val e
  proof -
    have x: "take (length vehicle_list_prefix) x \<noteq> vehicle_list_prefix" "map_of (d_redis s) x = Some (val, e)"
      using that by (auto simp: invalidate_vehicle_cache_def map_of_del_prefix split: if_splits)
    then have "current_answer (d_vehicles s) x val"
      using assms(1) by (auto simp: vehicles_inv_def vehicle_cache_current_def)
    then show ?thesis
      using x(1) list_find_insert unfolding current_answer_def by (fastforce simp: find_row_insert_row)
  qed
  then have "vehicle_cache_current (snd (create_vehicle now i d s))"
    by (simp add: t vehicle_cache_current_def)
  then show ?thesis
    using assms v new by (simp add: t vehicles_inv_def insert_row_def)
qed

lemma update_vehicle_cases:
  assumes "vehicles_inv s" and "update_vehicle now k d s = (out, t)"
  obtains e where "out = Inl e" "vehicles_inv t" "d_vehicles t = d_vehicles s"
  | s1 v where "out = Inr (apply_vehicle_update d v)" "vehicles_inv s1" "d_vehicles s1 = d_vehicles s"
      "find_row ve_id k (d_vehicles s) = Some v" "nonempty (vu_plate d) \<longrightarrow> \<not> plate_of_other (the (vu_plate d)) k s"
      "t = set_redis (forget_vehicle k (ve_plate v) (vu_plate d) (d_redis s1))
             (s1\<lparr>d_vehicles := update_row ve_id k (apply_vehicle_update d) (d_vehicles s)\<rparr>)"
proof -
  obtain o1 s1 where f: "find_one_vehicle now k s = (o1, s1)" by fastforce
  note out = find_one_vehicle_out[OF assms(1) f]
  have other: "plate_of_other p k s1 = plate_of_other p k s" for p using out by (simp add: plate_of_other_def)
  show thesis
  proof (cases "find_row ve_id k (d_vehicles s)")
    case None
    then show ?thesis using assms(2) f out that(1) by (auto simp: update_vehicle_def)
  next
    case (Some v)
    then obtain c ws where o1: "o1 = Inr (v, c, ws)" using out by auto
    show ?thesis
    proof (cases "nonempty (vu_plate d) \<and> plate_of_other (the (vu_plate d)) k s
        \<or> nonempty (vu_client d) \<and> find_row cl_id (the (vu_client d)) (d_clients s1) = None")
      case True
      then show ?thesis using assms(2) f out that(1) o1 by (auto simp: update_vehicle_def other split: if_splits)
    next
      case False
      then show ?thesis
        using assms(2) f out Some o1 by (intro that(2)[of v s1]) (auto simp: update_vehicle_def other Let_def split: if_splits)
    qed
  qed
qed

lemma update_vehicle_inv:
  assumes inv: "vehicles_inv s" and valid: "valid_vehicle_update d"
  shows "vehicles_inv (snd (update_vehicle now k d s))"
proof -
  obtain out t where c: "update_vehicle now k d s = (out, t)" by fastforce
  from inv c show ?thesis
  proof (cases rule: update_vehicle_cases)
    case (2 s1 v)
    let ?f = "apply_vehicle_update d" and ?rows = "d_vehicles s"
    have id: "ve_id (?f r) = ve_id r" for r by (simp add: apply_vehicle_update_def)
    have only: "r = v" if "r \<in> set ?rows" "ve_id r = k" for r
      using find_row_distinct[of ve_id, OF _ that(1)] inv 2(4) that(2) by (simp add: vehicles_inv_def)
    have v: "v \<in> set ?rows" "ve_id v = k" using find_row_SomeD[OF 2(4)] by auto
    have plate: "ve_plate (?f v) = (case vu_plate d of Some p \<Rightarrow> p | None \<Rightarrow> ve_plate v)"
      by (simp add: apply_vehicle_update_def)
    have ne: "ve_plate (?f v) \<noteq> []" "ve_plate v \<noteq> []"
      using valid inv v(1) plate by (auto simp: valid_vehicle_update_def vehicles_inv_def split: option.splits)
    have forgot: "map upper p \<noteq> map upper (ve_plate v) \<and> map upper p \<noteq> map upper (ve_plate (?f v))"
      if "map_of (d_redis t) (plate_key p) = Some y" for p y
    proof -
      have "map_of (forget_vehicle k (ve_plate v) (vu_plate d) (d_redis s1)) (plate_key p) = Some y"
        using that 2(6) by simp
      from map_of_forget[OF this] show ?thesis using ne plate by (cases "vu_plate d") (simp_all add: nonempty_def)
    qed
    have "current_answer (update_row ve_id k ?f ?rows) x val" if "map_of (d_redis t) x = Some (val, e)" for x val e
    proof -
      have x: "map_of (d_redis s1) x = Some (val, e)" "x \<noteq> vehicle_id_key k"
        "take (length vehicle_list_prefix) x \<noteq> vehicle_list_prefix"
        using map_of_forget[of k "ve_plate v" "vu_plate d" "d_redis s1" x] that 2(6) by auto
      have cur: "current_answer ?rows x val"
        using 2(2,3) x(1) by (auto simp: vehicles_inv_def vehicle_cache_current_def)
      have "List.find (\<lambda>r. map upper (ve_plate r) = map upper p) (update_row ve_id k ?f ?rows)
          = List.find (\<lambda>r. map upper (ve_plate r) = map upper p) ?rows" if "x = plate_key p" for p
        using forgot[of p] \<open>map_of (d_redis t) x = Some (val, e)\<close> that only by (intro list_find_update) metis
      moreover have "find_row ve_id j (update_row ve_id k ?f ?rows) = find_row ve_id j ?rows" if "x = vehicle_id_key j" for j
        using x(2) that find_row_update_row[of ve_id ?f, OF id] by simp
      ultimately show ?thesis by (intro current_answer_transfer[OF cur x(3)]) auto
    qed
    then have cc: "vehicle_cache_current t" using 2(6) by (simp add: vehicle_cache_current_def)
    have u: "map upper (ve_plate r) \<noteq> map upper (ve_plate (?f v))" if "r \<in> set ?rows" "ve_id r \<noteq> k" for r
    proof (cases "vu_plate d")
      case None
      then have p: "ve_plate (?f v) = ve_plate v" using plate by simp
      have inj: "inj_on (map upper \<circ> ve_plate) (set ?rows)"
        using inv by (simp add: vehicles_inv_def distinct_map)
      show ?thesis unfolding p using inj_onD[OF inj, of r v] v that by auto
    next
      case (Some p)
      then have "\<not> plate_of_other p k s" using 2(5) ne plate by (simp add: nonempty_def)
      then show ?thesis using Some plate that by (auto simp: plate_of_other_def list_ex_iff)
    qed
    have "distinct (map (map upper \<circ> ve_plate) (update_row ve_id k ?f ?rows))"
    proof (rule distinct_update_row[OF _ _ 2(4)])
      show "distinct (map ve_id ?rows)" "distinct (map (map upper \<circ> ve_plate) ?rows)"
        using inv by (simp_all add: vehicles_inv_def)
      show "(map upper \<circ> ve_plate) (?f v) = (map upper \<circ> ve_plate) v
          \<or> (\<forall>r \<in> set ?rows. ve_id r \<noteq> k \<longrightarrow> (map upper \<circ> ve_plate) r \<noteq> (map upper \<circ> ve_plate) (?f v))"
        using u by (intro disjI2) simp
    qed
    moreover have "\<forall>r \<in> set (update_row ve_id k ?f ?rows). ve_plate r \<noteq> []"
      using inv ne only by (auto simp: vehicles_inv_def update_row_def)
    moreover have "distinct (map ve_id (update_row ve_id k ?f ?rows))"
      using inv keys_update_row[of ve_id ?f, OF id] by (simp add: vehicles_inv_def)
    ultimately show ?thesis using c cc 2(6) by (simp add: vehicles_inv_def)
  qed (use c in simp)
qed

lemma vehicle_step_inv:
  assumes "vehicles_inv s"
  shows "vehicles_inv (snd (vehicle_step q s))"
proof (cases "(q, s)" rule: vehicle_step.cases)
  case (2 now p)
  then show ?thesis using find_by_plate_out[OF assms, of now p] by (cases "find_by_plate now p s") auto
next
  case (3 now k)
  then show ?thesis using find_one_vehicle_out[OF assms, of now k] by (cases "find_one_vehicle now k s") auto
next
  case (4 now i d)
  have "vi_plate d \<noteq> []" if "valid_vehicle d" using that by (auto simp: valid_vehicle_def)
  then show ?thesis using 4 assms create_vehicle_inv[OF assms, of d now i] by auto
qed (use assms in \<open>auto simp: find_all_vehicles_inv update_vehicle_inv\<close>)

interpretation vehicles_service: invariant_service vehicle_step vehicles_inv
  by unfold_locales (rule vehicle_step_inv)

section \<open>Properties\<close>

definition sample_fleet :: db where
  "sample_fleet = empty_db
     \<lparr>d_vehicles := [sample_vehicle],
      d_clients := [\<lparr>cl_id = ''cl1'', cl_account = None, cl_first_name = ''Rosa'', cl_last_name = None, cl_phone = ''987654321'',
                     cl_email = None, cl_dni = None, cl_created_at = 0, cl_deleted_at = None\<rparr>]\<rparr>"

lemma sample_fleet_inv: "vehicles_inv sample_fleet"
  by (simp add: vehicles_inv_def sample_fleet_def vehicle_cache_current_def)

lemma listing_is_current:
  assumes "vehicles_inv s" and "fst (find_all_vehicles now q n c s) = Inr (rows, nx, hm)"
  shows "\<exists>q' n' c'. vehicle_list_key q n c = vehicle_list_key q' n' c'
    \<and> (map fst rows, nx, hm) = cursor_page ve_id n' (given_cursor c') (vehicle_rows q' s)"
proof -
  have cc: "vehicle_cache_current s" using assms(1) by (simp add: vehicles_inv_def)
  show ?thesis
  proof (cases "redis_get now (vehicle_list_key q n c) (d_redis s)")
    case None
    then show ?thesis
      using assms(2) by (intro exI[of _ q] exI[of _ n] exI[of _ c])
        (auto simp: find_all_vehicles_def Let_def comp_def split: prod.splits)
  next
    case (Some val)
    then obtain q' n' c' data where "val = RVehicles data nx hm" "rows = data" "vehicle_list_key q n c = vehicle_list_key q' n' c'"
      "(map fst data, nx, hm) = cursor_page ve_id n' (given_cursor c') (vehicle_rows q' s)"
      using cache_get[OF cc Some] assms(2)
      by (auto simp: current_answer_def find_all_vehicles_def vehicle_rows_def)
    then show ?thesis by blast
  qed
qed

lemma listing_again:
  assumes "vehicles_inv s" and "find_all_vehicles now q n c s = (out, t)"
    and "vehicle_list_key q' n c = vehicle_list_key q n c"
  shows "fst (find_all_vehicles now q' n c t) = out"
proof (cases "redis_get now (vehicle_list_key q n c) (d_redis s)")
  case None
  then show ?thesis
    using assms(2,3) by (auto simp: find_all_vehicles_def Let_def redis_get_set split: prod.splits)
next
  case (Some val)
  obtain data nx hm where "val = RVehicles data nx hm"
    using cache_get[OF _ Some] assms(1) by (auto simp: vehicles_inv_def current_answer_def)
  then show ?thesis using Some assms(2,3) by (auto simp: find_all_vehicles_def)
qed

text \<open>C37. Through any run of requests on vehicles no two plates are equal up to case, and the fields of a vehicle are never answered
  old: by id and by plate the vehicle is the row of the table, whatever the cache holds, and the vehicles of a listing are those
  of a current listing. What is cached beside them, the owner and the orders, may be as old as the entry. The listing need not be the one that was
  asked for: the key does not tell a search for \<open>all\<close> from no search, and after an unfiltered listing a search for it is answered with that.\<close>

theorem vehicle_cache_is_current:
  assumes "vehicles_inv s" and "t = run_requests vehicle_step qs s"
  shows "distinct (map (map upper \<circ> ve_plate) (d_vehicles t))
    \<and> (\<forall>now k. case find_row ve_id k (d_vehicles t) of
         None \<Rightarrow> fst (find_one_vehicle now k t) = Inl (NotFound ''Vehiculo no encontrado'')
       | Some v \<Rightarrow> \<exists>c ws. fst (find_one_vehicle now k t) = Inr (v, c, ws))
    \<and> (\<forall>now p. case vehicle_by_plate p t of
         None \<Rightarrow> fst (find_by_plate now p t) = Inl (NotFound ''Vehiculo no encontrado'')
       | Some v \<Rightarrow> \<exists>c. fst (find_by_plate now p t) = Inr (v, c))
    \<and> (\<forall>now q n c rows nx hm. fst (find_all_vehicles now q n c t) = Inr (rows, nx, hm) \<longrightarrow>
         (\<exists>q' n' c'. vehicle_list_key q n c = vehicle_list_key q' n' c'
            \<and> (map fst rows, nx, hm) = cursor_page ve_id n' (given_cursor c') (vehicle_rows q' t)))
    \<and> (\<forall>now n c out u. find_all_vehicles now None n c t = (out, u) \<longrightarrow>
         fst (find_all_vehicles now (Some ''all'') n c u) = out)"
proof -
  have inv: "vehicles_inv t" unfolding assms(2) by (rule vehicles_service.run_inv[OF assms(1)])
  have one: "case find_row ve_id k (d_vehicles t) of
      None \<Rightarrow> fst (find_one_vehicle now k t) = Inl (NotFound ''Vehiculo no encontrado'')
    | Some v \<Rightarrow> \<exists>c ws. fst (find_one_vehicle now k t) = Inr (v, c, ws)" for now k
    using find_one_vehicle_out[OF inv, of now k] by (cases "find_one_vehicle now k t") (auto split: option.splits)
  have plate: "case vehicle_by_plate p t of
      None \<Rightarrow> fst (find_by_plate now p t) = Inl (NotFound ''Vehiculo no encontrado'')
    | Some v \<Rightarrow> \<exists>c. fst (find_by_plate now p t) = Inr (v, c)" for now p
    using find_by_plate_out[OF inv, of now p] by (cases "find_by_plate now p t") (auto split: option.splits)
  have all: "vehicle_list_key (Some ''all'') n c = vehicle_list_key None n c" for n c
    by (simp add: vehicle_list_key_def or_default_def)
  have "distinct (map (map upper \<circ> ve_plate) (d_vehicles t))" using inv by (simp add: vehicles_inv_def)
  then show ?thesis using one plate listing_is_current[OF inv] listing_again[OF inv _ all] by blast
qed

theorem vehicle_cache_is_current_witness:
  "\<exists>c. fst (find_by_plate 9 ''abc-123'' (run_requests vehicle_step [(5, VehicleByPlate ''ABC-123'')] sample_fleet))
     = Inr (sample_vehicle, c)"
proof -
  let ?t = "run_requests vehicle_step [(5, VehicleByPlate ''ABC-123'')] sample_fleet"
  have "d_vehicles ?t = [sample_vehicle]"
    using find_by_plate_out[OF sample_fleet_inv, of 5 "''ABC-123''"]
    by (cases "find_by_plate 5 ''ABC-123'' sample_fleet") (simp add: sample_fleet_def)
  moreover have "map upper ''abc-123'' = ''ABC-123''" "map upper ''ABC-123'' = ''ABC-123''" by code_simp+
  ultimately have "vehicle_by_plate ''abc-123'' ?t = Some sample_vehicle" by (simp add: vehicle_by_plate_def)
  moreover have "case vehicle_by_plate ''abc-123'' ?t of
         None \<Rightarrow> fst (find_by_plate 9 ''abc-123'' ?t) = Inl (NotFound ''Vehiculo no encontrado'')
       | Some v \<Rightarrow> \<exists>c. fst (find_by_plate 9 ''abc-123'' ?t) = Inr (v, c)"
    using vehicle_cache_is_current[OF sample_fleet_inv refl, of "[(5, VehicleByPlate ''ABC-123'')]"] by blast
  ultimately show ?thesis by (simp only: option.simps)
qed

end
