(* ===== verification/AntiFraud.thy ===== *)
theory AntiFraud
  imports AuditTrail PaymentsService
begin

text \<open>
  The automatic fraud checks, \<open>src/common/anti-fraud/anti-fraud.service.ts\<close>, and the interceptor that runs them on
  every request that changes something (\<open>anti-fraud.interceptor.ts\<close>). The checks read the body before it is
  validated. The text of a number, the number of a text and the HMAC are parameters; ids and the instant of an
  alert are arguments.
\<close>

section \<open>JavaScript on JSON values\<close>

text \<open>The text of a JSON string: quotes, backslashes and control characters are escaped.\<close>

definition hex_digit :: "nat \<Rightarrow> char" where
  "hex_digit n = (if n < 10 then char_of (48 + n) else char_of (87 + n))"

definition escape_char :: "char \<Rightarrow> string" where
  "escape_char c =
     (let n = (of_char c :: nat) in
      if n = 34 then [CHR 0x5C, CHR 0x22] else if n = 92 then [CHR 0x5C, CHR 0x5C]
      else if n = 8 then [CHR 0x5C, CHR ''b''] else if n = 9 then [CHR 0x5C, CHR ''t'']
      else if n = 10 then [CHR 0x5C, CHR ''n''] else if n = 12 then [CHR 0x5C, CHR ''f'']
      else if n = 13 then [CHR 0x5C, CHR ''r'']
      else if n < 32 then [CHR 0x5C, CHR ''u'', CHR ''0'', CHR ''0'', hex_digit (n div 16), hex_digit (n mod 16)]
      else [c])"

definition quote_text :: "string \<Rightarrow> string" where
  "quote_text t = [CHR 0x22] @ concat (map escape_char t) @ [CHR 0x22]"

primrec joined :: "string list \<Rightarrow> string" where
  "joined [] = []"
| "joined (t # ts) = t @ (if ts = [] then [] else '','' @ joined ts)"

primrec stringify :: "(number \<Rightarrow> string) \<Rightarrow> json \<Rightarrow> string" where
  "stringify num JNull = ''null''"
| "stringify num (JBool b) = (if b then ''true'' else ''false'')"
| "stringify num (JNum x) = num x"
| "stringify num (JStr t) = quote_text t"
| "stringify num (JArr xs) = ''['' @ joined (map (stringify num) xs) @ '']''"
| "stringify num (JObj ms) =
     ''{'' @ joined (map (\<lambda>m. quote_text (fst m) @ '':'' @ snd m) (map (map_prod id (stringify num)) ms)) @ ''}''"

text \<open>\<open>Number(value)\<close>; an array is its text, so one with a single element is that element, and one with more is not a number.\<close>

fun to_number :: "(string \<Rightarrow> number) \<Rightarrow> json \<Rightarrow> number" where
  "to_number txt JNull = Fin 0"
| "to_number txt (JBool b) = Fin (if b then 1 else 0)"
| "to_number txt (JNum x) = x"
| "to_number txt (JStr t) = txt t"
| "to_number txt (JArr []) = Fin 0"
| "to_number txt (JArr [JBool b]) = NaN"
| "to_number txt (JArr [x]) = to_number txt x"
| "to_number txt (JArr (x # y # zs)) = NaN"
| "to_number txt (JObj ms) = NaN"

section \<open>The checks\<close>

record fraud_env =
  fe_num :: "number \<Rightarrow> string"
  fe_txt :: "string \<Rightarrow> number"
  fe_hmac :: "json \<Rightarrow> string"

record fraud_context =
  fc_user :: string
  fc_role :: string
  fc_method :: string
  fc_url :: string
  fc_body :: "json option"
  fc_entity :: string
  fc_entity_id :: "string option"

datatype alert_severity = Low | Medium | High | Critical

datatype alert_type = YAPE_DIVERSION | INVENTORY_MANIPULATION | HIGH_VALUE_MUTATION | RESTRICTED_ACCESS

fun alert_name :: "alert_type \<Rightarrow> string" where
  "alert_name YAPE_DIVERSION = ''YAPE_DIVERSION''"
| "alert_name INVENTORY_MANIPULATION = ''INVENTORY_MANIPULATION''"
| "alert_name HIGH_VALUE_MUTATION = ''HIGH_VALUE_MUTATION''"
| "alert_name RESTRICTED_ACCESS = ''RESTRICTED_ACCESS''"

definition yape_keywords :: "string list" where
  "yape_keywords = [''yape'', ''plin'', ''personal'', ''personal_yape'', ''numero_personal'']"

definition manipulation_patterns :: "string list" where
  "manipulation_patterns = [''ADJUSTMENT'', ''write_off'', ''merma'', ''perdida'']"

definition restricted_endpoints :: "string list" where
  "restricted_endpoints = [''force-logout'', ''delete'', ''hard-delete'', ''purge'']"

text \<open>A member of the body; an absent body is an empty object, and what is no object has none of these members.\<close>

definition body_of :: "fraud_context \<Rightarrow> json" where
  "body_of ctx = (case fc_body ctx of None \<Rightarrow> JObj [] | Some JNull \<Rightarrow> JObj [] | Some j \<Rightarrow> j)"

definition body_member :: "fraud_context \<Rightarrow> string \<Rightarrow> json option" where
  "body_member ctx k = (case body_of ctx of JObj ms \<Rightarrow> map_of ms k | _ \<Rightarrow> None)"

definition personal_yape :: "fraud_context \<Rightarrow> bool" where
  "personal_yape ctx \<longleftrightarrow>
     body_member ctx ''isPersonalYape'' = Some (JBool True)
     \<or> (case body_member ctx ''yapeAccount'' of Some (JStr t) \<Rightarrow> t \<noteq> [] | _ \<Rightarrow> False)"

definition check_yape_diversion :: "fraud_env \<Rightarrow> fraud_context \<Rightarrow> alert_type list" where
  "check_yape_diversion env ctx =
     (let text = map lower (stringify (fe_num env) (body_of ctx)) in
      if \<not> list_ex (\<lambda>k. contains_text k text) yape_keywords then []
      else if personal_yape ctx then [YAPE_DIVERSION] else [])"

definition is_adjustment :: "fraud_context \<Rightarrow> bool" where
  "is_adjustment ctx \<longleftrightarrow>
     body_member ctx ''type'' = Some (JStr ''ADJUSTMENT'')
     \<or> (case body_member ctx ''justification'' of
          Some (JStr t) \<Rightarrow> list_ex (\<lambda>p. contains_text p (map lower t)) manipulation_patterns
        | _ \<Rightarrow> False)"

definition check_inventory_manipulation :: "fraud_context \<Rightarrow> alert_type list" where
  "check_inventory_manipulation ctx =
     (if fc_entity ctx \<noteq> ''inventory'' \<and> fc_entity ctx \<noteq> ''inventory-item'' then []
      else if is_adjustment ctx then [INVENTORY_MANIPULATION] else [])"

definition mutation_amount :: "fraud_env \<Rightarrow> fraud_context \<Rightarrow> number" where
  "mutation_amount env ctx = (case body_member ctx ''amount'' of None \<Rightarrow> Fin 0 | Some j \<Rightarrow> to_number (fe_txt env) j)"

definition check_high_value :: "fraud_env \<Rightarrow> fraud_context \<Rightarrow> alert_type list" where
  "check_high_value env ctx =
     (if js_le (mutation_amount env ctx) (Fin 500) then []
      else if list_ex (\<lambda>k. contains_text k (fc_url ctx)) [''expense'', ''gasto'', ''payment'', ''pago'']
      then [HIGH_VALUE_MUTATION] else [])"

definition check_suspicious_access :: "fraud_context \<Rightarrow> alert_type list" where
  "check_suspicious_access ctx =
     (if list_ex (\<lambda>k. contains_text k (map lower (fc_url ctx))) restricted_endpoints then [RESTRICTED_ACCESS] else [])"

section \<open>Recording the alerts\<close>

fun severity_of :: "alert_type \<Rightarrow> alert_severity" where
  "severity_of YAPE_DIVERSION = Critical"
| "severity_of INVENTORY_MANIPULATION = High"
| "severity_of HIGH_VALUE_MUTATION = Medium"
| "severity_of RESTRICTED_ACCESS = High"

fun audit_severity_of :: "alert_severity \<Rightarrow> AuditSeverity" where
  "audit_severity_of Critical = SECURITY_ALERT"
| "audit_severity_of High = SECURITY_ALERT"
| "audit_severity_of Medium = WARNING"
| "audit_severity_of Low = INFO"

definition alert_hash :: "fraud_env \<Rightarrow> fraud_context \<Rightarrow> string \<Rightarrow> string \<Rightarrow> alert_type \<Rightarrow> string" where
  "alert_hash env ctx i time ty =
     generate_mutation_hash (fe_hmac env) (fc_entity ctx)
       (case fc_entity_id ctx of Some k \<Rightarrow> k | None \<Rightarrow> ''unknown'') CREATED None
       (Some [(''alertId'', JStr i), (''type'', JStr (alert_name ty)), (''timestamp'', JStr time)])"

definition alert_row :: "fraud_env \<Rightarrow> fraud_context \<Rightarrow> string \<Rightarrow> string \<Rightarrow> alert_type \<Rightarrow> audit_row" where
  "alert_row env ctx i time ty =
     \<lparr>au_user = fc_user ctx, au_role = fc_role ctx, au_action = ''FRAUD_'' @ alert_name ty, au_entity = Some (fc_entity ctx),
      au_entity_id = fc_entity_id ctx, au_severity = audit_severity_of (severity_of ty),
      au_hash = Some (alert_hash env ctx i time ty)\<rparr>"

text \<open>An entry that cannot be written is only logged.\<close>

definition persist_alert :: "audit_row \<Rightarrow> db \<Rightarrow> db" where
  "persist_alert r s = (case audit_create r s of Inl _ \<Rightarrow> s | Inr t \<Rightarrow> t)"

definition fraud_alerts :: "fraud_env \<Rightarrow> fraud_context \<Rightarrow> alert_type list" where
  "fraud_alerts env ctx =
     check_yape_diversion env ctx @ check_inventory_manipulation ctx @ check_high_value env ctx @ check_suspicious_access ctx"

definition fraud_audit :: "fraud_env \<Rightarrow> (alert_type \<Rightarrow> string) \<Rightarrow> string \<Rightarrow> fraud_context \<Rightarrow> db \<Rightarrow> alert_type list \<times> db" where
  "fraud_audit env ids time ctx s =
     (let alerts = fraud_alerts env ctx
      in (alerts, foldl (\<lambda>t ty. persist_alert (alert_row env ctx (ids ty) time ty) t) s alerts))"

text \<open>The request the interceptor hands over: only of a known user, and only when it changes something.\<close>

definition fraud_context_of :: "http_request \<Rightarrow> fraud_context option" where
  "fraud_context_of rq =
     (case hr_user rq of
        None \<Rightarrow> None
      | Some (user, role) \<Rightarrow>
          if hr_method rq \<in> {''GET'', ''HEAD'', ''OPTIONS''} then None
          else Some \<lparr>fc_user = user, fc_role = role_name role, fc_method = hr_method rq, fc_url = hr_url rq,
                     fc_body = hr_body rq, fc_entity = extract_entity (hr_url rq), fc_entity_id = hr_id rq\<rparr>)"

text \<open>The checks are started before the handler and not awaited; here they have finished when it starts.\<close>

definition fraud_intercept ::
    "fraud_env \<Rightarrow> (alert_type \<Rightarrow> string) \<Rightarrow> string \<Rightarrow> http_request \<Rightarrow> (db \<Rightarrow> 'a answer) \<Rightarrow> db \<Rightarrow> 'a answer" where
  "fraud_intercept env ids time rq handler s =
     (case fraud_context_of rq of
        None \<Rightarrow> handler s
      | Some ctx \<Rightarrow> handler (snd (fraud_audit env ids time ctx s)))"

section \<open>The text of a body\<close>

lemma contains_text_append: "contains_text p s \<Longrightarrow> contains_text p (a @ s)"
  by (induction a) auto

lemma contains_text_prefix: "contains_text p (p @ s)"
  by (cases "p @ s") (auto simp: append_eq_Cons_conv)

lemma contains_text_iff: "contains_text p s \<longleftrightarrow> (\<exists>a b. s = a @ p @ b)"
proof
  show "\<exists>a b. s = a @ p @ b" if "contains_text p s"
    using that
  proof (induction s)
    case Nil
    then show ?case by simp
  next
    case (Cons c s)
    show ?case
    proof (cases "take (length p) (c # s) = p")
      case True
      then have "c # s = [] @ p @ drop (length p) (c # s)" by (metis append_Nil append_take_drop_id)
      then show ?thesis by blast
    next
      case False
      then obtain a b where "s = a @ p @ b" using Cons by auto
      then have "c # s = (c # a) @ p @ b" by simp
      then show ?thesis by blast
    qed
  qed
next
  assume "\<exists>a b. s = a @ p @ b"
  then show "contains_text p s" using contains_text_append contains_text_prefix by blast
qed

lemma contains_text_trans: "contains_text p q \<Longrightarrow> contains_text q s \<Longrightarrow> contains_text p s"
proof -
  assume "contains_text p q" "contains_text q s"
  then obtain a b c d where "q = a @ p @ b" "s = c @ q @ d" unfolding contains_text_iff by blast
  then have "s = (c @ a) @ p @ (b @ d)" by simp
  then show ?thesis unfolding contains_text_iff by blast
qed

lemma contains_text_map: "contains_text p s \<Longrightarrow> contains_text (map f p) (map f s)"
  unfolding contains_text_iff by (metis map_append)

lemma contains_joined: "t \<in> set ts \<Longrightarrow> contains_text t (joined ts)"
proof (induction ts)
  case (Cons u ts)
  show ?case
  proof (cases "t = u")
    case True
    then show ?thesis by (simp add: contains_text_prefix)
  next
    case False
    then have "contains_text t (joined ts)" "ts \<noteq> []" using Cons by auto
    then show ?thesis using contains_text_append[of t "joined ts" "u @ '',''"] by simp
  qed
qed simp

text \<open>The name of a member is in the text of its object.\<close>

lemma stringify_names:
  assumes "k \<in> fst ` set ms"
  shows "contains_text (quote_text k) (stringify num (JObj ms))"
proof -
  obtain v where v: "(k, v) \<in> set ms" using assms by auto
  let ?ts = "map (\<lambda>m. quote_text (fst m) @ '':'' @ snd m) (map (map_prod id (stringify num)) ms)"
  have "quote_text k @ '':'' @ stringify num v \<in> set ?ts" using v by force
  then have "contains_text (quote_text k) (joined ?ts)"
    using contains_text_trans[OF contains_text_prefix contains_joined] by blast
  then show ?thesis
    using contains_text_append[of _ _ "''{''"] contains_text_trans[OF _ contains_text_prefix] by (simp del: append.simps)
qed

lemma personal_keyword:
  assumes "personal_yape ctx"
  shows "list_ex (\<lambda>k. contains_text k (map lower (stringify num (body_of ctx)))) yape_keywords"
proof -
  obtain ms k where b: "body_of ctx = JObj ms" and k: "k \<in> fst ` set ms" "k = ''isPersonalYape'' \<or> k = ''yapeAccount''"
  proof (cases "body_of ctx")
    case (JObj ms)
    have named: "k \<in> fst ` set ms" if "map_of ms k = Some v" for k and v :: json
      using map_of_SomeD[OF that] by force
    have "map_of ms ''isPersonalYape'' = Some (JBool True) \<or> (\<exists>v. map_of ms ''yapeAccount'' = Some v)"
      using assms JObj by (auto simp: personal_yape_def body_member_def split: option.splits)
    then show ?thesis using that[OF JObj] named by blast
  qed (use assms in \<open>auto simp: personal_yape_def body_member_def\<close>)
  have "contains_text ''yape'' (map lower (quote_text k))"
    using k(2) by (elim disjE) (simp_all, code_simp+)
  then have "contains_text ''yape'' (map lower (stringify num (JObj ms)))"
    using contains_text_trans contains_text_map[OF stringify_names[OF k(1), of num], of lower] by blast
  then show ?thesis by (simp add: b yape_keywords_def)
qed

lemma yape_diversion_iff: "check_yape_diversion env ctx = (if personal_yape ctx then [YAPE_DIVERSION] else [])"
  using personal_keyword by (auto simp: check_yape_diversion_def Let_def)

lemma persist_alerts:
  assumes "\<And>r. r \<in> set rows \<Longrightarrow> au_user r = user"
  shows "foldl (\<lambda>t r. persist_alert r t) s rows
    = (if account_exists user s then s\<lparr>d_audit := d_audit s @ rows\<rparr> else s)"
  using assms
proof (induction rows arbitrary: s)
  case (Cons r rows)
  have ex: "account_exists user (s\<lparr>d_audit := x\<rparr>) = account_exists user s" for x by (simp add: account_exists_def)
  show ?case using Cons by (auto simp: persist_alert_def audit_create_def ex)
qed simp

lemma fraud_audit_state:
  "snd (fraud_audit env ids time ctx s) =
     (if account_exists (fc_user ctx) s
      then s\<lparr>d_audit := d_audit s @ map (\<lambda>ty. alert_row env ctx (ids ty) time ty) (fraud_alerts env ctx)\<rparr> else s)"
proof -
  let ?rows = "map (\<lambda>ty. alert_row env ctx (ids ty) time ty) (fraud_alerts env ctx)"
  have "snd (fraud_audit env ids time ctx s) = foldl (\<lambda>t r. persist_alert r t) s ?rows"
    by (simp add: fraud_audit_def Let_def foldl_map)
  also have "\<dots> = (if account_exists (fc_user ctx) s then s\<lparr>d_audit := d_audit s @ ?rows\<rparr> else s)"
    by (rule persist_alerts) (auto simp: alert_row_def)
  finally show ?thesis .
qed

section \<open>Properties\<close>

text \<open>A request raises exactly the alerts whose condition holds, each at most once, and all of them reach the audit log
  before its handler runs, which finds the rest of the state as it was. The keywords that are looked for in the text of
  the body decide nothing: a body with one of the two members always holds one of them.\<close>

theorem fraud_alerts_exact:
  assumes "fraud_context_of rq = Some ctx" and "account_exists (fc_user ctx) s"
  shows "(YAPE_DIVERSION \<in> set (fraud_alerts env ctx) \<longleftrightarrow> personal_yape ctx)
    \<and> (INVENTORY_MANIPULATION \<in> set (fraud_alerts env ctx) \<longleftrightarrow>
         extract_entity (hr_url rq) \<in> {''inventory'', ''inventory-item''} \<and> is_adjustment ctx)
    \<and> (HIGH_VALUE_MUTATION \<in> set (fraud_alerts env ctx) \<longleftrightarrow>
         \<not> js_le (mutation_amount env ctx) (Fin 500)
         \<and> (\<exists>k \<in> {''expense'', ''gasto'', ''payment'', ''pago''}. contains_text k (hr_url rq)))
    \<and> (RESTRICTED_ACCESS \<in> set (fraud_alerts env ctx) \<longleftrightarrow>
         (\<exists>k \<in> {''force-logout'', ''delete'', ''hard-delete'', ''purge''}. contains_text k (map lower (hr_url rq))))
    \<and> distinct (fraud_alerts env ctx)
    \<and> fraud_intercept env ids time rq handler s
        = handler (s\<lparr>d_audit := d_audit s @ map (\<lambda>ty. alert_row env ctx (ids ty) time ty) (fraud_alerts env ctx)\<rparr>)"
proof -
  have ctx: "fc_entity ctx = extract_entity (hr_url rq)" "fc_url ctx = hr_url rq"
    using assms(1) by (auto simp: fraud_context_of_def split: option.splits if_splits)
  have "fraud_intercept env ids time rq handler s
      = handler (s\<lparr>d_audit := d_audit s @ map (\<lambda>ty. alert_row env ctx (ids ty) time ty) (fraud_alerts env ctx)\<rparr>)"
    using assms by (simp add: fraud_intercept_def fraud_audit_state)
  then show ?thesis
    by (auto simp: fraud_alerts_def yape_diversion_iff check_inventory_manipulation_def check_high_value_def
        check_suspicious_access_def restricted_endpoints_def ctx)
qed

definition fraud_sample_env :: fraud_env where
  "fraud_sample_env = \<lparr>fe_num = (\<lambda>_. ''1''), fe_txt = (\<lambda>_. NaN), fe_hmac = (\<lambda>_. ''h'')\<rparr>"

definition sample_payment_request :: http_request where
  "sample_payment_request =
     \<lparr>hr_user = Some (''a1'', UserRole.ADMIN), hr_method = ''POST'', hr_url = ''/api/v1/payments'',
      hr_body = Some (JObj [(''method'', JStr ''YAPE''), (''yapeAccount'', JStr ''123''), (''amount'', JNum (Fin 80))]),
      hr_params = [], hr_id = None\<rparr>"

theorem fraud_alerts_exact_witness:
  "\<exists>ctx. fraud_context_of sample_payment_request = Some ctx
     \<and> YAPE_DIVERSION \<in> set (fraud_alerts fraud_sample_env ctx)"
proof -
  obtain ctx where ctx: "fraud_context_of sample_payment_request = Some ctx" "fc_user ctx = ''a1''"
    "fc_body ctx = Some (JObj [(''method'', JStr ''YAPE''), (''yapeAccount'', JStr ''123''), (''amount'', JNum (Fin 80))])"
    by (simp add: fraud_context_of_def sample_payment_request_def)
  have "personal_yape ctx" by (simp add: personal_yape_def body_member_def body_of_def ctx)
  moreover have "account_exists (fc_user ctx) sample_ledger" by (simp add: ctx)
  ultimately show ?thesis using fraud_alerts_exact[OF ctx(1)] ctx(1) by blast
qed

text \<open>A payment into the account of the shop is regular for the payments service, which records nothing about it; the
  automatic check writes a security alert of a diverted payment for the same request.\<close>

theorem official_yape_is_flagged:
  assumes "hr_user rq = Some (user, role)" and "hr_method rq = ''POST''" and "hr_body rq = Some (JObj ms)"
    and "map_of ms ''yapeAccount'' = Some (JStr y)" and "official_yape s = Some y" and "account_exists user s"
    and "pa_yape p = Some y" and "pa_personal p \<noteq> Some True"
  shows "check_yape now p user s = (Inr False, s)
    \<and> (\<exists>ctx r. fraud_context_of rq = Some ctx \<and> au_action r = ''FRAUD_YAPE_DIVERSION'' \<and> au_severity r = SECURITY_ALERT
         \<and> au_user r = user \<and> r \<in> set (d_audit (snd (fraud_audit env ids time ctx s))))"
proof -
  obtain ctx where ctx: "fraud_context_of rq = Some ctx" "fc_user ctx = user" "fc_body ctx = Some (JObj ms)"
    using assms(1-3) by (simp add: fraud_context_of_def)
  have "y \<noteq> []" using assms(5) by (auto simp: official_yape_def split: option.splits if_splits)
  then have "personal_yape ctx" by (simp add: personal_yape_def body_member_def body_of_def ctx assms(4))
  then have "YAPE_DIVERSION \<in> set (fraud_alerts env ctx)" by (simp add: fraud_alerts_def yape_diversion_iff)
  then have "alert_row env ctx (ids YAPE_DIVERSION) time YAPE_DIVERSION \<in> set (d_audit (snd (fraud_audit env ids time ctx s)))"
    using assms(6) ctx(2) by (simp add: fraud_audit_state)
  moreover have "check_yape now p user s = (Inr False, s)"
    using assms(5,7,8) by (simp add: check_yape_def)
  moreover have "au_action (alert_row env ctx (ids YAPE_DIVERSION) time YAPE_DIVERSION) = ''FRAUD_YAPE_DIVERSION''"
    "au_severity (alert_row env ctx (ids YAPE_DIVERSION) time YAPE_DIVERSION) = SECURITY_ALERT"
    "au_user (alert_row env ctx (ids YAPE_DIVERSION) time YAPE_DIVERSION) = user"
    by (simp_all add: alert_row_def ctx(2))
  ultimately show ?thesis using ctx(1) by blast
qed

theorem official_yape_is_flagged_witness:
  "check_yape 7 \<lparr>pa_invoice = Some ''i1'', pa_order = None, pa_method = YAPE, pa_amount = 80, pa_reference = None,
      pa_channel = None, pa_personal = None, pa_yape = Some ''123'', pa_notes = None, pa_receipt = None,
      pa_paid_at = None\<rparr> ''a1'' sample_ledger = (Inr False, sample_ledger)
     \<and> (\<exists>ctx r. fraud_context_of sample_payment_request = Some ctx \<and> au_severity r = SECURITY_ALERT
          \<and> r \<in> set (d_audit (snd (fraud_audit fraud_sample_env (\<lambda>_. ''x'') ''t'' ctx sample_ledger))))"
  using official_yape_is_flagged[of sample_payment_request "''a1''" UserRole.ADMIN
      "[(''method'', JStr ''YAPE''), (''yapeAccount'', JStr ''123''), (''amount'', JNum (Fin 80))]" "''123''" sample_ledger
      "\<lparr>pa_invoice = Some ''i1'', pa_order = None, pa_method = YAPE, pa_amount = 80, pa_reference = None,
        pa_channel = None, pa_personal = None, pa_yape = Some ''123'', pa_notes = None, pa_receipt = None, pa_paid_at = None\<rparr>" 7
      fraud_sample_env "\<lambda>_. ''x''" "''t''"]
  by (simp add: sample_payment_request_def) blast

end
