(* ===== verification/Workers.thy ===== *)
theory Workers
  imports AuditTrail FinanceService OrderUseCases DomainPersonnel
begin

text \<open>
  The background workers (\<open>src/workers\<close>), what they do with the jobs the services leave in the queues and with what
  they find in the tables at their hours, and the reading of the audit log
  (\<open>src/modules/audit/audit.service.ts\<close>). A job of the model names what it is about and leaves out the rest of its
  payload, of which the messages only use the text.
\<close>

section \<open>The alert dispatcher\<close>

definition dispatch_job :: "job \<Rightarrow> db \<Rightarrow> db" where
  "dispatch_job j s =
     (if jb_name j = ''cashbox-discrepancy'' then emit_anomaly_detected ''CASHBOX_DISCREPANCY'' s
      else if jb_name j = ''expense-approval-required'' then emit_approval_requested (jb_subject j) s
      else if jb_name j = ''suspicious-expense'' then emit_security_alert ''SUSPICIOUS_EXPENSE'' s
      else if jb_name j = ''expense-disbursed'' then emit_approval_resolved (jb_subject j) s
      else s)"

text \<open>The queue hands its jobs to its processor in the order they came.\<close>

definition drain_alerts :: "db \<Rightarrow> db" where
  "drain_alerts s =
     foldl (\<lambda>t j. dispatch_job j t) (s\<lparr>d_jobs := filter (\<lambda>j. jb_queue j \<noteq> AlertDispatcher) (d_jobs s)\<rparr>)
       (filter (\<lambda>j. jb_queue j = AlertDispatcher) (d_jobs s))"

section \<open>The audit worker\<close>

text \<open>The payload of a job of \<open>audit-events\<close>, without the prose; the severity is the default of the column.\<close>

record audit_job =
  aj_user :: string
  aj_role :: string
  aj_action :: string
  aj_entity :: string
  aj_entity_id :: "string option"
  aj_hash :: string

definition process_audit_job :: "audit_job \<Rightarrow> db \<Rightarrow> unit answer" where
  "process_audit_job j s =
     (case audit_create \<lparr>au_user = aj_user j, au_role = aj_role j, au_action = aj_action j,
                         au_entity = Some (aj_entity j), au_entity_id = aj_entity_id j, au_severity = INFO,
                         au_hash = Some (aj_hash j)\<rparr> s of
        Inl e \<Rightarrow> (Inl e, s)
      | Inr s1 \<Rightarrow> (Inr (), s1))"

text \<open>The payload of the job \<open>mechanic-efficiency\<close> that finishing an order leaves; \<open>hash\<close> is the SHA-256 of its text.\<close>

definition efficiency_job :: "(string \<Rightarrow> string) \<Rightarrow> string \<Rightarrow> requester \<Rightarrow> OrderStatus \<Rightarrow> string \<Rightarrow> audit_job" where
  "efficiency_job sha k rq st now_text =
     \<lparr>aj_user = rq_id rq, aj_role = role_name (rq_role rq), aj_action = ''WORK_ORDER_COMPLETED'', aj_entity = ''WorkOrder'',
      aj_entity_id = Some k,
      aj_hash = sha (k @ '':'' @ rq_id rq @ '':'' @ (if st = READY then ''READY'' else ''IN_REVIEW'') @ '':'' @ now_text)\<rparr>"

section \<open>The stock watch\<close>

definition critical_items :: "db \<Rightarrow> item_row list" where
  "critical_items s = filter (\<lambda>i. it_stock i \<le> it_min_stock i) (filter it_active (d_items s))"

definition check_inventory_levels :: "db \<Rightarrow> db" where
  "check_inventory_levels s = foldl (\<lambda>t i. emit_inventory_low_stock (it_id i) t) s (critical_items s)"

section \<open>The daily report of the till, the monthly audit and the backup\<close>

text \<open>An entry of a worker is written for the user \<open>system\<close>.\<close>

definition worker_entry :: "string \<Rightarrow> string \<Rightarrow> audit_row" where
  "worker_entry action entity =
     \<lparr>au_user = ''system'', au_role = ''OWNER'', au_action = action, au_entity = Some entity, au_entity_id = None,
      au_severity = INFO, au_hash = None\<rparr>"

definition write_entry :: "audit_row \<Rightarrow> db \<Rightarrow> unit answer" where
  "write_entry a s = (case audit_create a s of Inl e \<Rightarrow> (Inl e, s) | Inr s1 \<Rightarrow> (Inr (), s1))"

record cashbox_report =
  cr_income :: number
  cr_expenses :: number
  cr_net :: number
  cr_payments :: nat
  cr_active_orders :: nat
  cr_discrepancy :: int
  cr_status :: "CashboxStatus option"

text \<open>Sums are those of the database, exact on cents. \<open>today\<close> is the last local midnight.\<close>

definition daily_cashbox_report :: "int \<Rightarrow> db \<Rightarrow> cashbox_report" where
  "daily_cashbox_report today s =
     (let ps = filter (\<lambda>p. today \<le> pm_paid_at p) (d_payments s);
          xs = filter (\<lambda>x. today \<le> ex_created_at x \<and> ex_status x = DISBURSED) (d_expenses s);
          session = (case sort_key (\<lambda>c. - cs_opened_at c) (filter (\<lambda>c. today \<le> cs_opened_at c) (d_sessions s)) of
                       [] \<Rightarrow> None | c # _ \<Rightarrow> Some c);
          income = cents (sum_list (map pm_amount ps));
          expenses = cents (sum_list (map ex_amount xs))
      in \<lparr>cr_income = income, cr_expenses = expenses, cr_net = js_sub income expenses, cr_payments = length ps,
          cr_active_orders =
            length (filter (\<lambda>w. wo_status w \<in> {IN_DIAGNOSIS, IN_PROGRESS, IN_REVIEW, BUDGETED}) (d_orders s)),
          cr_discrepancy = (case session of None \<Rightarrow> 0
                            | Some c \<Rightarrow> (case cs_discrepancy c of None \<Rightarrow> 0 | Some n \<Rightarrow> n)),
          cr_status = map_option cs_status session\<rparr>)"

text \<open>The report is the metadata of the entry.\<close>

definition send_daily_cashbox_report :: "int \<Rightarrow> int \<Rightarrow> db \<Rightarrow> cashbox_report answer" where
  "send_daily_cashbox_report tz now s =
     (case write_entry (worker_entry ''CASHBOX_DAILY_REPORT_SENT'' ''CashboxSession'')
             (emit_security_alert ''CASHBOX_DAILY_REPORT'' s) of
        (Inl e, s1) \<Rightarrow> (Inl e, s1)
      | (Inr _, s1) \<Rightarrow> (Inr (daily_cashbox_report (set_hours tz now 0 0) s), s1))"

text \<open>The groups of movements of the month, by item and type; their number is the metadata of the entry. The two instants are
  the local midnights of the first days of the last month and of this one.\<close>

definition monthly_groups :: "int \<Rightarrow> int \<Rightarrow> db \<Rightarrow> (string \<times> MovementType) list" where
  "monthly_groups from_t to_t s =
     remdups (map (\<lambda>m. (mv_item m, mv_type m)) (filter (\<lambda>m. from_t \<le> mv_at m \<and> mv_at m < to_t) (d_movements s)))"

definition monthly_inventory_audit :: "int \<Rightarrow> int \<Rightarrow> db \<Rightarrow> nat answer" where
  "monthly_inventory_audit last_month this_month_start s =
     (case write_entry (worker_entry ''MONTHLY_INVENTORY_AUDIT'' ''Inventory'') s of
        (Inl e, s1) \<Rightarrow> (Inl e, s1)
      | (Inr _, s1) \<Rightarrow> (Inr (length (monthly_groups last_month this_month_start s)), s1))"

definition daily_backup :: "db \<Rightarrow> unit answer" where
  "daily_backup = write_entry (worker_entry ''BACKUP_TRIGGERED'' ''System'')"

section \<open>The anomaly watch\<close>

text \<open>An entry as the table keeps it, with its identifier and the instant it was written.\<close>

record stored_audit =
  sa_id :: string
  sa_row :: audit_row
  sa_at :: int

definition get_hours :: "int \<Rightarrow> int \<Rightarrow> int" where
  "get_hours tz t = (t + tz) mod 86400000 div 3600000"

definition watched_entities :: "string list" where
  "watched_entities = [''Finance'', ''CashboxSession'', ''Payment'', ''Invoice'']"

definition watched_actions :: "string list" where
  "watched_actions = [''PAYMENTS_CREATED'', ''FINANCE_CREATED'', ''CASHBOX_OPENED'']"

definition off_hours_access :: "int \<Rightarrow> stored_audit list \<Rightarrow> stored_audit list" where
  "off_hours_access now logs =
     filter (\<lambda>e. now - 3600000 \<le> sa_at e \<and> au_entity (sa_row e) \<in> set (map Some watched_entities)) logs"

definition rapid_changes :: "int \<Rightarrow> stored_audit list \<Rightarrow> (string \<times> nat) list" where
  "rapid_changes now logs =
     (let recent = filter (\<lambda>e. now - 300000 \<le> sa_at e \<and> au_action (sa_row e) \<in> set watched_actions) logs
      in map (\<lambda>u. (u, length (filter (\<lambda>e. au_user (sa_row e) = u) recent)))
           (remdups (map (\<lambda>e. au_user (sa_row e)) recent)))"

definition detect_anomalies :: "int \<Rightarrow> int \<Rightarrow> stored_audit list \<Rightarrow> db \<Rightarrow> db" where
  "detect_anomalies tz now logs s =
     (let hour = get_hours tz now;
          s1 = (if (hour < 7 \<or> 21 < hour) \<and> off_hours_access now logs \<noteq> []
                then emit_security_alert ''OFF_HOURS_FINANCE_ACCESS'' s else s)
      in foldl (\<lambda>t c. if 5 < snd c then emit_security_alert ''RAPID_FINANCE_CHANGES'' t else t) s1 (rapid_changes now logs))"

section \<open>Reading the audit log\<close>

record audit_filters =
  au_by_user :: "string option"
  au_by_action :: "string option"
  au_by_entity :: "string option"
  au_by_entity_id :: "string option"
  au_from :: "int option"
  au_to :: "int option"

definition asked :: "string option \<Rightarrow> string option \<Rightarrow> bool" where
  "asked wanted column \<longleftrightarrow> (if nonempty wanted then column = wanted else True)"

definition audit_rows :: "audit_filters \<Rightarrow> stored_audit list \<Rightarrow> stored_audit list" where
  "audit_rows f logs =
     sort_key (\<lambda>e. - sa_at e)
       (filter (\<lambda>e. asked (au_by_user f) (Some (au_user (sa_row e))) \<and> asked (au_by_action f) (Some (au_action (sa_row e)))
                  \<and> asked (au_by_entity f) (au_entity (sa_row e)) \<and> asked (au_by_entity_id f) (au_entity_id (sa_row e))
                  \<and> in_range (au_from f) (au_to f) (sa_at e)) logs)"

record audit_listing =
  al_data :: "stored_audit list"
  al_total :: nat
  al_limit :: nat
  al_cursor :: "string option"
  al_has_next :: bool

text \<open>By page when either number is given, by cursor otherwise; at most a hundred entries.\<close>

definition find_all_audit ::
    "audit_filters \<Rightarrow> nat option \<Rightarrow> string option \<Rightarrow> nat option \<Rightarrow> nat option \<Rightarrow> stored_audit list \<Rightarrow> audit_listing" where
  "find_all_audit f limit cursor page page_size logs =
     (let rows = audit_rows f logs
      in if page \<noteq> None \<or> page_size \<noteq> None
         then let n = min (case page_size of None \<Rightarrow> 20 | Some k \<Rightarrow> k) 100;
                  p = (case page of None \<Rightarrow> 1 | Some k \<Rightarrow> k)
              in \<lparr>al_data = take n (drop ((p - 1) * n) rows), al_total = length rows, al_limit = n, al_cursor = None,
                  al_has_next = p * n < length rows\<rparr>
         else let n = min (case limit of None \<Rightarrow> 50 | Some k \<Rightarrow> k) 100
              in (case cursor_page sa_id n (if nonempty cursor then cursor else None) rows of (data, last_id, hm) \<Rightarrow>
                    \<lparr>al_data = data, al_total = length rows, al_limit = n, al_cursor = last_id, al_has_next = hm\<rparr>))"

definition find_one_audit :: "string \<Rightarrow> stored_audit list \<Rightarrow> http_error + stored_audit" where
  "find_one_audit k logs =
     (case find_row sa_id k logs of None \<Rightarrow> Inl (NotFound ''Registro de auditoria no encontrado'') | Some e \<Rightarrow> Inr e)"

definition audit_by_user :: "string \<Rightarrow> nat option \<Rightarrow> string option \<Rightarrow> stored_audit list \<Rightarrow> audit_listing" where
  "audit_by_user user limit cursor =
     find_all_audit \<lparr>au_by_user = Some user, au_by_action = None, au_by_entity = None, au_by_entity_id = None,
                     au_from = None, au_to = None\<rparr> limit cursor None None"

definition audit_by_entity ::
    "string \<Rightarrow> string \<Rightarrow> nat option \<Rightarrow> string option \<Rightarrow> stored_audit list \<Rightarrow> audit_listing" where
  "audit_by_entity entity entity_id limit cursor =
     find_all_audit \<lparr>au_by_user = None, au_by_action = None, au_by_entity = Some entity, au_by_entity_id = Some entity_id,
                     au_from = None, au_to = None\<rparr> limit cursor None None"

section \<open>The alerts page\<close>

definition alert_entries :: "stored_audit list \<Rightarrow> stored_audit list" where
  "alert_entries logs =
     sort_key (\<lambda>e. - sa_at e) (filter (\<lambda>e. au_severity (sa_row e) \<in> {CRITICAL, SECURITY_ALERT}) logs)"

definition get_alerts :: "nat option \<Rightarrow> nat option \<Rightarrow> stored_audit list \<Rightarrow> stored_audit page" where
  "get_alerts page page_size logs =
     page_of (case page of None \<Rightarrow> 1 | Some p \<Rightarrow> p) (case page_size of None \<Rightarrow> 30 | Some n \<Rightarrow> n) (alert_entries logs)"

text \<open>Acknowledging an alert answers so and changes nothing.\<close>

definition acknowledge_alert :: "string \<Rightarrow> db \<Rightarrow> (bool \<times> string) answer" where
  "acknowledge_alert k s = (Inr (True, k), s)"

lemma alerts_entries_iff: "e \<in> set (alert_entries logs) \<longleftrightarrow> e \<in> set logs \<and> au_severity (sa_row e) \<in> {CRITICAL, SECURITY_ALERT}"
  by (auto simp: alert_entries_def)

section \<open>What reaches the screens\<close>

definition alert_message :: "job \<Rightarrow> ws_message list" where
  "alert_message j =
     (if jb_name j = ''cashbox-discrepancy''
      then [\<lparr>wm_room = Dashboard, wm_event = ''anomaly:detected'', wm_subject = ''CASHBOX_DISCREPANCY''\<rparr>]
      else if jb_name j = ''expense-approval-required''
      then [\<lparr>wm_room = Dashboard, wm_event = ''approval:requested'', wm_subject = jb_subject j\<rparr>]
      else if jb_name j = ''suspicious-expense''
      then [\<lparr>wm_room = Dashboard, wm_event = ''alert:security'', wm_subject = ''SUSPICIOUS_EXPENSE''\<rparr>]
      else if jb_name j = ''expense-disbursed''
      then [\<lparr>wm_room = Dashboard, wm_event = ''approval:resolved'', wm_subject = jb_subject j\<rparr>]
      else [])"

lemmas emit_defs = emit_anomaly_detected_def emit_approval_requested_def emit_security_alert_def
  emit_approval_resolved_def emit_inventory_low_stock_def send_def

lemma dispatch_job_eq: "dispatch_job j s = s\<lparr>d_sent := d_sent s @ alert_message j\<rparr>"
proof -
  define told where "told m = s\<lparr>d_sent := d_sent s @ m\<rparr>" for m
  have emits:
    "emit_anomaly_detected x s = told [\<lparr>wm_room = Dashboard, wm_event = ''anomaly:detected'', wm_subject = x\<rparr>]"
    "emit_approval_requested x s = told [\<lparr>wm_room = Dashboard, wm_event = ''approval:requested'', wm_subject = x\<rparr>]"
    "emit_security_alert x s = told [\<lparr>wm_room = Dashboard, wm_event = ''alert:security'', wm_subject = x\<rparr>]"
    "emit_approval_resolved x s = told [\<lparr>wm_room = Dashboard, wm_event = ''approval:resolved'', wm_subject = x\<rparr>]" for x
    by (simp_all only: emit_defs told_def)
  let ?names = "{''cashbox-discrepancy'', ''expense-approval-required'', ''suspicious-expense'', ''expense-disbursed''}"
  have "dispatch_job j s = told (alert_message j)"
  proof (cases "jb_name j \<in> ?names")
    case True
    then show ?thesis unfolding dispatch_job_def alert_message_def emits by auto
  next
    case False
    then have "dispatch_job j s = s" "alert_message j = []" by (simp_all add: dispatch_job_def alert_message_def)
    then show ?thesis by (simp add: told_def)
  qed
  then show ?thesis by (simp add: told_def)
qed

lemma dispatch_jobs_eq: "foldl (\<lambda>t j. dispatch_job j t) s js = s\<lparr>d_sent := d_sent s @ concat (map alert_message js)\<rparr>"
  by (induction js arbitrary: s) (simp_all add: dispatch_job_eq)

definition alert_jobs :: "db \<Rightarrow> job list" where
  "alert_jobs s = filter (\<lambda>j. jb_queue j = AlertDispatcher) (d_jobs s)"

lemma drain_alerts_eq:
  "drain_alerts s =
     s\<lparr>d_jobs := filter (\<lambda>j. jb_queue j \<noteq> AlertDispatcher) (d_jobs s),
       d_sent := d_sent s @ concat (map alert_message (alert_jobs s))\<rparr>"
  by (simp add: drain_alerts_def dispatch_jobs_eq alert_jobs_def)

lemma alert_jobs_enqueue [simp]:
  "alert_jobs (enqueue q n x s) =
     alert_jobs s @ (if q = AlertDispatcher then [\<lparr>jb_queue = q, jb_name = n, jb_subject = x\<rparr>] else [])"
  by (simp add: alert_jobs_def enqueue_def)

lemma low_stock_jobs_silent:
  "concat (map alert_message (alert_jobs (foldl (\<lambda>t i. enqueue AlertDispatcher ''low-stock-alert'' i t) s xs))) =
     concat (map alert_message (alert_jobs s))"
  by (induction xs arbitrary: s) (simp_all add: alert_message_def)

lemma foldl_enqueue_sent [simp]: "d_sent (foldl (\<lambda>t i. enqueue q n i t) s xs) = d_sent s"
  by (induction xs arbitrary: s) simp_all

lemma dispatch_line_frame:
  "d_jobs (snd (dispatch_line_step now k u l s)) = d_jobs s \<and> d_sent (snd (dispatch_line_step now k u l s)) = d_sent s"
  by (simp add: dispatch_line_step_def Let_def update_item_def log_event_def split: option.splits)

lemma dispatch_lines_frame:
  "d_jobs (snd (dispatch_lines now k u ls s)) = d_jobs s \<and> d_sent (snd (dispatch_lines now k u ls s)) = d_sent s"
proof (induction ls arbitrary: s)
  case (Cons l ls)
  obtain out s1 where o: "dispatch_line_step now k u l s = (out, s1)" by fastforce
  have f: "d_jobs s1 = d_jobs s \<and> d_sent s1 = d_sent s" using dispatch_line_frame[of now k u l s] o by simp
  show ?case
  proof (cases out)
    case (Inr low)
    obtain out' s2 where o': "dispatch_lines now k u ls s1 = (out', s2)" by fastforce
    have "d_jobs s2 = d_jobs s1 \<and> d_sent s2 = d_sent s1" using Cons[of s1] o' by simp
    then show ?thesis using f o o' Inr by (cases out') simp_all
  qed (use f o in simp)
qed simp

lemma dispatch_parts_silent:
  assumes "dispatch_parts now k ls rq s = (Inr n, t)"
  shows "d_sent (drain_alerts t) = d_sent (drain_alerts s)"
proof -
  obtain alerts s1 where l: "dispatch_lines now k (rq_id rq) ls s = (Inr alerts, s1)"
    and t: "t = foldl (\<lambda>t i. enqueue AlertDispatcher ''low-stock-alert'' i t)
                   (set_redis (dispatch_invalidate ls (d_redis s1)) s1) alerts"
    using assms
    by (auto simp: dispatch_parts_def scoped_order_def transaction_def split: option.splits if_splits prod.splits sum.splits)
  have f: "d_jobs s1 = d_jobs s" "d_sent s1 = d_sent s" using dispatch_lines_frame[of now k "rq_id rq" ls s] l by simp_all
  then have j: "alert_jobs (set_redis (dispatch_invalidate ls (d_redis s1)) s1) = alert_jobs s"
    by (simp add: alert_jobs_def)
  show ?thesis unfolding drain_alerts_eq t by (simp add: low_stock_jobs_silent j f)
qed

lemma pending_expense_announced:
  assumes "create_expense dec now new_id user amount cur cat s = (Inr x, t)" and "ex_status x = ExpenseStatus.PENDING_APPROVAL"
  shows "\<lparr>wm_room = Dashboard, wm_event = ''approval:requested'', wm_subject = ex_id x\<rparr> \<in> set (d_sent (drain_alerts t))"
proof -
  have "\<not> js_lt amount (js_int 100)"
    using assms by (auto simp: create_expense_def Let_def simp del: js_lt.simps split: if_split_asm)
  moreover have "account_exists user s \<and> new_id \<notin> ex_id ` set (d_expenses s)"
    using assms(1) by (simp add: create_expense_def Let_def split: if_split_asm)
  ultimately have "\<exists>s2. t = enqueue AlertDispatcher ''expense-approval-required'' new_id s2 \<and> ex_id x = new_id"
    using assms(1) unfolding create_expense_def Let_def by (simp only: if_False if_True simp_thms) (metis Inr_inject Pair_inject expense_row.select_convs(1))
  then obtain s2 where "t = enqueue AlertDispatcher ''expense-approval-required'' (ex_id x) s2" by blast
  then show ?thesis by (simp add: drain_alerts_eq alert_message_def)
qed

lemma check_inventory_sent:
  "d_sent (check_inventory_levels s) =
     d_sent s @ map (\<lambda>i. \<lparr>wm_room = Dashboard, wm_event = ''inventory:low_stock'', wm_subject = it_id i\<rparr>) (critical_items s)"
proof -
  have "d_sent (foldl (\<lambda>t i. emit_inventory_low_stock (it_id i) t) s xs) =
      d_sent s @ map (\<lambda>i. \<lparr>wm_room = Dashboard, wm_event = ''inventory:low_stock'', wm_subject = it_id i\<rparr>) xs" for xs
    by (induction xs arbitrary: s) (simp_all add: emit_defs)
  then show ?thesis by (simp add: check_inventory_levels_def)
qed

section \<open>The alerts\<close>

text \<open>C38. The dispatcher turns the jobs of its queue into their messages, in order, and leaves none behind. The request to
  approve an expense reaches the dashboard. The alerts of parts that fall under their minimum have a name it does
  not know: dispatching parts makes it send nothing, and only the watch that runs every six hours reports every active part at or under
  its minimum.\<close>

theorem alerts_reach_dashboard:
  "d_sent (drain_alerts s) = d_sent s @ concat (map alert_message (alert_jobs s)) \<and> alert_jobs (drain_alerts s) = []
   \<and> (create_expense dec now new_id user amount cur cat s = (Inr x, t1) \<and> ex_status x = ExpenseStatus.PENDING_APPROVAL
        \<longrightarrow> \<lparr>wm_room = Dashboard, wm_event = ''approval:requested'', wm_subject = ex_id x\<rparr> \<in> set (d_sent (drain_alerts t1)))
   \<and> (dispatch_parts now k ls rq s = (Inr n, t2) \<longrightarrow> d_sent (drain_alerts t2) = d_sent (drain_alerts s))
   \<and> (\<forall>i \<in> set (d_items s). it_active i \<and> it_stock i \<le> it_min_stock i
        \<longrightarrow> \<lparr>wm_room = Dashboard, wm_event = ''inventory:low_stock'', wm_subject = it_id i\<rparr>
              \<in> set (d_sent (check_inventory_levels s)))"
proof (intro conjI impI ballI)
  show "d_sent (drain_alerts s) = d_sent s @ concat (map alert_message (alert_jobs s))" by (simp add: drain_alerts_eq)
  show "alert_jobs (drain_alerts s) = []" by (simp add: drain_alerts_eq alert_jobs_def)
next
  assume "create_expense dec now new_id user amount cur cat s = (Inr x, t1) \<and> ex_status x = ExpenseStatus.PENDING_APPROVAL"
  then show "\<lparr>wm_room = Dashboard, wm_event = ''approval:requested'', wm_subject = ex_id x\<rparr> \<in> set (d_sent (drain_alerts t1))"
    using pending_expense_announced by blast
next
  assume "dispatch_parts now k ls rq s = (Inr n, t2)"
  then show "d_sent (drain_alerts t2) = d_sent (drain_alerts s)" by (rule dispatch_parts_silent)
next
  fix i assume "i \<in> set (d_items s)" "it_active i \<and> it_stock i \<le> it_min_stock i"
  then show "\<lparr>wm_room = Dashboard, wm_event = ''inventory:low_stock'', wm_subject = it_id i\<rparr> \<in> set (d_sent (check_inventory_levels s))"
    by (force simp: check_inventory_sent critical_items_def)
qed

theorem alerts_reach_dashboard_witness:
  "\<exists>n t. dispatch_parts 7 ''o1'' [\<lparr>dl_item = ''i1'', dl_quantity = 4, dl_movement = ''v1''\<rparr>] sample_admin (sample_orders IN_PROGRESS)
       = (Inr n, t)
     \<and> d_sent (drain_alerts t) = d_sent (drain_alerts (sample_orders IN_PROGRESS))"
proof -
  let ?ls = "[\<lparr>dl_item = ''i1'', dl_quantity = 4, dl_movement = ''v1''\<rparr>]"
  have "\<exists>a u. dispatch_lines 7 ''o1'' ''a1'' ?ls (sample_orders IN_PROGRESS) = (Inr a, u)"
    by (simp add: dispatch_line_step_def update_item_items Let_def items.lookup_modify)
  then obtain n t where o: "dispatch_parts 7 ''o1'' ?ls sample_admin (sample_orders IN_PROGRESS) = (Inr n, t)"
    by (auto simp: dispatch_parts_def scoped_order_def assert_mutation_scope_def transaction_def)
  then show ?thesis using alerts_reach_dashboard[of "sample_orders IN_PROGRESS"] by blast
qed

section \<open>The audit worker and the hours\<close>

text \<open>What finishing an order leaves for the audit worker is stored under the account that finished it.\<close>

lemma efficiency_entry_stored:
  assumes "account_exists (rq_id rq) s"
  shows "process_audit_job (efficiency_job sha k rq st t) s =
    (Inr (), s\<lparr>d_audit := d_audit s @
       [\<lparr>au_user = rq_id rq, au_role = role_name (rq_role rq), au_action = ''WORK_ORDER_COMPLETED'', au_entity = Some ''WorkOrder'',
         au_entity_id = Some k, au_severity = INFO, au_hash = Some (aj_hash (efficiency_job sha k rq st t))\<rparr>]\<rparr>)"
  using assms by (simp add: process_audit_job_def efficiency_job_def audit_create_def)

text \<open>Without an account \<open>system\<close> none of the three jobs leaves its entry; the report is announced all the same.\<close>

lemma system_entries_refused:
  assumes "\<not> account_exists ''system'' s"
  shows "send_daily_cashbox_report tz now s = (Inl (DbError ''P2003''), emit_security_alert ''CASHBOX_DAILY_REPORT'' s)"
    and "monthly_inventory_audit a b s = (Inl (DbError ''P2003''), s)"
    and "daily_backup s = (Inl (DbError ''P2003''), s)"
  using assms
  by (simp_all add: send_daily_cashbox_report_def monthly_inventory_audit_def daily_backup_def write_entry_def
      audit_create_def worker_entry_def emit_defs account_exists_def)

section \<open>The watch on the money\<close>

definition heavy_users :: "int \<Rightarrow> stored_audit list \<Rightarrow> string list" where
  "heavy_users now logs = map fst (filter (\<lambda>c. 5 < snd c) (rapid_changes now logs))"

definition security_message :: "string \<Rightarrow> ws_message" where
  "security_message subject = \<lparr>wm_room = Dashboard, wm_event = ''alert:security'', wm_subject = subject\<rparr>"

lemma rapid_alerts:
  "foldl (\<lambda>t c. if 5 < snd c then emit_security_alert x t else t) s cs =
     s\<lparr>d_sent := d_sent s @ map (\<lambda>_. security_message x) (filter (\<lambda>c. 5 < snd c) cs)\<rparr>"
  by (induction cs arbitrary: s) (simp_all add: emit_defs security_message_def)

lemma heavy_users_iff:
  "u \<in> set (heavy_users now logs) \<longleftrightarrow>
     5 < length (filter (\<lambda>e. now - 300000 \<le> sa_at e \<and> au_action (sa_row e) \<in> set watched_actions \<and> au_user (sa_row e) = u) logs)"
proof -
  let ?recent = "filter (\<lambda>e. now - 300000 \<le> sa_at e \<and> au_action (sa_row e) \<in> set watched_actions) logs"
  have eq: "filter (\<lambda>e. au_user (sa_row e) = u) ?recent =
      filter (\<lambda>e. now - 300000 \<le> sa_at e \<and> au_action (sa_row e) \<in> set watched_actions \<and> au_user (sa_row e) = u) logs" for u
    by (simp add: conj_commute conj_left_commute)
  have "u \<in> set (heavy_users now logs) \<longleftrightarrow>
      u \<in> (\<lambda>e. au_user (sa_row e)) ` set ?recent \<and> 5 < length (filter (\<lambda>e. au_user (sa_row e) = u) ?recent)"
    by (force simp: heavy_users_def rapid_changes_def Let_def)
  also have "\<dots> \<longleftrightarrow> 5 < length (filter (\<lambda>e. au_user (sa_row e) = u) ?recent)"
  proof -
    have "u \<in> (\<lambda>e. au_user (sa_row e)) ` set ?recent" if "5 < length (filter (\<lambda>e. au_user (sa_row e) = u) ?recent)"
    proof -
      have "filter (\<lambda>e. au_user (sa_row e) = u) ?recent \<noteq> []" using that by (metis length_0_conv not_less_zero)
      then show ?thesis by (force simp: filter_empty_conv)
    qed
    then show ?thesis by blast
  qed
  finally show ?thesis unfolding eq .
qed

lemma distinct_heavy_users: "distinct (heavy_users now logs)"
proof -
  have "map fst (filter P (map (\<lambda>u. (u, f u)) us)) = filter (\<lambda>u. P (u, f u)) us" for P and f :: "string \<Rightarrow> nat" and us
    by (induction us) simp_all
  then show ?thesis by (simp add: heavy_users_def rapid_changes_def Let_def)
qed

lemma split_on_chars: "w \<in> set (split_on d t) \<Longrightarrow> set w \<subseteq> set t"
proof (induction t arbitrary: w)
  case step: (Cons c t)
  show ?case
  proof (cases "split_on d t")
    case (Cons v vs)
    then have "set v \<subseteq> set t" "\<And>x. x \<in> set vs \<Longrightarrow> set x \<subseteq> set t" using step.IH by auto
    then show ?thesis using step.prems Cons by (auto split: if_splits)
  qed (use step.prems in \<open>auto split: if_splits\<close>)
qed simp

lemma extract_entity_chars:
  assumes "map lower url = url"
  shows "map lower (extract_entity url) = extract_entity url"
proof -
  have l: "lower c = c" if "c \<in> set url" for c using assms that by (metis map_eq_conv list.map_id id_apply)
  have w: "map lower w = w" if "w \<in> set (split_on (CHR ''/'') url)" for w
    using split_on_chars[OF that] l by (intro map_idI) blast
  have u: "map lower ''unknown'' = ''unknown''" by code_simp
  let ?parts = "filter (\<lambda>p. p \<noteq> []) (split_on (CHR ''/'') url)"
  have "extract_entity url = ''unknown'' \<or> extract_entity url \<in> set ?parts"
    by (simp add: extract_entity_def Let_def del: set_filter)
  then show ?thesis using w u by auto
qed

text \<open>The audit interceptor names what a request is about by a segment of its path, in lower case like the paths themselves.\<close>

lemma intercepted_unwatched:
  assumes "audit_entry_of hmac rq = Some en" and "map lower (hr_url rq) = hr_url rq"
  shows "au_entity (ae_row en) \<notin> set (map Some watched_entities)"
proof -
  have "au_entity (ae_row en) = Some (extract_entity (hr_url rq))"
    using assms(1) by (auto simp: audit_entry_of_def Let_def split: option.splits if_splits)
  moreover have "\<forall>w \<in> set watched_entities. map lower w \<noteq> w" by code_simp
  ultimately show ?thesis using extract_entity_chars[OF assms(2)] by auto
qed

text \<open>On a log that the audit interceptor wrote, the hourly watch never speaks of access out of hours, whatever hour it
  is; and it speaks of rapid changes once for each user with more than five entries of the watched actions in the last five minutes, all
  of them created payments or creations under the finance routes, and of no one else.\<close>

theorem finance_watch:
  assumes "\<forall>e \<in> set logs. \<exists>hmac rq en. audit_entry_of hmac rq = Some en \<and> sa_row e = ae_row en \<and> map lower (hr_url rq) = hr_url rq"
  shows "d_sent (detect_anomalies tz now logs s) = d_sent s @ map (\<lambda>_. security_message ''RAPID_FINANCE_CHANGES'') (heavy_users now logs)
    \<and> distinct (heavy_users now logs)
    \<and> (\<forall>u. u \<in> set (heavy_users now logs) \<longleftrightarrow>
          5 < length (filter (\<lambda>e. now - 300000 \<le> sa_at e \<and> au_action (sa_row e) \<in> set watched_actions \<and> au_user (sa_row e) = u) logs))"
proof (intro conjI allI)
  have "au_entity (sa_row e) \<notin> set (map Some watched_entities)" if "e \<in> set logs" for e
    using assms that intercepted_unwatched by metis
  then have "off_hours_access now logs = []" unfolding off_hours_access_def by (simp only: filter_empty_conv) blast
  then show "d_sent (detect_anomalies tz now logs s) =
      d_sent s @ map (\<lambda>_. security_message ''RAPID_FINANCE_CHANGES'') (heavy_users now logs)"
    by (simp add: detect_anomalies_def Let_def rapid_alerts heavy_users_def)
qed (rule distinct_heavy_users, rule heavy_users_iff)

definition payment_post :: http_request where
  "payment_post =
     \<lparr>hr_user = Some (''f1'', UserRole.FINANCE), hr_method = ''POST'', hr_url = ''/api/v1/payments'', hr_body = None, hr_params = [],
      hr_id = None\<rparr>"

definition payment_log :: "(json \<Rightarrow> string) \<Rightarrow> stored_audit list" where
  "payment_log hmac =
     map (\<lambda>t. \<lparr>sa_id = [], sa_row = ae_row (the (audit_entry_of hmac payment_post)), sa_at = t\<rparr>) [1, 2, 3, 4, 5, 6]"

lemma payment_post_entry:
  "\<exists>en. audit_entry_of hmac payment_post = Some en \<and> au_user (ae_row en) = ''f1'' \<and> au_action (ae_row en) = ''PAYMENTS_CREATED''"
  "map lower (hr_url payment_post) = hr_url payment_post"
proof -
  have "build_action ''POST'' ''/api/v1/payments'' = ''PAYMENTS_CREATED''" by code_simp
  then show "\<exists>en. audit_entry_of hmac payment_post = Some en \<and> au_user (ae_row en) = ''f1'' \<and> au_action (ae_row en) = ''PAYMENTS_CREATED''"
    by (simp add: audit_entry_of_def payment_post_def Let_def)
  show "map lower (hr_url payment_post) = hr_url payment_post" by code_simp
qed

theorem finance_watch_witness:
  "\<forall>hmac. d_sent (detect_anomalies 0 10 (payment_log hmac) empty_db) = [security_message ''RAPID_FINANCE_CHANGES'']"
proof
  fix hmac
  obtain en where en: "audit_entry_of hmac payment_post = Some en" "au_user (ae_row en) = ''f1''"
      "au_action (ae_row en) = ''PAYMENTS_CREATED''"
    using payment_post_entry(1) by blast
  have row: "sa_row e = ae_row en" if "e \<in> set (payment_log hmac)" for e using that en(1) by (auto simp: payment_log_def)
  have w: "\<forall>e \<in> set (payment_log hmac). \<exists>hmac rq en. audit_entry_of hmac rq = Some en \<and> sa_row e = ae_row en \<and> map lower (hr_url rq) = hr_url rq"
    using row en(1) payment_post_entry(2) by blast
  have count: "length (filter (\<lambda>e. 10 - 300000 \<le> sa_at e \<and> au_action (sa_row e) \<in> set watched_actions \<and> au_user (sa_row e) = u)
      (payment_log hmac)) = (if u = ''f1'' then 6 else 0)" for u
    using en by (auto simp: payment_log_def watched_actions_def)
  have "u \<in> set (heavy_users 10 (payment_log hmac)) \<longleftrightarrow> u = ''f1''" for u
    unfolding conjunct2[OF conjunct2[OF finance_watch[OF w]], THEN spec] count by simp
  then have "set (heavy_users 10 (payment_log hmac)) = {''f1''}" by blast
  moreover have "distinct (heavy_users 10 (payment_log hmac))" using finance_watch[OF w] by blast
  ultimately have "heavy_users 10 (payment_log hmac) = [''f1'']"
    by (cases "heavy_users 10 (payment_log hmac)" rule: list.exhaust) (auto simp: set_empty[symmetric] simp del: set_empty dest: subset_singletonD)
  then show "d_sent (detect_anomalies 0 10 (payment_log hmac) empty_db) = [security_message ''RAPID_FINANCE_CHANGES'']"
    using finance_watch[OF w, of 0 10 empty_db] by simp
qed

end
