(* ===== verification/PublicPortal.thy ===== *)
theory PublicPortal
  imports ClientsVehicles Attendance Json
begin

text \<open>
  What anyone may ask without a session (\<open>src/common/public/public.controller.ts\<close>): the state of an order by plate, code,
  id or number; and the two routes of the devices, behind the guard of the shared secret. At the end the filter that turns
  every error into an answer (\<open>src/common/filters/http-exception.filter.ts\<close>).
\<close>

section \<open>The portal\<close>

record vehicle_info =
  vf_plate :: string
  vf_brand :: string
  vf_model :: string
  vf_year :: int
  vf_color :: "string option"

record order_info =
  of_id :: string
  of_number :: string
  of_status :: OrderStatus
  of_description :: string
  of_received_at :: int
  of_estimated :: "int option"
  of_delivered_at :: "int option"
  of_history :: "(OrderStatus \<times> int) list"

datatype portal_answer =
    NothingFound string
  | FoundVehicle vehicle_info
  | FoundOrder vehicle_info order_info

definition vehicle_info_of :: "vehicle_row \<Rightarrow> vehicle_info" where
  "vehicle_info_of v =
     \<lparr>vf_plate = ve_plate v, vf_brand = ve_brand v, vf_model = ve_model v, vf_year = ve_year v, vf_color = ve_color v\<rparr>"

definition history_of :: "bool \<Rightarrow> string \<Rightarrow> db \<Rightarrow> (OrderStatus \<times> int) list" where
  "history_of latest_first k s =
     map (\<lambda>h. (sh_status h, sh_at h))
       (sort_key (\<lambda>h. if latest_first then - sh_at h else sh_at h) (filter (\<lambda>h. sh_order h = k) (d_history s)))"

definition order_info_of :: "bool \<Rightarrow> db \<Rightarrow> order_row \<Rightarrow> order_info" where
  "order_info_of latest_first s w =
     \<lparr>of_id = wo_id w, of_number = wo_number w, of_status = wo_status w, of_description = wo_description w,
      of_received_at = wo_received_at w, of_estimated = wo_estimated w, of_delivered_at = wo_delivered_at w,
      of_history = history_of latest_first (wo_id w) s\<rparr>"

text \<open>What a client types for a plate, a code or a number is put in upper case and trimmed.\<close>

definition typed :: "string \<Rightarrow> string" where
  "typed t = js_trim (map upper t)"

text \<open>The vehicle of an order is a required relation: to read one without it is an error of the library.\<close>

definition order_answer :: "db \<Rightarrow> order_row \<Rightarrow> http_error + portal_answer" where
  "order_answer s w =
     (case find_row ve_id (wo_vehicle w) (d_vehicles s) of
        None \<Rightarrow> Inl (DbError ''relation'')
      | Some v \<Rightarrow> Inr (FoundOrder (vehicle_info_of v) (order_info_of True s w)))"

definition public_lookup :: "string option \<Rightarrow> string option \<Rightarrow> db \<Rightarrow> http_error + portal_answer" where
  "public_lookup plate code s =
     (if nonempty plate then
        (case find_row ve_plate (typed (the plate)) (d_vehicles s) of
           None \<Rightarrow> Inr (NothingFound ''Vehiculo no encontrado'')
         | Some v \<Rightarrow>
             (case sort_key (\<lambda>w. - wo_received_at w) (filter (\<lambda>w. wo_vehicle w = ve_id v) (d_orders s)) of
                [] \<Rightarrow> Inr (FoundVehicle (vehicle_info_of v))
              | w # _ \<Rightarrow> Inr (FoundOrder (vehicle_info_of v) (order_info_of True s w))))
      else if nonempty code then
        (case find_row wo_number (typed (the code)) (d_orders s) of
           None \<Rightarrow> Inr (NothingFound ''Orden de trabajo no encontrada'')
         | Some w \<Rightarrow> order_answer s w)
      else Inr (NothingFound ''Proporciona una placa (plate) o codigo de OT (code)''))"

definition public_get_order :: "string \<Rightarrow> db \<Rightarrow> http_error + portal_answer" where
  "public_get_order k s =
     (case find_row wo_id k (d_orders s) of
        None \<Rightarrow> Inr (NothingFound ''Orden de trabajo no encontrada'')
      | Some w \<Rightarrow> order_answer s w)"

text \<open>By number, the answer also has the first name of the client, and its history runs forwards; its identifier is not selected.\<close>

definition public_order_by_number :: "string \<Rightarrow> db \<Rightarrow> http_error + (portal_answer \<times> string) option" where
  "public_order_by_number number s =
     (case find_row wo_number (typed number) (d_orders s) of
        None \<Rightarrow> Inr None
      | Some w \<Rightarrow>
          (case (find_row ve_id (wo_vehicle w) (d_vehicles s), find_row cl_id (wo_client w) (d_clients s)) of
             (Some v, Some c) \<Rightarrow>
               Inr (Some (FoundOrder (vehicle_info_of v) ((order_info_of False s w)\<lparr>of_id := []\<rparr>), cl_first_name c))
           | _ \<Rightarrow> Inl (DbError ''relation'')))"

section \<open>The devices\<close>

definition iot_biometric ::
    "string option \<Rightarrow> string option \<Rightarrow> (string \<Rightarrow> json option) \<Rightarrow> int \<Rightarrow> int \<Rightarrow> string \<Rightarrow> string \<Rightarrow> string
      \<Rightarrow> db \<Rightarrow> biometric_result answer" where
  "iot_biometric shared_secret provided pj tz t new_id dni notes s =
     (case device_auth_guard shared_secret provided of
        Inl e \<Rightarrow> (Inl e, s)
      | Inr _ \<Rightarrow>
          if dni = [] then (Inl (BadRequest ''validation''), s) else process_biometric pj tz t new_id dni notes s)"

definition iot_camera_capture ::
    "string option \<Rightarrow> string option \<Rightarrow> (8 word list \<Rightarrow> string) \<Rightarrow> (string \<Rightarrow> 8 word list) \<Rightarrow> int \<Rightarrow> string \<Rightarrow> string
      \<Rightarrow> string \<Rightarrow> string \<Rightarrow> string \<Rightarrow> string option \<Rightarrow> db \<Rightarrow> (string \<times> nat) answer" where
  "iot_camera_capture shared_secret provided sha unb64 now new_id k position camera picture mime s =
     (case device_auth_guard shared_secret provided of
        Inl e \<Rightarrow> (Inl e, s)
      | Inr _ \<Rightarrow>
          if position = [] \<or> camera = [] \<or> picture = [] \<or> 8000000 < length picture
          then (Inl (BadRequest ''validation''), s)
          else capture_camera_photo sha unb64 now new_id k position picture mime s)"

section \<open>The answer to an error\<close>

text \<open>What a handler may throw: an exception of the framework, with its status, name, message and response, or anything else.\<close>

datatype raised =
    HttpRaised nat string string json
  | OtherRaised

record error_answer =
  er_status :: nat
  er_message :: json
  er_code :: json
  er_path :: string

definition json_truthy :: "json \<Rightarrow> bool" where
  "json_truthy j \<longleftrightarrow> j \<noteq> JNull \<and> j \<noteq> JBool False \<and> j \<noteq> JStr [] \<and> j \<noteq> JNum (Fin 0) \<and> j \<noteq> JNum NaN"

text \<open>\<open>resp.x || other\<close>, where an array has no member \<open>x\<close>.\<close>

definition member_or :: "json \<Rightarrow> string \<Rightarrow> string \<Rightarrow> json" where
  "member_or resp k other =
     (case resp of
        JObj ms \<Rightarrow> (case map_of ms k of Some v \<Rightarrow> if json_truthy v then v else JStr other | None \<Rightarrow> JStr other)
      | _ \<Rightarrow> JStr other)"

text \<open>\<open>message.join("; ")\<close>; \<open>text\<close> is the text of an element.\<close>

fun join_texts :: "(json \<Rightarrow> string) \<Rightarrow> json list \<Rightarrow> string" where
  "join_texts text [] = []"
| "join_texts text [x] = text x"
| "join_texts text (x # y # xs) = text x @ ''; '' @ join_texts text (y # xs)"

definition is_object :: "json \<Rightarrow> bool" where
  "is_object j = (case j of JObj _ \<Rightarrow> True | JArr _ \<Rightarrow> True | _ \<Rightarrow> False)"

definition catch_error :: "(json \<Rightarrow> string) \<Rightarrow> raised \<Rightarrow> string \<Rightarrow> error_answer" where
  "catch_error text x path =
     (case x of
        OtherRaised \<Rightarrow>
          \<lparr>er_status = 500, er_message = JStr ''Error interno del servidor'', er_code = JStr ''INTERNAL_ERROR'', er_path = path\<rparr>
      | HttpRaised status name message resp \<Rightarrow>
          if is_object resp
          then (case member_or resp ''message'' message of
                  JArr ts \<Rightarrow>
                    \<lparr>er_status = status, er_message = JStr (join_texts text ts), er_code = JStr ''VALIDATION_FAILED'', er_path = path\<rparr>
                | m \<Rightarrow> \<lparr>er_status = status, er_message = m, er_code = member_or resp ''code'' name, er_path = path\<rparr>)
          else \<lparr>er_status = status, er_message = JStr message, er_code = JStr ''INTERNAL_ERROR'', er_path = path\<rparr>)"

section \<open>What the portal does not depend on\<close>

lemma find_row_map: "(\<And>r. key (f r) = key r) \<Longrightarrow> find_row key k (map f rows) = map_option f (find_row key k rows)"
  by (induction rows) (simp_all add: find_row_def)

lemma insort_key_map: "(\<And>r. key (f r) = key r) \<Longrightarrow> insort_key key (f x) (map f xs) = map f (insort_key key x xs)"
  by (induction xs) simp_all

lemma sort_key_map: "(\<And>r. key (f r) = key r) \<Longrightarrow> sort_key key (map f xs) = map f (sort_key key xs)"
  by (induction xs) (simp_all add: insort_key_map)

text \<open>The rows without what is private: of an order the diagnosis, the money, who works on it, notes, photographs and odometers; of a
  client everything but the first name; of a vehicle everything but the five fields that are shown; of the history who made the change.
  What is left beside the fields that are shown are the identifiers through which the rows are found.\<close>

definition public_order :: "order_row \<Rightarrow> order_row" where
  "public_order w =
     w\<lparr>wo_mechanic := None, wo_diagnosis := None, wo_odometer_in := None, wo_odometer_out := None, wo_labor := None,
       wo_parts := None, wo_total := None, wo_discount := 0, wo_final := 0, wo_started_at := None, wo_completed_at := None,
       wo_payment_status := InvoiceStatus.DRAFT, wo_notes := None, wo_photos := [], wo_created_by := []\<rparr>"

definition public_client :: "client_row \<Rightarrow> client_row" where
  "public_client c = c\<lparr>cl_account := None, cl_last_name := None, cl_phone := [], cl_email := None, cl_dni := None, cl_created_at := 0,
                       cl_deleted_at := None\<rparr>"

definition public_vehicle :: "vehicle_row \<Rightarrow> vehicle_row" where
  "public_vehicle v = v\<lparr>ve_client := [], ve_created_at := 0\<rparr>"

definition public_history :: "history_row \<Rightarrow> history_row" where
  "public_history h = h\<lparr>sh_by := []\<rparr>"

definition public_part :: "db \<Rightarrow> db" where
  "public_part s = empty_db\<lparr>d_orders := map public_order (d_orders s), d_vehicles := map public_vehicle (d_vehicles s),
                            d_clients := map public_client (d_clients s), d_history := map public_history (d_history s)\<rparr>"

lemma public_order_simps [simp]:
  "wo_id (public_order w) = wo_id w" "wo_number (public_order w) = wo_number w" "wo_vehicle (public_order w) = wo_vehicle w"
  "wo_client (public_order w) = wo_client w" "wo_status (public_order w) = wo_status w"
  "wo_description (public_order w) = wo_description w" "wo_received_at (public_order w) = wo_received_at w"
  "wo_estimated (public_order w) = wo_estimated w" "wo_delivered_at (public_order w) = wo_delivered_at w"
  by (simp_all add: public_order_def)

lemma public_client_simps [simp]:
  "cl_id (public_client c) = cl_id c" "cl_first_name (public_client c) = cl_first_name c"
  by (simp_all add: public_client_def)

lemma public_vehicle_simps [simp]:
  "ve_id (public_vehicle v) = ve_id v" "ve_plate (public_vehicle v) = ve_plate v"
  "vehicle_info_of (public_vehicle v) = vehicle_info_of v"
  by (simp_all add: public_vehicle_def vehicle_info_of_def)

lemma public_history_simps [simp]:
  "sh_order (public_history h) = sh_order h" "sh_status (public_history h) = sh_status h" "sh_at (public_history h) = sh_at h"
  by (simp_all add: public_history_def)

lemma public_part_tables [simp]:
  "d_orders (public_part s) = map public_order (d_orders s)" "d_vehicles (public_part s) = map public_vehicle (d_vehicles s)"
  "d_clients (public_part s) = map public_client (d_clients s)" "d_history (public_part s) = map public_history (d_history s)"
  by (simp_all add: public_part_def)

lemma history_public [simp]: "history_of b k (public_part s) = history_of b k s"
proof -
  have "filter (\<lambda>h. sh_order h = k) (map public_history hs) = map public_history (filter (\<lambda>h. sh_order h = k) hs)" for hs
    by (induction hs) simp_all
  then show ?thesis by (simp add: history_of_def sort_key_map)
qed

lemma order_info_public [simp]: "order_info_of b (public_part s) (public_order w) = order_info_of b s w"
  by (simp add: order_info_of_def)

lemma order_answer_public: "order_answer (public_part s) (public_order w) = order_answer s w"
  by (simp add: order_answer_def find_row_map split: option.split)

text \<open>C39. Every answer of the portal is computed from the public part of the state alone: the diagnosis, the money, the mechanic,
  the notes and the photographs of an order, who moved it from state to state, the owner of the vehicle, and of the client of
  the order all but the first name, never change what anyone without a session is told.\<close>

theorem portal_shows_public_part_only:
  "public_lookup plate code s = public_lookup plate code (public_part s)
   \<and> public_get_order k s = public_get_order k (public_part s)
   \<and> public_order_by_number number s = public_order_by_number number (public_part s)"
proof (intro conjI)
  have f: "filter (\<lambda>w. wo_vehicle w = v) (map public_order ws) = map public_order (filter (\<lambda>w. wo_vehicle w = v) ws)" for v ws
    by (induction ws) simp_all
  show "public_lookup plate code s = public_lookup plate code (public_part s)"
    unfolding public_lookup_def
    by (simp add: find_row_map f sort_key_map order_answer_public split: option.split list.split)
  show "public_get_order k s = public_get_order k (public_part s)"
    by (simp add: public_get_order_def find_row_map order_answer_public split: option.split)
  show "public_order_by_number number s = public_order_by_number number (public_part s)"
    by (simp add: public_order_by_number_def find_row_map split: option.split)
qed

section \<open>Plates\<close>

lemma upper_upper [simp]: "upper (upper c) = upper c"
  using nat_of_char_less_256[of c] by (auto simp: upper_def Let_def of_char_of)

lemma js_trim_set: "set (js_trim s) \<subseteq> set s"
  unfolding js_trim_def by (auto dest!: set_dropWhileD)

lemma typed_upper: "map upper (typed t) = typed t"
proof -
  have "upper c = c" if "c \<in> set (typed t)" for c
    using that js_trim_set[of "map upper t"] by (auto simp: typed_def)
  then show ?thesis by (simp add: map_idI)
qed

lemma find_insert_last: "List.find P rows = None \<Longrightarrow> P r \<Longrightarrow> List.find P (insert_row r rows) = Some r"
  by (induction rows) (auto simp: insert_row_def split: if_splits)

text \<open>A vehicle is registered with the plate as it is typed, and the staff find it whatever the case; but the portal looks for the
  plate in upper case only, so that one registered with a lower-case letter is never found there by its plate, whatever
  the client types, though its orders are found by their codes.\<close>

theorem lowercase_plate_hidden_from_portal:
  assumes "vehicles_inv s" and "create_vehicle now new_id d s = (Inr v, t)" and "map upper (vi_plate d) \<noteq> vi_plate d"
  shows "(\<exists>c u. find_by_plate later (vi_plate d) t = (Inr (v, c), u))
    \<and> (\<forall>p code i. nonempty p \<and> vf_plate i = vi_plate d \<longrightarrow>
         public_lookup p code t \<noteq> Inr (FoundVehicle i) \<and> (\<forall>w. public_lookup p code t \<noteq> Inr (FoundOrder i w)))"
proof (intro conjI allI impI)
  have "vi_plate d \<noteq> []" using assms(3) by auto
  then have t: "vehicles_inv t" using create_vehicle_inv[OF assms(1), of d now new_id] assms(2) by simp
  have n: "vehicle_by_plate (vi_plate d) s = None" and v: "ve_plate v = vi_plate d" and ts: "d_vehicles t = insert_row v (d_vehicles s)"
    using assms(2) by (auto simp: create_vehicle_def Let_def split: if_splits)
  have b: "vehicle_by_plate (vi_plate d) t = Some v"
    using n v by (simp add: vehicle_by_plate_def ts find_insert_last)
  obtain out u where o: "find_by_plate later (vi_plate d) t = (out, u)" by fastforce
  show "\<exists>c u. find_by_plate later (vi_plate d) t = (Inr (v, c), u)"
    using find_by_plate_out[OF t o] o unfolding b by auto
next
  fix p code and i :: vehicle_info
  assume p: "nonempty p \<and> vf_plate i = vi_plate d"
  have u: "ve_plate r \<noteq> vi_plate d" if "find_row ve_plate (typed (the p)) (d_vehicles t) = Some r" for r
    using find_row_SomeD[OF that] typed_upper[of "the p"] assms(3) by auto
  then show "public_lookup p code t \<noteq> Inr (FoundVehicle i)"
    using p by (auto simp: public_lookup_def vehicle_info_of_def split: option.splits list.splits)
  show "public_lookup p code t \<noteq> Inr (FoundOrder i w)" for w
    using p u by (auto simp: public_lookup_def vehicle_info_of_def split: option.splits list.splits)
qed

definition lowercase_vehicle :: vehicle_input where
  "lowercase_vehicle = \<lparr>vi_plate = ''abc-1'', vi_brand = ''Kia'', vi_model = ''Rio'', vi_year = 2020, vi_color = ''rojo'', vi_client = ''cl1''\<rparr>"

theorem lowercase_plate_hidden_from_portal_witness:
  "\<exists>v t. create_vehicle 5 ''v9'' lowercase_vehicle sample_fleet = (Inr v, t)
     \<and> (\<exists>c u. find_by_plate 6 ''abc-1'' t = (Inr (v, c), u))
     \<and> (\<forall>w. public_lookup (Some ''abc-1'') None t \<noteq> Inr (FoundOrder (vehicle_info_of v) w))"
proof -
  have up: "map upper ''abc-1'' = ''ABC-1''" by code_simp
  have sv: "map upper (ve_plate sample_vehicle) \<noteq> ''ABC-1''" by code_simp
  have "vehicle_by_plate ''abc-1'' sample_fleet = None" using sv by (simp add: vehicle_by_plate_def sample_fleet_def up)
  then obtain v t where c: "create_vehicle 5 ''v9'' lowercase_vehicle sample_fleet = (Inr v, t)" and v: "ve_plate v = ''abc-1''"
    by (simp add: create_vehicle_def lowercase_vehicle_def Let_def sample_fleet_def)
  have d: "vi_plate lowercase_vehicle = ''abc-1''" by (simp add: lowercase_vehicle_def)
  have "map upper (vi_plate lowercase_vehicle) \<noteq> vi_plate lowercase_vehicle" unfolding d up by simp
  note r = lowercase_plate_hidden_from_portal[OF sample_fleet_inv c this, of 6, unfolded d]
  have i: "vf_plate (vehicle_info_of v) = ''abc-1''" using v by (simp add: vehicle_info_of_def)
  have "nonempty (Some ''abc-1'')" by (simp add: nonempty_def)
  then show ?thesis using c r i by blast
qed

end
