(* ===== verification/Reports.thy ===== *)
theory Reports
  imports FinanceService OrderUseCases DomainPersonnel Samples
begin

text \<open>
  What the owners read: the summary of analytics with its cache and the listener that clears it
  (\<open>src/modules/analytics\<close>), and the dashboard (\<open>src/modules/dashboard/dashboard.service.ts\<close>). Sums and groups are those of the
  database, exact on cents; \<open>tz\<close> is the offset of the local time of the server.
\<close>

section \<open>The times of the mechanics\<close>

text \<open>The first \<open>READY\<close> of each order.\<close>

definition ready_at :: "string \<Rightarrow> db \<Rightarrow> int option" where
  "ready_at k s =
     (case map sh_at (filter (\<lambda>h. sh_order h = k \<and> sh_status h = READY) (d_history s)) of
        [] \<Rightarrow> None | t # ts \<Rightarrow> Some (foldl min t ts))"

record mechanic_sum =
  ms_name :: string
  ms_hours :: number
  ms_count :: nat

definition repair_hours :: "order_row \<Rightarrow> int \<Rightarrow> number" where
  "repair_hours w ready = js_div (js_int (ready - wo_received_at w)) (js_int 3600000)"

definition mechanic_name :: "string \<Rightarrow> db \<Rightarrow> string" where
  "mechanic_name m s = (case find_row ac_id m (d_accounts s) of Some a \<Rightarrow> ac_name a | None \<Rightarrow> ''Sin asignar'')"

text \<open>The map of the mechanics, in the order they came.\<close>

definition add_repair :: "db \<Rightarrow> (string \<times> mechanic_sum) list \<Rightarrow> order_row \<Rightarrow> (string \<times> mechanic_sum) list" where
  "add_repair s ms w =
     (case (ready_at (wo_id w) s, wo_mechanic w) of
        (Some ready, Some m) \<Rightarrow>
          (let hours = repair_hours w ready
           in if js_lt hours (Fin 0) then ms
              else case map_of ms m of
                     None \<Rightarrow> ms @ [(m, \<lparr>ms_name = mechanic_name m s, ms_hours = js_add (Fin 0) hours, ms_count = 1\<rparr>)]
                   | Some e \<Rightarrow>
                       map (\<lambda>(k, v). (k, if k = m
                                         then v\<lparr>ms_hours := js_add (ms_hours v) hours, ms_count := ms_count v + 1\<rparr> else v)) ms)
      | _ \<Rightarrow> ms)"

definition mechanic_entry :: "string \<times> mechanic_sum \<Rightarrow> mechanic_time" where
  "mechanic_entry e =
     \<lparr>mt_mechanic = fst e, mt_name = ms_name (snd e), mt_orders = ms_count (snd e),
      mt_hours = round2 (js_div (ms_hours (snd e)) (js_int (int (ms_count (snd e)))))\<rparr>"

text \<open>\<open>sort((a, b) => a.hours - b.hours)\<close>, stable.\<close>

fun insert_by_hours :: "mechanic_time \<Rightarrow> mechanic_time list \<Rightarrow> mechanic_time list" where
  "insert_by_hours m [] = [m]"
| "insert_by_hours m (x # xs) = (if js_lt (mt_hours x) (mt_hours m) then x # insert_by_hours m xs else m # x # xs)"

definition mechanic_cycle_time :: "db \<Rightarrow> mechanic_time list \<times> number" where
  "mechanic_cycle_time s =
     (let by_mechanic = foldl (add_repair s) [] (d_orders s);
          mechanics = foldr insert_by_hours (map mechanic_entry by_mechanic) [];
          orders = sum_list (map mt_orders mechanics);
          overall = (if 0 < orders
                     then round2 (js_div (foldl (\<lambda>a m. js_add a (js_mul (mt_hours m) (js_int (int (mt_orders m))))) (Fin 0) mechanics)
                                    (js_int (int orders)))
                     else Fin 0)
      in (mechanics, overall))"

section \<open>Quotes, stock and cash\<close>

definition quotes_ever_sent :: "QuoteStatus list" where
  "quotes_ever_sent = [QuoteStatus.SENT, QuoteStatus.APPROVED, QuoteStatus.REJECTED, QuoteStatus.EXPIRED, CONVERTED]"

definition quotes_approved_like :: "QuoteStatus list" where
  "quotes_approved_like = [QuoteStatus.APPROVED, CONVERTED]"

definition quote_conversion :: "db \<Rightarrow> nat \<times> nat \<times> number" where
  "quote_conversion s =
     (let sent = length (filter (\<lambda>q. qu_status q \<in> set quotes_ever_sent) (d_quotes s));
          approved = length (filter (\<lambda>q. qu_status q \<in> set quotes_approved_like) (d_quotes s))
      in (sent, approved,
          if 0 < sent then round2 (js_mul (js_div (js_int (int approved)) (js_int (int sent))) (js_int 100)) else Fin 0))"

definition inventory_valuation :: "db \<Rightarrow> nat \<times> number" where
  "inventory_valuation s =
     (let rows = filter it_active (d_items s)
      in (length rows, round2 (cents (sum_list (map (\<lambda>i. it_stock i * it_cost i) rows)))))"

definition sum_of_transactions :: "TransactionType \<Rightarrow> (int \<Rightarrow> bool) \<Rightarrow> db \<Rightarrow> int" where
  "sum_of_transactions type during s = sum_list (map tx_amount (filter (\<lambda>t. tx_type t = type \<and> during (tx_at t)) (d_transactions s)))"

definition cash_margin :: "db \<Rightarrow> number \<times> number \<times> number" where
  "cash_margin s =
     (let income = cents (sum_of_transactions PAYMENT (\<lambda>_. True) s);
          expenses = cents (sum_of_transactions TransactionType.EXPENSE (\<lambda>_. True) s)
      in (round2 income, round2 expenses, round2 (js_sub income expenses)))"

definition compute_summary :: "int \<Rightarrow> db \<Rightarrow> executive_summary" where
  "compute_summary now s =
     (case (mechanic_cycle_time s, quote_conversion s, inventory_valuation s, cash_margin s) of
        ((ms, overall), (sent, approved, rate), (n, value_of_stock), (income, expenses, net)) \<Rightarrow>
          \<lparr>es_mechanics = ms, es_overall_hours = overall, es_quotes_sent = sent, es_quotes_approved = approved,
           es_conversion = rate, es_items = n, es_valuation = value_of_stock, es_income = income, es_expenses = expenses,
           es_net_margin = net, es_generated_at = now\<rparr>)"

section \<open>The cache of the summary\<close>

definition summary_key :: string where
  "summary_key = ''analytics:executive-summary''"

definition cached_summary :: "int \<Rightarrow> redis \<Rightarrow> executive_summary option" where
  "cached_summary now r = (case redis_get now summary_key r of Some (RReport x) \<Rightarrow> Some x | _ \<Rightarrow> None)"

definition store_summary :: "int \<Rightarrow> executive_summary \<Rightarrow> redis \<Rightarrow> redis" where
  "store_summary now x r = redis_set now summary_key (RReport x) 900 r"

text \<open>The answer says whether it came from the cache.\<close>

definition get_executive_summary :: "int \<Rightarrow> db \<Rightarrow> (executive_summary \<times> bool) \<times> db" where
  "get_executive_summary now s =
     (case cached_summary now (d_redis s) of
        Some x \<Rightarrow> ((x, True), s)
      | None \<Rightarrow> let x = compute_summary now s in ((x, False), set_redis (store_summary now x (d_redis s)) s))"

text \<open>The events the listener is subscribed to.\<close>

definition on_event :: "string \<times> string \<Rightarrow> redis \<Rightarrow> redis" where
  "on_event ev r = (if fst ev = ''cashbox.closed'' \<or> fst ev = ''order.delivered'' then redis_del summary_key r else r)"

definition deliver_events :: "db \<Rightarrow> db" where
  "deliver_events s = (set_redis (foldl (\<lambda>r ev. on_event ev r) (d_redis s) (d_emitted s)) s)\<lparr>d_emitted := []\<rparr>"

section \<open>The dashboard\<close>

record dashboard =
  db_today :: number
  db_yesterday :: number
  db_change_percent :: number
  db_active_orders :: nat
  db_pending_approvals :: nat
  db_cashbox_open :: bool
  db_cashbox_balance :: number

definition pending_approvals :: "db \<Rightarrow> nat" where
  "pending_approvals s = length (filter (\<lambda>a. ap_status a = ApprovalStatus.PENDING) (d_approvals s))"

definition dashboard_summary :: "int \<Rightarrow> int \<Rightarrow> db \<Rightarrow> dashboard" where
  "dashboard_summary tz now s =
     (let today = set_hours tz now 0 0;
          today_rev = cents (sum_of_transactions PAYMENT (\<lambda>t. today \<le> t \<and> t < today + 86400000) s);
          yesterday_rev = cents (sum_of_transactions PAYMENT (\<lambda>t. today - 86400000 \<le> t \<and> t < today) s);
          cashbox = List.find (\<lambda>c. today \<le> cs_opened_at c \<and> cs_status c = OPEN) (d_sessions s)
      in \<lparr>db_today = today_rev, db_yesterday = yesterday_rev,
          db_change_percent =
            (if js_lt (Fin 0) yesterday_rev
             then js_round (js_mul (js_div (js_sub today_rev yesterday_rev) yesterday_rev) (js_int 100))
             else if js_lt (Fin 0) today_rev then js_int 100 else Fin 0),
          db_active_orders = length (filter (\<lambda>w. wo_status w \<notin> {DELIVERED, OrderStatus.CANCELLED}) (d_orders s)),
          db_pending_approvals = pending_approvals s,
          db_cashbox_open = (cashbox \<noteq> None),
          db_cashbox_balance = (case cashbox of Some c \<Rightarrow> js_add (cents (cs_opening c)) today_rev | None \<Rightarrow> Fin 0)\<rparr>)"

section \<open>Rates\<close>

lemma fl_small: "\<bar>q\<bar> \<le> 1000 \<Longrightarrow> \<exists>r. fl q = Fin r \<and> \<bar>r - q\<bar> \<le> 1 / 10 ^ 6"
proof -
  assume q: "\<bar>q\<bar> \<le> (1000 :: rat)"
  then have "\<bar>q\<bar> / 2 ^ 53 \<le> 1000 / 2 ^ 53" by (rule divide_right_mono) simp
  then have "\<bar>rnd q - q\<bar> \<le> 1000 / 2 ^ 53 + 1 / 10 ^ 12" using rnd_err[of q] tiny by linarith
  also have "\<dots> \<le> 1 / 10 ^ 6" by simp
  finally have "\<bar>rnd q - q\<bar> \<le> 1 / 10 ^ 6" .
  moreover have "\<bar>q\<bar> \<le> 2 ^ 1000" by (rule order_trans[OF q]) simp
  ultimately show ?thesis using fl_rnd by blast
qed

lemma conversion_bounds:
  assumes "quote_conversion s = (sent, approved, rate)"
  shows "approved \<le> sent \<and> (\<exists>n. 0 \<le> n \<and> n \<le> 10000 \<and> rate = cents n)"
proof
  have sent: "sent = length (filter (\<lambda>q. qu_status q \<in> set quotes_ever_sent) (d_quotes s))"
    and approved: "approved = length (filter (\<lambda>q. qu_status q \<in> set quotes_approved_like) (d_quotes s))"
    and rate: "rate = (if 0 < sent then round2 (js_mul (js_div (js_int (int approved)) (js_int (int sent))) (js_int 100)) else Fin 0)"
    using assms by (auto simp: quote_conversion_def Let_def)
  have "length (filter P xs) \<le> length (filter Q xs)" if "\<And>x. P x \<Longrightarrow> Q x" for P Q and xs :: "quote_row list"
    using that by (induction xs) auto
  then show le: "approved \<le> sent"
    unfolding sent approved by (rule meta_mp) (auto simp: quotes_ever_sent_def quotes_approved_like_def)
  show "\<exists>n. 0 \<le> n \<and> n \<le> 10000 \<and> rate = cents n"
  proof (cases "0 < sent")
    case True
    define q where "q = (of_int (int approved) / of_int (int sent) :: rat)"
    have q: "0 \<le> q" "q \<le> 1" using True le by (simp_all add: q_def divide_le_eq)
    obtain r where r: "fl q = Fin r" "\<bar>r - q\<bar> \<le> 1 / 10 ^ 6" using fl_small[of q] q by auto
    have r': "- (1 / 10 ^ 6) \<le> r" "r \<le> 1 + 1 / 10 ^ 6" using r(2)[unfolded abs_le_iff] q by linarith+
    have b: "\<bar>r * 100\<bar> \<le> 1000" "0 - 1 / 10 ^ 4 \<le> r * 100" "r * 100 \<le> 100 + 1 / 10 ^ 4" 
      using r' by (simp_all add: abs_le_iff)
    obtain p where p: "fl (r * 100) = Fin p" "\<bar>p - r * 100\<bar> \<le> 1 / 10 ^ 6" using fl_small[OF b(1)] by blast
    have "\<exists>n. 0 \<le> n \<and> n \<le> 10000 \<and> round2 (Fin p) = cents n"
      by (rule round2_between) (use p(2)[unfolded abs_le_iff] b in \<open>linarith | simp add: cents_range_def\<close>)+
    moreover have "rate = round2 (Fin p)"
      using True r(1) p(1) by (simp add: rate js_int_def q_def)
    ultimately show ?thesis by auto
  qed (simp add: rate exI[of _ 0])
qed

section \<open>The summary and its cache\<close>

text \<open>Under its key the cache keeps a summary, which expires fifteen minutes after it was computed.\<close>

definition summary_dated :: "db \<Rightarrow> bool" where
  "summary_dated s \<longleftrightarrow>
     (\<forall>v e. map_of (d_redis s) summary_key = Some (v, e) \<longrightarrow> (\<exists>x. v = RReport x \<and> e = es_generated_at x + 900000))"

lemma generated_at [simp]: "es_generated_at (compute_summary now s) = now"
  by (simp add: compute_summary_def split: prod.splits)

lemma summary_out:
  assumes "summary_dated s" and "get_executive_summary now s = ((x, hit), t)"
  shows "summary_dated t \<and> now < es_generated_at x + 900000 \<and> (\<not> hit \<longrightarrow> x = compute_summary now s)
    \<and> d_orders t = d_orders s \<and> d_transactions t = d_transactions s"
proof (cases "cached_summary now (d_redis s)")
  case None
  then have o: "x = compute_summary now s" "\<not> hit" "t = set_redis (store_summary now x (d_redis s)) s"
    using assms(2) by (auto simp: get_executive_summary_def Let_def)
  have "map_of (d_redis t) summary_key = Some (RReport x, now + 900000)" by (simp add: o(3) store_summary_def redis_set_def)
  then have "summary_dated t" by (simp add: summary_dated_def o(1))
  then show ?thesis by (simp add: o(1,2)) (simp add: o(3))
next
  case (Some y)
  then obtain e where e: "map_of (d_redis s) summary_key = Some (RReport y, e)" "now < e"
    by (auto simp: cached_summary_def redis_get_def split: option.splits if_splits redis_value.splits)
  then have "e = es_generated_at y + 900000" using assms(1) by (auto simp: summary_dated_def)
  then show ?thesis using assms Some e(2) by (auto simp: get_executive_summary_def)
qed

lemma summary_dated_events: "summary_dated s \<Longrightarrow> summary_dated (deliver_events s)"
proof -
  assume d: "summary_dated s"
  have one: "map_of (on_event ev r) summary_key = Some p \<Longrightarrow> map_of r summary_key = Some p" for ev r p
    by (simp add: on_event_def map_of_redis_del split: if_splits)
  have all: "map_of (foldl (\<lambda>r ev. on_event ev r) r evs) summary_key = Some p \<Longrightarrow> map_of r summary_key = Some p" for evs r p
  proof (induction evs arbitrary: r)
    case (Cons ev evs)
    show ?case by (rule one[OF Cons.IH]) (use Cons.prems in simp)
  qed simp
  have "d_redis (deliver_events s) = foldl (\<lambda>r ev. on_event ev r) (d_redis s) (d_emitted s)" by (simp add: deliver_events_def)
  then show ?thesis using d all unfolding summary_dated_def by metis
qed

lemma events_clear_summary:
  assumes "ev \<in> set (d_emitted s)" and "fst ev \<in> {''cashbox.closed'', ''order.delivered''}"
  shows "cached_summary now (d_redis (deliver_events s)) = None"
proof -
  have gone: "map_of (foldl (\<lambda>r ev. on_event ev r) r evs) summary_key = None" if "map_of r summary_key = None" for r evs
    using that by (induction evs arbitrary: r) (auto simp: on_event_def map_of_redis_del)
  have "map_of (foldl (\<lambda>r ev. on_event ev r) r evs) summary_key = None" if "ev \<in> set evs" for r evs
    using that
  proof (induction evs arbitrary: r)
    case (Cons a evs)
    show ?case
    proof (cases "a = ev")
      case True
      then have "map_of (on_event a r) summary_key = None" using assms(2) by (auto simp: on_event_def map_of_redis_del)
      then show ?thesis by (simp add: gone)
    qed (use Cons in simp)
  qed simp
  then show ?thesis using assms(1) by (simp add: cached_summary_def redis_get_def deliver_events_def)
qed

lemma delivery_emits:
  assumes "deliver_vehicle dec now today new_tx k signature m user s = (Inr c, t)"
  shows "(''order.delivered'', k) \<in> set (d_emitted t)"
  using assms by (auto simp: deliver_vehicle_def Let_def emit_event_def split: option.splits if_splits)

lemma closing_emits:
  assumes "close_cashbox_session dec now user actual j s = (Inr st, t)" and "st \<noteq> BLOCKED"
  shows "\<exists>c. (''cashbox.closed'', c) \<in> set (d_emitted t)"
proof -
  have e: "d_emitted (emit_cashbox_closed c s) = d_emitted s" for c s by (simp add: emit_cashbox_closed_def)
  show ?thesis using assms
    by (auto simp: close_cashbox_session_def Let_def e emit_event_def split: option.splits if_splits sum.splits)
qed

section \<open>Properties\<close>

text \<open>A summary that is answered was computed less than fifteen minutes before, from the tables of that moment when it does not
  come from the cache; the conversion of quotes is an amount of cents between 0 and 100 percent. A cash session that is closed without being blocked, and a delivery, clear
  it: once their event is handled the next summary is computed anew.\<close>

theorem summary_is_recent:
  assumes "summary_dated s" and "get_executive_summary now s = ((x, hit), t)"
  shows "summary_dated t \<and> now < es_generated_at x + 900000 \<and> (\<not> hit \<longrightarrow> x = compute_summary now s)
    \<and> (\<not> hit \<longrightarrow> es_quotes_approved x \<le> es_quotes_sent x \<and> (\<exists>n. 0 \<le> n \<and> n \<le> 10000 \<and> es_conversion x = cents n))
    \<and> (\<forall>dec moment user actual j st u. close_cashbox_session dec moment user actual j t = (Inr st, u) \<and> st \<noteq> BLOCKED
         \<longrightarrow> \<not> snd (fst (get_executive_summary later (deliver_events u))))
    \<and> (\<forall>dec moment today new_tx k signature m user c u. deliver_vehicle dec moment today new_tx k signature m user t = (Inr c, u)
         \<longrightarrow> \<not> snd (fst (get_executive_summary later (deliver_events u))))"
proof -
  note o = summary_out[OF assms]
  have anew: "\<not> snd (fst (get_executive_summary later (deliver_events u)))"
    if "ev \<in> set (d_emitted u)" "fst ev \<in> {''cashbox.closed'', ''order.delivered''}" for ev u
    using events_clear_summary[OF that] by (simp add: get_executive_summary_def Let_def)
  have quotes: "es_quotes_approved (compute_summary now s) \<le> es_quotes_sent (compute_summary now s)
      \<and> (\<exists>n. 0 \<le> n \<and> n \<le> 10000 \<and> es_conversion (compute_summary now s) = cents n)"
    by (cases "quote_conversion s") (use conversion_bounds in \<open>fastforce simp: compute_summary_def split: prod.splits\<close>)
  have close: "\<not> snd (fst (get_executive_summary later (deliver_events u)))"
    if "close_cashbox_session dec moment user actual j t = (Inr st, u) \<and> st \<noteq> BLOCKED" for dec moment user actual j st u
    using closing_emits[of dec moment user actual j t st u] that anew by fastforce
  have deliver: "\<not> snd (fst (get_executive_summary later (deliver_events u)))"
    if "deliver_vehicle dec moment today new_tx k signature m user t = (Inr c, u)" for dec moment today new_tx k signature m user c u
    using delivery_emits[OF that] anew by fastforce
  show ?thesis using o quotes close deliver by blast
qed

definition ready_order :: db where
  "ready_order =
     empty_db\<lparr>d_orders := [(sample_order ''o1'' READY)\<lparr>wo_final := 5000\<rparr>], d_accounts := [sample_account ''f1'' UserRole.FINANCE],
              d_sessions := [\<lparr>cs_id = ''c1'', cs_opened_by = ''f1'', cs_closed_by = None, cs_opening = 1000, cs_closing = None,
                 cs_actual = None, cs_discrepancy = None, cs_status = OPEN, cs_notes = None, cs_justification = None,
                 cs_opened_at = 5, cs_closed_at = None\<rparr>]\<rparr>"

theorem summary_is_recent_witness:
  "\<exists>x t c u. get_executive_summary 10 ready_order = ((x, False), t)
     \<and> deliver_vehicle half_up 20 (0, 100) ''t1'' ''o1'' ''firma'' CASH ''f1'' t = (Inr c, u)
     \<and> \<not> snd (fst (get_executive_summary 30 (deliver_events u)))"
proof -
  have d: "summary_dated ready_order" by (simp add: summary_dated_def ready_order_def)
  obtain x t where g: "get_executive_summary 10 ready_order = ((x, False), t)" and t: "d_orders t = d_orders ready_order" "d_sessions t = d_sessions ready_order"
    by (simp add: get_executive_summary_def Let_def cached_summary_def redis_get_def ready_order_def)
  obtain c u where dv: "deliver_vehicle half_up 20 (0, 100) ''t1'' ''o1'' ''firma'' CASH ''f1'' t = (Inr c, u)"
    by (simp add: deliver_vehicle_def t ready_order_def Let_def)
  have "\<not> snd (fst (get_executive_summary 30 (deliver_events u)))"
    using conjunct2[OF conjunct2[OF conjunct2[OF conjunct2[OF conjunct2[OF summary_is_recent[OF d g, of 30]]]]]] dv by metis
  then show ?thesis using g dv by blast
qed

text \<open>When the till that is open was opened before today, the dashboard shows the till as closed and without money, while opening
  one is refused because one is open.\<close>

theorem dashboard_and_till_disagree:
  assumes "open_session (d_sessions s) \<noteq> None"
    and "\<forall>c \<in> set (d_sessions s). cs_status c = OPEN \<longrightarrow> cs_opened_at c < set_hours tz now 0 0"
  shows "\<not> db_cashbox_open (dashboard_summary tz now s) \<and> db_cashbox_balance (dashboard_summary tz now s) = Fin 0
    \<and> open_cashbox dec now new_id user opening s = (Inl (Conflict ''Ya existe una caja abierta''), s)"
proof -
  have "List.find (\<lambda>c. set_hours tz now 0 0 \<le> cs_opened_at c \<and> cs_status c = OPEN) (d_sessions s) = None"
    using assms(2) by (auto simp: find_None_iff)
  then show ?thesis using assms(1) by (simp add: dashboard_summary_def Let_def open_cashbox_def)
qed

theorem dashboard_and_till_disagree_witness:
  "let now = 86400005 in \<not> db_cashbox_open (dashboard_summary 0 now ready_order)
     \<and> open_cashbox half_up now ''c2'' ''f1'' (Fin 100) ready_order = (Inl (Conflict ''Ya existe una caja abierta''), ready_order)"
  using dashboard_and_till_disagree[of ready_order 0 86400005 half_up "''c2''" "''f1''" "Fin 100"]
  by (simp add: ready_order_def open_session_def set_hours_def)

end
