(* ===== verification/Routes.thy ===== *)
theory Routes
  imports Guards
begin

text \<open>
  Every route of the platform with the guards and the roles its controller asks for (the decorators of
  \<open>src/**/*.controller.ts\<close>), and who gets through them: the guards of the controller, then those of the route, then the
  interceptor that enforces the second factor. What the device and webhook guards say of a request are arguments; the limit on the
  number of requests is in theory Guards.
\<close>

section \<open>Routes\<close>

datatype guard = JwtGuard | RoleGuard | MfaGuard | DeviceGuard | WebhookGuard

datatype segment = Lit string | Param

record route =
  rt_method :: string
  rt_path :: "segment list"
  rt_guards :: "guard list"
  rt_roles :: "UserRole list option"

definition route_of :: "string \<Rightarrow> segment list \<Rightarrow> guard list \<Rightarrow> UserRole list option \<Rightarrow> route" where
  "route_of verb path guards roles = \<lparr>rt_method = verb, rt_path = path, rt_guards = guards, rt_roles = roles\<rparr>"

definition health_routes :: "route list" where
  "health_routes =
     [route_of ''GET'' [Lit ''health''] [] None]"

definition public_routes :: "route list" where
  "public_routes =
     [route_of ''GET'' [Lit ''public'', Lit ''orders'', Lit ''lookup''] [] None,
      route_of ''GET'' [Lit ''public'', Lit ''orders'', Param] [] None,
      route_of ''GET'' [Lit ''public'', Lit ''orders'', Lit ''number'', Param, Lit ''status''] [] None,
      route_of ''POST'' [Lit ''public'', Lit ''iot'', Lit ''attendance'', Lit ''biometric''] [DeviceGuard] None,
      route_of ''POST'' [Lit ''public'', Lit ''iot'', Lit ''orders'', Param, Lit ''photos'', Lit ''camera-capture''] [DeviceGuard] None]"

definition analytics_routes :: "route list" where
  "analytics_routes =
     [route_of ''GET'' [Lit ''analytics'', Lit ''summary''] [JwtGuard, RoleGuard] (Some [UserRole.OWNER, UserRole.ADMIN])]"

definition attendance_routes :: "route list" where
  "attendance_routes =
     [route_of ''GET'' [Lit ''attendance''] [JwtGuard, RoleGuard] (Some [UserRole.ADMIN, UserRole.OWNER]),
      route_of ''GET'' [Lit ''attendance'', Lit ''today''] [JwtGuard, RoleGuard] (Some [UserRole.ADMIN, UserRole.OWNER]),
      route_of ''GET'' [Lit ''attendance'', Param] [JwtGuard] None,
      route_of ''POST'' [Lit ''attendance'', Lit ''check-in''] [JwtGuard] None,
      route_of ''POST'' [Lit ''attendance'', Lit ''check-out''] [JwtGuard] None,
      route_of ''POST'' [Lit ''attendance'', Lit ''verify''] [JwtGuard, RoleGuard] (Some [UserRole.ADMIN, UserRole.OWNER])]"

definition audit_routes :: "route list" where
  "audit_routes =
     [route_of ''GET'' [Lit ''audit''] [JwtGuard, RoleGuard, MfaGuard] (Some [UserRole.ADMIN, UserRole.OWNER]),
      route_of ''GET'' [Lit ''audit'', Lit ''user'', Param] [JwtGuard, RoleGuard, MfaGuard] (Some [UserRole.ADMIN, UserRole.OWNER]),
      route_of ''GET'' [Lit ''audit'', Lit ''entity'', Param, Param] [JwtGuard, RoleGuard, MfaGuard] (Some [UserRole.ADMIN, UserRole.OWNER]),
      route_of ''GET'' [Lit ''audit'', Param] [JwtGuard, RoleGuard, MfaGuard] (Some [UserRole.ADMIN, UserRole.OWNER])]"

definition auth_routes :: "route list" where
  "auth_routes =
     [route_of ''POST'' [Lit ''auth'', Lit ''login''] [] None,
      route_of ''POST'' [Lit ''auth'', Lit ''mechanic'', Lit ''login''] [] None,
      route_of ''POST'' [Lit ''auth'', Lit ''mfa'', Lit ''verify''] [] None,
      route_of ''POST'' [Lit ''auth'', Lit ''register''] [JwtGuard, RoleGuard] (Some [UserRole.OWNER]),
      route_of ''GET'' [Lit ''auth'', Lit ''mfa'', Lit ''generate''] [JwtGuard] None,
      route_of ''POST'' [Lit ''auth'', Lit ''mfa'', Lit ''confirm''] [JwtGuard] None,
      route_of ''POST'' [Lit ''auth'', Lit ''refresh''] [] None,
      route_of ''POST'' [Lit ''auth'', Lit ''logout''] [JwtGuard] None,
      route_of ''DELETE'' [Lit ''auth'', Lit ''logout''] [] None,
      route_of ''POST'' [Lit ''auth'', Lit ''logout-all''] [JwtGuard] None,
      route_of ''GET'' [Lit ''auth'', Lit ''sessions''] [JwtGuard] None,
      route_of ''DELETE'' [Lit ''auth'', Lit ''sessions'', Param] [JwtGuard] None,
      route_of ''POST'' [Lit ''auth'', Lit ''force-logout''] [JwtGuard, RoleGuard] (Some [UserRole.OWNER]),
      route_of ''POST'' [Lit ''auth'', Lit ''change-password''] [JwtGuard] None,
      route_of ''GET'' [Lit ''auth'', Lit ''me''] [JwtGuard] None]"

definition clients_routes :: "route list" where
  "clients_routes =
     [route_of ''GET'' [Lit ''clients''] [JwtGuard, RoleGuard] (Some [UserRole.ADMIN, UserRole.OWNER]),
      route_of ''GET'' [Lit ''clients'', Param] [JwtGuard, RoleGuard] (Some [UserRole.ADMIN, UserRole.OWNER]),
      route_of ''POST'' [Lit ''clients''] [JwtGuard, RoleGuard] (Some [UserRole.ADMIN, UserRole.OWNER]),
      route_of ''PATCH'' [Lit ''clients'', Param] [JwtGuard, RoleGuard] (Some [UserRole.ADMIN, UserRole.OWNER]),
      route_of ''GET'' [Lit ''clients'', Param, Lit ''history''] [JwtGuard, RoleGuard] (Some [UserRole.ADMIN, UserRole.OWNER])]"

definition commissions_routes :: "route list" where
  "commissions_routes =
     [route_of ''GET'' [Lit ''commissions''] [JwtGuard, RoleGuard] (Some [UserRole.ADMIN, UserRole.OWNER, UserRole.FINANCE]),
      route_of ''GET'' [Lit ''commissions'', Lit ''personnel'', Param] [JwtGuard, RoleGuard] (Some [UserRole.ADMIN, UserRole.OWNER, UserRole.FINANCE]),
      route_of ''GET'' [Lit ''commissions'', Lit ''supplier'', Param] [JwtGuard, RoleGuard] (Some [UserRole.ADMIN, UserRole.OWNER, UserRole.FINANCE]),
      route_of ''POST'' [Lit ''commissions''] [JwtGuard, RoleGuard] (Some [UserRole.OWNER]),
      route_of ''POST'' [Lit ''commissions'', Param, Lit ''approve''] [JwtGuard, RoleGuard] (Some [UserRole.ADMIN, UserRole.OWNER]),
      route_of ''POST'' [Lit ''commissions'', Param, Lit ''pay''] [JwtGuard, RoleGuard] (Some [UserRole.ADMIN, UserRole.OWNER])]"

definition dashboard_routes :: "route list" where
  "dashboard_routes =
     [route_of ''GET'' [Lit ''dashboard'', Lit ''summary''] [JwtGuard, RoleGuard] (Some [UserRole.OWNER, UserRole.ADMIN, UserRole.FINANCE]),
      route_of ''GET'' [Lit ''dashboard'', Lit ''pending-approvals-count''] [JwtGuard, RoleGuard] (Some [UserRole.OWNER, UserRole.ADMIN, UserRole.FINANCE])]"

definition alerts_routes :: "route list" where
  "alerts_routes =
     [route_of ''GET'' [Lit ''alerts''] [JwtGuard, RoleGuard] (Some [UserRole.OWNER, UserRole.ADMIN, UserRole.FINANCE]),
      route_of ''POST'' [Lit ''alerts'', Param, Lit ''acknowledge''] [JwtGuard, RoleGuard] (Some [UserRole.OWNER, UserRole.ADMIN])]"

definition finance_routes :: "route list" where
  "finance_routes =
     [route_of ''POST'' [Lit ''finance'', Lit ''cashbox'', Lit ''open''] [JwtGuard, RoleGuard, MfaGuard] (Some [UserRole.ADMIN, UserRole.OWNER]),
      route_of ''POST'' [Lit ''finance'', Lit ''cashbox'', Lit ''close''] [JwtGuard, RoleGuard] (Some [UserRole.ADMIN, UserRole.OWNER]),
      route_of ''GET'' [Lit ''finance'', Lit ''cashbox'', Lit ''today''] [JwtGuard, RoleGuard] (Some [UserRole.ADMIN, UserRole.FINANCE, UserRole.OWNER]),
      route_of ''POST'' [Lit ''finance'', Lit ''cashbox'', Lit ''transactions''] [JwtGuard, RoleGuard] (Some [UserRole.ADMIN, UserRole.FINANCE]),
      route_of ''POST'' [Lit ''finance'', Lit ''expenses''] [JwtGuard, RoleGuard, MfaGuard] (Some [UserRole.FINANCE, UserRole.ADMIN, UserRole.OWNER]),
      route_of ''GET'' [Lit ''finance'', Lit ''expenses'', Lit ''pending''] [JwtGuard, RoleGuard] (Some [UserRole.FINANCE, UserRole.ADMIN, UserRole.OWNER]),
      route_of ''POST'' [Lit ''finance'', Lit ''expenses'', Param, Lit ''approve''] [JwtGuard, RoleGuard, MfaGuard] (Some [UserRole.ADMIN, UserRole.OWNER]),
      route_of ''GET'' [Lit ''finance'', Lit ''expenses''] [JwtGuard, RoleGuard] (Some [UserRole.FINANCE, UserRole.ADMIN, UserRole.OWNER]),
      route_of ''GET'' [Lit ''finance'', Lit ''dashboard''] [JwtGuard, RoleGuard] (Some [UserRole.OWNER, UserRole.ADMIN, UserRole.FINANCE]),
      route_of ''GET'' [Lit ''finance'', Lit ''cashflow''] [JwtGuard, RoleGuard] (Some [UserRole.OWNER, UserRole.FINANCE]),
      route_of ''GET'' [Lit ''finance'', Lit ''cashbox'', Lit ''history''] [JwtGuard, RoleGuard] (Some [UserRole.OWNER, UserRole.FINANCE]),
      route_of ''POST'' [Lit ''finance'', Lit ''cashbox'', Lit ''override''] [JwtGuard, RoleGuard] (Some [UserRole.OWNER]),
      route_of ''POST'' [Lit ''finance'', Lit ''qr'', Lit ''generate''] [JwtGuard, RoleGuard] (Some [UserRole.ADMIN, UserRole.OWNER, UserRole.FINANCE])]"

definition payment_webhook_routes :: "route list" where
  "payment_webhook_routes =
     [route_of ''POST'' [Lit ''webhooks'', Lit ''payment'', Lit ''confirm''] [WebhookGuard] None]"

definition inventory_routes :: "route list" where
  "inventory_routes =
     [route_of ''GET'' [Lit ''inventory'', Lit ''movements''] [JwtGuard, RoleGuard] (Some [UserRole.ADMIN, UserRole.OWNER, UserRole.FINANCE, MECHANIC]),
      route_of ''GET'' [Lit ''inventory'', Lit ''critical'', Lit ''list''] [JwtGuard, RoleGuard] (Some [UserRole.ADMIN, UserRole.OWNER, UserRole.FINANCE, MECHANIC]),
      route_of ''GET'' [Lit ''inventory'', Lit ''low-stock''] [JwtGuard, RoleGuard] (Some [UserRole.ADMIN, UserRole.OWNER, UserRole.FINANCE, MECHANIC]),
      route_of ''GET'' [Lit ''inventory'', Lit ''valuation''] [JwtGuard, RoleGuard] (Some [UserRole.ADMIN, UserRole.OWNER, UserRole.FINANCE, MECHANIC]),
      route_of ''GET'' [Lit ''inventory''] [JwtGuard, RoleGuard] (Some [UserRole.ADMIN, UserRole.OWNER, UserRole.FINANCE, MECHANIC, TRAINEE]),
      route_of ''GET'' [Lit ''inventory'', Param] [JwtGuard, RoleGuard] (Some [UserRole.ADMIN, UserRole.OWNER, UserRole.FINANCE, MECHANIC, TRAINEE]),
      route_of ''POST'' [Lit ''inventory''] [JwtGuard, RoleGuard] (Some [UserRole.ADMIN, UserRole.OWNER]),
      route_of ''PATCH'' [Lit ''inventory'', Param] [JwtGuard, RoleGuard] (Some [UserRole.ADMIN, UserRole.OWNER]),
      route_of ''POST'' [Lit ''inventory'', Param, Lit ''movements''] [JwtGuard, RoleGuard] (Some [UserRole.ADMIN, UserRole.OWNER]),
      route_of ''GET'' [Lit ''inventory'', Param, Lit ''movements''] [JwtGuard, RoleGuard] (Some [UserRole.ADMIN, UserRole.OWNER, MECHANIC, TRAINEE]),
      route_of ''POST'' [Lit ''inventory'', Param, Lit ''reserve''] [JwtGuard, RoleGuard] (Some [UserRole.OWNER, UserRole.ADMIN, MECHANIC])]"

definition invoices_routes :: "route list" where
  "invoices_routes =
     [route_of ''GET'' [Lit ''invoices''] [JwtGuard, RoleGuard] (Some [UserRole.ADMIN, UserRole.OWNER, UserRole.FINANCE]),
      route_of ''GET'' [Lit ''invoices'', Lit ''overdue''] [JwtGuard, RoleGuard] (Some [UserRole.ADMIN, UserRole.OWNER, UserRole.FINANCE]),
      route_of ''GET'' [Lit ''invoices'', Lit ''client'', Param] [JwtGuard, RoleGuard] (Some [UserRole.ADMIN, UserRole.OWNER, UserRole.FINANCE]),
      route_of ''GET'' [Lit ''invoices'', Param] [JwtGuard, RoleGuard] (Some [UserRole.ADMIN, UserRole.OWNER, UserRole.FINANCE]),
      route_of ''POST'' [Lit ''invoices'', Lit ''from-order'', Param] [JwtGuard, RoleGuard] (Some [UserRole.ADMIN, UserRole.OWNER, UserRole.FINANCE]),
      route_of ''POST'' [Lit ''invoices'', Param, Lit ''issue''] [JwtGuard, RoleGuard] (Some [UserRole.ADMIN, UserRole.OWNER, UserRole.FINANCE]),
      route_of ''POST'' [Lit ''invoices'', Param, Lit ''cancel''] [JwtGuard, RoleGuard] (Some [UserRole.ADMIN, UserRole.OWNER])]"

definition orders_routes :: "route list" where
  "orders_routes =
     [route_of ''GET'' [Lit ''orders''] [JwtGuard, RoleGuard] (Some [UserRole.OWNER, UserRole.ADMIN, UserRole.FINANCE, CLIENT]),
      route_of ''GET'' [Lit ''orders'', Lit ''my''] [JwtGuard, RoleGuard] (Some [MECHANIC]),
      route_of ''GET'' [Lit ''orders'', Lit ''stats'', Lit ''summary''] [JwtGuard] None,
      route_of ''GET'' [Lit ''orders'', Lit ''by-status'', Param] [JwtGuard] None,
      route_of ''GET'' [Lit ''orders'', Param] [JwtGuard] None,
      route_of ''POST'' [Lit ''orders''] [JwtGuard, RoleGuard] (Some [UserRole.OWNER, UserRole.ADMIN]),
      route_of ''PATCH'' [Lit ''orders'', Param] [JwtGuard, RoleGuard] (Some [UserRole.OWNER, UserRole.ADMIN, MECHANIC, TRAINEE]),
      route_of ''POST'' [Lit ''orders'', Param, Lit ''status''] [JwtGuard, RoleGuard] (Some [MECHANIC, TRAINEE, UserRole.ADMIN, UserRole.OWNER]),
      route_of ''DELETE'' [Lit ''orders'', Param] [JwtGuard, JwtGuard, RoleGuard] (Some [UserRole.OWNER]),
      route_of ''POST'' [Lit ''orders'', Param, Lit ''discount''] [JwtGuard, JwtGuard, RoleGuard] (Some [UserRole.OWNER, UserRole.ADMIN, MECHANIC]),
      route_of ''POST'' [Lit ''orders'', Param, Lit ''photos''] [JwtGuard, RoleGuard] (Some [MECHANIC, TRAINEE, UserRole.ADMIN, UserRole.OWNER]),
      route_of ''POST'' [Lit ''orders'', Param, Lit ''parts''] [JwtGuard, RoleGuard] (Some [MECHANIC, TRAINEE, UserRole.ADMIN, UserRole.OWNER]),
      route_of ''POST'' [Lit ''orders'', Param, Lit ''progress''] [JwtGuard, RoleGuard] (Some [MECHANIC, TRAINEE]),
      route_of ''POST'' [Lit ''orders'', Param, Lit ''complete''] [JwtGuard, RoleGuard] (Some [MECHANIC, TRAINEE, UserRole.ADMIN, UserRole.OWNER]),
      route_of ''DELETE'' [Lit ''orders'', Param, Lit ''photos'', Param] [JwtGuard, RoleGuard] (Some [MECHANIC, TRAINEE, UserRole.ADMIN, UserRole.OWNER]),
      route_of ''POST'' [Lit ''orders'', Param, Lit ''quote''] [JwtGuard, RoleGuard] (Some [UserRole.OWNER, UserRole.ADMIN]),
      route_of ''POST'' [Lit ''orders'', Param, Lit ''quote'', Lit ''approve''] [JwtGuard, RoleGuard] (Some [UserRole.OWNER, UserRole.ADMIN, CLIENT]),
      route_of ''POST'' [Lit ''orders'', Param, Lit ''quote'', Lit ''reject''] [JwtGuard, RoleGuard] (Some [UserRole.OWNER, UserRole.ADMIN, CLIENT]),
      route_of ''POST'' [Lit ''orders'', Param, Lit ''deliver''] [JwtGuard, RoleGuard] (Some [UserRole.ADMIN, UserRole.OWNER]),
      route_of ''POST'' [Lit ''orders'', Param, Lit ''assign''] [JwtGuard, RoleGuard, MfaGuard] (Some [UserRole.ADMIN, UserRole.OWNER]),
      route_of ''POST'' [Lit ''orders'', Lit ''checkin''] [JwtGuard, RoleGuard] (Some [MECHANIC, TRAINEE, UserRole.ADMIN, UserRole.OWNER]),
      route_of ''POST'' [Lit ''orders'', Param, Lit ''photos'', Lit ''camera-capture''] [JwtGuard, RoleGuard] (Some [MECHANIC, TRAINEE, UserRole.ADMIN, UserRole.OWNER])]"

definition payments_routes :: "route list" where
  "payments_routes =
     [route_of ''GET'' [Lit ''payments''] [JwtGuard, RoleGuard] (Some [UserRole.ADMIN, UserRole.OWNER, UserRole.FINANCE]),
      route_of ''GET'' [Lit ''payments'', Lit ''today''] [JwtGuard, RoleGuard] (Some [UserRole.ADMIN, UserRole.OWNER, UserRole.FINANCE]),
      route_of ''GET'' [Lit ''payments'', Lit ''method''] [JwtGuard, RoleGuard] (Some [UserRole.ADMIN, UserRole.OWNER, UserRole.FINANCE]),
      route_of ''GET'' [Lit ''payments'', Lit ''order'', Param] [JwtGuard, RoleGuard] (Some [UserRole.ADMIN, UserRole.OWNER, UserRole.FINANCE]),
      route_of ''POST'' [Lit ''payments''] [JwtGuard, RoleGuard] (Some [UserRole.ADMIN, UserRole.OWNER, UserRole.FINANCE]),
      route_of ''POST'' [Lit ''payments'', Param, Lit ''verify''] [JwtGuard, RoleGuard] (Some [UserRole.ADMIN, UserRole.OWNER])]"

definition personnel_routes :: "route list" where
  "personnel_routes =
     [route_of ''GET'' [Lit ''personnel''] [JwtGuard, RoleGuard] (Some [UserRole.ADMIN, UserRole.OWNER]),
      route_of ''GET'' [Lit ''personnel'', Param] [JwtGuard, RoleGuard] (Some [UserRole.ADMIN, UserRole.OWNER, MECHANIC, TRAINEE]),
      route_of ''PATCH'' [Lit ''personnel'', Param, Lit ''role''] [JwtGuard, RoleGuard] (Some [UserRole.OWNER]),
      route_of ''PATCH'' [Lit ''personnel'', Param, Lit ''status''] [JwtGuard, RoleGuard] (Some [UserRole.OWNER]),
      route_of ''POST'' [Lit ''personnel'', Lit ''attendance'', Lit ''check-in''] [JwtGuard, RoleGuard, JwtGuard] None,
      route_of ''POST'' [Lit ''personnel'', Lit ''attendance'', Lit ''check-out''] [JwtGuard, RoleGuard, JwtGuard] None,
      route_of ''GET'' [Lit ''personnel'', Lit ''attendance'', Lit ''today''] [JwtGuard, RoleGuard] (Some [UserRole.ADMIN, UserRole.OWNER]),
      route_of ''POST'' [Lit ''personnel'', Lit ''vehicle-usage'', Lit ''authorize''] [JwtGuard, RoleGuard] (Some [UserRole.ADMIN, UserRole.OWNER]),
      route_of ''GET'' [Lit ''personnel'', Lit ''vehicle-usage'', Lit ''active''] [JwtGuard, RoleGuard] (Some [UserRole.ADMIN, UserRole.OWNER]),
      route_of ''GET'' [Lit ''personnel'', Lit ''vehicle-usage'', Lit ''overdue''] [JwtGuard, RoleGuard] (Some [UserRole.ADMIN, UserRole.OWNER])]"

definition purchases_routes :: "route list" where
  "purchases_routes =
     [route_of ''GET'' [Lit ''purchases''] [JwtGuard, RoleGuard] (Some [UserRole.ADMIN, UserRole.OWNER, UserRole.FINANCE]),
      route_of ''GET'' [Lit ''purchases'', Lit ''imports''] [JwtGuard, RoleGuard] (Some [UserRole.ADMIN, UserRole.OWNER, UserRole.FINANCE]),
      route_of ''GET'' [Lit ''purchases'', Lit ''supplier'', Param] [JwtGuard, RoleGuard] (Some [UserRole.ADMIN, UserRole.OWNER, UserRole.FINANCE]),
      route_of ''GET'' [Lit ''purchases'', Param] [JwtGuard, RoleGuard] (Some [UserRole.ADMIN, UserRole.OWNER, UserRole.FINANCE]),
      route_of ''POST'' [Lit ''purchases''] [JwtGuard, RoleGuard] (Some [UserRole.ADMIN, UserRole.OWNER]),
      route_of ''PATCH'' [Lit ''purchases'', Param, Lit ''status''] [JwtGuard, RoleGuard] (Some [UserRole.ADMIN, UserRole.OWNER]),
      route_of ''POST'' [Lit ''purchases'', Param, Lit ''receive''] [JwtGuard, RoleGuard] (Some [UserRole.ADMIN, UserRole.OWNER])]"

definition quotes_routes :: "route list" where
  "quotes_routes =
     [route_of ''GET'' [Lit ''quotes''] [JwtGuard, RoleGuard] (Some [UserRole.ADMIN, UserRole.OWNER, UserRole.FINANCE]),
      route_of ''GET'' [Lit ''quotes'', Param] [JwtGuard, RoleGuard] (Some [UserRole.ADMIN, UserRole.OWNER, UserRole.FINANCE]),
      route_of ''POST'' [Lit ''quotes''] [JwtGuard, RoleGuard] (Some [UserRole.ADMIN, UserRole.OWNER]),
      route_of ''POST'' [Lit ''quotes'', Param, Lit ''approve''] [JwtGuard, RoleGuard] (Some [UserRole.ADMIN, UserRole.OWNER]),
      route_of ''POST'' [Lit ''quotes'', Param, Lit ''reject''] [JwtGuard, RoleGuard] (Some [UserRole.ADMIN, UserRole.OWNER]),
      route_of ''POST'' [Lit ''quotes'', Param, Lit ''convert''] [JwtGuard, RoleGuard] (Some [UserRole.ADMIN, UserRole.OWNER])]"

definition settings_routes :: "route list" where
  "settings_routes =
     [route_of ''GET'' [Lit ''settings''] [JwtGuard, RoleGuard] (Some [UserRole.ADMIN, UserRole.OWNER]),
      route_of ''GET'' [Lit ''settings'', Lit ''category'', Param] [JwtGuard, RoleGuard] (Some [UserRole.ADMIN, UserRole.OWNER]),
      route_of ''GET'' [Lit ''settings'', Param] [JwtGuard, RoleGuard] (Some [UserRole.ADMIN, UserRole.OWNER]),
      route_of ''POST'' [Lit ''settings''] [JwtGuard, RoleGuard] (Some [UserRole.OWNER]),
      route_of ''PATCH'' [Lit ''settings'', Param] [JwtGuard, RoleGuard] (Some [UserRole.ADMIN, UserRole.OWNER]),
      route_of ''POST'' [Lit ''settings'', Param] [JwtGuard, RoleGuard] (Some [UserRole.ADMIN, UserRole.OWNER]),
      route_of ''DELETE'' [Lit ''settings'', Param] [JwtGuard, RoleGuard] (Some [UserRole.OWNER])]"

definition vehicles_routes :: "route list" where
  "vehicles_routes =
     [route_of ''GET'' [Lit ''vehicles'', Lit ''lookup'', Param] [] None,
      route_of ''GET'' [Lit ''vehicles'', Lit ''workshop-fleet''] [JwtGuard, RoleGuard] (Some [UserRole.ADMIN, UserRole.OWNER]),
      route_of ''GET'' [Lit ''vehicles''] [JwtGuard, RoleGuard] (Some [UserRole.ADMIN, UserRole.OWNER]),
      route_of ''GET'' [Lit ''vehicles'', Param] [JwtGuard, RoleGuard] (Some [UserRole.ADMIN, UserRole.OWNER]),
      route_of ''POST'' [Lit ''vehicles''] [JwtGuard, RoleGuard] (Some [UserRole.ADMIN, UserRole.OWNER]),
      route_of ''PATCH'' [Lit ''vehicles'', Param] [JwtGuard, RoleGuard] (Some [UserRole.ADMIN, UserRole.OWNER])]"

definition all_routes :: "route list" where
  "all_routes =
     health_routes @ public_routes @ analytics_routes @ attendance_routes @ audit_routes @ auth_routes @ clients_routes @ commissions_routes @ dashboard_routes @ alerts_routes @ finance_routes @ payment_webhook_routes @ inventory_routes @ invoices_routes @ orders_routes @ payments_routes @ personnel_routes @ purchases_routes @ quotes_routes @ settings_routes @ vehicles_routes"

section \<open>Getting in\<close>

record credentials =
  cd_session :: "(UserRole option \<times> bool option) option"
  cd_device :: "http_error + unit"
  cd_webhook :: "http_error + unit"

text \<open>The guards in their order; the user of the request is known once the guard of the token let it pass.\<close>

fun run_guards ::
    "UserRole list option \<Rightarrow> credentials \<Rightarrow> guard list \<Rightarrow> (UserRole option \<times> bool option) option
      \<Rightarrow> http_error + (UserRole option \<times> bool option) option" where
  "run_guards roles cd [] user = Inr user"
| "run_guards roles cd (JwtGuard # gs) user =
     (case cd_session cd of
        None \<Rightarrow> Inl (Unauthorized ''Token invalido o expirado'')
      | Some u \<Rightarrow> run_guards roles cd gs (Some u))"
| "run_guards roles cd (RoleGuard # gs) user =
     and_then (roles_guard roles (map_option fst user)) (\<lambda>_. run_guards roles cd gs user)"
| "run_guards roles cd (MfaGuard # gs) user = and_then (mfa_required_guard user) (\<lambda>_. run_guards roles cd gs user)"
| "run_guards roles cd (DeviceGuard # gs) user = and_then (cd_device cd) (\<lambda>_. run_guards roles cd gs user)"
| "run_guards roles cd (WebhookGuard # gs) user = and_then (cd_webhook cd) (\<lambda>_. run_guards roles cd gs user)"

definition admit :: "route \<Rightarrow> credentials \<Rightarrow> string \<Rightarrow> http_error + unit" where
  "admit rt cd url =
     and_then (run_guards (rt_roles rt) cd (rt_guards rt) None) (\<lambda>user. mfa_enforcement True user url)"

text \<open>The address of a request: the prefix of the application and the segments of the path.\<close>

definition join_path :: "string list \<Rightarrow> string" where
  "join_path ss = concat (map (\<lambda>seg. CHR ''/'' # seg) ss)"

definition full_path :: "route \<Rightarrow> segment list" where
  "full_path rt = Lit ''api'' # Lit ''v1'' # rt_path rt"

definition plain_segment :: "string \<Rightarrow> bool" where
  "plain_segment x \<longleftrightarrow> x \<noteq> [] \<and> CHR ''/'' \<notin> set x \<and> CHR ''?'' \<notin> set x"

fun fits_segment :: "segment \<Rightarrow> string \<Rightarrow> bool" where
  "fits_segment (Lit a) x = (x = a)"
| "fits_segment Param x = plain_segment x"

definition fits :: "route \<Rightarrow> string list \<Rightarrow> bool" where
  "fits rt ss = list_all2 fits_segment (full_path rt) ss"

section \<open>Ends of an address\<close>

lemma join_path_snoc: "join_path (ss @ [x]) = join_path ss @ CHR ''/'' # x"
  by (simp add: join_path_def)

lemma last_segment:
  assumes "q @ CHR ''/'' # b = q' @ CHR ''/'' # x" and "CHR ''/'' \<notin> set b" and "CHR ''/'' \<notin> set x"
  shows "q = q' \<and> b = x"
proof -
  have t: "takeWhile (\<lambda>c. c \<noteq> CHR ''/'') (rev (p @ CHR ''/'' # y)) = rev y" if "CHR ''/'' \<notin> set y" for p y
    using that by (simp add: takeWhile_append)
  have "rev b = rev x" using t[OF assms(2), of q] t[OF assms(3), of q'] assms(1) by simp
  then show ?thesis using assms(1) by simp
qed

lemma ends_with_iff: "ends_with suffix s \<longleftrightarrow> (\<exists>p. s = p @ suffix)"
proof
  assume "ends_with suffix s"
  then show "\<exists>p. s = p @ suffix" unfolding ends_with_def by (metis append_take_drop_id)
qed (auto simp: ends_with_def)

lemma join_path_end:
  assumes "\<forall>x \<in> set ss. CHR ''/'' \<notin> set x" and "\<forall>x \<in> set ts. CHR ''/'' \<notin> set x"
    and "join_path ss = p @ join_path ts"
  shows "\<exists>us. ss = us @ ts \<and> p = join_path us"
  using assms
proof (induction ts arbitrary: ss p rule: rev_induct)
  case Nil
  then show ?case by (simp add: join_path_def)
next
  case (snoc t ts)
  have e: "join_path ss = (p @ join_path ts) @ CHR ''/'' # t" using snoc.prems(3) by (simp add: join_path_snoc)
  then obtain ss' x where ss: "ss = ss' @ [x]" by (cases ss rule: rev_cases) (simp_all add: join_path_def)
  have l: "p @ join_path ts = join_path ss' \<and> t = x"
    by (rule last_segment) (use e snoc.prems(1,2) in \<open>simp_all add: ss join_path_snoc\<close>)
  then obtain us where "ss' = us @ ts \<and> p = join_path us" using snoc.IH[of ss' p] snoc.prems(1,2) ss by auto
  then show ?case using l ss by simp
qed

lemma sessions_end:
  assumes "\<forall>x \<in> set ss. CHR ''/'' \<notin> set x" and "is_sessions_route (join_path ss)"
  shows "\<exists>us. ss = us @ [''auth'', ''sessions''] \<or> (\<exists>x. ss = us @ [''auth'', ''sessions'', x])"
proof -
  have tail: "join_path [''auth'', ''sessions''] = ''/auth/sessions''" by (simp add: join_path_def)
  have direct: "\<exists>us. ws = us @ [''auth'', ''sessions'']"
    if "\<forall>x \<in> set ws. CHR ''/'' \<notin> set x" "ends_with ''/auth/sessions'' (join_path ws)" for ws
    using that join_path_end[of ws "[''auth'', ''sessions'']"] unfolding ends_with_iff tail[symmetric] by auto
  show ?thesis
  proof (cases "ends_with ''/auth/sessions'' (join_path ss)")
    case True
    then show ?thesis using direct assms(1) by blast
  next
    case False
    let ?seg = "takeWhile (\<lambda>c. c \<noteq> CHR ''/'') (rev (join_path ss))"
    have e: "ends_with ''/auth/sessions'' (take (length (join_path ss) - length ?seg - 1) (join_path ss))" "?seg \<noteq> []"
      using assms(2) False by (auto simp: is_sessions_route_def Let_def)
    then obtain ws x where ss: "ss = ws @ [x]" by (cases ss rule: rev_cases) (simp_all add: join_path_def)
    have "CHR ''/'' \<notin> set x" using assms(1) ss by simp
    then have "?seg = rev x" by (simp add: ss join_path_snoc takeWhile_append)
    then have "take (length (join_path ss) - length ?seg - 1) (join_path ss) = join_path ws" by (simp add: ss join_path_snoc)
    then have "ends_with ''/auth/sessions'' (join_path ws)" using e(1) by simp
    then show ?thesis using direct[of ws] assms(1) ss by auto
  qed
qed

definition exempt_tails :: "string list list" where
  "exempt_tails =
     [[''auth'', ''login''], [''auth'', ''mechanic'', ''login''], [''auth'', ''mfa'', ''verify''], [''auth'', ''mfa'', ''generate''],
      [''auth'', ''mfa'', ''confirm''], [''auth'', ''refresh''], [''auth'', ''logout''], [''auth'', ''logout-all''], [''auth'', ''me'']]"

lemma exempt_tails: "auth_exempt_suffixes = map join_path exempt_tails"
  by (simp add: auth_exempt_suffixes_def exempt_tails_def join_path_def)

lemma exempt_end:
  assumes "\<forall>x \<in> set ss. CHR ''/'' \<notin> set x" and "ends_with suffix (join_path ss)" and "suffix \<in> set auth_exempt_suffixes"
  shows "\<exists>ts \<in> set exempt_tails. \<exists>us. ss = us @ ts"
proof -
  obtain ts where ts: "ts \<in> set exempt_tails" "suffix = join_path ts" using assms(3) by (auto simp: exempt_tails)
  then have "\<forall>x \<in> set ts. CHR ''/'' \<notin> set x" by (auto simp: exempt_tails_def)
  then show ?thesis using join_path_end[OF assms(1)] assms(2) ts unfolding ends_with_iff by blast
qed

section \<open>What a path may look like\<close>

text \<open>Whether a pattern can end in some segments; \<open>None\<close> stands for any segment.\<close>

fun may_be :: "segment \<Rightarrow> string option \<Rightarrow> bool" where
  "may_be (Lit a) (Some x) = (x = a)"
| "may_be _ _ = True"

definition may_end :: "segment list \<Rightarrow> string option list \<Rightarrow> bool" where
  "may_end pat ts \<longleftrightarrow> length ts \<le> length pat \<and> list_all2 may_be (drop (length pat - length ts) pat) ts"

lemma may_endI:
  assumes "list_all2 fits_segment pat (us @ ts)" and "list_all2 (\<lambda>x t. t = None \<or> t = Some x) ts ps"
  shows "may_end pat ps"
proof -
  obtain p q where pq: "pat = p @ q" "list_all2 fits_segment q ts" using assms(1) by (auto simp: list_all2_append2)
  have l: "length q = length ts" "length ts = length ps" using pq(2) assms(2) by (auto dest: list_all2_lengthD)
  have "list_all2 may_be q ps"
  proof (rule list_all2_all_nthI)
    fix i assume i: "i < length q"
    have "fits_segment (q ! i) (ts ! i)" "ps ! i = None \<or> ps ! i = Some (ts ! i)"
      using list_all2_nthD[OF pq(2) i] list_all2_nthD[OF assms(2), of i] i l by simp_all
    then show "may_be (q ! i) (ps ! i)" by (cases "q ! i") auto
  qed (use l in simp)
  then show ?thesis using l by (simp add: may_end_def pq(1))
qed

definition enrolment_tails :: "string option list list" where
  "enrolment_tails =
     map (map Some) exempt_tails @ [[Some ''auth'', Some ''sessions''], [Some ''auth'', Some ''sessions'', None]]"

lemma fits_no_slash: "list_all2 fits_segment pat ss \<Longrightarrow> list_all (\<lambda>p. case p of Lit a \<Rightarrow> plain_segment a | Param \<Rightarrow> True) pat
    \<Longrightarrow> \<forall>x \<in> set ss. plain_segment x"
proof (induction rule: list_all2_induct)
  case (Cons p pat x ss)
  then show ?case by (cases p) auto
qed simp

lemma literals_plain:
  "\<forall>rt \<in> set all_routes. list_all (\<lambda>p. case p of Lit a \<Rightarrow> plain_segment a | Param \<Rightarrow> True) (full_path rt)"
  by code_simp

lemma path_of_join:
  assumes "\<forall>x \<in> set ss. plain_segment x" and "query = [] \<or> hd query = CHR ''?''"
  shows "path_of (join_path ss @ query) = join_path ss"
proof -
  have "\<forall>c \<in> set (join_path ss). c \<noteq> CHR ''?''" using assms(1) by (auto simp: join_path_def plain_segment_def)
  moreover have "takeWhile (\<lambda>c. c \<noteq> CHR ''?'') query = []" using assms(2) by (cases query) simp_all
  ultimately show ?thesis unfolding path_of_def by (simp add: takeWhile_append2)
qed

section \<open>Who gets in\<close>

definition enrolment_routes :: "(string \<times> segment list) list" where
  "enrolment_routes =
     [(''GET'', [Lit ''auth'', Lit ''mfa'', Lit ''generate'']), (''POST'', [Lit ''auth'', Lit ''mfa'', Lit ''confirm'']),
      (''POST'', [Lit ''auth'', Lit ''logout'']), (''POST'', [Lit ''auth'', Lit ''logout-all'']),
      (''GET'', [Lit ''auth'', Lit ''sessions'']), (''DELETE'', [Lit ''auth'', Lit ''sessions'', Param]),
      (''GET'', [Lit ''auth'', Lit ''me''])]"

lemma enrolment_patterns:
  "\<forall>rt \<in> set all_routes. JwtGuard \<in> set (rt_guards rt) \<and> MfaGuard \<notin> set (rt_guards rt)
      \<and> list_ex (may_end (full_path rt)) enrolment_tails \<longrightarrow> (rt_method rt, rt_path rt) \<in> set enrolment_routes"
  by code_simp

lemma guards_user:
  assumes "run_guards roles cd gs user = Inr out" and "user = None \<or> user = cd_session cd"
  shows "(JwtGuard \<in> set gs \<longrightarrow> out = cd_session cd \<and> out \<noteq> None) \<and> (JwtGuard \<notin> set gs \<longrightarrow> out = user)
    \<and> (MfaGuard \<in> set gs \<longrightarrow> mfa_required_guard (cd_session cd) = Inr ())"
  using assms
proof (induction roles cd gs user rule: run_guards.induct)
  case (4 roles cd gs user)
  then show ?case by (auto simp: and_then_def mfa_required_guard_def split: sum.splits option.splits)
qed (auto simp: and_then_def split: sum.splits option.splits)

lemma second_factor_needed:
  assumes "rt \<in> set all_routes" and "fits rt ss" and "query = [] \<or> hd query = CHR ''?''"
    and "cd_session cd = Some (Some role, verified)" and "role \<in> set management_roles" and "verified \<noteq> Some True"
    and "admit rt cd (join_path ss @ query) = Inr ()"
  shows "JwtGuard \<notin> set (rt_guards rt) \<or> (rt_method rt, rt_path rt) \<in> set enrolment_routes"
proof (rule disjCI)
  assume "(rt_method rt, rt_path rt) \<notin> set enrolment_routes"
  then show "JwtGuard \<notin> set (rt_guards rt)"
  proof (rule contrapos_nn)
    assume jwt: "JwtGuard \<in> set (rt_guards rt)"
    obtain u where g: "run_guards (rt_roles rt) cd (rt_guards rt) None = Inr u" and e: "mfa_enforcement True u (join_path ss @ query) = Inr ()"
      using assms(7) by (auto simp: admit_def and_then_def split: sum.splits)
    have u: "u = Some (Some role, verified)" and "MfaGuard \<notin> set (rt_guards rt)"
      using guards_user[OF g] jwt assms(4,5,6) by (auto simp: mfa_required_guard_def split: if_splits)
    have f: "list_all2 fits_segment (full_path rt) ss" using assms(2) by (simp add: fits_def)
    have plain: "\<forall>x \<in> set ss. plain_segment x" by (rule fits_no_slash[OF f]) (use literals_plain assms(1) in blast)
    then have ns: "\<forall>x \<in> set ss. CHR ''/'' \<notin> set x" by (simp add: plain_segment_def)
    have path: "path_of (join_path ss @ query) = join_path ss" by (rule path_of_join[OF plain assms(3)])
    have "(\<exists>x \<in> set auth_exempt_suffixes. ends_with x (join_path ss)) \<or> is_sessions_route (join_path ss)"
      using e assms(5,6) by (auto simp: mfa_enforcement_def u Let_def path split: if_splits)
    then obtain us ts ps where "ss = us @ ts" "list_all2 (\<lambda>x t. t = None \<or> t = Some x) ts ps" "ps \<in> set enrolment_tails"
    proof (elim disjE bexE)
      fix x assume "x \<in> set auth_exempt_suffixes" "ends_with x (join_path ss)"
      then obtain ts us where "ts \<in> set exempt_tails" "ss = us @ ts" using exempt_end[OF ns] by blast
      moreover have "list_all2 (\<lambda>x t. t = None \<or> t = Some x) ts (map Some ts)" by (induction ts) simp_all
      ultimately show thesis using that by (auto simp: enrolment_tails_def)
    next
      assume "is_sessions_route (join_path ss)"
      then obtain us where "ss = us @ [''auth'', ''sessions''] \<or> (\<exists>x. ss = us @ [''auth'', ''sessions'', x])"
        using sessions_end[OF ns] by blast
      then show thesis
      proof (elim disjE exE)
        assume "ss = us @ [''auth'', ''sessions'']"
        then show thesis by (rule that[of us _ "[Some ''auth'', Some ''sessions'']"]) (simp_all add: enrolment_tails_def)
      next
        fix x assume "ss = us @ [''auth'', ''sessions'', x]"
        then show thesis by (rule that[of us _ "[Some ''auth'', Some ''sessions'', None]"]) (simp_all add: enrolment_tails_def)
      qed
    qed
    then have "list_ex (may_end (full_path rt)) enrolment_tails"
      using may_endI[of "full_path rt" us ts ps] f by (auto simp: list_ex_iff)
    then show "(rt_method rt, rt_path rt) \<in> set enrolment_routes"
      using enrolment_patterns assms(1) jwt \<open>MfaGuard \<notin> set (rt_guards rt)\<close> by blast
  qed
qed

text \<open>C24. Whatever the parameters and the query of a request are, an account with a privileged role whose token has not passed
  the second factor gets through no route that asks for a token, except the ones it needs to enrol and to end its own
  sessions.\<close>

theorem second_factor_everywhere:
  assumes "rt \<in> set all_routes" and "fits rt ss" and "query = [] \<or> hd query = CHR ''?''"
    and "cd_session cd = Some (Some role, verified)" and "role \<in> set management_roles" and "verified \<noteq> Some True"
    and "admit rt cd (join_path ss @ query) = Inr ()"
  shows "JwtGuard \<notin> set (rt_guards rt) \<or> (rt_method rt, rt_path rt) \<in> set enrolment_routes"
  using assms by (rule second_factor_needed)

definition unverified_admin :: credentials where
  "unverified_admin = \<lparr>cd_session = Some (Some UserRole.ADMIN, Some False), cd_device = Inr (), cd_webhook = Inr ()\<rparr>"

theorem second_factor_everywhere_witness:
  "admit (route_of ''GET'' [Lit ''audit'', Lit ''entity'', Param, Param] [JwtGuard, RoleGuard, MfaGuard]
      (Some [UserRole.ADMIN, UserRole.OWNER])) unverified_admin ''/api/v1/audit/entity/auth/me'' \<noteq> Inr ()"
proof
  let ?rt = "route_of ''GET'' [Lit ''audit'', Lit ''entity'', Param, Param] [JwtGuard, RoleGuard, MfaGuard] (Some [UserRole.ADMIN, UserRole.OWNER])"
  let ?ss = "[''api'', ''v1'', ''audit'', ''entity'', ''auth'', ''me'']"
  assume a: "admit ?rt unverified_admin ''/api/v1/audit/entity/auth/me'' = Inr ()"
  have r: "?rt \<in> set all_routes" by (simp add: all_routes_def audit_routes_def)
  have f: "fits ?rt ?ss" by code_simp
  have p: "join_path ?ss @ [] = ''/api/v1/audit/entity/auth/me''" by (simp add: join_path_def)
  have "JwtGuard \<notin> set (rt_guards ?rt) \<or> (rt_method ?rt, rt_path ?rt) \<in> set enrolment_routes"
    by (rule second_factor_everywhere[OF r f, of "[]" unverified_admin UserRole.ADMIN "Some False"])
      (use a in \<open>simp_all only: p, simp_all add: unverified_admin_def management_roles_def\<close>)
  then show False by (simp add: route_of_def enrolment_routes_def)
qed

definition open_routes :: "(string \<times> segment list) list" where
  "open_routes =
     [(''GET'', [Lit ''health'']), (''GET'', [Lit ''public'', Lit ''orders'', Lit ''lookup'']),
      (''GET'', [Lit ''public'', Lit ''orders'', Param]),
      (''GET'', [Lit ''public'', Lit ''orders'', Lit ''number'', Param, Lit ''status'']),
      (''POST'', [Lit ''auth'', Lit ''login'']), (''POST'', [Lit ''auth'', Lit ''mechanic'', Lit ''login'']),
      (''POST'', [Lit ''auth'', Lit ''mfa'', Lit ''verify'']), (''POST'', [Lit ''auth'', Lit ''refresh'']),
      (''DELETE'', [Lit ''auth'', Lit ''logout'']), (''GET'', [Lit ''vehicles'', Lit ''lookup'', Param])]"

definition client_routes :: "(string \<times> segment list) list" where
  "client_routes =
     [(''GET'', [Lit ''attendance'', Param]), (''POST'', [Lit ''attendance'', Lit ''check-in'']),
      (''POST'', [Lit ''attendance'', Lit ''check-out'']),
      (''GET'', [Lit ''auth'', Lit ''mfa'', Lit ''generate'']), (''POST'', [Lit ''auth'', Lit ''mfa'', Lit ''confirm'']),
      (''POST'', [Lit ''auth'', Lit ''logout'']), (''POST'', [Lit ''auth'', Lit ''logout-all'']),
      (''GET'', [Lit ''auth'', Lit ''sessions'']), (''DELETE'', [Lit ''auth'', Lit ''sessions'', Param]),
      (''POST'', [Lit ''auth'', Lit ''change-password'']), (''GET'', [Lit ''auth'', Lit ''me'']),
      (''GET'', [Lit ''orders'']), (''GET'', [Lit ''orders'', Lit ''stats'', Lit ''summary'']),
      (''GET'', [Lit ''orders'', Lit ''by-status'', Param]), (''GET'', [Lit ''orders'', Param]),
      (''POST'', [Lit ''orders'', Param, Lit ''quote'', Lit ''approve'']), (''POST'', [Lit ''orders'', Param, Lit ''quote'', Lit ''reject'']),
      (''POST'', [Lit ''personnel'', Lit ''attendance'', Lit ''check-in'']),
      (''POST'', [Lit ''personnel'', Lit ''attendance'', Lit ''check-out''])]"

definition refused :: "http_error + unit" where
  "refused = Inl (Unauthorized ''refused'')"

definition visitor :: credentials where
  "visitor = \<lparr>cd_session = None, cd_device = refused, cd_webhook = refused\<rparr>"

definition client_user :: credentials where
  "client_user = \<lparr>cd_session = Some (Some CLIENT, None), cd_device = refused, cd_webhook = refused\<rparr>"

lemma unprivileged_enforcement: "u = None \<or> u = Some (Some CLIENT, None) \<Longrightarrow> mfa_enforcement True u url = Inr ()"
  by (auto simp: mfa_enforcement_def management_roles_def)

definition signature :: "route \<Rightarrow> string \<times> segment list" where
  "signature rt = (rt_method rt, rt_path rt)"

lemma visitor_table:
  "map signature (filter (\<lambda>rt. \<not> isl (run_guards (rt_roles rt) visitor (rt_guards rt) None)) all_routes) = open_routes"
  by code_simp

lemma client_table:
  "map signature (filter (\<lambda>rt. isl (run_guards (rt_roles rt) visitor (rt_guards rt) None)
      \<and> \<not> isl (run_guards (rt_roles rt) client_user (rt_guards rt) None)) all_routes) = client_routes"
  by code_simp

lemma admit_unprivileged:
  assumes "cd_session cd = None \<or> cd_session cd = Some (Some CLIENT, None)"
  shows "admit rt cd url = Inr () \<longleftrightarrow> \<not> isl (run_guards (rt_roles rt) cd (rt_guards rt) None)"
proof (cases "run_guards (rt_roles rt) cd (rt_guards rt) None")
  case (Inr u)
  then have "u = None \<or> u = cd_session cd" using guards_user[OF Inr] by blast
  then have "mfa_enforcement True u url = Inr ()" using assms unprivileged_enforcement[of u url] by auto
  then show ?thesis using Inr by (simp add: admit_def and_then_def)
qed (simp add: admit_def and_then_def)

text \<open>C25. Without any credential exactly ten routes are open, the last of them the search of a vehicle by plate, which answers with
  its owner; and an account of a client gets, beyond those, through exactly nineteen, among them the lists of
  orders by status and the figures of the shop, and the attendance of any worker, to read and to mark.\<close>

theorem who_gets_in:
  "map signature (filter (\<lambda>rt. admit rt visitor url = Inr ()) all_routes) = open_routes
   \<and> map signature (filter (\<lambda>rt. admit rt visitor url \<noteq> Inr () \<and> admit rt client_user url = Inr ()) all_routes) = client_routes"
proof -
  have v: "admit rt visitor url = Inr () \<longleftrightarrow> \<not> isl (run_guards (rt_roles rt) visitor (rt_guards rt) None)" for rt
    by (rule admit_unprivileged) (simp add: visitor_def)
  have c: "admit rt client_user url = Inr () \<longleftrightarrow> \<not> isl (run_guards (rt_roles rt) client_user (rt_guards rt) None)" for rt
    by (rule admit_unprivileged) (simp add: client_user_def)
  show ?thesis unfolding v c using visitor_table client_table by simp
qed

end
