(* ===== verification/Interleaving.thy ===== *)
theory Interleaving
  imports Prelude
begin

text \<open>
  Requests that run at the same time. The server has one thread, but a handler gives way at every \<open>await\<close>: between two
  queries of one request the queries of others are made. Here a handler is a function from the point it has reached (with
  its local variables) and the state to the next point or the answer, and a schedule says which request moves next.
\<close>

datatype ('l, 'r) thread =
    At 'l
  | Done 'r

definition move ::
    "('l \<Rightarrow> 's \<Rightarrow> ('l, 'r) thread \<times> 's) \<Rightarrow> nat \<Rightarrow> ('l, 'r) thread list \<times> 's \<Rightarrow> ('l, 'r) thread list \<times> 's" where
  "move resume i c =
     (case c of (ts, s) \<Rightarrow>
        if i < length ts
        then (case ts ! i of At l \<Rightarrow> (case resume l s of (t, s') \<Rightarrow> (ts[i := t], s')) | Done _ \<Rightarrow> c)
        else c)"

text \<open>A schedule lists the requests in the order they move.\<close>

primrec play ::
    "('l \<Rightarrow> 's \<Rightarrow> ('l, 'r) thread \<times> 's) \<Rightarrow> nat list \<Rightarrow> ('l, 'r) thread list \<times> 's \<Rightarrow> ('l, 'r) thread list \<times> 's" where
  "play resume [] c = c"
| "play resume (i # is) c = play resume is (move resume i c)"

text \<open>The same as a relation between configurations: any request that has not answered may move.\<close>

inductive steps ::
    "('l \<Rightarrow> 's \<Rightarrow> ('l, 'r) thread \<times> 's) \<Rightarrow> ('l, 'r) thread list \<times> 's \<Rightarrow> ('l, 'r) thread list \<times> 's \<Rightarrow> bool"
  for resume where
  steps_refl: "steps resume c c"
| steps_move: "steps resume c (ts, s) \<Longrightarrow> i < length ts \<Longrightarrow> ts ! i = At l \<Longrightarrow> resume l s = (t, s')
    \<Longrightarrow> steps resume c (ts[i := t], s')"

inductive_cases steps_cases: "steps resume c (ts, s)"

text \<open>A request on its own: it moves until it answers, at most so many times.\<close>

primrec alone ::
    "('l \<Rightarrow> 's \<Rightarrow> ('l, 'r) thread \<times> 's) \<Rightarrow> nat \<Rightarrow> ('l, 'r) thread \<Rightarrow> 's \<Rightarrow> ('l, 'r) thread \<times> 's" where
  "alone resume 0 t s = (t, s)"
| "alone resume (Suc n) t s =
     (case t of Done r \<Rightarrow> (t, s) | At l \<Rightarrow> (case resume l s of (t', s') \<Rightarrow> alone resume n t' s'))"

text \<open>Each request in turn moves once.\<close>

primrec sweep :: "('l \<Rightarrow> 's \<Rightarrow> ('l, 'r) thread \<times> 's) \<Rightarrow> 'l list \<Rightarrow> 's \<Rightarrow> ('l, 'r) thread list \<times> 's" where
  "sweep resume [] s = ([], s)"
| "sweep resume (l # ls) s =
     (case resume l s of (t, s1) \<Rightarrow> (case sweep resume ls s1 of (ts, s2) \<Rightarrow> (t # ts, s2)))"

section \<open>Schedules\<close>

lemma play_append: "play resume (is @ js) c = play resume js (play resume is c)"
  by (induction "is" arbitrary: c) simp_all

lemma move_length [simp]: "length (fst (move resume i c)) = length (fst c)"
  by (auto simp: move_def split: prod.splits thread.splits)

lemma play_length [simp]: "length (fst (play resume is c)) = length (fst c)"
  by (induction "is" arbitrary: c) simp_all

lemma steps_trans: "steps resume d e \<Longrightarrow> steps resume c d \<Longrightarrow> steps resume c e"
  by (induction rule: steps.induct) (auto intro: steps.intros)

lemma steps_one: "steps resume c (move resume i c)"
proof (cases c)
  case (Pair ts s)
  then show ?thesis
    using steps_move[OF steps_refl[of resume "(ts, s)"], of i]
    by (auto simp: move_def intro: steps_refl split: prod.splits thread.splits)
qed

lemma play_steps: "steps resume c (play resume is c)"
proof (induction "is" arbitrary: c)
  case (Cons i "is")
  show ?case using steps_trans[OF Cons.IH steps_one[of resume c i]] by simp
qed (simp add: steps_refl)

text \<open>The relation is what the schedules do.\<close>

lemma steps_iff_play: "steps resume c d \<longleftrightarrow> (\<exists>is. play resume is c = d)"
proof
  assume "steps resume c d"
  then show "\<exists>is. play resume is c = d"
  proof (induction rule: steps.induct)
    case (steps_refl c)
    have "play resume [] c = c" by simp
    then show ?case by blast
  next
    case (steps_move c ts s i l t s')
    then obtain "is" where "play resume is c = (ts, s)" by blast
    then have "play resume (is @ [i]) c = (ts[i := t], s')"
      using steps_move.hyps by (simp add: play_append move_def)
    then show ?case by blast
  qed
qed (auto intro: play_steps)

lemma alone_Done [simp]: "alone resume n (Done r) s = (Done r, s)"
  by (cases n) simp_all

lemma play_alone:
  "i < length ts \<Longrightarrow>
    play resume (replicate n i) (ts, s) = (case alone resume n (ts ! i) s of (t, s') \<Rightarrow> (ts[i := t], s'))"
proof (induction n arbitrary: ts s)
  case (Suc n)
  show ?case
  proof (cases "ts ! i")
    case (At l)
    obtain t s' where r: "resume l s = (t, s')" by fastforce
    then show ?thesis using Suc.IH[of "ts[i := t]" s'] Suc.prems At by (simp add: move_def split: prod.split)
  next
    case (Done r)
    have "play resume (replicate m i) (ts, s) = (ts, s)" for m
      using Done Suc.prems by (induction m) (simp_all add: move_def)
    from this[of "Suc n"] show ?thesis using Done list_update_id[of ts i] by simp
  qed
qed simp

lemma play_shift:
  "play resume (map Suc is) (t # ts, s) = (case play resume is (ts, s) of (ts', s') \<Rightarrow> (t # ts', s'))"
proof (induction "is" arbitrary: ts s)
  case (Cons i "is")
  have "move resume (Suc i) (t # ts, s) = (case move resume i (ts, s) of (ts', s') \<Rightarrow> (t # ts', s'))"
    by (auto simp: move_def split: thread.splits prod.splits)
  then show ?case using Cons by (auto split: prod.splits)
qed simp

lemma upt_from_zero: "[0..<Suc n] = 0 # map Suc [0..<n]"
  by (simp only: map_Suc_upt upt_conv_Cons[OF zero_less_Suc])

lemma play_sweep: "play resume [0..<length ls] (map At ls, s) = sweep resume ls s"
proof (induction ls arbitrary: s)
  case (Cons l ls)
  obtain t s1 where r: "resume l s = (t, s1)" by fastforce
  show ?case
    using Cons.IH[of s1] r unfolding length_Cons upt_from_zero by (simp add: move_def play_shift del: upt_Suc)
qed simp

section \<open>What every interleaving keeps\<close>

locale interleaving_invariant =
  fixes resume :: "'l \<Rightarrow> 's \<Rightarrow> ('l, 'r) thread \<times> 's"
    and inv :: "('l, 'r) thread list \<Rightarrow> 's \<Rightarrow> bool"
  assumes move_inv: "inv ts s \<Longrightarrow> i < length ts \<Longrightarrow> ts ! i = At l \<Longrightarrow> resume l s = (t, s') \<Longrightarrow> inv (ts[i := t]) s'"
begin

lemma steps_inv: "steps resume c d \<Longrightarrow> case_prod inv c \<Longrightarrow> case_prod inv d"
  by (induction rule: steps.induct) (auto intro: move_inv)

lemma play_inv: "inv ts s \<Longrightarrow> case_prod inv (play resume is (ts, s))"
  using steps_inv[OF play_steps, of "(ts, s)" "is"] by simp

end

section \<open>Handlers and their points\<close>

text \<open>
  The points of a handler describe it when a request that is not disturbed answers what the handler answers and leaves the state
  it leaves. Then requests that do not overlap are handled as a run of the handler.
\<close>

locale resumable =
  fixes resume :: "'l \<Rightarrow> 's \<Rightarrow> ('l, 'e + 'a) thread \<times> 's"
    and start :: "'q \<Rightarrow> 'l"
    and handler :: "'q \<Rightarrow> 's \<Rightarrow> ('e, 'a, 's) outcome"
    and points :: nat
  assumes undisturbed: "alone resume points (At (start q)) s = (Done (fst (handler q s)), snd (handler q s))"
begin

lemma one_at_a_time:
  "snd (play resume (concat (map (replicate points) [0..<length qs])) (map (At \<circ> start) qs, s)) = run_requests handler qs s"
proof (induction qs arbitrary: s)
  case (Cons q qs)
  let ?sched = "\<lambda>n. concat (map (replicate points) [0..<n])"
  have upt: "[0..<length (q # qs)] = 0 # map Suc [0..<length qs]" by (simp only: length_Cons upt_from_zero)
  have shift: "concat (map (replicate points) (map Suc xs)) = map Suc (concat (map (replicate points) xs))" for xs
    by (induction xs) simp_all
  have first: "play resume (replicate points 0) (At (start q) # map (At \<circ> start) qs, s)
      = (Done (fst (handler q s)) # map (At \<circ> start) qs, snd (handler q s))"
    using play_alone[of 0 "At (start q) # map (At \<circ> start) qs" resume points s] undisturbed[of q s] by simp
  have "play resume (?sched (length (q # qs))) (map (At \<circ> start) (q # qs), s)
      = play resume (map Suc (?sched (length qs)))
          (Done (fst (handler q s)) # map (At \<circ> start) qs, snd (handler q s))"
    unfolding upt list.map(2) concat.simps(2) play_append shift using first by simp
  then show ?case
    using Cons.IH[of "snd (handler q s)"] by (simp add: play_shift comp_def del: upt_Suc split: prod.splits)
qed simp

lemma sequential_possible: "\<exists>ts. steps resume (map (At \<circ> start) qs, s) (ts, run_requests handler qs s)"
proof -
  let ?c = "(map (At \<circ> start) qs, s)"
  let ?sched = "concat (map (replicate points) [0..<length qs])"
  have "steps resume ?c (fst (play resume ?sched ?c), snd (play resume ?sched ?c))"
    using play_steps[of resume ?c ?sched] by simp
  then show ?thesis unfolding one_at_a_time by blast
qed

end

section \<open>Sums over requests\<close>

lemma sum_nth_update:
  fixes f :: "nat \<Rightarrow> 't \<Rightarrow> int"
  assumes "i < length ts"
  shows "(\<Sum>j<length ts. f j (ts[i := t] ! j)) = (\<Sum>j<length ts. f j (ts ! j)) - f i (ts ! i) + f i t"
proof -
  have "(\<Sum>j<length ts. f j (ts[i := t] ! j)) = f i t + (\<Sum>j \<in> {..<length ts} - {i}. f j (ts[i := t] ! j))"
    using assms by (subst sum.remove[of _ i]) auto
  also have "(\<Sum>j \<in> {..<length ts} - {i}. f j (ts[i := t] ! j)) = (\<Sum>j \<in> {..<length ts} - {i}. f j (ts ! j))"
    by (rule sum.cong) auto
  also have "\<dots> = (\<Sum>j<length ts. f j (ts ! j)) - f i (ts ! i)"
    using assms by (subst sum.remove[of "{..<length ts}" i]) auto
  finally show ?thesis by simp
qed

end
