(* ===== verification/Races.thy ===== *)
theory Races
  imports Interleaving OrderUseCases FinanceService InventoryService AuthService
begin

text \<open>
  Handlers that decide on what they read before an \<open>await\<close> and write after it, with the points where they give way: opening the
  till, taking and moving stock, confirming a payment, renewing a session. Each answers as its handler when nothing comes in
  between; the theorems say what holds, and what does not, when others do. A query, or a transaction at its commit, is one move:
  PostgreSQL runs it as read committed, so the row an update rewrites is the one committed last.
\<close>

section \<open>Opening the till\<close>

record till_call =
  tc_now :: int
  tc_id :: string
  tc_user :: string
  tc_opening :: number

datatype till_point =
    FindOpen till_call
  | CreateSession till_call

primrec till_resume ::
    "(number \<Rightarrow> int) \<Rightarrow> till_point \<Rightarrow> db \<Rightarrow> (till_point, http_error + session_row) thread \<times> db" where
  "till_resume dec (FindOpen q) s =
     (if open_session (d_sessions s) \<noteq> None then (Done (Inl (Conflict ''Ya existe una caja abierta'')), s)
      else (At (CreateSession q), s))"
| "till_resume dec (CreateSession q) s =
     (if \<not> account_exists (tc_user q) s then (Done (Inl (DbError ''P2003'')), s)
      else if tc_id q \<in> cs_id ` set (d_sessions s) then (Done (Inl (DbError ''P2002'')), s)
      else let c = \<lparr>cs_id = tc_id q, cs_opened_by = tc_user q, cs_closed_by = None, cs_opening = dec (tc_opening q),
                    cs_closing = None, cs_actual = None, cs_discrepancy = None, cs_status = OPEN,
                    cs_notes = None, cs_justification = None, cs_opened_at = tc_now q, cs_closed_at = None\<rparr>
           in (Done (Inr c), s\<lparr>d_sessions := insert_row c (d_sessions s)\<rparr>))"

definition open_till :: "(number \<Rightarrow> int) \<Rightarrow> till_call \<Rightarrow> db \<Rightarrow> session_row answer" where
  "open_till dec q = open_cashbox dec (tc_now q) (tc_id q) (tc_user q) (tc_opening q)"

interpretation till: resumable "till_resume dec" FindOpen "open_till dec" 2 for dec
  by unfold_locales (simp add: numeral_2_eq_2 open_till_def open_cashbox_def Let_def)

section \<open>Taking stock\<close>

record reservation =
  rv_now :: int
  rv_id :: string
  rv_item :: string
  rv_quantity :: int
  rv_order :: string
  rv_user :: string

datatype reserve_point =
    ReserveOrder reservation
  | ReserveRead reservation
  | ReserveCommit reservation
  | ReserveCaches reservation int

definition forget_item :: "string \<Rightarrow> redis \<Rightarrow> redis" where
  "forget_item k r =
     redis_del valuation_key (redis_del critical_key (invalidate_lowstock (invalidate_catalog (redis_del (item_key k) r))))"

primrec reserve_resume :: "reserve_point \<Rightarrow> db \<Rightarrow> (reserve_point, http_error + int) thread \<times> db" where
  "reserve_resume (ReserveOrder q) s =
     (if rv_order q = [] then (Done (Inl (Unprocessable ''INVENTORY_NO_ACTIVE_ORDER'')), s)
      else case find_row wo_id (rv_order q) (d_orders s) of
        None \<Rightarrow> (Done (Inl (NotFound ''OT no encontrada'')), s)
      | Some w \<Rightarrow>
          if wo_status w \<noteq> IN_PROGRESS then (Done (Inl (Unprocessable ''INVENTORY_NO_ACTIVE_ORDER'')), s)
          else (At (ReserveRead q), s))"
| "reserve_resume (ReserveRead q) s =
     (case find_row it_id (rv_item q) (d_items s) of
        None \<Rightarrow> (Done (Inl (NotFound ''Item no encontrado'')), s)
      | Some i \<Rightarrow>
          if it_stock i < rv_quantity q then (Done (Inl (BadRequest ''Stock insuficiente'')), s)
          else (At (ReserveCommit q), s))"
| "reserve_resume (ReserveCommit q) s =
     (case find_row it_id (rv_item q) (d_items s) of
        None \<Rightarrow> (Done (Inl (DbError ''P2025'')), s)
      | Some i \<Rightarrow>
          let m = \<lparr>mv_id = rv_id q, mv_item = rv_item q, mv_type = OUT, mv_quantity = rv_quantity q,
                   mv_order = Some (rv_order q), mv_by = rv_user q,
                   mv_justification = Some (''Reservado para orden '' @ rv_order q), mv_unit_cost = None, mv_at = rv_now q\<rparr>;
              s1 = update_item (rv_item q) (\<lambda>r. r\<lparr>it_stock := it_stock r - rv_quantity q\<rparr>) s
          in (At (ReserveCaches q (it_stock i - rv_quantity q)), s1\<lparr>d_movements := insert_row m (d_movements s1)\<rparr>))"
| "reserve_resume (ReserveCaches q n) s =
     (Done (Inr n), set_redis (forget_item (rv_item q) (d_redis s)) s)"

definition reserve_stock :: "reservation \<Rightarrow> db \<Rightarrow> int answer" where
  "reserve_stock q = reserve_for_order (rv_now q) (rv_id q) (rv_item q) (rv_quantity q) (rv_order q) (rv_user q)"

interpretation reserving: resumable reserve_resume ReserveOrder reserve_stock 4
  by unfold_locales
     (auto simp: numeral_eq_Suc reserve_stock_def reserve_for_order_def transaction_def Let_def forget_item_def
        items.modify_same split: option.split)

section \<open>Moving stock\<close>

record movement_call =
  mc_now :: int
  mc_id :: string
  mc_user :: string
  mc_item :: string
  mc_type :: MovementType
  mc_quantity :: int
  mc_order :: "string option"
  mc_justification :: "string option"

datatype movement_point =
    MovementStart movement_call
  | MovementRead movement_call
  | MovementKeep movement_call item_row
  | MovementWrite movement_call item_row
  | MovementCaches movement_call movement_row

definition moved :: "movement_call \<Rightarrow> item_row \<Rightarrow> int" where
  "moved q i = (case mc_type q of IN \<Rightarrow> it_stock i + mc_quantity q | OUT \<Rightarrow> it_stock i - mc_quantity q
                | MovementType.ADJUSTMENT \<Rightarrow> mc_quantity q)"

definition movement_found ::
    "movement_call \<Rightarrow> item_row \<Rightarrow> db \<Rightarrow> (movement_point, http_error + movement_row) thread \<times> db" where
  "movement_found q i s =
     (if mc_type q = OUT \<and> it_stock i < mc_quantity q then (Done (Inl (Conflict ''Stock insuficiente'')), s)
      else (At (MovementWrite q i), s))"

primrec movement_resume ::
    "movement_point \<Rightarrow> db \<Rightarrow> (movement_point, http_error + movement_row) thread \<times> db" where
  "movement_resume (MovementStart q) s =
     (if mc_type q = OUT \<and> \<not> nonempty (mc_order q)
      then (Done (Inl (Conflict ''El ID de la orden de trabajo es requerido para movimientos de salida'')), s)
      else if mc_type q = MovementType.ADJUSTMENT \<and> \<not> nonempty (mc_justification q)
      then (Done (Inl (Conflict ''La justificacion es requerida para ajustes de inventario'')), s)
      else case redis_get (mc_now q) (item_key (mc_item q)) (d_redis s) of
        Some (RItem i) \<Rightarrow> movement_found q i s
      | _ \<Rightarrow> (At (MovementRead q), s))"
| "movement_resume (MovementRead q) s =
     (case find_row it_id (mc_item q) (d_items s) of
        None \<Rightarrow> (Done (Inl (NotFound ''Item de inventario no encontrado'')), s)
      | Some i \<Rightarrow> (At (MovementKeep q i), s))"
| "movement_resume (MovementKeep q i) s =
     movement_found q i (set_redis (redis_set (mc_now q) (item_key (mc_item q)) (RItem i) 300 (d_redis s)) s)"
| "movement_resume (MovementWrite q i) s =
     (let m = \<lparr>mv_id = mc_id q, mv_item = mc_item q, mv_type = mc_type q, mv_quantity = mc_quantity q, mv_order = mc_order q,
               mv_by = mc_user q, mv_justification = mc_justification q, mv_unit_cost = Some (it_price i), mv_at = mc_now q\<rparr>
      in if find_row it_id (mc_item q) (d_items s) = None then (Done (Inl (DbError ''P2003'')), s)
         else (At (MovementCaches q m),
               update_item (mc_item q) (\<lambda>r. r\<lparr>it_stock := moved q i\<rparr>) (s\<lparr>d_movements := insert_row m (d_movements s)\<rparr>)))"
| "movement_resume (MovementCaches q m) s =
     (Done (Inr m),
      set_redis (redis_del valuation_key (invalidate_lowstock (invalidate_catalog (redis_del (item_key (mc_item q)) (d_redis s))))) s)"

definition move_stock :: "movement_call \<Rightarrow> db \<Rightarrow> movement_row answer" where
  "move_stock q =
     add_movement (mc_now q) (mc_id q) (mc_user q) (mc_item q) (mc_type q) (mc_quantity q) (mc_order q) (mc_justification q)"

text \<open>Whether the cache has the item decides how many points a movement goes through.\<close>

definition cached_item :: "int \<Rightarrow> string \<Rightarrow> db \<Rightarrow> item_row option" where
  "cached_item now k s = (case redis_get now (item_key k) (d_redis s) of Some (RItem i) \<Rightarrow> Some i | _ \<Rightarrow> None)"

lemma find_one_item_cached:
  "find_one_item now k s =
     (case cached_item now k s of
        Some i \<Rightarrow> (Inr i, s)
      | None \<Rightarrow>
          (case find_row it_id k (d_items s) of
             None \<Rightarrow> (Inl (NotFound ''Item de inventario no encontrado''), s)
           | Some i \<Rightarrow> (Inr i, set_redis (redis_set now (item_key k) (RItem i) 300 (d_redis s)) s)))"
  by (simp only: find_one_item_def cached_item_def) (cases "redis_get now (item_key k) (d_redis s)"; simp split: redis_value.split)

lemma movement_start_cached:
  "movement_resume (MovementStart q) s =
     (if mc_type q = OUT \<and> \<not> nonempty (mc_order q)
      then (Done (Inl (Conflict ''El ID de la orden de trabajo es requerido para movimientos de salida'')), s)
      else if mc_type q = MovementType.ADJUSTMENT \<and> \<not> nonempty (mc_justification q)
      then (Done (Inl (Conflict ''La justificacion es requerida para ajustes de inventario'')), s)
      else case cached_item (mc_now q) (mc_item q) s of
        Some i \<Rightarrow> movement_found q i s
      | None \<Rightarrow> (At (MovementRead q), s))"
  unfolding movement_resume.simps(1) cached_item_def
  by (cases "redis_get (mc_now q) (item_key (mc_item q)) (d_redis s)"; simp split: redis_value.split)

lemmas movement_points = movement_start_cached movement_resume.simps(2-5)

text \<open>What a movement does once it has the item.\<close>

definition movement_end :: "movement_call \<Rightarrow> item_row \<Rightarrow> db \<Rightarrow> movement_row answer" where
  "movement_end q i s =
     (if mc_type q = OUT \<and> it_stock i < mc_quantity q then (Inl (Conflict ''Stock insuficiente''), s)
      else if find_row it_id (mc_item q) (d_items s) = None then (Inl (DbError ''P2003''), s)
      else
        let m = \<lparr>mv_id = mc_id q, mv_item = mc_item q, mv_type = mc_type q, mv_quantity = mc_quantity q, mv_order = mc_order q,
                 mv_by = mc_user q, mv_justification = mc_justification q, mv_unit_cost = Some (it_price i), mv_at = mc_now q\<rparr>;
            s2 = update_item (mc_item q) (\<lambda>r. r\<lparr>it_stock := moved q i\<rparr>) (s\<lparr>d_movements := insert_row m (d_movements s)\<rparr>)
        in (Inr m, set_redis (redis_del valuation_key (invalidate_lowstock (invalidate_catalog
                     (redis_del (item_key (mc_item q)) (d_redis s2))))) s2))"

lemma movement_end_alone:
  assumes "2 \<le> n"
  shows "(case movement_found q i s of (t, s') \<Rightarrow> alone movement_resume n t s')
     = (Done (fst (movement_end q i s)), snd (movement_end q i s))"
proof -
  obtain m where n: "n = Suc (Suc m)" using assms by (metis add_2_eq_Suc le_Suc_ex)
  show ?thesis
  proof (cases "mc_type q = OUT \<and> it_stock i < mc_quantity q")
    case True
    then show ?thesis by (simp add: n movement_found_def movement_end_def)
  next
    case f: False
    show ?thesis
    proof (cases "find_row it_id (mc_item q) (d_items s) = None")
      case True
      with f show ?thesis unfolding movement_found_def movement_end_def n by simp
    next
      case False
      with f show ?thesis
        unfolding movement_found_def movement_end_def if_not_P[OF f] if_not_P[OF False] Let_def n by (simp add: Let_def)
    qed
  qed
qed

lemma move_stock_eq:
  "move_stock q s =
     (if mc_type q = OUT \<and> \<not> nonempty (mc_order q)
      then (Inl (Conflict ''El ID de la orden de trabajo es requerido para movimientos de salida''), s)
      else if mc_type q = MovementType.ADJUSTMENT \<and> \<not> nonempty (mc_justification q)
      then (Inl (Conflict ''La justificacion es requerida para ajustes de inventario''), s)
      else case find_one_item (mc_now q) (mc_item q) s of
        (Inl e, s1) \<Rightarrow> (Inl e, s1)
      | (Inr i, s1) \<Rightarrow> movement_end q i s1)"
  unfolding move_stock_def add_movement_def movement_end_def moved_def Let_def by simp

lemma movement_undisturbed:
  "alone movement_resume 5 (At (MovementStart q)) s = (Done (fst (move_stock q s)), snd (move_stock q s))"
proof (cases "mc_type q = OUT \<and> \<not> nonempty (mc_order q)
    \<or> mc_type q = MovementType.ADJUSTMENT \<and> \<not> nonempty (mc_justification q)")
  case True
  then show ?thesis by (auto simp: numeral_eq_Suc move_stock_eq)
next
  case ok: False
  then have eq: "move_stock q s = (case find_one_item (mc_now q) (mc_item q) s of
      (Inl e, s1) \<Rightarrow> (Inl e, s1) | (Inr i, s1) \<Rightarrow> movement_end q i s1)"
    by (simp only: move_stock_eq de_Morgan_disj simp_thms if_False)
  have start: "movement_resume (MovementStart q) s =
      (case cached_item (mc_now q) (mc_item q) s of Some i \<Rightarrow> movement_found q i s | None \<Rightarrow> (At (MovementRead q), s))"
    using ok by (simp only: movement_start_cached de_Morgan_disj simp_thms if_False)
  have step: "alone movement_resume (Suc n) (At l) u = (case movement_resume l u of (t, s') \<Rightarrow> alone movement_resume n t s')" for n l u
    by simp
  have five: "alone movement_resume 5 (At l) u = (case movement_resume l u of (t, s') \<Rightarrow> alone movement_resume 4 t s')" for l u
    using step[of 4] by simp
  have four: "alone movement_resume 4 (At l) u = (case movement_resume l u of (t, s') \<Rightarrow> alone movement_resume 3 t s')" for l u
    using step[of 3] by simp
  have three: "alone movement_resume 3 (At l) u = (case movement_resume l u of (t, s') \<Rightarrow> alone movement_resume 2 t s')" for l u
    using step[of 2] by simp
  show ?thesis
  proof (cases "cached_item (mc_now q) (mc_item q) s")
    case (Some i)
    then show ?thesis
      using movement_end_alone[of 4 q i s] by (simp add: five start eq find_one_item_cached del: movement_resume.simps(1))
  next
    case None
    then show ?thesis
      using movement_end_alone[of 2 q]
      by (simp add: five four three start eq find_one_item_cached del: movement_resume.simps(1) split: option.split)
  qed
qed

interpretation moving: resumable movement_resume MovementStart move_stock 5
  by unfold_locales (rule movement_undisturbed)

section \<open>Confirming a payment\<close>

record webhook_call =
  wh_now :: int
  wh_id :: string
  wh_token :: string
  wh_method :: string
  wh_reference :: "string option"

datatype webhook_point =
    WebhookStart webhook_call
  | WebhookQr webhook_call
  | WebhookMark webhook_call string number
  | WebhookPay webhook_call string number
  | WebhookEnd webhook_call string payment_row

definition webhook_payment :: "(number \<Rightarrow> int) \<Rightarrow> webhook_call \<Rightarrow> string \<Rightarrow> number \<Rightarrow> PaymentMethod \<Rightarrow> payment_row" where
  "webhook_payment dec q order amount m =
     \<lparr>pm_id = wh_id q, pm_invoice = None, pm_order = Some order, pm_method = m, pm_amount = dec amount,
      pm_reference = Some (if nonempty (wh_reference q) then the (wh_reference q) else wh_token q),
      pm_received_by = ''system'', pm_verified_by = None, pm_channel = IN_PERSON, pm_personal_yape = False,
      pm_yape_account = None, pm_notes = None, pm_receipt = None, pm_paid_at = wh_now q, pm_created_at = wh_now q\<rparr>"

primrec webhook_resume ::
    "(number \<Rightarrow> int) \<Rightarrow> webhook_point \<Rightarrow> db \<Rightarrow> (webhook_point, http_error + webhook_result) thread \<times> db" where
  "webhook_resume dec (WebhookStart q) s =
     (if redis_get (wh_now q) (processed_key (wh_token q)) (d_redis s) \<noteq> None then (Done (Inr AlreadyProcessed), s)
      else (At (WebhookQr q), s))"
| "webhook_resume dec (WebhookQr q) s =
     (case redis_get (wh_now q) (qr_key (wh_token q)) (d_redis s) of
        Some (RQr order amount) \<Rightarrow> (At (WebhookMark q order amount), s)
      | _ \<Rightarrow> (Done (Inl (BadRequest ''QR expirado o invalido'')), s))"
| "webhook_resume dec (WebhookMark q order amount) s =
     (At (WebhookPay q order amount),
      set_redis (redis_set (wh_now q) (processed_key (wh_token q)) (RText ''processed'') 86400 (d_redis s)) s)"
| "webhook_resume dec (WebhookPay q order amount) s =
     (case payment_method_of (if wh_method q = [] then ''YAPE'' else wh_method q) of
        None \<Rightarrow> (Done (Inl (DbError ''Invalid value for argument method'')), s)
      | Some m \<Rightarrow>
          if find_row wo_id order (d_orders s) = None then (Done (Inl (DbError ''P2003'')), s)
          else (At (WebhookEnd q order (webhook_payment dec q order amount m)),
                s\<lparr>d_payments := insert_row (webhook_payment dec q order amount m) (d_payments s)\<rparr>))"
| "webhook_resume dec (WebhookEnd q order p) s =
     (Done (Inr (Confirmed p)),
      emit_payment_received order False (set_redis (redis_del (qr_key (wh_token q)) (d_redis s)) s))"

definition confirm_webhook :: "(number \<Rightarrow> int) \<Rightarrow> webhook_call \<Rightarrow> db \<Rightarrow> webhook_result answer" where
  "confirm_webhook dec q =
     confirm_payment_webhook dec (wh_now q) (wh_id q) (wh_token q) (wh_method q) (wh_reference q)"

text \<open>The code of a payment that is waiting, if the token names one.\<close>

definition waiting_payment :: "int \<Rightarrow> string \<Rightarrow> db \<Rightarrow> (string \<times> number) option" where
  "waiting_payment now token s =
     (case redis_get now (qr_key token) (d_redis s) of Some (RQr order amount) \<Rightarrow> Some (order, amount) | _ \<Rightarrow> None)"

lemma webhook_qr_waiting:
  "webhook_resume dec (WebhookQr q) s =
     (case waiting_payment (wh_now q) (wh_token q) s of
        Some (order, amount) \<Rightarrow> (At (WebhookMark q order amount), s)
      | None \<Rightarrow> (Done (Inl (BadRequest ''QR expirado o invalido'')), s))"
  unfolding webhook_resume.simps(2) waiting_payment_def
  by (cases "redis_get (wh_now q) (qr_key (wh_token q)) (d_redis s)"; simp split: redis_value.split)

lemmas webhook_points = webhook_resume.simps(1) webhook_qr_waiting webhook_resume.simps(3-5)

lemma confirm_webhook_waiting:
  "confirm_webhook dec q s =
     (if redis_get (wh_now q) (processed_key (wh_token q)) (d_redis s) \<noteq> None then (Inr AlreadyProcessed, s)
      else case waiting_payment (wh_now q) (wh_token q) s of
        None \<Rightarrow> (Inl (BadRequest ''QR expirado o invalido''), s)
      | Some (order, amount) \<Rightarrow>
          let s1 = set_redis (redis_set (wh_now q) (processed_key (wh_token q)) (RText ''processed'') 86400 (d_redis s)) s
          in case payment_method_of (if wh_method q = [] then ''YAPE'' else wh_method q) of
               None \<Rightarrow> (Inl (DbError ''Invalid value for argument method''), s1)
             | Some m \<Rightarrow>
                 if find_row wo_id order (d_orders s1) = None then (Inl (DbError ''P2003''), s1)
                 else
                   let p = webhook_payment dec q order amount m;
                       s2 = s1\<lparr>d_payments := insert_row p (d_payments s1)\<rparr>
                   in (Inr (Confirmed p), emit_payment_received order False
                         (set_redis (redis_del (qr_key (wh_token q)) (d_redis s2)) s2)))"
  unfolding confirm_webhook_def confirm_payment_webhook_def waiting_payment_def webhook_payment_def Let_def
  by (cases "redis_get (wh_now q) (qr_key (wh_token q)) (d_redis s)"; simp split: redis_value.split)

lemma webhook_undisturbed:
  "alone (webhook_resume dec) 5 (At (WebhookStart q)) s
     = (Done (fst (confirm_webhook dec q s)), snd (confirm_webhook dec q s))"
  unfolding confirm_webhook_waiting
  by (simp add: numeral_eq_Suc webhook_points Let_def del: webhook_resume.simps(2) split: option.split prod.split) auto

interpretation confirming: resumable "webhook_resume dec" WebhookStart "confirm_webhook dec" 5 for dec
  by unfold_locales (rule webhook_undisturbed)

section \<open>Renewing a session\<close>

record refresh_call =
  rc_now :: int
  rc_id :: string
  rc_token :: string

datatype refresh_point =
    RefreshStart refresh_call
  | RefreshRevoke refresh_call jwt_payload token_row "account_row option"
  | RefreshIssue refresh_call jwt_payload token_row "account_row option"

primrec refresh_resume :: "auth_env \<Rightarrow> refresh_point \<Rightarrow> db \<Rightarrow> (refresh_point, http_error + token_pair) thread \<times> db" where
  "refresh_resume env (RefreshStart q) s =
     (case en_verify env (en_refresh_secret env) (rc_now q) (rc_token q) of
        None \<Rightarrow> (Done (Inl (Unauthorized ''Refresh token invalido o expirado'')), s)
      | Some p \<Rightarrow>
          (case find_row rt_token (hash_token env (rc_token q)) (d_tokens s) of
             None \<Rightarrow> (Done (Inl (Unauthorized ''Refresh token revocado'')), s)
           | Some r \<Rightarrow>
               if rt_revoked r then (case token_reused r s of (out, t) \<Rightarrow> (Done out, t))
               else if rt_expires_at r < rc_now q then (Done (Inl (Unauthorized ''Refresh token revocado'')), s)
               else (At (RefreshRevoke q p r (find_row ac_id (rt_account r) (d_accounts s))), s)))"
| "refresh_resume env (RefreshRevoke q p r a) s =
     (At (RefreshIssue q p r a), revoke_tokens (\<lambda>x. rt_id x = rt_id r) s)"
| "refresh_resume env (RefreshIssue q p r a) s =
     (case a of
        None \<Rightarrow> (Done (Inl (DomainError ''TypeError'')), s)
      | Some a \<Rightarrow>
          (case generate_tokens env (rc_now q) (rc_id q) a (jp_mfa_verified p = Some True)
                  (optional_text (rt_ip r)) (optional_text (rt_device r)) s of (out, t) \<Rightarrow> (Done out, t)))"

definition renew :: "auth_env \<Rightarrow> refresh_call \<Rightarrow> db \<Rightarrow> token_pair answer" where
  "renew env q = refresh_token env (rc_now q) (rc_id q) (rc_token q)"

interpretation renewing: resumable "refresh_resume env" RefreshStart "renew env" 3 for env
  by unfold_locales
     (simp add: numeral_3_eq_3 renew_def refresh_token_def Let_def split: option.split prod.split)

section \<open>What overlapping requests keep\<close>

primrec reservation_at :: "reserve_point \<Rightarrow> reservation" where
  "reservation_at (ReserveOrder q) = q"
| "reservation_at (ReserveRead q) = q"
| "reservation_at (ReserveCommit q) = q"
| "reservation_at (ReserveCaches q n) = q"

text \<open>What a reservation has taken from an item so far, and what the ledger of movements says was taken.\<close>

fun taken :: "string \<Rightarrow> reservation \<Rightarrow> (reserve_point, http_error + int) thread \<Rightarrow> int" where
  "taken k q (At (ReserveCaches _ _)) = (if rv_item q = k then rv_quantity q else 0)"
| "taken k q (Done (Inr _)) = (if rv_item q = k then rv_quantity q else 0)"
| "taken k q _ = 0"

definition withdrawn :: "string \<Rightarrow> db \<Rightarrow> int" where
  "withdrawn k s = (\<Sum>m\<leftarrow>filter (\<lambda>m. mv_item m = k \<and> mv_type m = OUT) (d_movements s). mv_quantity m)"

definition reservations_inv ::
    "reservation list \<Rightarrow> string \<Rightarrow> db \<Rightarrow> (reserve_point, http_error + int) thread list \<Rightarrow> db \<Rightarrow> bool" where
  "reservations_inv qs k s0 ts s \<longleftrightarrow>
     length ts = length qs \<and> (\<forall>i l. i < length ts \<longrightarrow> ts ! i = At l \<longrightarrow> reservation_at l = qs ! i)
     \<and> stock_at k s = map_option (\<lambda>n. n - (\<Sum>i<length ts. taken k (qs ! i) (ts ! i))) (stock_at k s0)
     \<and> withdrawn k s = withdrawn k s0 + (\<Sum>i<length ts. taken k (qs ! i) (ts ! i))"

lemma stock_at_cong: "d_items t = d_items s \<Longrightarrow> stock_at k t = stock_at k s"
  by (simp add: stock_at_def)

text \<open>One move of a reservation: it takes its quantity at the commit and nothing anywhere else.\<close>

lemma reserve_move:
  assumes "reserve_resume l s = (t, s')"
  shows "stock_at k s' = map_option (\<lambda>n. n - (taken k (reservation_at l) t - taken k (reservation_at l) (At l))) (stock_at k s)"
    and "withdrawn k s' = withdrawn k s + (taken k (reservation_at l) t - taken k (reservation_at l) (At l))"
    and "t = At l' \<Longrightarrow> reservation_at l' = reservation_at l"
  using assms
  by (cases l; auto simp: withdrawn_def stock_at_def Let_def update_item_items insert_row_def items.lookup_modify
      option.map_comp comp_def option.map_ident split: option.splits if_splits)+

interpretation reservations: interleaving_invariant reserve_resume "reservations_inv qs k s0" for qs k s0
proof
  fix ts s i l t s'
  assume inv: "reservations_inv qs k s0 ts s" and i: "i < length ts" "ts ! i = At l" and r: "reserve_resume l s = (t, s')"
  have q: "reservation_at l = qs ! i" using inv i by (simp add: reservations_inv_def)
  have "(\<Sum>j<length ts. taken k (qs ! j) (ts[i := t] ! j))
      = (\<Sum>j<length ts. taken k (qs ! j) (ts ! j)) - taken k (qs ! i) (At l) + taken k (qs ! i) t"
    using sum_nth_update[OF i(1), of "\<lambda>j. taken k (qs ! j)" t] i(2) by simp
  then show "reservations_inv qs k s0 (ts[i := t]) s'"
    using inv i q reserve_move[OF r]
    by (cases "stock_at k s0") (auto simp: reservations_inv_def nth_list_update)
qed

text \<open>
  C15. Reservations never lose an update: however their queries interleave, the stock of an item is what it was less exactly what
  the reservations answered with success (or past their commit) took, and the ledger of movements has grown by the same.
\<close>

theorem reservations_account:
  assumes "steps reserve_resume (map (At \<circ> ReserveOrder) qs, s) (ts, t)"
  shows "stock_at k t = map_option (\<lambda>n. n - (\<Sum>i<length qs. taken k (qs ! i) (ts ! i))) (stock_at k s)
    \<and> withdrawn k t = withdrawn k s + (\<Sum>i<length qs. taken k (qs ! i) (ts ! i))"
proof -
  have zero: "(\<Sum>i<length qs. taken k (qs ! i) ((map (At \<circ> ReserveOrder) qs) ! i)) = 0" by simp
  have "reservations_inv qs k s (map (At \<circ> ReserveOrder) qs) s"
    unfolding reservations_inv_def length_map zero by (simp add: option.map_ident)
  then have "reservations_inv qs k s ts t" using reservations.steps_inv[OF assms, of qs k s] by simp
  then show ?thesis by (simp add: reservations_inv_def)
qed

definition reservation_of :: "string \<Rightarrow> int \<Rightarrow> reservation" where
  "reservation_of i n = \<lparr>rv_now = 7, rv_id = i, rv_item = ''i1'', rv_quantity = n, rv_order = ''o1'', rv_user = ''a1''\<rparr>"

lemma reservation_of_simps [simp]:
  "rv_item (reservation_of i n) = ''i1''" "rv_quantity (reservation_of i n) = n" "rv_order (reservation_of i n) = ''o1''"
  by (simp_all add: reservation_of_def)

theorem reservations_account_witness:
  "\<exists>t ts. steps reserve_resume (map (At \<circ> ReserveOrder) [reservation_of ''m1'' 3, reservation_of ''m2'' 4], sample_orders IN_PROGRESS) (ts, t)
    \<and> stock_at ''i1'' t = Some 2"
proof -
  let ?c = "(map (At \<circ> ReserveOrder) [reservation_of ''m1'' 3, reservation_of ''m2'' 4], sample_orders IN_PROGRESS)"
  have "\<exists>t e. play reserve_resume [0, 0, 0, 0, 1, 1] ?c = ([Done (Inr 2), Done (Inl e)], t)"
    by (simp add: move_def Let_def update_item_items items.lookup_modify)
  then obtain t e where run: "steps reserve_resume ?c ([Done (Inr 2), Done (Inl e)], t)" using play_steps by metis
  have "stock_at ''i1'' (sample_orders IN_PROGRESS) = Some 5" by (simp add: stock_at_def)
  with reservations_account[OF run, of "''i1''"] have "stock_at ''i1'' t = Some 2" by (simp add: numeral_2_eq_2 lessThan_Suc)
  with run show ?thesis by blast
qed

text \<open>But the stock they read may have gone when they commit: two reservations that the stock covers one by one may both succeed.\<close>

theorem reservations_may_overdraw:
  assumes "reservable (rv_item a) (rv_quantity a) (rv_order a) s" and "reservable (rv_item b) (rv_quantity b) (rv_order b) s"
    and "rv_item b = rv_item a"
  shows "\<exists>m n t. steps reserve_resume (map (At \<circ> ReserveOrder) [a, b], s) ([Done (Inr m), Done (Inr n)], t)
    \<and> stock_at (rv_item a) t = map_option (\<lambda>n. n - rv_quantity a - rv_quantity b) (stock_at (rv_item a) s)"
proof -
  obtain i where i: "find_row it_id (rv_item a) (d_items s) = Some i" "rv_quantity a \<le> it_stock i" "rv_quantity b \<le> it_stock i"
    using assms by (auto simp: reservable_def)
  obtain w v where w: "find_row wo_id (rv_order a) (d_orders s) = Some w" "wo_status w = IN_PROGRESS" "rv_order a \<noteq> []"
    "find_row wo_id (rv_order b) (d_orders s) = Some v" "wo_status v = IN_PROGRESS" "rv_order b \<noteq> []"
    using assms by (auto simp: reservable_def)
  let ?sched = "[0, 0, 1, 1, 0, 1, 0, 1] :: nat list"
  let ?c = "(map (At \<circ> ReserveOrder) [a, b], s)"
  have "\<exists>m n t. play reserve_resume ?sched ?c = ([Done (Inr m), Done (Inr n)], t)
    \<and> stock_at (rv_item a) t = map_option (\<lambda>n. n - rv_quantity a - rv_quantity b) (stock_at (rv_item a) s)"
    using i w assms(3)
    by (simp add: move_def Let_def update_item_items items.lookup_modify stock_at_def)
  then show ?thesis using play_steps[of reserve_resume ?c ?sched] by metis
qed

theorem reservations_may_overdraw_witness:
  "\<exists>c t. steps reserve_resume (map (At \<circ> ReserveOrder) [reservation_of ''m1'' 3, reservation_of ''m2'' 4], sample_orders IN_PROGRESS) (c, t)
    \<and> stock_at ''i1'' t = Some (- 2)"
proof -
  have "reservable ''i1'' n ''o1'' (sample_orders IN_PROGRESS)" if "n \<le> 5" for n
    using that by (simp add: reservable_def)
  moreover have "stock_at ''i1'' (sample_orders IN_PROGRESS) = Some 5" by (simp add: stock_at_def)
  ultimately show ?thesis
    using reservations_may_overdraw[of "reservation_of ''m1'' 3" "sample_orders IN_PROGRESS" "reservation_of ''m2'' 4"] by auto
qed

text \<open>
  Movements of stock do lose updates: they write the stock they computed from what they read. Two withdrawals that overlap both
  succeed and both stand in the ledger, and the item only misses the second.
\<close>

theorem movement_lost:
  assumes "find_row it_id k (d_items s) = Some i"
    and "\<forall>q \<in> {a, b}. mc_item q = k \<and> mc_type q = OUT \<and> nonempty (mc_order q) \<and> mc_quantity q \<le> it_stock i
           \<and> cached_item (mc_now q) k s = None"
  shows "\<exists>m n t. steps movement_resume (map (At \<circ> MovementStart) [a, b], s) ([Done (Inr m), Done (Inr n)], t)
    \<and> stock_at k t = Some (it_stock i - mc_quantity b)
    \<and> withdrawn k t = withdrawn k s + mc_quantity a + mc_quantity b"
proof -
  let ?sched = "[0, 0, 1, 1, 0, 1, 0, 1, 0, 1] :: nat list"
  let ?c = "(map (At \<circ> MovementStart) [a, b], s)"
  have "\<exists>m n t. play movement_resume ?sched ?c = ([Done (Inr m), Done (Inr n)], t)
    \<and> stock_at k t = Some (it_stock i - mc_quantity b) \<and> withdrawn k t = withdrawn k s + mc_quantity a + mc_quantity b"
    using assms
    by (simp add: move_def movement_points movement_found_def moved_def Let_def update_item_items items.lookup_modify
        stock_at_def withdrawn_def insert_row_def del: movement_resume.simps(1))
  then show ?thesis using play_steps[of movement_resume ?c ?sched] by metis
qed

definition movement_of :: "string \<Rightarrow> int \<Rightarrow> movement_call" where
  "movement_of i n = \<lparr>mc_now = 7, mc_id = i, mc_user = ''a1'', mc_item = ''i1'', mc_type = OUT, mc_quantity = n,
     mc_order = Some ''o1'', mc_justification = None\<rparr>"

theorem movement_lost_witness:
  "\<exists>ts t. steps movement_resume (map (At \<circ> MovementStart) [movement_of ''m1'' 3, movement_of ''m2'' 4], sample_orders IN_PROGRESS) (ts, t)
    \<and> stock_at ''i1'' t = Some 1 \<and> withdrawn ''i1'' t = withdrawn ''i1'' (sample_orders IN_PROGRESS) + 7"
proof -
  have "cached_item 7 ''i1'' (sample_orders IN_PROGRESS) = None" by (simp add: cached_item_def redis_get_def)
  then show ?thesis
    using movement_lost[of "''i1''" "sample_orders IN_PROGRESS" "sample_item ''i1'' 5" "movement_of ''m1'' 3" "movement_of ''m2'' 4"]
    by (fastforce simp: movement_of_def nonempty_def)
qed

text \<open>
  Overlapping confirmations of one code: the mark that a code was used is read long before it is written, so two notifications of
  the same payment may both be confirmed, each recording a payment.
\<close>

theorem payment_may_be_confirmed_twice:
  assumes "\<forall>q \<in> {a, b}. wh_token q = token \<and> redis_get (wh_now q) (processed_key token) (d_redis s) = None
      \<and> waiting_payment (wh_now q) token s = Some (order, amount)
      \<and> payment_method_of (if wh_method q = [] then ''YAPE'' else wh_method q) = Some m"
    and "find_row wo_id order (d_orders s) = Some w"
  shows "\<exists>t. steps (webhook_resume dec) (map (At \<circ> WebhookStart) [a, b], s)
      ([Done (Inr (Confirmed (webhook_payment dec a order amount m))), Done (Inr (Confirmed (webhook_payment dec b order amount m)))], t)
    \<and> d_payments t = d_payments s @ [webhook_payment dec a order amount m, webhook_payment dec b order amount m]"
proof -
  let ?sched = "[0, 1, 0, 1, 0, 1, 0, 1, 0, 1] :: nat list"
  let ?c = "(map (At \<circ> WebhookStart) [a, b], s)"
  let ?ts = "[Done (Inr (Confirmed (webhook_payment dec a order amount m))), Done (Inr (Confirmed (webhook_payment dec b order amount m)))]"
  have "\<exists>t. play (webhook_resume dec) ?sched ?c = (?ts, t)
    \<and> d_payments t = d_payments s @ [webhook_payment dec a order amount m, webhook_payment dec b order amount m]"
    using assms
    by (simp add: move_def webhook_points insert_row_def emit_payment_received_def del: webhook_resume.simps(2))
  then show ?thesis using play_steps[of "webhook_resume dec" ?c ?sched] by metis
qed

definition webhook_of :: "string \<Rightarrow> webhook_call" where
  "webhook_of i = \<lparr>wh_now = 7, wh_id = i, wh_token = ''qr'', wh_method = ''YAPE'', wh_reference = None\<rparr>"

theorem payment_may_be_confirmed_twice_witness:
  "\<exists>ts t. steps (webhook_resume half_up) (map (At \<circ> WebhookStart) [webhook_of ''p1'', webhook_of ''p2''],
       (sample_orders READY)\<lparr>d_redis := [(qr_key ''qr'', RQr ''o1'' (Fin 250), 420000)]\<rparr>) (ts, t)
    \<and> map pm_id (d_payments t) = [''p1'', ''p2'']"
proof -
  let ?s = "(sample_orders READY)\<lparr>d_redis := [(qr_key ''qr'', RQr ''o1'' (Fin 250), 420000)]\<rparr>"
  have "\<forall>q \<in> {webhook_of ''p1'', webhook_of ''p2''}. wh_token q = ''qr'' \<and> redis_get (wh_now q) (processed_key ''qr'') (d_redis ?s) = None
      \<and> waiting_payment (wh_now q) ''qr'' ?s = Some (''o1'', Fin 250)
      \<and> payment_method_of (if wh_method q = [] then ''YAPE'' else wh_method q) = Some YAPE"
    by (simp add: webhook_of_def redis_get_def waiting_payment_def payment_method_of_def processed_key_def qr_key_def)
  moreover have "find_row wo_id ''o1'' (d_orders ?s) = Some (sample_order ''o1'' READY)" by simp
  moreover have "d_payments ?s = []" by (simp add: sample_orders_def)
  ultimately show ?thesis
    using payment_may_be_confirmed_twice[of "webhook_of ''p1''" "webhook_of ''p2''" "''qr''" ?s "''o1''" "Fin 250" YAPE _ half_up]
    by (fastforce simp: webhook_payment_def webhook_of_def)
qed

text \<open>What issuing a pair of tokens needs and leaves.\<close>

definition issued_pair :: "auth_env \<Rightarrow> int \<Rightarrow> account_row \<Rightarrow> bool \<Rightarrow> db \<Rightarrow> token_pair" where
  "issued_pair env now a v s =
     \<lparr>tp_access = en_sign env (en_access_secret env) (access_payload env now a (effective_mfa a v) s),
      tp_refresh = en_sign env (en_refresh_secret env) (refresh_payload env now a (effective_mfa a v)),
      tp_user = ac_id a, tp_role = ac_role a, tp_mfa_enabled = ac_mfa_enabled a\<rparr>"

definition issued_row :: "auth_env \<Rightarrow> int \<Rightarrow> string \<Rightarrow> account_row \<Rightarrow> token_pair \<Rightarrow> string option \<Rightarrow> string option \<Rightarrow> token_row" where
  "issued_row env now i a p ip agent =
     \<lparr>rt_id = i, rt_token = hash_token env (tp_refresh p), rt_account = ac_id a, rt_expires_at = now + 604800000,
      rt_revoked = False, rt_device = agent, rt_ip = ip, rt_created_at = now\<rparr>"

lemma generate_tokens_issues:
  "generate_tokens env now i a v ip agent s = (Inr p, t) \<longleftrightarrow>
     account_exists (ac_id a) s \<and> hash_token env (tp_refresh p) \<notin> rt_token ` set (d_tokens s) \<and> i \<notin> rt_id ` set (d_tokens s)
     \<and> p = issued_pair env now a v s
     \<and> t = store_session now (ac_id a) (hash_token env (tp_refresh p))
             (s\<lparr>d_tokens := insert_row (issued_row env now i a p ip agent) (d_tokens s)\<rparr>)"
  by (auto simp: generate_tokens_def insert_token_def issued_pair_def issued_row_def Let_def split: if_splits)

lemma revoke_again: "revoke_tokens (\<lambda>x. rt_id x = k) (revoke_tokens (\<lambda>x. rt_id x = k) s) = revoke_tokens (\<lambda>x. rt_id x = k) s"
  by (simp add: revoke_tokens_def update_where_def comp_def)

text \<open>A token renewed twice at once is not seen as reused: both get a new pair, and the account stays with two live sessions.\<close>

theorem refresh_may_fork:
  assumes "renew env a s = (Inr p, s1)" and "renew env b s = (Inr r, s2)" and "rc_token b = rc_token a"
    and "rc_id a \<noteq> rc_id b" and "hash_token env (tp_refresh p) \<noteq> hash_token env (tp_refresh r)"
  shows "\<exists>t. steps (refresh_resume env) (map (At \<circ> RefreshStart) [a, b], s) ([Done (Inr p), Done (Inr r)], t)
    \<and> d_audit t = d_audit s
    \<and> (\<forall>h \<in> {hash_token env (tp_refresh p), hash_token env (tp_refresh r)}. \<exists>x \<in> set (d_tokens t). rt_token x = h \<and> \<not> rt_revoked x)"
proof -
  obtain pa row acc where a: "en_verify env (en_refresh_secret env) (rc_now a) (rc_token a) = Some pa"
    "find_row rt_token (hash_token env (rc_token a)) (d_tokens s) = Some row" "\<not> rt_revoked row" "rc_now a \<le> rt_expires_at row"
    "find_row ac_id (rt_account row) (d_accounts s) = Some acc"
    and ga: "generate_tokens env (rc_now a) (rc_id a) acc (jp_mfa_verified pa = Some True) (optional_text (rt_ip row))
      (optional_text (rt_device row)) (revoke_tokens (\<lambda>x. rt_id x = rt_id row) s) = (Inr p, s1)"
    by (rule refresh_token_ok[OF assms(1)[unfolded renew_def]])
  obtain pb where b: "en_verify env (en_refresh_secret env) (rc_now b) (rc_token a) = Some pb" "rc_now b \<le> rt_expires_at row"
    and gb: "generate_tokens env (rc_now b) (rc_id b) acc (jp_mfa_verified pb = Some True) (optional_text (rt_ip row))
      (optional_text (rt_device row)) (revoke_tokens (\<lambda>x. rt_id x = rt_id row) s) = (Inr r, s2)"
    using a(2,5) by (auto intro: refresh_token_ok[OF assms(2)[unfolded renew_def assms(3)]])
  note ia = ga[unfolded generate_tokens_issues] and ib = gb[unfolded generate_tokens_issues]
  define t where "t = store_session (rc_now b) (ac_id acc) (hash_token env (tp_refresh r))
    (s1\<lparr>d_tokens := insert_row (issued_row env (rc_now b) (rc_id b) acc r (optional_text (rt_ip row)) (optional_text (rt_device row)))
      (d_tokens s1)\<rparr>)"
  have s1: "d_tokens s1 = insert_row (issued_row env (rc_now a) (rc_id a) acc p (optional_text (rt_ip row)) (optional_text (rt_device row)))
      (d_tokens (revoke_tokens (\<lambda>x. rt_id x = rt_id row) s))" "d_accounts s1 = d_accounts s" "d_clients s1 = d_clients s"
    "d_audit s1 = d_audit s"
    using ia by (simp_all add: store_session_def revoke_tokens_def)
  have "issued_pair env (rc_now b) acc (jp_mfa_verified pb = Some True) s1 = r"
    using ib s1(3) by (simp add: issued_pair_def access_payload_def revoke_tokens_def)
  then have g: "generate_tokens env (rc_now b) (rc_id b) acc (jp_mfa_verified pb = Some True) (optional_text (rt_ip row))
      (optional_text (rt_device row)) s1 = (Inr r, t)"
    unfolding generate_tokens_issues t_def
    using ia ib s1 assms(4,5) by (auto simp: issued_row_def account_exists_def)
  have run: "play (refresh_resume env) [0, 1, 0, 1, 0, 1] (map (At \<circ> RefreshStart) [a, b], s) = ([Done (Inr p), Done (Inr r)], t)"
    using a b assms(3) ga g by (simp add: move_def revoke_again)
  have "d_audit t = d_audit s" "d_tokens t = insert_row (issued_row env (rc_now b) (rc_id b) acc r (optional_text (rt_ip row))
      (optional_text (rt_device row))) (d_tokens s1)"
    using s1(4) by (simp_all add: t_def store_session_def)
  then show ?thesis
    using play_steps[of "refresh_resume env" "(map (At \<circ> RefreshStart) [a, b], s)" "[0, 1, 0, 1, 0, 1]", unfolded run]
    by (intro exI[of _ t]) (auto simp: s1(1) issued_row_def)
qed

definition clock_env :: auth_env where
  "clock_env = sample_env\<lparr>en_sign := (\<lambda>k p. k @ (if jp_exp p = Some 604805 then ''five'' else ''other''))\<rparr>"

theorem refresh_may_fork_witness:
  "\<exists>p r t. steps (refresh_resume clock_env)
      (map (At \<circ> RefreshStart) [\<lparr>rc_now = 5000, rc_id = ''t2'', rc_token = ''tok''\<rparr>, \<lparr>rc_now = 6000, rc_id = ''t3'', rc_token = ''tok''\<rparr>], sample_sessions)
      ([Done (Inr p), Done (Inr r)], t)
    \<and> d_audit t = d_audit sample_sessions"
proof -
  let ?a = "\<lparr>rc_now = 5000, rc_id = ''t2'', rc_token = ''tok''\<rparr>" and ?b = "\<lparr>rc_now = 6000, rc_id = ''t3'', rc_token = ''tok''\<rparr>"
  obtain p s1 where p: "renew clock_env ?a sample_sessions = (Inr p, s1)" "tp_refresh p = ''Rfive''"
    by (simp add: renew_def refresh_token_def sample_sessions_def clock_env_def sample_env_def hash_token_def Let_def
        generate_tokens_def insert_token_def revoke_tokens_def update_where_def account_exists_def refresh_payload_def)
  obtain r s2 where r: "renew clock_env ?b sample_sessions = (Inr r, s2)" "tp_refresh r = ''Rother''"
    by (simp add: renew_def refresh_token_def sample_sessions_def clock_env_def sample_env_def hash_token_def Let_def
        generate_tokens_def insert_token_def revoke_tokens_def update_where_def account_exists_def refresh_payload_def)
  have "hash_token clock_env (tp_refresh p) \<noteq> hash_token clock_env (tp_refresh r)"
    by (simp add: p r hash_token_def clock_env_def sample_env_def)
  then show ?thesis using refresh_may_fork[OF p(1) r(1)] by auto
qed

section \<open>Two tills\<close>

lemma sweep_find_open:
  "open_session (d_sessions s) = None \<Longrightarrow>
    sweep (till_resume dec) (map FindOpen qs) s = (map At (map CreateSession qs), s)"
  by (induction qs) simp_all

lemma sweep_create:
  assumes "distinct (map tc_id qs)" and "tc_id ` set qs \<inter> cs_id ` set (d_sessions s) = {}"
    and "\<forall>q \<in> set qs. account_exists (tc_user q) s"
  shows "\<exists>cs t. sweep (till_resume dec) (map CreateSession qs) s = (map (Done \<circ> Inr) cs, t) \<and> length cs = length qs
    \<and> count_where (\<lambda>c. cs_status c = OPEN) (d_sessions t)
        = count_where (\<lambda>c. cs_status c = OPEN) (d_sessions s) + length qs"
  using assms
proof (induction qs arbitrary: s)
  case (Cons q qs)
  obtain c u where u: "till_resume dec (CreateSession q) s = (Done (Inr c), u)" "cs_id c = tc_id q" "cs_status c = OPEN"
    "d_sessions u = insert_row c (d_sessions s)" "d_accounts u = d_accounts s"
    using Cons.prems by (simp add: Let_def)
  have "account_exists = (\<lambda>k s'. account_exists k s')" by simp
  have "\<exists>cs t. sweep (till_resume dec) (map CreateSession qs) u = (map (Done \<circ> Inr) cs, t) \<and> length cs = length qs
    \<and> count_where (\<lambda>c. cs_status c = OPEN) (d_sessions t)
        = count_where (\<lambda>c. cs_status c = OPEN) (d_sessions u) + length qs"
    using Cons.prems u(2,4,5) by (intro Cons.IH) (auto simp: account_exists_def)
  then obtain cs t where t: "sweep (till_resume dec) (map CreateSession qs) u = (map (Done \<circ> Inr) cs, t)" "length cs = length qs"
    "count_where (\<lambda>c. cs_status c = OPEN) (d_sessions t) = count_where (\<lambda>c. cs_status c = OPEN) (d_sessions u) + length qs"
    by blast
  have "sweep (till_resume dec) (map CreateSession (q # qs)) s = (map (Done \<circ> Inr) (c # cs), t)"
    using u(1) t(1) by (simp del: till_resume.simps)
  then show ?case using t(2,3) u(3,4) by (intro exI[of _ "c # cs"] exI[of _ t]) simp
qed (intro exI[of _ "[]"], simp)

lemma open_till_one:
  "count_where (\<lambda>c. cs_status c = OPEN) (d_sessions s) \<le> 1
    \<Longrightarrow> count_where (\<lambda>c. cs_status c = OPEN) (d_sessions (snd (open_till dec q s))) \<le> 1"
  by (auto simp: open_till_def open_cashbox_def Let_def open_session_None_iff count_where_0_iff)

interpretation one_till: invariant_service "open_till dec" "\<lambda>s. count_where (\<lambda>c. cs_status c = OPEN) (d_sessions s) \<le> 1" for dec
  by unfold_locales (rule open_till_one)

text \<open>
  C8. Any number of requests to open the till may all succeed when none is open and they all look before the first writes; handled one
  after the other, they never leave more than one open.
\<close>

theorem tills_may_multiply:
  assumes "open_session (d_sessions s) = None" and "distinct (map tc_id qs)"
    and "tc_id ` set qs \<inter> cs_id ` set (d_sessions s) = {}" and "\<forall>q \<in> set qs. account_exists (tc_user q) s"
  shows "(\<exists>cs t. steps (till_resume dec) (map (At \<circ> FindOpen) qs, s) (map (Done \<circ> Inr) cs, t)
      \<and> count_where (\<lambda>c. cs_status c = OPEN) (d_sessions t) = length qs)
    \<and> count_where (\<lambda>c. cs_status c = OPEN) (d_sessions (run_requests (open_till dec) qs s)) \<le> 1"
proof -
  have none: "count_where (\<lambda>c. cs_status c = OPEN) (d_sessions s) = 0"
    using assms(1) by (auto simp: open_session_None_iff count_where_0_iff)
  obtain cs t where t: "sweep (till_resume dec) (map CreateSession qs) s = (map (Done \<circ> Inr) cs, t)" "length cs = length qs"
    "count_where (\<lambda>c. cs_status c = OPEN) (d_sessions t) = length qs"
    using sweep_create[OF assms(2-4), of dec] none by auto
  have "play (till_resume dec) ([0..<length qs] @ [0..<length qs]) (map (At \<circ> FindOpen) qs, s) = (map (Done \<circ> Inr) cs, t)"
    using play_sweep[of "till_resume dec" "map FindOpen qs" s] play_sweep[of "till_resume dec" "map CreateSession qs" s]
      sweep_find_open[OF assms(1), of dec qs] t(1) by (simp add: play_append)
  then have "steps (till_resume dec) (map (At \<circ> FindOpen) qs, s) (map (Done \<circ> Inr) cs, t)"
    using play_steps by metis
  then show ?thesis using t(3) one_till.run_inv[of s dec qs] none by auto
qed

definition till_of :: "string \<Rightarrow> till_call" where
  "till_of i = \<lparr>tc_now = 7, tc_id = i, tc_user = ''f1'', tc_opening = Fin 100\<rparr>"

theorem tills_may_multiply_witness:
  "\<exists>ts t. steps (till_resume half_up) (map (At \<circ> FindOpen) [till_of ''c1'', till_of ''c2'', till_of ''c3''], owners_db) (ts, t)
    \<and> count_where (\<lambda>c. cs_status c = OPEN) (d_sessions t) = 3"
proof -
  have "open_session (d_sessions owners_db) = None" "\<forall>q \<in> set [till_of ''c1'', till_of ''c2'', till_of ''c3'']. account_exists (tc_user q) owners_db"
    "tc_id ` set [till_of ''c1'', till_of ''c2'', till_of ''c3''] \<inter> cs_id ` set (d_sessions owners_db) = {}"
    "distinct (map tc_id [till_of ''c1'', till_of ''c2'', till_of ''c3''])"
    by (simp_all add: owners_db_def till_of_def open_session_def account_exists_def one_account_def)
  from tills_may_multiply[OF this(1) this(4) this(3) this(2), of half_up] obtain cs t where
    "steps (till_resume half_up) (map (At \<circ> FindOpen) [till_of ''c1'', till_of ''c2'', till_of ''c3''], owners_db) (map (Done \<circ> Inr) cs, t)"
    "count_where (\<lambda>c. cs_status c = OPEN) (d_sessions t) = length [till_of ''c1'', till_of ''c2'', till_of ''c3'']"
    by blast
  then show ?thesis by (intro exI[of _ "map (Done \<circ> Inr) cs"] exI[of _ t]) simp
qed

end
