(* ===== verification/Pipeline.thy ===== *)
theory Pipeline
  imports Routes AntiFraud Masking FinanceService
begin





section \<open>Who is known\<close>






section \<open>What a request leaves\<close>







section \<open>Properties\<close>







end
