(* ===== verification/OrderLife.thy ===== *)
theory OrderLife
  imports OrderUseCases
begin

text \<open>
  The life of a work order across the services that handle it (\<open>orders.service.ts\<close> and \<open>src/modules/orders/use-cases\<close>): how the
  work on it may start, and that an order which is not closed can be taken to its delivery.
\<close>

section \<open>Starting the work\<close>

text \<open>The states before the work, and the cancelled one.\<close>

fun early :: "OrderStatus \<Rightarrow> bool" where
  "early OrderStatus.RECEIVED = True"
| "early IN_DIAGNOSIS = True"
| "early BUDGETED = True"
| "early OrderStatus.CANCELLED = True"
| "early _ = False"

definition started :: "string \<Rightarrow> db \<Rightarrow> bool" where
  "started k s \<longleftrightarrow> (\<exists>w. find_row wo_id k (d_orders s) = Some w \<and> \<not> early (wo_status w))"

definition has_parts :: "string \<Rightarrow> db \<Rightarrow> bool" where
  "has_parts k s \<longleftrightarrow> (\<exists>p \<in> set (d_parts s). op_order p = k)"

text \<open>A step that neither starts the work on an order nor, before the work, gives it a part.\<close>

definition holds_back :: "string \<Rightarrow> db \<Rightarrow> db \<Rightarrow> bool" where
  "holds_back k s t \<longleftrightarrow> (started k t \<longrightarrow> started k s) \<and> (has_parts k t \<longrightarrow> has_parts k s \<or> started k s)"

lemma holds_back_refl [simp]: "holds_back k s s"
  by (simp add: holds_back_def)

text \<open>What it takes: the orders and the parts are as before, or an order was rewritten without being started.\<close>

lemma holds_back_same: "d_orders t = d_orders s \<Longrightarrow> d_parts t = d_parts s \<Longrightarrow> holds_back k s t"
  by (simp add: holds_back_def started_def has_parts_def)

lemma holds_back_update:
  assumes "d_orders t = update_row wo_id k' f (d_orders s)" and "d_parts t = d_parts s" and "\<And>r. wo_id (f r) = wo_id r"
    and "\<And>w. find_row wo_id k' (d_orders s) = Some w \<Longrightarrow> \<not> early (wo_status (f w)) \<Longrightarrow> \<not> early (wo_status w)"
  shows "holds_back k s t"
  using assms by (auto simp: holds_back_def started_def has_parts_def orders.lookup_modify split: if_splits)

lemma holds_back_insert:
  assumes "d_orders t = insert_row w (d_orders s)" and "d_parts t = d_parts s" and "early (wo_status w)"
  shows "holds_back k s t"
  using assms by (auto simp: holds_back_def started_def has_parts_def orders.lookup_create split: option.splits if_splits)

lemma holds_back_scoped:
  assumes "\<And>w. find_row wo_id k' (d_orders s) = Some w \<Longrightarrow> holds_back k s (snd (body w s))"
  shows "holds_back k s (snd (scoped_order k' rq body s))"
  using assms by (auto simp: scoped_order_def split: option.split sum.split)

section \<open>The requests that hold back\<close>

lemma create_order_holds: "holds_back k s (snd (create_order now year k' v c m d u s))"
  by (auto simp: create_order_def Let_def split: sum.splits dest!: insert_order_orders intro!: holds_back_insert)

lemma update_order_request_holds: "ou_status u = None \<Longrightarrow> holds_back k s (snd (update_order_request k' u rq s))"
  unfolding update_order_request_def by (rule holds_back_scoped) (auto intro!: holds_back_update)

lemma soft_delete_holds: "holds_back k s (snd (soft_delete_order k' s))"
  by (auto simp: soft_delete_order_def split: option.split intro!: holds_back_update)

lemma assign_mechanic_holds: "holds_back k s (snd (assign_mechanic k' m s))"
  by (auto simp: assign_mechanic_def split: option.splits intro!: holds_back_update)

lemma apply_discount_holds: "holds_back k s (snd (apply_discount_request dec i k' a p rq s))"
  unfolding apply_discount_request_def
  by (rule holds_back_scoped) (auto simp: Let_def holds_back_same intro!: holds_back_update)

lemma report_progress_holds: "holds_back k s (snd (report_progress dec now k' h rq s))"
  unfolding report_progress_def by (rule holds_back_scoped) (auto simp: Let_def holds_back_same intro!: holds_back_update)

lemma upload_photo_holds: "holds_back k s (snd (upload_photo sha b64 now k' ph rq s))"
  unfolding upload_photo_def by (rule holds_back_scoped) (auto simp: Let_def holds_back_same intro!: holds_back_update)

lemma delete_photo_holds: "holds_back k s (snd (delete_photo now k' ph rq s))"
  unfolding delete_photo_def by (rule holds_back_scoped) (auto simp: Let_def holds_back_same split: option.splits intro!: holds_back_update)

lemma capture_camera_holds: "holds_back k s (snd (capture_camera_photo sha unb64 now i k' pos pic mime s))"
  by (auto simp: capture_camera_photo_def Let_def holds_back_same split: option.splits intro!: holds_back_update)

lemma reject_quote_holds: "holds_back k s (snd (reject_quote now k' r rq s))"
  by (auto simp: reject_quote_def split: option.splits sum.splits simp: holds_back_same intro!: holds_back_update)

lemma complete_holds: "holds_back k s (snd (complete_work_order now k' out requested rq s))"
  unfolding complete_work_order_def
  by (rule holds_back_scoped)
     (auto simp: Let_def emit_qa_inspection_requested_def split: sum.splits intro!: holds_back_update)

lemma deliver_holds: "holds_back k s (snd (deliver_vehicle dec now today i k' sg m u s))"
  by (auto simp: deliver_vehicle_def Let_def split: option.splits intro!: holds_back_update)

lemma approve_refused:
  "(\<forall>q. fst (approve_quote now k' rq s) \<noteq> Inr q) \<Longrightarrow> snd (approve_quote now k' rq s) = s"
proof (cases "find_row wo_id k' (d_orders s)")
  case (Some w)
  moreover assume "\<forall>q. fst (approve_quote now k' rq s) \<noteq> Inr q"
  ultimately show ?thesis
    by (cases "assert_client_ownership w rq"; cases "quote_of k' s")
       (auto simp: approve_quote_def transaction_def Let_def split: if_splits)
qed (simp add: approve_quote_def)

lemma approve_other_holds:
  assumes "k' \<noteq> k"
  shows "holds_back k s (snd (approve_quote now k' rq s))"
proof -
  have "d_parts (snd (approve_quote now k' rq s)) = d_parts s"
    by (auto simp: approve_quote_def transaction_def Let_def split: option.splits sum.splits)
  moreover have "find_row wo_id k (d_orders (snd (approve_quote now k' rq s))) = find_row wo_id k (d_orders s)"
    using assms by (auto simp: approve_quote_def transaction_def Let_def orders.lookup_modify split: option.splits sum.splits)
  ultimately show ?thesis by (simp add: holds_back_def started_def has_parts_def)
qed

lemma alerts_frame: "d_parts (foldl (\<lambda>t i. enqueue q n i t) s xs) = d_parts s" "d_orders (foldl (\<lambda>t i. enqueue q n i t) s xs) = d_orders s"
  by (induction xs arbitrary: s) simp_all

lemma dispatch_holds: "holds_back k s (snd (dispatch_parts now k' ls rq s))"
  using dispatch_parts_out[of now k' ls rq s]
proof (elim disjE exE conjE)
  fix w alerts t1
  assume l: "dispatch_lines now k' (rq_id rq) ls s = (Inr alerts, t1)" and w: "find_row wo_id k' (d_orders s) = Some w" "wo_status w = IN_PROGRESS"
    and d: "dispatch_parts now k' ls rq s = (Inr (length alerts),
            foldl (\<lambda>t i. enqueue AlertDispatcher ''low-stock-alert'' i t) (set_redis (dispatch_invalidate ls (d_redis t1)) t1) alerts)"
  let ?t = "snd (dispatch_parts now k' ls rq s)"
  obtain ps where p: "d_parts ?t = d_parts s @ ps" "map (\<lambda>p. (op_order p, op_item p, op_quantity p)) ps = map (\<lambda>l. (k', dl_item l, dl_quantity l)) ls"
    "d_orders ?t = d_orders s"
    using dispatch_lines_took[OF l] unfolding d took_def by (auto simp: alerts_frame)
  have "op_order x = k'" if "x \<in> set ps" for x
  proof -
    have "(op_order x, op_item x, op_quantity x) \<in> set (map (\<lambda>l. (k', dl_item l, dl_quantity l)) ls)"
      using that unfolding p(2)[symmetric] by force
    then show ?thesis by auto
  qed
  then show ?thesis using w p(1,3) by (auto simp: holds_back_def started_def has_parts_def)
qed auto

lemma send_quote_holds: "holds_back k s (snd (send_order_quote dec now y nq ni k' l p v u s))"
proof (cases rule: send_order_quote_cases[of dec now y nq ni k' l p v u s])
  case (written w q s1 out s2)
  have "d_orders s2 = d_orders s1" by (rule create_invoice_draft_orders[OF written(5)])
  moreover have "d_parts s2 = d_parts s1"
    using written(5) by (auto simp: create_invoice_draft_def Let_def split: option.splits if_splits)
  moreover have "d_parts s1 = d_parts s"
    using written(4) by (auto simp: write_quote_def Let_def split: option.splits if_splits)
  ultimately show ?thesis
    using write_quote_orders[OF written(4)] written(6)
    by (cases out) (auto intro!: holds_back_update)
qed simp

lemma checkin_parts: "checkin_vehicle now year nv nc body existing s = (out, t) \<Longrightarrow> d_parts t = d_parts s"
  by (auto simp: checkin_vehicle_def default_client_def Let_def split: option.splits sum.splits if_splits prod.splits)

lemma add_photos_parts [simp]: "d_parts (add_photos sha b64 k ps s) = d_parts s"
  by (induction ps arbitrary: s) simp_all

lemma checkin_holds: "holds_back k s (snd (vehicle_checkin sha b64 now year k' nv nc body photos user s))"
  using vehicle_checkin_out[of sha b64 now year k' nv nc body photos user s]
proof (elim disjE exE conjE)
  fix w t
  let ?v = "vehicle_by_plate (normalized (ck_plate body)) s"
  assume out: "vehicle_checkin sha b64 now year k' nv nc body photos user s = (Inr w, emit_order_created k' t)"
    and c: "checkin_transaction sha b64 now year k' nv nc body ?v photos user s = (Inr w, t)"
  obtain v s1 s2 o1 where v: "checkin_vehicle now year nv nc body ?v s = (Inr v, s1)" and o: "insert_order o1 s1 = Inr s2"
    "early (wo_status o1)"
    and t: "d_orders t = update_row wo_id k' (\<lambda>r. r\<lparr>wo_photos := map (\<lambda>p. data_url b64 (fu_mime p) (fu_bytes p)) photos\<rparr>) (d_orders s2)"
      "d_parts t = d_parts s2"
    using c by (auto simp: checkin_transaction_def Let_def split: prod.splits sum.splits)
  have "d_orders s2 = insert_row o1 (d_orders s)" "d_parts s2 = d_parts s"
    using insert_order_orders[OF o(1)] checkin_vehicle_orders[OF v] checkin_parts[OF v] by simp_all
  then show ?thesis
    unfolding out using t o(2)
    by (auto simp: holds_back_def started_def has_parts_def orders.lookup_modify orders.lookup_create split: option.splits if_splits)
qed simp

lemma early_step: "early a \<Longrightarrow> b \<in> set (order_transitions a) \<Longrightarrow> \<not> early b \<Longrightarrow> b = IN_PROGRESS"
  by (cases a) auto

lemma set_status_holds: "\<not> has_parts k s \<Longrightarrow> holds_back k s (snd (update_status now k' st rq s))"
  unfolding update_status_def
proof (rule holds_back_scoped, goal_cases)
  case (1 w)
  have "count_where (\<lambda>p. op_order p = k) (d_parts s) = 0"
    using 1(1) by (auto simp: has_parts_def count_where_0_iff)
  then show ?case
    using 1(2) early_step[of "wo_status w" st]
    by (auto simp: Let_def holds_back_def started_def has_parts_def orders.lookup_modify split: sum.splits if_splits)
qed

text \<open>Every request but a written status and a successful approval of the order's quote.\<close>

definition approves :: "string \<Rightarrow> int \<times> int \<times> order_request \<Rightarrow> db \<Rightarrow> bool" where
  "approves k x s \<longleftrightarrow> (\<exists>rq q. snd (snd x) = ApproveQuote k rq \<and> fst (approve_quote (fst x) k rq s) = Inr q)"

fun writes_status :: "order_request \<Rightarrow> bool" where
  "writes_status (UpdateOrder k u rq) \<longleftrightarrow> ou_status u \<noteq> None"
| "writes_status _ \<longleftrightarrow> False"

lemma order_step_holds:
  assumes "\<not> writes_status q" and "\<not> approves k (now, y, q) s" and "\<not> has_parts k s"
  shows "holds_back k s (snd (order_step e (now, y, q) s))"
proof (cases q)
  case (ApproveQuote k' rq)
  then show ?thesis
    using assms(2) approve_other_holds[of k' k s now rq] approve_refused[of now k rq s]
    by (cases "k' = k") (auto simp: approves_def)
qed (use assms in \<open>simp_all add: create_order_holds update_order_request_holds soft_delete_holds assign_mechanic_holds
    apply_discount_holds report_progress_holds upload_photo_holds delete_photo_holds capture_camera_holds reject_quote_holds
    complete_holds deliver_holds dispatch_holds send_quote_holds checkin_holds set_status_holds\<close>)

section \<open>Properties\<close>

text \<open>A run that starts the work on an order has a first approval of its quote.\<close>

lemma first_approval:
  assumes "\<forall>x \<in> set qs. \<not> writes_status (snd (snd x))" and "\<not> started k s" and "\<not> has_parts k s"
    and "started k (run_requests (order_step e) qs s)"
  shows "\<exists>xs x ys. qs = xs @ x # ys \<and> approves k x (run_requests (order_step e) xs s)"
  using assms
proof (induction qs arbitrary: s)
  case (Cons x qs)
  obtain now y q where x: "x = (now, y, q)" by (cases x)
  show ?case
  proof (cases "approves k x s")
    case True
    then have "x # qs = [] @ x # qs \<and> approves k x (run_requests (order_step e) [] s)" by simp
    then show ?thesis by blast
  next
    case False
    let ?t = "snd (order_step e x s)"
    have "holds_back k s ?t" using order_step_holds[of q k now y s e] Cons.prems(1,3) False x by simp
    then have "\<not> started k ?t" "\<not> has_parts k ?t" using Cons.prems(2,3) by (auto simp: holds_back_def)
    with Cons.IH[of ?t] Cons.prems(1,4) obtain xs z ys where "qs = xs @ z # ys" "approves k z (run_requests (order_step e) xs ?t)"
      by auto
    then have "x # qs = (x # xs) @ z # ys \<and> approves k z (run_requests (order_step e) (x # xs) s)" by simp
    then show ?thesis by blast
  qed
qed simp

lemma approval_needs:
  assumes "approve_quote now k rq s = (Inr q, t)"
  shows "status_of k s = Some BUDGETED \<and> (\<exists>r. quote_of k s = Some r \<and> qu_status r = QuoteStatus.SENT)
    \<and> (rq_role rq = CLIENT \<longrightarrow> (\<exists>w. find_row wo_id k (d_orders s) = Some w \<and> rq_client rq = Some (wo_client w)))"
proof -
  obtain w where w: "find_row wo_id k (d_orders s) = Some w" using assms by (auto simp: approve_quote_def split: option.splits)
  then show ?thesis
    using assms
    by (cases "assert_client_ownership w rq"; cases "quote_of k s")
       (auto simp: approve_quote_def status_of_def assert_client_ownership_def split: if_splits)
qed

text \<open>
  C2. No work without an approved quote: in a run of any requests on orders, but a status written by \<open>PATCH\<close>, an order that had neither
  been started nor had parts is in progress, in review, ready or delivered only if its quote was approved on the way, while it was
  budgeted and its quote sent, and by its own client or by the shop. Setting the status does not do it: that takes parts, which are
  dispatched to orders in progress only.
\<close>

theorem work_needs_approval:
  assumes "\<forall>x \<in> set qs. \<not> writes_status (snd (snd x))" and "\<not> started k s" and "\<not> has_parts k s"
    and "started k (run_requests (order_step e) qs s)"
  shows "\<exists>xs now y rq ys q t. qs = xs @ (now, y, ApproveQuote k rq) # ys
    \<and> approve_quote now k rq (run_requests (order_step e) xs s) = (Inr q, t)
    \<and> status_of k (run_requests (order_step e) xs s) = Some BUDGETED
    \<and> (\<exists>r. quote_of k (run_requests (order_step e) xs s) = Some r \<and> qu_status r = QuoteStatus.SENT)
    \<and> (rq_role rq = CLIENT \<longrightarrow>
         (\<exists>w. find_row wo_id k (d_orders (run_requests (order_step e) xs s)) = Some w \<and> rq_client rq = Some (wo_client w)))"
proof -
  obtain xs x ys where x: "qs = xs @ x # ys" "approves k x (run_requests (order_step e) xs s)"
    using first_approval[OF assms] by blast
  then obtain now y rq q t where a: "x = (now, y, ApproveQuote k rq)"
    "approve_quote now k rq (run_requests (order_step e) xs s) = (Inr q, t)"
    unfolding approves_def by (metis prod.collapse)
  show ?thesis using x(1) a approval_needs[OF a(2)] by blast
qed

definition plain_order_env :: order_env where
  "plain_order_env = \<lparr>en_dec = half_up, en_sha = \<lambda>_. [], en_b64 = \<lambda>_. [], en_unb64 = \<lambda>_. []\<rparr>"

theorem work_needs_approval_witness:
  "started ''o1'' (run_requests (order_step plain_order_env) [(7, 2026, ApproveQuote ''o1'' sample_admin)]
       ((sample_orders BUDGETED)\<lparr>d_quotes := [sample_quote]\<rparr>))
   \<and> (\<exists>q t. approve_quote 7 ''o1'' sample_admin ((sample_orders BUDGETED)\<lparr>d_quotes := [sample_quote]\<rparr>) = (Inr q, t))"
proof -
  let ?s = "(sample_orders BUDGETED)\<lparr>d_quotes := [sample_quote]\<rparr>"
  let ?qs = "[(7, 2026, ApproveQuote ''o1'' sample_admin)] :: (int \<times> int \<times> order_request) list"
  have st: "started ''o1'' (run_requests (order_step plain_order_env) ?qs ?s)"
    by (simp add: started_def approve_quote_def assert_client_ownership_def quote_of_def sample_quote_def transaction_def Let_def
        parts_with_items_def order_parts_def orders.lookup_modify)
  have "\<not> started ''o1'' ?s" "\<not> has_parts ''o1'' ?s" by (simp_all add: started_def has_parts_def sample_order_def)
  from work_needs_approval[OF _ this st] obtain xs now y rq ys q t where
    "?qs = xs @ (now, y, ApproveQuote ''o1'' rq) # ys"
    "approve_quote now ''o1'' rq (run_requests (order_step plain_order_env) xs ?s) = (Inr q, t)" by auto
  then show ?thesis using st by (auto simp: Cons_eq_append_conv)
qed

section \<open>Reaching the delivery\<close>

text \<open>
  The requests that get to their handler: the role is one the route names and the body passes the rules of its class
  (\<open>orders.dto.ts\<close>), which \<open>order_step\<close> does not repeat. The rule on identifiers is a parameter; a quote is valid for the whole
  number of days of its body, three when it names none, and the day of a delivery is the one the request comes in.
\<close>

definition ascii_letter :: "char \<Rightarrow> bool" where
  "ascii_letter c \<longleftrightarrow> (let n = of_char c :: nat in 65 \<le> n \<and> n \<le> 90 \<or> 97 \<le> n \<and> n \<le> 122)"

definition plate_pattern :: "string \<Rightarrow> bool" where
  "plate_pattern p \<longleftrightarrow>
     length p = 7 \<and> list_all ascii_letter (take 3 p) \<and> p ! 3 = CHR ''-'' \<and> list_all decimal_digit (drop 4 p)"

fun order_request_ok :: "(string \<Rightarrow> bool) \<Rightarrow> int \<times> int \<times> order_request \<Rightarrow> bool" where
  "order_request_ok uuid (now, y, CreateOrder i v c m d u) \<longleftrightarrow> uuid v \<and> uuid c \<and> uuid m"
| "order_request_ok uuid (now, y, UpdateOrder k u rq) \<longleftrightarrow> rq_role rq \<in> {UserRole.OWNER, UserRole.ADMIN, MECHANIC, TRAINEE}"
| "order_request_ok uuid (now, y, SetStatus k st rq) \<longleftrightarrow> rq_role rq \<in> {MECHANIC, TRAINEE, UserRole.ADMIN, UserRole.OWNER}"
| "order_request_ok uuid (now, y, CancelOrder k) \<longleftrightarrow> True"
| "order_request_ok uuid (now, y, AssignOrder k m) \<longleftrightarrow> uuid m"
| "order_request_ok uuid (now, y, DiscountOrder i k a p rq) \<longleftrightarrow>
     rq_role rq \<in> {UserRole.OWNER, UserRole.ADMIN, MECHANIC} \<and> (case p of None \<Rightarrow> True | Some n \<Rightarrow> 0 \<le> n \<and> n \<le> 10000)"
| "order_request_ok uuid (now, y, ProgressOrder k h rq) \<longleftrightarrow>
     rq_role rq \<in> {MECHANIC, TRAINEE} \<and> (case h of Fin q \<Rightarrow> 0 \<le> q | _ \<Rightarrow> False)"
| "order_request_ok uuid (now, y, UploadPhoto k p rq) \<longleftrightarrow> rq_role rq \<in> {MECHANIC, TRAINEE, UserRole.ADMIN, UserRole.OWNER}"
| "order_request_ok uuid (now, y, DeletePhoto k p rq) \<longleftrightarrow> rq_role rq \<in> {MECHANIC, TRAINEE, UserRole.ADMIN, UserRole.OWNER}"
| "order_request_ok uuid (now, y, CheckIn k v c body ps u) \<longleftrightarrow> plate_pattern (ck_plate body)"
| "order_request_ok uuid (now, y, CameraPhoto i k pos pic mime) \<longleftrightarrow> pos \<noteq> [] \<and> pic \<noteq> [] \<and> length pic \<le> 8000000"
| "order_request_ok uuid (now, y, SendQuote q i k l p v u) \<longleftrightarrow>
     1 \<le> l \<and> 0 \<le> p \<and> now + 86400000 \<le> v \<and> v \<le> now + 30 * 86400000 \<and> (v - now) mod 86400000 = 0"
| "order_request_ok uuid (now, y, ApproveQuote k rq) \<longleftrightarrow> rq_role rq \<in> {UserRole.OWNER, UserRole.ADMIN, CLIENT}"
| "order_request_ok uuid (now, y, RejectQuote k r rq) \<longleftrightarrow> rq_role rq \<in> {UserRole.OWNER, UserRole.ADMIN, CLIENT}"
| "order_request_ok uuid (now, y, DispatchParts k ls rq) \<longleftrightarrow>
     rq_role rq \<in> {MECHANIC, TRAINEE, UserRole.ADMIN, UserRole.OWNER}
     \<and> list_all (\<lambda>l. uuid (dl_item l) \<and> 1 \<le> dl_quantity l \<and> dl_quantity l \<le> 99) ls"
| "order_request_ok uuid (now, y, CompleteWork k out st rq) \<longleftrightarrow>
     rq_role rq \<in> {MECHANIC, TRAINEE, UserRole.ADMIN, UserRole.OWNER} \<and> 0 \<le> out \<and> st \<in> {READY, IN_REVIEW}"
| "order_request_ok uuid (now, y, DeliverVehicle today i k sg m u) \<longleftrightarrow> 5 \<le> length sg \<and> fst today \<le> now \<and> now \<le> snd today"

text \<open>The states that such requests within the table lead to at an instant of the year \<open>y\<close>.\<close>

definition on_table :: "(string \<Rightarrow> bool) \<Rightarrow> int \<Rightarrow> int \<Rightarrow> int \<times> int \<times> order_request \<Rightarrow> bool" where
  "on_table uuid now y x \<longleftrightarrow> fst x = now \<and> fst (snd x) = y \<and> \<not> bypasses_table (snd (snd x)) \<and> order_request_ok uuid x"

definition leads :: "(string \<Rightarrow> bool) \<Rightarrow> int \<Rightarrow> int \<Rightarrow> order_env \<Rightarrow> db \<Rightarrow> db \<Rightarrow> bool" where
  "leads uuid now y e s t \<longleftrightarrow> (\<exists>qs. (\<forall>x \<in> set qs. on_table uuid now y x) \<and> run_requests (order_step e) qs s = t)"

lemma run_append: "run_requests step (qs @ rs) s = run_requests step rs (run_requests step qs s)"
  by (induction qs arbitrary: s) simp_all

lemma leads_refl [simp]: "leads uuid now y e s s"
  unfolding leads_def by (rule exI[of _ "[]"]) simp

lemma leads_trans: "leads uuid now y e s t \<Longrightarrow> leads uuid now y e t u \<Longrightarrow> leads uuid now y e s u"
  unfolding leads_def by (metis run_append UnE set_append)

lemma leads_one:
  "\<not> bypasses_table q \<Longrightarrow> order_request_ok uuid (now, y, q) \<Longrightarrow> leads uuid now y e s (snd (order_step e (now, y, q) s))"
  unfolding leads_def by (rule exI[of _ "[(now, y, q)]"]) (simp add: on_table_def)

text \<open>What the steps on the way leave alone.\<close>

definition same_stock :: "db \<Rightarrow> db \<Rightarrow> bool" where
  "same_stock s t \<longleftrightarrow> d_parts t = d_parts s \<and> d_items t = d_items s \<and> d_sessions t = d_sessions s"

lemma set_status_leads:
  fixes rq :: requester
  assumes "find_row wo_id k (d_orders s) = Some w" and "rq_role rq \<in> {UserRole.OWNER, UserRole.ADMIN}"
    and "st \<in> set (order_transitions (wo_status w))" and "st \<noteq> IN_PROGRESS" and "st \<noteq> DELIVERED"
  shows "\<exists>t. leads uuid now y e s t \<and> find_row wo_id k (d_orders t) = Some (w\<lparr>wo_status := st\<rparr>)
    \<and> same_stock s t \<and> d_quotes t = d_quotes s \<and> d_invoices t = d_invoices s"
proof -
  have i: "in_scope k rq s" using assms(1,2) by (auto simp: in_scope_def)
  let ?t = "snd (update_status now k st rq s)"
  have "find_row wo_id k (d_orders ?t) = Some (w\<lparr>wo_status := st\<rparr>) \<and> same_stock s ?t \<and> d_quotes ?t = d_quotes s \<and> d_invoices ?t = d_invoices s"
    using assms unfolding update_status_def scoped_order_in[OF i assms(1)]
    by (simp add: Let_def orders.lookup_modify same_stock_def)
  then show ?thesis using leads_one[of "SetStatus k st rq" uuid now y e s] assms(2) by auto
qed

text \<open>An order that can be quoted: the amounts of the request pass the rules of its body and the checks of the domain.\<close>

definition quotable :: "order_row \<Rightarrow> int \<Rightarrow> int \<Rightarrow> bool" where
  "quotable w l p \<longleftrightarrow>
     1 \<le> l \<and> 0 \<le> p \<and>
     (let b = w\<lparr>wo_status := BUDGETED\<rparr>
      in and_then (quoted_entity b l p) (\<lambda>e. and_then (assert_can_send_quote e) (\<lambda>_. check_stored_total e b l p)) = Inr ())"

text \<open>The next numbers of the quotes and the drafts are free, unless the order has them already.\<close>

definition numbers_free :: "string \<Rightarrow> int \<Rightarrow> string \<Rightarrow> string \<Rightarrow> db \<Rightarrow> bool" where
  "numbers_free k y nq ni s \<longleftrightarrow>
     (quote_of k s = None \<longrightarrow> nq \<notin> qu_id ` set (d_quotes s) \<and> quote_number y s \<notin> qu_number ` set (d_quotes s))
     \<and> (invoice_of k s = None \<longrightarrow>
          document_number ''COT'' y (count_where (\<lambda>i. starts_with (number_prefix ''COT'' y) (iv_number i)) (d_invoices s))
            \<notin> iv_number ` set (d_invoices s))"

lemma update_quote_others [simp]:
  "d_sessions (update_quote k f s) = d_sessions s" "d_invoices (update_quote k f s) = d_invoices s"
  by (simp_all add: update_quote_def)

lemma write_quote_sends:
  assumes "numbers_free k y nq ni s" and "find_row wo_id k (d_orders s) = Some w"
  shows "\<exists>q t w'. write_quote dec now y nq k w l am v u s = (Inr q, t) \<and> same_stock s t \<and> d_invoices t = d_invoices s
    \<and> find_row wo_id k (d_orders t) = Some w' \<and> wo_status w' = wo_status w \<and> wo_odometer_in w' = wo_odometer_in w
    \<and> (\<exists>r. quote_of k t = Some r \<and> qu_status r = QuoteStatus.SENT)"
proof (cases "quote_of k s")
  case None
  then show ?thesis
    using assms
    by (simp add: write_quote_def Let_def numbers_free_def quote_of_def quote_number_def same_stock_def orders.lookup_modify
        find_insert_row)
next
  case (Some r)
  let ?f = "\<lambda>r. r\<lparr>qu_status := QuoteStatus.SENT, qu_subtotal := dec (js_add (cents l) (qa_parts am)), qu_tax := dec (igv (qa_total am)),
      qu_total := dec (qa_total am), qu_valid_until := v, qu_approved_at := None, qu_rejected_at := None, qu_rejection_reason := None\<rparr>"
  have "List.find (\<lambda>q. qu_order q = Some k) (update_row qu_id (qu_id r) ?f (d_quotes s)) = Some (?f r)"
    by (rule find_update_row) (use Some in \<open>simp_all add: quote_of_def\<close>)
  then show ?thesis
    using Some assms(2)
    by (simp add: write_quote_def Let_def quote_of_def same_stock_def orders.lookup_modify)
qed

lemma create_draft_succeeds:
  assumes "invoice_of k s = None \<longrightarrow>
      document_number ''COT'' y (count_where (\<lambda>i. starts_with (number_prefix ''COT'' y) (iv_number i)) (d_invoices s))
        \<notin> iv_number ` set (d_invoices s)"
  shows "\<exists>i t. create_invoice_draft dec now y ni k c l p cu u s = (Inr i, t)
    \<and> d_orders t = d_orders s \<and> d_quotes t = d_quotes s \<and> same_stock s t"
  using assms
  by (cases "List.find (\<lambda>i. iv_order i = Some k) (d_invoices s)")
     (simp_all add: create_invoice_draft_def Let_def invoice_of_def same_stock_def)

lemma send_quote_leads:
  assumes "find_row wo_id k (d_orders s) = Some w" and "wo_status w = BUDGETED" and "quotable w l p"
    and "imported_parts k s = []" and "numbers_free k y nq ni s"
  shows "\<exists>t w'. leads uuid now y e s t \<and> find_row wo_id k (d_orders t) = Some w' \<and> wo_status w' = BUDGETED
    \<and> wo_odometer_in w' = wo_odometer_in w \<and> same_stock s t \<and> (\<exists>r. quote_of k t = Some r \<and> qu_status r = QuoteStatus.SENT)"
proof -
  have same: "w\<lparr>wo_status := BUDGETED\<rparr> = w" using assms(2) by simp
  have ok: "and_then (quoted_entity w l p) (\<lambda>e. and_then (assert_can_send_quote e) (\<lambda>_. check_stored_total e w l p)) = Inr ()"
    using assms(3) by (simp add: quotable_def Let_def same)
  define v where "v = now + 3 * (86400000 :: int)"
  let ?am = "quote_amounts_of k w l p s"
  obtain q t1 w' where t1: "write_quote (en_dec e) now y nq k w l ?am v [] s = (Inr q, t1)" "same_stock s t1" "d_invoices t1 = d_invoices s"
    "find_row wo_id k (d_orders t1) = Some w'" "wo_status w' = wo_status w" "wo_odometer_in w' = wo_odometer_in w"
    "\<exists>r. quote_of k t1 = Some r \<and> qu_status r = QuoteStatus.SENT"
    using write_quote_sends[OF assms(5,1)] by blast
  have "invoice_of k t1 = None \<longrightarrow>
      document_number ''COT'' y (count_where (\<lambda>i. starts_with (number_prefix ''COT'' y) (iv_number i)) (d_invoices t1))
        \<notin> iv_number ` set (d_invoices t1)"
    using assms(5) t1(3) by (simp add: numbers_free_def invoice_of_def)
  from create_draft_succeeds[OF this] obtain i t2 where t2: "create_invoice_draft (en_dec e) now y ni k (wo_client w) (cents l) (qa_parts ?am) (qa_customs ?am) [] t1 = (Inr i, t2)"
    "d_orders t2 = d_orders t1" "d_quotes t2 = d_quotes t1" "same_stock t1 t2"
    by blast
  let ?t = "snd (send_order_quote (en_dec e) now y nq ni k l p v [] s)"
  have "?t = broadcast_order_update k (enqueue Notifications ''quote-sent'' k t2)"
    using assms(1,2,4) ok t1(1) t2(1) by (simp add: send_order_quote_def Let_def transaction_def)
  then have "find_row wo_id k (d_orders ?t) = Some w'" "same_stock s ?t" "quote_of k ?t = quote_of k t1"
    using t1 t2 by (simp_all add: same_stock_def quote_of_def)
  then show ?thesis
    using leads_one[of "SendQuote nq ni k l p v []" uuid now y e s] t1 assms(2,3) by (auto simp: quotable_def v_def)
qed

lemma approve_leads:
  fixes rq :: requester
  assumes "find_row wo_id k (d_orders s) = Some w" and "wo_status w = BUDGETED" and "rq_role rq \<in> {UserRole.OWNER, UserRole.ADMIN}"
    and "quote_of k s = Some r" and "qu_status r = QuoteStatus.SENT"
    and "\<forall>p i. (p, Some i) \<in> set (parts_with_items k s) \<longrightarrow> 0 \<le> it_stock i"
  shows "\<exists>t w'. leads uuid now y e s t \<and> find_row wo_id k (d_orders t) = Some w' \<and> wo_status w' = IN_PROGRESS
    \<and> wo_odometer_in w' = wo_odometer_in w \<and> same_stock s t"
proof -
  have "list_ex (\<lambda>(p, i). case i of Some x \<Rightarrow> it_stock x < 0 | None \<Rightarrow> False) (parts_with_items k s) = False"
    using assms(6) by (auto simp: list_ex_iff split: option.splits) fastforce
  then have "\<exists>w'. find_row wo_id k (d_orders (snd (approve_quote now k rq s))) = Some w' \<and> wo_status w' = IN_PROGRESS
    \<and> wo_odometer_in w' = wo_odometer_in w \<and> same_stock s (snd (approve_quote now k rq s))"
    using assms(1-5)
    by (auto simp: approve_quote_def assert_client_ownership_def transaction_def Let_def orders.lookup_modify same_stock_def update_quote_def)
  then show ?thesis using leads_one[of "ApproveQuote k rq" uuid now y e s] assms(3) by auto
qed

lemma complete_leads:
  fixes rq :: requester
  assumes "find_row wo_id k (d_orders s) = Some w" and "wo_status w = IN_PROGRESS" and "rq_role rq \<in> {UserRole.OWNER, UserRole.ADMIN}"
  shows "\<exists>t w'. leads uuid now y e s t \<and> find_row wo_id k (d_orders t) = Some w' \<and> wo_status w' = READY \<and> same_stock s t"
proof -
  have i: "in_scope k rq s" using assms(1,3) by (auto simp: in_scope_def)
  define out where "out = (case wo_odometer_in w of Some n \<Rightarrow> max 0 n | None \<Rightarrow> 0)"
  have "and_then (assert_odometer_out (wo_odometer_in w) out) (\<lambda>_. resolve_completion_target (vo IN_PROGRESS) (vo READY) (rq_role rq)) = Inr (vo READY)"
    using assms(3)
    by (auto simp: out_def assert_odometer_out_def resolve_completion_target_def and_then_def split: option.splits)
  then have "\<exists>w'. find_row wo_id k (d_orders (snd (complete_work_order now k out READY rq s))) = Some w' \<and> wo_status w' = READY
    \<and> same_stock s (snd (complete_work_order now k out READY rq s))"
    using assms unfolding complete_work_order_def scoped_order_in[OF i assms(1)]
    by (simp add: Let_def orders.lookup_modify same_stock_def)
  then show ?thesis using leads_one[of "CompleteWork k out READY rq" uuid now y e s] assms(3)
    by (auto simp: out_def split: option.splits)
qed

lemma deliver_leads:
  assumes "find_row wo_id k (d_orders s) = Some w" and "wo_status w = READY"
    and "c \<in> set (d_sessions s)" and "cs_status c = OPEN" and "fst today \<le> cs_opened_at c" and "cs_opened_at c \<le> snd today"
    and "fst today \<le> now" and "now \<le> snd today"
  shows "\<exists>t. leads uuid now y e s t \<and> status_of k t = Some DELIVERED"
proof -
  have "List.find (\<lambda>c. cs_status c = OPEN \<and> fst today \<le> cs_opened_at c \<and> cs_opened_at c \<le> snd today) (d_sessions s) \<noteq> None"
    using assms(3-6) by (auto simp: find_None_iff)
  then have "status_of k (snd (deliver_vehicle (en_dec e) now today [] k ''firma'' CASH [] s)) = Some DELIVERED"
    using assms(1,2) by (auto simp: deliver_vehicle_def Let_def status_of_def orders.lookup_modify)
  then show ?thesis using leads_one[of "DeliverVehicle today [] k ''firma'' CASH []" uuid now y e s] assms(7,8) by auto
qed

text \<open>What the way to the delivery asks of the tables around the order.\<close>

definition ready_for_delivery :: "string \<Rightarrow> int \<Rightarrow> int \<times> int \<Rightarrow> db \<Rightarrow> bool" where
  "ready_for_delivery k now today s \<longleftrightarrow>
     fst today \<le> now \<and> now \<le> snd today \<and>
     imported_parts k s = [] \<and> (\<forall>p i. (p, Some i) \<in> set (parts_with_items k s) \<longrightarrow> 0 \<le> it_stock i)
     \<and> (\<exists>c \<in> set (d_sessions s). cs_status c = OPEN \<and> fst today \<le> cs_opened_at c \<and> cs_opened_at c \<le> snd today)"

lemma ready_same_stock: "same_stock s t \<Longrightarrow> ready_for_delivery k now today s \<Longrightarrow> ready_for_delivery k now today t"
  by (simp add: ready_for_delivery_def same_stock_def imported_parts_def parts_with_items_def order_parts_def)

lemma same_stock_trans: "same_stock s t \<Longrightarrow> same_stock t u \<Longrightarrow> same_stock s u"
  by (simp add: same_stock_def)

lemma from_ready:
  assumes "find_row wo_id k (d_orders s) = Some w" and "wo_status w = READY" and "ready_for_delivery k now today s"
  shows "\<exists>t. leads uuid now y e s t \<and> status_of k t = Some DELIVERED"
  using assms deliver_leads[OF assms(1,2), of _ today now] by (auto simp: ready_for_delivery_def)

lemma from_progress:
  fixes rq :: requester
  assumes "find_row wo_id k (d_orders s) = Some w" and "wo_status w = IN_PROGRESS" and "rq_role rq \<in> {UserRole.OWNER, UserRole.ADMIN}"
    and "ready_for_delivery k now today s"
  shows "\<exists>t. leads uuid now y e s t \<and> status_of k t = Some DELIVERED"
proof -
  obtain t w' where "leads uuid now y e s t" "find_row wo_id k (d_orders t) = Some w'" "wo_status w' = READY" "same_stock s t"
    using complete_leads[OF assms(1-3)] by blast
  then show ?thesis using from_ready[of k t w' now today] ready_same_stock assms(4) leads_trans by metis
qed

lemma from_budgeted:
  fixes rq :: requester
  assumes "find_row wo_id k (d_orders s) = Some w" and "wo_status w = BUDGETED" and "rq_role rq \<in> {UserRole.OWNER, UserRole.ADMIN}"
    and "ready_for_delivery k now today s" and "quotable w l p" and "numbers_free k y nq ni s"
  shows "\<exists>t. leads uuid now y e s t \<and> status_of k t = Some DELIVERED"
proof -
  have "imported_parts k s = []" using assms(4) by (simp add: ready_for_delivery_def)
  from send_quote_leads[OF assms(1,2,5) this assms(6)] obtain t1 w1 r where t1: "leads uuid now y e s t1" "find_row wo_id k (d_orders t1) = Some w1"
    "wo_status w1 = BUDGETED" "same_stock s t1" "quote_of k t1 = Some r" "qu_status r = QuoteStatus.SENT"
    by blast
  have ready1: "ready_for_delivery k now today t1" using ready_same_stock[OF t1(4) assms(4)] .
  then have stock: "\<forall>p i. (p, Some i) \<in> set (parts_with_items k t1) \<longrightarrow> 0 \<le> it_stock i" by (simp add: ready_for_delivery_def)
  obtain t2 w2 where t2: "leads uuid now y e t1 t2" "find_row wo_id k (d_orders t2) = Some w2" "wo_status w2 = IN_PROGRESS" "same_stock t1 t2"
    using approve_leads[OF t1(2,3) assms(3) t1(5,6) stock] by blast
  show ?thesis
    using from_progress[OF t2(2,3) assms(3) ready_same_stock[OF t2(4) ready1]] leads_trans[OF t1(1)] leads_trans[OF t2(1)]
    by blast
qed

text \<open>
  C3. An order that is neither delivered nor cancelled can be delivered by requests of its routes within the table of states: the
  roles and the rules of the bodies hold for each. What it takes is an account of an owner or an administrator, a till opened that
  day, no imported parts, no negative stock of the items on the order, amounts that can be quoted, and free numbers for its quote
  and the draft of its invoice.
\<close>

theorem order_can_be_delivered:
  fixes rq :: requester
  assumes "find_row wo_id k (d_orders s) = Some w" and "wo_status w \<noteq> DELIVERED" and "wo_status w \<noteq> OrderStatus.CANCELLED"
    and "rq_role rq \<in> {UserRole.OWNER, UserRole.ADMIN}" and "ready_for_delivery k now today s"
    and "quotable w l p" and "numbers_free k y nq ni s"
  shows "\<exists>qs. (\<forall>x \<in> set qs. fst x = now \<and> fst (snd x) = y \<and> \<not> bypasses_table (snd (snd x)) \<and> order_request_ok uuid x)
    \<and> status_of k (run_requests (order_step e) qs s) = Some DELIVERED"
proof -
  have on: "\<exists>t. leads uuid now y e s t \<and> status_of k t = Some DELIVERED"
    if t: "leads uuid now y e s t" "find_row wo_id k (d_orders t) = Some (w\<lparr>wo_status := st\<rparr>)" "same_stock s t"
      "d_quotes t = d_quotes s" "d_invoices t = d_invoices s" and st: "st = BUDGETED \<or> st = READY" for t st
  proof -
    have "quotable (w\<lparr>wo_status := BUDGETED\<rparr>) l p" using assms(6) by (simp add: quotable_def)
    moreover have "numbers_free k y nq ni t" using assms(7) t(4,5) by (simp add: numbers_free_def quote_of_def quote_number_def invoice_of_def)
    ultimately have "\<exists>u. leads uuid now y e t u \<and> status_of k u = Some DELIVERED"
      using st from_budgeted[OF t(2) _ assms(4) ready_same_stock[OF t(3) assms(5)], of l p y nq ni uuid e]
        from_ready[OF t(2) _ ready_same_stock[OF t(3) assms(5)], of uuid y e] by auto
    then show ?thesis using leads_trans[OF t(1)] by blast
  qed
  have budget: "\<exists>t. leads uuid now y e u t \<and> find_row wo_id k (d_orders t) = Some (w\<lparr>wo_status := BUDGETED\<rparr>) \<and> same_stock u t
      \<and> d_quotes t = d_quotes u \<and> d_invoices t = d_invoices u"
    if "find_row wo_id k (d_orders u) = Some (w\<lparr>wo_status := IN_DIAGNOSIS\<rparr>)" for u
    using set_status_leads[OF that assms(4), of BUDGETED uuid now y e] by auto
  have "\<exists>t. leads uuid now y e s t \<and> status_of k t = Some DELIVERED"
  proof (cases "wo_status w")
    case RECEIVED
    obtain u where u: "leads uuid now y e s u" "find_row wo_id k (d_orders u) = Some (w\<lparr>wo_status := IN_DIAGNOSIS\<rparr>)" "same_stock s u"
      "d_quotes u = d_quotes s" "d_invoices u = d_invoices s"
      using set_status_leads[OF assms(1,4), of IN_DIAGNOSIS uuid now y e] RECEIVED by auto
    obtain t where "leads uuid now y e u t" "find_row wo_id k (d_orders t) = Some (w\<lparr>wo_status := BUDGETED\<rparr>)" "same_stock u t"
      "d_quotes t = d_quotes u" "d_invoices t = d_invoices u"
      using budget[OF u(2)] by blast
    then show ?thesis using on[of t BUDGETED] u leads_trans same_stock_trans by metis
  next
    case IN_DIAGNOSIS
    then have "w\<lparr>wo_status := IN_DIAGNOSIS\<rparr> = w" by simp
    then show ?thesis using budget[of s] assms(1) on by metis
  next
    case BUDGETED
    then show ?thesis using from_budgeted[OF assms(1) _ assms(4-7)] by blast
  next
    case IN_PROGRESS
    then show ?thesis using from_progress[OF assms(1) _ assms(4,5)] by blast
  next
    case IN_REVIEW
    then obtain t where "leads uuid now y e s t" "find_row wo_id k (d_orders t) = Some (w\<lparr>wo_status := READY\<rparr>)" "same_stock s t"
      "d_quotes t = d_quotes s" "d_invoices t = d_invoices s"
      using set_status_leads[OF assms(1,4), of READY uuid now y e] by auto
    then show ?thesis using on[of t READY] by blast
  next
    case READY
    then show ?thesis using from_ready[OF assms(1) _ assms(5)] by blast
  qed (use assms(2,3) in auto)
  then show ?thesis by (auto simp: leads_def on_table_def)
qed

text \<open>An order without a discount or a stored total is quoted with any positive labour.\<close>

lemma quotable_plain:
  assumes "wo_discount w = 0" and "or_zero (wo_total w) = 0" and "0 < l" and "cents_range l" and "0 \<le> p" and "cents_range p"
  shows "quotable w l p"
proof -
  have m: "money_of (cents n) c = Inr \<lparr>m_amount = cents n, m_currency = c\<rparr>" if "0 \<le> n" "cents_range n" for n c
    using money_of_near[OF approx_weaken[OF approx_cents[OF that(2)]] that(2,1)] by simp
  have zero: "money_of (Fin 0) c = Inr \<lparr>m_amount = Fin 0, m_currency = c\<rparr>" for c
    using m[of 0 c] by (simp add: cents_range_def)
  have "\<not> js_le (cents l) (Fin 0)" using cents_le[OF assms(4), of 0] assms(3) by (simp add: cents_range_def del: cents_le)
  then show ?thesis
    using assms
    by (simp add: quotable_def Let_def quoted_entity_def m zero money_from_decimal_def and_then_def assert_can_send_quote_def
        check_stored_total_def)
qed

theorem order_can_be_delivered_witness:
  "\<exists>qs. list_all (order_request_ok (\<lambda>_. False)) qs \<and> status_of ''o1'' (run_requests (order_step plain_order_env) qs
      ((sample_orders OrderStatus.RECEIVED)\<lparr>d_sessions := [\<lparr>cs_id = ''c1'', cs_opened_by = ''f1'', cs_closed_by = None, cs_opening = 0,
          cs_closing = None, cs_actual = None, cs_discrepancy = None, cs_status = OPEN, cs_notes = None,
          cs_justification = None, cs_opened_at = 1, cs_closed_at = None\<rparr>]\<rparr>)) = Some DELIVERED"
proof -
  let ?s = "(sample_orders OrderStatus.RECEIVED)\<lparr>d_sessions := [\<lparr>cs_id = ''c1'', cs_opened_by = ''f1'', cs_closed_by = None, cs_opening = 0,
          cs_closing = None, cs_actual = None, cs_discrepancy = None, cs_status = OPEN, cs_notes = None,
          cs_justification = None, cs_opened_at = 1, cs_closed_at = None\<rparr>]\<rparr>"
  have w: "find_row wo_id ''o1'' (d_orders ?s) = Some (sample_order ''o1'' OrderStatus.RECEIVED)" by simp
  have r: "ready_for_delivery ''o1'' 5 (0, 9) ?s"
    by (simp add: ready_for_delivery_def imported_parts_def parts_with_items_def order_parts_def)
  have q: "quotable (sample_order ''o1'' OrderStatus.RECEIVED) 5000 0"
    by (rule quotable_plain) (simp_all add: or_zero_def cents_range_def)
  have n: "numbers_free ''o1'' 2026 ''q1'' ''i1'' ?s" by (simp add: numbers_free_def)
  show ?thesis
    using order_can_be_delivered[OF w _ _ _ r q n, of sample_admin "\<lambda>_. False" plain_order_env] by (auto simp: list_all_iff)
qed

end
