(* ===== verification/Dtos.thy ===== *)
theory Dtos
  imports Routes Json "HOL-Library.Sublist"
begin

text \<open>
  What the bodies and the queries of the requests may hold: the classes of the \<open>dto\<close> directories with the rules their
  decorators state, and the global \<open>ValidationPipe\<close> of \<open>main.ts\<close>, which converts the members, refuses those that no rule
  names and those that break a rule, and hands the rest to the handler. The checks themselves are of \<open>class-validator\<close> and
  the conversion of \<open>class-transformer\<close>: both are parameters, with what the code relies on as the hypothesis \<open>class_validator\<close>.
  \<open>@Type(() => Number)\<close> says what the type of its member says. A body is an object; an array among the elements of an array is refused.
\<close>

section \<open>Rules\<close>

datatype rule =
    IsString
  | IsNotEmpty
  | IsEmail
  | IsUrl
  | IsUuid
  | IsDateString
  | IsBoolean
  | IsArray
  | IsInt
  | IsNumber "nat option"
  | IsPositive
  | AtLeast rat
  | AtMost rat
  | LengthAtLeast nat
  | LengthAtMost nat
  | OneOf "string list"
  | PhonePattern
  | EightDigits
  | PlatePattern

text \<open>\<open>IsOptional\<close> and \<open>ValidateIf\<close> say when the rules of a member are checked at all.\<close>

datatype presence = Required | Optional | OnlyIf string string

datatype field_type = TString | TNumber | TBoolean | TArray

datatype field = Field (fd_name: string) (fd_presence: presence) (fd_type: field_type) (fd_rules: "rule list")

text \<open>The members of a class, and for its arrays those of the class of their elements.\<close>

datatype dto = Dto (dto_fields: "field list") (dto_items: "(string \<times> field list) list")

record validator =
  va_convert :: "field_type \<Rightarrow> json \<Rightarrow> json"
  va_holds :: "rule \<Rightarrow> json \<Rightarrow> bool"

section \<open>The pipe\<close>

definition applies :: "validator \<Rightarrow> (string \<times> json) list \<Rightarrow> field \<Rightarrow> bool" where
  "applies va ms f =
     (case fd_presence f of
        Required \<Rightarrow> True
      | Optional \<Rightarrow> map_of ms (fd_name f) \<notin> {None, Some JNull}
      | OnlyIf g x \<Rightarrow> map_option (va_convert va TString) (map_of ms g) = Some (JStr x))"

definition check_field :: "validator \<Rightarrow> (string \<times> json) list \<Rightarrow> field \<Rightarrow> http_error + (string \<times> json) list" where
  "check_field va ms f =
     (case map_of ms (fd_name f) of
        None \<Rightarrow> if applies va ms f then Inl (BadRequest (fd_name f)) else Inr []
      | Some v \<Rightarrow>
          let x = va_convert va (fd_type f) v
          in if applies va ms f \<and> \<not> list_all (\<lambda>r. va_holds va r x) (fd_rules f) then Inl (BadRequest (fd_name f))
             else Inr [(fd_name f, x)])"

primrec check_fields ::
    "validator \<Rightarrow> (string \<times> json) list \<Rightarrow> field list \<Rightarrow> http_error + (string \<times> json) list" where
  "check_fields va ms [] = Inr []"
| "check_fields va ms (f # fs) =
     and_then (check_field va ms f) (\<lambda>xs. and_then (check_fields va ms fs) (\<lambda>ys. Inr (xs @ ys)))"

definition check_object :: "validator \<Rightarrow> field list \<Rightarrow> (string \<times> json) list \<Rightarrow> http_error + (string \<times> json) list" where
  "check_object va fs ms =
     (if list_all (\<lambda>(k, v). k \<in> fd_name ` set fs) ms then check_fields va ms fs
      else Inl (BadRequest ''should not exist''))"

primrec check_elements :: "validator \<Rightarrow> field list \<Rightarrow> json list \<Rightarrow> http_error + json list" where
  "check_elements va fs [] = Inr []"
| "check_elements va fs (v # vs) =
     (case v of
        JObj ns \<Rightarrow> and_then (check_object va fs ns) (\<lambda>xs. and_then (check_elements va fs vs) (\<lambda>ws. Inr (JObj xs # ws)))
      | _ \<Rightarrow> Inl (BadRequest ''must be an object''))"

fun check_items ::
    "validator \<Rightarrow> (string \<times> field list) list \<Rightarrow> (string \<times> json) list \<Rightarrow> http_error + (string \<times> json) list" where
  "check_items va [] out = Inr out"
| "check_items va ((g, fs) # is) out =
     (case map_of out g of
        Some (JArr vs) \<Rightarrow>
          and_then (check_elements va fs vs)
            (\<lambda>ws. check_items va is (map (\<lambda>(k, v). if k = g then (k, JArr ws) else (k, v)) out))
      | _ \<Rightarrow> check_items va is out)"

definition validate :: "validator \<Rightarrow> dto \<Rightarrow> (string \<times> json) list \<Rightarrow> http_error + (string \<times> json) list" where
  "validate va d ms = and_then (check_object va (dto_fields d) ms) (check_items va (dto_items d))"

section \<open>The enumerations, by the names their values travel under\<close>

definition account_status_names :: "string list" where
  "account_status_names = [''ACTIVE'', ''INACTIVE'', ''TERMINATED'']"

definition approval_status_names :: "string list" where
  "approval_status_names = [''PENDING'', ''APPROVED'', ''REJECTED'', ''CANCELLED'']"

definition attendance_type_names :: "string list" where
  "attendance_type_names = [''PRESENT'', ''ABSENT'', ''LATE'', ''HALF_DAY'', ''PERMISSION'', ''VACATION'', ''SICK_LEAVE'', ''HOLIDAY'']"

definition contract_type_names :: "string list" where
  "contract_type_names = [''FULL_TIME'', ''PART_TIME'', ''APPRENTICE'', ''CONTRACTOR'', ''TEMP'']"

definition currency_names :: "string list" where
  "currency_names = [''PEN'', ''USD'']"

definition expense_category_names :: "string list" where
  "expense_category_names = [''PARTS'', ''SUPPLIES'', ''TOOLS'', ''SERVICES'', ''UTILITIES'', ''SALARY'', ''MAINTENANCE'', ''OTHER'']"

definition invoice_status_names :: "string list" where
  "invoice_status_names = [''DRAFT'', ''ISSUED'', ''PARTIALLY_PAID'', ''PAID'', ''OVERDUE'', ''CANCELLED'']"

definition invoice_type_names :: "string list" where
  "invoice_type_names = [''BOLETA'', ''FACTURA'', ''NOTA_CREDITO'', ''NOTA_DEBITO'', ''INTERNAL'']"

definition movement_type_names :: "string list" where
  "movement_type_names = [''IN'', ''OUT'', ''ADJUSTMENT'']"

definition order_status_names :: "string list" where
  "order_status_names = [''RECEIVED'', ''IN_DIAGNOSIS'', ''BUDGETED'', ''IN_PROGRESS'', ''IN_REVIEW'', ''READY'', ''DELIVERED'', ''CANCELLED'']"

definition payment_channel_names :: "string list" where
  "payment_channel_names = [''IN_PERSON'', ''ONLINE'', ''MOBILE'']"

definition payment_method_names :: "string list" where
  "payment_method_names = [''CASH'', ''YAPE'', ''PLIN'', ''TRANSFER'', ''CARD'']"

definition purchase_status_names :: "string list" where
  "purchase_status_names = [''DRAFT'', ''SENT'', ''CONFIRMED'', ''PARTIALLY_RECEIVED'', ''RECEIVED'', ''CANCELLED'']"

definition quote_status_names :: "string list" where
  "quote_status_names = [''DRAFT'', ''SENT'', ''APPROVED'', ''REJECTED'', ''EXPIRED'', ''CONVERTED'']"

definition salary_type_names :: "string list" where
  "salary_type_names = [''HOURLY'', ''DAILY'', ''WEEKLY'', ''MONTHLY'']"

definition transaction_type_names :: "string list" where
  "transaction_type_names = [''PAYMENT'', ''EXPENSE'', ''REFUND'', ''ADJUSTMENT'']"

definition user_role_names :: "string list" where
  "user_role_names = [''OWNER'', ''ADMIN'', ''FINANCE'', ''MECHANIC'', ''TRAINEE'', ''CLIENT'']"

section \<open>The classes\<close>

definition attendance_filter_dto :: dto where
  "attendance_filter_dto = Dto
     [Field ''search'' Optional TString [IsString],
      Field ''type'' Optional TString [OneOf attendance_type_names],
      Field ''from'' Optional TString [IsDateString],
      Field ''to'' Optional TString [IsDateString],
      Field ''page'' Optional TNumber [IsInt, AtLeast 1],
      Field ''limit'' Optional TNumber [IsInt, AtLeast 1, AtMost 100]]
     []"

definition check_in_dto :: dto where
  "check_in_dto = Dto
     [Field ''personnelId'' Required TString [IsUuid],
      Field ''notes'' Optional TString [IsString]]
     []"

definition check_out_dto :: dto where
  "check_out_dto = Dto
     [Field ''personnelId'' Required TString [IsUuid],
      Field ''notes'' Optional TString [IsString]]
     []"

definition biometric_check_in_dto :: dto where
  "biometric_check_in_dto = Dto
     [Field ''dni'' Required TString [IsString, IsNotEmpty],
      Field ''timestamp'' Required TString [IsDateString],
      Field ''deviceSN'' Required TString [IsString, IsNotEmpty],
      Field ''verifyMethod'' Required TNumber [IsInt]]
     []"

definition verify_attendance_dto :: dto where
  "verify_attendance_dto = Dto
     [Field ''personnelId'' Required TString [IsUuid],
      Field ''date'' Required TString [IsDateString],
      Field ''verifiedBy'' Required TString [IsUuid]]
     []"

definition audit_filter_dto :: dto where
  "audit_filter_dto = Dto
     [Field ''userId'' Optional TString [IsString],
      Field ''action'' Optional TString [IsString],
      Field ''entity'' Optional TString [IsString],
      Field ''from'' Optional TString [IsDateString],
      Field ''to'' Optional TString [IsDateString],
      Field ''limit'' Optional TNumber [IsInt, AtLeast 1],
      Field ''cursor'' Optional TString [IsString],
      Field ''page'' Optional TNumber [IsInt, AtLeast 1],
      Field ''pageSize'' Optional TNumber [IsInt, AtLeast 1]]
     []"

definition login_dto :: dto where
  "login_dto = Dto
     [Field ''email'' Required TString [IsEmail],
      Field ''password'' Required TString [IsString, LengthAtLeast 6]]
     []"

definition mfa_verify_dto :: dto where
  "mfa_verify_dto = Dto
     [Field ''token'' Required TString [IsString],
      Field ''sessionToken'' Required TString [IsString]]
     []"

definition register_dto :: dto where
  "register_dto = Dto
     [Field ''email'' Required TString [IsEmail],
      Field ''password'' Required TString [IsString, LengthAtLeast 6],
      Field ''name'' Required TString [IsString, LengthAtLeast 2],
      Field ''role'' Required TString [OneOf user_role_names],
      Field ''pin'' Optional TString [IsString]]
     []"

definition change_password_dto :: dto where
  "change_password_dto = Dto
     [Field ''currentPassword'' Required TString [IsString],
      Field ''newPassword'' Required TString [IsString, LengthAtLeast 6]]
     []"

definition force_logout_dto :: dto where
  "force_logout_dto = Dto
     [Field ''userId'' Required TString [IsString]]
     []"

definition mechanic_login_dto :: dto where
  "mechanic_login_dto = Dto
     [Field ''pin'' Required TString [IsString, LengthAtLeast 6]]
     []"

definition create_client_dto :: dto where
  "create_client_dto = Dto
     [Field ''firstName'' Required TString [IsString, LengthAtLeast 2],
      Field ''lastName'' Required TString [IsString, LengthAtLeast 2],
      Field ''phone'' Optional TString [IsString, PhonePattern],
      Field ''email'' Optional TString [IsEmail],
      Field ''dni'' Optional TString [IsString, EightDigits]]
     []"

definition update_client_dto :: dto where
  "update_client_dto = Dto
     [Field ''firstName'' Optional TString [IsString, LengthAtLeast 2],
      Field ''lastName'' Optional TString [IsString, LengthAtLeast 2],
      Field ''phone'' Optional TString [IsString, PhonePattern],
      Field ''email'' Optional TString [IsEmail],
      Field ''dni'' Optional TString [IsString, EightDigits]]
     []"

definition commission_filter_dto :: dto where
  "commission_filter_dto = Dto
     [Field ''status'' Optional TString [OneOf approval_status_names],
      Field ''personnelId'' Optional TString [IsUuid],
      Field ''supplierId'' Optional TString [IsUuid],
      Field ''from'' Optional TString [IsDateString],
      Field ''to'' Optional TString [IsDateString],
      Field ''page'' Optional TNumber [IsInt, AtLeast 1],
      Field ''limit'' Optional TNumber [IsInt, AtLeast 1, AtMost 100]]
     []"

definition create_commission_dto :: dto where
  "create_commission_dto = Dto
     [Field ''personnelId'' Required TString [IsUuid],
      Field ''supplierId'' Optional TString [IsUuid],
      Field ''purchaseId'' Optional TString [IsUuid],
      Field ''type'' Required TString [IsString],
      Field ''amount'' Required TNumber [IsNumber (Some 2)],
      Field ''percentage'' Optional TNumber [IsNumber (Some 2)],
      Field ''notes'' Optional TString [IsString]]
     []"

definition approve_commission_dto :: dto where
  "approve_commission_dto = Dto
     [Field ''approverId'' Required TString [IsUuid]]
     []"

definition open_cashbox_dto :: dto where
  "open_cashbox_dto = Dto
     [Field ''openingBalance'' Required TNumber [IsNumber None, AtLeast 0]]
     []"

definition close_cashbox_dto :: dto where
  "close_cashbox_dto = Dto
     [Field ''actualCash'' Required TNumber [IsNumber None, AtLeast 0],
      Field ''notes'' Optional TString [IsString],
      Field ''justificationText'' Optional TString [IsString, LengthAtLeast 5, LengthAtMost 500]]
     []"

definition deliver_vehicle_dto :: dto where
  "deliver_vehicle_dto = Dto
     [Field ''clientSignature'' Required TString [IsString, LengthAtLeast 5],
      Field ''paymentMethod'' Required TString [OneOf [''CASH'', ''YAPE'', ''PLIN'', ''CARD'', ''TRANSFER'']]]
     []"

definition cashbox_override_dto :: dto where
  "cashbox_override_dto = Dto
     [Field ''sessionId'' Required TString [IsString],
      Field ''totpCode'' Required TString [IsString, LengthAtLeast 6, LengthAtMost 6],
      Field ''overrideReason'' Optional TString [IsString]]
     []"

definition create_transaction_dto :: dto where
  "create_transaction_dto = Dto
     [Field ''type'' Required TString [OneOf transaction_type_names],
      Field ''amount'' Required TNumber [IsNumber None, IsPositive],
      Field ''paymentMethod'' Required TString [OneOf payment_method_names],
      Field ''orderId'' Optional TString [IsString],
      Field ''description'' Optional TString [IsString]]
     []"

definition create_expense_dto :: dto where
  "create_expense_dto = Dto
     [Field ''amount'' Required TNumber [IsNumber None, IsPositive, AtMost 100000],
      Field ''currency'' Optional TString [OneOf currency_names],
      Field ''category'' Required TString [OneOf expense_category_names],
      Field ''description'' Required TString [IsString, LengthAtLeast 5, LengthAtMost 500],
      Field ''invoiceUrl'' Optional TString [IsUrl]]
     []"

definition approve_expense_dto :: dto where
  "approve_expense_dto = Dto
     [Field ''decision'' Required TString [OneOf [''APPROVED'', ''REJECTED'']],
      Field ''rejectionReason'' (OnlyIf ''decision'' ''REJECTED'') TString [IsString, LengthAtLeast 5]]
     []"

definition expense_filters_dto :: dto where
  "expense_filters_dto = Dto
     [Field ''status'' Optional TString [IsString],
      Field ''category'' Optional TString [IsString],
      Field ''requesterId'' Optional TString [IsString],
      Field ''startDate'' Optional TString [IsString],
      Field ''endDate'' Optional TString [IsString],
      Field ''page'' Optional TNumber [IsNumber None, AtLeast 1],
      Field ''size'' Optional TNumber [IsNumber None, AtLeast 1, AtMost 100],
      Field ''pageSize'' Optional TNumber [IsInt, AtLeast 1, AtMost 100]]
     []"

definition create_item_dto :: dto where
  "create_item_dto = Dto
     [Field ''sku'' Required TString [IsString],
      Field ''name'' Required TString [IsString],
      Field ''category'' Required TString [IsString],
      Field ''stock'' Required TNumber [IsNumber None, AtLeast 0],
      Field ''minStock'' Required TNumber [IsNumber None, AtLeast 1],
      Field ''unitPrice'' Required TNumber [IsNumber None, AtLeast (1 / 100)]]
     []"

definition update_item_dto :: dto where
  "update_item_dto = Dto
     [Field ''sku'' Optional TString [IsString],
      Field ''name'' Optional TString [IsString],
      Field ''category'' Optional TString [IsString],
      Field ''stock'' Optional TNumber [IsNumber None, AtLeast 0],
      Field ''minStock'' Optional TNumber [IsNumber None, AtLeast 1],
      Field ''unitPrice'' Optional TNumber [IsNumber None, AtLeast (1 / 100)]]
     []"

definition inventory_movement_dto :: dto where
  "inventory_movement_dto = Dto
     [Field ''type'' Required TString [OneOf movement_type_names],
      Field ''quantity'' Required TNumber [IsNumber None, AtLeast 1],
      Field ''orderId'' Optional TString [IsUuid],
      Field ''justification'' Optional TString [IsString]]
     []"

definition invoice_filter_dto :: dto where
  "invoice_filter_dto = Dto
     [Field ''status'' Optional TString [OneOf invoice_status_names],
      Field ''clientId'' Optional TString [IsUuid],
      Field ''search'' Optional TString [IsString],
      Field ''from'' Optional TString [IsDateString],
      Field ''to'' Optional TString [IsDateString],
      Field ''page'' Optional TNumber [IsInt, AtLeast 1],
      Field ''limit'' Optional TNumber [IsInt, AtLeast 1, AtMost 100]]
     []"

definition create_invoice_dto :: dto where
  "create_invoice_dto = Dto
     [Field ''clientId'' Required TString [IsUuid],
      Field ''workOrderId'' Optional TString [IsUuid],
      Field ''type'' Optional TString [OneOf invoice_type_names],
      Field ''notes'' Optional TString [IsString],
      Field ''dueDate'' Optional TString [IsDateString],
      Field ''includeTax'' Optional TBoolean [IsBoolean]]
     []"

definition cancel_invoice_dto :: dto where
  "cancel_invoice_dto = Dto
     [Field ''reason'' Required TString [IsString]]
     []"

definition issue_invoice_dto :: dto where
  "issue_invoice_dto = Dto
     [Field ''notes'' Optional TString [IsString]]
     []"

definition request_parts_item_dto :: dto where
  "request_parts_item_dto = Dto
     [Field ''itemId'' Required TString [IsUuid],
      Field ''quantity'' Required TNumber [IsNumber None, AtLeast 1, AtMost 99]]
     []"

definition create_order_dto :: dto where
  "create_order_dto = Dto
     [Field ''vehicleId'' Required TString [IsUuid],
      Field ''clientId'' Required TString [IsUuid],
      Field ''mechanicId'' Required TString [IsUuid],
      Field ''description'' Required TString [IsString]]
     []"

definition update_order_dto :: dto where
  "update_order_dto = Dto
     [Field ''status'' Optional TString [OneOf order_status_names],
      Field ''diagnosis'' Optional TString [IsString],
      Field ''laborCost'' Optional TNumber [IsNumber (Some 2)],
      Field ''partsCost'' Optional TNumber [IsNumber (Some 2)],
      Field ''estimatedDelivery'' Optional TString [IsDateString]]
     []"

definition update_status_dto :: dto where
  "update_status_dto = Dto
     [Field ''status'' Required TString [OneOf order_status_names]]
     []"

definition assign_mechanic_dto :: dto where
  "assign_mechanic_dto = Dto
     [Field ''mechanicId'' Required TString [IsUuid]]
     []"

definition apply_discount_dto :: dto where
  "apply_discount_dto = Dto
     [Field ''discountAmount'' Optional TNumber [IsNumber (Some 2)],
      Field ''discountPercentage'' Optional TNumber [IsNumber (Some 2), AtLeast 0, AtMost 100],
      Field ''reason'' Required TString [IsString]]
     []"

definition order_filter_dto :: dto where
  "order_filter_dto = Dto
     [Field ''status'' Optional TString [OneOf order_status_names],
      Field ''mechanicId'' Optional TString [IsUuid],
      Field ''from'' Optional TString [IsDateString],
      Field ''to'' Optional TString [IsDateString],
      Field ''limit'' Optional TNumber [IsNumber None, AtLeast 1, AtMost 100],
      Field ''cursor'' Optional TString [IsString],
      Field ''page'' Optional TNumber [IsInt, AtLeast 1],
      Field ''pageSize'' Optional TNumber [IsInt, AtLeast 1, AtMost 100]]
     []"

definition request_parts_dto :: dto where
  "request_parts_dto = Dto
     [Field ''items'' Required TArray [IsArray]]
     [(''items'', dto_fields request_parts_item_dto)]"

definition vehicle_checkin_dto :: dto where
  "vehicle_checkin_dto = Dto
     [Field ''plate'' Required TString [IsString, PlatePattern],
      Field ''brand'' Optional TString [IsString],
      Field ''model'' Optional TString [IsString],
      Field ''kilometerReading'' Optional TString [IsString],
      Field ''fuelLevel'' Optional TString [IsString],
      Field ''description'' Optional TString [IsString],
      Field ''photoPositions'' Optional TString [IsString]]
     []"

definition camera_capture_dto :: dto where
  "camera_capture_dto = Dto
     [Field ''position'' Required TString [IsString, IsNotEmpty],
      Field ''cameraId'' Required TString [IsString, IsNotEmpty],
      Field ''imageBase64'' Required TString [IsString, IsNotEmpty, LengthAtMost 8000000],
      Field ''mimeType'' Optional TString [IsString]]
     []"

definition request_camera_capture_dto :: dto where
  "request_camera_capture_dto = Dto
     [Field ''position'' Required TString [IsString, IsNotEmpty]]
     []"

definition send_quote_dto :: dto where
  "send_quote_dto = Dto
     [Field ''laborCost'' Required TNumber [IsNumber (Some 2), AtLeast (1 / 100)],
      Field ''partsCost'' Required TNumber [IsNumber (Some 2), AtLeast 0],
      Field ''validDays'' Optional TNumber [IsNumber None, AtLeast 1, AtMost 30]]
     []"

definition approve_quote_dto :: dto where
  "approve_quote_dto = Dto
     [Field ''clientSignature'' Required TString [IsString]]
     []"

definition reject_order_quote_dto :: dto where
  "reject_order_quote_dto = Dto
     [Field ''reason'' Required TString [IsString]]
     []"

definition deliver_order_dto :: dto where
  "deliver_order_dto = Dto
     [Field ''clientSignature'' Required TString [IsString, LengthAtLeast 5],
      Field ''paymentMethod'' Required TString [OneOf [''CASH'', ''YAPE'', ''PLIN'', ''CARD'', ''TRANSFER'']]]
     []"

definition complete_work_order_dto :: dto where
  "complete_work_order_dto = Dto
     [Field ''odometerOut'' Required TNumber [IsNumber None, AtLeast 0],
      Field ''technicalNotes'' Required TString [IsString, LengthAtLeast 5],
      Field ''requestedStatus'' Optional TString [OneOf [''READY'', ''IN_REVIEW'']]]
     []"

definition mechanic_progress_dto :: dto where
  "mechanic_progress_dto = Dto
     [Field ''progressPercent'' Required TNumber [IsNumber None, AtLeast 0, AtMost 100],
      Field ''partsInstalled'' Required TNumber [IsNumber None, AtLeast 0],
      Field ''laborHours'' Required TNumber [IsNumber None, AtLeast 0],
      Field ''notes'' Optional TString [IsString]]
     []"

definition payment_filter_dto :: dto where
  "payment_filter_dto = Dto
     [Field ''method'' Optional TString [OneOf payment_method_names],
      Field ''orderId'' Optional TString [IsUuid],
      Field ''invoiceId'' Optional TString [IsUuid],
      Field ''from'' Optional TString [IsDateString],
      Field ''to'' Optional TString [IsDateString],
      Field ''search'' Optional TString [IsString],
      Field ''page'' Optional TNumber [IsInt, AtLeast 1],
      Field ''limit'' Optional TNumber [IsInt, AtLeast 1, AtMost 100]]
     []"

definition create_payment_dto :: dto where
  "create_payment_dto = Dto
     [Field ''invoiceId'' Optional TString [IsUuid],
      Field ''workOrderId'' Optional TString [IsUuid],
      Field ''method'' Required TString [OneOf payment_method_names],
      Field ''amount'' Required TNumber [IsNumber (Some 2), AtLeast (1 / 100)],
      Field ''reference'' Optional TString [IsString],
      Field ''channel'' Optional TString [OneOf payment_channel_names],
      Field ''isPersonalYape'' Optional TBoolean [IsBoolean],
      Field ''yapeAccount'' Optional TString [IsString],
      Field ''notes'' Optional TString [IsString],
      Field ''receiptUrl'' Optional TString [IsString],
      Field ''paidAt'' Optional TString [IsDateString]]
     []"

definition verify_payment_dto :: dto where
  "verify_payment_dto = Dto
     [Field ''verifierId'' Required TString [IsUuid]]
     []"

definition personnel_filter_dto :: dto where
  "personnel_filter_dto = Dto
     [Field ''role'' Optional TString [OneOf user_role_names],
      Field ''status'' Optional TString [OneOf account_status_names],
      Field ''search'' Optional TString [IsString],
      Field ''page'' Optional TNumber [IsInt, AtLeast 1],
      Field ''limit'' Optional TNumber [IsInt, AtLeast 1, AtMost 100],
      Field ''pageSize'' Optional TNumber [IsInt, AtLeast 1, AtMost 100]]
     []"

definition create_personnel_dto :: dto where
  "create_personnel_dto = Dto
     [Field ''firstName'' Required TString [IsString, LengthAtLeast 2],
      Field ''lastName'' Required TString [IsString, LengthAtLeast 2],
      Field ''dni'' Required TString [IsString, LengthAtLeast 8],
      Field ''email'' Required TString [IsString],
      Field ''password'' Required TString [IsString, LengthAtLeast 8],
      Field ''role'' Required TString [OneOf user_role_names],
      Field ''position'' Required TString [IsString],
      Field ''phone'' Optional TString [IsString],
      Field ''emergencyPhone'' Optional TString [IsString],
      Field ''address'' Optional TString [IsString],
      Field ''birthDate'' Optional TString [IsDateString],
      Field ''nationality'' Optional TString [IsString],
      Field ''contractType'' Optional TString [OneOf contract_type_names],
      Field ''department'' Optional TString [IsString],
      Field ''salary'' Required TNumber [IsNumber (Some 2)],
      Field ''salaryType'' Optional TString [OneOf salary_type_names],
      Field ''startDate'' Optional TString [IsDateString],
      Field ''notes'' Optional TString [IsString]]
     []"

definition update_personnel_dto :: dto where
  "update_personnel_dto = Dto
     [Field ''firstName'' Optional TString [IsString, LengthAtLeast 2],
      Field ''lastName'' Optional TString [IsString, LengthAtLeast 2],
      Field ''dni'' Optional TString [IsString, LengthAtLeast 8],
      Field ''phone'' Optional TString [IsString],
      Field ''emergencyPhone'' Optional TString [IsString],
      Field ''address'' Optional TString [IsString],
      Field ''birthDate'' Optional TString [IsDateString],
      Field ''nationality'' Optional TString [IsString],
      Field ''contractType'' Optional TString [OneOf contract_type_names],
      Field ''position'' Optional TString [IsString],
      Field ''department'' Optional TString [IsString],
      Field ''salary'' Optional TNumber [IsNumber (Some 2)],
      Field ''salaryType'' Optional TString [OneOf salary_type_names],
      Field ''notes'' Optional TString [IsString]]
     []"

definition update_role_dto :: dto where
  "update_role_dto = Dto
     [Field ''role'' Required TString [OneOf user_role_names]]
     []"

definition update_account_status_dto :: dto where
  "update_account_status_dto = Dto
     [Field ''status'' Required TString [OneOf account_status_names]]
     []"

definition authorize_vehicle_usage_dto :: dto where
  "authorize_vehicle_usage_dto = Dto
     [Field ''personnelId'' Required TString [IsUuid],
      Field ''vehicleId'' Required TString [IsUuid],
      Field ''purpose'' Required TString [IsString],
      Field ''destination'' Optional TString [IsString],
      Field ''odometerOut'' Optional TNumber [IsInt, AtLeast 0],
      Field ''expectedReturn'' Optional TString [IsDateString],
      Field ''notes'' Optional TString [IsString]]
     []"

definition attendance_query_dto :: dto where
  "attendance_query_dto = Dto
     [Field ''month'' Optional TNumber [IsInt, AtLeast 1, AtMost 12],
      Field ''year'' Optional TNumber [IsInt, AtLeast 2000, AtMost 2100]]
     []"

definition check_in_out_dto :: dto where
  "check_in_out_dto = Dto
     [Field ''notes'' Optional TString [IsString]]
     []"

definition purchase_item_dto :: dto where
  "purchase_item_dto = Dto
     [Field ''itemId'' Required TString [IsUuid],
      Field ''quantity'' Required TNumber [IsInt, AtLeast 1],
      Field ''unitCost'' Required TNumber [IsNumber (Some 2)],
      Field ''notes'' Optional TString [IsString]]
     []"

definition receive_item_dto :: dto where
  "receive_item_dto = Dto
     [Field ''itemId'' Required TString [IsUuid],
      Field ''qty'' Required TNumber [IsInt, AtLeast 1]]
     []"

definition purchase_filter_dto :: dto where
  "purchase_filter_dto = Dto
     [Field ''status'' Optional TString [OneOf purchase_status_names],
      Field ''supplierId'' Optional TString [IsUuid],
      Field ''search'' Optional TString [IsString],
      Field ''from'' Optional TString [IsDateString],
      Field ''to'' Optional TString [IsDateString],
      Field ''page'' Optional TNumber [IsInt, AtLeast 1],
      Field ''limit'' Optional TNumber [IsInt, AtLeast 1, AtMost 100]]
     []"

definition create_purchase_dto :: dto where
  "create_purchase_dto = Dto
     [Field ''supplierId'' Required TString [IsUuid],
      Field ''items'' Required TArray [IsArray],
      Field ''tax'' Optional TNumber [IsNumber (Some 2)],
      Field ''shipping'' Optional TNumber [IsNumber (Some 2)],
      Field ''customs'' Optional TNumber [IsNumber (Some 2)],
      Field ''currency'' Optional TString [IsString],
      Field ''isImported'' Optional TBoolean [IsBoolean],
      Field ''notes'' Optional TString [IsString],
      Field ''expectedAt'' Optional TString [IsDateString],
      Field ''commissionAmount'' Optional TNumber [IsNumber (Some 2)],
      Field ''commissionTo'' Optional TString [IsUuid]]
     [(''items'', dto_fields purchase_item_dto)]"

definition update_purchase_status_dto :: dto where
  "update_purchase_status_dto = Dto
     [Field ''status'' Required TString [OneOf purchase_status_names]]
     []"

definition receive_items_dto :: dto where
  "receive_items_dto = Dto
     [Field ''items'' Required TArray [IsArray]]
     [(''items'', dto_fields receive_item_dto)]"

definition quote_filter_dto :: dto where
  "quote_filter_dto = Dto
     [Field ''status'' Optional TString [OneOf quote_status_names],
      Field ''clientId'' Optional TString [IsUuid],
      Field ''search'' Optional TString [IsString],
      Field ''from'' Optional TString [IsDateString],
      Field ''to'' Optional TString [IsDateString],
      Field ''page'' Optional TNumber [IsInt, AtLeast 1],
      Field ''limit'' Optional TNumber [IsInt, AtLeast 1, AtMost 100]]
     []"

definition create_quote_dto :: dto where
  "create_quote_dto = Dto
     [Field ''clientId'' Required TString [IsUuid],
      Field ''workOrderId'' Optional TString [IsUuid],
      Field ''validUntil'' Required TString [IsDateString],
      Field ''notes'' Optional TString [IsString]]
     []"

definition reject_quote_dto :: dto where
  "reject_quote_dto = Dto
     [Field ''reason'' Required TString [IsString]]
     []"

definition setting_filter_dto :: dto where
  "setting_filter_dto = Dto
     [Field ''category'' Optional TString [IsString]]
     []"

definition create_setting_dto :: dto where
  "create_setting_dto = Dto
     [Field ''key'' Required TString [IsString, IsNotEmpty],
      Field ''value'' Required TString [IsString, IsNotEmpty],
      Field ''category'' Optional TString [IsString],
      Field ''isPublic'' Optional TBoolean [IsBoolean]]
     []"

definition update_setting_dto :: dto where
  "update_setting_dto = Dto
     [Field ''value'' Required TString [IsString, IsNotEmpty],
      Field ''userId'' Optional TString [IsString],
      Field ''category'' Optional TString [IsString],
      Field ''isPublic'' Optional TBoolean [IsBoolean]]
     []"

definition create_vehicle_dto :: dto where
  "create_vehicle_dto = Dto
     [Field ''plate'' Required TString [IsString, LengthAtLeast 3],
      Field ''brand'' Required TString [IsString],
      Field ''model'' Required TString [IsString],
      Field ''year'' Required TNumber [IsInt, AtLeast 1900, AtMost 2099],
      Field ''color'' Required TString [IsString],
      Field ''clientId'' Required TString [IsUuid]]
     []"

definition update_vehicle_dto :: dto where
  "update_vehicle_dto = Dto
     [Field ''plate'' Optional TString [IsString, LengthAtLeast 3],
      Field ''brand'' Optional TString [IsString],
      Field ''model'' Optional TString [IsString],
      Field ''year'' Optional TNumber [IsInt, AtLeast 1900, AtMost 2099],
      Field ''color'' Optional TString [IsString],
      Field ''clientId'' Optional TString [IsUuid]]
     []"

section \<open>Where they are used\<close>

definition public_bodies :: "(string \<times> segment list \<times> dto) list" where
  "public_bodies =
     [(''POST'', [Lit ''public'', Lit ''iot'', Lit ''attendance'', Lit ''biometric''], biometric_check_in_dto),
      (''POST'', [Lit ''public'', Lit ''iot'', Lit ''orders'', Param, Lit ''photos'', Lit ''camera-capture''], camera_capture_dto)]"

definition attendance_queries :: "(string \<times> segment list \<times> dto) list" where
  "attendance_queries =
     [(''GET'', [Lit ''attendance''], attendance_filter_dto)]"

definition attendance_bodies :: "(string \<times> segment list \<times> dto) list" where
  "attendance_bodies =
     [(''POST'', [Lit ''attendance'', Lit ''check-in''], check_in_dto),
      (''POST'', [Lit ''attendance'', Lit ''check-out''], check_out_dto),
      (''POST'', [Lit ''attendance'', Lit ''verify''], verify_attendance_dto)]"

definition audit_queries :: "(string \<times> segment list \<times> dto) list" where
  "audit_queries =
     [(''GET'', [Lit ''audit''], audit_filter_dto)]"

definition auth_bodies :: "(string \<times> segment list \<times> dto) list" where
  "auth_bodies =
     [(''POST'', [Lit ''auth'', Lit ''login''], login_dto),
      (''POST'', [Lit ''auth'', Lit ''mechanic'', Lit ''login''], mechanic_login_dto),
      (''POST'', [Lit ''auth'', Lit ''mfa'', Lit ''verify''], mfa_verify_dto),
      (''POST'', [Lit ''auth'', Lit ''register''], register_dto),
      (''POST'', [Lit ''auth'', Lit ''force-logout''], force_logout_dto),
      (''POST'', [Lit ''auth'', Lit ''change-password''], change_password_dto)]"

definition clients_bodies :: "(string \<times> segment list \<times> dto) list" where
  "clients_bodies =
     [(''POST'', [Lit ''clients''], create_client_dto),
      (''PATCH'', [Lit ''clients'', Param], update_client_dto)]"

definition commissions_queries :: "(string \<times> segment list \<times> dto) list" where
  "commissions_queries =
     [(''GET'', [Lit ''commissions''], commission_filter_dto)]"

definition commissions_bodies :: "(string \<times> segment list \<times> dto) list" where
  "commissions_bodies =
     [(''POST'', [Lit ''commissions''], create_commission_dto),
      (''POST'', [Lit ''commissions'', Param, Lit ''approve''], approve_commission_dto)]"

definition finance_bodies :: "(string \<times> segment list \<times> dto) list" where
  "finance_bodies =
     [(''POST'', [Lit ''finance'', Lit ''cashbox'', Lit ''open''], open_cashbox_dto),
      (''POST'', [Lit ''finance'', Lit ''cashbox'', Lit ''close''], close_cashbox_dto),
      (''POST'', [Lit ''finance'', Lit ''cashbox'', Lit ''transactions''], create_transaction_dto),
      (''POST'', [Lit ''finance'', Lit ''expenses''], create_expense_dto),
      (''POST'', [Lit ''finance'', Lit ''expenses'', Param, Lit ''approve''], approve_expense_dto),
      (''POST'', [Lit ''finance'', Lit ''cashbox'', Lit ''override''], cashbox_override_dto)]"

definition finance_queries :: "(string \<times> segment list \<times> dto) list" where
  "finance_queries =
     [(''GET'', [Lit ''finance'', Lit ''expenses''], expense_filters_dto)]"

definition inventory_bodies :: "(string \<times> segment list \<times> dto) list" where
  "inventory_bodies =
     [(''POST'', [Lit ''inventory''], create_item_dto),
      (''PATCH'', [Lit ''inventory'', Param], update_item_dto),
      (''POST'', [Lit ''inventory'', Param, Lit ''movements''], inventory_movement_dto)]"

definition invoices_queries :: "(string \<times> segment list \<times> dto) list" where
  "invoices_queries =
     [(''GET'', [Lit ''invoices''], invoice_filter_dto)]"

definition invoices_bodies :: "(string \<times> segment list \<times> dto) list" where
  "invoices_bodies =
     [(''POST'', [Lit ''invoices'', Param, Lit ''cancel''], cancel_invoice_dto)]"

definition orders_queries :: "(string \<times> segment list \<times> dto) list" where
  "orders_queries =
     [(''GET'', [Lit ''orders''], order_filter_dto),
      (''GET'', [Lit ''orders'', Lit ''my''], order_filter_dto)]"

definition orders_bodies :: "(string \<times> segment list \<times> dto) list" where
  "orders_bodies =
     [(''POST'', [Lit ''orders''], create_order_dto),
      (''PATCH'', [Lit ''orders'', Param], update_order_dto),
      (''POST'', [Lit ''orders'', Param, Lit ''status''], update_status_dto),
      (''POST'', [Lit ''orders'', Param, Lit ''discount''], apply_discount_dto),
      (''POST'', [Lit ''orders'', Param, Lit ''parts''], request_parts_dto),
      (''POST'', [Lit ''orders'', Param, Lit ''progress''], mechanic_progress_dto),
      (''POST'', [Lit ''orders'', Param, Lit ''complete''], complete_work_order_dto),
      (''POST'', [Lit ''orders'', Param, Lit ''quote''], send_quote_dto),
      (''POST'', [Lit ''orders'', Param, Lit ''quote'', Lit ''approve''], approve_quote_dto),
      (''POST'', [Lit ''orders'', Param, Lit ''quote'', Lit ''reject''], reject_order_quote_dto),
      (''POST'', [Lit ''orders'', Param, Lit ''deliver''], deliver_order_dto),
      (''POST'', [Lit ''orders'', Param, Lit ''assign''], assign_mechanic_dto),
      (''POST'', [Lit ''orders'', Lit ''checkin''], vehicle_checkin_dto),
      (''POST'', [Lit ''orders'', Param, Lit ''photos'', Lit ''camera-capture''], request_camera_capture_dto)]"

definition payments_queries :: "(string \<times> segment list \<times> dto) list" where
  "payments_queries =
     [(''GET'', [Lit ''payments''], payment_filter_dto)]"

definition payments_bodies :: "(string \<times> segment list \<times> dto) list" where
  "payments_bodies =
     [(''POST'', [Lit ''payments''], create_payment_dto),
      (''POST'', [Lit ''payments'', Param, Lit ''verify''], verify_payment_dto)]"

definition personnel_queries :: "(string \<times> segment list \<times> dto) list" where
  "personnel_queries =
     [(''GET'', [Lit ''personnel''], personnel_filter_dto)]"

definition personnel_bodies :: "(string \<times> segment list \<times> dto) list" where
  "personnel_bodies =
     [(''PATCH'', [Lit ''personnel'', Param, Lit ''role''], update_role_dto),
      (''PATCH'', [Lit ''personnel'', Param, Lit ''status''], update_account_status_dto),
      (''POST'', [Lit ''personnel'', Lit ''attendance'', Lit ''check-in''], check_in_out_dto),
      (''POST'', [Lit ''personnel'', Lit ''attendance'', Lit ''check-out''], check_in_out_dto),
      (''POST'', [Lit ''personnel'', Lit ''vehicle-usage'', Lit ''authorize''], authorize_vehicle_usage_dto)]"

definition purchases_queries :: "(string \<times> segment list \<times> dto) list" where
  "purchases_queries =
     [(''GET'', [Lit ''purchases''], purchase_filter_dto)]"

definition purchases_bodies :: "(string \<times> segment list \<times> dto) list" where
  "purchases_bodies =
     [(''POST'', [Lit ''purchases''], create_purchase_dto),
      (''PATCH'', [Lit ''purchases'', Param, Lit ''status''], update_purchase_status_dto),
      (''POST'', [Lit ''purchases'', Param, Lit ''receive''], receive_items_dto)]"

definition quotes_queries :: "(string \<times> segment list \<times> dto) list" where
  "quotes_queries =
     [(''GET'', [Lit ''quotes''], quote_filter_dto)]"

definition quotes_bodies :: "(string \<times> segment list \<times> dto) list" where
  "quotes_bodies =
     [(''POST'', [Lit ''quotes''], create_quote_dto),
      (''POST'', [Lit ''quotes'', Param, Lit ''reject''], reject_quote_dto)]"

definition settings_bodies :: "(string \<times> segment list \<times> dto) list" where
  "settings_bodies =
     [(''POST'', [Lit ''settings''], create_setting_dto),
      (''PATCH'', [Lit ''settings'', Param], update_setting_dto),
      (''POST'', [Lit ''settings'', Param], update_setting_dto)]"

definition vehicles_bodies :: "(string \<times> segment list \<times> dto) list" where
  "vehicles_bodies =
     [(''POST'', [Lit ''vehicles''], create_vehicle_dto),
      (''PATCH'', [Lit ''vehicles'', Param], update_vehicle_dto)]"

definition body_dtos :: "(string \<times> segment list \<times> dto) list" where
  "body_dtos =
     public_bodies @ attendance_bodies @ auth_bodies @ clients_bodies @ commissions_bodies @ finance_bodies @
     inventory_bodies @ invoices_bodies @ orders_bodies @ payments_bodies @ personnel_bodies @
     purchases_bodies @ quotes_bodies @ settings_bodies @ vehicles_bodies"

definition query_dtos :: "(string \<times> segment list \<times> dto) list" where
  "query_dtos =
     attendance_queries @ audit_queries @ commissions_queries @ finance_queries @ invoices_queries @
     orders_queries @ payments_queries @ personnel_queries @ purchases_queries @ quotes_queries"

lemmas body_tables = body_dtos_def
  public_bodies_def attendance_bodies_def auth_bodies_def clients_bodies_def commissions_bodies_def
  finance_bodies_def inventory_bodies_def invoices_bodies_def orders_bodies_def payments_bodies_def
  personnel_bodies_def purchases_bodies_def quotes_bodies_def settings_bodies_def vehicles_bodies_def

lemmas query_tables = query_dtos_def
  attendance_queries_def audit_queries_def commissions_queries_def finance_queries_def invoices_queries_def
  orders_queries_def payments_queries_def personnel_queries_def purchases_queries_def quotes_queries_def

text \<open>The class of the body of a route; a route whose body has an inline type or none is not validated.\<close>

definition body_dto :: "route \<Rightarrow> dto option" where
  "body_dto rt = map_of (map (\<lambda>(m, p, d). ((m, p), d)) body_dtos) (rt_method rt, rt_path rt)"

definition body_pipe :: "validator \<Rightarrow> route \<Rightarrow> (string \<times> json) list \<Rightarrow> http_error + (string \<times> json) list" where
  "body_pipe va rt ms = (case body_dto rt of None \<Rightarrow> Inr ms | Some d \<Rightarrow> validate va d ms)"

definition dto_signatures :: "(string \<times> segment list \<times> dto) list \<Rightarrow> (string \<times> segment list) list" where
  "dto_signatures ds = map (\<lambda>(m, p, d). (m, p)) ds"

text \<open>They are routes of the controllers, in the order of the table of all routes.\<close>

lemma dto_routes:
  "subseq (dto_signatures body_dtos) (map signature all_routes)"
  "subseq (dto_signatures query_dtos) (map signature all_routes)"
  unfolding dto_signatures_def body_tables query_tables append.simps list.map prod.case by code_simp+

end
