(* ===== verification/Validation.thy ===== *)
theory Validation
  imports Dtos
begin

text \<open>
  What the rules of the bodies promise to the handlers: which numbers may be negative when they arrive, and who may give an
  account its role.
\<close>

section \<open>What the libraries promise\<close>

text \<open>
  The documented behaviour of \<open>class-validator\<close> that is relied on: a rule accepts nothing but what it names. The conversion
  leaves \<open>null\<close> alone.
\<close>

definition class_validator :: "validator \<Rightarrow> bool" where
  "class_validator va \<longleftrightarrow>
     (\<forall>t. va_convert va t JNull = JNull)
     \<and> (\<forall>k v. va_holds va (IsNumber k) v \<longrightarrow> (\<exists>q. v = JNum (Fin q)))
     \<and> (\<forall>v. va_holds va IsInt v \<longrightarrow> (\<exists>n. v = JNum (Fin (of_int n))))
     \<and> (\<forall>b v. va_holds va (AtLeast b) v \<longrightarrow> (\<exists>x. v = JNum x \<and> js_le (fl b) x))
     \<and> (\<forall>v. va_holds va IsPositive v \<longrightarrow> (\<exists>x. v = JNum x \<and> js_lt (Fin 0) x))
     \<and> (\<forall>xs v. va_holds va (OneOf xs) v \<longrightarrow> (\<exists>s \<in> set xs. v = JStr s))"

text \<open>A validator of that kind, which takes every text for an address, a date or an identifier and converts nothing.\<close>

definition plain_number :: "rule \<Rightarrow> number \<Rightarrow> bool" where
  "plain_number r x =
     (case r of
        IsInt \<Rightarrow> (case x of Fin q \<Rightarrow> snd (quotient_of q) = 1 | _ \<Rightarrow> False)
      | IsNumber _ \<Rightarrow> (case x of Fin _ \<Rightarrow> True | _ \<Rightarrow> False)
      | IsPositive \<Rightarrow> js_lt (Fin 0) x
      | AtLeast b \<Rightarrow> js_le (fl b) x
      | AtMost b \<Rightarrow> js_le x (fl b)
      | _ \<Rightarrow> False)"

definition plain_text :: "rule \<Rightarrow> string \<Rightarrow> bool" where
  "plain_text r s =
     (case r of
        IsNotEmpty \<Rightarrow> s \<noteq> []
      | LengthAtLeast n \<Rightarrow> n \<le> length s
      | LengthAtMost n \<Rightarrow> length s \<le> n
      | OneOf xs \<Rightarrow> s \<in> set xs
      | _ \<Rightarrow> r \<in> {IsString, IsEmail, IsUrl, IsUuid, IsDateString, PhonePattern, EightDigits, PlatePattern})"

definition plain_holds :: "rule \<Rightarrow> json \<Rightarrow> bool" where
  "plain_holds r v =
     (case v of
        JNum x \<Rightarrow> plain_number r x
      | JStr s \<Rightarrow> plain_text r s
      | JBool _ \<Rightarrow> r = IsBoolean
      | JArr _ \<Rightarrow> r = IsArray
      | _ \<Rightarrow> False)"

definition plain_validator :: validator where
  "plain_validator = \<lparr>va_convert = \<lambda>_ v. v, va_holds = plain_holds\<rparr>"

lemma plain_class_validator: "class_validator plain_validator"
proof -
  have "\<exists>n. q = of_int n" if "snd (quotient_of q) = 1" for q
    using quotient_of_div[of q "fst (quotient_of q)" 1] that by (metis div_by_1 of_int_1 prod.collapse)
  then show ?thesis
    by (auto simp: class_validator_def plain_validator_def plain_holds_def plain_number_def plain_text_def
        split: json.splits number.splits)
qed

section \<open>What the pipe lets through\<close>

lemma check_field_out:
  assumes "check_field va ms f = Inr xs" and "(k, x) \<in> set xs"
  shows "k = fd_name f \<and> (\<exists>v. map_of ms k = Some v \<and> x = va_convert va (fd_type f) v
    \<and> (applies va ms f \<longrightarrow> (\<forall>r \<in> set (fd_rules f). va_holds va r x)))"
  using assms by (auto simp: check_field_def Let_def list_all_iff split: option.splits if_splits)

lemma check_fields_out:
  assumes "check_fields va ms fs = Inr out" and "(k, x) \<in> set out"
  obtains f v where "f \<in> set fs" and "fd_name f = k" and "map_of ms k = Some v" and "x = va_convert va (fd_type f) v"
    and "applies va ms f \<Longrightarrow> \<forall>r \<in> set (fd_rules f). va_holds va r x"
proof -
  have "\<exists>f \<in> set fs. k = fd_name f \<and> (\<exists>v. map_of ms k = Some v \<and> x = va_convert va (fd_type f) v
      \<and> (applies va ms f \<longrightarrow> (\<forall>r \<in> set (fd_rules f). va_holds va r x)))"
    using assms
  proof (induction fs arbitrary: out)
    case (Cons f fs)
    then show ?case using check_field_out[of va ms f] by (auto simp: and_then_def split: sum.splits)
  qed simp
  then show thesis using that by blast
qed

text \<open>A member that is declared as a number arrives as one that its rules accept, or as \<open>null\<close>.\<close>

lemma number_arrives:
  assumes "class_validator va" and "check_object va fs ms = Inr out" and "(k, JNum x) \<in> set out"
    and "\<forall>f \<in> set fs. fd_name f = k \<longrightarrow> fd_presence f \<in> {Required, Optional}"
  obtains f where "f \<in> set fs" and "fd_name f = k" and "\<forall>r \<in> set (fd_rules f). va_holds va r (JNum x)"
proof -
  have "check_fields va ms fs = Inr out" using assms(2) by (auto simp: check_object_def split: if_splits)
  then obtain f v where f: "f \<in> set fs" "fd_name f = k" "map_of ms k = Some v" "JNum x = va_convert va (fd_type f) v"
    "applies va ms f \<Longrightarrow> \<forall>r \<in> set (fd_rules f). va_holds va r (JNum x)"
    using check_fields_out[OF _ assms(3)] by metis
  have "v \<noteq> JNull" using f(4) assms(1) by (auto simp: class_validator_def)
  then have "applies va ms f" using f(1-3) assms(4) by (auto simp: applies_def)
  then show thesis using that f by blast
qed

lemma check_elements_out:
  assumes "check_elements va fs vs = Inr ws" and "JObj xs \<in> set ws"
  obtains ns where "check_object va fs ns = Inr xs"
proof -
  have "\<exists>ns. check_object va fs ns = Inr xs"
    using assms by (induction vs arbitrary: ws) (auto simp: and_then_def split: json.splits sum.splits)
  then show thesis using that by blast
qed

lemma check_items_numbers:
  assumes "check_items va is out = Inr out'" and "(k, JNum x) \<in> set out'"
  shows "(k, JNum x) \<in> set out"
  using assms
proof (induction va "is" out rule: check_items.induct)
  case (2 va g fs "is" out)
  then show ?case by (fastforce simp: and_then_def split: option.splits json.splits sum.splits if_splits)
qed simp

lemma check_items_keys: "check_items va is out = Inr out' \<Longrightarrow> map fst out' = map fst out"
proof (induction va "is" out rule: check_items.induct)
  case (2 va g fs "is" out)
  have same: "map fst (map (\<lambda>(k, v). if k = g then (k, w) else (k, v)) out) = map fst out" for w
    by (auto intro!: nth_equalityI split: prod.split)
  show ?case
    using 2 by (auto simp: and_then_def same split: option.splits json.splits sum.splits)
qed simp

lemma map_of_other: "map_of (map (\<lambda>(k, v). if k = g then (k, w) else (k, v)) out) h = (if h = g \<and> map_of out g \<noteq> None then Some w else map_of out h)"
  by (induction out) (auto split: if_splits)

lemma check_items_other:
  assumes "check_items va is out = Inr out'" and "h \<notin> fst ` set is"
  shows "map_of out' h = map_of out h"
  using assms
proof (induction va "is" out rule: check_items.induct)
  case (2 va g fs "is" out)
  then show ?case by (auto simp: and_then_def map_of_other split: option.splits json.splits sum.splits if_splits)
qed simp

lemma check_items_elements:
  assumes "check_items va is out = Inr out'" and "(h, fs) \<in> set is" and "distinct (map fst is)"
    and "map_of out' h = Some (JArr ws)" and "JObj xs \<in> set ws"
  obtains ns where "check_object va fs ns = Inr xs"
proof -
  have "\<exists>ns. check_object va fs ns = Inr xs"
    using assms
  proof (induction "is" arbitrary: out)
    case (Cons i "is")
    obtain g gs where i: "i = (g, gs)" by (cases i)
    show ?case
    proof (cases "(h, fs) = (g, gs)")
      case True
      then have h: "h \<notin> fst ` set is" using Cons.prems(3) i by auto
      show ?thesis
      proof (cases "\<exists>vs. map_of out g = Some (JArr vs)")
        case arr: True
        then obtain vs us where "map_of out g = Some (JArr vs)" "check_elements va gs vs = Inr us"
          "check_items va is (map (\<lambda>(k, v). if k = g then (k, JArr us) else (k, v)) out) = Inr out'"
          using Cons.prems(1) i by (auto simp: and_then_def split: sum.splits)
        moreover then have "map_of out' h = Some (JArr us)" using check_items_other[OF _ h] True by (simp add: map_of_other)
        ultimately have "check_elements va fs vs = Inr ws" using Cons.prems(4) True by simp
        then show ?thesis using check_elements_out[OF _ Cons.prems(5)] by blast
      next
        case False
        then have "check_items va is out = Inr out'" using Cons.prems(1) i by (auto split: option.splits json.splits)
        then have "map_of out g = Some (JArr ws)" using check_items_other[OF _ h] True Cons.prems(4) by simp
        then show ?thesis using False by simp
      qed
    next
      case False
      then have "(h, fs) \<in> set is" "distinct (map fst is)" using Cons.prems(2,3) i by auto
      moreover obtain out2 where "check_items va is out2 = Inr out'"
        using Cons.prems(1) i by (auto simp: and_then_def split: option.splits json.splits sum.splits)
      ultimately show ?thesis using Cons.IH Cons.prems(4,5) by blast
    qed
  qed simp
  then show thesis using that by blast
qed

section \<open>Numbers\<close>

text \<open>The numbers of a body at the members declared as such, in its items too.\<close>

definition number_members :: "field list \<Rightarrow> (string \<times> json) list \<Rightarrow> (string \<times> number) list" where
  "number_members fs ms =
     concat (map (\<lambda>(k, v). case v of
         JNum x \<Rightarrow> if list_ex (\<lambda>f. fd_name f = k \<and> fd_type f = TNumber) fs then [(k, x)] else []
       | _ \<Rightarrow> []) ms)"

definition item_numbers :: "field list \<Rightarrow> json option \<Rightarrow> (string \<times> number) list" where
  "item_numbers fs v =
     (case v of
        Some (JArr vs) \<Rightarrow> concat (map (\<lambda>w. case w of JObj ns \<Rightarrow> number_members fs ns | _ \<Rightarrow> []) vs)
      | _ \<Rightarrow> [])"

definition figures :: "dto \<Rightarrow> (string \<times> json) list \<Rightarrow> (string \<times> number) list" where
  "figures d out =
     number_members (dto_fields d) out @ concat (map (\<lambda>(g, fs). item_numbers fs (map_of out g)) (dto_items d))"

definition nonneg_rule :: "rule \<Rightarrow> bool" where
  "nonneg_rule r = (case r of IsPositive \<Rightarrow> True | AtLeast b \<Rightarrow> 0 \<le> b | _ \<Rightarrow> False)"

definition number_rule :: "rule \<Rightarrow> bool" where
  "number_rule r = (case r of IsInt \<Rightarrow> True | IsNumber _ \<Rightarrow> True | _ \<Rightarrow> False)"

definition numbers_ruled :: "string list \<Rightarrow> field list \<Rightarrow> bool" where
  "numbers_ruled signed fs \<longleftrightarrow>
     distinct (map fd_name fs)
     \<and> list_all (\<lambda>f. fd_type f = TNumber \<longrightarrow>
           (fd_presence f = Required \<or> fd_presence f = Optional) \<and> list_ex number_rule (fd_rules f)
           \<and> (list_ex nonneg_rule (fd_rules f) \<or> fd_name f \<in> set signed)) fs"

lemma fl_nonneg: "0 \<le> b \<Longrightarrow> js_le (fl b) (Fin q) \<Longrightarrow> 0 \<le> q"
proof -
  assume b: "0 \<le> b" and q: "js_le (fl b) (Fin q)"
  have "0 \<le> rnd b"
  proof (cases "b = 0")
    case False
    then have "0 \<le> b / 2 powi ulp_exponent b" using b by simp
    then have "0 \<le> \<lfloor>b / 2 powi ulp_exponent b\<rfloor>" by simp
    then have "0 \<le> round_half_even (b / 2 powi ulp_exponent b)" by (auto simp: round_half_even_def Let_def)
    then show ?thesis by (simp add: rnd_def)
  qed (simp add: rnd_def)
  then show "0 \<le> q" using q by (auto simp: fl_def Let_def js_le_def js_eq_def split: if_splits)
qed

lemma number_rule_holds:
  assumes "class_validator va" and "number_rule r" and "va_holds va r (JNum x)"
  shows "\<exists>q. x = Fin q"
proof -
  have "r = IsInt \<or> (\<exists>k. r = IsNumber k)" using assms(2) by (auto simp: number_rule_def split: rule.splits)
  moreover have "\<forall>k v. va_holds va (IsNumber k) v \<longrightarrow> (\<exists>q. v = JNum (Fin q))"
    and "\<forall>v. va_holds va IsInt v \<longrightarrow> (\<exists>n. v = JNum (Fin (of_int n)))"
    using assms(1) by (simp_all add: class_validator_def)
  ultimately show ?thesis using assms(3) by blast
qed

lemma ruled_number:
  assumes "class_validator va" and "numbers_ruled signed fs" and "check_object va fs ms = Inr out"
    and "(k, x) \<in> set (number_members fs out)"
  shows "\<exists>q. x = Fin q \<and> (q < 0 \<longrightarrow> k \<in> set signed)"
proof -
  obtain f where f: "f \<in> set fs" "fd_name f = k" "fd_type f = TNumber" and x: "(k, JNum x) \<in> set out"
    using assms(4) by (auto simp: number_members_def list_ex_iff split: json.splits if_splits)
  have one: "g = f" if "g \<in> set fs" "fd_name g = k" for g
    using assms(2) f(1,2) that by (auto simp: numbers_ruled_def distinct_map inj_on_def)
  have r: "fd_presence f = Required \<or> fd_presence f = Optional" "list_ex number_rule (fd_rules f)"
    "list_ex nonneg_rule (fd_rules f) \<or> k \<in> set signed"
    using assms(2) f by (auto simp: numbers_ruled_def list_all_iff)
  obtain g where "g \<in> set fs" "fd_name g = k" "\<forall>r \<in> set (fd_rules g). va_holds va r (JNum x)"
    using number_arrives[OF assms(1,3) x] one r(1) by (metis insert_iff)
  then have h: "\<forall>r \<in> set (fd_rules f). va_holds va r (JNum x)" using one by blast
  obtain n where n: "n \<in> set (fd_rules f)" "number_rule n" using r(2) by (auto simp: list_ex_iff)
  then have "va_holds va n (JNum x)" using h by blast
  then obtain q where q: "x = Fin q" using number_rule_holds[OF assms(1) n(2)] by blast
  have "0 \<le> q" if p: "list_ex nonneg_rule (fd_rules f)"
  proof -
    obtain b where b: "b \<in> set (fd_rules f)" "nonneg_rule b" using p by (auto simp: list_ex_iff)
    then have hb: "va_holds va b (JNum (Fin q))" using h q by simp
    show ?thesis
    proof (cases b)
      case IsPositive
      then have "js_lt (Fin 0) (Fin q)" using hb assms(1) by (auto simp: class_validator_def)
      then show ?thesis by simp
    next
      case (AtLeast c)
      then have "js_le (fl c) (Fin q)" using hb assms(1) by (auto simp: class_validator_def)
      then show ?thesis using fl_nonneg AtLeast b(2) by (auto simp: nonneg_rule_def)
    qed (use b(2) in \<open>auto simp: nonneg_rule_def\<close>)
  qed
  then show ?thesis using r(3) q by auto
qed

text \<open>The members of bodies that no rule keeps from being negative.\<close>

definition signed_members :: "(string \<times> segment list \<times> string) list" where
  "signed_members =
     [(''POST'', [Lit ''public'', Lit ''iot'', Lit ''attendance'', Lit ''biometric''], ''verifyMethod''),
      (''POST'', [Lit ''commissions''], ''amount''), (''POST'', [Lit ''commissions''], ''percentage''),
      (''PATCH'', [Lit ''orders'', Param], ''laborCost''), (''PATCH'', [Lit ''orders'', Param], ''partsCost''),
      (''POST'', [Lit ''orders'', Param, Lit ''discount''], ''discountAmount''),
      (''POST'', [Lit ''purchases''], ''unitCost''), (''POST'', [Lit ''purchases''], ''tax''),
      (''POST'', [Lit ''purchases''], ''shipping''), (''POST'', [Lit ''purchases''], ''customs''),
      (''POST'', [Lit ''purchases''], ''commissionAmount'')]"

definition signed_of :: "string \<Rightarrow> segment list \<Rightarrow> string list" where
  "signed_of m p = concat (map (\<lambda>(m', p', f). if m' = m \<and> p' = p then [f] else []) signed_members)"

lemma signed_of_iff: "f \<in> set (signed_of m p) \<longleftrightarrow> (m, p, f) \<in> set signed_members"
  by (auto simp: signed_of_def split: if_splits)

definition dto_ruled :: "string \<Rightarrow> segment list \<Rightarrow> dto \<Rightarrow> bool" where
  "dto_ruled m p d \<longleftrightarrow>
     numbers_ruled (signed_of m p) (dto_fields d) \<and> list_all (\<lambda>(g, fs). numbers_ruled (signed_of m p) fs) (dto_items d)
     \<and> distinct (map fst (dto_items d))"

lemmas body_classes = biometric_check_in_dto_def camera_capture_dto_def check_in_dto_def check_out_dto_def
  verify_attendance_dto_def login_dto_def mechanic_login_dto_def mfa_verify_dto_def register_dto_def
  force_logout_dto_def change_password_dto_def create_client_dto_def update_client_dto_def create_commission_dto_def
  approve_commission_dto_def open_cashbox_dto_def close_cashbox_dto_def create_transaction_dto_def
  create_expense_dto_def approve_expense_dto_def cashbox_override_dto_def create_item_dto_def update_item_dto_def
  inventory_movement_dto_def cancel_invoice_dto_def create_order_dto_def update_order_dto_def update_status_dto_def
  apply_discount_dto_def request_parts_dto_def mechanic_progress_dto_def complete_work_order_dto_def
  send_quote_dto_def approve_quote_dto_def reject_order_quote_dto_def deliver_order_dto_def assign_mechanic_dto_def
  vehicle_checkin_dto_def request_camera_capture_dto_def create_payment_dto_def verify_payment_dto_def
  update_role_dto_def update_account_status_dto_def check_in_out_dto_def authorize_vehicle_usage_dto_def
  create_purchase_dto_def update_purchase_status_dto_def receive_items_dto_def create_quote_dto_def
  reject_quote_dto_def create_setting_dto_def update_setting_dto_def create_vehicle_dto_def update_vehicle_dto_def
  purchase_item_dto_def receive_item_dto_def request_parts_item_dto_def

lemma bodies_ruled: "list_all (\<lambda>(m, p, d). dto_ruled m p d) body_dtos"
  by (simp add: body_tables dto_ruled_def numbers_ruled_def number_rule_def nonneg_rule_def signed_of_def signed_members_def
      body_classes)

lemmas query_classes = attendance_filter_dto_def audit_filter_dto_def commission_filter_dto_def expense_filters_dto_def
  invoice_filter_dto_def order_filter_dto_def payment_filter_dto_def personnel_filter_dto_def purchase_filter_dto_def
  quote_filter_dto_def

lemma queries_ruled: "list_all (\<lambda>(m, p, d). dto_ruled m p d) query_dtos"
  by (simp add: query_tables dto_ruled_def numbers_ruled_def number_rule_def nonneg_rule_def signed_of_def signed_members_def
      query_classes)

lemma figures_ruled:
  assumes "class_validator va" and "dto_ruled m p d" and "validate va d ms = Inr out" and "(k, x) \<in> set (figures d out)"
  shows "\<exists>q. x = Fin q \<and> (q < 0 \<longrightarrow> (m, p, k) \<in> set signed_members)"
proof -
  obtain out0 where o: "check_object va (dto_fields d) ms = Inr out0" "check_items va (dto_items d) out0 = Inr out"
    using assms(3) by (auto simp: validate_def and_then_def split: sum.splits)
  have top: "(k, x) \<in> set (number_members (dto_fields d) out0)" if "(k, x) \<in> set (number_members (dto_fields d) out)"
    using that check_items_numbers[OF o(2)] by (fastforce simp: number_members_def split: json.splits if_splits)
  show ?thesis
  proof (cases "(k, x) \<in> set (number_members (dto_fields d) out)")
    case True
    then show ?thesis
      using ruled_number[OF assms(1) _ o(1) top[OF True]] assms(2) by (simp add: dto_ruled_def) (metis signed_of_iff)
  next
    case False
    then obtain g fs vs ns where g: "(g, fs) \<in> set (dto_items d)" "map_of out g = Some (JArr vs)" "JObj ns \<in> set vs"
      "(k, x) \<in> set (number_members fs ns)"
      using assms(4) by (auto simp: figures_def item_numbers_def split: option.splits json.splits) (metis)
    obtain ns0 where "check_object va fs ns0 = Inr ns"
      using check_items_elements[OF o(2) g(1) _ g(2,3)] assms(2) by (auto simp: dto_ruled_def)
    moreover have "numbers_ruled (signed_of m p) fs" using assms(2) g(1) by (auto simp: dto_ruled_def list_all_iff)
    ultimately show ?thesis using ruled_number[OF assms(1)] g(4) by (metis signed_of_iff)
  qed
qed

text \<open>A body of each route with a negative number at a member that may be negative.\<close>

definition negative_bodies :: "(string \<times> segment list \<times> dto \<times> (string \<times> json) list) list" where
  "negative_bodies =
     [(''POST'', [Lit ''public'', Lit ''iot'', Lit ''attendance'', Lit ''biometric''], biometric_check_in_dto,
         [(''dni'', JStr ''1''), (''timestamp'', JStr ''t''), (''deviceSN'', JStr ''d''), (''verifyMethod'', JNum (Fin (- 1)))]),
      (''POST'', [Lit ''commissions''], create_commission_dto,
         [(''personnelId'', JStr ''p''), (''type'', JStr ''t''), (''amount'', JNum (Fin (- 1))), (''percentage'', JNum (Fin (- 1)))]),
      (''PATCH'', [Lit ''orders'', Param], update_order_dto, [(''laborCost'', JNum (Fin (- 1))), (''partsCost'', JNum (Fin (- 1)))]),
      (''POST'', [Lit ''orders'', Param, Lit ''discount''], apply_discount_dto,
         [(''discountAmount'', JNum (Fin (- 1))), (''reason'', JStr ''r'')]),
      (''POST'', [Lit ''purchases''], create_purchase_dto,
         [(''supplierId'', JStr ''s''),
          (''items'', JArr [JObj [(''itemId'', JStr ''i''), (''quantity'', JNum (Fin 1)), (''unitCost'', JNum (Fin (- 1)))]]),
          (''tax'', JNum (Fin (- 1))), (''shipping'', JNum (Fin (- 1))), (''customs'', JNum (Fin (- 1))),
          (''commissionAmount'', JNum (Fin (- 1)))])]"

definition negatives :: "dto \<Rightarrow> (string \<times> json) list \<Rightarrow> string list" where
  "negatives d ms =
     (case validate plain_validator d ms of
        Inl _ \<Rightarrow> []
      | Inr out \<Rightarrow> map fst (filter (\<lambda>(k, x). x = Fin (- 1)) (figures d out)))"

lemma fl_one: "fl 1 = Fin 1"
  using fl_int[of 1] by simp

lemmas pipe_defs = validate_def check_object_def check_field_def applies_def plain_validator_def plain_holds_def plain_number_def
  plain_text_def and_then_def figures_def number_members_def item_numbers_def

lemma negative_numbers:
  "map (\<lambda>(m, p, d, ms). negatives d ms) negative_bodies =
     [[''verifyMethod''], [''amount'', ''percentage''], [''laborCost'', ''partsCost''], [''discountAmount''],
      [''tax'', ''shipping'', ''customs'', ''commissionAmount'', ''unitCost'']]"
  by (simp add: negative_bodies_def negatives_def pipe_defs fl_one biometric_check_in_dto_def create_commission_dto_def
      update_order_dto_def apply_discount_dto_def create_purchase_dto_def purchase_item_dto_def)

lemma signed_have_bodies:
  "list_all (\<lambda>(m, p, f). list_ex (\<lambda>(m', p', d, ms). m' = m \<and> p' = p \<and> f \<in> set (negatives d ms)) negative_bodies) signed_members"
  using negative_numbers by (simp add: negative_bodies_def signed_members_def)

lemma negative_bodies_used: "\<forall>(m, p, d, ms) \<in> set negative_bodies. (m, p, d) \<in> set body_dtos"
  by (simp add: negative_bodies_def body_tables)

text \<open>The route of a reservation, whose body has no class.\<close>

definition reserve_route :: route where
  "reserve_route = route_of ''POST'' [Lit ''inventory'', Param, Lit ''reserve''] [JwtGuard, RoleGuard]
     (Some [UserRole.OWNER, UserRole.ADMIN, MECHANIC])"

text \<open>
  C23. At a member that a class of \<open>src/modules/*/dto\<close> declares as a number, in a body or in the parameters of a query, the pipe hands
  to the handler only finite numbers, and none that is negative but at eleven members of bodies: the cost of labour and parts of
  an order, a discount, a commission and its percentage, the costs of a purchase and of its items, and the method of a biometric
  mark. Those do let negative numbers through. What no class declares the pipe hands on as it came, and so the
  quantity of a reservation, whose body has an inline type.
\<close>

theorem numbers_that_may_be_negative:
  assumes "class_validator va"
  shows "(\<forall>(m, p, d) \<in> set (body_dtos @ query_dtos). \<forall>ms out k x. validate va d ms = Inr out \<and> (k, x) \<in> set (figures d out)
        \<longrightarrow> (\<exists>q. x = Fin q \<and> (q < 0 \<longrightarrow> (m, p, k) \<in> set signed_members)))
    \<and> (\<forall>(m, p, k) \<in> set signed_members. \<exists>d ms out. (m, p, d) \<in> set body_dtos
        \<and> validate plain_validator d ms = Inr out \<and> (k, Fin (- 1)) \<in> set (figures d out))
    \<and> reserve_route \<in> set all_routes \<and> (\<forall>ms. body_pipe va reserve_route ms = Inr ms)"
proof (intro conjI ballI allI)
  fix b assume b: "b \<in> set (body_dtos @ query_dtos)"
  obtain m p d where bd: "b = (m, p, d)" by (cases b)
  then have "dto_ruled m p d" using bodies_ruled queries_ruled b by (auto simp: list_all_iff)
  then show "case b of (m, p, d) \<Rightarrow> \<forall>ms out k x. validate va d ms = Inr out \<and> (k, x) \<in> set (figures d out)
      \<longrightarrow> (\<exists>q. x = Fin q \<and> (q < 0 \<longrightarrow> (m, p, k) \<in> set signed_members))"
    using figures_ruled[OF assms] by (auto simp: bd)
next
  fix c assume "c \<in> set signed_members"
  moreover obtain m p k where c: "c = (m, p, k)" by (cases c)
  ultimately obtain d ms where d: "(m, p, d, ms) \<in> set negative_bodies" "k \<in> set (negatives d ms)"
    using signed_have_bodies by (fastforce simp: list_all_iff list_ex_iff)
  then obtain out where "validate plain_validator d ms = Inr out" "(k, Fin (- 1)) \<in> set (figures d out)"
    by (auto simp: negatives_def split: sum.splits) (metis)
  then show "case c of (m, p, k) \<Rightarrow> \<exists>d ms out. (m, p, d) \<in> set body_dtos
      \<and> validate plain_validator d ms = Inr out \<and> (k, Fin (- 1)) \<in> set (figures d out)"
    using bspec[OF negative_bodies_used d(1)] c by auto
next
  show "reserve_route \<in> set all_routes" by (simp add: reserve_route_def all_routes_def inventory_routes_def)
  show "body_pipe va reserve_route ms = Inr ms" for ms
    by (simp add: body_pipe_def body_dto_def reserve_route_def route_of_def body_tables)
qed

theorem numbers_that_may_be_negative_witness:
  "\<forall>out. validate plain_validator open_cashbox_dto [(''openingBalance'', JNum (Fin (- 5)))] \<noteq> Inr out"
proof (intro allI notI)
  fix out assume o: "validate plain_validator open_cashbox_dto [(''openingBalance'', JNum (Fin (- 5)))] = Inr out"
  then have "out = [(''openingBalance'', JNum (Fin (- 5)))]"
    by (auto simp: open_cashbox_dto_def validate_def check_object_def check_field_def and_then_def plain_validator_def Let_def split: if_splits)
  then have "(''openingBalance'', Fin (- 5)) \<in> set (figures open_cashbox_dto out)"
    by (simp add: figures_def number_members_def open_cashbox_dto_def)
  moreover have "(''POST'', [Lit ''finance'', Lit ''cashbox'', Lit ''open''], open_cashbox_dto) \<in> set body_dtos"
    by (simp add: body_tables)
  ultimately show False
    using numbers_that_may_be_negative[OF plain_class_validator] o by (fastforce simp: signed_members_def)
qed

section \<open>Roles\<close>

lemma role_bodies:
  "list_all (\<lambda>(m, p, d). ''role'' \<in> fd_name ` set (dto_fields d) \<longrightarrow>
      (m, p) \<in> {(''POST'', [Lit ''auth'', Lit ''register'']), (''PATCH'', [Lit ''personnel'', Param, Lit ''role''])}
      \<and> Field ''role'' Required TString [OneOf user_role_names] \<in> set (dto_fields d)
      \<and> distinct (map fd_name (dto_fields d)) \<and> dto_items d = []) body_dtos"
  by (simp add: body_tables body_classes)

lemma role_routes:
  "\<forall>rt \<in> set all_routes. signature rt \<in> {(''POST'', [Lit ''auth'', Lit ''register'']), (''PATCH'', [Lit ''personnel'', Param, Lit ''role''])}
     \<longrightarrow> rt_guards rt = [JwtGuard, RoleGuard] \<and> rt_roles rt = Some [UserRole.OWNER]"
  by code_simp

lemma user_roles_named: "s \<in> set user_role_names \<Longrightarrow> \<exists>r. s = role_name r"
  by (auto simp: user_role_names_def) (metis role_name.simps)+

text \<open>
  C22. A body that gives an account its role gets to a handler only from an owner whose token has passed the second factor, and the
  role is one of the six: whatever else a client sends, no other route takes a role.
\<close>

theorem only_owners_give_roles:
  assumes "class_validator va" and "rt \<in> set all_routes" and "fits rt ss" and "query = [] \<or> hd query = CHR ''?''"
    and "admit rt cd (join_path ss @ query) = Inr ()"
    and "body_dto rt = Some d" and "validate va d ms = Inr out" and "(''role'', v) \<in> set out"
  shows "cd_session cd = Some (Some UserRole.OWNER, Some True) \<and> (\<exists>r. v = JStr (role_name r))"
proof -
  have "(rt_method rt, rt_path rt, d) \<in> set body_dtos"
    using assms(6) by (auto simp: body_dto_def dest!: map_of_SomeD)
  then have t: "''role'' \<in> fd_name ` set (dto_fields d) \<longrightarrow>
      signature rt \<in> {(''POST'', [Lit ''auth'', Lit ''register'']), (''PATCH'', [Lit ''personnel'', Param, Lit ''role''])}
      \<and> Field ''role'' Required TString [OneOf user_role_names] \<in> set (dto_fields d)
      \<and> distinct (map fd_name (dto_fields d)) \<and> dto_items d = []"
    using role_bodies by (fastforce simp: list_all_iff signature_def)
  obtain out0 where o: "check_object va (dto_fields d) ms = Inr out0" "check_items va (dto_items d) out0 = Inr out"
    using assms(7) by (auto simp: validate_def and_then_def split: sum.splits)
  then have "''role'' \<in> fst ` set out0" using check_items_keys[OF o(2)] assms(8) by (metis fst_conv image_eqI image_set)
  then obtain x where x: "(''role'', x) \<in> set out0" by auto
  have f: "check_fields va ms (dto_fields d) = Inr out0" using o(1) by (auto simp: check_object_def split: if_splits)
  have "''role'' \<in> fd_name ` set (dto_fields d)" by (rule check_fields_out[OF f x]) (metis image_eqI)
  then have role: "signature rt \<in> {(''POST'', [Lit ''auth'', Lit ''register'']), (''PATCH'', [Lit ''personnel'', Param, Lit ''role''])}"
    "Field ''role'' Required TString [OneOf user_role_names] \<in> set (dto_fields d)" "distinct (map fd_name (dto_fields d))"
    and "out = out0"
    using t o(2) by auto
  have one: "f = Field ''role'' Required TString [OneOf user_role_names]" if "f \<in> set (dto_fields d)" "fd_name f = ''role''" for f
    using role(2,3) that by (auto simp: distinct_map inj_on_def)
  obtain h where "h \<in> set (dto_fields d)" "fd_name h = ''role''" and h: "applies va ms h \<Longrightarrow> \<forall>r \<in> set (fd_rules h). va_holds va r v"
    using check_fields_out[OF f] assms(8) \<open>out = out0\<close> by metis
  then have "h = Field ''role'' Required TString [OneOf user_role_names]" using one by blast
  with h have "va_holds va (OneOf user_role_names) v" by (simp add: applies_def)
  moreover have "va_holds va (OneOf user_role_names) v \<longrightarrow> (\<exists>s \<in> set user_role_names. v = JStr s)"
    using assms(1) by (simp add: class_validator_def)
  ultimately have "\<exists>r. v = JStr (role_name r)" using user_roles_named by blast
  moreover have g: "rt_guards rt = [JwtGuard, RoleGuard]" "rt_roles rt = Some [UserRole.OWNER]"
    using role_routes assms(2) role(1) by blast+
  moreover obtain verified where s: "cd_session cd = Some (Some UserRole.OWNER, verified)"
    using assms(5) by (auto simp: admit_def and_then_def g roles_guard_def split: sum.splits option.splits if_splits)
  moreover have "verified = Some True"
  proof (rule ccontr)
    assume "verified \<noteq> Some True"
    then have "JwtGuard \<notin> set (rt_guards rt) \<or> (rt_method rt, rt_path rt) \<in> set enrolment_routes"
      by (intro second_factor_needed[OF assms(2-4) s _ _ assms(5)]) (simp_all add: management_roles_def)
    then show False using role(1) by (auto simp: g enrolment_routes_def signature_def)
  qed
  ultimately show ?thesis by simp
qed

definition sample_owner :: credentials where
  "sample_owner = \<lparr>cd_session = Some (Some UserRole.OWNER, Some True), cd_device = Inr (), cd_webhook = Inr ()\<rparr>"

theorem only_owners_give_roles_witness:
  "admit (route_of ''PATCH'' [Lit ''personnel'', Param, Lit ''role''] [JwtGuard, RoleGuard] (Some [UserRole.OWNER]))
      sample_owner ''/api/v1/personnel/p1/role'' = Inr ()
   \<and> (\<exists>out r. validate plain_validator update_role_dto [(''role'', JStr ''ADMIN'')] = Inr out \<and> (''role'', JStr (role_name r)) \<in> set out)"
proof -
  let ?rt = "route_of ''PATCH'' [Lit ''personnel'', Param, Lit ''role''] [JwtGuard, RoleGuard] (Some [UserRole.OWNER])"
  let ?ss = "[''api'', ''v1'', ''personnel'', ''p1'', ''role'']"
  have a: "admit ?rt sample_owner (join_path ?ss @ []) = Inr ()"
    by (simp add: admit_def and_then_def route_of_def sample_owner_def roles_guard_def mfa_enforcement_def)
  have r: "?rt \<in> set all_routes" by (simp add: all_routes_def personnel_routes_def)
  have f: "fits ?rt ?ss" by code_simp
  have d: "body_dto ?rt = Some update_role_dto" by (simp add: body_dto_def body_tables route_of_def)
  have v: "validate plain_validator update_role_dto [(''role'', JStr ''ADMIN'')] = Inr [(''role'', JStr ''ADMIN'')]"
    by (simp add: pipe_defs update_role_dto_def user_role_names_def)
  have "\<exists>r. JStr ''ADMIN'' = JStr (role_name r)"
    using only_owners_give_roles[OF plain_class_validator r f _ a d v] by simp
  moreover have "join_path ?ss = ''/api/v1/personnel/p1/role''" by (simp add: join_path_def)
  ultimately show ?thesis using a v by fastforce
qed

end
