(* ===== verification/Spec2Isabelle.thy ===== *)
theory Spec2Isabelle
  imports DomainInventory DomainWorkOrders DomainFinance DomainPersonnel Schema
    Guards SecretCipher Gateway FinanceService InventoryService PaymentsService PurchasesService OrdersService OrderUseCases
    QuotesInvoices AuthService PersonnelService Attendance AuditTrail Masking Settings Commissions
    ClientsVehicles AntiFraud Workers PublicPortal Reports Routes Interleaving Races Pipeline OrderLife Dtos Validation
begin

text \<open>
  Verification of the backend of the workshop platform (\<open>src/src\<close>, NestJS on PostgreSQL through Prisma, with Redis, BullMQ
  queues and sockets).

  The program. A request passes the guards of its controller and its route (token, role, second factor, device or webhook
  secret), then the interceptors (enforcement of the second factor, fraud checks, audit, masking), then the handler, which
  calls one service. The services share one database, one cache, one gateway of sockets and the queues; scheduled workers
  read the same tables. An error becomes an answer in the exception filter.

  How it is modelled. The whole state is the record \<open>db\<close> of theory Schema: one list of rows per table of
  \<open>prisma/schema.prisma\<close>, the keys of Redis with the instants they expire at, the connected sockets and their rooms, and what was sent:
  messages, jobs and events. A handler is a function from its arguments and the state to an \<open>answer\<close>, the error it throws or its
  result, with the state it leaves; a handler that fails half-way leaves what it had written, unless the code runs it in a
  transaction (\<open>transaction\<close> of Prelude). Requests of a service are a datatype, a \<open>*_step\<close> function hands each to its
  handler, and runs are lists of requests with their instants (\<open>run_requests\<close>). The steps of the stock, the purchases, the payments, the vehicles,
  the sessions and the attendance refuse first what breaks the rules of a DTO that their invariants rest on; the others apply none,
  so that their runs may hold requests the pipe would refuse, and what is shown of all runs holds for those too. What must not rest
  on such requests says so: the run that delivers an order (theory OrderLife) is one of requests that pass \<open>order_request_ok\<close>, the roles of the
  routes and the rules of \<open>orders.dto.ts\<close>. All rules of all DTO are in theory Dtos. In these
  theories a handler runs without interruption; theory Races takes the handlers whose check and write are apart and lets other
  requests come in at every \<open>await\<close>, each query, or transaction at its commit, being one move (\<open>steps\<close> of Interleaving).

  Theories and the code they model.
    \<open>JsNumber\<close>, \<open>Json\<close>: the numbers of the language as exact binary64 values with their rounding, and JSON values.
    \<open>Prelude\<close>: errors, rows under keys, the locales \<open>repository\<close>, \<open>invariant_service\<close>, \<open>atomic_service\<close> and \<open>status_machine\<close>.
    \<open>CentsArith\<close>, \<open>Shares\<close>: when sums, products and quotients of amounts in cents are exact after rounding.
    \<open>DomainMoney\<close>, \<open>DomainInventory\<close>, \<open>DomainWorkOrders\<close>, \<open>DomainFinance\<close>, \<open>DomainPersonnel\<close>: \<open>src/domain\<close>.
    \<open>Enums\<close>, \<open>Schema\<close>, \<open>Listings\<close>, \<open>Samples\<close>: the data model, pages and filters, rows for the examples.
    \<open>Guards\<close>, \<open>Routes\<close>: \<open>src/common/guards\<close>, the interceptor of the second factor, and every route of every controller.
    \<open>Dtos\<close>, \<open>Validation\<close>: the classes of the \<open>dto\<close> directories, the validation pipe, and what it promises to the handlers.
    \<open>Pipeline\<close>: the order of guards, interceptors and pipe in \<open>app.module.ts\<close> and \<open>main.ts\<close>, around any handler.
    \<open>AuthService\<close>: \<open>src/modules/auth\<close>. \<open>SecretCipher\<close>: \<open>secret-cipher.service.ts\<close>. \<open>Gateway\<close>: \<open>realtime.gateway.ts\<close>.
    \<open>FinanceService\<close>, \<open>PaymentsService\<close>, \<open>QuotesInvoices\<close>, \<open>Commissions\<close>: the money.
    \<open>InventoryService\<close>, \<open>PurchasesService\<close>: the stock. \<open>OrdersService\<close>, \<open>OrderUseCases\<close>: the work orders;
    \<open>OrderLife\<close>: how an order gets from its reception to its delivery, and what holds its work back.
    \<open>Interleaving\<close>, \<open>Races\<close>: overlapping requests; opening the till, reserving and moving stock, confirming a payment, renewing a session.
    \<open>ClientsVehicles\<close>, \<open>PersonnelService\<close>, \<open>Attendance\<close>, \<open>Settings\<close>: the services of those names.
    \<open>AuditTrail\<close>, \<open>Masking\<close>, \<open>AntiFraud\<close>: the interceptors. \<open>Workers\<close>: \<open>src/workers\<close>, the audit listings and the page of alerts.
    \<open>PublicPortal\<close>: the routes without a session and the exception filter. \<open>Reports\<close>: analytics and dashboard.

  What the lemmas show. For the domain, that amounts in cents behave as integers, that the two tables of order states agree
  and that entities keep their invariants. For each service, an invariant of its tables that every request keeps (one open till,
  stock and its cache, reconciled invoices, one attendance a date, rooms that their sockets have earned, current vehicles
  in the cache of vehicles), proved once for runs in \<open>invariant_service\<close> and interpreted on the service; what each operation
  does on each branch; refinements of an abstract model (the settings as a finite map, a reception of goods as an allocation
  against a ledger, the states of an order as walks in the table); that purchases end and can be
  completed, and that an order can be delivered from every state but the two it ends in; what overlapping requests keep and what
  they may break; round trips of the cipher and of money; which clients a mechanic is shown, behind which routes; and what one component means for another: a session after a change of
  role, the messages that the jobs of the services become, the figures of a dashboard against the till, the second factor on
  every route, what any request leaves in the log, who may give a role, which numbers may be negative, and, at the end of this
  theory, what the delivery of an order means for the closing of the till.

  Bounds. Statements on amounts are for at most 2^40 cents (\<open>cents_range\<close>), where a sum of binary64 values is within a
  fraction of a cent of the exact one; the ledger of an invoice is reconciled for at most 200 payments. \<open>digits_of\<close> writes a number
  \<open>n\<close> with fuel \<open>n + 1\<close>, more than it has digits. No other function needs fuel: the loops of the code go over lists.

  What is a parameter. Code outside the repository is an argument with, where a proof needs it, a hypothesis that states its
  documented behaviour and a witness that instantiates it: \<open>bcrypt.compare\<close>, the signature and verification of tokens, TOTP, SHA-256, HMAC,
  AES-GCM, the checks of \<open>class-validator\<close>, \<open>JSON.parse\<close>, base64, the conversion between numbers and texts, and \<open>dec\<close>, what a decimal column keeps of
  a number (\<open>decimal_column\<close>: amounts that are cents are kept; \<open>half_up\<close> is one such function). New identifiers, the instant of
  a request, the year and the bounds of the local day are arguments; \<open>tz\<close> is a constant offset of the local time. Upper and lower
  case are those of ASCII. Columns of instants keep the instant; the one column that keeps a date, \<open>Attendance.date\<close> (\<open>@db.Date\<close>), keeps the date in UTC
  of what is written to it or compared with it, as the client of the database documents (\<open>date_column\<close> of theory Attendance). The gateway of sockets is run
  between arbitrary changes of the rest of the state (\<open>gateway_move_step\<close>). The time an order row was created is the one it was received. Prose and logs are left out.

  Not modelled: the wiring of the modules, \<open>main.ts\<close> beyond its prefix and its pipe, Swagger; what the regular expressions of the DTO match;
  the clients of Prisma, Redis and of the bridge to the devices, whose calls appear as operations on the state; the throttler of
  the framework (sixty requests a minute); the guard that limits requests by role (\<open>rate_limit_guard\<close>) is modelled, but no controller applies it; \<open>cache-manager.service.ts\<close> and the repositories built on it, which no class injects; the health
  check; the seed; tests; \<open>src/dist\<close>, which is the compiled form of these sources.
\<close>

section \<open>Orders and the till\<close>

lemma deliver_vehicle_frame:
  assumes "deliver_vehicle dec now today new_tx k sg m user s = (Inr c, t)"
  shows "d_sessions t = d_sessions s" and "d_accounts t = d_accounts s" and "d_expenses t = d_expenses s"
  using assms
  by (auto simp: deliver_vehicle_def Let_def emit_vehicle_delivered_def emit_order_status_changed_def
      split: option.splits if_splits)

lemma only_open_session:
  assumes "count_where (\<lambda>c. cs_status c = OPEN) rows \<le> 1"
    and "open_session rows = Some x" and "y \<in> set rows" and "cs_status y = OPEN"
  shows "y = x"
  using assms
proof (induction rows)
  case (Cons r rows)
  show ?case
  proof (cases "cs_status r = OPEN")
    case True
    then have "count_where (\<lambda>c. cs_status c = OPEN) rows = 0"
      using Cons.prems(1) by (simp add: count_where_def)
    then show ?thesis using Cons.prems True by (auto simp: open_session_def count_where_0_iff)
  next
    case False
    then show ?thesis using Cons by (auto simp: open_session_def count_where_def)
  qed
qed simp

text \<open>A payment entered in a session raises what the session expects by its amount.\<close>

lemma payment_expected:
  assumes "d_transactions t = d_transactions s @ [p]" and "tx_session p = cs_id x" and "tx_type p = PAYMENT"
  shows "expected_cents x t = expected_cents x s + tx_amount p"
    and "session_bounded x t \<Longrightarrow> session_bounded x s"
proof -
  have ts: "session_transactions (cs_id x) t = session_transactions (cs_id x) s @ [p]"
    using assms by (simp add: session_transactions_def)
  show "expected_cents x t = expected_cents x s + tx_amount p"
    using assms(3) by (simp add: expected_cents_def ts cents_of_type_def Let_def)
  have "0 \<le> (\<Sum>q\<leftarrow>session_transactions (cs_id x) s. \<bar>tx_amount q\<bar>)" by (rule sum_list_nonneg) auto
  then show "session_bounded x t \<Longrightarrow> session_bounded x s"
    by (auto simp: session_bounded_def ts Let_def cents_range_def)
qed

text \<open>
  C5. Handing a vehicle over enters the final amount of its order in the till that is open, whatever the method of payment
  is: what the till expects grows by exactly that amount. So a till closed with that much cash closes normally, and a till
  whose cash did not grow, as when a card or a wallet paid, is blocked as soon as the amount exceeds fifty soles.
\<close>

theorem delivery_reaches_till:
  assumes "deliver_vehicle dec now today new_tx k sg m user s = (Inr c, t)" and "find_row wo_id k (d_orders s) = Some w"
    and "open_session (d_sessions s) = Some x" and "finance_inv s" and "decimal_column dec"
    and "cents_range (wo_final w)" and "session_bounded x t" and "account_exists clerk s"
  shows "open_session (d_sessions t) = Some x \<and> cs_id x = c
    \<and> expected_cents x t = expected_cents x s + wo_final w
    \<and> fst (close_cashbox_session dec later clerk (cents (expected_cents x s + wo_final w)) j t) = Inr CLOSED_NORMAL
    \<and> (5000 < wo_final w \<longrightarrow> fst (close_cashbox_session dec later clerk (cents (expected_cents x s)) j t) = Inr BLOCKED)"
proof -
  note d = delivery_records_payment[OF assms(1,2,5,6)] and f = deliver_vehicle_frame[OF assms(1)]
  have one: "count_where (\<lambda>c. cs_status c = OPEN) (d_sessions s) \<le> 1" and ids: "distinct (map cs_id (d_sessions s))"
    using assms(4) by (simp_all add: finance_inv_def)
  have c: "cs_id x = c" using d only_open_session[OF one assms(3)] by auto
  have o: "open_session (d_sessions t) = Some x" using f(1) assms(3) by simp
  have u: "account_exists clerk t" using assms(8) f(2) by (simp add: account_exists_def)
  note p = payment_expected[OF d[THEN conjunct2, THEN conjunct2, THEN conjunct2], of x]
  have e: "expected_cents x t = expected_cents x s + wo_final w" and b: "session_bounded x s"
    using p assms(7) c by simp_all
  note r = expected_cash_approx(2)[OF assms(7)] expected_cash_approx(2)[OF b]
  have close: "cents_range a \<Longrightarrow> cents_range (a - expected_cents x t) \<Longrightarrow>
      (\<bar>a - expected_cents x t\<bar> < 500 \<longrightarrow> fst (close_cashbox_session dec later clerk (cents a) j t) = Inr CLOSED_NORMAL)
      \<and> (5000 < \<bar>a - expected_cents x t\<bar> \<longrightarrow> fst (close_cashbox_session dec later clerk (cents a) j t) = Inr BLOCKED)" for a
    using close_session_levels[OF assms(5) o assms(7) _ u _ _ prod.collapse[symmetric], of a later j] ids f(1) by auto
  have z: "cents_range 0" "cents_range (- wo_final w)" using assms(6) by (simp_all add: cents_range_def)
  show ?thesis
    using c o e close[of "expected_cents x t"] close[of "expected_cents x s"] r z by simp
qed

definition till_db :: db where
  "till_db = (sample_orders READY)\<lparr>d_accounts := [one_account UserRole.FINANCE ''f1''],
     d_sessions := [\<lparr>cs_id = ''c1'', cs_opened_by = ''f1'', cs_closed_by = None, cs_opening = 10000,
       cs_closing = None, cs_actual = None, cs_discrepancy = None, cs_status = OPEN, cs_notes = None,
       cs_justification = None, cs_opened_at = 1, cs_closed_at = None\<rparr>],
     d_orders := [(sample_order ''o1'' READY)\<lparr>wo_final := 25000\<rparr>]\<rparr>"

theorem delivery_reaches_till_witness:
  "\<exists>t. deliver_vehicle half_up 7 (0, 9) ''x1'' ''o1'' ''firma'' PaymentMethod.CARD ''f1'' till_db = (Inr ''c1'', t)
     \<and> fst (close_cashbox_session half_up 8 ''f1'' (cents 10000) None t) = Inr BLOCKED"
proof -
  obtain t where o: "deliver_vehicle half_up 7 (0, 9) ''x1'' ''o1'' ''firma'' PaymentMethod.CARD ''f1'' till_db = (Inr ''c1'', t)"
    by (simp add: deliver_vehicle_def Let_def till_db_def)
  have w: "find_row wo_id ''o1'' (d_orders till_db) = Some ((sample_order ''o1'' READY)\<lparr>wo_final := 25000\<rparr>)"
    by (simp add: till_db_def sample_order_def)
  obtain x where x: "open_session (d_sessions till_db) = Some x" "cs_id x = ''c1''" "cs_opening x = 10000"
    by (simp add: open_session_def till_db_def)
  have r: "cents_range 25000" "cents_range 35000" by (simp_all add: cents_range_def)
  have tx: "d_transactions till_db = []" by (simp add: till_db_def sample_orders_def)
  have inv: "finance_inv till_db"
    by (simp add: finance_inv_def till_db_def count_where_def sample_orders_def)
  have "d_transactions t = [\<lparr>tx_id = ''x1'', tx_session = ''c1'', tx_type = PAYMENT, tx_amount = 25000,
         tx_method = PaymentMethod.CARD, tx_reference = Some ''firma'', tx_order = Some ''o1'', tx_at = 7\<rparr>]"
    using delivery_records_payment[OF o w decimal_column_half_up] r tx by simp
  then have b: "session_bounded x t" by (simp add: session_bounded_def session_transactions_def x Let_def r)
  have e: "expected_cents x till_db = 10000"
    by (simp add: expected_cents_def session_transactions_def tx cents_of_type_def x Let_def)
  have u: "account_exists ''f1'' till_db" by (simp add: till_db_def account_exists_def one_account_def)
  show ?thesis
    using delivery_reaches_till[OF o w x(1) inv decimal_column_half_up _ b u, of 8 None] o r by (simp add: e)
qed

end
